(* ===== verification/GoLib.thy ===== *)
theory GoLib
  imports Main "HOL-Library.Word" "HOL-Library.Sublist" "HOL-Library.State_Monad"
begin

text \<open>
  The prelude of the development: the part of the Go language and of its standard library that
  the settlement code uses (\<^verbatim>\<open>strings\<close>, \<^verbatim>\<open>strconv\<close>, \<^verbatim>\<open>fmt\<close>, \<^verbatim>\<open>encoding/hex\<close>, \<^verbatim>\<open>net/url\<close>), with
  the generic lemmas the component theories share.

  A Go string is a sequence of bytes and is modelled by the type \<open>string\<close> (a list of 8-bit
  characters), so that \<open>len(s)\<close> and \<open>s[:n]\<close> are \<open>length s\<close> and \<open>take n s\<close>.  \<open>TrimSpace\<close>
  strips every Unicode white-space rune, in its UTF-8 encoding, as Go does; the case mappings
  \<open>ToLower\<close>, \<open>ToUpper\<close> and \<open>EqualFold\<close> are those of ASCII letters, all other bytes being left alone.
  A \<open>uint64\<close> is a \<open>64 word\<close>, whose \<open>+\<close>, \<open>-\<close> and \<open>*\<close> wrap around like Go's.

  The collection \<open>go_simps\<close> holds the rewrite rules about these functions, \<open>zero_simps\<close> the fields
  of Go zero values, and \<open>monad_simps\<close> the equations that run a state-monad program.
\<close>

named_theorems go_simps "rewriting of the Go standard library functions"
named_theorems zero_simps "fields of Go zero values"
named_theorems monad_simps "running state-monad programs"

type_synonym u64 = "64 word"
type_synonym i64 = "64 word"
type_synonym u32 = "32 word"

abbreviation max_u64 :: u64 where
  "max_u64 \<equiv> - 1"

section \<open>Running state-monad programs\<close>

text \<open>A program is run step by step, the intermediate result and state by projections.\<close>

lemma run_bind [simp, monad_simps]:
  "run_state (State_Monad.bind m f) s = run_state (f (fst (run_state m s))) (snd (run_state m s))"
  by (simp add: State_Monad.bind_def case_prod_beta)

declare State_Monad.run_state_bind [simp del] State_Monad.run_state_return [monad_simps]
  State_Monad.run_state_get [monad_simps] State_Monad.run_state_set [monad_simps]

section \<open>Bytes\<close>

definition byte :: "char \<Rightarrow> nat" where
  "byte c = of_char c"

definition isDigit :: "char \<Rightarrow> bool" where
  "isDigit c \<longleftrightarrow> 48 \<le> byte c \<and> byte c \<le> 57"

definition isUpper :: "char \<Rightarrow> bool" where
  "isUpper c \<longleftrightarrow> 65 \<le> byte c \<and> byte c \<le> 90"

definition isLower :: "char \<Rightarrow> bool" where
  "isLower c \<longleftrightarrow> 97 \<le> byte c \<and> byte c \<le> 122"

definition isAlnum :: "char \<Rightarrow> bool" where
  "isAlnum c \<longleftrightarrow> isDigit c \<or> isUpper c \<or> isLower c"

definition isHexDigit :: "char \<Rightarrow> bool" where
  "isHexDigit c \<longleftrightarrow> isDigit c \<or> (65 \<le> byte c \<and> byte c \<le> 70) \<or> (97 \<le> byte c \<and> byte c \<le> 102)"

definition isGraph :: "char \<Rightarrow> bool" where
  "isGraph c \<longleftrightarrow> 33 \<le> byte c \<and> byte c \<le> 126"

lemmas byte_class_defs = isDigit_def isUpper_def isLower_def isAlnum_def isHexDigit_def isGraph_def

lemma isDigit_isAlnum [simp]: "isDigit c \<Longrightarrow> isAlnum c"
  by (simp add: isAlnum_def)

lemma isAlnum_isGraph [simp]: "isAlnum c \<Longrightarrow> isGraph c"
  by (auto simp: byte_class_defs)

lemma byte_lt [simp]: "byte c < 256"
  by (cases c) (simp add: byte_def)

lemma byte_char_of [simp]: "n < 256 \<Longrightarrow> byte (char_of n) = n"
  by (simp add: byte_def)

lemma byte_inject: "byte c = byte d \<longleftrightarrow> c = d"
  by (simp add: byte_def of_char_eq_iff)

section \<open>Package strings: white space\<close>

text \<open>The white-space runes of \<open>unicode.IsSpace\<close> by the length of their UTF-8 encoding.\<close>

definition space1 :: "char \<Rightarrow> bool" where
  "space1 a \<longleftrightarrow> (9 \<le> byte a \<and> byte a \<le> 13) \<or> byte a = 32"

definition space2 :: "char \<Rightarrow> char \<Rightarrow> bool" where
  "space2 a b \<longleftrightarrow> byte a = 194 \<and> (byte b = 133 \<or> byte b = 160)"

definition space3 :: "char \<Rightarrow> char \<Rightarrow> char \<Rightarrow> bool" where
  "space3 a b c \<longleftrightarrow>
     (byte a = 225 \<and> byte b = 154 \<and> byte c = 128) \<or>
     (byte a = 226 \<and> byte b = 128 \<and>
        ((128 \<le> byte c \<and> byte c \<le> 138) \<or> byte c = 168 \<or> byte c = 169 \<or> byte c = 175)) \<or>
     (byte a = 226 \<and> byte b = 129 \<and> byte c = 159) \<or>
     (byte a = 227 \<and> byte b = 128 \<and> byte c = 128)"

fun trimLeftSpace :: "string \<Rightarrow> string" where
  "trimLeftSpace [] = []"
| "trimLeftSpace [a] = (if space1 a then [] else [a])"
| "trimLeftSpace [a, b] =
     (if space1 a then trimLeftSpace [b] else if space2 a b then [] else [a, b])"
| "trimLeftSpace (a # b # c # s) =
     (if space1 a then trimLeftSpace (b # c # s)
      else if space2 a b then trimLeftSpace (c # s)
      else if space3 a b c then trimLeftSpace s
      else a # b # c # s)"

text \<open>The same from the right end: the argument is the reversed string.\<close>

fun trimRightSpaceRev :: "string \<Rightarrow> string" where
  "trimRightSpaceRev [] = []"
| "trimRightSpaceRev [a] = (if space1 a then [] else [a])"
| "trimRightSpaceRev [a, b] =
     (if space1 a then trimRightSpaceRev [b] else if space2 b a then [] else [a, b])"
| "trimRightSpaceRev (a # b # c # s) =
     (if space1 a then trimRightSpaceRev (b # c # s)
      else if space2 b a then trimRightSpaceRev (c # s)
      else if space3 c b a then trimRightSpaceRev s
      else a # b # c # s)"

definition TrimSpace :: "string \<Rightarrow> string" where
  "TrimSpace s = rev (trimRightSpaceRev (rev (trimLeftSpace s)))"

lemma trimLeftSpace_suffix: "suffix (trimLeftSpace s) s"
  by (induction s rule: trimLeftSpace.induct) (auto intro: suffix_ConsI)

lemma trimRightSpaceRev_suffix: "suffix (trimRightSpaceRev s) s"
  by (induction s rule: trimRightSpaceRev.induct) (auto intro: suffix_ConsI)

lemma trimRightSpaceRev_idem [simp]: "trimRightSpaceRev (trimRightSpaceRev s) = trimRightSpaceRev s"
  by (induction s rule: trimRightSpaceRev.induct) auto

text \<open>A string starts with no white space iff left trimming leaves it alone; prefixes inherit this.\<close>

lemma trimLeftSpace_idem [simp]: "trimLeftSpace (trimLeftSpace s) = trimLeftSpace s"
  by (induction s rule: trimLeftSpace.induct) auto

fun startsClean :: "string \<Rightarrow> bool" where
  "startsClean [] = True"
| "startsClean [a] = (\<not> space1 a)"
| "startsClean [a, b] = (\<not> space1 a \<and> \<not> space2 a b)"
| "startsClean (a # b # c # s) = (\<not> space1 a \<and> \<not> space2 a b \<and> \<not> space3 a b c)"

lemma startsClean_trimLeft: "startsClean (trimLeftSpace s)"
  by (induction s rule: trimLeftSpace.induct) auto

lemma trimLeft_startsClean: "startsClean s \<Longrightarrow> trimLeftSpace s = s"
  by (cases s rule: startsClean.cases) auto

lemma startsClean_prefix: "startsClean t \<Longrightarrow> prefix s t \<Longrightarrow> startsClean s"
  by (cases s rule: startsClean.cases; cases t rule: startsClean.cases) auto

lemma TrimSpace_idem [simp, go_simps]: "TrimSpace (TrimSpace s) = TrimSpace s"
proof -
  have "prefix (TrimSpace s) (trimLeftSpace s)"
    using trimRightSpaceRev_suffix [of "rev (trimLeftSpace s)"]
    by (simp add: TrimSpace_def suffix_to_prefix)
  then have "trimLeftSpace (TrimSpace s) = TrimSpace s"
    using startsClean_prefix startsClean_trimLeft trimLeft_startsClean by blast
  then show ?thesis by (simp add: TrimSpace_def)
qed

lemma TrimSpace_Nil [simp]: "TrimSpace [] = []"
  by (simp add: TrimSpace_def)

lemma isGraph_no_space:
  assumes "isGraph a"
  shows "\<not> space1 a" and "\<not> space2 a b" and "\<not> space2 b a" and "\<not> space3 a b c" and "\<not> space3 c b a"
  using assms by (auto simp: space1_def space2_def space3_def isGraph_def)

lemma trimLeftSpace_graph: "isGraph a \<Longrightarrow> trimLeftSpace (a # s) = a # s"
  using isGraph_no_space by (cases "a # s" rule: trimLeftSpace.cases) auto

lemma trimRightSpaceRev_graph: "isGraph a \<Longrightarrow> trimRightSpaceRev (a # s) = a # s"
  using isGraph_no_space by (cases "a # s" rule: trimRightSpaceRev.cases) auto

lemma TrimSpace_graph:
  assumes "list_all isGraph s"
  shows "TrimSpace s = s"
proof (cases s rule: rev_cases)
  case (snoc ys y)
  then obtain x xs where s: "s = x # xs" by (metis append_is_Nil_conv list.exhaust list.discI)
  from assms s have "trimLeftSpace s = s" by (simp add: trimLeftSpace_graph)
  moreover from assms snoc have "trimRightSpaceRev (rev s) = rev s"
    by (simp add: trimRightSpaceRev_graph)
  ultimately show ?thesis by (simp add: TrimSpace_def)
qed simp

lemma set_TrimSpace: "set (TrimSpace s) \<subseteq> set s"
  using set_mono_suffix [OF trimLeftSpace_suffix, of s]
    set_mono_suffix [OF trimRightSpaceRev_suffix, of "rev (trimLeftSpace s)"]
  by (auto simp: TrimSpace_def)

lemma length_TrimSpace: "length (TrimSpace s) \<le> length s"
  using suffix_length_le [OF trimLeftSpace_suffix, of s]
    suffix_length_le [OF trimRightSpaceRev_suffix, of "rev (trimLeftSpace s)"]
  by (simp add: TrimSpace_def)


section \<open>Package strings: case mapping, search, splitting\<close>

definition lowerChar :: "char \<Rightarrow> char" where
  "lowerChar c = (if isUpper c then char_of (byte c + 32) else c)"

definition upperChar :: "char \<Rightarrow> char" where
  "upperChar c = (if isLower c then char_of (byte c - 32) else c)"

definition ToLower :: "string \<Rightarrow> string" where
  "ToLower s = map lowerChar s"

definition ToUpper :: "string \<Rightarrow> string" where
  "ToUpper s = map upperChar s"

definition EqualFold :: "string \<Rightarrow> string \<Rightarrow> bool" where
  "EqualFold s t \<longleftrightarrow> ToLower s = ToLower t"

fun Contains :: "string \<Rightarrow> string \<Rightarrow> bool" where
  "Contains [] sub = (sub = [])"
| "Contains (c # s) sub = (prefix sub (c # s) \<or> Contains s sub)"

definition TrimPrefix :: "string \<Rightarrow> string \<Rightarrow> string" where
  "TrimPrefix s p = (if prefix p s then drop (length p) s else s)"

text \<open>\<open>strings.TrimRight(s, cutset)\<close> and \<open>strings.Trim(s, cutset)\<close> for an ASCII cutset.\<close>

definition TrimRight :: "string \<Rightarrow> string \<Rightarrow> string" where
  "TrimRight s cutset = rev (dropWhile (\<lambda>c. c \<in> set cutset) (rev s))"

definition Trim :: "string \<Rightarrow> string \<Rightarrow> string" where
  "Trim s cutset = TrimRight (dropWhile (\<lambda>c. c \<in> set cutset) s) cutset"

fun Join :: "string list \<Rightarrow> string \<Rightarrow> string" where
  "Join [] sep = []"
| "Join [a] sep = a"
| "Join (a # b # as) sep = a @ sep @ Join (b # as) sep"

text \<open>\<open>strings.Split(s, sep)\<close> for a separator of one byte.\<close>

fun Split1 :: "char \<Rightarrow> string \<Rightarrow> string list" where
  "Split1 sep [] = [[]]"
| "Split1 sep (c # s) =
     (if c = sep then [] # Split1 sep s
      else case Split1 sep s of [] \<Rightarrow> [[c]] | p # ps \<Rightarrow> (c # p) # ps)"

text \<open>The first of the values that is not blank, trimmed (settlement.go, \<open>firstNonEmpty\<close>).\<close>

fun firstNonEmpty :: "string list \<Rightarrow> string" where
  "firstNonEmpty [] = []"
| "firstNonEmpty (v # vs) = (let trimmed = TrimSpace v in if trimmed \<noteq> [] then trimmed else firstNonEmpty vs)"

text \<open>\<open>s[:n]\<close> under the guard \<open>len(s) > n\<close>, the way the code truncates notes and memos.\<close>

definition cutAt :: "nat \<Rightarrow> string \<Rightarrow> string" where
  "cutAt n s = (if length s > n then take n s else s)"

lemma cutAt_take [simp]: "cutAt n s = take n s"
  by (simp add: cutAt_def)

lemma lowerChar_idem [simp]: "lowerChar (lowerChar c) = lowerChar c"
  by (auto simp: lowerChar_def isUpper_def)

lemma ToLower_idem [simp]: "ToLower (ToLower s) = ToLower s"
  by (simp add: ToLower_def comp_def)

lemma ToLower_Nil [simp]: "ToLower s = [] \<longleftrightarrow> s = []" "ToLower [] = []"
  by (simp_all add: ToLower_def)

lemma EqualFold_refl [simp]: "EqualFold s s"
  by (simp add: EqualFold_def)

lemma EqualFold_sym: "EqualFold s t \<Longrightarrow> EqualFold t s"
  by (simp add: EqualFold_def)

lemma EqualFold_trans: "EqualFold s t \<Longrightarrow> EqualFold t u \<Longrightarrow> EqualFold s u"
  by (simp add: EqualFold_def)

lemma Contains_iff_sublist: "Contains s sub \<longleftrightarrow> sublist sub s"
proof (induction s)
  case Nil
  then show ?case by simp
next
  case (Cons c s)
  then show ?case by (simp add: sublist_Cons_right)
qed

lemma TrimSpace_firstNonEmpty [simp]: "TrimSpace (firstNonEmpty vs) = firstNonEmpty vs"
  by (induction vs) (auto simp: Let_def)

section \<open>Package strconv\<close>

text \<open>
  \<open>strconv.ParseUint(s, 10, 64)\<close> reads decimal digits and stops at the first byte that is no
  digit (syntax error) or that takes the value past the range (range error).
\<close>

datatype numError = ErrSyntax | ErrRange

definition digitVal :: "char \<Rightarrow> nat" where
  "digitVal c = byte c - 48"

fun parseDigits :: "nat \<Rightarrow> string \<Rightarrow> numError + nat" where
  "parseDigits n [] = Inr n"
| "parseDigits n (c # cs) =
     (if \<not> isDigit c then Inl ErrSyntax
      else let n1 = n * 10 + digitVal c in
        if n1 \<ge> 2 ^ 64 then Inl ErrRange else parseDigits n1 cs)"

definition ParseUint :: "string \<Rightarrow> numError + u64" where
  "ParseUint s = (if s = [] then Inl ErrSyntax
     else case parseDigits 0 s of Inl e \<Rightarrow> Inl e | Inr n \<Rightarrow> Inr (of_nat n))"

text \<open>The value \<open>ParseUint\<close> returns beside the error, for callers that ignore the error.\<close>

definition ParseUintVal :: "string \<Rightarrow> u64" where
  "ParseUintVal s = (case ParseUint s of Inr v \<Rightarrow> v | Inl ErrSyntax \<Rightarrow> 0 | Inl ErrRange \<Rightarrow> max_u64)"

text \<open>\<open>strconv.ParseInt(s, 10, 64)\<close>; the value is the signed reading of the result.\<close>

definition ParseInt :: "string \<Rightarrow> numError + int" where
  "ParseInt s =
     (case s of
        [] \<Rightarrow> Inl ErrSyntax
      | c # cs \<Rightarrow>
          let neg = (c = CHR ''-''); body = (if c = CHR ''-'' \<or> c = CHR ''+'' then cs else s) in
          case ParseUint body of
            Inl e \<Rightarrow> Inl e
          | Inr v \<Rightarrow>
              if \<not> neg \<and> uint v \<ge> 2 ^ 63 then Inl ErrRange
              else if neg \<and> uint v > 2 ^ 63 then Inl ErrRange
              else Inr (if neg then - uint v else uint v))"

definition digitChar :: "nat \<Rightarrow> char" where
  "digitChar d = char_of (48 + d)"

fun showNat :: "nat \<Rightarrow> string" where
  "showNat n = (if n < 10 then [digitChar n] else showNat (n div 10) @ [digitChar (n mod 10)])"

declare showNat.simps [simp del]

definition FormatUint :: "u64 \<Rightarrow> string" where
  "FormatUint v = showNat (unat v)"

definition FormatInt :: "int \<Rightarrow> string" where
  "FormatInt i = (if i < 0 then CHR ''-'' # showNat (nat (- i)) else showNat (nat i))"

abbreviation Itoa :: "nat \<Rightarrow> string" where
  "Itoa n \<equiv> showNat n"

text \<open>\<open>fmt.Sprintf("%0wd", i)\<close>: the sign counts towards the width.\<close>

definition padZero :: "nat \<Rightarrow> string \<Rightarrow> string" where
  "padZero w s = replicate (w - length s) (CHR ''0'') @ s"

definition formatPadded :: "nat \<Rightarrow> int \<Rightarrow> string" where
  "formatPadded w i = (if i < 0 then CHR ''-'' # padZero (w - 1) (showNat (nat (- i))) else padZero w (showNat (nat i)))"

text \<open>\<open>fmt.Sprintf("%q", s)\<close> on the bytes of an ASCII string.\<close>

definition quoteChar :: "char \<Rightarrow> string" where
  "quoteChar c =
     (if c = CHR 0x22 then [CHR 0x5C, CHR 0x22]
      else if c = CHR 0x5C then [CHR 0x5C, CHR 0x5C]
      else if byte c = 10 then [CHR 0x5C, CHR ''n'']
      else if byte c = 13 then [CHR 0x5C, CHR ''r'']
      else if byte c = 9 then [CHR 0x5C, CHR ''t'']
      else [c])"

definition Quote :: "string \<Rightarrow> string" where
  "Quote s = [CHR 0x22] @ concat (map quoteChar s) @ [CHR 0x22]"

subsection \<open>Reading back what was printed\<close>

lemma byte_digitChar: "d < 10 \<Longrightarrow> byte (digitChar d) = 48 + d"
  by (simp add: digitChar_def)

lemma isDigit_digitChar [simp]: "d < 10 \<Longrightarrow> isDigit (digitChar d)"
  by (simp add: isDigit_def byte_digitChar)

lemma digitVal_digitChar [simp]: "d < 10 \<Longrightarrow> digitVal (digitChar d) = d"
  by (simp add: digitVal_def byte_digitChar)

lemma digitVal_lt: "isDigit c \<Longrightarrow> digitVal c < 10"
  by (auto simp: isDigit_def digitVal_def)

lemma showNat_nonempty [simp]: "showNat n \<noteq> []"
  by (subst showNat.simps) simp

lemma showNat_digits: "list_all isDigit (showNat n)"
proof (induction n rule: showNat.induct)
  case (1 n)
  then show ?case by (subst showNat.simps) simp
qed

lemma parseDigits_append:
  "parseDigits n (xs @ ys) = (case parseDigits n xs of Inl e \<Rightarrow> Inl e | Inr m \<Rightarrow> parseDigits m ys)"
  by (induction xs arbitrary: n) (auto simp: Let_def)

lemma parseDigits_showNat: "n < 2 ^ 64 \<Longrightarrow> parseDigits 0 (showNat n) = Inr n"
proof (induction n rule: showNat.induct)
  case (1 n)
  show ?case
  proof (cases "n < 10")
    case True
    with "1.prems" show ?thesis by (subst showNat.simps) simp
  next
    case False
    have "parseDigits 0 (showNat (n div 10)) = Inr (n div 10)"
      using "1" False by (simp add: div_le_dividend le_less_trans [OF div_le_dividend])
    moreover have "n div 10 * 10 + n mod 10 = n" by presburger
    ultimately show ?thesis
      using False "1.prems" by (subst showNat.simps) (simp add: parseDigits_append Let_def)
  qed
qed

lemma ParseUint_showNat: "n < 2 ^ 64 \<Longrightarrow> ParseUint (showNat n) = Inr (of_nat n)"
  by (simp add: ParseUint_def parseDigits_showNat)

lemma ParseUint_FormatUint [simp, go_simps]: "ParseUint (FormatUint v) = Inr v"
proof -
  have "unat v < 2 ^ LENGTH(64)" by (rule unsigned_less)
  then have "unat v < 2 ^ 64" by simp
  then show ?thesis by (simp add: FormatUint_def ParseUint_showNat)
qed

lemma ParseUintVal_FormatUint [simp, go_simps]: "ParseUintVal (FormatUint v) = v"
  by (simp add: ParseUintVal_def)

lemma parseDigits_isDigit: "parseDigits n s = Inr m \<Longrightarrow> list_all isDigit s"
  by (induction s arbitrary: n) (auto simp: Let_def split: if_splits)

lemma parseDigits_lt: "parseDigits n s = Inr m \<Longrightarrow> n < 2 ^ 64 \<Longrightarrow> m < 2 ^ 64"
  by (induction s arbitrary: n) (auto simp: Let_def split: if_splits)

lemma ParseUint_isDigit: "ParseUint s = Inr v \<Longrightarrow> list_all isDigit s \<and> s \<noteq> []"
  by (auto simp: ParseUint_def dest: parseDigits_isDigit split: if_splits sum.splits)

lemma list_all_isDigit_graph: "list_all isDigit s \<Longrightarrow> list_all isGraph s"
  by (auto simp: list_all_iff)

lemma TrimSpace_digits: "list_all isDigit s \<Longrightarrow> TrimSpace s = s"
  by (simp add: TrimSpace_graph list_all_isDigit_graph)

lemma TrimSpace_ParseUint: "ParseUint s = Inr v \<Longrightarrow> TrimSpace s = s"
  using ParseUint_isDigit TrimSpace_digits by blast

lemma TrimSpace_FormatUint [simp, go_simps]: "TrimSpace (FormatUint v) = FormatUint v"
  by (rule TrimSpace_ParseUint [of _ v]) simp

lemma FormatUint_nonempty [simp]: "FormatUint v \<noteq> []"
  by (simp add: FormatUint_def)

lemma FormatUint_inject [simp]: "FormatUint v = FormatUint u \<longleftrightarrow> v = u"
  by (metis ParseUint_FormatUint sum.inject(2))

text \<open>Numerals without a leading zero are exactly what the printer emits.\<close>

definition canonicalNumeral :: "string \<Rightarrow> bool" where
  "canonicalNumeral s \<longleftrightarrow> s \<noteq> [] \<and> (s = ''0'' \<or> hd s \<noteq> CHR ''0'')"

section \<open>Packages encoding/hex and net/url\<close>

definition hexDecodable :: "string \<Rightarrow> bool" where
  "hexDecodable s \<longleftrightarrow> even (length s) \<and> list_all isHexDigit s"

definition hexChar :: "nat \<Rightarrow> char" where
  "hexChar d = (if d < 10 then char_of (48 + d) else char_of (55 + d))"

definition escapeByte :: "(char \<Rightarrow> bool) \<Rightarrow> char \<Rightarrow> string" where
  "escapeByte keep c = (if keep c then [c] else [CHR ''%'', hexChar (byte c div 16), hexChar (byte c mod 16)])"

definition isUnreserved :: "char \<Rightarrow> bool" where
  "isUnreserved c \<longleftrightarrow> isAlnum c \<or> c \<in> {CHR ''-'', CHR ''_'', CHR ''.'', CHR ''~''}"

text \<open>\<open>url.PathEscape\<close> and \<open>url.QueryEscape\<close>.\<close>

definition PathEscape :: "string \<Rightarrow> string" where
  "PathEscape s = concat (map (escapeByte (\<lambda>c. isUnreserved c \<or>
     c \<in> {CHR ''$'', CHR ''&'', CHR ''+'', CHR '':'', CHR ''='', CHR ''@''})) s)"

definition QueryEscape :: "string \<Rightarrow> string" where
  "QueryEscape s = concat (map (\<lambda>c. if c = CHR '' '' then ''+'' else escapeByte isUnreserved c) s)"


text \<open>
  \<open>strings.Cut(s, sep)\<close> for a separator of one byte: what is before the first separator and what
  is after it (empty if there is none).
\<close>

definition Cut1 :: "char \<Rightarrow> string \<Rightarrow> string \<times> string" where
  "Cut1 sep s = (takeWhile (\<lambda>c. c \<noteq> sep) s, drop 1 (dropWhile (\<lambda>c. c \<noteq> sep) s))"

definition unhex :: "char \<Rightarrow> nat" where
  "unhex c = (if isDigit c then byte c - 48 else if 97 \<le> byte c then byte c - 87 else byte c - 55)"

text \<open>
  \<open>url.QueryUnescape\<close>: a percent sign must be followed by two hexadecimal digits, a plus sign is a
  blank.  The error carries the malformed escape.
\<close>

definition escapeError :: "string \<Rightarrow> string" where
  "escapeError s = ''invalid URL escape '' @ Quote (take 3 s)"

fun QueryUnescape :: "string \<Rightarrow> string + string" where
  "QueryUnescape [] = Inr []"
| "QueryUnescape (c # s) =
     (if c = CHR ''%''
      then (case s of
              h # l # rest \<Rightarrow>
                if isHexDigit h \<and> isHexDigit l
                then (case QueryUnescape rest of Inl e \<Rightarrow> Inl e | Inr t \<Rightarrow> Inr (char_of (unhex h * 16 + unhex l) # t))
                else Inl (escapeError (c # s))
            | _ \<Rightarrow> Inl (escapeError (c # s)))
      else (case QueryUnescape s of Inl e \<Rightarrow> Inl e | Inr t \<Rightarrow> Inr ((if c = CHR ''+'' then CHR '' '' else c) # t)))"

text \<open>
  \<open>url.ParseQuery\<close>: the pairs in the order of the query, and the first unescaping error, unless a
  later part with a semicolon replaces it.  The fields between ampersands are walked one by one; the
  empty ones are skipped.
\<close>

fun parseQueryParts :: "string list \<Rightarrow> string option \<Rightarrow> (string \<times> string) list \<Rightarrow> (string \<times> string) list \<times> string option" where
  "parseQueryParts [] err values = (values, err)"
| "parseQueryParts (part # parts) err values =
     (if CHR '';'' \<in> set part then parseQueryParts parts (Some ''invalid semicolon separator in query'') values
      else if part = [] then parseQueryParts parts err values
      else case QueryUnescape (fst (Cut1 (CHR ''='') part)) of
        Inl e \<Rightarrow> parseQueryParts parts (case err of None \<Rightarrow> Some e | Some _ \<Rightarrow> err) values
      | Inr key \<Rightarrow>
        (case QueryUnescape (snd (Cut1 (CHR ''='') part)) of
           Inl e \<Rightarrow> parseQueryParts parts (case err of None \<Rightarrow> Some e | Some _ \<Rightarrow> err) values
         | Inr value \<Rightarrow> parseQueryParts parts err (values @ [(key, value)])))"

definition ParseQuery :: "string \<Rightarrow> (string \<times> string) list \<times> string option" where
  "ParseQuery query = parseQueryParts (Split1 (CHR ''&'') query) None []"

text \<open>\<open>values.Get(key)\<close>: the first value of the key, empty if there is none.\<close>

definition valuesGet :: "(string \<times> string) list \<Rightarrow> string \<Rightarrow> string" where
  "valuesGet values key = (case map_of values key of None \<Rightarrow> [] | Some v \<Rightarrow> v)"

subsection \<open>Escaped text is read back\<close>

lemma hexChar_unhex: "d < 16 \<Longrightarrow> isHexDigit (hexChar d) \<and> unhex (hexChar d) = d"
  by (auto simp: hexChar_def isHexDigit_def isDigit_def unhex_def)

lemma unescape_escapeByte:
  assumes "\<not> keep (CHR ''%'')" and "\<not> keep (CHR ''+'')"
  shows "QueryUnescape (escapeByte keep c @ s) = (case QueryUnescape s of Inl e \<Rightarrow> Inl e | Inr t \<Rightarrow> Inr (c # t))"
proof (cases "keep c")
  case True
  with assms have "c \<noteq> CHR ''%''" "c \<noteq> CHR ''+''" by auto
  with True show ?thesis by (simp add: escapeByte_def split: sum.splits)
next
  case False
  have "byte c div 16 < 16" "byte c mod 16 < 16" using byte_lt [of c] by (simp_all add: less_mult_imp_div_less)
  moreover have "char_of (byte c div 16 * 16 + byte c mod 16) = c" by (simp add: byte_def)
  ultimately show ?thesis using False by (simp add: escapeByte_def hexChar_unhex split: sum.splits)
qed

lemma QueryUnescape_QueryEscape [simp, go_simps]: "QueryUnescape (QueryEscape s) = Inr s"
proof (induction s)
  case (Cons c s)
  have "\<not> isUnreserved (CHR ''%'')" "\<not> isUnreserved (CHR ''+'')"
    by (simp_all add: isUnreserved_def byte_class_defs byte_def)
  then show ?case
    using Cons by (simp add: QueryEscape_def unescape_escapeByte)
qed (simp add: QueryEscape_def)


section \<open>Subsequences\<close>

lemma subseq_distinct: "subseq xs ys \<Longrightarrow> distinct ys \<Longrightarrow> distinct xs"
  by (induction rule: list_emb.induct) (auto dest: list_emb_set)

section \<open>Evaluation of closed terms\<close>

text \<open>The equations by which the simplifier computes the functions above on literals.\<close>

lemma bit_one_eval: "bit (Suc 0) 0"
  by (simp add: bit_0)

lemma replicate_eval: "replicate (numeral k) x = x # replicate (pred_numeral k) x"
  by (simp add: numeral_eq_Suc)

lemma take_eval: "take (numeral k) (x # xs) = x # take (pred_numeral k) xs"
  by (simp add: numeral_eq_Suc)

lemmas go_eval = bit_one_eval replicate_eval take_eval
  TrimSpace_def space1_def space2_def space3_def byte_def byte_class_defs
  ToLower_def ToUpper_def lowerChar_def upperChar_def EqualFold_def char_of_def
  ParseUint_def ParseUintVal_def ParseInt_def digitVal_def
  FormatUint_def FormatInt_def showNat.simps digitChar_def padZero_def formatPadded_def
  Quote_def quoteChar_def hexDecodable_def TrimPrefix_def TrimRight_def Trim_def
  PathEscape_def QueryEscape_def escapeByte_def isUnreserved_def hexChar_def

end
