(* ===== verification/Settlement_Types.thy ===== *)
theory Settlement_Types
  imports GoLib
begin

text \<open>
  The data of the settlement rail (cmd/wolochaind/cmd/settlement.go, lines 29--595): one \<^theory_text>\<open>record\<close>
  per Go struct, with the struct's fields in the struct's order, each field carrying a short prefix
  that names its struct.  A pointer is an \<open>option\<close>, a slice a \<open>list\<close>, \<open>time.Time\<close> and
  \<open>time.Duration\<close> an \<open>int\<close> (nanoseconds), \<open>uint64\<close> and \<open>int64\<close> a \<open>64 word\<close>; an \<open>int\<close> that counts
  or indexes is a \<open>nat\<close> and one that a caller supplies is an \<open>int\<close>.  A Go composite
  literal \<open>T{f: v}\<close> leaves the other fields zero, which is \<open>zero_T\<lparr>f := v\<rparr>\<close> here.
\<close>

section \<open>Constants\<close>

definition settlementCanonicalChainID :: string where "settlementCanonicalChainID = ''wolo-testnet''"
definition settlementCanonicalBaseDenom :: string where "settlementCanonicalBaseDenom = ''uwolo''"
definition settlementCanonicalDisplayDenom :: string where "settlementCanonicalDisplayDenom = ''wolo''"
definition settlementCanonicalPrefix :: string where "settlementCanonicalPrefix = ''wolo''"
definition settlementDefaultGasPrices :: string where "settlementDefaultGasPrices = ''0.025uwolo''"
definition settlementDefaultRPC :: string where "settlementDefaultRPC = ''http://127.0.0.1:26657''"
definition settlementDefaultNode :: string where "settlementDefaultNode = ''tcp://127.0.0.1:26657''"
definition settlementDefaultREST :: string where "settlementDefaultREST = ''http://127.0.0.1:1317''"
definition settlementDefaultListenAddr :: string where "settlementDefaultListenAddr = ''127.0.0.1:8091''"
definition settlementSignerRole :: string where "settlementSignerRole = ''payout''"
definition settlementEscrowSignerRole :: string where "settlementEscrowSignerRole = ''escrow''"
definition settlementMaxRunPayouts :: nat where "settlementMaxRunPayouts = 250"

section \<open>Structs\<close>

record settlementConfig =
  cfg_ExecutablePath :: string
  cfg_HomeDir :: string
  cfg_KeyringBackend :: string
  cfg_KeyringDir :: string
  cfg_NodeAddr :: string
  cfg_RPCHTTP :: string
  cfg_RESTURL :: string
  cfg_PublicRESTURL :: string
  cfg_ChainID :: string
  cfg_BaseDenom :: string
  cfg_DisplayDenom :: string
  cfg_AddressPrefix :: string
  cfg_PayoutKeyName :: string
  cfg_PayoutAddress :: string
  cfg_EscrowKeyName :: string
  cfg_EscrowAddress :: string
  cfg_TreasuryAddress :: string
  cfg_EscrowAutoTopUp :: bool
  cfg_BroadcastMode :: string
  cfg_Gas :: string
  cfg_GasAdjustment :: string
  cfg_GasPrices :: string
  cfg_Fees :: string
  cfg_MinPayoutBalanceUWolo :: u64
  cfg_FeeHeadroomUWolo :: u64
  cfg_MinEscrowBalanceUWolo :: u64
  cfg_EscrowFeeHeadroomUWolo :: u64
  cfg_StateDir :: string
  cfg_ListenAddr :: string
  cfg_AuthToken :: string
  cfg_RequestLockTTL :: int
  cfg_RequestTimeout :: int
  cfg_LookupTimeout :: int
  cfg_HealthTimeout :: int
  cfg_ConfirmTimeout :: int
  cfg_ConfirmInterval :: int

definition zero_settlementConfig :: settlementConfig where
  "zero_settlementConfig = \<lparr>cfg_ExecutablePath = '''', cfg_HomeDir = '''', cfg_KeyringBackend = '''',
     cfg_KeyringDir = '''', cfg_NodeAddr = '''', cfg_RPCHTTP = '''',
     cfg_RESTURL = '''', cfg_PublicRESTURL = '''', cfg_ChainID = '''',
     cfg_BaseDenom = '''', cfg_DisplayDenom = '''', cfg_AddressPrefix = '''',
     cfg_PayoutKeyName = '''', cfg_PayoutAddress = '''', cfg_EscrowKeyName = '''',
     cfg_EscrowAddress = '''', cfg_TreasuryAddress = '''', cfg_EscrowAutoTopUp = False,
     cfg_BroadcastMode = '''', cfg_Gas = '''', cfg_GasAdjustment = '''',
     cfg_GasPrices = '''', cfg_Fees = '''', cfg_MinPayoutBalanceUWolo = 0,
     cfg_FeeHeadroomUWolo = 0, cfg_MinEscrowBalanceUWolo = 0, cfg_EscrowFeeHeadroomUWolo = 0,
     cfg_StateDir = '''', cfg_ListenAddr = '''', cfg_AuthToken = '''',
     cfg_RequestLockTTL = 0, cfg_RequestTimeout = 0, cfg_LookupTimeout = 0,
     cfg_HealthTimeout = 0, cfg_ConfirmTimeout = 0, cfg_ConfirmInterval = 0\<rparr>"

lemma zero_settlementConfig_sel [simp, zero_simps]:
  "cfg_ExecutablePath zero_settlementConfig = ''''"
  "cfg_HomeDir zero_settlementConfig = ''''"
  "cfg_KeyringBackend zero_settlementConfig = ''''"
  "cfg_KeyringDir zero_settlementConfig = ''''"
  "cfg_NodeAddr zero_settlementConfig = ''''"
  "cfg_RPCHTTP zero_settlementConfig = ''''"
  "cfg_RESTURL zero_settlementConfig = ''''"
  "cfg_PublicRESTURL zero_settlementConfig = ''''"
  "cfg_ChainID zero_settlementConfig = ''''"
  "cfg_BaseDenom zero_settlementConfig = ''''"
  "cfg_DisplayDenom zero_settlementConfig = ''''"
  "cfg_AddressPrefix zero_settlementConfig = ''''"
  "cfg_PayoutKeyName zero_settlementConfig = ''''"
  "cfg_PayoutAddress zero_settlementConfig = ''''"
  "cfg_EscrowKeyName zero_settlementConfig = ''''"
  "cfg_EscrowAddress zero_settlementConfig = ''''"
  "cfg_TreasuryAddress zero_settlementConfig = ''''"
  "cfg_EscrowAutoTopUp zero_settlementConfig = False"
  "cfg_BroadcastMode zero_settlementConfig = ''''"
  "cfg_Gas zero_settlementConfig = ''''"
  "cfg_GasAdjustment zero_settlementConfig = ''''"
  "cfg_GasPrices zero_settlementConfig = ''''"
  "cfg_Fees zero_settlementConfig = ''''"
  "cfg_MinPayoutBalanceUWolo zero_settlementConfig = 0"
  "cfg_FeeHeadroomUWolo zero_settlementConfig = 0"
  "cfg_MinEscrowBalanceUWolo zero_settlementConfig = 0"
  "cfg_EscrowFeeHeadroomUWolo zero_settlementConfig = 0"
  "cfg_StateDir zero_settlementConfig = ''''"
  "cfg_ListenAddr zero_settlementConfig = ''''"
  "cfg_AuthToken zero_settlementConfig = ''''"
  "cfg_RequestLockTTL zero_settlementConfig = 0"
  "cfg_RequestTimeout zero_settlementConfig = 0"
  "cfg_LookupTimeout zero_settlementConfig = 0"
  "cfg_HealthTimeout zero_settlementConfig = 0"
  "cfg_ConfirmTimeout zero_settlementConfig = 0"
  "cfg_ConfirmInterval zero_settlementConfig = 0"
  by (simp_all add: zero_settlementConfig_def)

record settlementExecuteRequest =
  xq_RequestID :: string
  xq_ToAddress :: string
  xq_AmountUWolo :: string
  xq_AmountWolo :: i64
  xq_Memo :: string

definition zero_settlementExecuteRequest :: settlementExecuteRequest where
  "zero_settlementExecuteRequest = \<lparr>xq_RequestID = '''', xq_ToAddress = '''', xq_AmountUWolo = '''',
     xq_AmountWolo = 0, xq_Memo = ''''\<rparr>"

lemma zero_settlementExecuteRequest_sel [simp, zero_simps]:
  "xq_RequestID zero_settlementExecuteRequest = ''''"
  "xq_ToAddress zero_settlementExecuteRequest = ''''"
  "xq_AmountUWolo zero_settlementExecuteRequest = ''''"
  "xq_AmountWolo zero_settlementExecuteRequest = 0"
  "xq_Memo zero_settlementExecuteRequest = ''''"
  by (simp_all add: zero_settlementExecuteRequest_def)

record normalizedSettlementRequest =
  nq_RequestID :: string
  nq_ToAddress :: string
  nq_AmountUWolo :: string
  nq_Memo :: string
  nq_SignerRole :: string

definition zero_normalizedSettlementRequest :: normalizedSettlementRequest where
  "zero_normalizedSettlementRequest = \<lparr>nq_RequestID = '''', nq_ToAddress = '''', nq_AmountUWolo = '''',
     nq_Memo = '''', nq_SignerRole = ''''\<rparr>"

lemma zero_normalizedSettlementRequest_sel [simp, zero_simps]:
  "nq_RequestID zero_normalizedSettlementRequest = ''''"
  "nq_ToAddress zero_normalizedSettlementRequest = ''''"
  "nq_AmountUWolo zero_normalizedSettlementRequest = ''''"
  "nq_Memo zero_normalizedSettlementRequest = ''''"
  "nq_SignerRole zero_normalizedSettlementRequest = ''''"
  by (simp_all add: zero_normalizedSettlementRequest_def)

record settlementExecuteResponse =
  xr_OK :: bool
  xr_Status :: string
  xr_FailureCode :: string
  xr_Retryable :: bool
  xr_IdempotentReplay :: bool
  xr_RequestID :: string
  xr_ChainID :: string
  xr_SignerRole :: string
  xr_SignerAddress :: string
  xr_ToAddress :: string
  xr_AmountUWolo :: string
  xr_AmountWolo :: string
  xr_BroadcastMode :: string
  xr_TxHash :: string
  xr_Code :: u32
  xr_Codespace :: string
  xr_RawLog :: string
  xr_Detail :: string
  xr_CanonicalTxLookup :: string
  xr_CanonicalTxLookupPreferred :: string
  xr_CanonicalTxLookupInternal :: string
  xr_CanonicalTxLookupPublic :: string

definition zero_settlementExecuteResponse :: settlementExecuteResponse where
  "zero_settlementExecuteResponse = \<lparr>xr_OK = False, xr_Status = '''', xr_FailureCode = '''',
     xr_Retryable = False, xr_IdempotentReplay = False, xr_RequestID = '''',
     xr_ChainID = '''', xr_SignerRole = '''', xr_SignerAddress = '''',
     xr_ToAddress = '''', xr_AmountUWolo = '''', xr_AmountWolo = '''',
     xr_BroadcastMode = '''', xr_TxHash = '''', xr_Code = 0,
     xr_Codespace = '''', xr_RawLog = '''', xr_Detail = '''',
     xr_CanonicalTxLookup = '''', xr_CanonicalTxLookupPreferred = '''', xr_CanonicalTxLookupInternal = '''',
     xr_CanonicalTxLookupPublic = ''''\<rparr>"

lemma zero_settlementExecuteResponse_sel [simp, zero_simps]:
  "xr_OK zero_settlementExecuteResponse = False"
  "xr_Status zero_settlementExecuteResponse = ''''"
  "xr_FailureCode zero_settlementExecuteResponse = ''''"
  "xr_Retryable zero_settlementExecuteResponse = False"
  "xr_IdempotentReplay zero_settlementExecuteResponse = False"
  "xr_RequestID zero_settlementExecuteResponse = ''''"
  "xr_ChainID zero_settlementExecuteResponse = ''''"
  "xr_SignerRole zero_settlementExecuteResponse = ''''"
  "xr_SignerAddress zero_settlementExecuteResponse = ''''"
  "xr_ToAddress zero_settlementExecuteResponse = ''''"
  "xr_AmountUWolo zero_settlementExecuteResponse = ''''"
  "xr_AmountWolo zero_settlementExecuteResponse = ''''"
  "xr_BroadcastMode zero_settlementExecuteResponse = ''''"
  "xr_TxHash zero_settlementExecuteResponse = ''''"
  "xr_Code zero_settlementExecuteResponse = 0"
  "xr_Codespace zero_settlementExecuteResponse = ''''"
  "xr_RawLog zero_settlementExecuteResponse = ''''"
  "xr_Detail zero_settlementExecuteResponse = ''''"
  "xr_CanonicalTxLookup zero_settlementExecuteResponse = ''''"
  "xr_CanonicalTxLookupPreferred zero_settlementExecuteResponse = ''''"
  "xr_CanonicalTxLookupInternal zero_settlementExecuteResponse = ''''"
  "xr_CanonicalTxLookupPublic zero_settlementExecuteResponse = ''''"
  by (simp_all add: zero_settlementExecuteResponse_def)

record settlementRunPayoutInput =
  pi_RequestID :: string
  pi_ToAddress :: string
  pi_AmountUWolo :: string
  pi_AmountWolo :: i64
  pi_Memo :: string

definition zero_settlementRunPayoutInput :: settlementRunPayoutInput where
  "zero_settlementRunPayoutInput = \<lparr>pi_RequestID = '''', pi_ToAddress = '''', pi_AmountUWolo = '''',
     pi_AmountWolo = 0, pi_Memo = ''''\<rparr>"

lemma zero_settlementRunPayoutInput_sel [simp, zero_simps]:
  "pi_RequestID zero_settlementRunPayoutInput = ''''"
  "pi_ToAddress zero_settlementRunPayoutInput = ''''"
  "pi_AmountUWolo zero_settlementRunPayoutInput = ''''"
  "pi_AmountWolo zero_settlementRunPayoutInput = 0"
  "pi_Memo zero_settlementRunPayoutInput = ''''"
  by (simp_all add: zero_settlementRunPayoutInput_def)

record settlementRunRequest =
  rq_SettlementRunID :: string
  rq_SourceApp :: string
  rq_SourceEventID :: string
  rq_Note :: string
  rq_Memo :: string
  rq_SignerRole :: string
  rq_Payouts :: "settlementRunPayoutInput list"

definition zero_settlementRunRequest :: settlementRunRequest where
  "zero_settlementRunRequest = \<lparr>rq_SettlementRunID = '''', rq_SourceApp = '''', rq_SourceEventID = '''',
     rq_Note = '''', rq_Memo = '''', rq_SignerRole = '''',
     rq_Payouts = []\<rparr>"

lemma zero_settlementRunRequest_sel [simp, zero_simps]:
  "rq_SettlementRunID zero_settlementRunRequest = ''''"
  "rq_SourceApp zero_settlementRunRequest = ''''"
  "rq_SourceEventID zero_settlementRunRequest = ''''"
  "rq_Note zero_settlementRunRequest = ''''"
  "rq_Memo zero_settlementRunRequest = ''''"
  "rq_SignerRole zero_settlementRunRequest = ''''"
  "rq_Payouts zero_settlementRunRequest = []"
  by (simp_all add: zero_settlementRunRequest_def)

record normalizedSettlementPayout =
  np_Index :: nat
  np_RequestID :: string
  np_ToAddress :: string
  np_AmountUWolo :: string
  np_Memo :: string

definition zero_normalizedSettlementPayout :: normalizedSettlementPayout where
  "zero_normalizedSettlementPayout = \<lparr>np_Index = 0, np_RequestID = '''', np_ToAddress = '''',
     np_AmountUWolo = '''', np_Memo = ''''\<rparr>"

lemma zero_normalizedSettlementPayout_sel [simp, zero_simps]:
  "np_Index zero_normalizedSettlementPayout = 0"
  "np_RequestID zero_normalizedSettlementPayout = ''''"
  "np_ToAddress zero_normalizedSettlementPayout = ''''"
  "np_AmountUWolo zero_normalizedSettlementPayout = ''''"
  "np_Memo zero_normalizedSettlementPayout = ''''"
  by (simp_all add: zero_normalizedSettlementPayout_def)

record normalizedSettlementRunRequest =
  nr_SettlementRunID :: string
  nr_SourceApp :: string
  nr_SourceEventID :: string
  nr_Note :: string
  nr_Memo :: string
  nr_SignerRole :: string
  nr_Payouts :: "normalizedSettlementPayout list"

definition zero_normalizedSettlementRunRequest :: normalizedSettlementRunRequest where
  "zero_normalizedSettlementRunRequest = \<lparr>nr_SettlementRunID = '''', nr_SourceApp = '''', nr_SourceEventID = '''',
     nr_Note = '''', nr_Memo = '''', nr_SignerRole = '''',
     nr_Payouts = []\<rparr>"

lemma zero_normalizedSettlementRunRequest_sel [simp, zero_simps]:
  "nr_SettlementRunID zero_normalizedSettlementRunRequest = ''''"
  "nr_SourceApp zero_normalizedSettlementRunRequest = ''''"
  "nr_SourceEventID zero_normalizedSettlementRunRequest = ''''"
  "nr_Note zero_normalizedSettlementRunRequest = ''''"
  "nr_Memo zero_normalizedSettlementRunRequest = ''''"
  "nr_SignerRole zero_normalizedSettlementRunRequest = ''''"
  "nr_Payouts zero_normalizedSettlementRunRequest = []"
  by (simp_all add: zero_normalizedSettlementRunRequest_def)

record settlementRunPayoutResult =
  pr_Index :: nat
  pr_RequestID :: string
  pr_Attempted :: bool
  pr_OK :: bool
  pr_Status :: string
  pr_Outcome :: string
  pr_FailureCode :: string
  pr_Retryable :: bool
  pr_IdempotentReplay :: bool
  pr_SignerRole :: string
  pr_SignerAddress :: string
  pr_ToAddress :: string
  pr_AmountUWolo :: string
  pr_AmountWolo :: string
  pr_Memo :: string
  pr_TxHash :: string
  pr_Detail :: string
  pr_CanonicalTxLookup :: string
  pr_CanonicalTxLookupPreferred :: string
  pr_CanonicalTxLookupInternal :: string
  pr_CanonicalTxLookupPublic :: string
  pr_Warnings :: "string list"

definition zero_settlementRunPayoutResult :: settlementRunPayoutResult where
  "zero_settlementRunPayoutResult = \<lparr>pr_Index = 0, pr_RequestID = '''', pr_Attempted = False,
     pr_OK = False, pr_Status = '''', pr_Outcome = '''',
     pr_FailureCode = '''', pr_Retryable = False, pr_IdempotentReplay = False,
     pr_SignerRole = '''', pr_SignerAddress = '''', pr_ToAddress = '''',
     pr_AmountUWolo = '''', pr_AmountWolo = '''', pr_Memo = '''',
     pr_TxHash = '''', pr_Detail = '''', pr_CanonicalTxLookup = '''',
     pr_CanonicalTxLookupPreferred = '''', pr_CanonicalTxLookupInternal = '''', pr_CanonicalTxLookupPublic = '''',
     pr_Warnings = []\<rparr>"

lemma zero_settlementRunPayoutResult_sel [simp, zero_simps]:
  "pr_Index zero_settlementRunPayoutResult = 0"
  "pr_RequestID zero_settlementRunPayoutResult = ''''"
  "pr_Attempted zero_settlementRunPayoutResult = False"
  "pr_OK zero_settlementRunPayoutResult = False"
  "pr_Status zero_settlementRunPayoutResult = ''''"
  "pr_Outcome zero_settlementRunPayoutResult = ''''"
  "pr_FailureCode zero_settlementRunPayoutResult = ''''"
  "pr_Retryable zero_settlementRunPayoutResult = False"
  "pr_IdempotentReplay zero_settlementRunPayoutResult = False"
  "pr_SignerRole zero_settlementRunPayoutResult = ''''"
  "pr_SignerAddress zero_settlementRunPayoutResult = ''''"
  "pr_ToAddress zero_settlementRunPayoutResult = ''''"
  "pr_AmountUWolo zero_settlementRunPayoutResult = ''''"
  "pr_AmountWolo zero_settlementRunPayoutResult = ''''"
  "pr_Memo zero_settlementRunPayoutResult = ''''"
  "pr_TxHash zero_settlementRunPayoutResult = ''''"
  "pr_Detail zero_settlementRunPayoutResult = ''''"
  "pr_CanonicalTxLookup zero_settlementRunPayoutResult = ''''"
  "pr_CanonicalTxLookupPreferred zero_settlementRunPayoutResult = ''''"
  "pr_CanonicalTxLookupInternal zero_settlementRunPayoutResult = ''''"
  "pr_CanonicalTxLookupPublic zero_settlementRunPayoutResult = ''''"
  "pr_Warnings zero_settlementRunPayoutResult = []"
  by (simp_all add: zero_settlementRunPayoutResult_def)

record settlementRunResponse =
  rr_OK :: bool
  rr_DryRun :: bool
  rr_Status :: string
  rr_FailureCode :: string
  rr_Retryable :: bool
  rr_IdempotentReplay :: bool
  rr_SettlementRunID :: string
  rr_SourceApp :: string
  rr_SourceEventID :: string
  rr_Note :: string
  rr_Memo :: string
  rr_RequestedPayoutCount :: nat
  rr_ExecutedPayoutCount :: nat
  rr_ConfirmedPayoutCount :: nat
  rr_AcceptedPayoutCount :: nat
  rr_RefusedPayoutCount :: nat
  rr_RejectedPayoutCount :: nat
  rr_ReplayPayoutCount :: nat
  rr_RequestedTotalUWolo :: string
  rr_RequestedTotalWolo :: string
  rr_SignerRole :: string
  rr_SignerAddress :: string
  rr_SignerBalanceBeforeUWolo :: string
  rr_SignerBalanceBeforeWolo :: string
  rr_ExecutedTotalUWolo :: string
  rr_ExecutedTotalWolo :: string
  rr_ConfirmedTotalUWolo :: string
  rr_ConfirmedTotalWolo :: string
  rr_AcceptedTotalUWolo :: string
  rr_AcceptedTotalWolo :: string
  rr_RefusedTotalUWolo :: string
  rr_RefusedTotalWolo :: string
  rr_RejectedTotalUWolo :: string
  rr_RejectedTotalWolo :: string
  rr_PayoutBalanceBeforeUWolo :: string
  rr_PayoutBalanceBeforeWolo :: string
  rr_ProjectedRemainingUWolo :: string
  rr_ProjectedRemainingWolo :: string
  rr_EstimatedFeeTotalUWolo :: string
  rr_EstimatedFeeTotalWolo :: string
  rr_MinPayoutBalanceUWolo :: string
  rr_MinPayoutBalanceWolo :: string
  rr_FeeHeadroomUWolo :: string
  rr_FeeHeadroomWolo :: string
  rr_MinEscrowBalanceUWolo :: string
  rr_MinEscrowBalanceWolo :: string
  rr_EscrowFeeHeadroomUWolo :: string
  rr_EscrowFeeHeadroomWolo :: string
  rr_Warnings :: "string list"
  rr_Detail :: string
  rr_Payouts :: "settlementRunPayoutResult list"

definition zero_settlementRunResponse :: settlementRunResponse where
  "zero_settlementRunResponse = \<lparr>rr_OK = False, rr_DryRun = False, rr_Status = '''',
     rr_FailureCode = '''', rr_Retryable = False, rr_IdempotentReplay = False,
     rr_SettlementRunID = '''', rr_SourceApp = '''', rr_SourceEventID = '''',
     rr_Note = '''', rr_Memo = '''', rr_RequestedPayoutCount = 0,
     rr_ExecutedPayoutCount = 0, rr_ConfirmedPayoutCount = 0, rr_AcceptedPayoutCount = 0,
     rr_RefusedPayoutCount = 0, rr_RejectedPayoutCount = 0, rr_ReplayPayoutCount = 0,
     rr_RequestedTotalUWolo = '''', rr_RequestedTotalWolo = '''', rr_SignerRole = '''',
     rr_SignerAddress = '''', rr_SignerBalanceBeforeUWolo = '''', rr_SignerBalanceBeforeWolo = '''',
     rr_ExecutedTotalUWolo = '''', rr_ExecutedTotalWolo = '''', rr_ConfirmedTotalUWolo = '''',
     rr_ConfirmedTotalWolo = '''', rr_AcceptedTotalUWolo = '''', rr_AcceptedTotalWolo = '''',
     rr_RefusedTotalUWolo = '''', rr_RefusedTotalWolo = '''', rr_RejectedTotalUWolo = '''',
     rr_RejectedTotalWolo = '''', rr_PayoutBalanceBeforeUWolo = '''', rr_PayoutBalanceBeforeWolo = '''',
     rr_ProjectedRemainingUWolo = '''', rr_ProjectedRemainingWolo = '''', rr_EstimatedFeeTotalUWolo = '''',
     rr_EstimatedFeeTotalWolo = '''', rr_MinPayoutBalanceUWolo = '''', rr_MinPayoutBalanceWolo = '''',
     rr_FeeHeadroomUWolo = '''', rr_FeeHeadroomWolo = '''', rr_MinEscrowBalanceUWolo = '''',
     rr_MinEscrowBalanceWolo = '''', rr_EscrowFeeHeadroomUWolo = '''', rr_EscrowFeeHeadroomWolo = '''',
     rr_Warnings = [], rr_Detail = '''', rr_Payouts = []\<rparr>"

lemma zero_settlementRunResponse_sel [simp, zero_simps]:
  "rr_OK zero_settlementRunResponse = False"
  "rr_DryRun zero_settlementRunResponse = False"
  "rr_Status zero_settlementRunResponse = ''''"
  "rr_FailureCode zero_settlementRunResponse = ''''"
  "rr_Retryable zero_settlementRunResponse = False"
  "rr_IdempotentReplay zero_settlementRunResponse = False"
  "rr_SettlementRunID zero_settlementRunResponse = ''''"
  "rr_SourceApp zero_settlementRunResponse = ''''"
  "rr_SourceEventID zero_settlementRunResponse = ''''"
  "rr_Note zero_settlementRunResponse = ''''"
  "rr_Memo zero_settlementRunResponse = ''''"
  "rr_RequestedPayoutCount zero_settlementRunResponse = 0"
  "rr_ExecutedPayoutCount zero_settlementRunResponse = 0"
  "rr_ConfirmedPayoutCount zero_settlementRunResponse = 0"
  "rr_AcceptedPayoutCount zero_settlementRunResponse = 0"
  "rr_RefusedPayoutCount zero_settlementRunResponse = 0"
  "rr_RejectedPayoutCount zero_settlementRunResponse = 0"
  "rr_ReplayPayoutCount zero_settlementRunResponse = 0"
  "rr_RequestedTotalUWolo zero_settlementRunResponse = ''''"
  "rr_RequestedTotalWolo zero_settlementRunResponse = ''''"
  "rr_SignerRole zero_settlementRunResponse = ''''"
  "rr_SignerAddress zero_settlementRunResponse = ''''"
  "rr_SignerBalanceBeforeUWolo zero_settlementRunResponse = ''''"
  "rr_SignerBalanceBeforeWolo zero_settlementRunResponse = ''''"
  "rr_ExecutedTotalUWolo zero_settlementRunResponse = ''''"
  "rr_ExecutedTotalWolo zero_settlementRunResponse = ''''"
  "rr_ConfirmedTotalUWolo zero_settlementRunResponse = ''''"
  "rr_ConfirmedTotalWolo zero_settlementRunResponse = ''''"
  "rr_AcceptedTotalUWolo zero_settlementRunResponse = ''''"
  "rr_AcceptedTotalWolo zero_settlementRunResponse = ''''"
  "rr_RefusedTotalUWolo zero_settlementRunResponse = ''''"
  "rr_RefusedTotalWolo zero_settlementRunResponse = ''''"
  "rr_RejectedTotalUWolo zero_settlementRunResponse = ''''"
  "rr_RejectedTotalWolo zero_settlementRunResponse = ''''"
  "rr_PayoutBalanceBeforeUWolo zero_settlementRunResponse = ''''"
  "rr_PayoutBalanceBeforeWolo zero_settlementRunResponse = ''''"
  "rr_ProjectedRemainingUWolo zero_settlementRunResponse = ''''"
  "rr_ProjectedRemainingWolo zero_settlementRunResponse = ''''"
  "rr_EstimatedFeeTotalUWolo zero_settlementRunResponse = ''''"
  "rr_EstimatedFeeTotalWolo zero_settlementRunResponse = ''''"
  "rr_MinPayoutBalanceUWolo zero_settlementRunResponse = ''''"
  "rr_MinPayoutBalanceWolo zero_settlementRunResponse = ''''"
  "rr_FeeHeadroomUWolo zero_settlementRunResponse = ''''"
  "rr_FeeHeadroomWolo zero_settlementRunResponse = ''''"
  "rr_MinEscrowBalanceUWolo zero_settlementRunResponse = ''''"
  "rr_MinEscrowBalanceWolo zero_settlementRunResponse = ''''"
  "rr_EscrowFeeHeadroomUWolo zero_settlementRunResponse = ''''"
  "rr_EscrowFeeHeadroomWolo zero_settlementRunResponse = ''''"
  "rr_Warnings zero_settlementRunResponse = []"
  "rr_Detail zero_settlementRunResponse = ''''"
  "rr_Payouts zero_settlementRunResponse = []"
  by (simp_all add: zero_settlementRunResponse_def)

record settlementStoredResult =
  sr_Request :: normalizedSettlementRequest
  sr_Fingerprint :: string
  sr_Response :: settlementExecuteResponse
  sr_UpdatedAt :: int

definition zero_settlementStoredResult :: settlementStoredResult where
  "zero_settlementStoredResult = \<lparr>sr_Request = zero_normalizedSettlementRequest, sr_Fingerprint = '''', sr_Response = zero_settlementExecuteResponse,
     sr_UpdatedAt = 0\<rparr>"

lemma zero_settlementStoredResult_sel [simp, zero_simps]:
  "sr_Request zero_settlementStoredResult = zero_normalizedSettlementRequest"
  "sr_Fingerprint zero_settlementStoredResult = ''''"
  "sr_Response zero_settlementStoredResult = zero_settlementExecuteResponse"
  "sr_UpdatedAt zero_settlementStoredResult = 0"
  by (simp_all add: zero_settlementStoredResult_def)

record settlementRunStoredResult =
  rs_Request :: normalizedSettlementRunRequest
  rs_Fingerprint :: string
  rs_Response :: settlementRunResponse
  rs_UpdatedAt :: int

definition zero_settlementRunStoredResult :: settlementRunStoredResult where
  "zero_settlementRunStoredResult = \<lparr>rs_Request = zero_normalizedSettlementRunRequest, rs_Fingerprint = '''', rs_Response = zero_settlementRunResponse,
     rs_UpdatedAt = 0\<rparr>"

lemma zero_settlementRunStoredResult_sel [simp, zero_simps]:
  "rs_Request zero_settlementRunStoredResult = zero_normalizedSettlementRunRequest"
  "rs_Fingerprint zero_settlementRunStoredResult = ''''"
  "rs_Response zero_settlementRunStoredResult = zero_settlementRunResponse"
  "rs_UpdatedAt zero_settlementRunStoredResult = 0"
  by (simp_all add: zero_settlementRunStoredResult_def)

record settlementTransfer =
  tr_Sender :: string
  tr_Recipient :: string
  tr_Amount :: string
  tr_Denom :: string

definition zero_settlementTransfer :: settlementTransfer where
  "zero_settlementTransfer = \<lparr>tr_Sender = '''', tr_Recipient = '''', tr_Amount = '''',
     tr_Denom = ''''\<rparr>"

lemma zero_settlementTransfer_sel [simp, zero_simps]:
  "tr_Sender zero_settlementTransfer = ''''"
  "tr_Recipient zero_settlementTransfer = ''''"
  "tr_Amount zero_settlementTransfer = ''''"
  "tr_Denom zero_settlementTransfer = ''''"
  by (simp_all add: zero_settlementTransfer_def)

record settlementLookupResponse =
  lr_OK :: bool
  lr_FailureCode :: string
  lr_Detail :: string
  lr_Found :: bool
  lr_ChainID :: string
  lr_TxHash :: string
  lr_TxSuccess :: bool
  lr_Kind :: string
  lr_Height :: string
  lr_Code :: u32
  lr_Codespace :: string
  lr_Memo :: string
  lr_RawLog :: string
  lr_Timestamp :: string
  lr_CanonicalTxLookup :: string
  lr_CanonicalTxLookupPreferred :: string
  lr_CanonicalTxLookupInternal :: string
  lr_CanonicalTxLookupPublic :: string
  lr_Transfers :: "settlementTransfer list"
  lr_MatchedExpected :: bool
  lr_MatchedTransfer :: "settlementTransfer option"

definition zero_settlementLookupResponse :: settlementLookupResponse where
  "zero_settlementLookupResponse = \<lparr>lr_OK = False, lr_FailureCode = '''', lr_Detail = '''',
     lr_Found = False, lr_ChainID = '''', lr_TxHash = '''',
     lr_TxSuccess = False, lr_Kind = '''', lr_Height = '''',
     lr_Code = 0, lr_Codespace = '''', lr_Memo = '''',
     lr_RawLog = '''', lr_Timestamp = '''', lr_CanonicalTxLookup = '''',
     lr_CanonicalTxLookupPreferred = '''', lr_CanonicalTxLookupInternal = '''', lr_CanonicalTxLookupPublic = '''',
     lr_Transfers = [], lr_MatchedExpected = False, lr_MatchedTransfer = None\<rparr>"

lemma zero_settlementLookupResponse_sel [simp, zero_simps]:
  "lr_OK zero_settlementLookupResponse = False"
  "lr_FailureCode zero_settlementLookupResponse = ''''"
  "lr_Detail zero_settlementLookupResponse = ''''"
  "lr_Found zero_settlementLookupResponse = False"
  "lr_ChainID zero_settlementLookupResponse = ''''"
  "lr_TxHash zero_settlementLookupResponse = ''''"
  "lr_TxSuccess zero_settlementLookupResponse = False"
  "lr_Kind zero_settlementLookupResponse = ''''"
  "lr_Height zero_settlementLookupResponse = ''''"
  "lr_Code zero_settlementLookupResponse = 0"
  "lr_Codespace zero_settlementLookupResponse = ''''"
  "lr_Memo zero_settlementLookupResponse = ''''"
  "lr_RawLog zero_settlementLookupResponse = ''''"
  "lr_Timestamp zero_settlementLookupResponse = ''''"
  "lr_CanonicalTxLookup zero_settlementLookupResponse = ''''"
  "lr_CanonicalTxLookupPreferred zero_settlementLookupResponse = ''''"
  "lr_CanonicalTxLookupInternal zero_settlementLookupResponse = ''''"
  "lr_CanonicalTxLookupPublic zero_settlementLookupResponse = ''''"
  "lr_Transfers zero_settlementLookupResponse = []"
  "lr_MatchedExpected zero_settlementLookupResponse = False"
  "lr_MatchedTransfer zero_settlementLookupResponse = None"
  by (simp_all add: zero_settlementLookupResponse_def)

record settlementEscrowVerifyResponse =
  ev_OK :: bool
  ev_FailureCode :: string
  ev_Detail :: string
  ev_EscrowAddress :: string
  ev_ExpectedSender :: string
  ev_ExpectedAmountUWolo :: string
  ev_DepositFound :: bool
  ev_Lookup :: "settlementLookupResponse option"

definition zero_settlementEscrowVerifyResponse :: settlementEscrowVerifyResponse where
  "zero_settlementEscrowVerifyResponse = \<lparr>ev_OK = False, ev_FailureCode = '''', ev_Detail = '''',
     ev_EscrowAddress = '''', ev_ExpectedSender = '''', ev_ExpectedAmountUWolo = '''',
     ev_DepositFound = False, ev_Lookup = None\<rparr>"

lemma zero_settlementEscrowVerifyResponse_sel [simp, zero_simps]:
  "ev_OK zero_settlementEscrowVerifyResponse = False"
  "ev_FailureCode zero_settlementEscrowVerifyResponse = ''''"
  "ev_Detail zero_settlementEscrowVerifyResponse = ''''"
  "ev_EscrowAddress zero_settlementEscrowVerifyResponse = ''''"
  "ev_ExpectedSender zero_settlementEscrowVerifyResponse = ''''"
  "ev_ExpectedAmountUWolo zero_settlementEscrowVerifyResponse = ''''"
  "ev_DepositFound zero_settlementEscrowVerifyResponse = False"
  "ev_Lookup zero_settlementEscrowVerifyResponse = None"
  by (simp_all add: zero_settlementEscrowVerifyResponse_def)

record settlementEscrowDepositItem =
  ed_TransferIndex :: nat
  ed_TxHash :: string
  ed_Height :: string
  ed_Timestamp :: string
  ed_TxSuccess :: bool
  ed_Sender :: string
  ed_Recipient :: string
  ed_AmountUWolo :: string
  ed_AmountWolo :: string
  ed_Memo :: string
  ed_CanonicalTxLookup :: string
  ed_CanonicalTxLookupPreferred :: string
  ed_CanonicalTxLookupInternal :: string
  ed_CanonicalTxLookupPublic :: string

definition zero_settlementEscrowDepositItem :: settlementEscrowDepositItem where
  "zero_settlementEscrowDepositItem = \<lparr>ed_TransferIndex = 0, ed_TxHash = '''', ed_Height = '''',
     ed_Timestamp = '''', ed_TxSuccess = False, ed_Sender = '''',
     ed_Recipient = '''', ed_AmountUWolo = '''', ed_AmountWolo = '''',
     ed_Memo = '''', ed_CanonicalTxLookup = '''', ed_CanonicalTxLookupPreferred = '''',
     ed_CanonicalTxLookupInternal = '''', ed_CanonicalTxLookupPublic = ''''\<rparr>"

lemma zero_settlementEscrowDepositItem_sel [simp, zero_simps]:
  "ed_TransferIndex zero_settlementEscrowDepositItem = 0"
  "ed_TxHash zero_settlementEscrowDepositItem = ''''"
  "ed_Height zero_settlementEscrowDepositItem = ''''"
  "ed_Timestamp zero_settlementEscrowDepositItem = ''''"
  "ed_TxSuccess zero_settlementEscrowDepositItem = False"
  "ed_Sender zero_settlementEscrowDepositItem = ''''"
  "ed_Recipient zero_settlementEscrowDepositItem = ''''"
  "ed_AmountUWolo zero_settlementEscrowDepositItem = ''''"
  "ed_AmountWolo zero_settlementEscrowDepositItem = ''''"
  "ed_Memo zero_settlementEscrowDepositItem = ''''"
  "ed_CanonicalTxLookup zero_settlementEscrowDepositItem = ''''"
  "ed_CanonicalTxLookupPreferred zero_settlementEscrowDepositItem = ''''"
  "ed_CanonicalTxLookupInternal zero_settlementEscrowDepositItem = ''''"
  "ed_CanonicalTxLookupPublic zero_settlementEscrowDepositItem = ''''"
  by (simp_all add: zero_settlementEscrowDepositItem_def)

record settlementEscrowRecentResponse =
  er_OK :: bool
  er_FailureCode :: string
  er_Detail :: string
  er_EscrowAddress :: string
  er_SenderFilter :: string
  er_Limit :: int
  er_Count :: nat
  er_Deposits :: "settlementEscrowDepositItem list"

definition zero_settlementEscrowRecentResponse :: settlementEscrowRecentResponse where
  "zero_settlementEscrowRecentResponse = \<lparr>er_OK = False, er_FailureCode = '''', er_Detail = '''',
     er_EscrowAddress = '''', er_SenderFilter = '''', er_Limit = 0,
     er_Count = 0, er_Deposits = []\<rparr>"

lemma zero_settlementEscrowRecentResponse_sel [simp, zero_simps]:
  "er_OK zero_settlementEscrowRecentResponse = False"
  "er_FailureCode zero_settlementEscrowRecentResponse = ''''"
  "er_Detail zero_settlementEscrowRecentResponse = ''''"
  "er_EscrowAddress zero_settlementEscrowRecentResponse = ''''"
  "er_SenderFilter zero_settlementEscrowRecentResponse = ''''"
  "er_Limit zero_settlementEscrowRecentResponse = 0"
  "er_Count zero_settlementEscrowRecentResponse = 0"
  "er_Deposits zero_settlementEscrowRecentResponse = []"
  by (simp_all add: zero_settlementEscrowRecentResponse_def)

record settlementHealthResponse =
  hr_OK :: bool
  hr_FailureCode :: string
  hr_Detail :: string
  hr_ChainID :: string
  hr_RuntimeChainID :: string
  hr_RPCURL :: string
  hr_RESTURL :: string
  hr_PublicRESTURL :: string
  hr_HomeDir :: string
  hr_KeyringBackend :: string
  hr_PayoutKeyName :: string
  hr_PayoutAddress :: string
  hr_EscrowKeyName :: string
  hr_EscrowAddress :: string
  hr_EscrowSignerAddress :: string
  hr_PayoutBalanceUWolo :: string
  hr_PayoutBalanceWolo :: string
  hr_EscrowBalanceUWolo :: string
  hr_EscrowBalanceWolo :: string
  hr_MinPayoutBalanceUWolo :: string
  hr_MinPayoutBalanceWolo :: string
  hr_FeeHeadroomUWolo :: string
  hr_FeeHeadroomWolo :: string
  hr_MinEscrowBalanceUWolo :: string
  hr_MinEscrowBalanceWolo :: string
  hr_EscrowFeeHeadroomUWolo :: string
  hr_EscrowFeeHeadroomWolo :: string
  hr_Warnings :: "string list"
  hr_LoopbackOnly :: bool
  hr_AuthTokenSet :: bool

definition zero_settlementHealthResponse :: settlementHealthResponse where
  "zero_settlementHealthResponse = \<lparr>hr_OK = False, hr_FailureCode = '''', hr_Detail = '''',
     hr_ChainID = '''', hr_RuntimeChainID = '''', hr_RPCURL = '''',
     hr_RESTURL = '''', hr_PublicRESTURL = '''', hr_HomeDir = '''',
     hr_KeyringBackend = '''', hr_PayoutKeyName = '''', hr_PayoutAddress = '''',
     hr_EscrowKeyName = '''', hr_EscrowAddress = '''', hr_EscrowSignerAddress = '''',
     hr_PayoutBalanceUWolo = '''', hr_PayoutBalanceWolo = '''', hr_EscrowBalanceUWolo = '''',
     hr_EscrowBalanceWolo = '''', hr_MinPayoutBalanceUWolo = '''', hr_MinPayoutBalanceWolo = '''',
     hr_FeeHeadroomUWolo = '''', hr_FeeHeadroomWolo = '''', hr_MinEscrowBalanceUWolo = '''',
     hr_MinEscrowBalanceWolo = '''', hr_EscrowFeeHeadroomUWolo = '''', hr_EscrowFeeHeadroomWolo = '''',
     hr_Warnings = [], hr_LoopbackOnly = False, hr_AuthTokenSet = False\<rparr>"

lemma zero_settlementHealthResponse_sel [simp, zero_simps]:
  "hr_OK zero_settlementHealthResponse = False"
  "hr_FailureCode zero_settlementHealthResponse = ''''"
  "hr_Detail zero_settlementHealthResponse = ''''"
  "hr_ChainID zero_settlementHealthResponse = ''''"
  "hr_RuntimeChainID zero_settlementHealthResponse = ''''"
  "hr_RPCURL zero_settlementHealthResponse = ''''"
  "hr_RESTURL zero_settlementHealthResponse = ''''"
  "hr_PublicRESTURL zero_settlementHealthResponse = ''''"
  "hr_HomeDir zero_settlementHealthResponse = ''''"
  "hr_KeyringBackend zero_settlementHealthResponse = ''''"
  "hr_PayoutKeyName zero_settlementHealthResponse = ''''"
  "hr_PayoutAddress zero_settlementHealthResponse = ''''"
  "hr_EscrowKeyName zero_settlementHealthResponse = ''''"
  "hr_EscrowAddress zero_settlementHealthResponse = ''''"
  "hr_EscrowSignerAddress zero_settlementHealthResponse = ''''"
  "hr_PayoutBalanceUWolo zero_settlementHealthResponse = ''''"
  "hr_PayoutBalanceWolo zero_settlementHealthResponse = ''''"
  "hr_EscrowBalanceUWolo zero_settlementHealthResponse = ''''"
  "hr_EscrowBalanceWolo zero_settlementHealthResponse = ''''"
  "hr_MinPayoutBalanceUWolo zero_settlementHealthResponse = ''''"
  "hr_MinPayoutBalanceWolo zero_settlementHealthResponse = ''''"
  "hr_FeeHeadroomUWolo zero_settlementHealthResponse = ''''"
  "hr_FeeHeadroomWolo zero_settlementHealthResponse = ''''"
  "hr_MinEscrowBalanceUWolo zero_settlementHealthResponse = ''''"
  "hr_MinEscrowBalanceWolo zero_settlementHealthResponse = ''''"
  "hr_EscrowFeeHeadroomUWolo zero_settlementHealthResponse = ''''"
  "hr_EscrowFeeHeadroomWolo zero_settlementHealthResponse = ''''"
  "hr_Warnings zero_settlementHealthResponse = []"
  "hr_LoopbackOnly zero_settlementHealthResponse = False"
  "hr_AuthTokenSet zero_settlementHealthResponse = False"
  by (simp_all add: zero_settlementHealthResponse_def)

record settlementLookupExpectations =
  le_Sender :: string
  le_Recipient :: string
  le_AmountUWolo :: string

definition zero_settlementLookupExpectations :: settlementLookupExpectations where
  "zero_settlementLookupExpectations = \<lparr>le_Sender = '''', le_Recipient = '''', le_AmountUWolo = ''''\<rparr>"

lemma zero_settlementLookupExpectations_sel [simp, zero_simps]:
  "le_Sender zero_settlementLookupExpectations = ''''"
  "le_Recipient zero_settlementLookupExpectations = ''''"
  "le_AmountUWolo zero_settlementLookupExpectations = ''''"
  by (simp_all add: zero_settlementLookupExpectations_def)

record restTxEventAttribute =
  ta_Key :: string
  ta_Value :: string

definition zero_restTxEventAttribute :: restTxEventAttribute where
  "zero_restTxEventAttribute = \<lparr>ta_Key = '''', ta_Value = ''''\<rparr>"

lemma zero_restTxEventAttribute_sel [simp, zero_simps]:
  "ta_Key zero_restTxEventAttribute = ''''"
  "ta_Value zero_restTxEventAttribute = ''''"
  by (simp_all add: zero_restTxEventAttribute_def)

record restTxEvent =
  te_Type :: string
  te_Attributes :: "restTxEventAttribute list"

definition zero_restTxEvent :: restTxEvent where
  "zero_restTxEvent = \<lparr>te_Type = '''', te_Attributes = []\<rparr>"

lemma zero_restTxEvent_sel [simp, zero_simps]:
  "te_Type zero_restTxEvent = ''''"
  "te_Attributes zero_restTxEvent = []"
  by (simp_all add: zero_restTxEvent_def)

record restTxLogItem =
  li_Events :: "restTxEvent list"

definition zero_restTxLogItem :: restTxLogItem where
  "zero_restTxLogItem = \<lparr>li_Events = []\<rparr>"

lemma zero_restTxLogItem_sel [simp, zero_simps]:
  "li_Events zero_restTxLogItem = []"
  by (simp_all add: zero_restTxLogItem_def)

record bankSendBroadcastResponse =
  bb_Height :: string
  bb_TxHash :: string
  bb_Code :: u32
  bb_Codespace :: string
  bb_RawLog :: string

definition zero_bankSendBroadcastResponse :: bankSendBroadcastResponse where
  "zero_bankSendBroadcastResponse = \<lparr>bb_Height = '''', bb_TxHash = '''', bb_Code = 0,
     bb_Codespace = '''', bb_RawLog = ''''\<rparr>"

lemma zero_bankSendBroadcastResponse_sel [simp, zero_simps]:
  "bb_Height zero_bankSendBroadcastResponse = ''''"
  "bb_TxHash zero_bankSendBroadcastResponse = ''''"
  "bb_Code zero_bankSendBroadcastResponse = 0"
  "bb_Codespace zero_bankSendBroadcastResponse = ''''"
  "bb_RawLog zero_bankSendBroadcastResponse = ''''"
  by (simp_all add: zero_bankSendBroadcastResponse_def)

end
