(* ===== verification/Challenge_Types.thy ===== *)
theory Challenge_Types
  imports Settlement_Types
begin

text \<open>
  The data of challenge settlement (cmd/wolochaind/cmd/settlement_challenge.go, lines 24--372), by
  the same conventions as in \<open>Settlement_Types\<close>.
\<close>

definition settlementChallengeFundingMemoPrefix :: string where
  "settlementChallengeFundingMemoPrefix = ''wolo.challenge.funding.v1:''"
definition settlementChallengeBucketWager :: string where
  "settlementChallengeBucketWager = ''wager''"
definition settlementChallengeBucketGuarantee :: string where
  "settlementChallengeBucketGuarantee = ''guarantee''"

record settlementChallengeFundingExpectation =
  fe_Sender :: string
  fe_SourceApp :: string
  fe_SettlementRunID :: string
  fe_ChallengeID :: string
  fe_SourceEventID :: string
  fe_ParticipantSide :: string
  fe_ParticipantID :: string
  fe_TotalFundedUWolo :: string
  fe_WagerUWolo :: string
  fe_GuaranteeUWolo :: string

definition zero_settlementChallengeFundingExpectation :: settlementChallengeFundingExpectation where
  "zero_settlementChallengeFundingExpectation = \<lparr>fe_Sender = '''', fe_SourceApp = '''', fe_SettlementRunID = '''',
     fe_ChallengeID = '''', fe_SourceEventID = '''', fe_ParticipantSide = '''',
     fe_ParticipantID = '''', fe_TotalFundedUWolo = '''', fe_WagerUWolo = '''',
     fe_GuaranteeUWolo = ''''\<rparr>"

lemma zero_settlementChallengeFundingExpectation_sel [simp, zero_simps]:
  "fe_Sender zero_settlementChallengeFundingExpectation = ''''"
  "fe_SourceApp zero_settlementChallengeFundingExpectation = ''''"
  "fe_SettlementRunID zero_settlementChallengeFundingExpectation = ''''"
  "fe_ChallengeID zero_settlementChallengeFundingExpectation = ''''"
  "fe_SourceEventID zero_settlementChallengeFundingExpectation = ''''"
  "fe_ParticipantSide zero_settlementChallengeFundingExpectation = ''''"
  "fe_ParticipantID zero_settlementChallengeFundingExpectation = ''''"
  "fe_TotalFundedUWolo zero_settlementChallengeFundingExpectation = ''''"
  "fe_WagerUWolo zero_settlementChallengeFundingExpectation = ''''"
  "fe_GuaranteeUWolo zero_settlementChallengeFundingExpectation = ''''"
  by (simp_all add: zero_settlementChallengeFundingExpectation_def)

record settlementChallengeFundingResult =
  fr_Index :: nat
  fr_OK :: bool
  fr_FailureCode :: string
  fr_Detail :: string
  fr_DepositFound :: bool
  fr_FundingTxHash :: string
  fr_SourceApp :: string
  fr_SettlementRunID :: string
  fr_ChallengeID :: string
  fr_SourceEventID :: string
  fr_ParticipantSide :: string
  fr_ParticipantID :: string
  fr_Sender :: string
  fr_EscrowAddress :: string
  fr_TotalFundedUWolo :: string
  fr_TotalFundedWolo :: string
  fr_WagerUWolo :: string
  fr_WagerWolo :: string
  fr_GuaranteeUWolo :: string
  fr_GuaranteeWolo :: string
  fr_Memo :: string
  fr_CanonicalTxLookup :: string
  fr_CanonicalTxLookupPreferred :: string
  fr_CanonicalTxLookupInternal :: string
  fr_CanonicalTxLookupPublic :: string

definition zero_settlementChallengeFundingResult :: settlementChallengeFundingResult where
  "zero_settlementChallengeFundingResult = \<lparr>fr_Index = 0, fr_OK = False, fr_FailureCode = '''',
     fr_Detail = '''', fr_DepositFound = False, fr_FundingTxHash = '''',
     fr_SourceApp = '''', fr_SettlementRunID = '''', fr_ChallengeID = '''',
     fr_SourceEventID = '''', fr_ParticipantSide = '''', fr_ParticipantID = '''',
     fr_Sender = '''', fr_EscrowAddress = '''', fr_TotalFundedUWolo = '''',
     fr_TotalFundedWolo = '''', fr_WagerUWolo = '''', fr_WagerWolo = '''',
     fr_GuaranteeUWolo = '''', fr_GuaranteeWolo = '''', fr_Memo = '''',
     fr_CanonicalTxLookup = '''', fr_CanonicalTxLookupPreferred = '''', fr_CanonicalTxLookupInternal = '''',
     fr_CanonicalTxLookupPublic = ''''\<rparr>"

lemma zero_settlementChallengeFundingResult_sel [simp, zero_simps]:
  "fr_Index zero_settlementChallengeFundingResult = 0"
  "fr_OK zero_settlementChallengeFundingResult = False"
  "fr_FailureCode zero_settlementChallengeFundingResult = ''''"
  "fr_Detail zero_settlementChallengeFundingResult = ''''"
  "fr_DepositFound zero_settlementChallengeFundingResult = False"
  "fr_FundingTxHash zero_settlementChallengeFundingResult = ''''"
  "fr_SourceApp zero_settlementChallengeFundingResult = ''''"
  "fr_SettlementRunID zero_settlementChallengeFundingResult = ''''"
  "fr_ChallengeID zero_settlementChallengeFundingResult = ''''"
  "fr_SourceEventID zero_settlementChallengeFundingResult = ''''"
  "fr_ParticipantSide zero_settlementChallengeFundingResult = ''''"
  "fr_ParticipantID zero_settlementChallengeFundingResult = ''''"
  "fr_Sender zero_settlementChallengeFundingResult = ''''"
  "fr_EscrowAddress zero_settlementChallengeFundingResult = ''''"
  "fr_TotalFundedUWolo zero_settlementChallengeFundingResult = ''''"
  "fr_TotalFundedWolo zero_settlementChallengeFundingResult = ''''"
  "fr_WagerUWolo zero_settlementChallengeFundingResult = ''''"
  "fr_WagerWolo zero_settlementChallengeFundingResult = ''''"
  "fr_GuaranteeUWolo zero_settlementChallengeFundingResult = ''''"
  "fr_GuaranteeWolo zero_settlementChallengeFundingResult = ''''"
  "fr_Memo zero_settlementChallengeFundingResult = ''''"
  "fr_CanonicalTxLookup zero_settlementChallengeFundingResult = ''''"
  "fr_CanonicalTxLookupPreferred zero_settlementChallengeFundingResult = ''''"
  "fr_CanonicalTxLookupInternal zero_settlementChallengeFundingResult = ''''"
  "fr_CanonicalTxLookupPublic zero_settlementChallengeFundingResult = ''''"
  by (simp_all add: zero_settlementChallengeFundingResult_def)

record settlementChallengeFundingVerifyResponse =
  fv_OK :: bool
  fv_FailureCode :: string
  fv_Detail :: string
  fv_Funding :: "settlementChallengeFundingResult option"
  fv_Lookup :: "settlementLookupResponse option"

definition zero_settlementChallengeFundingVerifyResponse :: settlementChallengeFundingVerifyResponse where
  "zero_settlementChallengeFundingVerifyResponse = \<lparr>fv_OK = False, fv_FailureCode = '''', fv_Detail = '''',
     fv_Funding = None, fv_Lookup = None\<rparr>"

lemma zero_settlementChallengeFundingVerifyResponse_sel [simp, zero_simps]:
  "fv_OK zero_settlementChallengeFundingVerifyResponse = False"
  "fv_FailureCode zero_settlementChallengeFundingVerifyResponse = ''''"
  "fv_Detail zero_settlementChallengeFundingVerifyResponse = ''''"
  "fv_Funding zero_settlementChallengeFundingVerifyResponse = None"
  "fv_Lookup zero_settlementChallengeFundingVerifyResponse = None"
  by (simp_all add: zero_settlementChallengeFundingVerifyResponse_def)

record settlementChallengeFundingRecentFilters =
  ff_Limit :: int
  ff_Sender :: string
  ff_SourceApp :: string
  ff_SettlementRunID :: string
  ff_ChallengeID :: string
  ff_SourceEventID :: string
  ff_ParticipantSide :: string
  ff_ParticipantID :: string

definition zero_settlementChallengeFundingRecentFilters :: settlementChallengeFundingRecentFilters where
  "zero_settlementChallengeFundingRecentFilters = \<lparr>ff_Limit = 0, ff_Sender = '''', ff_SourceApp = '''',
     ff_SettlementRunID = '''', ff_ChallengeID = '''', ff_SourceEventID = '''',
     ff_ParticipantSide = '''', ff_ParticipantID = ''''\<rparr>"

lemma zero_settlementChallengeFundingRecentFilters_sel [simp, zero_simps]:
  "ff_Limit zero_settlementChallengeFundingRecentFilters = 0"
  "ff_Sender zero_settlementChallengeFundingRecentFilters = ''''"
  "ff_SourceApp zero_settlementChallengeFundingRecentFilters = ''''"
  "ff_SettlementRunID zero_settlementChallengeFundingRecentFilters = ''''"
  "ff_ChallengeID zero_settlementChallengeFundingRecentFilters = ''''"
  "ff_SourceEventID zero_settlementChallengeFundingRecentFilters = ''''"
  "ff_ParticipantSide zero_settlementChallengeFundingRecentFilters = ''''"
  "ff_ParticipantID zero_settlementChallengeFundingRecentFilters = ''''"
  by (simp_all add: zero_settlementChallengeFundingRecentFilters_def)

record settlementChallengeFundingRecentResponse =
  fc_OK :: bool
  fc_FailureCode :: string
  fc_Detail :: string
  fc_Limit :: int
  fc_Count :: nat
  fc_SenderFilter :: string
  fc_SourceApp :: string
  fc_SettlementRunID :: string
  fc_ChallengeID :: string
  fc_SourceEventID :: string
  fc_ParticipantSide :: string
  fc_ParticipantID :: string
  fc_Funding :: "settlementChallengeFundingResult list"

definition zero_settlementChallengeFundingRecentResponse :: settlementChallengeFundingRecentResponse where
  "zero_settlementChallengeFundingRecentResponse = \<lparr>fc_OK = False, fc_FailureCode = '''', fc_Detail = '''',
     fc_Limit = 0, fc_Count = 0, fc_SenderFilter = '''',
     fc_SourceApp = '''', fc_SettlementRunID = '''', fc_ChallengeID = '''',
     fc_SourceEventID = '''', fc_ParticipantSide = '''', fc_ParticipantID = '''',
     fc_Funding = []\<rparr>"

lemma zero_settlementChallengeFundingRecentResponse_sel [simp, zero_simps]:
  "fc_OK zero_settlementChallengeFundingRecentResponse = False"
  "fc_FailureCode zero_settlementChallengeFundingRecentResponse = ''''"
  "fc_Detail zero_settlementChallengeFundingRecentResponse = ''''"
  "fc_Limit zero_settlementChallengeFundingRecentResponse = 0"
  "fc_Count zero_settlementChallengeFundingRecentResponse = 0"
  "fc_SenderFilter zero_settlementChallengeFundingRecentResponse = ''''"
  "fc_SourceApp zero_settlementChallengeFundingRecentResponse = ''''"
  "fc_SettlementRunID zero_settlementChallengeFundingRecentResponse = ''''"
  "fc_ChallengeID zero_settlementChallengeFundingRecentResponse = ''''"
  "fc_SourceEventID zero_settlementChallengeFundingRecentResponse = ''''"
  "fc_ParticipantSide zero_settlementChallengeFundingRecentResponse = ''''"
  "fc_ParticipantID zero_settlementChallengeFundingRecentResponse = ''''"
  "fc_Funding zero_settlementChallengeFundingRecentResponse = []"
  by (simp_all add: zero_settlementChallengeFundingRecentResponse_def)

record settlementChallengeFundingInput =
  fi_FundingTxHash :: string
  fi_DepositorAddress :: string
  fi_SettlementRunID :: string
  fi_ParticipantSide :: string
  fi_ParticipantID :: string
  fi_ExpectedAmountUWolo :: string
  fi_WagerUWolo :: string
  fi_GuaranteeUWolo :: string

definition zero_settlementChallengeFundingInput :: settlementChallengeFundingInput where
  "zero_settlementChallengeFundingInput = \<lparr>fi_FundingTxHash = '''', fi_DepositorAddress = '''', fi_SettlementRunID = '''',
     fi_ParticipantSide = '''', fi_ParticipantID = '''', fi_ExpectedAmountUWolo = '''',
     fi_WagerUWolo = '''', fi_GuaranteeUWolo = ''''\<rparr>"

lemma zero_settlementChallengeFundingInput_sel [simp, zero_simps]:
  "fi_FundingTxHash zero_settlementChallengeFundingInput = ''''"
  "fi_DepositorAddress zero_settlementChallengeFundingInput = ''''"
  "fi_SettlementRunID zero_settlementChallengeFundingInput = ''''"
  "fi_ParticipantSide zero_settlementChallengeFundingInput = ''''"
  "fi_ParticipantID zero_settlementChallengeFundingInput = ''''"
  "fi_ExpectedAmountUWolo zero_settlementChallengeFundingInput = ''''"
  "fi_WagerUWolo zero_settlementChallengeFundingInput = ''''"
  "fi_GuaranteeUWolo zero_settlementChallengeFundingInput = ''''"
  by (simp_all add: zero_settlementChallengeFundingInput_def)

record settlementChallengeTransferInput =
  ti_RequestID :: string
  ti_ParticipantSide :: string
  ti_ParticipantID :: string
  ti_Bucket :: string
  ti_Reason :: string
  ti_ToAddress :: string
  ti_AmountUWolo :: string
  ti_AmountWolo :: i64
  ti_Memo :: string

definition zero_settlementChallengeTransferInput :: settlementChallengeTransferInput where
  "zero_settlementChallengeTransferInput = \<lparr>ti_RequestID = '''', ti_ParticipantSide = '''', ti_ParticipantID = '''',
     ti_Bucket = '''', ti_Reason = '''', ti_ToAddress = '''',
     ti_AmountUWolo = '''', ti_AmountWolo = 0, ti_Memo = ''''\<rparr>"

lemma zero_settlementChallengeTransferInput_sel [simp, zero_simps]:
  "ti_RequestID zero_settlementChallengeTransferInput = ''''"
  "ti_ParticipantSide zero_settlementChallengeTransferInput = ''''"
  "ti_ParticipantID zero_settlementChallengeTransferInput = ''''"
  "ti_Bucket zero_settlementChallengeTransferInput = ''''"
  "ti_Reason zero_settlementChallengeTransferInput = ''''"
  "ti_ToAddress zero_settlementChallengeTransferInput = ''''"
  "ti_AmountUWolo zero_settlementChallengeTransferInput = ''''"
  "ti_AmountWolo zero_settlementChallengeTransferInput = 0"
  "ti_Memo zero_settlementChallengeTransferInput = ''''"
  by (simp_all add: zero_settlementChallengeTransferInput_def)

record settlementChallengeRequest =
  cq_SettlementRunID :: string
  cq_SourceApp :: string
  cq_ChallengeID :: string
  cq_SourceEventID :: string
  cq_TreasuryAddress :: string
  cq_Note :: string
  cq_Memo :: string
  cq_Funding :: "settlementChallengeFundingInput list"
  cq_Transfers :: "settlementChallengeTransferInput list"

definition zero_settlementChallengeRequest :: settlementChallengeRequest where
  "zero_settlementChallengeRequest = \<lparr>cq_SettlementRunID = '''', cq_SourceApp = '''', cq_ChallengeID = '''',
     cq_SourceEventID = '''', cq_TreasuryAddress = '''', cq_Note = '''',
     cq_Memo = '''', cq_Funding = [], cq_Transfers = []\<rparr>"

lemma zero_settlementChallengeRequest_sel [simp, zero_simps]:
  "cq_SettlementRunID zero_settlementChallengeRequest = ''''"
  "cq_SourceApp zero_settlementChallengeRequest = ''''"
  "cq_ChallengeID zero_settlementChallengeRequest = ''''"
  "cq_SourceEventID zero_settlementChallengeRequest = ''''"
  "cq_TreasuryAddress zero_settlementChallengeRequest = ''''"
  "cq_Note zero_settlementChallengeRequest = ''''"
  "cq_Memo zero_settlementChallengeRequest = ''''"
  "cq_Funding zero_settlementChallengeRequest = []"
  "cq_Transfers zero_settlementChallengeRequest = []"
  by (simp_all add: zero_settlementChallengeRequest_def)

record normalizedSettlementChallengeFundingInput =
  nf_FundingTxHash :: string
  nf_DepositorAddress :: string
  nf_SettlementRunID :: string
  nf_ParticipantSide :: string
  nf_ParticipantID :: string
  nf_ExpectedAmountUWolo :: string
  nf_WagerUWolo :: string
  nf_GuaranteeUWolo :: string

definition zero_normalizedSettlementChallengeFundingInput :: normalizedSettlementChallengeFundingInput where
  "zero_normalizedSettlementChallengeFundingInput = \<lparr>nf_FundingTxHash = '''', nf_DepositorAddress = '''', nf_SettlementRunID = '''',
     nf_ParticipantSide = '''', nf_ParticipantID = '''', nf_ExpectedAmountUWolo = '''',
     nf_WagerUWolo = '''', nf_GuaranteeUWolo = ''''\<rparr>"

lemma zero_normalizedSettlementChallengeFundingInput_sel [simp, zero_simps]:
  "nf_FundingTxHash zero_normalizedSettlementChallengeFundingInput = ''''"
  "nf_DepositorAddress zero_normalizedSettlementChallengeFundingInput = ''''"
  "nf_SettlementRunID zero_normalizedSettlementChallengeFundingInput = ''''"
  "nf_ParticipantSide zero_normalizedSettlementChallengeFundingInput = ''''"
  "nf_ParticipantID zero_normalizedSettlementChallengeFundingInput = ''''"
  "nf_ExpectedAmountUWolo zero_normalizedSettlementChallengeFundingInput = ''''"
  "nf_WagerUWolo zero_normalizedSettlementChallengeFundingInput = ''''"
  "nf_GuaranteeUWolo zero_normalizedSettlementChallengeFundingInput = ''''"
  by (simp_all add: zero_normalizedSettlementChallengeFundingInput_def)

record normalizedSettlementChallengeTransfer =
  nt_Index :: nat
  nt_RequestID :: string
  nt_ParticipantSide :: string
  nt_ParticipantID :: string
  nt_Bucket :: string
  nt_Reason :: string
  nt_ToAddress :: string
  nt_AmountUWolo :: string
  nt_Memo :: string

definition zero_normalizedSettlementChallengeTransfer :: normalizedSettlementChallengeTransfer where
  "zero_normalizedSettlementChallengeTransfer = \<lparr>nt_Index = 0, nt_RequestID = '''', nt_ParticipantSide = '''',
     nt_ParticipantID = '''', nt_Bucket = '''', nt_Reason = '''',
     nt_ToAddress = '''', nt_AmountUWolo = '''', nt_Memo = ''''\<rparr>"

lemma zero_normalizedSettlementChallengeTransfer_sel [simp, zero_simps]:
  "nt_Index zero_normalizedSettlementChallengeTransfer = 0"
  "nt_RequestID zero_normalizedSettlementChallengeTransfer = ''''"
  "nt_ParticipantSide zero_normalizedSettlementChallengeTransfer = ''''"
  "nt_ParticipantID zero_normalizedSettlementChallengeTransfer = ''''"
  "nt_Bucket zero_normalizedSettlementChallengeTransfer = ''''"
  "nt_Reason zero_normalizedSettlementChallengeTransfer = ''''"
  "nt_ToAddress zero_normalizedSettlementChallengeTransfer = ''''"
  "nt_AmountUWolo zero_normalizedSettlementChallengeTransfer = ''''"
  "nt_Memo zero_normalizedSettlementChallengeTransfer = ''''"
  by (simp_all add: zero_normalizedSettlementChallengeTransfer_def)

record normalizedSettlementChallengeRequest =
  nc_SettlementRunID :: string
  nc_SourceApp :: string
  nc_ChallengeID :: string
  nc_SourceEventID :: string
  nc_TreasuryAddress :: string
  nc_Note :: string
  nc_Memo :: string
  nc_Funding :: "normalizedSettlementChallengeFundingInput list"
  nc_Transfers :: "normalizedSettlementChallengeTransfer list"

definition zero_normalizedSettlementChallengeRequest :: normalizedSettlementChallengeRequest where
  "zero_normalizedSettlementChallengeRequest = \<lparr>nc_SettlementRunID = '''', nc_SourceApp = '''', nc_ChallengeID = '''',
     nc_SourceEventID = '''', nc_TreasuryAddress = '''', nc_Note = '''',
     nc_Memo = '''', nc_Funding = [], nc_Transfers = []\<rparr>"

lemma zero_normalizedSettlementChallengeRequest_sel [simp, zero_simps]:
  "nc_SettlementRunID zero_normalizedSettlementChallengeRequest = ''''"
  "nc_SourceApp zero_normalizedSettlementChallengeRequest = ''''"
  "nc_ChallengeID zero_normalizedSettlementChallengeRequest = ''''"
  "nc_SourceEventID zero_normalizedSettlementChallengeRequest = ''''"
  "nc_TreasuryAddress zero_normalizedSettlementChallengeRequest = ''''"
  "nc_Note zero_normalizedSettlementChallengeRequest = ''''"
  "nc_Memo zero_normalizedSettlementChallengeRequest = ''''"
  "nc_Funding zero_normalizedSettlementChallengeRequest = []"
  "nc_Transfers zero_normalizedSettlementChallengeRequest = []"
  by (simp_all add: zero_normalizedSettlementChallengeRequest_def)

record settlementChallengeTransferResult =
  ct_Index :: nat
  ct_RequestID :: string
  ct_ParticipantSide :: string
  ct_ParticipantID :: string
  ct_Bucket :: string
  ct_Reason :: string
  ct_Attempted :: bool
  ct_OK :: bool
  ct_Status :: string
  ct_Outcome :: string
  ct_FailureCode :: string
  ct_Retryable :: bool
  ct_IdempotentReplay :: bool
  ct_SignerRole :: string
  ct_SignerAddress :: string
  ct_ToAddress :: string
  ct_AmountUWolo :: string
  ct_AmountWolo :: string
  ct_Memo :: string
  ct_TxHash :: string
  ct_Detail :: string
  ct_CanonicalTxLookup :: string
  ct_CanonicalTxLookupPreferred :: string
  ct_CanonicalTxLookupInternal :: string
  ct_CanonicalTxLookupPublic :: string
  ct_Warnings :: "string list"

definition zero_settlementChallengeTransferResult :: settlementChallengeTransferResult where
  "zero_settlementChallengeTransferResult = \<lparr>ct_Index = 0, ct_RequestID = '''', ct_ParticipantSide = '''',
     ct_ParticipantID = '''', ct_Bucket = '''', ct_Reason = '''',
     ct_Attempted = False, ct_OK = False, ct_Status = '''',
     ct_Outcome = '''', ct_FailureCode = '''', ct_Retryable = False,
     ct_IdempotentReplay = False, ct_SignerRole = '''', ct_SignerAddress = '''',
     ct_ToAddress = '''', ct_AmountUWolo = '''', ct_AmountWolo = '''',
     ct_Memo = '''', ct_TxHash = '''', ct_Detail = '''',
     ct_CanonicalTxLookup = '''', ct_CanonicalTxLookupPreferred = '''', ct_CanonicalTxLookupInternal = '''',
     ct_CanonicalTxLookupPublic = '''', ct_Warnings = []\<rparr>"

lemma zero_settlementChallengeTransferResult_sel [simp, zero_simps]:
  "ct_Index zero_settlementChallengeTransferResult = 0"
  "ct_RequestID zero_settlementChallengeTransferResult = ''''"
  "ct_ParticipantSide zero_settlementChallengeTransferResult = ''''"
  "ct_ParticipantID zero_settlementChallengeTransferResult = ''''"
  "ct_Bucket zero_settlementChallengeTransferResult = ''''"
  "ct_Reason zero_settlementChallengeTransferResult = ''''"
  "ct_Attempted zero_settlementChallengeTransferResult = False"
  "ct_OK zero_settlementChallengeTransferResult = False"
  "ct_Status zero_settlementChallengeTransferResult = ''''"
  "ct_Outcome zero_settlementChallengeTransferResult = ''''"
  "ct_FailureCode zero_settlementChallengeTransferResult = ''''"
  "ct_Retryable zero_settlementChallengeTransferResult = False"
  "ct_IdempotentReplay zero_settlementChallengeTransferResult = False"
  "ct_SignerRole zero_settlementChallengeTransferResult = ''''"
  "ct_SignerAddress zero_settlementChallengeTransferResult = ''''"
  "ct_ToAddress zero_settlementChallengeTransferResult = ''''"
  "ct_AmountUWolo zero_settlementChallengeTransferResult = ''''"
  "ct_AmountWolo zero_settlementChallengeTransferResult = ''''"
  "ct_Memo zero_settlementChallengeTransferResult = ''''"
  "ct_TxHash zero_settlementChallengeTransferResult = ''''"
  "ct_Detail zero_settlementChallengeTransferResult = ''''"
  "ct_CanonicalTxLookup zero_settlementChallengeTransferResult = ''''"
  "ct_CanonicalTxLookupPreferred zero_settlementChallengeTransferResult = ''''"
  "ct_CanonicalTxLookupInternal zero_settlementChallengeTransferResult = ''''"
  "ct_CanonicalTxLookupPublic zero_settlementChallengeTransferResult = ''''"
  "ct_Warnings zero_settlementChallengeTransferResult = []"
  by (simp_all add: zero_settlementChallengeTransferResult_def)

record settlementChallengeBucketTotals =
  bt_Bucket :: string
  bt_RequestedUWolo :: string
  bt_RequestedWolo :: string
  bt_ExecutedUWolo :: string
  bt_ExecutedWolo :: string
  bt_ConfirmedUWolo :: string
  bt_ConfirmedWolo :: string
  bt_AcceptedUWolo :: string
  bt_AcceptedWolo :: string
  bt_RefusedUWolo :: string
  bt_RefusedWolo :: string
  bt_RejectedUWolo :: string
  bt_RejectedWolo :: string

definition zero_settlementChallengeBucketTotals :: settlementChallengeBucketTotals where
  "zero_settlementChallengeBucketTotals = \<lparr>bt_Bucket = '''', bt_RequestedUWolo = '''', bt_RequestedWolo = '''',
     bt_ExecutedUWolo = '''', bt_ExecutedWolo = '''', bt_ConfirmedUWolo = '''',
     bt_ConfirmedWolo = '''', bt_AcceptedUWolo = '''', bt_AcceptedWolo = '''',
     bt_RefusedUWolo = '''', bt_RefusedWolo = '''', bt_RejectedUWolo = '''',
     bt_RejectedWolo = ''''\<rparr>"

lemma zero_settlementChallengeBucketTotals_sel [simp, zero_simps]:
  "bt_Bucket zero_settlementChallengeBucketTotals = ''''"
  "bt_RequestedUWolo zero_settlementChallengeBucketTotals = ''''"
  "bt_RequestedWolo zero_settlementChallengeBucketTotals = ''''"
  "bt_ExecutedUWolo zero_settlementChallengeBucketTotals = ''''"
  "bt_ExecutedWolo zero_settlementChallengeBucketTotals = ''''"
  "bt_ConfirmedUWolo zero_settlementChallengeBucketTotals = ''''"
  "bt_ConfirmedWolo zero_settlementChallengeBucketTotals = ''''"
  "bt_AcceptedUWolo zero_settlementChallengeBucketTotals = ''''"
  "bt_AcceptedWolo zero_settlementChallengeBucketTotals = ''''"
  "bt_RefusedUWolo zero_settlementChallengeBucketTotals = ''''"
  "bt_RefusedWolo zero_settlementChallengeBucketTotals = ''''"
  "bt_RejectedUWolo zero_settlementChallengeBucketTotals = ''''"
  "bt_RejectedWolo zero_settlementChallengeBucketTotals = ''''"
  by (simp_all add: zero_settlementChallengeBucketTotals_def)

record settlementChallengeTopUpResult =
  tu_Required :: bool
  tu_Enabled :: bool
  tu_Possible :: bool
  tu_FailureCode :: string
  tu_Detail :: string
  tu_RequestID :: string
  tu_SignerRole :: string
  tu_FromAddress :: string
  tu_ToAddress :: string
  tu_AmountUWolo :: string
  tu_AmountWolo :: string
  tu_PayoutBalanceBeforeUWolo :: string
  tu_PayoutBalanceBeforeWolo :: string
  tu_RequiredPayoutBalanceUWolo :: string
  tu_RequiredPayoutBalanceWolo :: string
  tu_EscrowBalanceUWolo :: string
  tu_EscrowBalanceWolo :: string
  tu_Response :: "settlementExecuteResponse option"

definition zero_settlementChallengeTopUpResult :: settlementChallengeTopUpResult where
  "zero_settlementChallengeTopUpResult = \<lparr>tu_Required = False, tu_Enabled = False, tu_Possible = False,
     tu_FailureCode = '''', tu_Detail = '''', tu_RequestID = '''',
     tu_SignerRole = '''', tu_FromAddress = '''', tu_ToAddress = '''',
     tu_AmountUWolo = '''', tu_AmountWolo = '''', tu_PayoutBalanceBeforeUWolo = '''',
     tu_PayoutBalanceBeforeWolo = '''', tu_RequiredPayoutBalanceUWolo = '''', tu_RequiredPayoutBalanceWolo = '''',
     tu_EscrowBalanceUWolo = '''', tu_EscrowBalanceWolo = '''', tu_Response = None\<rparr>"

lemma zero_settlementChallengeTopUpResult_sel [simp, zero_simps]:
  "tu_Required zero_settlementChallengeTopUpResult = False"
  "tu_Enabled zero_settlementChallengeTopUpResult = False"
  "tu_Possible zero_settlementChallengeTopUpResult = False"
  "tu_FailureCode zero_settlementChallengeTopUpResult = ''''"
  "tu_Detail zero_settlementChallengeTopUpResult = ''''"
  "tu_RequestID zero_settlementChallengeTopUpResult = ''''"
  "tu_SignerRole zero_settlementChallengeTopUpResult = ''''"
  "tu_FromAddress zero_settlementChallengeTopUpResult = ''''"
  "tu_ToAddress zero_settlementChallengeTopUpResult = ''''"
  "tu_AmountUWolo zero_settlementChallengeTopUpResult = ''''"
  "tu_AmountWolo zero_settlementChallengeTopUpResult = ''''"
  "tu_PayoutBalanceBeforeUWolo zero_settlementChallengeTopUpResult = ''''"
  "tu_PayoutBalanceBeforeWolo zero_settlementChallengeTopUpResult = ''''"
  "tu_RequiredPayoutBalanceUWolo zero_settlementChallengeTopUpResult = ''''"
  "tu_RequiredPayoutBalanceWolo zero_settlementChallengeTopUpResult = ''''"
  "tu_EscrowBalanceUWolo zero_settlementChallengeTopUpResult = ''''"
  "tu_EscrowBalanceWolo zero_settlementChallengeTopUpResult = ''''"
  "tu_Response zero_settlementChallengeTopUpResult = None"
  by (simp_all add: zero_settlementChallengeTopUpResult_def)

record settlementChallengeResponse =
  cr_OK :: bool
  cr_DryRun :: bool
  cr_Status :: string
  cr_FailureCode :: string
  cr_Retryable :: bool
  cr_IdempotentReplay :: bool
  cr_SettlementRunID :: string
  cr_SourceApp :: string
  cr_ChallengeID :: string
  cr_SourceEventID :: string
  cr_TreasuryAddress :: string
  cr_Note :: string
  cr_Memo :: string
  cr_ParticipantCount :: nat
  cr_FundingCount :: nat
  cr_FundingVerifiedCount :: nat
  cr_RequestedTransferCount :: nat
  cr_ExecutedTransferCount :: nat
  cr_ConfirmedTransferCount :: nat
  cr_AcceptedTransferCount :: nat
  cr_RefusedTransferCount :: nat
  cr_RejectedTransferCount :: nat
  cr_ReplayTransferCount :: nat
  cr_FundingTotalUWolo :: string
  cr_FundingTotalWolo :: string
  cr_RequestedTotalUWolo :: string
  cr_RequestedTotalWolo :: string
  cr_ExecutedTotalUWolo :: string
  cr_ExecutedTotalWolo :: string
  cr_ConfirmedTotalUWolo :: string
  cr_ConfirmedTotalWolo :: string
  cr_AcceptedTotalUWolo :: string
  cr_AcceptedTotalWolo :: string
  cr_RefusedTotalUWolo :: string
  cr_RefusedTotalWolo :: string
  cr_RejectedTotalUWolo :: string
  cr_RejectedTotalWolo :: string
  cr_BucketTotals :: "settlementChallengeBucketTotals list"
  cr_TopUp :: "settlementChallengeTopUpResult option"
  cr_Detail :: string
  cr_Funding :: "settlementChallengeFundingResult list"
  cr_Transfers :: "settlementChallengeTransferResult list"
  cr_Run :: "settlementRunResponse option"

definition zero_settlementChallengeResponse :: settlementChallengeResponse where
  "zero_settlementChallengeResponse = \<lparr>cr_OK = False, cr_DryRun = False, cr_Status = '''',
     cr_FailureCode = '''', cr_Retryable = False, cr_IdempotentReplay = False,
     cr_SettlementRunID = '''', cr_SourceApp = '''', cr_ChallengeID = '''',
     cr_SourceEventID = '''', cr_TreasuryAddress = '''', cr_Note = '''',
     cr_Memo = '''', cr_ParticipantCount = 0, cr_FundingCount = 0,
     cr_FundingVerifiedCount = 0, cr_RequestedTransferCount = 0, cr_ExecutedTransferCount = 0,
     cr_ConfirmedTransferCount = 0, cr_AcceptedTransferCount = 0, cr_RefusedTransferCount = 0,
     cr_RejectedTransferCount = 0, cr_ReplayTransferCount = 0, cr_FundingTotalUWolo = '''',
     cr_FundingTotalWolo = '''', cr_RequestedTotalUWolo = '''', cr_RequestedTotalWolo = '''',
     cr_ExecutedTotalUWolo = '''', cr_ExecutedTotalWolo = '''', cr_ConfirmedTotalUWolo = '''',
     cr_ConfirmedTotalWolo = '''', cr_AcceptedTotalUWolo = '''', cr_AcceptedTotalWolo = '''',
     cr_RefusedTotalUWolo = '''', cr_RefusedTotalWolo = '''', cr_RejectedTotalUWolo = '''',
     cr_RejectedTotalWolo = '''', cr_BucketTotals = [], cr_TopUp = None,
     cr_Detail = '''', cr_Funding = [], cr_Transfers = [],
     cr_Run = None\<rparr>"

lemma zero_settlementChallengeResponse_sel [simp, zero_simps]:
  "cr_OK zero_settlementChallengeResponse = False"
  "cr_DryRun zero_settlementChallengeResponse = False"
  "cr_Status zero_settlementChallengeResponse = ''''"
  "cr_FailureCode zero_settlementChallengeResponse = ''''"
  "cr_Retryable zero_settlementChallengeResponse = False"
  "cr_IdempotentReplay zero_settlementChallengeResponse = False"
  "cr_SettlementRunID zero_settlementChallengeResponse = ''''"
  "cr_SourceApp zero_settlementChallengeResponse = ''''"
  "cr_ChallengeID zero_settlementChallengeResponse = ''''"
  "cr_SourceEventID zero_settlementChallengeResponse = ''''"
  "cr_TreasuryAddress zero_settlementChallengeResponse = ''''"
  "cr_Note zero_settlementChallengeResponse = ''''"
  "cr_Memo zero_settlementChallengeResponse = ''''"
  "cr_ParticipantCount zero_settlementChallengeResponse = 0"
  "cr_FundingCount zero_settlementChallengeResponse = 0"
  "cr_FundingVerifiedCount zero_settlementChallengeResponse = 0"
  "cr_RequestedTransferCount zero_settlementChallengeResponse = 0"
  "cr_ExecutedTransferCount zero_settlementChallengeResponse = 0"
  "cr_ConfirmedTransferCount zero_settlementChallengeResponse = 0"
  "cr_AcceptedTransferCount zero_settlementChallengeResponse = 0"
  "cr_RefusedTransferCount zero_settlementChallengeResponse = 0"
  "cr_RejectedTransferCount zero_settlementChallengeResponse = 0"
  "cr_ReplayTransferCount zero_settlementChallengeResponse = 0"
  "cr_FundingTotalUWolo zero_settlementChallengeResponse = ''''"
  "cr_FundingTotalWolo zero_settlementChallengeResponse = ''''"
  "cr_RequestedTotalUWolo zero_settlementChallengeResponse = ''''"
  "cr_RequestedTotalWolo zero_settlementChallengeResponse = ''''"
  "cr_ExecutedTotalUWolo zero_settlementChallengeResponse = ''''"
  "cr_ExecutedTotalWolo zero_settlementChallengeResponse = ''''"
  "cr_ConfirmedTotalUWolo zero_settlementChallengeResponse = ''''"
  "cr_ConfirmedTotalWolo zero_settlementChallengeResponse = ''''"
  "cr_AcceptedTotalUWolo zero_settlementChallengeResponse = ''''"
  "cr_AcceptedTotalWolo zero_settlementChallengeResponse = ''''"
  "cr_RefusedTotalUWolo zero_settlementChallengeResponse = ''''"
  "cr_RefusedTotalWolo zero_settlementChallengeResponse = ''''"
  "cr_RejectedTotalUWolo zero_settlementChallengeResponse = ''''"
  "cr_RejectedTotalWolo zero_settlementChallengeResponse = ''''"
  "cr_BucketTotals zero_settlementChallengeResponse = []"
  "cr_TopUp zero_settlementChallengeResponse = None"
  "cr_Detail zero_settlementChallengeResponse = ''''"
  "cr_Funding zero_settlementChallengeResponse = []"
  "cr_Transfers zero_settlementChallengeResponse = []"
  "cr_Run zero_settlementChallengeResponse = None"
  by (simp_all add: zero_settlementChallengeResponse_def)

record settlementChallengeStoredResult =
  cs_Request :: normalizedSettlementChallengeRequest
  cs_Fingerprint :: string
  cs_Response :: settlementChallengeResponse
  cs_UpdatedAt :: int

definition zero_settlementChallengeStoredResult :: settlementChallengeStoredResult where
  "zero_settlementChallengeStoredResult = \<lparr>cs_Request = zero_normalizedSettlementChallengeRequest, cs_Fingerprint = '''', cs_Response = zero_settlementChallengeResponse,
     cs_UpdatedAt = 0\<rparr>"

lemma zero_settlementChallengeStoredResult_sel [simp, zero_simps]:
  "cs_Request zero_settlementChallengeStoredResult = zero_normalizedSettlementChallengeRequest"
  "cs_Fingerprint zero_settlementChallengeStoredResult = ''''"
  "cs_Response zero_settlementChallengeStoredResult = zero_settlementChallengeResponse"
  "cs_UpdatedAt zero_settlementChallengeStoredResult = 0"
  by (simp_all add: zero_settlementChallengeStoredResult_def)

record verifiedSettlementChallengeFunding =
  vf_Result :: settlementChallengeFundingResult

definition zero_verifiedSettlementChallengeFunding :: verifiedSettlementChallengeFunding where
  "zero_verifiedSettlementChallengeFunding = \<lparr>vf_Result = zero_settlementChallengeFundingResult\<rparr>"

lemma zero_verifiedSettlementChallengeFunding_sel [simp, zero_simps]:
  "vf_Result zero_verifiedSettlementChallengeFunding = zero_settlementChallengeFundingResult"
  by (simp_all add: zero_verifiedSettlementChallengeFunding_def)

record settlementChallengePlan =
  pl_Normalized :: normalizedSettlementChallengeRequest
  pl_Response :: settlementChallengeResponse
  pl_RunRequest :: settlementRunRequest

definition zero_settlementChallengePlan :: settlementChallengePlan where
  "zero_settlementChallengePlan = \<lparr>pl_Normalized = zero_normalizedSettlementChallengeRequest, pl_Response = zero_settlementChallengeResponse, pl_RunRequest = zero_settlementRunRequest\<rparr>"

lemma zero_settlementChallengePlan_sel [simp, zero_simps]:
  "pl_Normalized zero_settlementChallengePlan = zero_normalizedSettlementChallengeRequest"
  "pl_Response zero_settlementChallengePlan = zero_settlementChallengeResponse"
  "pl_RunRequest zero_settlementChallengePlan = zero_settlementRunRequest"
  by (simp_all add: zero_settlementChallengePlan_def)

end
