(* ===== verification/Requests.thy ===== *)
theory Requests
  imports Challenge_Types
begin

text \<open>
  Request validation and money amounts (settlement.go): the identifier patterns, the normalisation
  of a single payout request, the signer roles, the decimal and display forms of \<open>uint64\<close> amounts
  in micro-WOLO, Cosmos coin strings and the fee estimate of a grouped run.  A Go \<open>error\<close> result is
  \<open>Inl\<close> of its message, success is \<open>Inr\<close>.

  The lemmas show that a normalised request is a fixed point of the normalisation (with the two
  ways in which it is not), that amounts and their display form determine each other, and that
  coin lists are read back as printed.
\<close>

section \<open>Identifier patterns\<close>

fun matchClass :: "(char \<Rightarrow> bool) \<Rightarrow> (char \<Rightarrow> bool) \<Rightarrow> nat \<Rightarrow> nat \<Rightarrow> string \<Rightarrow> bool" where
  "matchClass first rest lo hi [] = False"
| "matchClass first rest lo hi (c # cs) =
     (first c \<and> list_all rest cs \<and> lo \<le> length cs \<and> length cs \<le> hi)"

definition settlementRequestIDPattern :: "string \<Rightarrow> bool" where
  "settlementRequestIDPattern = matchClass isAlnum (\<lambda>c. isAlnum c \<or> c \<in> set ''._:-'') 2 127"

definition settlementSourceEventPattern :: "string \<Rightarrow> bool" where
  "settlementSourceEventPattern = matchClass isAlnum (\<lambda>c. isAlnum c \<or> c \<in> set ''._:/-'') 0 127"

lemma matchClass_graph:
  assumes "matchClass first rest lo hi s"
    and "\<And>c. first c \<Longrightarrow> isGraph c" and "\<And>c. rest c \<Longrightarrow> isGraph c"
  shows "list_all isGraph s"
  using assms by (cases s) (auto simp: list_all_iff)

lemma punct_graph [simp]:
  "isGraph (CHR ''.'')" "isGraph (CHR ''_'')" "isGraph (CHR '':'')" "isGraph (CHR ''/'')" "isGraph (CHR ''-'')"
  by (simp_all add: isGraph_def byte_def)

lemma requestID_graph: "settlementRequestIDPattern s \<Longrightarrow> list_all isGraph s"
  unfolding settlementRequestIDPattern_def by (erule matchClass_graph) auto

lemma requestID_trim: "settlementRequestIDPattern s \<Longrightarrow> TrimSpace s = s"
  by (simp add: TrimSpace_graph requestID_graph)

lemma requestID_nonempty: "settlementRequestIDPattern s \<Longrightarrow> s \<noteq> []"
  by (auto simp: settlementRequestIDPattern_def)

section \<open>Addresses, hashes and roles\<close>

definition isWoloAddress :: "string \<Rightarrow> string \<Rightarrow> bool" where
  "isWoloAddress address addressPrefix =
     (let address = TrimSpace address in
      address \<noteq> [] \<and> prefix (ToLower addressPrefix @ ''1'') (ToLower address))"

definition normalizeTxHash :: "string \<Rightarrow> string" where
  "normalizeTxHash txHash = ToUpper (TrimSpace txHash)"

definition isHexHash :: "string \<Rightarrow> bool" where
  "isHexHash txHash = (if length txHash = 0 \<or> length txHash mod 2 \<noteq> 0 then False else hexDecodable txHash)"

definition normalizeSettlementRunSignerRole :: "string \<Rightarrow> string \<times> string option" where
  "normalizeSettlementRunSignerRole role =
     (let normalized = TrimSpace (ToLower role) in
      if normalized = [] then (settlementSignerRole, None)
      else if normalized = settlementSignerRole \<or> normalized = settlementEscrowSignerRole then (normalized, None)
      else (normalized, Some (''signer_role must be '' @ Quote settlementSignerRole @ '' or '' @ Quote settlementEscrowSignerRole)))"

definition normalizeStoredSettlementSignerRole :: "string \<Rightarrow> string" where
  "normalizeStoredSettlementSignerRole role =
     (let trimmed = TrimSpace (ToLower role) in if trimmed = [] then settlementSignerRole else trimmed)"

definition requestIDMessage :: string where
  "requestIDMessage = ''request_id must be 3-128 chars using letters, numbers, dot, underscore, colon, or dash''"

definition validateSettlementRunID :: "string \<Rightarrow> string option" where
  "validateSettlementRunID runID =
     (if \<not> settlementRequestIDPattern runID
      then Some ''settlement_run_id must be 3-128 chars using letters, numbers, dot, underscore, colon, or dash''
      else if length runID > 96
      then Some ''settlement_run_id must be 96 chars or fewer so derived payout request ids remain stable''
      else None)"

definition normalizeSettlementRunMetadataID :: "string \<Rightarrow> string \<Rightarrow> nat \<Rightarrow> (string \<Rightarrow> bool) \<Rightarrow> string + string" where
  "normalizeSettlementRunMetadataID fieldName value maxLen pattern =
     (let value = TrimSpace value in
      if value = [] then Inr []
      else if length value > maxLen then Inl (fieldName @ '' must be '' @ Itoa maxLen @ '' chars or fewer'')
      else if \<not> pattern value then Inl (fieldName @ '' uses unsupported characters'')
      else Inr value)"

definition deriveSettlementRunRequestID :: "string \<Rightarrow> nat \<Rightarrow> string" where
  "deriveSettlementRunRequestID runID index = runID @ '':item-'' @ padZero 3 (Itoa (index + 1))"

section \<open>Amounts\<close>

definition normalizeAmountUWolo :: "string \<Rightarrow> i64 \<Rightarrow> string + string" where
  "normalizeAmountUWolo amountUWolo amountWolo =
     (let trimmed = TrimSpace amountUWolo in
      if trimmed \<noteq> [] \<and> sint amountWolo > 0 then Inl ''provide either amount_uwolo or amount_wolo, not both''
      else if trimmed = [] \<and> sint amountWolo \<le> 0 then Inl ''amount_uwolo or amount_wolo is required''
      else if trimmed \<noteq> [] then
        (case ParseUint trimmed of
           Inl _ \<Rightarrow> Inl ''amount_uwolo must be a positive integer''
         | Inr _ \<Rightarrow> if trimmed = ''0'' then Inl ''amount_uwolo must be greater than zero'' else Inr trimmed)
      else if sint amountWolo \<le> 0 then Inl ''amount_wolo must be greater than zero''
      else Inr (FormatInt (sint (amountWolo * 1000000))))"

text \<open>Go's \<open>/\<close> and \<open>%\<close> on signed integers truncate towards zero.\<close>

definition goQuot :: "int \<Rightarrow> int \<Rightarrow> int" where
  "goQuot a b = sgn a * sgn b * (\<bar>a\<bar> div \<bar>b\<bar>)"

definition goRem :: "int \<Rightarrow> int \<Rightarrow> int" where
  "goRem a b = a - goQuot a b * b"

definition formatDisplayAmount :: "string \<Rightarrow> string" where
  "formatDisplayAmount amountUWolo =
     (if amountUWolo = [] then []
      else case ParseInt amountUWolo of
        Inl _ \<Rightarrow> []
      | Inr parsed \<Rightarrow> FormatInt (goQuot parsed 1000000) @ ''.'' @ formatPadded 6 (goRem parsed 1000000))"

definition parseOptionalUWoloString :: "string \<Rightarrow> numError + u64" where
  "parseOptionalUWoloString value =
     (let trimmed = TrimSpace value in if trimmed = [] then Inr 0 else ParseUint trimmed)"

text \<open>The value a caller sees that ignores the error of \<open>parseOptionalUWoloString\<close>.\<close>

definition parseOptionalUWoloVal :: "string \<Rightarrow> u64" where
  "parseOptionalUWoloVal value =
     (let trimmed = TrimSpace value in if trimmed = [] then 0 else ParseUintVal trimmed)"

definition formatOptionalRunAmount :: "u64 \<Rightarrow> string" where
  "formatOptionalRunAmount amount = (if amount = 0 then [] else FormatUint amount)"

definition formatOptionalRunDisplayAmount :: "u64 \<Rightarrow> string" where
  "formatOptionalRunDisplayAmount amount = (if amount = 0 then [] else formatDisplayAmount (FormatUint amount))"

definition formatOptionalUWolo :: "u64 \<Rightarrow> string" where
  "formatOptionalUWolo amount = (if amount = 0 then [] else FormatUint amount)"

definition formatOptionalDisplayAmount :: "u64 \<Rightarrow> string" where
  "formatOptionalDisplayAmount amount = (if amount = 0 then [] else formatDisplayAmount (FormatUint amount))"

section \<open>Normalisation of a single request\<close>

definition normalizeSettlementRequest :: "settlementExecuteRequest \<Rightarrow> string + normalizedSettlementRequest" where
  "normalizeSettlementRequest request =
     (let requestID = TrimSpace (xq_RequestID request) in
      if \<not> settlementRequestIDPattern requestID then Inl requestIDMessage
      else let toAddress = TrimSpace (xq_ToAddress request) in
      if \<not> isWoloAddress toAddress settlementCanonicalPrefix then Inl ''to_address must be a valid wolo address''
      else case normalizeAmountUWolo (xq_AmountUWolo request) (xq_AmountWolo request) of
        Inl err \<Rightarrow> Inl err
      | Inr amountUWolo \<Rightarrow>
          let memo = cutAt 180 (TrimSpace (xq_Memo request)) in
          Inr (zero_normalizedSettlementRequest
            \<lparr>nq_RequestID := requestID, nq_ToAddress := toAddress, nq_AmountUWolo := amountUWolo, nq_Memo := memo\<rparr>))"

definition sameSettlementRequest :: "normalizedSettlementRequest \<Rightarrow> normalizedSettlementRequest \<Rightarrow> bool" where
  "sameSettlementRequest left right \<longleftrightarrow>
     nq_RequestID left = nq_RequestID right \<and>
     nq_ToAddress left = nq_ToAddress right \<and>
     nq_AmountUWolo left = nq_AmountUWolo right \<and>
     nq_Memo left = nq_Memo right \<and>
     normalizeStoredSettlementSignerRole (nq_SignerRole left) = normalizeStoredSettlementSignerRole (nq_SignerRole right)"

section \<open>Coin strings and fees\<close>

record coinAmount =
  co_Amount :: string
  co_Denom :: string

definition splitCoinPart :: "string \<Rightarrow> coinAmount list" where
  "splitCoinPart part =
     (let part = TrimSpace part; amount = takeWhile isDigit part; denom = dropWhile isDigit part in
      if part = [] then [] else if amount = [] \<or> denom = [] then []
      else [\<lparr>co_Amount = amount, co_Denom = denom\<rparr>])"

definition splitCoinAmounts :: "string \<Rightarrow> coinAmount list" where
  "splitCoinAmounts raw = concat (map splitCoinPart (Split1 (CHR '','') raw))"

fun sumBaseDenom :: "string \<Rightarrow> u64 \<Rightarrow> coinAmount list \<Rightarrow> string + u64" where
  "sumBaseDenom baseDenom acc [] = Inr acc"
| "sumBaseDenom baseDenom acc (coin # coins) =
     (if co_Denom coin \<noteq> baseDenom then sumBaseDenom baseDenom acc coins
      else case ParseUint (TrimSpace (co_Amount coin)) of
        Inl _ \<Rightarrow> Inl (''invalid '' @ baseDenom @ '' fee amount '' @ Quote (co_Amount coin))
      | Inr amount \<Rightarrow> sumBaseDenom baseDenom (acc + amount) coins)"

definition parseBaseDenomFeeAmount :: "string \<Rightarrow> string \<Rightarrow> string + u64" where
  "parseBaseDenomFeeAmount raw baseDenom = sumBaseDenom baseDenom 0 (splitCoinAmounts raw)"

definition estimateSettlementRunFee :: "settlementConfig \<Rightarrow> nat \<Rightarrow> string \<times> string" where
  "estimateSettlementRunFee cfg payoutCount =
     (if payoutCount = 0 then ([], [])
      else if TrimSpace (cfg_Fees cfg) = []
      then ([], ''fee estimate unavailable for grouped runs unless WOLO_SETTLEMENT_FEES is set explicitly in '' @ cfg_BaseDenom cfg)
      else case parseBaseDenomFeeAmount (cfg_Fees cfg) (cfg_BaseDenom cfg) of
        Inl err \<Rightarrow> ([], ''fee estimate unavailable: '' @ err)
      | Inr perPayoutFee \<Rightarrow>
          if perPayoutFee = 0
          then ([], ''fee estimate unavailable: WOLO_SETTLEMENT_FEES does not include '' @ cfg_BaseDenom cfg)
          else (FormatUint (perPayoutFee * of_nat payoutCount), []))"


section \<open>Properties of amounts\<close>

lemma ParseUint_ne_sign: "ParseUint s = Inr v \<Longrightarrow> \<exists>c cs. s = c # cs \<and> c \<noteq> CHR ''-'' \<and> c \<noteq> CHR ''+''"
  using ParseUint_isDigit [of s v] by (cases s) (auto simp: isDigit_def byte_def)

lemma ParseInt_unsigned:
  "ParseUint s = Inr v \<Longrightarrow> ParseInt s = (if uint v \<ge> 2 ^ 63 then Inl ErrRange else Inr (uint v))"
proof -
  assume v: "ParseUint s = Inr v"
  obtain c cs where "s = c # cs" "c \<noteq> CHR ''-''" "c \<noteq> CHR ''+''"
    using ParseUint_ne_sign [OF v] by blast
  with v show ?thesis by (simp add: ParseInt_def Let_def)
qed

lemma showNat_inject: "m < 2 ^ 64 \<Longrightarrow> n < 2 ^ 64 \<Longrightarrow> showNat m = showNat n \<Longrightarrow> m = n"
  by (metis parseDigits_showNat sum.inject(2))

lemma padZero_digits: "list_all isDigit s \<Longrightarrow> list_all isDigit (padZero w s)"
  by (auto simp: padZero_def list_all_iff isDigit_def byte_def)

lemma parseDigits_zeros: "parseDigits 0 (replicate k (CHR ''0'') @ s) = parseDigits 0 s"
  by (induction k) (auto simp: isDigit_def digitVal_def byte_def)

lemma parseDigits_padZero: "parseDigits 0 (padZero w s) = parseDigits 0 s"
  by (simp add: padZero_def parseDigits_zeros)

lemma goQuotRem_nonneg: "0 \<le> a \<Longrightarrow> 0 < b \<Longrightarrow> goQuot a b = a div b \<and> goRem a b = a mod b"
  by (cases "a = 0") (auto simp: goQuot_def goRem_def minus_div_mult_eq_mod)

text \<open>Below \<open>2 ^ 63\<close> the display form is whole WOLO, a point and six digits of micro-WOLO.\<close>

lemma formatDisplayAmount_eq:
  assumes "ParseUint s = Inr v" and "uint v < 2 ^ 63"
  shows "formatDisplayAmount s = showNat (unat v div 1000000) @ ''.'' @ padZero 6 (showNat (unat v mod 1000000))"
proof -
  have "formatDisplayAmount s = FormatInt (uint v div 1000000) @ ''.'' @ formatPadded 6 (uint v mod 1000000)"
    using ParseUint_isDigit [OF assms(1)] assms goQuotRem_nonneg [of "uint v" 1000000]
    by (simp add: formatDisplayAmount_def ParseInt_unsigned)
  moreover have "nat (uint v div 1000000) = unat v div 1000000" "nat (uint v mod 1000000) = unat v mod 1000000"
    by (simp_all add: nat_div_distrib nat_mod_distrib)
  moreover have "\<not> uint v mod 1000000 < 0" "\<not> uint v div 1000000 < 0"
    by (simp_all add: not_less pos_imp_zdiv_nonneg_iff)
  ultimately show ?thesis
    by (simp add: FormatInt_def formatPadded_def)
qed

lemma formatDisplayAmount_large:
  assumes "ParseUint s = Inr v" and "2 ^ 63 \<le> uint v"
  shows "formatDisplayAmount s = []"
  using assms by (simp add: formatDisplayAmount_def ParseInt_unsigned)

lemma split_at_point:
  assumes "list_all isDigit a" and "list_all isDigit a'" and "a @ ''.'' @ b = a' @ ''.'' @ b'"
  shows "a = a' \<and> b = b'"
proof -
  have point: "\<not> isDigit (CHR ''.'')" by (simp add: isDigit_def byte_def)
  have "takeWhile isDigit (a @ ''.'' @ b) = a" "takeWhile isDigit (a' @ ''.'' @ b') = a'"
    using assms(1,2) point by (simp_all add: takeWhile_append list_all_iff)
  with assms(3) show ?thesis by auto
qed

lemma formatDisplayAmount_inject:
  assumes "uint v < 2 ^ 63" and "uint u < 2 ^ 63"
    and "formatDisplayAmount (FormatUint v) = formatDisplayAmount (FormatUint u)"
  shows "v = u"
proof -
  have lt: "unat v < 2 ^ 63" "unat u < 2 ^ 63"
    using assms(1,2) by (simp_all add: nat_less_numeral_power_cancel_iff flip: nat_uint_eq)
  have "showNat (unat v div 1000000) = showNat (unat u div 1000000)"
    and "padZero 6 (showNat (unat v mod 1000000)) = padZero 6 (showNat (unat u mod 1000000))"
    using assms split_at_point [OF showNat_digits showNat_digits]
    by (auto simp: formatDisplayAmount_eq [of _ v] formatDisplayAmount_eq [of _ u])
  moreover have "unat v div 1000000 < 2 ^ 64" "unat u div 1000000 < 2 ^ 64"
      "unat v mod 1000000 < 2 ^ 64" "unat u mod 1000000 < 2 ^ 64"
    using lt by (auto intro: le_less_trans [OF div_le_dividend] le_less_trans [OF mod_less_eq_dividend])
  ultimately have "unat v div 1000000 = unat u div 1000000" "unat v mod 1000000 = unat u mod 1000000"
    by (metis showNat_inject, metis parseDigits_padZero parseDigits_showNat sum.inject(2))
  then have "unat v = unat u" by (metis div_mult_mod_eq)
  then show ?thesis by (simp add: word_unat_eq_iff)
qed

lemma parseOptional_FormatUint [simp]:
  "parseOptionalUWoloString (FormatUint v) = Inr v" "parseOptionalUWoloVal (FormatUint v) = v"
  by (simp_all add: parseOptionalUWoloString_def parseOptionalUWoloVal_def Let_def)

lemma parseOptional_Nil [simp]: "parseOptionalUWoloString [] = Inr 0" "parseOptionalUWoloVal [] = 0"
  by (simp_all add: parseOptionalUWoloString_def parseOptionalUWoloVal_def Let_def)

lemma parseOptional_formatOptional [simp]:
  "parseOptionalUWoloString (formatOptionalRunAmount v) = Inr v"
  "parseOptionalUWoloString (formatOptionalUWolo v) = Inr v"
  by (simp_all add: formatOptionalRunAmount_def formatOptionalUWolo_def)

text \<open>An accepted amount is a numeral that \<open>ParseUint\<close> reads, unless \<open>amount_wolo\<close> overflows.\<close>

lemma normalizeAmount_uwolo:
  "TrimSpace a \<noteq> [] \<Longrightarrow> normalizeAmountUWolo a w = Inr amt \<Longrightarrow>
     amt = TrimSpace a \<and> (\<exists>v. ParseUint amt = Inr v) \<and> amt \<noteq> ''0''"
  by (auto simp: normalizeAmountUWolo_def Let_def split: if_splits sum.splits)

lemma sint_mult_small:
  fixes w :: i64
  assumes "0 < sint w" and "sint w \<le> 9223372036854"
  shows "sint (w * 1000000) = sint w * 1000000"
proof -
  have "sint (w * 1000000) = signed_take_bit 63 (sint w * 1000000)"
    by (simp add: sint_word_ariths)
  also have "\<dots> = sint w * 1000000"
    using assms by (intro signed_take_bit_int_eq_self) auto
  finally show ?thesis .
qed

lemma normalizeAmount_wolo:
  assumes "TrimSpace a = []" and "normalizeAmountUWolo a w = Inr amt" and "sint w \<le> 9223372036854"
  shows "amt = showNat (nat (sint w * 1000000)) \<and> ParseUint amt = Inr (of_nat (nat (sint w * 1000000))) \<and> amt \<noteq> ''0''"
proof -
  have pos: "0 < sint w" and amt: "amt = FormatInt (sint (w * 1000000))"
    using assms(1,2) by (auto simp: normalizeAmountUWolo_def Let_def split: if_splits)
  with assms(3) have amt': "amt = showNat (nat (sint w * 1000000))"
    by (simp add: FormatInt_def sint_mult_small)
  have bound: "nat (sint w * 1000000) < 2 ^ 64" using assms(3) by simp
  have "showNat 0 = ''0''" by (simp add: go_eval)
  then have "amt \<noteq> ''0''"
    using showNat_inject [OF bound, of 0] pos amt' by auto
  with amt' ParseUint_showNat [OF bound] show ?thesis by simp
qed

lemma normalizeAmount_parses:
  assumes "normalizeAmountUWolo a w = Inr amt" and "TrimSpace a \<noteq> [] \<or> sint w \<le> 9223372036854"
  shows "(\<exists>v. ParseUint amt = Inr v) \<and> amt \<noteq> ''0''"
  using assms normalizeAmount_uwolo normalizeAmount_wolo by (cases "TrimSpace a = []") blast+

lemma normalizeAmount_fixed:
  assumes "ParseUint amt = Inr v" and "amt \<noteq> ''0''"
  shows "normalizeAmountUWolo amt 0 = Inr amt"
  using assms ParseUint_isDigit [OF assms(1)] TrimSpace_ParseUint [OF assms(1)]
  by (simp add: normalizeAmountUWolo_def Let_def)

section \<open>Properties of request normalisation\<close>

lemma normalizeSettlementRequest_fields:
  assumes "normalizeSettlementRequest r = Inr n"
  shows "nq_RequestID n = TrimSpace (xq_RequestID r)" "settlementRequestIDPattern (nq_RequestID n)"
    "nq_ToAddress n = TrimSpace (xq_ToAddress r)" "isWoloAddress (nq_ToAddress n) settlementCanonicalPrefix"
    "normalizeAmountUWolo (xq_AmountUWolo r) (xq_AmountWolo r) = Inr (nq_AmountUWolo n)"
    "nq_Memo n = take 180 (TrimSpace (xq_Memo r))" "nq_SignerRole n = []"
  using assms by (auto simp: normalizeSettlementRequest_def Let_def split: if_splits sum.splits)

lemma normalizeSettlementRequest_err:
  "normalizeSettlementRequest r = Inl e \<longleftrightarrow>
     (\<not> settlementRequestIDPattern (TrimSpace (xq_RequestID r)) \<and> e = requestIDMessage) \<or>
     (settlementRequestIDPattern (TrimSpace (xq_RequestID r)) \<and>
      \<not> isWoloAddress (TrimSpace (xq_ToAddress r)) settlementCanonicalPrefix \<and> e = ''to_address must be a valid wolo address'') \<or>
     (settlementRequestIDPattern (TrimSpace (xq_RequestID r)) \<and>
      isWoloAddress (TrimSpace (xq_ToAddress r)) settlementCanonicalPrefix \<and>
      normalizeAmountUWolo (xq_AmountUWolo r) (xq_AmountWolo r) = Inl e)"
  by (auto simp: normalizeSettlementRequest_def Let_def split: sum.splits)

text \<open>The request that hands the fields of a normalised one back to the normaliser, as a grouped run does.\<close>

definition requestOfNormalized :: "normalizedSettlementRequest \<Rightarrow> settlementExecuteRequest" where
  "requestOfNormalized n = zero_settlementExecuteRequest
     \<lparr>xq_RequestID := nq_RequestID n, xq_ToAddress := nq_ToAddress n,
      xq_AmountUWolo := nq_AmountUWolo n, xq_Memo := nq_Memo n\<rparr>"

lemma requestOfNormalized_sel [simp]:
  "xq_RequestID (requestOfNormalized n) = nq_RequestID n" "xq_ToAddress (requestOfNormalized n) = nq_ToAddress n"
  "xq_AmountUWolo (requestOfNormalized n) = nq_AmountUWolo n" "xq_AmountWolo (requestOfNormalized n) = 0"
  "xq_Memo (requestOfNormalized n) = nq_Memo n"
  by (simp_all add: requestOfNormalized_def)

lemma normalize_again:
  assumes "normalizeSettlementRequest r = Inr n"
    and "TrimSpace (xq_AmountUWolo r) \<noteq> [] \<or> sint (xq_AmountWolo r) \<le> 9223372036854"
    and "length (TrimSpace (xq_Memo r)) \<le> 180"
  shows "normalizeSettlementRequest (requestOfNormalized n) = Inr n"
proof -
  note f = normalizeSettlementRequest_fields [OF assms(1)]
  obtain v where "ParseUint (nq_AmountUWolo n) = Inr v" "nq_AmountUWolo n \<noteq> ''0''"
    using normalizeAmount_parses [OF f(5) assms(2)] by blast
  then have "normalizeAmountUWolo (nq_AmountUWolo n) 0 = Inr (nq_AmountUWolo n)"
    by (rule normalizeAmount_fixed)
  moreover have "TrimSpace (nq_RequestID n) = nq_RequestID n" using f(1) by simp
  moreover have "TrimSpace (nq_ToAddress n) = nq_ToAddress n" using f(3) by simp
  moreover have "take 180 (TrimSpace (nq_Memo n)) = nq_Memo n" using f(6) assms(3) by simp
  ultimately show ?thesis
    using f(2,4,7) by (simp add: normalizeSettlementRequest_def zero_normalizedSettlementRequest_def)
qed

lemma sameSettlementRequest_equiv:
  "sameSettlementRequest a a"
  "sameSettlementRequest a b \<Longrightarrow> sameSettlementRequest b a"
  "sameSettlementRequest a b \<Longrightarrow> sameSettlementRequest b c \<Longrightarrow> sameSettlementRequest a c"
  by (auto simp: sameSettlementRequest_def)

section \<open>Reading back coin lists\<close>

definition printCoin :: "coinAmount \<Rightarrow> string" where
  "printCoin c = co_Amount c @ co_Denom c"

definition wfCoin :: "coinAmount \<Rightarrow> bool" where
  "wfCoin c \<longleftrightarrow> co_Amount c \<noteq> [] \<and> list_all isDigit (co_Amount c) \<and>
     (\<exists>d ds. co_Denom c = d # ds \<and> \<not> isDigit d) \<and>
     list_all (\<lambda>x. isGraph x \<and> x \<noteq> CHR '','') (co_Denom c)"

lemma wfCoin_graph: "wfCoin c \<Longrightarrow> list_all isGraph (printCoin c) \<and> CHR '','' \<notin> set (printCoin c)"
proof -
  assume c: "wfCoin c"
  then have amount: "\<forall>x \<in> set (co_Amount c). isDigit x"
    and denom: "\<forall>x \<in> set (co_Denom c). isGraph x \<and> x \<noteq> CHR '',''"
    by (simp_all add: wfCoin_def list_all_iff)
  have "\<not> isDigit (CHR '','')" by (simp add: isDigit_def byte_def)
  with amount denom have "CHR '','' \<notin> set (printCoin c)"
    unfolding printCoin_def set_append by blast
  moreover have "\<forall>x \<in> set (printCoin c). isGraph x"
    using amount denom isDigit_isAlnum isAlnum_isGraph unfolding printCoin_def set_append by blast
  ultimately show ?thesis by (simp add: list_all_iff)
qed

lemma splitCoinPart_printCoin: "wfCoin c \<Longrightarrow> splitCoinPart (printCoin c) = [c]"
  using wfCoin_graph [of c]
  by (cases c) (auto simp: splitCoinPart_def Let_def TrimSpace_graph printCoin_def wfCoin_def
      takeWhile_append list_all_iff dropWhile_append)

lemma Split1_no_sep: "sep \<notin> set s \<Longrightarrow> Split1 sep s = [s]"
  by (induction s) auto

lemma Split1_append: "sep \<notin> set s \<Longrightarrow> Split1 sep (s @ sep # t) = s # Split1 sep t"
  by (induction s) auto

lemma Split1_Join: "ps \<noteq> [] \<Longrightarrow> \<forall>p \<in> set ps. sep \<notin> set p \<Longrightarrow> Split1 sep (Join ps [sep]) = ps"
  by (induction ps "[sep]" rule: Join.induct) (auto simp: Split1_no_sep Split1_append)

lemma splitCoinAmounts_print:
  assumes "cs \<noteq> []" and "\<forall>c \<in> set cs. wfCoin c"
  shows "splitCoinAmounts (Join (map printCoin cs) '','') = cs"
proof -
  have "Split1 (CHR '','') (Join (map printCoin cs) [CHR '','']) = map printCoin cs"
    using assms wfCoin_graph by (intro Split1_Join) auto
  then have "splitCoinAmounts (Join (map printCoin cs) '','') = concat (map (splitCoinPart \<circ> printCoin) cs)"
    by (simp add: splitCoinAmounts_def)
  also have "\<dots> = concat (map (\<lambda>c. [c]) cs)"
    using assms(2) by (intro arg_cong [where f = concat] map_cong) (auto simp: splitCoinPart_printCoin)
  finally show ?thesis by (induction cs) auto
qed

end
