(* ===== verification/Chain.thy ===== *)
theory Chain
  imports Requests
begin

text \<open>
  What the settlement service asks of the chain and of its own binary (settlement.go): the RPC and
  REST queries, the keyring look-ups, transaction look-up and transfer extraction, escrow deposit
  verification and discovery, the reserve and capacity checks and the health report.

  Everything outside the process is one state of type \<open>'c\<close>, which a query may change (time passes,
  blocks are made).  The record \<open>env\<close> collects the external operations: the HTTP endpoints by the
  URL asked for, the two commands of the wolochaind binary, the clock, and the hash of a record.
  They are parameters of every definition that uses them; nothing is assumed of them here.
  Operations that only read the outside world have the type \<open>('c, 'a) state\<close>, so they cannot touch
  the service's own files.
\<close>

section \<open>The outside world\<close>

text \<open>
  The outcome of an HTTP exchange: the request or reading the body failed with a message, or there
  is a status, a body and what the JSON decoder makes of the body.
\<close>

datatype 'p httpReply =
    RequestFailed string
  | BodyFailed nat string
  | Replied nat string "string + 'p"

definition getJSON :: "'p \<Rightarrow> 'p httpReply \<Rightarrow> nat \<times> string option \<times> 'p" where
  "getJSON dst reply =
     (case reply of
        RequestFailed err \<Rightarrow> (0, Some err, dst)
      | BodyFailed statusCode err \<Rightarrow> (statusCode, Some err, dst)
      | Replied statusCode body decoded \<Rightarrow>
          if statusCode = 404 then (statusCode, None, dst)
          else if statusCode \<ge> 400
          then (statusCode, Some (''upstream returned '' @ Itoa statusCode @ '': '' @ TrimSpace body), dst)
          else (case decoded of Inl err \<Rightarrow> (statusCode, Some err, dst) | Inr payload \<Rightarrow> (statusCode, None, payload)))"

record restBalance =
  ba_Denom :: string
  ba_Amount :: string

record restTxResponse =
  tx_Height :: string
  tx_TxHash :: string
  tx_Code :: u32
  tx_Codespace :: string
  tx_RawLog :: string
  tx_Timestamp :: string
  tx_Logs :: "restTxLogItem list"
  tx_Events :: "restTxEvent list"

definition zero_restTxResponse :: restTxResponse where
  "zero_restTxResponse = \<lparr>tx_Height = '''', tx_TxHash = '''', tx_Code = 0, tx_Codespace = '''',
     tx_RawLog = '''', tx_Timestamp = '''', tx_Logs = [], tx_Events = []\<rparr>"

record restTxLookupResponse =
  tl_Memo :: string
  tl_TxResponse :: restTxResponse

record restTxSearchResponse =
  ts_TxMemos :: "string list"
  ts_TxResponses :: "restTxResponse list"

record execResult =
  ex_Stdout :: string
  ex_Stderr :: string
  ex_Err :: "string option"

record 'c env =
  env_rpcStatus :: "string \<Rightarrow> ('c, string httpReply) state"
  env_restNodeInfo :: "string \<Rightarrow> ('c, string httpReply) state"
  env_restDenomMetadata :: "string \<Rightarrow> ('c, (string \<times> string) httpReply) state"
  env_restStakingParams :: "string \<Rightarrow> ('c, string httpReply) state"
  env_restMintParams :: "string \<Rightarrow> ('c, string httpReply) state"
  env_restBalances :: "string \<Rightarrow> ('c, restBalance list httpReply) state"
  env_restTx :: "string \<Rightarrow> ('c, restTxLookupResponse httpReply) state"
  env_restTxSearch :: "string \<Rightarrow> ('c, restTxSearchResponse httpReply) state"
  env_keysShow :: "string list \<Rightarrow> ('c, execResult) state"
  env_txBankSend :: "string list \<Rightarrow> ('c, string \<times> string option) state"
  env_decodeBroadcast :: "string \<Rightarrow> bankSendBroadcastResponse option"
  env_sleep :: "int \<Rightarrow> ('c, string option) state"
  env_now :: "'c \<Rightarrow> int"
  env_isLoopbackIP :: "string \<Rightarrow> bool"
  env_splitHost :: "string \<Rightarrow> string option"
  env_ioError :: "'c \<Rightarrow> string \<Rightarrow> string option"
  env_hashRequest :: "normalizedSettlementRequest \<Rightarrow> string \<Rightarrow> string"
  env_hashRun :: "normalizedSettlementRunRequest \<Rightarrow> string"
  env_hashChallenge :: "normalizedSettlementChallengeRequest \<Rightarrow> string"

section \<open>Chain identity and REST invariants\<close>

definition fetchRuntimeChainID :: "'c env \<Rightarrow> settlementConfig \<Rightarrow> ('c, string + string) state" where
  "fetchRuntimeChainID env cfg = do {
     reply \<leftarrow> env_rpcStatus env (TrimRight (cfg_RPCHTTP cfg) ''/'' @ ''/status'');
     State_Monad.return
       (case getJSON [] reply of
          (_, Some err, _) \<Rightarrow> Inl err
        | (_, None, network) \<Rightarrow>
            let chainID = TrimSpace network in
            if chainID = [] then Inl ''rpc status returned no chain id'' else Inr chainID)
   }"

definition restBase :: "settlementConfig \<Rightarrow> string" where
  "restBase cfg = TrimRight (cfg_RESTURL cfg) ''/''"

definition validateRESTInvariants :: "'c env \<Rightarrow> settlementConfig \<Rightarrow> ('c, string option) state" where
  "validateRESTInvariants env cfg = do {
     nodeReply \<leftarrow> env_restNodeInfo env (restBase cfg @ ''/cosmos/base/tendermint/v1beta1/node_info'');
     case getJSON [] nodeReply of
       (_, Some err, _) \<Rightarrow> State_Monad.return (Some (''rest node_info failed: '' @ err))
     | (_, None, network) \<Rightarrow>
       if TrimSpace network \<noteq> cfg_ChainID cfg
       then State_Monad.return (Some (''rest node_info reported '' @ network @ '', expected '' @ cfg_ChainID cfg))
       else do {
         denomReply \<leftarrow> env_restDenomMetadata env (restBase cfg @ ''/cosmos/bank/v1beta1/denoms_metadata/'' @ cfg_BaseDenom cfg);
         case getJSON ([], []) denomReply of
           (_, Some err, _) \<Rightarrow> State_Monad.return (Some (''rest denom metadata failed: '' @ err))
         | (_, None, (base, display)) \<Rightarrow>
           if base \<noteq> cfg_BaseDenom cfg \<or> display \<noteq> cfg_DisplayDenom cfg
           then State_Monad.return (Some (''rest denom metadata drift: base='' @ base @ '' display='' @ display))
           else do {
             stakingReply \<leftarrow> env_restStakingParams env (restBase cfg @ ''/cosmos/staking/v1beta1/params'');
             case getJSON [] stakingReply of
               (_, Some err, _) \<Rightarrow> State_Monad.return (Some (''rest staking params failed: '' @ err))
             | (_, None, bondDenom) \<Rightarrow>
               if bondDenom \<noteq> cfg_BaseDenom cfg
               then State_Monad.return (Some (''staking bond denom drift: '' @ bondDenom))
               else do {
                 mintReply \<leftarrow> env_restMintParams env (restBase cfg @ ''/cosmos/mint/v1beta1/params'');
                 State_Monad.return
                   (case getJSON [] mintReply of
                      (_, Some err, _) \<Rightarrow> Some (''rest mint params failed: '' @ err)
                    | (_, None, mintDenom) \<Rightarrow>
                        if mintDenom \<noteq> cfg_BaseDenom cfg then Some (''mint denom drift: '' @ mintDenom) else None)
               }
           }
       }
   }"

section \<open>Balances and signer addresses\<close>

fun findBalance :: "settlementConfig \<Rightarrow> restBalance list \<Rightarrow> string + u64" where
  "findBalance cfg [] = Inr 0"
| "findBalance cfg (balance # balances) =
     (if ba_Denom balance \<noteq> cfg_BaseDenom cfg then findBalance cfg balances
      else case ParseUint (TrimSpace (ba_Amount balance)) of
        Inl _ \<Rightarrow> Inl (''rest balance lookup returned invalid '' @ cfg_BaseDenom cfg @ '' amount '' @ Quote (ba_Amount balance))
      | Inr amount \<Rightarrow> Inr amount)"

definition fetchAccountBalanceUWolo :: "'c env \<Rightarrow> settlementConfig \<Rightarrow> string \<Rightarrow> ('c, string + u64) state" where
  "fetchAccountBalanceUWolo env cfg address = do {
     reply \<leftarrow> env_restBalances env (restBase cfg @ ''/cosmos/bank/v1beta1/balances/'' @ PathEscape address);
     State_Monad.return
       (case getJSON [] reply of
          (_, Some err, _) \<Rightarrow> Inl (''rest balance lookup failed for '' @ address @ '': '' @ err)
        | (_, None, balances) \<Rightarrow> findBalance cfg balances)
   }"

definition keysShowArgs :: "settlementConfig \<Rightarrow> string \<Rightarrow> string list" where
  "keysShowArgs cfg keyName =
     [''keys'', ''show'', keyName, ''--address'', ''--home'', cfg_HomeDir cfg, ''--keyring-backend'', cfg_KeyringBackend cfg]
     @ (if cfg_KeyringDir cfg \<noteq> [] then [''--keyring-dir'', cfg_KeyringDir cfg] else [])"

definition resolvePayoutAddress :: "'c env \<Rightarrow> settlementConfig \<Rightarrow> ('c, string + string) state" where
  "resolvePayoutAddress env cfg =
     (if cfg_PayoutKeyName cfg = [] then State_Monad.return (Inr [])
      else do {
        result \<leftarrow> env_keysShow env (keysShowArgs cfg (cfg_PayoutKeyName cfg));
        State_Monad.return
          (case ex_Err result of
             Some _ \<Rightarrow>
               let detail = TrimSpace (ex_Stderr result);
                   detail = (if detail = [] then TrimSpace (ex_Stdout result) else detail)
               in Inl (''could not resolve payout signer '' @ Quote (cfg_PayoutKeyName cfg) @ '': '' @ detail)
           | None \<Rightarrow>
               let address = TrimSpace (ex_Stdout result) in
               if \<not> isWoloAddress address (cfg_AddressPrefix cfg)
               then Inl (''resolved payout signer '' @ Quote (cfg_PayoutKeyName cfg) @ '' to non-wolo address '' @ Quote address)
               else if cfg_PayoutAddress cfg \<noteq> [] \<and> \<not> EqualFold address (cfg_PayoutAddress cfg)
               then Inl (''payout signer resolved to '' @ address @ '', expected '' @ cfg_PayoutAddress cfg)
               else Inr address)
      })"

definition resolveEscrowAddress :: "'c env \<Rightarrow> settlementConfig \<Rightarrow> ('c, string + string) state" where
  "resolveEscrowAddress env cfg =
     (if cfg_EscrowKeyName cfg = [] then State_Monad.return (Inl ''WOLO_SETTLEMENT_ESCROW_KEY_NAME is not set'')
      else do {
        result \<leftarrow> env_keysShow env (keysShowArgs cfg (cfg_EscrowKeyName cfg));
        State_Monad.return
          (case ex_Err result of
             Some _ \<Rightarrow>
               let detail = TrimSpace (ex_Stderr result);
                   detail = (if detail = [] then TrimSpace (ex_Stdout result) else detail)
               in Inl (''could not resolve escrow signer '' @ Quote (cfg_EscrowKeyName cfg) @ '': '' @ detail)
           | None \<Rightarrow>
               let address = TrimSpace (ex_Stdout result) in
               if \<not> isWoloAddress address (cfg_AddressPrefix cfg)
               then Inl (''resolved escrow signer '' @ Quote (cfg_EscrowKeyName cfg) @ '' to non-wolo address '' @ Quote address)
               else if cfg_EscrowAddress cfg \<noteq> [] \<and> \<not> EqualFold address (cfg_EscrowAddress cfg)
               then Inl (''escrow signer resolved to '' @ address @ '', expected '' @ cfg_EscrowAddress cfg)
               else Inr address)
      })"

section \<open>Proof links\<close>

definition txPath :: "string \<Rightarrow> string" where
  "txPath txHash = (if txHash = [] then ''/cosmos/tx/v1beta1/txs/{tx_hash}'' else ''/cosmos/tx/v1beta1/txs/'' @ PathEscape txHash)"

definition txLookupURL :: "settlementConfig \<Rightarrow> string \<Rightarrow> string" where
  "txLookupURL cfg txHash = restBase cfg @ txPath txHash"

definition publicTxLookupURL :: "settlementConfig \<Rightarrow> string \<Rightarrow> string" where
  "publicTxLookupURL cfg txHash =
     (if TrimSpace (cfg_PublicRESTURL cfg) = [] then []
      else TrimRight (cfg_PublicRESTURL cfg) ''/'' @ txPath txHash)"

definition preferredTxLookupURL :: "settlementConfig \<Rightarrow> string \<Rightarrow> string" where
  "preferredTxLookupURL cfg txHash =
     (let publicURL = publicTxLookupURL cfg txHash in
      if publicURL \<noteq> [] then publicURL else txLookupURL cfg txHash)"

section \<open>Transfers of a transaction\<close>

fun readAttributes :: "string \<times> string \<times> string \<Rightarrow> restTxEventAttribute list \<Rightarrow> string \<times> string \<times> string" where
  "readAttributes acc [] = acc"
| "readAttributes (sender, recipient, amount) (attr # attrs) =
     (if ta_Key attr = ''sender'' then readAttributes (TrimSpace (ta_Value attr), recipient, amount) attrs
      else if ta_Key attr = ''recipient'' then readAttributes (sender, TrimSpace (ta_Value attr), amount) attrs
      else if ta_Key attr = ''amount'' then readAttributes (sender, recipient, TrimSpace (ta_Value attr)) attrs
      else readAttributes (sender, recipient, amount) attrs)"

definition transfersOfEvent :: "restTxEvent \<Rightarrow> settlementTransfer list" where
  "transfersOfEvent event =
     (if te_Type event \<noteq> ''transfer'' then []
      else case readAttributes ([], [], []) (te_Attributes event) of
        (sender, recipient, amount) \<Rightarrow>
          if sender = [] \<or> recipient = [] \<or> amount = [] then []
          else map (\<lambda>coin. \<lparr>tr_Sender = sender, tr_Recipient = recipient, tr_Amount = co_Amount coin, tr_Denom = co_Denom coin\<rparr>)
                 (splitCoinAmounts amount))"

definition extractSettlementTransfersFromLogsAndEvents :: "restTxLogItem list \<Rightarrow> restTxEvent list \<Rightarrow> settlementTransfer list" where
  "extractSettlementTransfersFromLogsAndEvents logItems fallbackEvents =
     (let transfers = concat (map (\<lambda>logItem. concat (map transfersOfEvent (li_Events logItem))) logItems) in
      if transfers = [] then concat (map transfersOfEvent fallbackEvents) else transfers)"

definition extractSettlementTransfers :: "restTxLookupResponse \<Rightarrow> settlementTransfer list" where
  "extractSettlementTransfers payload =
     extractSettlementTransfersFromLogsAndEvents (tx_Logs (tl_TxResponse payload)) (tx_Events (tl_TxResponse payload))"

definition transferMatches :: "settlementLookupExpectations \<Rightarrow> settlementTransfer \<Rightarrow> bool" where
  "transferMatches expectations transfer \<longleftrightarrow>
     (let expectedSender = TrimSpace (le_Sender expectations);
          expectedRecipient = TrimSpace (le_Recipient expectations);
          expectedAmount = TrimSpace (le_AmountUWolo expectations) in
      (expectedSender = [] \<or> EqualFold (tr_Sender transfer) expectedSender) \<and>
      (expectedRecipient = [] \<or> EqualFold (tr_Recipient transfer) expectedRecipient) \<and>
      (expectedAmount = [] \<or> tr_Amount transfer = expectedAmount))"

definition matchSettlementTransfer :: "settlementTransfer list \<Rightarrow> settlementLookupExpectations \<Rightarrow> settlementTransfer option" where
  "matchSettlementTransfer transfers expectations =
     (if TrimSpace (le_Sender expectations) = [] \<and> TrimSpace (le_Recipient expectations) = [] \<and>
         TrimSpace (le_AmountUWolo expectations) = [] then None
      else List.find (transferMatches expectations) transfers)"

fun firstTransferKind :: "settlementConfig \<Rightarrow> settlementTransfer list \<Rightarrow> string option" where
  "firstTransferKind cfg [] = None"
| "firstTransferKind cfg (transfer # transfers) =
     (if cfg_EscrowAddress cfg \<noteq> [] \<and> EqualFold (tr_Recipient transfer) (cfg_EscrowAddress cfg) \<and>
         tr_Denom transfer = cfg_BaseDenom cfg then Some ''escrow_deposit''
      else if cfg_PayoutAddress cfg \<noteq> [] \<and> EqualFold (tr_Sender transfer) (cfg_PayoutAddress cfg) \<and>
         tr_Denom transfer = cfg_BaseDenom cfg then Some ''payout''
      else firstTransferKind cfg transfers)"

definition classifyTransferKind :: "settlementConfig \<Rightarrow> settlementTransfer list \<Rightarrow> string" where
  "classifyTransferKind cfg transfers =
     (case firstTransferKind cfg transfers of
        Some kind \<Rightarrow> kind
      | None \<Rightarrow> if transfers \<noteq> [] then ''transfer'' else ''unknown'')"


section \<open>Transaction look-up\<close>

definition withLookupURLs :: "settlementConfig \<Rightarrow> string \<Rightarrow> settlementLookupResponse \<Rightarrow> settlementLookupResponse" where
  "withLookupURLs cfg hash r = r\<lparr>
     lr_CanonicalTxLookup := txLookupURL cfg hash,
     lr_CanonicalTxLookupPreferred := preferredTxLookupURL cfg hash,
     lr_CanonicalTxLookupInternal := txLookupURL cfg hash,
     lr_CanonicalTxLookupPublic := publicTxLookupURL cfg hash\<rparr>"

definition lookupFailure :: "string \<Rightarrow> string \<Rightarrow> settlementLookupResponse" where
  "lookupFailure failureCode detail =
     zero_settlementLookupResponse\<lparr>lr_OK := False, lr_FailureCode := failureCode, lr_Detail := detail\<rparr>"

definition refineTransferKind :: "'c env \<Rightarrow> settlementConfig \<Rightarrow> settlementTransfer list \<Rightarrow> string \<Rightarrow> ('c, string) state" where
  "refineTransferKind env cfg transfers kind =
     (if kind = ''transfer'' \<and> cfg_PayoutAddress cfg = [] \<and> cfg_PayoutKeyName cfg \<noteq> []
      then do {
        resolved \<leftarrow> resolvePayoutAddress env cfg;
        State_Monad.return
          (case resolved of
             Inl _ \<Rightarrow> kind
           | Inr payoutAddress \<Rightarrow>
               if payoutAddress \<noteq> [] then classifyTransferKind (cfg\<lparr>cfg_PayoutAddress := payoutAddress\<rparr>) transfers else kind)
      }
      else State_Monad.return kind)"

definition lookupSettlementTx :: "'c env \<Rightarrow> settlementConfig \<Rightarrow> string \<Rightarrow> settlementLookupExpectations
    \<Rightarrow> ('c, settlementLookupResponse) state" where
  "lookupSettlementTx env cfg txHash expectations =
     (let normalizedHash = normalizeTxHash txHash in
      if normalizedHash = [] then State_Monad.return (lookupFailure ''INVALID_TX_HASH'' ''tx hash is required'')
      else if \<not> isHexHash normalizedHash
      then State_Monad.return (lookupFailure ''INVALID_TX_HASH'' ''tx hash must be uppercase/lowercase hex'')
      else do {
        chain \<leftarrow> fetchRuntimeChainID env cfg;
        case chain of
          Inl err \<Rightarrow> State_Monad.return (lookupFailure ''RPC_UNREACHABLE'' err)
        | Inr runtimeChainID \<Rightarrow>
          if runtimeChainID \<noteq> cfg_ChainID cfg
          then State_Monad.return (lookupFailure ''CHAIN_ID_MISMATCH''
                 (''rpc reported '' @ runtimeChainID @ '', expected '' @ cfg_ChainID cfg))
          else do {
            reply \<leftarrow> env_restTx env (txLookupURL cfg normalizedHash);
            case getJSON \<lparr>tl_Memo = [], tl_TxResponse = zero_restTxResponse\<rparr> reply of
              (_, Some err, _) \<Rightarrow> State_Monad.return (withLookupURLs cfg normalizedHash (lookupFailure ''LOOKUP_FAILED'' err))
            | (statusCode, None, payload) \<Rightarrow>
              if statusCode = 404
              then State_Monad.return (withLookupURLs cfg normalizedHash
                     (lookupFailure ''TX_NOT_FOUND'' ''tx hash not found on WoloChain REST''))
              else do {
                let transfers = extractSettlementTransfers payload;
                let matched = matchSettlementTransfer transfers expectations;
                let response = tl_TxResponse payload;
                kind \<leftarrow> refineTransferKind env cfg transfers (classifyTransferKind cfg transfers);
                State_Monad.return (withLookupURLs cfg normalizedHash (zero_settlementLookupResponse\<lparr>
                  lr_OK := True, lr_Found := True, lr_ChainID := cfg_ChainID cfg,
                  lr_TxHash := tx_TxHash response, lr_TxSuccess := (tx_Code response = 0), lr_Kind := kind,
                  lr_Height := tx_Height response, lr_Code := tx_Code response, lr_Codespace := tx_Codespace response,
                  lr_Memo := tl_Memo payload, lr_RawLog := tx_RawLog response, lr_Timestamp := tx_Timestamp response,
                  lr_Transfers := transfers, lr_MatchedExpected := (matched \<noteq> None), lr_MatchedTransfer := matched\<rparr>))
              }
          }
      })"

section \<open>Escrow deposits\<close>

text \<open>The answer once the look-up is known.\<close>

definition depositVerdict :: "settlementLookupResponse \<Rightarrow> settlementEscrowVerifyResponse \<Rightarrow> settlementEscrowVerifyResponse" where
  "depositVerdict lookup response =
     (if \<not> lr_OK lookup
      then response\<lparr>ev_FailureCode := firstNonEmpty [lr_FailureCode lookup, ''LOOKUP_FAILED''], ev_Detail := lr_Detail lookup\<rparr>
      else if \<not> lr_Found lookup
      then response\<lparr>ev_FailureCode := ''TX_NOT_FOUND'', ev_Detail := ''tx hash not found on WoloChain REST''\<rparr>
      else if lr_Kind lookup \<noteq> ''escrow_deposit''
      then response\<lparr>ev_FailureCode := ''NOT_ESCROW_DEPOSIT'',
             ev_Detail := ''tx did not deliver a WOLO transfer into the configured escrow address''\<rparr>
      else if lr_MatchedExpected lookup
      then response\<lparr>ev_DepositFound := True, ev_OK := True, ev_Detail := ''tx delivered a WOLO transfer into the configured escrow address''\<rparr>
      else response\<lparr>ev_DepositFound := True, ev_FailureCode := ''ESCROW_DEPOSIT_MISMATCH'',
             ev_Detail := ''tx reached the configured escrow address but did not match the expected sender and/or amount''\<rparr>)"

definition verifyEscrowDeposit :: "'c env \<Rightarrow> settlementConfig \<Rightarrow> string \<Rightarrow> string \<Rightarrow> string
    \<Rightarrow> ('c, settlementEscrowVerifyResponse) state" where
  "verifyEscrowDeposit env cfg txHash expectedSender0 expectedAmountUWolo0 =
     (let expectedSender = TrimSpace expectedSender0; expectedAmountUWolo = TrimSpace expectedAmountUWolo0;
          response = zero_settlementEscrowVerifyResponse\<lparr>ev_OK := False, ev_EscrowAddress := cfg_EscrowAddress cfg,
            ev_ExpectedSender := expectedSender, ev_ExpectedAmountUWolo := expectedAmountUWolo\<rparr> in
      if TrimSpace (cfg_EscrowAddress cfg) = []
      then State_Monad.return (response\<lparr>ev_FailureCode := ''ESCROW_UNCONFIGURED'',
             ev_Detail := ''WOLO_SETTLEMENT_ESCROW_ADDRESS must be set before escrow verification can be used''\<rparr>)
      else if expectedSender \<noteq> [] \<and> \<not> isWoloAddress expectedSender (cfg_AddressPrefix cfg)
      then State_Monad.return (response\<lparr>ev_FailureCode := ''INVALID_ADDRESS'',
             ev_Detail := ''expected_sender must be a valid WOLO address''\<rparr>)
      else if expectedAmountUWolo \<noteq> [] \<and> isl (ParseUint expectedAmountUWolo)
      then State_Monad.return (response\<lparr>ev_FailureCode := ''INVALID_AMOUNT'',
             ev_Detail := ''expected_amount_uwolo must be a positive integer''\<rparr>)
      else do {
        lookup \<leftarrow> lookupSettlementTx env cfg txHash \<lparr>le_Sender = expectedSender,
          le_Recipient = cfg_EscrowAddress cfg, le_AmountUWolo = expectedAmountUWolo\<rparr>;
        State_Monad.return (depositVerdict lookup (response\<lparr>ev_Lookup := Some lookup\<rparr>))
      })"

definition escrowSearchURL :: "settlementConfig \<Rightarrow> int \<Rightarrow> string \<Rightarrow> string" where
  "escrowSearchURL cfg limit sender =
     (let q0 = [CHR 0x27]; query = ''transfer.recipient='' @ q0 @ TrimSpace (cfg_EscrowAddress cfg) @ q0;
          trimmedSender = TrimSpace sender;
          query = (if trimmedSender \<noteq> [] then query @ '' AND transfer.sender='' @ q0 @ trimmedSender @ q0 else query)
      in restBase cfg @ ''/cosmos/tx/v1beta1/txs?'' @
         ''order_by='' @ QueryEscape ''ORDER_BY_DESC'' @ ''&pagination.limit='' @ QueryEscape (FormatInt limit) @
         ''&query='' @ QueryEscape query)"

definition depositItem :: "settlementConfig \<Rightarrow> restTxResponse \<Rightarrow> string \<Rightarrow> nat \<Rightarrow> settlementTransfer \<Rightarrow> settlementEscrowDepositItem" where
  "depositItem cfg txResponse memo transferIndex transfer = \<lparr>
     ed_TransferIndex = transferIndex, ed_TxHash = tx_TxHash txResponse, ed_Height = tx_Height txResponse,
     ed_Timestamp = tx_Timestamp txResponse, ed_TxSuccess = (tx_Code txResponse = 0),
     ed_Sender = tr_Sender transfer, ed_Recipient = tr_Recipient transfer, ed_AmountUWolo = tr_Amount transfer,
     ed_AmountWolo = formatDisplayAmount (tr_Amount transfer), ed_Memo = memo,
     ed_CanonicalTxLookup = txLookupURL cfg (tx_TxHash txResponse),
     ed_CanonicalTxLookupPreferred = preferredTxLookupURL cfg (tx_TxHash txResponse),
     ed_CanonicalTxLookupInternal = txLookupURL cfg (tx_TxHash txResponse),
     ed_CanonicalTxLookupPublic = publicTxLookupURL cfg (tx_TxHash txResponse)\<rparr>"

text \<open>The inner loop: transfers of one transaction, stopping when \<open>limit\<close> deposits are collected.\<close>

fun collectTransfers :: "settlementConfig \<Rightarrow> int \<Rightarrow> string \<Rightarrow> restTxResponse \<Rightarrow> string \<Rightarrow> nat
    \<Rightarrow> settlementTransfer list \<Rightarrow> settlementEscrowDepositItem list \<Rightarrow> settlementEscrowDepositItem list" where
  "collectTransfers cfg limit sender txResponse memo transferIndex [] deposits = deposits"
| "collectTransfers cfg limit sender txResponse memo transferIndex (transfer # transfers) deposits =
     (if \<not> EqualFold (tr_Recipient transfer) (cfg_EscrowAddress cfg) \<or> tr_Denom transfer \<noteq> cfg_BaseDenom cfg
      then collectTransfers cfg limit sender txResponse memo (transferIndex + 1) transfers deposits
      else if sender \<noteq> [] \<and> \<not> EqualFold (tr_Sender transfer) sender
      then collectTransfers cfg limit sender txResponse memo (transferIndex + 1) transfers deposits
      else let deposits = deposits @ [depositItem cfg txResponse memo transferIndex transfer] in
        if int (length deposits) \<ge> limit then deposits
        else collectTransfers cfg limit sender txResponse memo (transferIndex + 1) transfers deposits)"

fun collectDeposits :: "settlementConfig \<Rightarrow> int \<Rightarrow> string \<Rightarrow> string list \<Rightarrow> nat \<Rightarrow> restTxResponse list
    \<Rightarrow> settlementEscrowDepositItem list \<Rightarrow> settlementEscrowDepositItem list" where
  "collectDeposits cfg limit sender memos index [] deposits = deposits"
| "collectDeposits cfg limit sender memos index (txResponse # txResponses) deposits =
     (if tx_Code txResponse \<noteq> 0 then collectDeposits cfg limit sender memos (index + 1) txResponses deposits
      else let memo = (if index < length memos then TrimSpace (memos ! index) else []);
               transfers = extractSettlementTransfersFromLogsAndEvents (tx_Logs txResponse) (tx_Events txResponse);
               deposits = collectTransfers cfg limit sender txResponse memo 0 transfers deposits in
        if int (length deposits) \<ge> limit then deposits
        else collectDeposits cfg limit sender memos (index + 1) txResponses deposits)"

definition listRecentEscrowDeposits :: "'c env \<Rightarrow> settlementConfig \<Rightarrow> int \<Rightarrow> string
    \<Rightarrow> ('c, settlementEscrowRecentResponse) state" where
  "listRecentEscrowDeposits env cfg limit0 sender0 =
     (let sender = TrimSpace sender0;
          response = zero_settlementEscrowRecentResponse\<lparr>er_OK := False, er_EscrowAddress := TrimSpace (cfg_EscrowAddress cfg),
            er_SenderFilter := sender, er_Limit := limit0\<rparr> in
      if er_EscrowAddress response = []
      then State_Monad.return (response\<lparr>er_FailureCode := ''ESCROW_UNCONFIGURED'',
             er_Detail := ''WOLO_SETTLEMENT_ESCROW_ADDRESS must be set before escrow discovery can be used''\<rparr>)
      else if limit0 \<le> 0
      then State_Monad.return (response\<lparr>er_FailureCode := ''INVALID_LIMIT'', er_Detail := ''limit must be greater than zero''\<rparr>)
      else let limit = (if limit0 > 100 then 100 else limit0); response = response\<lparr>er_Limit := limit\<rparr> in
      if sender \<noteq> [] \<and> \<not> isWoloAddress sender (cfg_AddressPrefix cfg)
      then State_Monad.return (response\<lparr>er_FailureCode := ''INVALID_ADDRESS'', er_Detail := ''sender must be a valid WOLO address''\<rparr>)
      else do {
        chain \<leftarrow> fetchRuntimeChainID env cfg;
        case chain of
          Inl err \<Rightarrow> State_Monad.return (response\<lparr>er_FailureCode := ''RPC_UNREACHABLE'', er_Detail := err\<rparr>)
        | Inr runtimeChainID \<Rightarrow>
          if runtimeChainID \<noteq> cfg_ChainID cfg
          then State_Monad.return (response\<lparr>er_FailureCode := ''CHAIN_ID_MISMATCH'',
                 er_Detail := ''rpc reported '' @ runtimeChainID @ '', expected '' @ cfg_ChainID cfg\<rparr>)
          else do {
            reply \<leftarrow> env_restTxSearch env (escrowSearchURL cfg limit sender);
            State_Monad.return
              (case getJSON \<lparr>ts_TxMemos = [], ts_TxResponses = []\<rparr> reply of
                 (_, Some err, _) \<Rightarrow> response\<lparr>er_FailureCode := ''LOOKUP_FAILED'', er_Detail := err\<rparr>
               | (_, None, payload) \<Rightarrow>
                   let deposits = collectDeposits cfg limit sender (ts_TxMemos payload) 0 (ts_TxResponses payload) []
                   in response\<lparr>er_OK := True, er_Count := length deposits, er_Deposits := deposits\<rparr>)
          }
      })"

end
