(* ===== verification/Health.thy ===== *)
theory Health
  imports Chain
begin

text \<open>
  Reserve floors, fee headroom, signer capacity and the health report (settlement.go, lines
  1609--1780 and 3132--3273).  The two capacity checks differ in their configuration fields and
  messages only; the locale \<open>capacity_check\<close> states what the rest of the service relies on, and
  both checks interpret it.
\<close>

section \<open>Reserve and capacity checks\<close>

text \<open>\<open>"%s uwolo (%s wolo)"\<close> of an amount.\<close>

definition amountText :: "u64 \<Rightarrow> string" where
  "amountText amount = FormatUint amount @ '' uwolo ('' @ formatDisplayAmount (FormatUint amount) @ '' wolo)''"

definition checkReserveHealth :: "settlementConfig \<Rightarrow> u64 \<Rightarrow> string \<times> string \<times> bool" where
  "checkReserveHealth cfg balanceUWolo =
     (if cfg_FeeHeadroomUWolo cfg > 0 \<and> balanceUWolo < cfg_FeeHeadroomUWolo cfg
      then (''PAYOUT_FEE_HEADROOM_TOO_LOW'',
            ''payout signer balance '' @ amountText balanceUWolo @ '' is below configured fee headroom '' @
            amountText (cfg_FeeHeadroomUWolo cfg), True)
      else if cfg_MinPayoutBalanceUWolo cfg > 0 \<and> balanceUWolo < cfg_MinPayoutBalanceUWolo cfg
      then (''PAYOUT_RESERVE_FLOOR_HIT'',
            ''payout signer balance '' @ amountText balanceUWolo @ '' is below configured reserve floor '' @
            amountText (cfg_MinPayoutBalanceUWolo cfg), True)
      else ([], [], False))"

definition checkPayoutCapacity :: "settlementConfig \<Rightarrow> u64 \<Rightarrow> u64 \<Rightarrow> string \<times> string \<times> bool" where
  "checkPayoutCapacity cfg balanceUWolo requestUWolo =
     (if balanceUWolo < requestUWolo
      then (''PAYOUT_BALANCE_TOO_LOW'',
            ''payout signer balance '' @ amountText balanceUWolo @ '' is below requested payout '' @ amountText requestUWolo, True)
      else let remaining = balanceUWolo - requestUWolo in
      if cfg_FeeHeadroomUWolo cfg > 0 \<and> remaining < cfg_FeeHeadroomUWolo cfg
      then (''PAYOUT_FEE_HEADROOM_TOO_LOW'',
            ''payout would leave '' @ amountText remaining @ '', below configured fee headroom '' @
            amountText (cfg_FeeHeadroomUWolo cfg), True)
      else if cfg_MinPayoutBalanceUWolo cfg > 0 \<and> remaining < cfg_MinPayoutBalanceUWolo cfg
      then (''PAYOUT_RESERVE_FLOOR_HIT'',
            ''payout would leave '' @ amountText remaining @ '', below configured reserve floor '' @
            amountText (cfg_MinPayoutBalanceUWolo cfg), True)
      else ([], [], False))"

definition checkEscrowReserveHealth :: "settlementConfig \<Rightarrow> u64 \<Rightarrow> string \<times> string \<times> bool" where
  "checkEscrowReserveHealth cfg balanceUWolo =
     (if cfg_EscrowFeeHeadroomUWolo cfg > 0 \<and> balanceUWolo < cfg_EscrowFeeHeadroomUWolo cfg
      then (''ESCROW_FEE_HEADROOM_TOO_LOW'',
            ''escrow signer balance '' @ amountText balanceUWolo @ '' is below configured escrow fee headroom '' @
            amountText (cfg_EscrowFeeHeadroomUWolo cfg), True)
      else if cfg_MinEscrowBalanceUWolo cfg > 0 \<and> balanceUWolo < cfg_MinEscrowBalanceUWolo cfg
      then (''ESCROW_RESERVE_FLOOR_HIT'',
            ''escrow signer balance '' @ amountText balanceUWolo @ '' is below configured escrow reserve floor '' @
            amountText (cfg_MinEscrowBalanceUWolo cfg), True)
      else ([], [], False))"

definition checkEscrowCapacity :: "settlementConfig \<Rightarrow> u64 \<Rightarrow> u64 \<Rightarrow> string \<times> string \<times> bool" where
  "checkEscrowCapacity cfg balanceUWolo requestUWolo =
     (if balanceUWolo < requestUWolo
      then (''ESCROW_BALANCE_TOO_LOW'',
            ''escrow signer balance '' @ amountText balanceUWolo @ '' is below requested escrow transfer total '' @
            amountText requestUWolo, True)
      else let remaining = balanceUWolo - requestUWolo in
      if cfg_EscrowFeeHeadroomUWolo cfg > 0 \<and> remaining < cfg_EscrowFeeHeadroomUWolo cfg
      then (''ESCROW_FEE_HEADROOM_TOO_LOW'',
            ''escrow transfer would leave '' @ amountText remaining @ '', below configured escrow fee headroom '' @
            amountText (cfg_EscrowFeeHeadroomUWolo cfg), True)
      else if cfg_MinEscrowBalanceUWolo cfg > 0 \<and> remaining < cfg_MinEscrowBalanceUWolo cfg
      then (''ESCROW_RESERVE_FLOOR_HIT'',
            ''escrow transfer would leave '' @ amountText remaining @ '', below configured escrow reserve floor '' @
            amountText (cfg_MinEscrowBalanceUWolo cfg), True)
      else ([], [], False))"

definition escrowFailureHasBalance :: "string \<Rightarrow> bool" where
  "escrowFailureHasBalance failureCode =
     (TrimSpace failureCode \<in> {''ESCROW_BALANCE_TOO_LOW'', ''ESCROW_FEE_HEADROOM_TOO_LOW'', ''ESCROW_RESERVE_FLOOR_HIT''})"

subsection \<open>The contract of a capacity check\<close>

text \<open>
  A capacity check refuses exactly when the balance does not cover the request together with the
  larger of the two reserves; the reserves are read from the configuration.
\<close>

locale capacity_check =
  fixes check :: "settlementConfig \<Rightarrow> u64 \<Rightarrow> u64 \<Rightarrow> string \<times> string \<times> bool"
    and headroom :: "settlementConfig \<Rightarrow> u64"
    and floor :: "settlementConfig \<Rightarrow> u64"
  assumes check_iff: "\<not> snd (snd (check cfg balance request)) \<longleftrightarrow>
      request \<le> balance \<and> headroom cfg \<le> balance - request \<and> floor cfg \<le> balance - request"
    and check_code: "snd (snd (check cfg balance request)) \<Longrightarrow> fst (check cfg balance request) \<noteq> []"
begin

lemma pass_nat: "\<not> snd (snd (check cfg balance request)) \<longleftrightarrow>
    unat request + max (unat (headroom cfg)) (unat (floor cfg)) \<le> unat balance"
proof -
  have "request \<le> balance \<Longrightarrow> unat (balance - request) = unat balance - unat request"
    by (rule unat_sub)
  then show ?thesis
    unfolding check_iff by (auto simp: word_le_nat_alt)
qed

lemma pass_mono:
  assumes "\<not> snd (snd (check cfg balance request))" and "balance \<le> balance'" and "request' \<le> request"
  shows "\<not> snd (snd (check cfg balance' request'))"
  using assms unfolding pass_nat by (auto simp: word_le_nat_alt)

text \<open>A passed check leaves room for a second request that passes on what remains.\<close>

lemma pass_split:
  assumes "unat a + unat b < 2 ^ 64" and "\<not> snd (snd (check cfg balance (a + b)))"
  shows "\<not> snd (snd (check cfg balance a))" and "\<not> snd (snd (check cfg (balance - a) b))"
proof -
  have ab: "unat (a + b) = unat a + unat b"
    using assms(1) by (simp add: unat_word_ariths)
  with assms(2) have le: "unat a + unat b + max (unat (headroom cfg)) (unat (floor cfg)) \<le> unat balance"
    by (simp add: pass_nat)
  then show "\<not> snd (snd (check cfg balance a))" by (simp add: pass_nat)
  have "unat (balance - a) = unat balance - unat a"
    using le by (intro unat_sub) (simp add: word_le_nat_alt)
  with le show "\<not> snd (snd (check cfg (balance - a) b))" by (simp add: pass_nat)
qed

end

lemma word_reserve_iff: "\<not> (0 < h \<and> (x :: u64) < h) \<longleftrightarrow> h \<le> x"
  by (metis linorder_not_less word_gt_0 word_zero_le)

lemma capacity_shape:
  assumes "check = (if balance < request then (c1 :: string, d1 :: string, True)
      else if 0 < h \<and> balance - request < h then (c2, d2, True)
      else if 0 < f \<and> balance - request < f then (c3, d3, True) else ([], [], False))"
    and "c1 \<noteq> []" "c2 \<noteq> []" "c3 \<noteq> []"
  shows "\<not> snd (snd check) \<longleftrightarrow> request \<le> balance \<and> h \<le> balance - request \<and> (f :: u64) \<le> balance - request"
    and "snd (snd check) \<Longrightarrow> fst check \<noteq> []"
proof -
  have "\<not> snd (snd check) \<longleftrightarrow> \<not> balance < request \<and> \<not> (0 < h \<and> balance - request < h) \<and> \<not> (0 < f \<and> balance - request < f)"
    unfolding assms(1) by simp
  then show "\<not> snd (snd check) \<longleftrightarrow> request \<le> balance \<and> h \<le> balance - request \<and> f \<le> balance - request"
    unfolding word_reserve_iff not_less .
  show "snd (snd check) \<Longrightarrow> fst check \<noteq> []"
    using assms(2-4) unfolding assms(1) by (simp split: if_splits)
qed

interpretation payout_cap: capacity_check checkPayoutCapacity cfg_FeeHeadroomUWolo cfg_MinPayoutBalanceUWolo
  by unfold_locales (rule capacity_shape [OF checkPayoutCapacity_def [unfolded Let_def]]; simp)+

interpretation escrow_cap: capacity_check checkEscrowCapacity cfg_EscrowFeeHeadroomUWolo cfg_MinEscrowBalanceUWolo
  by unfold_locales (rule capacity_shape [OF checkEscrowCapacity_def [unfolded Let_def]]; simp)+

text \<open>The reserve checks of the health report are the capacity checks of an empty request.\<close>

lemma checkReserveHealth_zero:
  "snd (snd (checkReserveHealth cfg balance)) = snd (snd (checkPayoutCapacity cfg balance 0))"
  "fst (checkReserveHealth cfg balance) = fst (checkPayoutCapacity cfg balance 0)"
  by (simp_all add: checkReserveHealth_def checkPayoutCapacity_def Let_def)

lemma checkEscrowReserveHealth_zero:
  "snd (snd (checkEscrowReserveHealth cfg balance)) = snd (snd (checkEscrowCapacity cfg balance 0))"
  "fst (checkEscrowReserveHealth cfg balance) = fst (checkEscrowCapacity cfg balance 0)"
  by (simp_all add: checkEscrowReserveHealth_def checkEscrowCapacity_def Let_def)


section \<open>Serving safely\<close>

definition listenAddrIsLoopback :: "'c env \<Rightarrow> settlementConfig \<Rightarrow> bool" where
  "listenAddrIsLoopback env cfg =
     (case env_splitHost env (cfg_ListenAddr cfg) of
        None \<Rightarrow> False
      | Some host \<Rightarrow> host = ''localhost'' \<or> env_isLoopbackIP env host)"

definition validateServeSafety :: "'c env \<Rightarrow> settlementConfig \<Rightarrow> string option" where
  "validateServeSafety env cfg =
     (if cfg_AuthToken cfg \<noteq> [] then None
      else if listenAddrIsLoopback env cfg then None
      else Some ''WOLO_SETTLEMENT_AUTH_TOKEN is required when binding settlement serve beyond localhost'')"

text \<open>The \<open>Authorization\<close> header of the request is the second argument.\<close>

definition checkAuth :: "settlementConfig \<Rightarrow> string \<Rightarrow> string option" where
  "checkAuth cfg authorization =
     (if cfg_AuthToken cfg = [] then None
      else if TrimSpace authorization \<noteq> ''Bearer '' @ cfg_AuthToken cfg then Some ''missing or invalid bearer token''
      else None)"

section \<open>The health report\<close>

definition healthBase :: "'c env \<Rightarrow> settlementConfig \<Rightarrow> settlementHealthResponse" where
  "healthBase env cfg = zero_settlementHealthResponse\<lparr>
     hr_OK := True, hr_ChainID := cfg_ChainID cfg, hr_RPCURL := cfg_RPCHTTP cfg, hr_RESTURL := cfg_RESTURL cfg,
     hr_PublicRESTURL := cfg_PublicRESTURL cfg, hr_HomeDir := cfg_HomeDir cfg, hr_KeyringBackend := cfg_KeyringBackend cfg,
     hr_PayoutKeyName := cfg_PayoutKeyName cfg, hr_EscrowKeyName := cfg_EscrowKeyName cfg, hr_EscrowAddress := cfg_EscrowAddress cfg,
     hr_MinPayoutBalanceUWolo := formatOptionalUWolo (cfg_MinPayoutBalanceUWolo cfg),
     hr_MinPayoutBalanceWolo := formatOptionalDisplayAmount (cfg_MinPayoutBalanceUWolo cfg),
     hr_FeeHeadroomUWolo := formatOptionalUWolo (cfg_FeeHeadroomUWolo cfg),
     hr_FeeHeadroomWolo := formatOptionalDisplayAmount (cfg_FeeHeadroomUWolo cfg),
     hr_MinEscrowBalanceUWolo := formatOptionalUWolo (cfg_MinEscrowBalanceUWolo cfg),
     hr_MinEscrowBalanceWolo := formatOptionalDisplayAmount (cfg_MinEscrowBalanceUWolo cfg),
     hr_EscrowFeeHeadroomUWolo := formatOptionalUWolo (cfg_EscrowFeeHeadroomUWolo cfg),
     hr_EscrowFeeHeadroomWolo := formatOptionalDisplayAmount (cfg_EscrowFeeHeadroomUWolo cfg),
     hr_LoopbackOnly := listenAddrIsLoopback env cfg, hr_AuthTokenSet := (cfg_AuthToken cfg \<noteq> [])\<rparr>"

definition configWarnings :: "settlementConfig \<Rightarrow> string list" where
  "configWarnings cfg =
     (if cfg_PayoutKeyName cfg = [] then [''WOLO_SETTLEMENT_PAYOUT_KEY_NAME is not set; payout execution is disabled''] else []) @
     (if EqualFold (cfg_PayoutKeyName cfg) ''faucetgrowth'' then [''WOLO_SETTLEMENT_PAYOUT_KEY_NAME still points at temporary faucetgrowth; move settlement to a dedicated payout signer''] else []) @
     (if cfg_KeyringBackend cfg = ''test'' then [''test keyring backend is enabled; use only for local/dev or explicitly accepted ops''] else []) @
     (if cfg_AuthToken cfg = [] then [''WOLO_SETTLEMENT_AUTH_TOKEN is empty; payout POST access relies on loopback-only binding''] else []) @
     (if cfg_PublicRESTURL cfg = [] then [''WOLO_SETTLEMENT_PUBLIC_REST_URL is empty; preferred proof links will stay internal-only''] else []) @
     (if cfg_MinPayoutBalanceUWolo cfg = 0 then [''WOLO_SETTLEMENT_MIN_PAYOUT_BALANCE_UWOLO is zero; reserve-floor refusal is disabled''] else []) @
     (if cfg_FeeHeadroomUWolo cfg = 0 then [''WOLO_SETTLEMENT_FEE_HEADROOM_UWOLO is zero; fee-headroom refusal is disabled''] else []) @
     (if cfg_EscrowAddress cfg = [] then [''WOLO_SETTLEMENT_ESCROW_ADDRESS is empty; escrow proof/discovery helpers are disabled''] else []) @
     (if cfg_EscrowKeyName cfg = [] then [''WOLO_SETTLEMENT_ESCROW_KEY_NAME is empty; escrow-signed grouped runs are disabled''] else []) @
     (if cfg_MinEscrowBalanceUWolo cfg = 0 then [''WOLO_SETTLEMENT_MIN_ESCROW_BALANCE_UWOLO is zero; escrow reserve-floor refusal is disabled''] else []) @
     (if cfg_EscrowFeeHeadroomUWolo cfg = 0 then [''WOLO_SETTLEMENT_ESCROW_FEE_HEADROOM_UWOLO is zero; escrow fee-headroom refusal is disabled''] else []) @
     (if cfg_EscrowAutoTopUp cfg \<and> cfg_EscrowKeyName cfg = [] then [''WOLO_SETTLEMENT_ESCROW_AUTO_TOP_UP_ENABLED is on but WOLO_SETTLEMENT_ESCROW_KEY_NAME is empty''] else []) @
     (if cfg_EscrowAutoTopUp cfg \<and> cfg_EscrowAddress cfg = [] then [''WOLO_SETTLEMENT_ESCROW_AUTO_TOP_UP_ENABLED is on but WOLO_SETTLEMENT_ESCROW_ADDRESS is empty''] else []) @
     (if cfg_TreasuryAddress cfg \<noteq> [] \<and> \<not> isWoloAddress (cfg_TreasuryAddress cfg) (cfg_AddressPrefix cfg)
      then [''WOLO_SETTLEMENT_TREASURY_ADDRESS does not match the wolo prefix''] else [])"

abbreviation warn :: "string \<Rightarrow> settlementHealthResponse \<Rightarrow> settlementHealthResponse" where
  "warn w report \<equiv> report\<lparr>hr_Warnings := hr_Warnings report @ [w]\<rparr>"

abbreviation failHealth :: "string \<Rightarrow> string \<Rightarrow> settlementHealthResponse \<Rightarrow> settlementHealthResponse" where
  "failHealth code detail report \<equiv> report\<lparr>hr_OK := False, hr_FailureCode := code, hr_Detail := detail\<rparr>"

text \<open>The report's last part: shared addresses, a malformed escrow address, the escrow signer.\<close>

definition healthEscrowPart :: "'c env \<Rightarrow> settlementConfig \<Rightarrow> string \<Rightarrow> settlementHealthResponse
    \<Rightarrow> ('c, settlementHealthResponse) state" where
  "healthEscrowPart env cfg payoutAddress report0 = do {
     let report1 = (if payoutAddress \<noteq> [] \<and> cfg_EscrowAddress cfg \<noteq> [] \<and> EqualFold payoutAddress (cfg_EscrowAddress cfg)
       then warn ''payout and escrow currently point at the same address; split roles before mainnet'' report0 else report0);
     let report2 = (if cfg_EscrowAddress cfg \<noteq> [] \<and> \<not> isWoloAddress (cfg_EscrowAddress cfg) (cfg_AddressPrefix cfg)
       then failHealth ''INVALID_ESCROW_ADDRESS'' ''WOLO_SETTLEMENT_ESCROW_ADDRESS does not match the wolo prefix'' report1 else report1);
     if cfg_EscrowKeyName cfg = [] then State_Monad.return report2
     else do {
       resolved \<leftarrow> resolveEscrowAddress env cfg;
       case resolved of
         Inl err \<Rightarrow> State_Monad.return (warn err report2)
       | Inr escrowSignerAddress \<Rightarrow>
         if escrowSignerAddress = [] then State_Monad.return report2
         else do {
           let report3 = report2\<lparr>hr_EscrowSignerAddress := escrowSignerAddress\<rparr>;
           balance \<leftarrow> fetchAccountBalanceUWolo env cfg escrowSignerAddress;
           State_Monad.return
             (case balance of
                Inl balanceErr \<Rightarrow> warn balanceErr report3
              | Inr escrowBalanceUWolo \<Rightarrow>
                  let report4 = report3\<lparr>hr_EscrowBalanceUWolo := FormatUint escrowBalanceUWolo,
                        hr_EscrowBalanceWolo := formatDisplayAmount (FormatUint escrowBalanceUWolo)\<rparr>
                  in case checkEscrowReserveHealth cfg escrowBalanceUWolo of
                       (_, detail, failed) \<Rightarrow> if failed then warn detail report4 else report4)
         }
     }
   }"

definition healthPayoutPart :: "'c env \<Rightarrow> settlementConfig \<Rightarrow> string \<Rightarrow> settlementHealthResponse
    \<Rightarrow> ('c, settlementHealthResponse) state" where
  "healthPayoutPart env cfg payoutAddress report =
     (if payoutAddress = [] then healthEscrowPart env cfg payoutAddress report
      else do {
        balance \<leftarrow> fetchAccountBalanceUWolo env cfg payoutAddress;
        case balance of
          Inl balanceErr \<Rightarrow> State_Monad.return (failHealth ''PAYOUT_BALANCE_LOOKUP_FAILED'' balanceErr report)
        | Inr balanceUWolo \<Rightarrow>
          let report' = report\<lparr>hr_PayoutBalanceUWolo := FormatUint balanceUWolo,
                hr_PayoutBalanceWolo := formatDisplayAmount (FormatUint balanceUWolo)\<rparr>
          in case checkReserveHealth cfg balanceUWolo of
               (code, detail, failed) \<Rightarrow>
                 if failed then State_Monad.return (failHealth code detail report')
                 else healthEscrowPart env cfg payoutAddress report'
      })"

definition buildHealthReport :: "'c env \<Rightarrow> settlementConfig \<Rightarrow> ('c, settlementHealthResponse) state" where
  "buildHealthReport env cfg = do {
     let report = healthBase env cfg;
     chain \<leftarrow> fetchRuntimeChainID env cfg;
     case chain of
       Inl err \<Rightarrow> State_Monad.return (failHealth ''RPC_UNREACHABLE'' err report)
     | Inr runtimeChainID \<Rightarrow>
       let report = report\<lparr>hr_RuntimeChainID := runtimeChainID\<rparr> in
       if runtimeChainID \<noteq> cfg_ChainID cfg
       then State_Monad.return (failHealth ''CHAIN_ID_MISMATCH'' (''rpc reported '' @ runtimeChainID @ '', expected '' @ cfg_ChainID cfg) report)
       else do {
         rest \<leftarrow> validateRESTInvariants env cfg;
         case rest of
           Some err \<Rightarrow> State_Monad.return (failHealth ''REST_DRIFT'' err report)
         | None \<Rightarrow> do {
             let report = report\<lparr>hr_Warnings := configWarnings cfg\<rparr>;
             resolved \<leftarrow> resolvePayoutAddress env cfg;
             case resolved of
               Inr payoutAddress \<Rightarrow>
                 healthPayoutPart env cfg payoutAddress
                   (if payoutAddress \<noteq> [] then report\<lparr>hr_PayoutAddress := payoutAddress\<rparr> else report)
             | Inl err \<Rightarrow>
                 if cfg_PayoutKeyName cfg \<noteq> [] \<and> Contains err ''payout signer resolved to''
                 then State_Monad.return (failHealth ''PAYOUT_ADDRESS_MISMATCH'' err report)
                 else healthPayoutPart env cfg [] (if cfg_PayoutKeyName cfg \<noteq> [] then warn err report else report)
           }
       }
   }"

subsection \<open>What a healthy report says\<close>

lemma healthBase_sel [simp]: "hr_PayoutAddress (healthBase env cfg) = []" "hr_OK (healthBase env cfg)"
  by (simp_all add: healthBase_def)

lemma healthEscrowPart_frame:
  "hr_PayoutAddress (fst (run_state (healthEscrowPart env cfg a r) c)) = hr_PayoutAddress r"
  "hr_PayoutBalanceUWolo (fst (run_state (healthEscrowPart env cfg a r) c)) = hr_PayoutBalanceUWolo r"
  "hr_OK (fst (run_state (healthEscrowPart env cfg a r) c)) \<Longrightarrow> hr_OK r"
  by (auto simp: healthEscrowPart_def monad_simps Let_def split: sum.splits prod.splits if_splits)

text \<open>
  What the outside reports for a signer in one pass: the node's chain id is the configured one, the REST
  endpoint agrees with the configuration, the key resolves to an address, and that address has a balance.
\<close>

definition signerBalance :: "'c env \<Rightarrow> settlementConfig \<Rightarrow> ('c, string + string) state \<Rightarrow> ('c, (string \<times> u64) option) state" where
  "signerBalance env cfg resolve = do {
     chain \<leftarrow> fetchRuntimeChainID env cfg;
     rest \<leftarrow> validateRESTInvariants env cfg;
     resolved \<leftarrow> resolve;
     case resolved of
       Inl _ \<Rightarrow> State_Monad.return None
     | Inr address \<Rightarrow> do {
         balance \<leftarrow> fetchAccountBalanceUWolo env cfg address;
         State_Monad.return
           (case balance of
              Inl _ \<Rightarrow> None
            | Inr amount \<Rightarrow> if chain = Inr (cfg_ChainID cfg) \<and> rest = None then Some (address, amount) else None)
       }
   }"

definition escrowAddressOK :: "settlementConfig \<Rightarrow> bool" where
  "escrowAddressOK cfg \<longleftrightarrow> cfg_EscrowAddress cfg = [] \<or> isWoloAddress (cfg_EscrowAddress cfg) (cfg_AddressPrefix cfg)"

lemma healthEscrowPart_ok:
  "hr_OK (fst (run_state (healthEscrowPart env cfg a r) c)) \<longleftrightarrow> hr_OK r \<and> escrowAddressOK cfg"
  by (auto simp: healthEscrowPart_def escrowAddressOK_def monad_simps Let_def split: sum.splits prod.splits if_splits)

text \<open>
  A report that is healthy and names a payout address is one for which the outside reported a balance
  of that address that passes the reserve check, and carries this balance.
\<close>

lemma healthPayoutPart_ok:
  assumes "a \<noteq> []"
  shows "hr_OK (fst (run_state (healthPayoutPart env cfg a r) c)) \<and> hr_PayoutBalanceUWolo (fst (run_state (healthPayoutPart env cfg a r) c)) = x \<longleftrightarrow>
    (\<exists>b. fst (run_state (fetchAccountBalanceUWolo env cfg a) c) = Inr b \<and> x = FormatUint b \<and>
      \<not> snd (snd (checkReserveHealth cfg b)) \<and> hr_OK r \<and> escrowAddressOK cfg)"
  using assms
  by (cases "fst (run_state (fetchAccountBalanceUWolo env cfg a) c)")
    (auto simp: healthPayoutPart_def Let_def case_prod_beta healthEscrowPart_frame healthEscrowPart_ok)

lemma healthPayoutPart_address:
  "hr_PayoutAddress (fst (run_state (healthPayoutPart env cfg a r) c)) = hr_PayoutAddress r"
  by (auto simp: healthPayoutPart_def monad_simps Let_def healthEscrowPart_frame split: sum.splits prod.splits if_splits)

lemma buildHealthReport_ok:
  assumes "a \<noteq> []"
  shows "hr_OK (fst (run_state (buildHealthReport env cfg) c)) \<and> hr_PayoutAddress (fst (run_state (buildHealthReport env cfg) c)) = a \<and>
      hr_PayoutBalanceUWolo (fst (run_state (buildHealthReport env cfg) c)) = x \<longleftrightarrow>
    (\<exists>b. fst (run_state (signerBalance env cfg (resolvePayoutAddress env cfg)) c) = Some (a, b) \<and> x = FormatUint b \<and>
      \<not> snd (snd (checkReserveHealth cfg b)) \<and> escrowAddressOK cfg)"
proof -
  let ?chain = "run_state (fetchRuntimeChainID env cfg) c"
  let ?rest = "run_state (validateRESTInvariants env cfg) (snd ?chain)"
  let ?resolved = "run_state (resolvePayoutAddress env cfg) (snd ?rest)"
  let ?r = "(healthBase env cfg)\<lparr>hr_RuntimeChainID := cfg_ChainID cfg, hr_Warnings := configWarnings cfg, hr_PayoutAddress := a\<rparr>"
  show ?thesis
  proof (cases "fst ?chain = Inr (cfg_ChainID cfg) \<and> fst ?rest = None \<and> fst ?resolved = Inr a")
    case True
    then have "run_state (buildHealthReport env cfg) c = run_state (healthPayoutPart env cfg a ?r) (snd ?resolved)"
      using assms by (simp add: buildHealthReport_def Let_def)
    with True healthPayoutPart_ok [OF assms, of env cfg ?r "snd ?resolved" x] show ?thesis
      by (auto simp: signerBalance_def healthPayoutPart_address split: sum.splits)
  next
    case False
    then show ?thesis
      using assms
      by (auto simp: buildHealthReport_def signerBalance_def Let_def healthPayoutPart_address split: sum.splits option.splits if_splits)
  qed
qed

text \<open>A node that does not answer is the failure \<open>RPC_UNREACHABLE\<close>, a REST endpoint that does not answer or disagrees is \<open>REST_DRIFT\<close>.\<close>

lemma buildHealthReport_unreachable:
  assumes "fst (run_state (fetchRuntimeChainID env cfg) c) = Inl err"
  shows "fst (run_state (buildHealthReport env cfg) c) = failHealth ''RPC_UNREACHABLE'' err (healthBase env cfg)"
  using assms by (simp add: buildHealthReport_def Let_def)

lemma buildHealthReport_drift:
  assumes "run_state (fetchRuntimeChainID env cfg) c = (Inr (cfg_ChainID cfg), c1)" and "fst (run_state (validateRESTInvariants env cfg) c1) = Some err"
  shows "fst (run_state (buildHealthReport env cfg) c) =
    failHealth ''REST_DRIFT'' err ((healthBase env cfg)\<lparr>hr_RuntimeChainID := cfg_ChainID cfg\<rparr>)"
  using assms by (simp add: buildHealthReport_def Let_def)

end
