(* ===== verification/Paths.thy ===== *)
theory Paths
  imports GoLib
begin

text \<open>
  Slash-separated paths as \<open>path/filepath\<close> of the Go standard library joins and cleans them, and what
  follows for a file in a subdirectory: a name without a slash keeps the file in its directory, a name
  that begins with dot-dot may put it into another one.
\<close>

section \<open>Clean and Join\<close>

text \<open>\<open>filepath.Clean\<close> on slash-separated paths: empty and dot elements go, a dot-dot removes the element before it.\<close>

fun cleanParts :: "bool \<Rightarrow> string list \<Rightarrow> string list \<Rightarrow> string list" where
  "cleanParts rooted out [] = rev out"
| "cleanParts rooted out (part # parts) =
     (if part = [] \<or> part = ''.'' then cleanParts rooted out parts
      else if part = ''..''
      then (case out of
              lastPart # below \<Rightarrow> cleanParts rooted (if lastPart = ''..'' then part # out else below) parts
            | [] \<Rightarrow> cleanParts rooted (if rooted then [] else [part]) parts)
      else cleanParts rooted (part # out) parts)"

definition renderPath :: "bool \<Rightarrow> string list \<Rightarrow> string" where
  "renderPath rooted parts =
     (let body = Join parts ''/'' in if rooted then ''/'' @ body else if body = [] then ''.'' else body)"

definition Clean :: "string \<Rightarrow> string" where
  "Clean path = (let rooted = prefix ''/'' path in renderPath rooted (cleanParts rooted [] (Split1 (CHR ''/'') path)))"

text \<open>\<open>filepath.Join\<close>: the non-empty elements joined by slashes and cleaned.\<close>

definition JoinPath :: "string list \<Rightarrow> string" where
  "JoinPath parts = (case filter (\<lambda>part. part \<noteq> []) parts of [] \<Rightarrow> [] | nonEmpty \<Rightarrow> Clean (Join nonEmpty ''/''))"

section \<open>A file in a subdirectory\<close>

text \<open>A path element that cleaning keeps.\<close>

definition plainName :: "string \<Rightarrow> bool" where
  "plainName x \<longleftrightarrow> x \<noteq> [] \<and> x \<noteq> ''.'' \<and> x \<noteq> ''..'' \<and> CHR ''/'' \<notin> set x"

lemma cleanParts_append: "cleanParts rooted out (xs @ ys) = cleanParts rooted (rev (cleanParts rooted out xs)) ys"
proof (induction xs arbitrary: out)
  case (Cons x xs)
  then show ?case by (cases out) simp_all
qed simp

declare cleanParts.simps(2) [simp del]

lemma cleanParts_plain [simp]: "plainName x \<Longrightarrow> cleanParts rooted out (x # xs) = cleanParts rooted (x # out) xs"
  by (simp add: plainName_def cleanParts.simps(2))

lemma Split1_nonempty [simp]: "Split1 sep s \<noteq> []"
  by (cases s) (auto split: list.splits)

lemma Split1_concat: "Split1 sep (s @ sep # t) = Split1 sep s @ Split1 sep t"
proof (induction s)
  case (Cons c s)
  then show ?case by (cases "Split1 sep s") auto
qed simp

lemma Split1_free [simp]: "sep \<notin> set s \<Longrightarrow> Split1 sep s = [s]"
  by (induction s) auto

lemma Join_append: "xs \<noteq> [] \<Longrightarrow> ys \<noteq> [] \<Longrightarrow> Join (xs @ ys) sep = Join xs sep @ sep @ Join ys sep"
  by (induction xs sep rule: Join.induct) (auto simp: neq_Nil_conv)

definition baseParts :: "string \<Rightarrow> string list" where
  "baseParts dir = cleanParts (prefix ''/'' dir) [] (Split1 (CHR ''/'') dir)"

lemma JoinPath_sub:
  assumes "plainName x" and "y \<noteq> []"
  shows "JoinPath [dir, x, y] =
    renderPath (prefix ''/'' dir) (cleanParts (prefix ''/'' dir) (rev (baseParts dir)) (x # Split1 (CHR ''/'') y))"
proof (cases "dir = []")
  case True
  have "\<not> prefix ''/'' (x @ ''/'' @ y)" using assms(1) by (cases x) (auto simp: plainName_def)
  then show ?thesis
    using assms True Split1_concat [of "CHR ''/''" x y]
    by (simp add: JoinPath_def Clean_def baseParts_def plainName_def cleanParts.simps(2))
next
  case False
  then have "prefix ''/'' (dir @ ''/'' @ x @ ''/'' @ y) = prefix ''/'' dir" by (cases dir) auto
  moreover have "Split1 (CHR ''/'') (dir @ ''/'' @ x @ ''/'' @ y) = Split1 (CHR ''/'') dir @ x # Split1 (CHR ''/'') y"
    using assms(1) Split1_concat [of "CHR ''/''" dir "x @ ''/'' @ y"] Split1_concat [of "CHR ''/''" x y] by (simp add: plainName_def)
  ultimately show ?thesis
    using assms False by (simp add: JoinPath_def Clean_def baseParts_def cleanParts_append plainName_def Let_def)
qed

text \<open>The common beginning of the paths of the files two levels below a directory.\<close>

definition pathBase :: "string \<Rightarrow> string" where
  "pathBase dir = (if prefix ''/'' dir then ''/'' else []) @ (if baseParts dir = [] then [] else Join (baseParts dir) ''/'' @ ''/'')"

lemma JoinPath_plain:
  assumes "plainName x" and "plainName y"
  shows "JoinPath [dir, x, y] = pathBase dir @ x @ ''/'' @ y"
proof -
  have "cleanParts rooted out [x, y] = rev out @ [x, y]" for rooted out
    using assms by simp
  moreover have "y \<noteq> []" "x \<noteq> []" "CHR ''/'' \<notin> set y" using assms by (simp_all add: plainName_def)
  ultimately show ?thesis
    using Join_append [of "baseParts dir" "[x, y]" "''/''"]
    by (cases "baseParts dir = []") (simp_all add: JoinPath_sub [OF assms(1)] renderPath_def pathBase_def Let_def)
qed

lemma JoinPath_inject:
  assumes "plainName x" and "plainName y" and "plainName x'" and "plainName y'"
  shows "JoinPath [dir, x, y] = JoinPath [dir, x', y'] \<longleftrightarrow> x = x' \<and> y = y'"
proof -
  have "CHR ''/'' \<notin> set x" "CHR ''/'' \<notin> set x'" using assms by (simp_all add: plainName_def)
  then have "x @ ''/'' @ y = x' @ ''/'' @ y' \<longleftrightarrow> x = x' \<and> y = y'"
    using split_list_first_prop by (auto simp: append_eq_append_conv2 append_eq_Cons_conv Cons_eq_append_conv)
  then show ?thesis using assms by (simp add: JoinPath_plain)
qed

text \<open>A name that steps back into a sibling directory.\<close>

lemma JoinPath_sibling:
  assumes "plainName x" and "plainName z" and "plainName y"
  shows "JoinPath [dir, x, ''../'' @ z @ ''/'' @ y] = JoinPath [dir, z, y]"
proof -
  have "Split1 (CHR ''/'') (''..'' @ ''/'' @ z @ ''/'' @ y) = [''..'', z, y]"
    using assms Split1_concat [of "CHR ''/''" "''..''" "z @ ''/'' @ y"] Split1_concat [of "CHR ''/''" z y]
    by (simp add: plainName_def)
  then have split: "Split1 (CHR ''/'') (''../'' @ z @ ''/'' @ y) = [''..'', z, y]" by simp
  have "cleanParts rooted out (x # [''..'', z, y]) = cleanParts rooted out (z # [y])" for rooted out
    using assms(1) by (simp add: cleanParts.simps(2) [of _ _ "''..''"] plainName_def)
  moreover have "y \<noteq> []" "CHR ''/'' \<notin> set y" using assms(3) by (simp_all add: plainName_def)
  ultimately show ?thesis
    by (simp only: JoinPath_sub [OF assms(1)] JoinPath_sub [OF assms(2)] split Split1_free append_is_Nil_conv simp_thms list.simps)
qed

end
