(* ===== verification/Store.thy ===== *)
theory Store
  imports Health Paths
begin

text \<open>
  The service's own state: the JSON record files of requests, grouped runs and challenge
  settlements, the lock files, and the commands sent (settlement.go, lines 3275--3363 and 4391--4451;
  settlement_challenge.go, lines 2407--2474).

  There is one file system: record files are found by their path only, whatever kind of record was
  written there, so a record of one kind can be read as a record of another kind.  A record file either
  holds a record or cannot be read; a record is read back as it was written (its strings being valid
  UTF-8).  A lock file is its modification time; its name ends in \<open>.lock\<close>, so it is no record file.
  \<open>w_sends\<close> is the sequence of argument vectors of the \<open>tx bank send\<close> commands run so far: the payments
  the service has asked the chain for.
\<close>

datatype recordFile =
    RequestFile settlementStoredResult
  | RunFile settlementRunStoredResult
  | ChallengeFile settlementChallengeStoredResult
  | Unreadable string

datatype 'a readResult = NotExist | ReadFailed string | ReadOK 'a

record 'c world =
  w_chain :: 'c
  w_files :: "string \<rightharpoonup> recordFile"
  w_locks :: "string \<rightharpoonup> int"
  w_sends :: "string list list"

definition onChain :: "('c, 'a) state \<Rightarrow> ('c world, 'a) state" where
  "onChain m = State (\<lambda>w. case run_state m (w_chain w) of (a, c) \<Rightarrow> (a, w\<lparr>w_chain := c\<rparr>))"

lemma run_onChain [simp, monad_simps]:
  "run_state (onChain m) w = (fst (run_state m (w_chain w)), w\<lparr>w_chain := snd (run_state m (w_chain w))\<rparr>)"
  by (simp add: onChain_def case_prod_beta)

section \<open>Paths\<close>

definition requestRecordPath :: "settlementConfig \<Rightarrow> string \<Rightarrow> string" where
  "requestRecordPath cfg requestID = JoinPath [cfg_StateDir cfg, ''requests'', requestID @ ''.json'']"

definition requestLockPath :: "settlementConfig \<Rightarrow> string \<Rightarrow> string" where
  "requestLockPath cfg requestID = JoinPath [cfg_StateDir cfg, ''locks'', requestID @ ''.lock'']"

definition runRecordPath :: "settlementConfig \<Rightarrow> string \<Rightarrow> string" where
  "runRecordPath cfg runID = JoinPath [cfg_StateDir cfg, ''runs'', runID @ ''.json'']"

definition runLockPath :: "settlementConfig \<Rightarrow> string \<Rightarrow> string" where
  "runLockPath cfg runID = JoinPath [cfg_StateDir cfg, ''run-locks'', runID @ ''.lock'']"

definition challengeRecordPath :: "settlementConfig \<Rightarrow> string \<Rightarrow> string" where
  "challengeRecordPath cfg settlementID = JoinPath [cfg_StateDir cfg, ''challenge-settlements'', settlementID @ ''.json'']"

definition challengeLockPath :: "settlementConfig \<Rightarrow> string \<Rightarrow> string" where
  "challengeLockPath cfg settlementID = JoinPath [cfg_StateDir cfg, ''challenge-locks'', settlementID @ ''.lock'']"

lemmas path_defs = requestRecordPath_def requestLockPath_def runRecordPath_def runLockPath_def
  challengeRecordPath_def challengeLockPath_def

text \<open>An id without a slash names a file of its own directory.  Request ids that pass the validation are such ids.\<close>

definition plainID :: "string \<Rightarrow> bool" where
  "plainID x \<longleftrightarrow> CHR ''/'' \<notin> set x"

lemma plainName_file [simp]: "plainName (x @ ''.json'') = plainID x" "plainName (x @ ''.lock'') = plainID x"
proof -
  have "x @ ''.json'' \<noteq> ''.'' \<and> x @ ''.json'' \<noteq> ''..''" "x @ ''.lock'' \<noteq> ''.'' \<and> x @ ''.lock'' \<noteq> ''..''"
    by (cases x; simp)+
  then show "plainName (x @ ''.json'') = plainID x" "plainName (x @ ''.lock'') = plainID x"
    by (auto simp: plainName_def plainID_def)
qed

lemma plainName_dir [simp]:
  "plainName ''requests''" "plainName ''locks''" "plainName ''runs''" "plainName ''run-locks''"
  "plainName ''challenge-settlements''" "plainName ''challenge-locks''"
  by (simp_all add: plainName_def)

lemma plainID_valid [simp]: "settlementRequestIDPattern x \<Longrightarrow> plainID x"
proof -
  assume "settlementRequestIDPattern x"
  moreover have "\<not> isAlnum (CHR ''/'')" by (simp add: go_eval)
  ultimately show "plainID x" by (cases x) (auto simp: settlementRequestIDPattern_def plainID_def list_all_iff)
qed

lemma paths_inject [simp]:
  assumes "plainID a" and "plainID b"
  shows "requestRecordPath cfg a = requestRecordPath cfg b \<longleftrightarrow> a = b"
    "requestLockPath cfg a = requestLockPath cfg b \<longleftrightarrow> a = b"
    "runRecordPath cfg a = runRecordPath cfg b \<longleftrightarrow> a = b"
    "runLockPath cfg a = runLockPath cfg b \<longleftrightarrow> a = b"
    "challengeRecordPath cfg a = challengeRecordPath cfg b \<longleftrightarrow> a = b"
    "challengeLockPath cfg a = challengeLockPath cfg b \<longleftrightarrow> a = b"
  using assms by (simp_all add: path_defs JoinPath_inject)

lemma recordPaths_disjoint [simp]:
  assumes "plainID a" and "plainID b"
  shows "requestRecordPath cfg a \<noteq> runRecordPath cfg b" "runRecordPath cfg b \<noteq> requestRecordPath cfg a"
    "requestRecordPath cfg a \<noteq> challengeRecordPath cfg b" "challengeRecordPath cfg b \<noteq> requestRecordPath cfg a"
    "runRecordPath cfg a \<noteq> challengeRecordPath cfg b" "challengeRecordPath cfg b \<noteq> runRecordPath cfg a"
  using assms by (simp_all add: path_defs JoinPath_inject)

lemma lockPaths_disjoint [simp]:
  assumes "plainID a" and "plainID b"
  shows "requestLockPath cfg a \<noteq> runLockPath cfg b" "runLockPath cfg b \<noteq> requestLockPath cfg a"
    "requestLockPath cfg a \<noteq> challengeLockPath cfg b" "challengeLockPath cfg b \<noteq> requestLockPath cfg a"
    "runLockPath cfg a \<noteq> challengeLockPath cfg b" "challengeLockPath cfg b \<noteq> runLockPath cfg a"
  using assms by (simp_all add: path_defs JoinPath_inject)

lemma lock_record_paths [simp]:
  assumes "plainID a" and "plainID b"
  shows "requestLockPath cfg a \<noteq> requestRecordPath cfg b" "requestRecordPath cfg b \<noteq> requestLockPath cfg a"
  using assms by (simp_all add: path_defs JoinPath_inject)

text \<open>An id that steps out of its directory can name the record of a request.\<close>

lemma runRecordPath_stray: "plainID rid \<Longrightarrow> runRecordPath cfg (''../requests/'' @ rid) = requestRecordPath cfg rid"
  using JoinPath_sibling [of "''runs''" "''requests''" "rid @ ''.json''" "cfg_StateDir cfg"] by (simp add: path_defs)

section \<open>Reading a record of another kind\<close>

text \<open>
  The three kinds of record files are JSON objects with the keys \<open>request\<close>, \<open>fingerprint\<close>, \<open>response\<close>
  and \<open>updated_at\<close>.  \<open>json.Unmarshal\<close> fills the fields whose keys the file has (all of them with values of
  the field's type) and leaves the others at their zero values.
\<close>

definition requestOfRun :: "settlementRunStoredResult \<Rightarrow> settlementStoredResult" where
  "requestOfRun s = \<lparr>
     sr_Request = zero_normalizedSettlementRequest\<lparr>nq_Memo := nr_Memo (rs_Request s), nq_SignerRole := nr_SignerRole (rs_Request s)\<rparr>,
     sr_Fingerprint = rs_Fingerprint s,
     sr_Response = (let r = rs_Response s in zero_settlementExecuteResponse\<lparr>xr_OK := rr_OK r, xr_Status := rr_Status r,
       xr_FailureCode := rr_FailureCode r, xr_Retryable := rr_Retryable r, xr_IdempotentReplay := rr_IdempotentReplay r,
       xr_SignerRole := rr_SignerRole r, xr_SignerAddress := rr_SignerAddress r, xr_Detail := rr_Detail r\<rparr>),
     sr_UpdatedAt = rs_UpdatedAt s\<rparr>"

definition requestOfChallenge :: "settlementChallengeStoredResult \<Rightarrow> settlementStoredResult" where
  "requestOfChallenge s = \<lparr>
     sr_Request = zero_normalizedSettlementRequest\<lparr>nq_Memo := nc_Memo (cs_Request s)\<rparr>,
     sr_Fingerprint = cs_Fingerprint s,
     sr_Response = (let r = cs_Response s in zero_settlementExecuteResponse\<lparr>xr_OK := cr_OK r, xr_Status := cr_Status r,
       xr_FailureCode := cr_FailureCode r, xr_Retryable := cr_Retryable r, xr_IdempotentReplay := cr_IdempotentReplay r,
       xr_Detail := cr_Detail r\<rparr>),
     sr_UpdatedAt = cs_UpdatedAt s\<rparr>"

definition runOfRequest :: "settlementStoredResult \<Rightarrow> settlementRunStoredResult" where
  "runOfRequest s = \<lparr>
     rs_Request = zero_normalizedSettlementRunRequest\<lparr>nr_Memo := nq_Memo (sr_Request s), nr_SignerRole := nq_SignerRole (sr_Request s)\<rparr>,
     rs_Fingerprint = sr_Fingerprint s,
     rs_Response = (let r = sr_Response s in zero_settlementRunResponse\<lparr>rr_OK := xr_OK r, rr_Status := xr_Status r,
       rr_FailureCode := xr_FailureCode r, rr_Retryable := xr_Retryable r, rr_IdempotentReplay := xr_IdempotentReplay r,
       rr_SignerRole := xr_SignerRole r, rr_SignerAddress := xr_SignerAddress r, rr_Detail := xr_Detail r\<rparr>),
     rs_UpdatedAt = sr_UpdatedAt s\<rparr>"

definition runOfChallenge :: "settlementChallengeStoredResult \<Rightarrow> settlementRunStoredResult" where
  "runOfChallenge s = \<lparr>
     rs_Request = (let q = cs_Request s in zero_normalizedSettlementRunRequest\<lparr>nr_SettlementRunID := nc_SettlementRunID q,
       nr_SourceApp := nc_SourceApp q, nr_SourceEventID := nc_SourceEventID q, nr_Note := nc_Note q, nr_Memo := nc_Memo q\<rparr>),
     rs_Fingerprint = cs_Fingerprint s,
     rs_Response = (let r = cs_Response s in zero_settlementRunResponse\<lparr>rr_OK := cr_OK r, rr_DryRun := cr_DryRun r,
       rr_Status := cr_Status r, rr_FailureCode := cr_FailureCode r, rr_Retryable := cr_Retryable r,
       rr_IdempotentReplay := cr_IdempotentReplay r, rr_SettlementRunID := cr_SettlementRunID r, rr_SourceApp := cr_SourceApp r,
       rr_SourceEventID := cr_SourceEventID r, rr_Note := cr_Note r, rr_Memo := cr_Memo r,
       rr_RequestedTotalUWolo := cr_RequestedTotalUWolo r, rr_RequestedTotalWolo := cr_RequestedTotalWolo r,
       rr_ExecutedTotalUWolo := cr_ExecutedTotalUWolo r, rr_ExecutedTotalWolo := cr_ExecutedTotalWolo r,
       rr_ConfirmedTotalUWolo := cr_ConfirmedTotalUWolo r, rr_ConfirmedTotalWolo := cr_ConfirmedTotalWolo r,
       rr_AcceptedTotalUWolo := cr_AcceptedTotalUWolo r, rr_AcceptedTotalWolo := cr_AcceptedTotalWolo r,
       rr_RefusedTotalUWolo := cr_RefusedTotalUWolo r, rr_RefusedTotalWolo := cr_RefusedTotalWolo r,
       rr_RejectedTotalUWolo := cr_RejectedTotalUWolo r, rr_RejectedTotalWolo := cr_RejectedTotalWolo r,
       rr_Detail := cr_Detail r\<rparr>),
     rs_UpdatedAt = cs_UpdatedAt s\<rparr>"

definition challengeOfRequest :: "settlementStoredResult \<Rightarrow> settlementChallengeStoredResult" where
  "challengeOfRequest s = \<lparr>
     cs_Request = zero_normalizedSettlementChallengeRequest\<lparr>nc_Memo := nq_Memo (sr_Request s)\<rparr>,
     cs_Fingerprint = sr_Fingerprint s,
     cs_Response = (let r = sr_Response s in zero_settlementChallengeResponse\<lparr>cr_OK := xr_OK r, cr_Status := xr_Status r,
       cr_FailureCode := xr_FailureCode r, cr_Retryable := xr_Retryable r, cr_IdempotentReplay := xr_IdempotentReplay r,
       cr_Detail := xr_Detail r\<rparr>),
     cs_UpdatedAt = sr_UpdatedAt s\<rparr>"

definition challengeOfRun :: "settlementRunStoredResult \<Rightarrow> settlementChallengeStoredResult" where
  "challengeOfRun s = \<lparr>
     cs_Request = (let q = rs_Request s in zero_normalizedSettlementChallengeRequest\<lparr>nc_SettlementRunID := nr_SettlementRunID q,
       nc_SourceApp := nr_SourceApp q, nc_SourceEventID := nr_SourceEventID q, nc_Note := nr_Note q, nc_Memo := nr_Memo q\<rparr>),
     cs_Fingerprint = rs_Fingerprint s,
     cs_Response = (let r = rs_Response s in zero_settlementChallengeResponse\<lparr>cr_OK := rr_OK r, cr_DryRun := rr_DryRun r,
       cr_Status := rr_Status r, cr_FailureCode := rr_FailureCode r, cr_Retryable := rr_Retryable r,
       cr_IdempotentReplay := rr_IdempotentReplay r, cr_SettlementRunID := rr_SettlementRunID r, cr_SourceApp := rr_SourceApp r,
       cr_SourceEventID := rr_SourceEventID r, cr_Note := rr_Note r, cr_Memo := rr_Memo r,
       cr_RequestedTotalUWolo := rr_RequestedTotalUWolo r, cr_RequestedTotalWolo := rr_RequestedTotalWolo r,
       cr_ExecutedTotalUWolo := rr_ExecutedTotalUWolo r, cr_ExecutedTotalWolo := rr_ExecutedTotalWolo r,
       cr_ConfirmedTotalUWolo := rr_ConfirmedTotalUWolo r, cr_ConfirmedTotalWolo := rr_ConfirmedTotalWolo r,
       cr_AcceptedTotalUWolo := rr_AcceptedTotalUWolo r, cr_AcceptedTotalWolo := rr_AcceptedTotalWolo r,
       cr_RefusedTotalUWolo := rr_RefusedTotalUWolo r, cr_RefusedTotalWolo := rr_RefusedTotalWolo r,
       cr_RejectedTotalUWolo := rr_RejectedTotalUWolo r, cr_RejectedTotalWolo := rr_RejectedTotalWolo r,
       cr_Detail := rr_Detail r\<rparr>),
     cs_UpdatedAt = rs_UpdatedAt s\<rparr>"

text \<open>A run or a challenge read as a request names no transaction and says \<open>ok\<close> exactly when it did.\<close>

lemma requestOf_sel [simp]:
  "xr_OK (sr_Response (requestOfRun s)) = rr_OK (rs_Response s)" "xr_TxHash (sr_Response (requestOfRun s)) = []"
  "xr_Retryable (sr_Response (requestOfRun s)) = rr_Retryable (rs_Response s)"
  "xr_OK (sr_Response (requestOfChallenge t)) = cr_OK (cs_Response t)" "xr_TxHash (sr_Response (requestOfChallenge t)) = []"
  "xr_Retryable (sr_Response (requestOfChallenge t)) = cr_Retryable (cs_Response t)"
  by (simp_all add: requestOfRun_def requestOfChallenge_def Let_def)

section \<open>Reading and writing records\<close>

primrec decodeRequest :: "recordFile \<Rightarrow> string + settlementStoredResult" where
  "decodeRequest (RequestFile s) = Inr s"
| "decodeRequest (RunFile s) = Inr (requestOfRun s)"
| "decodeRequest (ChallengeFile s) = Inr (requestOfChallenge s)"
| "decodeRequest (Unreadable e) = Inl e"

primrec decodeRun :: "recordFile \<Rightarrow> string + settlementRunStoredResult" where
  "decodeRun (RequestFile s) = Inr (runOfRequest s)"
| "decodeRun (RunFile s) = Inr s"
| "decodeRun (ChallengeFile s) = Inr (runOfChallenge s)"
| "decodeRun (Unreadable e) = Inl e"

primrec decodeChallenge :: "recordFile \<Rightarrow> string + settlementChallengeStoredResult" where
  "decodeChallenge (RequestFile s) = Inr (challengeOfRequest s)"
| "decodeChallenge (RunFile s) = Inr (challengeOfRun s)"
| "decodeChallenge (ChallengeFile s) = Inr s"
| "decodeChallenge (Unreadable e) = Inl e"

definition readStateFile :: "(recordFile \<Rightarrow> string + 'a) \<Rightarrow> recordFile option \<Rightarrow> 'a readResult" where
  "readStateFile decode f = (case f of None \<Rightarrow> NotExist | Some file \<Rightarrow> (case decode file of Inl e \<Rightarrow> ReadFailed e | Inr r \<Rightarrow> ReadOK r))"

definition readSettlementStoredResult :: "string \<Rightarrow> 'c world \<Rightarrow> settlementStoredResult readResult" where
  "readSettlementStoredResult path w = readStateFile decodeRequest (w_files w path)"

definition readSettlementRunStoredResult :: "string \<Rightarrow> 'c world \<Rightarrow> settlementRunStoredResult readResult" where
  "readSettlementRunStoredResult path w = readStateFile decodeRun (w_files w path)"

definition readSettlementChallengeStoredResult :: "string \<Rightarrow> 'c world \<Rightarrow> settlementChallengeStoredResult readResult" where
  "readSettlementChallengeStoredResult path w = readStateFile decodeChallenge (w_files w path)"

text \<open>
  A write goes to a temporary file and is renamed over the record, so it either fails with an error
  and leaves the record alone, or replaces it.
\<close>

definition writeSettlementStoredResult :: "'c env \<Rightarrow> string \<Rightarrow> settlementStoredResult \<Rightarrow> ('c world, string option) state" where
  "writeSettlementStoredResult env path result = State (\<lambda>w.
     case env_ioError env (w_chain w) path of
       Some err \<Rightarrow> (Some err, w)
     | None \<Rightarrow> (None, w\<lparr>w_files := (w_files w)(path \<mapsto> RequestFile result)\<rparr>))"

definition writeSettlementRunStoredResult :: "'c env \<Rightarrow> string \<Rightarrow> settlementRunStoredResult \<Rightarrow> ('c world, string option) state" where
  "writeSettlementRunStoredResult env path result = State (\<lambda>w.
     case env_ioError env (w_chain w) path of
       Some err \<Rightarrow> (Some err, w)
     | None \<Rightarrow> (None, w\<lparr>w_files := (w_files w)(path \<mapsto> RunFile result)\<rparr>))"

definition writeSettlementChallengeStoredResult :: "'c env \<Rightarrow> string \<Rightarrow> settlementChallengeStoredResult \<Rightarrow> ('c world, string option) state" where
  "writeSettlementChallengeStoredResult env path result = State (\<lambda>w.
     case env_ioError env (w_chain w) path of
       Some err \<Rightarrow> (Some err, w)
     | None \<Rightarrow> (None, w\<lparr>w_files := (w_files w)(path \<mapsto> ChallengeFile result)\<rparr>))"

subsection \<open>The contract of a record store\<close>

locale record_store =
  fixes load :: "string \<Rightarrow> 'c world \<Rightarrow> 'r readResult"
    and save :: "'c env \<Rightarrow> string \<Rightarrow> 'r \<Rightarrow> ('c world, string option) state"
  assumes write_ok: "fst (run_state (save env path r) w) = None \<Longrightarrow> load path (snd (run_state (save env path r) w)) = ReadOK r"
    and write_err: "fst (run_state (save env path r) w) = Some e \<Longrightarrow> snd (run_state (save env path r) w) = w"
    and write_other: "path' \<noteq> path \<Longrightarrow> load path' (snd (run_state (save env path r) w)) = load path' w"
    and write_frame: "w_sends (snd (run_state (save env path r) w)) = w_sends w"
      "w_locks (snd (run_state (save env path r) w)) = w_locks w"
      "w_chain (snd (run_state (save env path r) w)) = w_chain w"
    and write_io: "fst (run_state (save env path r) w) = env_ioError env (w_chain w) path"
begin

lemma read_after_write:
  "load path (snd (run_state (save env path r) w)) =
     (case env_ioError env (w_chain w) path of None \<Rightarrow> ReadOK r | Some _ \<Rightarrow> load path w)"
  using write_ok [of env path r w] write_err [of env path r w] write_io [of env path r w]
  by (auto split: option.splits)

text \<open>The last successful save to a path is what is read, whatever is written elsewhere after it.\<close>

lemma read_after_writes:
  assumes "fst (run_state (save env path r) w) = None" and "path' \<noteq> path"
  shows "load path (snd (run_state (save env' path' r') (snd (run_state (save env path r) w)))) = ReadOK r"
  using write_other [of path path' env' r'] write_ok [OF assms(1)] assms(2) by simp

end

lemmas store_defs =
  readSettlementStoredResult_def readSettlementRunStoredResult_def readSettlementChallengeStoredResult_def
  writeSettlementStoredResult_def writeSettlementRunStoredResult_def writeSettlementChallengeStoredResult_def
  readStateFile_def

interpretation request_store: record_store readSettlementStoredResult writeSettlementStoredResult
  by unfold_locales (auto simp: store_defs split: option.splits)

interpretation run_store: record_store readSettlementRunStoredResult writeSettlementRunStoredResult
  by unfold_locales (auto simp: store_defs split: option.splits)

interpretation challenge_store: record_store readSettlementChallengeStoredResult writeSettlementChallengeStoredResult
  by unfold_locales (auto simp: store_defs split: option.splits)

section \<open>Lock files\<close>

datatype lockOutcome = LockError string | LockBusy | LockHeld

datatype openOutcome = OpenError string | OpenExists | OpenedNew

text \<open>The calls on the lock file: opening it with \<open>O_EXCL\<close>, the test of the age \<open>Stat\<close> reported, and \<open>Remove\<close>.\<close>

definition openLock :: "'c env \<Rightarrow> string \<Rightarrow> ('c world, openOutcome) state" where
  "openLock env lockPath = State (\<lambda>w.
     case env_ioError env (w_chain w) lockPath of
       Some err \<Rightarrow> (OpenError err, w)
     | None \<Rightarrow> (case w_locks w lockPath of
         Some _ \<Rightarrow> (OpenExists, w)
       | None \<Rightarrow> (OpenedNew, w\<lparr>w_locks := (w_locks w)(lockPath \<mapsto> env_now env (w_chain w))\<rparr>)))"

definition lockExpired :: "'c env \<Rightarrow> settlementConfig \<Rightarrow> int \<Rightarrow> 'c world \<Rightarrow> bool" where
  "lockExpired env cfg modTime w \<longleftrightarrow> env_now env (w_chain w) - modTime > cfg_RequestLockTTL cfg"

definition lockIsStale :: "'c env \<Rightarrow> settlementConfig \<Rightarrow> string \<Rightarrow> 'c world \<Rightarrow> bool" where
  "lockIsStale env cfg lockPath w = (case w_locks w lockPath of None \<Rightarrow> False | Some modTime \<Rightarrow> lockExpired env cfg modTime w)"

definition lockRelease :: "string \<Rightarrow> ('c world, unit) state" where
  "lockRelease lockPath = State (\<lambda>w. ((), w\<lparr>w_locks := (w_locks w)(lockPath := None)\<rparr>))"

lemma run_lockRelease [simp, monad_simps]:
  "run_state (lockRelease p) w = ((), w\<lparr>w_locks := (w_locks w)(p := None)\<rparr>)"
  by (simp add: lockRelease_def)

text \<open>
  The attempt of one process as the sequence of these calls; after the removal of a lock older than the
  time-to-live it starts again.  In a sequence that no other process interrupts two rounds are
  enough; the theory Locks interleaves the calls of several processes.
\<close>

primrec lockRounds :: "nat \<Rightarrow> 'c env \<Rightarrow> settlementConfig \<Rightarrow> string \<Rightarrow> ('c world, lockOutcome) state" where
  "lockRounds 0 env cfg lockPath = State_Monad.return LockBusy"
| "lockRounds (Suc n) env cfg lockPath = do {
     opened \<leftarrow> openLock env lockPath;
     case opened of
       OpenError err \<Rightarrow> State_Monad.return (LockError err)
     | OpenedNew \<Rightarrow> State_Monad.return LockHeld
     | OpenExists \<Rightarrow> do {
         w \<leftarrow> State_Monad.get;
         if lockIsStale env cfg lockPath w
         then do { lockRelease lockPath; lockRounds n env cfg lockPath }
         else State_Monad.return LockBusy
       }
   }"

definition lockAttempt :: "'c env \<Rightarrow> settlementConfig \<Rightarrow> string \<Rightarrow> ('c world, lockOutcome) state" where
  "lockAttempt env cfg lockPath = lockRounds 2 env cfg lockPath"

lemma lockRounds_run:
  "run_state (lockRounds (Suc (Suc n)) env cfg lockPath) w =
     (case env_ioError env (w_chain w) lockPath of
        Some err \<Rightarrow> (LockError err, w)
      | None \<Rightarrow>
          if w_locks w lockPath = None \<or> lockIsStale env cfg lockPath w
          then (LockHeld, w\<lparr>w_locks := (w_locks w)(lockPath \<mapsto> env_now env (w_chain w))\<rparr>)
          else (LockBusy, w))"
  by (auto simp: openLock_def lockIsStale_def split: option.splits)

lemma lockRounds_enough: "run_state (lockRounds (2 + n) env cfg lockPath) w = run_state (lockAttempt env cfg lockPath) w"
  unfolding lockAttempt_def using lockRounds_run [of n env cfg lockPath w] lockRounds_run [of 0 env cfg lockPath w]
  by (simp only: numeral_2_eq_2 add_Suc add_0)

lemma lockAttempt_run:
  "run_state (lockAttempt env cfg lockPath) w =
     (case env_ioError env (w_chain w) lockPath of
        Some err \<Rightarrow> (LockError err, w)
      | None \<Rightarrow>
          if w_locks w lockPath = None \<or> lockIsStale env cfg lockPath w
          then (LockHeld, w\<lparr>w_locks := (w_locks w)(lockPath \<mapsto> env_now env (w_chain w))\<rparr>)
          else (LockBusy, w))"
  unfolding lockAttempt_def numeral_2_eq_2 by (rule lockRounds_run)

definition withRequestLock :: "'c env \<Rightarrow> settlementConfig \<Rightarrow> string \<Rightarrow> string \<Rightarrow> ('c world, string + settlementExecuteResponse) state
    \<Rightarrow> ('c world, string + settlementExecuteResponse) state" where
  "withRequestLock env cfg requestID signerRole fn = do {
     let signerRole = fst (normalizeSettlementRunSignerRole signerRole);
     outcome \<leftarrow> lockAttempt env cfg (requestLockPath cfg requestID);
     case outcome of
       LockError err \<Rightarrow> State_Monad.return (Inl err)
     | LockBusy \<Rightarrow> State_Monad.return (Inr (zero_settlementExecuteResponse\<lparr>
         xr_OK := False, xr_Status := ''failed'', xr_FailureCode := ''REQUEST_IN_PROGRESS'', xr_Retryable := True,
         xr_RequestID := requestID, xr_ChainID := cfg_ChainID cfg, xr_SignerRole := signerRole,
         xr_Detail := ''another settlement attempt with this request id is already running''\<rparr>))
     | LockHeld \<Rightarrow> do {
         result \<leftarrow> fn;
         lockRelease (requestLockPath cfg requestID);
         State_Monad.return result
       }
   }"

definition withRunLock :: "'c env \<Rightarrow> settlementConfig \<Rightarrow> string \<Rightarrow> string \<Rightarrow> ('c world, string + settlementRunResponse) state
    \<Rightarrow> ('c world, string + settlementRunResponse) state" where
  "withRunLock env cfg runID signerRole fn = do {
     let signerRole = fst (normalizeSettlementRunSignerRole signerRole);
     outcome \<leftarrow> lockAttempt env cfg (runLockPath cfg runID);
     case outcome of
       LockError err \<Rightarrow> State_Monad.return (Inl err)
     | LockBusy \<Rightarrow> State_Monad.return (Inr (zero_settlementRunResponse\<lparr>
         rr_OK := False, rr_DryRun := False, rr_Status := ''failed'', rr_FailureCode := ''RUN_IN_PROGRESS'', rr_Retryable := True,
         rr_SettlementRunID := runID, rr_SignerRole := signerRole,
         rr_Detail := ''another settlement run attempt with this settlement_run_id is already running''\<rparr>))
     | LockHeld \<Rightarrow> do {
         result \<leftarrow> fn;
         lockRelease (runLockPath cfg runID);
         State_Monad.return result
       }
   }"

definition withChallengeLock :: "'c env \<Rightarrow> settlementConfig \<Rightarrow> string \<Rightarrow> ('c world, string + settlementChallengeResponse) state
    \<Rightarrow> ('c world, string + settlementChallengeResponse) state" where
  "withChallengeLock env cfg settlementID fn = do {
     outcome \<leftarrow> lockAttempt env cfg (challengeLockPath cfg settlementID);
     case outcome of
       LockError err \<Rightarrow> State_Monad.return (Inl err)
     | LockBusy \<Rightarrow> State_Monad.return (Inr (zero_settlementChallengeResponse\<lparr>
         cr_OK := False, cr_DryRun := False, cr_Status := ''failed'', cr_FailureCode := ''CHALLENGE_IN_PROGRESS'', cr_Retryable := True,
         cr_SettlementRunID := settlementID,
         cr_Detail := ''another challenge settlement attempt with this settlement_run_id is already running''\<rparr>))
     | LockHeld \<Rightarrow> do {
         result \<leftarrow> fn;
         lockRelease (challengeLockPath cfg settlementID);
         State_Monad.return result
       }
   }"

text \<open>Taking a lock changes nothing but the lock.\<close>

lemma lockAttempt_frame [simp]:
  "w_chain (snd (run_state (lockAttempt env cfg p) w)) = w_chain w"
  "w_files (snd (run_state (lockAttempt env cfg p) w)) = w_files w"
  "w_sends (snd (run_state (lockAttempt env cfg p) w)) = w_sends w"
  by (auto simp: lockAttempt_run split: option.splits)

lemma lockAttempt_not_held [simp]:
  "fst (run_state (lockAttempt env cfg p) w) \<noteq> LockHeld \<Longrightarrow> snd (run_state (lockAttempt env cfg p) w) = w"
  by (auto simp: lockAttempt_run split: option.splits if_splits)

lemma lockAttempt_free:
  "env_ioError env (w_chain w) p = None \<Longrightarrow> w_locks w p = None \<Longrightarrow>
     run_state (lockAttempt env cfg p) w = (LockHeld, w\<lparr>w_locks := (w_locks w)(p \<mapsto> env_now env (w_chain w))\<rparr>)"
  by (simp add: lockAttempt_run)

end
