(* ===== verification/Payout.thy ===== *)
theory Payout
  imports Store
begin

text \<open>
  The single-transfer rail (settlement.go, lines 1810--1904 and 2488--2715; settlement_challenge.go,
  lines 1859--2166): preflight, broadcast, confirmation and the idempotent execution of one request,
  from the payout signer (\<open>executeSettlement\<close>) or from the escrow signer (\<open>executeEscrowTransfer\<close>).
  The two functions of the source have the same body up to the signer role, the preflight and the
  broadcast; that body is \<open>settleRequest\<close>, and the locale \<open>transfer_rail\<close> proves its properties once
  for both.
\<close>

section \<open>Classifying outcomes\<close>

definition classifySettlementExecError :: "string \<Rightarrow> string \<times> bool" where
  "classifySettlementExecError raw =
     (let text = ToLower (TrimSpace raw) in
      if Contains text ''insufficient funds'' then (''INSUFFICIENT_FUNDS'', False)
      else if Contains text ''account sequence mismatch'' \<or> Contains text ''incorrect account sequence''
      then (''SEQUENCE_MISMATCH'', True)
      else if Contains text ''connection refused'' \<or> Contains text ''no such host'' \<or> Contains text ''deadline exceeded'' \<or>
        Contains text ''timed out'' \<or> Contains text ''rpc error''
      then (''RPC_UNREACHABLE'', True)
      else (''BROADCAST_FAILED'', True))"

definition classifyRejectedTx :: "string \<Rightarrow> u32 \<Rightarrow> string" where
  "classifyRejectedTx rawLog code =
     (let text = ToLower rawLog in
      if Contains text ''out of gas'' then ''OUT_OF_GAS''
      else if Contains text ''insufficient funds'' then ''INSUFFICIENT_FUNDS''
      else ''TX_REJECTED'')"

definition deriveSettlementOutcome :: "settlementExecuteResponse \<Rightarrow> string" where
  "deriveSettlementOutcome response =
     (if xr_IdempotentReplay response then ''idempotent_replay''
      else if EqualFold (TrimSpace (xr_Status response)) ''confirmed'' \<and> xr_OK response then ''confirmed''
      else if EqualFold (TrimSpace (xr_Status response)) ''accepted'' \<and> xr_OK response then ''accepted''
      else if EqualFold (TrimSpace (xr_Status response)) ''failed'' \<and> TrimSpace (xr_TxHash response) = [] then ''refused''
      else if EqualFold (TrimSpace (xr_Status response)) ''failed'' \<and> TrimSpace (xr_TxHash response) \<noteq> [] then ''rejected''
      else if TrimSpace (xr_Status response) \<noteq> [] then TrimSpace (xr_Status response)
      else ''unknown'')"

text \<open>The bytes from the first opening to the last closing brace of the command's output.\<close>

definition extractJSONPayload :: "string \<Rightarrow> string" where
  "extractJSONPayload output =
     (let from_start = dropWhile (\<lambda>c. c \<noteq> CHR ''{'') output;
          to_end = rev (dropWhile (\<lambda>c. c \<noteq> CHR ''}'') (rev from_start)) in
      if from_start = [] \<or> to_end = [] then [] else TrimSpace to_end)"

section \<open>Preflight\<close>

definition refusal :: "settlementConfig \<Rightarrow> string \<Rightarrow> string \<Rightarrow> bool \<Rightarrow> string \<Rightarrow> string \<Rightarrow> settlementExecuteResponse" where
  "refusal cfg role failureCode retryable signerAddress detail = zero_settlementExecuteResponse\<lparr>
     xr_OK := False, xr_Status := ''failed'', xr_FailureCode := failureCode, xr_Retryable := retryable,
     xr_ChainID := cfg_ChainID cfg, xr_SignerRole := role, xr_SignerAddress := signerAddress, xr_Detail := detail\<rparr>"

definition payoutUnresolvedDetail :: "settlementConfig \<Rightarrow> string" where
  "payoutUnresolvedDetail cfg = ''payout signer key '' @ Quote (cfg_PayoutKeyName cfg) @
     '' could not be resolved; check WOLO_SETTLEMENT_PAYOUT_KEY_NAME, WOLO_SETTLEMENT_HOME, and WOLO_SETTLEMENT_KEYRING_BACKEND''"

definition preflightExecution :: "'c env \<Rightarrow> settlementConfig \<Rightarrow> string \<Rightarrow> ('c, string \<times> settlementExecuteResponse option) state" where
  "preflightExecution env cfg requestAmountUWolo = do {
     health \<leftarrow> buildHealthReport env cfg;
     State_Monad.return
       (if \<not> hr_OK health
        then ([], Some (refusal cfg settlementSignerRole (hr_FailureCode health) (hr_FailureCode health = ''RPC_UNREACHABLE'')
                (hr_PayoutAddress health) (hr_Detail health)))
        else if cfg_PayoutKeyName cfg = []
        then ([], Some (refusal cfg settlementSignerRole ''PAYOUT_SIGNER_UNCONFIGURED'' False []
                ''WOLO_SETTLEMENT_PAYOUT_KEY_NAME is required for payout execution''))
        else if hr_PayoutAddress health = []
        then ([], Some (refusal cfg settlementSignerRole ''PAYOUT_SIGNER_UNAVAILABLE'' False [] (payoutUnresolvedDetail cfg)))
        else case ParseUint (TrimSpace requestAmountUWolo) of
          Inl _ \<Rightarrow> ([], Some (refusal cfg settlementSignerRole ''INVALID_REQUEST'' False (hr_PayoutAddress health)
                ''amount_uwolo must be a positive integer''))
        | Inr requestAmount \<Rightarrow>
        (case ParseUint (TrimSpace (hr_PayoutBalanceUWolo health)) of
          Inl _ \<Rightarrow> ([], Some (refusal cfg settlementSignerRole ''PAYOUT_BALANCE_LOOKUP_FAILED'' True (hr_PayoutAddress health)
                ''payout signer balance could not be parsed''))
        | Inr balanceAmount \<Rightarrow>
        (case checkPayoutCapacity cfg balanceAmount requestAmount of
          (code, detail, failed) \<Rightarrow>
            if failed then ([], Some (refusal cfg settlementSignerRole code True (hr_PayoutAddress health) detail))
            else (hr_PayoutAddress health, None))))
   }"

definition preflightEscrowSigner :: "'c env \<Rightarrow> settlementConfig \<Rightarrow> string
    \<Rightarrow> ('c, string \<times> u64 \<times> settlementExecuteResponse option) state" where
  "preflightEscrowSigner env cfg requestAmountUWolo = do {
     chain \<leftarrow> fetchRuntimeChainID env cfg;
     case chain of
       Inl err \<Rightarrow> State_Monad.return ([], 0, Some (refusal cfg settlementEscrowSignerRole ''RPC_UNREACHABLE'' True [] err))
     | Inr runtimeChainID \<Rightarrow>
       if runtimeChainID \<noteq> cfg_ChainID cfg
       then State_Monad.return ([], 0, Some (refusal cfg settlementEscrowSignerRole ''CHAIN_ID_MISMATCH'' False []
              (''rpc reported '' @ runtimeChainID @ '', expected '' @ cfg_ChainID cfg)))
       else do {
         rest \<leftarrow> validateRESTInvariants env cfg;
         case rest of
           Some err \<Rightarrow> State_Monad.return ([], 0, Some (refusal cfg settlementEscrowSignerRole ''REST_DRIFT'' False [] err))
         | None \<Rightarrow>
           if cfg_EscrowKeyName cfg = []
           then State_Monad.return ([], 0, Some (refusal cfg settlementEscrowSignerRole ''ESCROW_SIGNER_UNCONFIGURED'' False []
                  ''WOLO_SETTLEMENT_ESCROW_KEY_NAME is required for escrow transfers''))
           else do {
             resolved \<leftarrow> resolveEscrowAddress env cfg;
             case resolved of
               Inl err \<Rightarrow> State_Monad.return ([], 0, Some (refusal cfg settlementEscrowSignerRole
                 (if Contains (ToLower err) ''expected'' then ''ESCROW_ADDRESS_MISMATCH'' else ''ESCROW_SIGNER_UNAVAILABLE'') False [] err))
             | Inr signerAddress \<Rightarrow>
             (case ParseUint (TrimSpace requestAmountUWolo) of
               Inl _ \<Rightarrow> State_Monad.return (signerAddress, 0, Some (refusal cfg settlementEscrowSignerRole ''INVALID_REQUEST'' False
                 signerAddress ''amount_uwolo must be a positive integer''))
             | Inr requestAmount \<Rightarrow> do {
                 balance \<leftarrow> fetchAccountBalanceUWolo env cfg signerAddress;
                 State_Monad.return
                   (case balance of
                      Inl err \<Rightarrow> (signerAddress, 0, Some (refusal cfg settlementEscrowSignerRole ''ESCROW_BALANCE_LOOKUP_FAILED'' True
                        signerAddress err))
                    | Inr balanceAmount \<Rightarrow>
                    (case checkEscrowCapacity cfg balanceAmount requestAmount of
                      (code, detail, failed) \<Rightarrow>
                        if failed then (signerAddress, balanceAmount, Some (refusal cfg settlementEscrowSignerRole code True signerAddress detail))
                        else (signerAddress, balanceAmount, None)))
               })
           }
       }
   }"

definition preflightEscrowTransfer :: "'c env \<Rightarrow> settlementConfig \<Rightarrow> string \<Rightarrow> ('c, string \<times> settlementExecuteResponse option) state" where
  "preflightEscrowTransfer env cfg requestAmountUWolo = do {
     result \<leftarrow> preflightEscrowSigner env cfg requestAmountUWolo;
     State_Monad.return (case result of (signerAddress, _, failure) \<Rightarrow> (signerAddress, failure))
   }"

section \<open>Confirmation\<close>

text \<open>
  The polling loop runs while the clock is before the deadline and sleeps \<open>ConfirmInterval\<close> between
  look-ups.  The first argument bounds the number of rounds; \<open>confirmRounds\<close> rounds are enough for a
  clock that the sleep advances by at least the interval (lemma \<open>waitLoop_enough\<close>).
\<close>

fun waitLoop :: "nat \<Rightarrow> 'c env \<Rightarrow> settlementConfig \<Rightarrow> string \<Rightarrow> int \<Rightarrow> ('c, string + settlementLookupResponse option) state" where
  "waitLoop 0 env cfg txHash deadline = State_Monad.return (Inr None)"
| "waitLoop (Suc rounds) env cfg txHash deadline = do {
     c \<leftarrow> State_Monad.get;
     if \<not> env_now env c < deadline then State_Monad.return (Inr None)
     else do {
       result \<leftarrow> lookupSettlementTx env cfg txHash zero_settlementLookupExpectations;
       if lr_OK result \<and> lr_Found result then State_Monad.return (Inr (Some result))
       else if lr_FailureCode result \<noteq> ''TX_NOT_FOUND'' then State_Monad.return (Inr (Some result))
       else do {
         cancelled \<leftarrow> env_sleep env (cfg_ConfirmInterval cfg);
         case cancelled of
           Some err \<Rightarrow> State_Monad.return (Inl err)
         | None \<Rightarrow> waitLoop rounds env cfg txHash deadline
       }
     }
   }"

definition confirmRounds :: "settlementConfig \<Rightarrow> nat" where
  "confirmRounds cfg = nat (cfg_ConfirmTimeout cfg div cfg_ConfirmInterval cfg) + 1"

definition waitForTxConfirmation :: "'c env \<Rightarrow> settlementConfig \<Rightarrow> string \<Rightarrow> ('c, string + settlementLookupResponse option) state" where
  "waitForTxConfirmation env cfg txHash = do {
     c \<leftarrow> State_Monad.get;
     waitLoop (confirmRounds cfg) env cfg txHash (env_now env c + cfg_ConfirmTimeout cfg)
   }"

section \<open>Broadcast\<close>

definition bankSendArgs :: "settlementConfig \<Rightarrow> string \<Rightarrow> normalizedSettlementRequest \<Rightarrow> string list" where
  "bankSendArgs cfg keyName request =
     [''tx'', ''bank'', ''send'', keyName, nq_ToAddress request, nq_AmountUWolo request @ cfg_BaseDenom cfg, ''--yes'',
      ''--output'', ''json'', ''--broadcast-mode'', cfg_BroadcastMode cfg, ''--chain-id'', cfg_ChainID cfg,
      ''--home'', cfg_HomeDir cfg, ''--keyring-backend'', cfg_KeyringBackend cfg, ''--node'', cfg_NodeAddr cfg, ''--gas'', cfg_Gas cfg]
     @ (if cfg_KeyringDir cfg \<noteq> [] then [''--keyring-dir'', cfg_KeyringDir cfg] else [])
     @ (if cfg_GasAdjustment cfg \<noteq> [] then [''--gas-adjustment'', cfg_GasAdjustment cfg] else [])
     @ (if cfg_Fees cfg \<noteq> [] then [''--fees'', cfg_Fees cfg]
        else if cfg_GasPrices cfg \<noteq> [] then [''--gas-prices'', cfg_GasPrices cfg] else [])
     @ (if nq_Memo request \<noteq> [] then [''--note'', nq_Memo request] else [])"

lemma bankSendArgs_role [simp]: "bankSendArgs cfg keyName (n\<lparr>nq_SignerRole := role\<rparr>) = bankSendArgs cfg keyName n"
  by (simp add: bankSendArgs_def)

definition runBankSend :: "'c env \<Rightarrow> string list \<Rightarrow> ('c world, string \<times> string option) state" where
  "runBankSend env args = State (\<lambda>w.
     case run_state (env_txBankSend env args) (w_chain w) of
       (out, c) \<Rightarrow> (out, w\<lparr>w_chain := c, w_sends := w_sends w @ [args]\<rparr>))"

lemma run_runBankSend [simp, monad_simps]:
  "run_state (runBankSend env args) w =
     (fst (run_state (env_txBankSend env args) (w_chain w)),
      w\<lparr>w_chain := snd (run_state (env_txBankSend env args) (w_chain w)), w_sends := w_sends w @ [args]\<rparr>)"
  by (simp add: runBankSend_def case_prod_beta)

definition withTxURLs :: "settlementConfig \<Rightarrow> string \<Rightarrow> settlementExecuteResponse \<Rightarrow> settlementExecuteResponse" where
  "withTxURLs cfg hash r = r\<lparr>
     xr_CanonicalTxLookup := txLookupURL cfg hash, xr_CanonicalTxLookupPreferred := preferredTxLookupURL cfg hash,
     xr_CanonicalTxLookupInternal := txLookupURL cfg hash, xr_CanonicalTxLookupPublic := publicTxLookupURL cfg hash\<rparr>"

definition broadcastBase :: "settlementConfig \<Rightarrow> string \<Rightarrow> normalizedSettlementRequest \<Rightarrow> string \<Rightarrow> settlementExecuteResponse" where
  "broadcastBase cfg role request signerAddress = withTxURLs cfg [] (zero_settlementExecuteResponse\<lparr>
     xr_OK := False, xr_Status := ''failed'', xr_RequestID := nq_RequestID request, xr_ChainID := cfg_ChainID cfg,
     xr_SignerRole := role, xr_SignerAddress := signerAddress, xr_ToAddress := nq_ToAddress request,
     xr_AmountUWolo := nq_AmountUWolo request, xr_AmountWolo := formatDisplayAmount (nq_AmountUWolo request),
     xr_BroadcastMode := cfg_BroadcastMode cfg\<rparr>)"

definition withBroadcast :: "settlementConfig \<Rightarrow> bankSendBroadcastResponse \<Rightarrow> settlementExecuteResponse \<Rightarrow> settlementExecuteResponse" where
  "withBroadcast cfg broadcast r = withTxURLs cfg (bb_TxHash broadcast) (r\<lparr>
     xr_TxHash := bb_TxHash broadcast, xr_Code := bb_Code broadcast, xr_Codespace := bb_Codespace broadcast,
     xr_RawLog := bb_RawLog broadcast\<rparr>)"

text \<open>The response once the confirmation of an accepted broadcast is known; \<open>what\<close> names the transfer in messages.\<close>

definition confirmedResponse :: "string \<Rightarrow> string + settlementLookupResponse option \<Rightarrow> settlementExecuteResponse \<Rightarrow> settlementExecuteResponse" where
  "confirmedResponse what confirmation response =
     (case confirmation of
        Inr (Some confirmed) \<Rightarrow>
          let response = response\<lparr>xr_Code := lr_Code confirmed, xr_Codespace := lr_Codespace confirmed, xr_RawLog := lr_RawLog confirmed\<rparr> in
          if lr_TxSuccess confirmed
          then response\<lparr>xr_OK := True, xr_Status := ''confirmed'', xr_Detail := what @ '' confirmed on WoloChain''\<rparr>
          else response\<lparr>xr_FailureCode := classifyRejectedTx (lr_RawLog confirmed) (lr_Code confirmed),
                 xr_Detail := ''tx failed with code '' @ Itoa (unat (lr_Code confirmed)), xr_Retryable := False\<rparr>
      | Inr None \<Rightarrow> response\<lparr>xr_OK := True, xr_Status := ''accepted'',
          xr_Detail := what @ '' broadcast accepted; final confirmation pending''\<rparr>
      | Inl _ \<Rightarrow> response\<lparr>xr_OK := True, xr_Status := ''accepted'',
          xr_Detail := what @ '' broadcast accepted; final confirmation check failed''\<rparr>)"

definition failedBroadcast :: "string \<Rightarrow> string option \<Rightarrow> settlementExecuteResponse \<Rightarrow> settlementExecuteResponse" where
  "failedBroadcast output err response =
     (case classifySettlementExecError output of
        (failureCode, retryable) \<Rightarrow>
          let detail = TrimSpace output in
          response\<lparr>xr_FailureCode := failureCode, xr_Retryable := retryable,
            xr_Detail := (case err of Some e \<Rightarrow> if detail = [] then e else detail | None \<Rightarrow> detail)\<rparr>)"

definition broadcastTransfer :: "'c env \<Rightarrow> settlementConfig \<Rightarrow> string \<Rightarrow> string \<Rightarrow> string \<Rightarrow> normalizedSettlementRequest \<Rightarrow> string
    \<Rightarrow> ('c world, settlementExecuteResponse) state" where
  "broadcastTransfer env cfg role keyName what request signerAddress = do {
     (output, err) \<leftarrow> runBankSend env (bankSendArgs cfg keyName request);
     let response = broadcastBase cfg role request signerAddress;
     let jsonPayload = extractJSONPayload output;
     case (if jsonPayload = [] then None else env_decodeBroadcast env jsonPayload) of
       None \<Rightarrow> State_Monad.return (failedBroadcast output err response)
     | Some broadcast \<Rightarrow>
       if bb_TxHash broadcast = [] then State_Monad.return (failedBroadcast output err response)
       else do {
         let response = withBroadcast cfg broadcast response;
         if bb_Code broadcast = 0
         then do {
           confirmation \<leftarrow> onChain (waitForTxConfirmation env cfg (bb_TxHash broadcast));
           State_Monad.return (confirmedResponse what confirmation response)
         }
         else State_Monad.return (response\<lparr>
           xr_FailureCode := classifyRejectedTx (bb_RawLog broadcast) (bb_Code broadcast),
           xr_Detail := ''tx rejected with code '' @ Itoa (unat (bb_Code broadcast)), xr_Retryable := False\<rparr>)
       }
   }"

definition broadcastPayout :: "'c env \<Rightarrow> settlementConfig \<Rightarrow> normalizedSettlementRequest \<Rightarrow> string \<Rightarrow> ('c world, settlementExecuteResponse) state" where
  "broadcastPayout env cfg = broadcastTransfer env cfg settlementSignerRole (cfg_PayoutKeyName cfg) ''payout''"

definition broadcastEscrowTransfer :: "'c env \<Rightarrow> settlementConfig \<Rightarrow> normalizedSettlementRequest \<Rightarrow> string \<Rightarrow> ('c world, settlementExecuteResponse) state" where
  "broadcastEscrowTransfer env cfg = broadcastTransfer env cfg settlementEscrowSignerRole (cfg_EscrowKeyName cfg) ''escrow transfer''"

section \<open>Idempotent execution of one request\<close>

definition writeSettlementRecord :: "'c env \<Rightarrow> string \<Rightarrow> normalizedSettlementRequest \<Rightarrow> string \<Rightarrow> settlementExecuteResponse
    \<Rightarrow> ('c world, string option) state" where
  "writeSettlementRecord env recordPath request signerAddress response = do {
     w \<leftarrow> State_Monad.get;
     writeSettlementStoredResult env recordPath (zero_settlementStoredResult\<lparr>
       sr_Request := request, sr_Fingerprint := env_hashRequest env request signerAddress,
       sr_Response := response, sr_UpdatedAt := env_now env (w_chain w)\<rparr>)
   }"

text \<open>A stored response that a later attempt with the same request id replays instead of paying again.\<close>

definition isSettled :: "settlementExecuteResponse \<Rightarrow> bool" where
  "isSettled response \<longleftrightarrow> xr_OK response \<or> xr_TxHash response \<noteq> [] \<or> \<not> xr_Retryable response"

definition requestFields :: "settlementConfig \<Rightarrow> normalizedSettlementRequest \<Rightarrow> settlementExecuteResponse \<Rightarrow> settlementExecuteResponse" where
  "requestFields cfg normalized r = r\<lparr>
     xr_RequestID := nq_RequestID normalized, xr_ToAddress := nq_ToAddress normalized,
     xr_AmountUWolo := nq_AmountUWolo normalized, xr_AmountWolo := formatDisplayAmount (nq_AmountUWolo normalized)\<rparr>"

definition conflictResponse :: "settlementConfig \<Rightarrow> string \<Rightarrow> normalizedSettlementRequest \<Rightarrow> settlementStoredResult \<Rightarrow> settlementExecuteResponse" where
  "conflictResponse cfg role normalized stored = requestFields cfg normalized
     (refusal cfg role ''IDEMPOTENCY_CONFLICT'' False (xr_SignerAddress (sr_Response stored))
        ''request id already exists with different settlement payload'')"

definition stateFileResponse :: "settlementConfig \<Rightarrow> string \<Rightarrow> normalizedSettlementRequest \<Rightarrow> string \<Rightarrow> settlementExecuteResponse" where
  "stateFileResponse cfg role normalized readErr = requestFields cfg normalized
     (refusal cfg role ''STATE_FILE_INVALID'' False [] (''could not read settlement state file: '' @ readErr))"

definition invalidRequestResponse :: "settlementConfig \<Rightarrow> string \<Rightarrow> settlementExecuteRequest \<Rightarrow> string \<Rightarrow> settlementExecuteResponse" where
  "invalidRequestResponse cfg role request err = zero_settlementExecuteResponse\<lparr>
     xr_OK := False, xr_Status := ''failed'', xr_FailureCode := ''INVALID_REQUEST'', xr_Detail := err,
     xr_RequestID := TrimSpace (xq_RequestID request), xr_ChainID := cfg_ChainID cfg, xr_SignerRole := role\<rparr>"

type_synonym 'c preflight = "'c env \<Rightarrow> settlementConfig \<Rightarrow> string \<Rightarrow> ('c, string \<times> settlementExecuteResponse option) state"
type_synonym 'c broadcast = "'c env \<Rightarrow> settlementConfig \<Rightarrow> normalizedSettlementRequest \<Rightarrow> string \<Rightarrow> ('c world, settlementExecuteResponse) state"

text \<open>Recording the outcome of an attempt before it is returned; a failed write is the error of the call.\<close>

definition recordResult :: "'c env \<Rightarrow> settlementConfig \<Rightarrow> normalizedSettlementRequest \<Rightarrow> string \<Rightarrow> settlementExecuteResponse
    \<Rightarrow> ('c world, string + settlementExecuteResponse) state" where
  "recordResult env cfg normalized signerAddress result = do {
     err \<leftarrow> writeSettlementRecord env (requestRecordPath cfg (nq_RequestID normalized)) normalized signerAddress result;
     State_Monad.return (case err of Some e \<Rightarrow> Inl e | None \<Rightarrow> Inr result)
   }"

text \<open>Preflight, broadcast and record, once nothing is stored that settles the request.\<close>

definition attemptTransfer :: "'c env \<Rightarrow> settlementConfig \<Rightarrow> 'c preflight \<Rightarrow> 'c broadcast \<Rightarrow> normalizedSettlementRequest
    \<Rightarrow> ('c world, string + settlementExecuteResponse) state" where
  "attemptTransfer env cfg preflight broadcast normalized = do {
     (signerAddress, failure) \<leftarrow> onChain (preflight env cfg (nq_AmountUWolo normalized));
     (case failure of
       Some failed \<Rightarrow>
         let failed = requestFields cfg normalized failed;
             signerForRecord = (if signerAddress = [] then xr_SignerAddress failed else signerAddress)
         in recordResult env cfg normalized signerForRecord failed
     | None \<Rightarrow> do {
         result \<leftarrow> broadcast env cfg normalized signerAddress;
         recordResult env cfg normalized signerAddress result
       })
   }"

definition settleLocked :: "'c env \<Rightarrow> settlementConfig \<Rightarrow> string \<Rightarrow> 'c preflight \<Rightarrow> 'c broadcast \<Rightarrow> normalizedSettlementRequest
    \<Rightarrow> ('c world, string + settlementExecuteResponse) state" where
  "settleLocked env cfg role preflight broadcast normalized = do {
     w \<leftarrow> State_Monad.get;
     case readSettlementStoredResult (requestRecordPath cfg (nq_RequestID normalized)) w of
       ReadOK stored \<Rightarrow>
         if \<not> sameSettlementRequest (sr_Request stored) normalized
         then State_Monad.return (Inr (conflictResponse cfg role normalized stored))
         else if isSettled (sr_Response stored)
         then State_Monad.return (Inr ((sr_Response stored)\<lparr>xr_IdempotentReplay := True\<rparr>))
         else attemptTransfer env cfg preflight broadcast normalized
     | ReadFailed readErr \<Rightarrow> State_Monad.return (Inr (stateFileResponse cfg role normalized readErr))
     | NotExist \<Rightarrow> attemptTransfer env cfg preflight broadcast normalized
   }"

definition settleRequest :: "'c env \<Rightarrow> settlementConfig \<Rightarrow> string \<Rightarrow> 'c preflight \<Rightarrow> 'c broadcast \<Rightarrow> settlementExecuteRequest
    \<Rightarrow> ('c world, string + settlementExecuteResponse) state" where
  "settleRequest env cfg role preflight broadcast request =
     (case normalizeSettlementRequest request of
        Inl err \<Rightarrow> State_Monad.return (Inr (invalidRequestResponse cfg role request err))
      | Inr normalized \<Rightarrow>
          let normalized = normalized\<lparr>nq_SignerRole := role\<rparr> in
          withRequestLock env cfg (nq_RequestID normalized) role (settleLocked env cfg role preflight broadcast normalized))"

definition executeSettlement :: "'c env \<Rightarrow> settlementConfig \<Rightarrow> settlementExecuteRequest \<Rightarrow> ('c world, string + settlementExecuteResponse) state" where
  "executeSettlement env cfg = settleRequest env cfg settlementSignerRole preflightExecution broadcastPayout"

definition executeEscrowTransfer :: "'c env \<Rightarrow> settlementConfig \<Rightarrow> settlementExecuteRequest \<Rightarrow> ('c world, string + settlementExecuteResponse) state" where
  "executeEscrowTransfer env cfg = settleRequest env cfg settlementEscrowSignerRole preflightEscrowTransfer broadcastEscrowTransfer"

subsection \<open>Recording\<close>

lemma read_w_files: "w_files w = w_files w' \<Longrightarrow> readSettlementStoredResult p w = readSettlementStoredResult p w'"
  by (simp add: readSettlementStoredResult_def)

lemma read_w_file: "w_files w p = w_files w' p \<Longrightarrow> readSettlementStoredResult p w = readSettlementStoredResult p w'"
  by (simp add: readSettlementStoredResult_def)

lemma recordResult_frame [simp]:
  "w_sends (snd (run_state (recordResult env cfg n a r) w)) = w_sends w"
  "w_locks (snd (run_state (recordResult env cfg n a r) w)) = w_locks w"
  "w_chain (snd (run_state (recordResult env cfg n a r) w)) = w_chain w"
  by (auto simp: recordResult_def writeSettlementRecord_def writeSettlementStoredResult_def split: option.splits)

lemma recordResult_other:
  "path \<noteq> requestRecordPath cfg (nq_RequestID n) \<Longrightarrow>
     w_files (snd (run_state (recordResult env cfg n a r) w)) path = w_files w path"
  by (auto simp: recordResult_def writeSettlementRecord_def writeSettlementStoredResult_def split: option.splits)

lemma recordResult_ok:
  assumes "fst (run_state (recordResult env cfg n a r) w) = Inr r'"
  shows "r' = r \<and> (\<exists>s. readSettlementStoredResult (requestRecordPath cfg (nq_RequestID n))
      (snd (run_state (recordResult env cfg n a r) w)) = ReadOK s \<and> sr_Request s = n \<and> sr_Response s = r)"
  using assms by (auto simp: recordResult_def writeSettlementRecord_def split: option.splits dest!: request_store.write_ok)

lemma recordResult_result:
  "fst (run_state (recordResult env cfg n a r) w) =
     (case env_ioError env (w_chain w) (requestRecordPath cfg (nq_RequestID n)) of Some e \<Rightarrow> Inl e | None \<Rightarrow> Inr r)"
  by (simp add: recordResult_def writeSettlementRecord_def request_store.write_io)

text \<open>The two ways an attempt goes: the preflight refuses, or the transfer is broadcast.\<close>

lemma attempt_refused:
  assumes "run_state (preflight env cfg (nq_AmountUWolo n)) (w_chain w) = ((a, Some failed), c)"
  shows "run_state (attemptTransfer env cfg preflight broadcast n) w =
     run_state (recordResult env cfg n (if a = [] then xr_SignerAddress failed else a) (requestFields cfg n failed)) (w\<lparr>w_chain := c\<rparr>)"
  using assms by (simp add: attemptTransfer_def Let_def requestFields_def)

lemma attempt_sent:
  assumes "run_state (preflight env cfg (nq_AmountUWolo n)) (w_chain w) = ((a, None), c)"
  shows "run_state (attemptTransfer env cfg preflight broadcast n) w =
     run_state (recordResult env cfg n a (fst (run_state (broadcast env cfg n a) (w\<lparr>w_chain := c\<rparr>))))
       (snd (run_state (broadcast env cfg n a) (w\<lparr>w_chain := c\<rparr>)))"
  using assms by (simp add: attemptTransfer_def)

lemma attempt_cases:
  obtains (refused) a failed c where
      "run_state (preflight env cfg (nq_AmountUWolo n)) (w_chain w) = ((a, Some failed), c)"
  | (sent) a c where "run_state (preflight env cfg (nq_AmountUWolo n)) (w_chain w) = ((a, None), c)"
  by (metis option.exhaust surj_pair)

text \<open>A call either does not get the lock and changes nothing, or runs its body with only the lock taken.\<close>

lemma withRequestLock_cases:
  obtains (busy) r where "run_state (withRequestLock env cfg rid role fn) w = (r, w)"
      "\<And>x. r = Inr x \<Longrightarrow> \<not> xr_OK x \<and> xr_TxHash x = [] \<and> xr_Retryable x \<and> \<not> xr_IdempotentReplay x \<and>
         xr_FailureCode x = ''REQUEST_IN_PROGRESS''"
  | (held) w1 where "w_chain w1 = w_chain w" "w_files w1 = w_files w" "w_sends w1 = w_sends w"
      "run_state (withRequestLock env cfg rid role fn) w =
         (fst (run_state fn w1), (snd (run_state fn w1))\<lparr>w_locks := (w_locks (snd (run_state fn w1)))(requestLockPath cfg rid := None)\<rparr>)"
proof (cases "fst (run_state (lockAttempt env cfg (requestLockPath cfg rid)) w)")
  case LockHeld
  then show ?thesis
    by (intro held [of "snd (run_state (lockAttempt env cfg (requestLockPath cfg rid)) w)"])
      (simp_all add: withRequestLock_def Let_def)
next
  case (LockError e)
  show ?thesis by (rule busy [of "Inl e"]) (simp_all add: LockError withRequestLock_def Let_def)
next
  case LockBusy
  let ?r = "fst (run_state (withRequestLock env cfg rid role fn) w)"
  show ?thesis
    by (rule busy [of ?r]) (auto simp add: LockBusy withRequestLock_def Let_def)
qed

lemma settle_cases:
  obtains (unsent) r where "run_state (settleRequest env cfg role preflight broadcast request) w = (r, w)"
      "\<And>x. r = Inr x \<Longrightarrow> \<not> xr_OK x \<and> xr_TxHash x = [] \<and> \<not> xr_IdempotentReplay x"
  | (held) n w1 where "normalizeSettlementRequest request = Inr n"
      "w_chain w1 = w_chain w" "w_files w1 = w_files w" "w_sends w1 = w_sends w"
      "fst (run_state (settleRequest env cfg role preflight broadcast request) w) =
         fst (run_state (settleLocked env cfg role preflight broadcast (n\<lparr>nq_SignerRole := role\<rparr>)) w1)"
      "\<exists>locks. snd (run_state (settleRequest env cfg role preflight broadcast request) w) =
         (snd (run_state (settleLocked env cfg role preflight broadcast (n\<lparr>nq_SignerRole := role\<rparr>)) w1))\<lparr>w_locks := locks\<rparr>"
proof (cases "normalizeSettlementRequest request")
  case (Inl e)
  show ?thesis
    by (rule unsent [of "Inr (invalidRequestResponse cfg role request e)"])
      (auto simp: Inl settleRequest_def invalidRequestResponse_def)
next
  case (Inr n)
  let ?n = "n\<lparr>nq_SignerRole := role\<rparr>"
  have run: "run_state (settleRequest env cfg role preflight broadcast request) w =
      run_state (withRequestLock env cfg (nq_RequestID ?n) role (settleLocked env cfg role preflight broadcast ?n)) w"
    using Inr by (simp add: settleRequest_def Let_def)
  show ?thesis
  proof (cases rule: withRequestLock_cases [of env cfg "nq_RequestID ?n" role "settleLocked env cfg role preflight broadcast ?n" w])
    case (busy r)
    show ?thesis by (rule unsent [of r]) (use busy run in auto)
  next
    case (held w1)
    show ?thesis
      by (rule that(2) [OF Inr held(1-3)]) (use held(4) run in auto)
  qed
qed

definition settledAt :: "settlementConfig \<Rightarrow> string \<Rightarrow> settlementStoredResult \<Rightarrow> 'c world \<Rightarrow> bool" where
  "settledAt cfg rid s w \<longleftrightarrow>
     settlementRequestIDPattern rid \<and> readSettlementStoredResult (requestRecordPath cfg rid) w = ReadOK s \<and>
     isSettled (sr_Response s)"

lemma settledAt_cong: "w_files w = w_files w' \<Longrightarrow> settledAt cfg rid s w = settledAt cfg rid s w'"
  unfolding settledAt_def by (metis read_w_files)

subsection \<open>The contract of a transfer rail\<close>

text \<open>
  What the idempotent execution relies on: a broadcast is one command, made from the rail's key with
  the request's address and amount; it leaves the files alone; and a response that claims success
  carries a transaction hash.
\<close>

locale transfer_rail =
  fixes preflight :: "'c preflight" and broadcast :: "'c broadcast" and keyName :: "settlementConfig \<Rightarrow> string"
  assumes broadcast_sends: "w_sends (snd (run_state (broadcast env cfg n a) w)) = w_sends w @ [bankSendArgs cfg (keyName cfg) n]"
    and broadcast_files: "w_files (snd (run_state (broadcast env cfg n a) w)) = w_files w"
      "w_locks (snd (run_state (broadcast env cfg n a) w)) = w_locks w"
    and broadcast_ok: "xr_OK (fst (run_state (broadcast env cfg n a) w)) \<Longrightarrow> xr_TxHash (fst (run_state (broadcast env cfg n a) w)) \<noteq> []"
    and broadcast_fresh: "\<not> xr_IdempotentReplay (fst (run_state (broadcast env cfg n a) w))"
    and preflight_failure: "snd (fst (run_state (preflight env cfg amt) c)) = Some r \<Longrightarrow>
      \<not> xr_OK r \<and> xr_TxHash r = [] \<and> \<not> xr_IdempotentReplay r"

begin

lemmas rail_simps [simp] = broadcast_sends broadcast_files

abbreviation settle :: "'c env \<Rightarrow> settlementConfig \<Rightarrow> string \<Rightarrow> settlementExecuteRequest \<Rightarrow> ('c world, string + settlementExecuteResponse) state" where
  "settle env cfg role request \<equiv> settleRequest env cfg role preflight broadcast request"

lemma attempt_sends:
  "w_sends (snd (run_state (attemptTransfer env cfg preflight broadcast n) w)) =
     w_sends w @ (if snd (fst (run_state (preflight env cfg (nq_AmountUWolo n)) (w_chain w))) = None
                  then [bankSendArgs cfg (keyName cfg) n] else [])"
  by (cases rule: attempt_cases [of preflight env cfg n w]) (simp_all add: attempt_refused attempt_sent)

lemma attempt_frame:
  "w_locks (snd (run_state (attemptTransfer env cfg preflight broadcast n) w)) = w_locks w"
  by (cases rule: attempt_cases [of preflight env cfg n w]; simp add: attempt_refused attempt_sent)

lemma attempt_other:
  assumes "path \<noteq> requestRecordPath cfg (nq_RequestID n)"
  shows "w_files (snd (run_state (attemptTransfer env cfg preflight broadcast n) w)) path = w_files w path"
  using assms
  by (cases rule: attempt_cases [of preflight env cfg n w]) (simp_all add: attempt_refused attempt_sent recordResult_other)

lemma attempt_fresh:
  assumes "fst (run_state (attemptTransfer env cfg preflight broadcast n) w) = Inr r"
  shows "\<not> xr_IdempotentReplay r"
  using assms broadcast_fresh preflight_failure [of env cfg "nq_AmountUWolo n" "w_chain w"]
  by (cases rule: attempt_cases [of preflight env cfg n w])
    (auto simp: attempt_refused attempt_sent requestFields_def dest!: recordResult_ok)

lemma attempt_recorded:
  assumes "fst (run_state (attemptTransfer env cfg preflight broadcast n) w) = Inr r"
  shows "\<exists>s. readSettlementStoredResult (requestRecordPath cfg (nq_RequestID n))
      (snd (run_state (attemptTransfer env cfg preflight broadcast n) w)) = ReadOK s \<and>
    sr_Request s = n \<and> sr_Response s = r"
  using assms
  by (cases rule: attempt_cases [of preflight env cfg n w]) (auto simp: attempt_refused attempt_sent dest!: recordResult_ok)

text \<open>Under the lock.\<close>

lemma locked_sends:
  "w_sends (snd (run_state (settleLocked env cfg role preflight broadcast n) w)) = w_sends w \<or>
   w_sends (snd (run_state (settleLocked env cfg role preflight broadcast n) w)) = w_sends w @ [bankSendArgs cfg (keyName cfg) n] \<and>
     run_state (settleLocked env cfg role preflight broadcast n) w = run_state (attemptTransfer env cfg preflight broadcast n) w \<and>
     snd (fst (run_state (preflight env cfg (nq_AmountUWolo n)) (w_chain w))) = None \<and>
     (\<nexists>s. settledAt cfg (nq_RequestID n) s w)"
  by (auto simp: settleLocked_def attempt_sends settledAt_def split: readResult.splits)

lemma locked_other:
  "path \<noteq> requestRecordPath cfg (nq_RequestID n) \<Longrightarrow>
     w_files (snd (run_state (settleLocked env cfg role preflight broadcast n) w)) path = w_files w path"
  by (auto simp: settleLocked_def attempt_other split: readResult.splits)

lemma locked_settled:
  assumes "settledAt cfg (nq_RequestID n) s w"
  shows "run_state (settleLocked env cfg role preflight broadcast n) w =
    (Inr (if sameSettlementRequest (sr_Request s) n then (sr_Response s)\<lparr>xr_IdempotentReplay := True\<rparr>
          else conflictResponse cfg role n s), w)"
  using assms by (simp add: settleLocked_def settledAt_def)

lemma locked_fresh:
  assumes "fst (run_state (settleLocked env cfg role preflight broadcast n) w) = Inr r"
    and "xr_TxHash r \<noteq> []" and "\<not> xr_IdempotentReplay r"
    and "settlementRequestIDPattern (nq_RequestID n)"
  shows "\<exists>s. settledAt cfg (nq_RequestID n) s (snd (run_state (settleLocked env cfg role preflight broadcast n) w)) \<and>
    sr_Request s = n \<and> sr_Response s = r"
proof -
  have "run_state (settleLocked env cfg role preflight broadcast n) w = run_state (attemptTransfer env cfg preflight broadcast n) w"
    using assms by (auto simp: settleLocked_def conflictResponse_def stateFileResponse_def requestFields_def refusal_def
        split: readResult.splits if_splits)
  with assms attempt_recorded [of env cfg n w r] show ?thesis by (auto simp: settledAt_def isSettled_def)
qed

text \<open>The whole call.\<close>

lemma settle_settled:
  assumes "settledAt cfg rid s w"
  shows "settledAt cfg rid s (snd (run_state (settle env cfg role request) w))"
proof (cases rule: settle_cases [of env cfg role preflight broadcast request w])
  case (unsent r)
  with assms show ?thesis by simp
next
  case (held n w1)
  let ?n = "n\<lparr>nq_SignerRole := role\<rparr>"
  have s1: "settledAt cfg rid s w1" using assms held(3) settledAt_cong by blast
  have "w_files (snd (run_state (settleLocked env cfg role preflight broadcast ?n) w1)) (requestRecordPath cfg rid) =
      w_files w1 (requestRecordPath cfg rid)"
    using s1 locked_settled [of cfg ?n s w1 env role] locked_other [of "requestRecordPath cfg rid" cfg ?n env role w1]
      normalizeSettlementRequest_fields(2) [OF held(1)]
    by (cases "rid = nq_RequestID ?n") (simp_all add: settledAt_def)
  with held(6) s1 show ?thesis by (auto simp: settledAt_def readSettlementStoredResult_def)
qed

lemma settle_other:
  assumes "path \<noteq> requestRecordPath cfg (TrimSpace (xq_RequestID request))"
  shows "w_files (snd (run_state (settle env cfg role request) w)) path = w_files w path"
proof (cases rule: settle_cases [of env cfg role preflight broadcast request w])
  case (held n w1)
  then show ?thesis
    using locked_other [of path cfg "n\<lparr>nq_SignerRole := role\<rparr>" env role w1] assms
      normalizeSettlementRequest_fields(1) [OF held(1)]
    by auto
qed simp

text \<open>Nothing is sent for a request that is settled; a settled request is answered from its record.\<close>

lemma settle_no_resend:
  assumes "settledAt cfg (TrimSpace (xq_RequestID request)) s w"
  shows "w_sends (snd (run_state (settle env cfg role request) w)) = w_sends w"
    and "fst (run_state (settle env cfg role request) w) = Inr r \<Longrightarrow> xr_TxHash r \<noteq> [] \<Longrightarrow>
      r = (sr_Response s)\<lparr>xr_IdempotentReplay := True\<rparr>"
  subgoal
  proof (cases rule: settle_cases [of env cfg role preflight broadcast request w])
    case (held n w1)
    then have "settledAt cfg (nq_RequestID n) s w1"
      using assms normalizeSettlementRequest_fields(1) [OF held(1)] settledAt_cong by metis
    with held(4,6) locked_settled [of cfg "n\<lparr>nq_SignerRole := role\<rparr>" s w1 env role] show ?thesis by auto
  qed simp
  subgoal premises prems
  proof (cases rule: settle_cases [of env cfg role preflight broadcast request w])
    case (held n w1)
    then have "settledAt cfg (nq_RequestID n) s w1"
      using assms normalizeSettlementRequest_fields(1) [OF held(1)] settledAt_cong by metis
    with held(5) locked_settled [of cfg "n\<lparr>nq_SignerRole := role\<rparr>" s w1 env role] prems show ?thesis
      by (auto simp: conflictResponse_def requestFields_def refusal_def split: if_splits)
  qed (use prems in auto)
  done

lemma settle_replay:
  assumes "settledAt cfg (TrimSpace (xq_RequestID request)) s w" and "normalizeSettlementRequest request = Inr n"
    and "sameSettlementRequest (sr_Request s) (n\<lparr>nq_SignerRole := role\<rparr>)"
    and "env_ioError env (w_chain w) (requestLockPath cfg (nq_RequestID n)) = None"
    and "w_locks w (requestLockPath cfg (nq_RequestID n)) = None"
  shows "run_state (settle env cfg role request) w = (Inr ((sr_Response s)\<lparr>xr_IdempotentReplay := True\<rparr>), w)"
proof -
  have "settledAt cfg (nq_RequestID n) s (w\<lparr>w_locks := l\<rparr>)" for l
    using assms(1) normalizeSettlementRequest_fields(1) [OF assms(2)] settledAt_cong [of "w\<lparr>w_locks := l\<rparr>" w] by simp
  then show ?thesis
    using assms(2,3,5) locked_settled [of cfg "n\<lparr>nq_SignerRole := role\<rparr>" s _ env role]
    by (simp add: settleRequest_def withRequestLock_def lockAttempt_free [OF assms(4,5)] Let_def fun_upd_idem)
qed

text \<open>A call that sends makes one command for the request, after a preflight that passed.\<close>

lemma settle_sends:
  assumes "w_sends (snd (run_state (settle env cfg role request) w)) \<noteq> w_sends w"
  shows "\<exists>n. normalizeSettlementRequest request = Inr n \<and>
    w_sends (snd (run_state (settle env cfg role request) w)) =
      w_sends w @ [bankSendArgs cfg (keyName cfg) (n\<lparr>nq_SignerRole := role\<rparr>)] \<and>
    snd (fst (run_state (preflight env cfg (nq_AmountUWolo n)) (w_chain w))) = None"
proof (cases rule: settle_cases [of env cfg role preflight broadcast request w])
  case (held n w1)
  with assms locked_sends [of env cfg role "n\<lparr>nq_SignerRole := role\<rparr>" w1] show ?thesis by auto
qed (use assms in simp)

text \<open>Without an error of the call, what was sent is on record with the response the caller got.\<close>

lemma settle_recorded:
  assumes "w_sends (snd (run_state (settle env cfg role request) w)) \<noteq> w_sends w"
    and "fst (run_state (settle env cfg role request) w) = Inr r"
  shows "\<exists>s. readSettlementStoredResult (requestRecordPath cfg (TrimSpace (xq_RequestID request)))
      (snd (run_state (settle env cfg role request) w)) = ReadOK s \<and> sr_Response s = r"
proof (cases rule: settle_cases [of env cfg role preflight broadcast request w])
  case (held n w1)
  with assms locked_sends [of env cfg role "n\<lparr>nq_SignerRole := role\<rparr>" w1]
    attempt_recorded [of env cfg "n\<lparr>nq_SignerRole := role\<rparr>" w1 r] normalizeSettlementRequest_fields(1) [OF held(1)]
  show ?thesis by (auto simp: readSettlementStoredResult_def)
qed (use assms in simp)

end

subsection \<open>Both rails keep the contract\<close>

lemma confirmedResponse_hash [simp]:
  "xr_TxHash (confirmedResponse what confirmation r) = xr_TxHash r"
  "xr_IdempotentReplay (confirmedResponse what confirmation r) = xr_IdempotentReplay r"
  by (auto simp: confirmedResponse_def Let_def split: sum.splits option.splits)

lemma failedBroadcast_sel [simp]:
  "xr_OK (failedBroadcast output err r) = xr_OK r" "xr_TxHash (failedBroadcast output err r) = xr_TxHash r"
  "xr_IdempotentReplay (failedBroadcast output err r) = xr_IdempotentReplay r"
  by (simp_all add: failedBroadcast_def case_prod_beta Let_def)

lemma broadcastBase_sel [simp]:
  "\<not> xr_OK (broadcastBase cfg role n a)" "xr_TxHash (broadcastBase cfg role n a) = []"
  "\<not> xr_IdempotentReplay (broadcastBase cfg role n a)"
  by (simp_all add: broadcastBase_def withTxURLs_def)

lemma withBroadcast_sel [simp]:
  "xr_OK (withBroadcast cfg b r) = xr_OK r" "xr_TxHash (withBroadcast cfg b r) = bb_TxHash b"
  "xr_IdempotentReplay (withBroadcast cfg b r) = xr_IdempotentReplay r"
  by (simp_all add: withBroadcast_def withTxURLs_def)

lemma broadcastTransfer_world:
  "w_sends (snd (run_state (broadcastTransfer env cfg role keyName what n a) w)) = w_sends w @ [bankSendArgs cfg keyName n]"
  "w_files (snd (run_state (broadcastTransfer env cfg role keyName what n a) w)) = w_files w"
  "w_locks (snd (run_state (broadcastTransfer env cfg role keyName what n a) w)) = w_locks w"
  by (simp_all add: broadcastTransfer_def case_prod_beta Let_def split: option.splits)

lemma broadcastTransfer_result:
  "xr_OK (fst (run_state (broadcastTransfer env cfg role keyName what n a) w)) \<Longrightarrow>
     xr_TxHash (fst (run_state (broadcastTransfer env cfg role keyName what n a) w)) \<noteq> []"
  "\<not> xr_IdempotentReplay (fst (run_state (broadcastTransfer env cfg role keyName what n a) w))"
  by (auto simp: broadcastTransfer_def case_prod_beta Let_def split: option.splits if_splits)

lemma refusal_sel [simp]:
  "\<not> xr_OK (refusal cfg role code retry a d)" "xr_TxHash (refusal cfg role code retry a d) = []"
  "\<not> xr_IdempotentReplay (refusal cfg role code retry a d)" "xr_FailureCode (refusal cfg role code retry a d) = code"
  "xr_Retryable (refusal cfg role code retry a d) = retry" "xr_Status (refusal cfg role code retry a d) = ''failed''"
  by (simp_all add: refusal_def)

lemma preflightExecution_failure:
  "snd (fst (run_state (preflightExecution env cfg amt) c)) = Some r \<Longrightarrow> \<not> xr_OK r \<and> xr_TxHash r = [] \<and> \<not> xr_IdempotentReplay r"
  by (auto simp: preflightExecution_def Let_def split: sum.splits if_splits prod.splits)

lemma preflightEscrowTransfer_failure:
  "snd (fst (run_state (preflightEscrowTransfer env cfg amt) c)) = Some r \<Longrightarrow> \<not> xr_OK r \<and> xr_TxHash r = [] \<and> \<not> xr_IdempotentReplay r"
  by (auto simp: preflightEscrowTransfer_def preflightEscrowSigner_def Let_def case_prod_beta split: sum.splits option.splits if_splits)

interpretation payout_rail: transfer_rail preflightExecution broadcastPayout cfg_PayoutKeyName
  by unfold_locales (simp_all add: broadcastPayout_def broadcastTransfer_world broadcastTransfer_result preflightExecution_failure)

interpretation escrow_rail: transfer_rail preflightEscrowTransfer broadcastEscrowTransfer cfg_EscrowKeyName
  by unfold_locales (simp_all add: broadcastEscrowTransfer_def broadcastTransfer_world broadcastTransfer_result preflightEscrowTransfer_failure)

end
