(* ===== verification/Idempotency.thy ===== *)
theory Idempotency
  imports Payout
begin

text \<open>
  What the single-transfer rail promises over a sequence of calls: a request id is paid at most once
  as long as records can be written, every payment asked for is backed by a preflight that read a
  sufficient balance, and the confirmation loop ends within the rounds the model gives it.

  A sequence mixes payout and escrow calls with arbitrary changes of the outside world; \<open>serveCalls\<close>
  logs for each call its request id, its result and the \<open>tx bank send\<close> commands it ran.
\<close>

section \<open>Sequences of calls\<close>

datatype 'c call = CallPayout settlementExecuteRequest | CallEscrow settlementExecuteRequest | Outside 'c

type_synonym callLog = "string \<times> (string + settlementExecuteResponse) \<times> string list list"

definition logCall :: "settlementExecuteRequest \<Rightarrow> ('c world, string + settlementExecuteResponse) state \<Rightarrow> 'c world \<Rightarrow> callLog" where
  "logCall request m w = (TrimSpace (xq_RequestID request), fst (run_state m w),
     drop (length (w_sends w)) (w_sends (snd (run_state m w))))"

fun serveCalls :: "'c env \<Rightarrow> settlementConfig \<Rightarrow> 'c call list \<Rightarrow> 'c world \<Rightarrow> callLog list" where
  "serveCalls env cfg [] w = []"
| "serveCalls env cfg (Outside c # calls) w = serveCalls env cfg calls (w\<lparr>w_chain := c\<rparr>)"
| "serveCalls env cfg (CallPayout request # calls) w =
     logCall request (executeSettlement env cfg request) w #
     serveCalls env cfg calls (snd (run_state (executeSettlement env cfg request) w))"
| "serveCalls env cfg (CallEscrow request # calls) w =
     logCall request (executeEscrowTransfer env cfg request) w #
     serveCalls env cfg calls (snd (run_state (executeEscrowTransfer env cfg request) w))"

text \<open>A logged call for \<open>rid\<close> that sent something and was not left to be retried.\<close>

definition finalResult :: "string + settlementExecuteResponse \<Rightarrow> bool" where
  "finalResult result = (case result of Inl _ \<Rightarrow> True | Inr response \<Rightarrow> isSettled response)"

definition sentFor :: "string \<Rightarrow> callLog \<Rightarrow> bool" where
  "sentFor rid entry = (case entry of (i, result, sent) \<Rightarrow> i = rid \<and> sent \<noteq> [])"

definition finalSend :: "string \<Rightarrow> callLog \<Rightarrow> bool" where
  "finalSend rid entry = (case entry of (i, result, sent) \<Rightarrow> i = rid \<and> sent \<noteq> [] \<and> finalResult result)"

definition diskOK :: "'c env \<Rightarrow> bool" where
  "diskOK env \<longleftrightarrow> (\<forall>c path. env_ioError env c path = None)"

subsection \<open>Steps of a rail\<close>

context transfer_rail
begin

lemma attempt_no_error:
  "diskOK env \<Longrightarrow> \<exists>r. fst (run_state (attemptTransfer env cfg preflight broadcast n) w) = Inr r"
  by (cases rule: attempt_cases [of preflight env cfg n w])
    (auto simp: attempt_refused attempt_sent recordResult_result diskOK_def)

lemma settle_no_error:
  assumes "diskOK env"
  shows "\<exists>r. fst (run_state (settle env cfg role request) w) = Inr r"
  using assms attempt_no_error [OF assms]
  by (auto simp: settleRequest_def settleLocked_def withRequestLock_def lockAttempt_run diskOK_def Let_def
      split: sum.splits readResult.splits option.splits)

lemma logged_settled:
  assumes "settledAt cfg rid s w"
  shows "\<not> sentFor rid (logCall request (settle env cfg role request) w)"
  using assms settle_no_resend(1) [of cfg request s w env role] by (auto simp: sentFor_def logCall_def)

lemma logged_final:
  assumes "diskOK env" and "finalSend rid (logCall request (settle env cfg role request) w)"
  shows "\<exists>s. settledAt cfg rid s (snd (run_state (settle env cfg role request) w))"
proof -
  have rid: "rid = TrimSpace (xq_RequestID request)" and sent: "w_sends (snd (run_state (settle env cfg role request) w)) \<noteq> w_sends w"
    and final: "finalResult (fst (run_state (settle env cfg role request) w))"
    using assms(2) by (auto simp: finalSend_def logCall_def)
  obtain r where r: "fst (run_state (settle env cfg role request) w) = Inr r"
    using settle_no_error [OF assms(1)] by blast
  have "settlementRequestIDPattern rid"
    using settle_sends [OF sent] normalizeSettlementRequest_fields(1,2) [of request] rid by fastforce
  with settle_recorded [OF sent r] final r rid show ?thesis
    by (auto simp: settledAt_def finalResult_def)
qed

end

lemma serve_settled:
  "settledAt cfg rid s w \<Longrightarrow> filter (sentFor rid) (serveCalls env cfg calls w) = []"
proof (induction env cfg calls w rule: serveCalls.induct)
  case (2 env cfg c calls w)
  then show ?case by (simp add: settledAt_cong [of "w_chain_update _ w" w])
next
  case (3 env cfg request calls w)
  then show ?case
    using payout_rail.logged_settled [OF "3.prems"] payout_rail.settle_settled [OF "3.prems"] by (simp add: executeSettlement_def)
next
  case (4 env cfg request calls w)
  then show ?case
    using escrow_rail.logged_settled [OF "4.prems"] escrow_rail.settle_settled [OF "4.prems"] by (simp add: executeEscrowTransfer_def)
qed simp

lemma finalSend_sentFor: "finalSend rid e \<Longrightarrow> sentFor rid e"
  by (auto simp: finalSend_def sentFor_def)

lemma serve_settled_final:
  assumes "settledAt cfg rid s w"
  shows "filter (finalSend rid) (serveCalls env cfg calls w) = []"
  using serve_settled [OF assms, of env calls] finalSend_sentFor by (auto simp: filter_empty_conv)

lemma serve_at_most_once:
  "diskOK env \<Longrightarrow> length (filter (finalSend rid) (serveCalls env cfg calls w)) \<le> 1"
proof (induction env cfg calls w rule: serveCalls.induct)
  case (3 env cfg request calls w)
  then show ?case
    using payout_rail.logged_final [of env rid request cfg settlementSignerRole w]
      serve_settled_final [of cfg rid _ "snd (run_state (executeSettlement env cfg request) w)" env calls]
    by (fastforce simp: executeSettlement_def)
next
  case (4 env cfg request calls w)
  then show ?case
    using escrow_rail.logged_final [of env rid request cfg settlementEscrowSignerRole w]
      serve_settled_final [of cfg rid _ "snd (run_state (executeEscrowTransfer env cfg request) w)" env calls]
    by (fastforce simp: executeEscrowTransfer_def)
qed simp_all

section \<open>Payments are backed by a balance\<close>

text \<open>
  A preflight passes exactly when the balance the outside reports for the rail's signer covers the amount
  together with the larger of the rail's two reserves.
\<close>

definition coversAmount :: "u64 \<Rightarrow> u64 \<Rightarrow> u64 \<Rightarrow> string \<Rightarrow> bool" where
  "coversAmount headroom reserve balance amount \<longleftrightarrow>
     (case ParseUint (TrimSpace amount) of
        Inl _ \<Rightarrow> False
      | Inr v \<Rightarrow> unat v + max (unat headroom) (unat reserve) \<le> unat balance)"

lemma coversAmount_check:
  "coversAmount (cfg_FeeHeadroomUWolo cfg) (cfg_MinPayoutBalanceUWolo cfg) b amt \<longleftrightarrow>
     (\<exists>v. ParseUint (TrimSpace amt) = Inr v \<and> \<not> snd (snd (checkPayoutCapacity cfg b v)))"
  "coversAmount (cfg_EscrowFeeHeadroomUWolo cfg) (cfg_MinEscrowBalanceUWolo cfg) b amt \<longleftrightarrow>
     (\<exists>v. ParseUint (TrimSpace amt) = Inr v \<and> \<not> snd (snd (checkEscrowCapacity cfg b v)))"
  by (auto simp only: coversAmount_def payout_cap.pass_nat escrow_cap.pass_nat split: sum.splits)

lemma coversAmount_reserve:
  "coversAmount (cfg_FeeHeadroomUWolo cfg) (cfg_MinPayoutBalanceUWolo cfg) b amt \<Longrightarrow> \<not> snd (snd (checkReserveHealth cfg b))"
  by (auto simp: coversAmount_def checkReserveHealth_zero payout_cap.pass_nat split: sum.splits)

lemma preflightExecution_passes:
  "fst (run_state (preflightExecution env cfg amt) c) = (a, None) \<longleftrightarrow>
     a \<noteq> [] \<and> cfg_PayoutKeyName cfg \<noteq> [] \<and> escrowAddressOK cfg \<and>
     (\<exists>b. fst (run_state (signerBalance env cfg (resolvePayoutAddress env cfg)) c) = Some (a, b) \<and>
        coversAmount (cfg_FeeHeadroomUWolo cfg) (cfg_MinPayoutBalanceUWolo cfg) b amt)"
proof -
  let ?h = "fst (run_state (buildHealthReport env cfg) c)"
  have "fst (run_state (preflightExecution env cfg amt) c) = (a, None) \<longleftrightarrow>
      a \<noteq> [] \<and> cfg_PayoutKeyName cfg \<noteq> [] \<and> hr_OK ?h \<and> hr_PayoutAddress ?h = a \<and>
      (\<exists>v b. ParseUint (TrimSpace amt) = Inr v \<and> ParseUint (TrimSpace (hr_PayoutBalanceUWolo ?h)) = Inr b \<and>
        \<not> snd (snd (checkPayoutCapacity cfg b v)))"
    by (auto simp: preflightExecution_def split: if_splits sum.splits prod.splits)
  also have "\<dots> \<longleftrightarrow> a \<noteq> [] \<and> cfg_PayoutKeyName cfg \<noteq> [] \<and> escrowAddressOK cfg \<and>
     (\<exists>b. fst (run_state (signerBalance env cfg (resolvePayoutAddress env cfg)) c) = Some (a, b) \<and>
        coversAmount (cfg_FeeHeadroomUWolo cfg) (cfg_MinPayoutBalanceUWolo cfg) b amt)"
    using buildHealthReport_ok [of a env cfg c "hr_PayoutBalanceUWolo ?h"] coversAmount_reserve [of cfg _ amt]
      buildHealthReport_ok [of a env cfg c "FormatUint _"]
    by (cases "a = []") (auto simp: coversAmount_check)
  finally show ?thesis .
qed

lemma preflightEscrowTransfer_passes:
  "fst (run_state (preflightEscrowTransfer env cfg amt) c) = (a, None) \<longleftrightarrow>
     cfg_EscrowKeyName cfg \<noteq> [] \<and>
     (\<exists>b. fst (run_state (signerBalance env cfg (resolveEscrowAddress env cfg)) c) = Some (a, b) \<and>
        coversAmount (cfg_EscrowFeeHeadroomUWolo cfg) (cfg_MinEscrowBalanceUWolo cfg) b amt)"
  by (auto simp: preflightEscrowTransfer_def preflightEscrowSigner_def signerBalance_def case_prod_beta coversAmount_check
      split: sum.splits option.splits if_splits)

section \<open>The confirmation loop\<close>

text \<open>More rounds than \<open>confirmRounds\<close> change nothing when a sleep lasts at least the interval and the clock never goes back.\<close>

definition clockAdvances :: "'c env \<Rightarrow> settlementConfig \<Rightarrow> string \<Rightarrow> bool" where
  "clockAdvances env cfg txHash \<longleftrightarrow>
     (\<forall>c. env_now env (snd (run_state (env_sleep env (cfg_ConfirmInterval cfg)) c)) \<ge> env_now env c + cfg_ConfirmInterval cfg) \<and>
     (\<forall>c. env_now env (snd (run_state (lookupSettlementTx env cfg txHash zero_settlementLookupExpectations) c)) \<ge> env_now env c)"

lemma waitLoop_more:
  assumes "clockAdvances env cfg txHash"
  shows "deadline \<le> env_now env c + int n * cfg_ConfirmInterval cfg \<Longrightarrow>
    run_state (waitLoop (n + k) env cfg txHash deadline) c = run_state (waitLoop n env cfg txHash deadline) c"
proof (induction n arbitrary: c)
  case 0
  then show ?case by (cases k) simp_all
next
  case (Suc n)
  let ?c1 = "snd (run_state (lookupSettlementTx env cfg txHash zero_settlementLookupExpectations) c)"
  let ?c2 = "snd (run_state (env_sleep env (cfg_ConfirmInterval cfg)) ?c1)"
  have "env_now env ?c2 \<ge> env_now env ?c1 + cfg_ConfirmInterval cfg" "env_now env ?c1 \<ge> env_now env c"
    using assms unfolding clockAdvances_def by blast+
  with Suc.prems have "deadline \<le> env_now env ?c2 + int n * cfg_ConfirmInterval cfg"
    by (simp add: algebra_simps)
  from Suc.IH [OF this] show ?case
    by (simp split: option.splits)
qed

lemma confirmRounds_enough:
  assumes "0 < cfg_ConfirmInterval cfg"
  shows "cfg_ConfirmTimeout cfg \<le> int (confirmRounds cfg) * cfg_ConfirmInterval cfg"
proof -
  have "cfg_ConfirmTimeout cfg < (cfg_ConfirmTimeout cfg div cfg_ConfirmInterval cfg + 1) * cfg_ConfirmInterval cfg"
    using assms by (simp add: algebra_simps) (metis add.commute add_strict_left_mono mult_div_mod_eq pos_mod_bound)
  also have "\<dots> \<le> int (confirmRounds cfg) * cfg_ConfirmInterval cfg"
    using assms by (intro mult_right_mono) (auto simp: confirmRounds_def)
  finally show ?thesis by simp
qed

lemma waitLoop_enough:
  assumes "clockAdvances env cfg txHash" and "0 < cfg_ConfirmInterval cfg"
  shows "run_state (waitLoop (confirmRounds cfg + k) env cfg txHash (env_now env c + cfg_ConfirmTimeout cfg)) c =
    run_state (waitForTxConfirmation env cfg txHash) c"
  using waitLoop_more [OF assms(1), of "env_now env c + cfg_ConfirmTimeout cfg" c "confirmRounds cfg" k]
    confirmRounds_enough [OF assms(2)] by (simp add: waitForTxConfirmation_def)

text \<open>
  A look-up that fails for another reason than a missing transaction ends the loop, and its zero
  \<open>TxSuccess\<close> is read as a rejected transaction.
\<close>

lemma waitForTx_lookup_failed:
  assumes "run_state (lookupSettlementTx env cfg txHash zero_settlementLookupExpectations) c = (result, c')"
    and "\<not> lr_OK result" and "lr_FailureCode result \<noteq> ''TX_NOT_FOUND''" and "0 < cfg_ConfirmTimeout cfg"
  shows "run_state (waitForTxConfirmation env cfg txHash) c = (Inr (Some result), c')"
  using assms by (simp add: waitForTxConfirmation_def confirmRounds_def)

lemma lookup_unreachable:
  assumes "fst (run_state (fetchRuntimeChainID env cfg) c) = Inl err" and "isHexHash (normalizeTxHash txHash)"
  shows "fst (run_state (lookupSettlementTx env cfg txHash e) c) = lookupFailure ''RPC_UNREACHABLE'' err"
  using assms by (auto simp: lookupSettlementTx_def Let_def isHexHash_def)

end
