(* ===== verification/Sample.thy ===== *)
theory Sample
  imports Idempotency
begin

text \<open>
  A concrete chain and configuration, on which the properties' hypotheses are shown to be
  satisfiable.  The outside world is a clock; \<open>down\<close> says when the RPC endpoint refuses connections
  and \<open>io\<close> which file operations fail.  Every account holds one WOLO, every transaction is found and
  successful, a broadcast takes one unit of time.  The transaction \<open>F00D\<close> is a deposit of 500 uwolo
  that funds the challenge \<open>c1\<close>.
\<close>

definition sampleDepositMemo :: string where
  "sampleDepositMemo = ''wolo.challenge.funding.v1:app=arena&cid=c1&side=left&w=300&g=200''"

definition sampleDeposit :: restTxLookupResponse where
  "sampleDeposit = \<lparr>tl_Memo = sampleDepositMemo, tl_TxResponse = zero_restTxResponse\<lparr>tx_TxHash := ''F00D'',
     tx_Events := [\<lparr>te_Type = ''transfer'', te_Attributes = [\<lparr>ta_Key = ''recipient'', ta_Value = ''wolo1escrow''\<rparr>,
       \<lparr>ta_Key = ''sender'', ta_Value = ''wolo1left''\<rparr>, \<lparr>ta_Key = ''amount'', ta_Value = ''500uwolo''\<rparr>]\<rparr>]\<rparr>\<rparr>"

definition sampleEnv :: "(int \<Rightarrow> bool) \<Rightarrow> (int \<Rightarrow> string \<Rightarrow> string option) \<Rightarrow> int env" where
  "sampleEnv down io = \<lparr>
     env_rpcStatus = (\<lambda>url. do { t \<leftarrow> State_Monad.get;
       State_Monad.return (if down t then RequestFailed ''connection refused'' else Replied 200 [] (Inr ''wolo-testnet'')) }),
     env_restNodeInfo = (\<lambda>url. State_Monad.return (Replied 200 [] (Inr ''wolo-testnet''))),
     env_restDenomMetadata = (\<lambda>url. State_Monad.return (Replied 200 [] (Inr (''uwolo'', ''wolo'')))),
     env_restStakingParams = (\<lambda>url. State_Monad.return (Replied 200 [] (Inr ''uwolo''))),
     env_restMintParams = (\<lambda>url. State_Monad.return (Replied 200 [] (Inr ''uwolo''))),
     env_restBalances = (\<lambda>url. State_Monad.return (Replied 200 [] (Inr [\<lparr>ba_Denom = ''uwolo'', ba_Amount = ''1000000''\<rparr>]))),
     env_restTx = (\<lambda>url. State_Monad.return (Replied 200 [] (Inr (if url = ''/cosmos/tx/v1beta1/txs/F00D'' then sampleDeposit
       else \<lparr>tl_Memo = [], tl_TxResponse = zero_restTxResponse\<lparr>tx_TxHash := ''AB12''\<rparr>\<rparr>)))),
     env_restTxSearch = (\<lambda>url. State_Monad.return (Replied 200 [] (Inr \<lparr>ts_TxMemos = [], ts_TxResponses = []\<rparr>))),
     env_keysShow = (\<lambda>args. State_Monad.return \<lparr>ex_Stdout = (if ''payer'' \<in> set args then ''wolo1payer'' else ''wolo1escrow''),
       ex_Stderr = [], ex_Err = None\<rparr>),
     env_txBankSend = (\<lambda>args. do { t \<leftarrow> State_Monad.get; State_Monad.set (t + 1); State_Monad.return (''{}'', None) }),
     env_decodeBroadcast = (\<lambda>payload. Some (zero_bankSendBroadcastResponse\<lparr>bb_TxHash := ''AB12''\<rparr>)),
     env_sleep = (\<lambda>d. do { t \<leftarrow> State_Monad.get; State_Monad.set (t + d); State_Monad.return None }),
     env_now = (\<lambda>t. t),
     env_isLoopbackIP = (\<lambda>host. host = ''127.0.0.1''),
     env_splitHost = (\<lambda>addr. Some addr),
     env_ioError = io,
     env_hashRequest = (\<lambda>n signer. []),
     env_hashRun = (\<lambda>n. []),
     env_hashChallenge = (\<lambda>n. [])\<rparr>"

definition sampleCfg :: settlementConfig where
  "sampleCfg = zero_settlementConfig\<lparr>
     cfg_ChainID := ''wolo-testnet'', cfg_BaseDenom := ''uwolo'', cfg_DisplayDenom := ''wolo'', cfg_AddressPrefix := ''wolo'',
     cfg_PayoutKeyName := ''payer'', cfg_EscrowKeyName := ''vault'', cfg_EscrowAddress := ''wolo1escrow'',
     cfg_MinPayoutBalanceUWolo := 1000, cfg_FeeHeadroomUWolo := 500, cfg_MinEscrowBalanceUWolo := 1000,
     cfg_RequestLockTTL := 100, cfg_ConfirmTimeout := 10, cfg_ConfirmInterval := 1\<rparr>"

definition emptyWorld :: "'c \<Rightarrow> 'c world" where
  "emptyWorld c = \<lparr>w_chain = c, w_files = Map.empty, w_locks = Map.empty, w_sends = []\<rparr>"

definition sampleRequest :: settlementExecuteRequest where
  "sampleRequest = zero_settlementExecuteRequest\<lparr>xq_RequestID := ''req-1'', xq_ToAddress := ''wolo1abc'', xq_AmountUWolo := ''500''\<rparr>"

definition sampleNormalized :: normalizedSettlementRequest where
  "sampleNormalized = zero_normalizedSettlementRequest\<lparr>nq_RequestID := ''req-1'', nq_ToAddress := ''wolo1abc'', nq_AmountUWolo := ''500''\<rparr>"

lemma sampleRequest_normalizes [simp]: "normalizeSettlementRequest sampleRequest = Inr sampleNormalized"
  by (simp add: sampleRequest_def sampleNormalized_def normalizeSettlementRequest_def normalizeAmountUWolo_def
      settlementRequestIDPattern_def isWoloAddress_def settlementCanonicalPrefix_def zero_settlementExecuteRequest_def
      zero_normalizedSettlementRequest_def go_eval Let_def)

lemma sample_chainID [simp]:
  "\<not> down t \<Longrightarrow> run_state (fetchRuntimeChainID (sampleEnv down io) sampleCfg) t = (Inr ''wolo-testnet'', t)"
  "down t \<Longrightarrow> run_state (fetchRuntimeChainID (sampleEnv down io) sampleCfg) t = (Inl ''connection refused'', t)"
  by (simp_all add: fetchRuntimeChainID_def sampleEnv_def getJSON_def go_eval)

lemma sample_rest [simp]:
  "run_state (validateRESTInvariants (sampleEnv down io) sampleCfg) t = (None, t)"
  by (simp add: validateRESTInvariants_def sampleEnv_def sampleCfg_def getJSON_def go_eval)

lemma sample_balance [simp]:
  "run_state (fetchAccountBalanceUWolo (sampleEnv down io) sampleCfg a) t = (Inr 1000000, t)"
  by (simp add: fetchAccountBalanceUWolo_def sampleEnv_def sampleCfg_def getJSON_def go_eval)

lemma sample_resolve [simp]:
  "run_state (resolvePayoutAddress (sampleEnv down io) sampleCfg) t = (Inr ''wolo1payer'', t)"
  "run_state (resolveEscrowAddress (sampleEnv down io) sampleCfg) t = (Inr ''wolo1escrow'', t)"
  by (simp_all add: resolvePayoutAddress_def resolveEscrowAddress_def sampleEnv_def sampleCfg_def keysShowArgs_def
      isWoloAddress_def go_eval)

lemma sample_health:
  assumes "\<not> down t"
  shows "snd (run_state (buildHealthReport (sampleEnv down io) sampleCfg) t) = t"
    "hr_OK (fst (run_state (buildHealthReport (sampleEnv down io) sampleCfg) t))"
    "hr_PayoutAddress (fst (run_state (buildHealthReport (sampleEnv down io) sampleCfg) t)) = ''wolo1payer''"
    "hr_PayoutBalanceUWolo (fst (run_state (buildHealthReport (sampleEnv down io) sampleCfg) t)) = ''1000000''"
proof -
  have [simp]: "cfg_ChainID sampleCfg = ''wolo-testnet''" "cfg_EscrowAddress sampleCfg = ''wolo1escrow''"
      "cfg_EscrowKeyName sampleCfg \<noteq> []" "isWoloAddress ''wolo1escrow'' (cfg_AddressPrefix sampleCfg)"
      "\<not> EqualFold ''wolo1payer'' ''wolo1escrow''"
    by (simp_all add: sampleCfg_def isWoloAddress_def go_eval)
  have [simp]: "snd (snd (checkReserveHealth sampleCfg 1000000)) = False"
    by (simp add: checkReserveHealth_def sampleCfg_def)
  have num: "FormatUint 1000000 = ''1000000''" by (simp add: go_eval)
  show "snd (run_state (buildHealthReport (sampleEnv down io) sampleCfg) t) = t"
    "hr_OK (fst (run_state (buildHealthReport (sampleEnv down io) sampleCfg) t))"
    "hr_PayoutAddress (fst (run_state (buildHealthReport (sampleEnv down io) sampleCfg) t)) = ''wolo1payer''"
    "hr_PayoutBalanceUWolo (fst (run_state (buildHealthReport (sampleEnv down io) sampleCfg) t)) = ''1000000''"
    using assms
    by (simp_all add: buildHealthReport_def healthPayoutPart_def healthEscrowPart_def case_prod_beta Let_def num healthBase_def)
qed

lemma sample_preflight [simp]:
  assumes "\<not> down t"
  shows "run_state (preflightExecution (sampleEnv down io) sampleCfg ''500'') t = ((''wolo1payer'', None), t)"
proof -
  have "checkPayoutCapacity sampleCfg 1000000 500 = ([], [], False)"
    by (simp add: checkPayoutCapacity_def sampleCfg_def)
  moreover have "ParseUint (TrimSpace ''500'') = Inr 500" "ParseUint (TrimSpace ''1000000'') = Inr 1000000"
    by (simp_all add: go_eval)
  moreover have "cfg_PayoutKeyName sampleCfg \<noteq> []" by (simp add: sampleCfg_def)
  ultimately show ?thesis
    using assms by (simp add: preflightExecution_def sample_health)
qed

lemma sample_lookup:
  assumes "\<not> down t"
  shows "snd (run_state (lookupSettlementTx (sampleEnv down io) sampleCfg ''AB12'' e) t) = t"
    "lr_OK (fst (run_state (lookupSettlementTx (sampleEnv down io) sampleCfg ''AB12'' e) t))"
    "lr_Found (fst (run_state (lookupSettlementTx (sampleEnv down io) sampleCfg ''AB12'' e) t))"
    "lr_TxSuccess (fst (run_state (lookupSettlementTx (sampleEnv down io) sampleCfg ''AB12'' e) t))"
proof -
  have "normalizeTxHash ''AB12'' = ''AB12''" "isHexHash ''AB12''" "cfg_ChainID sampleCfg = ''wolo-testnet''"
    by (simp_all add: normalizeTxHash_def isHexHash_def sampleCfg_def go_eval)
  moreover have "env_restTx (sampleEnv down io) (txLookupURL sampleCfg ''AB12'') =
      State_Monad.return (Replied 200 [] (Inr \<lparr>tl_Memo = [], tl_TxResponse = zero_restTxResponse\<lparr>tx_TxHash := ''AB12''\<rparr>\<rparr>))"
    by (simp add: sampleEnv_def txLookupURL_def txPath_def restBase_def sampleCfg_def go_eval)
  moreover have "classifyTransferKind sampleCfg [] = ''unknown''"
    by (simp add: classifyTransferKind_def)
  ultimately show "snd (run_state (lookupSettlementTx (sampleEnv down io) sampleCfg ''AB12'' e) t) = t"
    "lr_OK (fst (run_state (lookupSettlementTx (sampleEnv down io) sampleCfg ''AB12'' e) t))"
    "lr_Found (fst (run_state (lookupSettlementTx (sampleEnv down io) sampleCfg ''AB12'' e) t))"
    "lr_TxSuccess (fst (run_state (lookupSettlementTx (sampleEnv down io) sampleCfg ''AB12'' e) t))"
    using assms
    by (simp_all add: lookupSettlementTx_def getJSON_def extractSettlementTransfers_def zero_restTxResponse_def
        extractSettlementTransfersFromLogsAndEvents_def refineTransferKind_def withLookupURLs_def Let_def)
qed

lemma sample_confirmed:
  assumes "\<not> down t"
  shows "run_state (waitForTxConfirmation (sampleEnv down io) sampleCfg ''AB12'') t =
    (Inr (Some (fst (run_state (lookupSettlementTx (sampleEnv down io) sampleCfg ''AB12'' zero_settlementLookupExpectations) t))), t)"
proof -
  have "env_now (sampleEnv down io) = (\<lambda>t. t)" "cfg_ConfirmTimeout sampleCfg = 10"
    by (simp_all add: sampleEnv_def sampleCfg_def)
  with sample_lookup [of down t, OF assms] show ?thesis by (simp add: waitForTxConfirmation_def confirmRounds_def)
qed

lemma sample_broadcast:
  assumes "\<not> down (t + 1)" and "w_chain w = t"
  shows "snd (run_state (broadcastTransfer (sampleEnv down io) sampleCfg role key what n a) w) =
      w\<lparr>w_chain := t + 1, w_sends := w_sends w @ [bankSendArgs sampleCfg key n]\<rparr>"
    "xr_OK (fst (run_state (broadcastTransfer (sampleEnv down io) sampleCfg role key what n a) w))"
    "xr_Status (fst (run_state (broadcastTransfer (sampleEnv down io) sampleCfg role key what n a) w)) = ''confirmed''"
    "xr_AmountUWolo (fst (run_state (broadcastTransfer (sampleEnv down io) sampleCfg role key what n a) w)) = nq_AmountUWolo n"
proof -
  have "env_txBankSend (sampleEnv down io) = (\<lambda>args. do { t \<leftarrow> State_Monad.get; State_Monad.set (t + 1); State_Monad.return (''{}'', None) })"
    "env_decodeBroadcast (sampleEnv down io) = (\<lambda>payload. Some (zero_bankSendBroadcastResponse\<lparr>bb_TxHash := ''AB12''\<rparr>))"
    by (simp_all add: sampleEnv_def)
  moreover have "extractJSONPayload ''{}'' = ''{}''" by (simp add: extractJSONPayload_def go_eval)
  ultimately show "snd (run_state (broadcastTransfer (sampleEnv down io) sampleCfg role key what n a) w) =
      w\<lparr>w_chain := t + 1, w_sends := w_sends w @ [bankSendArgs sampleCfg key n]\<rparr>"
    "xr_OK (fst (run_state (broadcastTransfer (sampleEnv down io) sampleCfg role key what n a) w))"
    "xr_Status (fst (run_state (broadcastTransfer (sampleEnv down io) sampleCfg role key what n a) w)) = ''confirmed''"
    "xr_AmountUWolo (fst (run_state (broadcastTransfer (sampleEnv down io) sampleCfg role key what n a) w)) = nq_AmountUWolo n"
    using assms sample_confirmed [of down "t + 1" io] sample_lookup [of down "t + 1", OF assms(1)]
    by (simp_all add: broadcastTransfer_def confirmedResponse_def Let_def withBroadcast_def withTxURLs_def broadcastBase_def)
qed

lemma sampleNormalized_sel [simp]:
  "nq_RequestID sampleNormalized = ''req-1''" "nq_ToAddress sampleNormalized = ''wolo1abc''" "nq_AmountUWolo sampleNormalized = ''500''"
  "nq_Memo sampleNormalized = []" "nq_SignerRole sampleNormalized = []"
  by (simp_all add: sampleNormalized_def zero_normalizedSettlementRequest_def)

lemma sampleRequest_sel [simp]: "TrimSpace (xq_RequestID sampleRequest) = ''req-1''"
  by (simp add: sampleRequest_def go_eval)

lemma sampleCfg_sel [simp]:
  "cfg_StateDir sampleCfg = []" "cfg_ChainID sampleCfg = ''wolo-testnet''" "cfg_RequestLockTTL sampleCfg = 100"
  "cfg_PayoutKeyName sampleCfg = ''payer''" "cfg_EscrowKeyName sampleCfg = ''vault''" "cfg_EscrowAddress sampleCfg = ''wolo1escrow''"
  "cfg_BaseDenom sampleCfg = ''uwolo''" "cfg_AddressPrefix sampleCfg = ''wolo''" "cfg_PayoutAddress sampleCfg = []"
  "cfg_ConfirmTimeout sampleCfg = 10" "cfg_ConfirmInterval sampleCfg = 1"
  by (simp_all add: sampleCfg_def)

lemma sampleCfg_reserves:
  "cfg_FeeHeadroomUWolo sampleCfg = 500" "cfg_MinPayoutBalanceUWolo sampleCfg = 1000"
  "cfg_EscrowFeeHeadroomUWolo sampleCfg = 0" "cfg_MinEscrowBalanceUWolo sampleCfg = 1000"
  by (simp_all add: sampleCfg_def)

lemma sampleEnv_sel [simp]: "env_ioError (sampleEnv down io) = io" "env_now (sampleEnv down io) = (\<lambda>t. t)"
  by (simp_all add: sampleEnv_def)

lemma emptyWorld_sel [simp]:
  "w_chain (emptyWorld c) = c" "w_files (emptyWorld c) p = None" "w_locks (emptyWorld c) p = None" "w_sends (emptyWorld c) = []"
  by (simp_all add: emptyWorld_def)

lemma sample_id [simp]: "settlementRequestIDPattern ''req-1''"
  using normalizeSettlementRequest_fields(2) [OF sampleRequest_normalizes] by simp

text \<open>What is reported for the two signers while the node answers.\<close>

lemma sample_signerBalance [simp]:
  assumes "\<not> down t"
  shows "run_state (signerBalance (sampleEnv down io) sampleCfg (resolvePayoutAddress (sampleEnv down io) sampleCfg)) t =
      (Some (''wolo1payer'', 1000000), t)"
    "run_state (signerBalance (sampleEnv down io) sampleCfg (resolveEscrowAddress (sampleEnv down io) sampleCfg)) t =
      (Some (''wolo1escrow'', 1000000), t)"
  using assms by (simp_all add: signerBalance_def)

text \<open>
  The sample request on either rail: one command, the response of a confirmed payment, and the
  record written unless \<open>io\<close> says otherwise.
\<close>

lemma sample_settle:
  assumes "run_state (pf (sampleEnv down io) sampleCfg ''500'') t = ((a, None), t)"
    and "\<And>n a. bc (sampleEnv down io) sampleCfg n a = broadcastTransfer (sampleEnv down io) sampleCfg role key what n a"
    and "\<not> down (t + 1)" and "\<And>x. io x (requestLockPath sampleCfg ''req-1'') = None"
    and "w_chain w = t" and "w_locks w (requestLockPath sampleCfg ''req-1'') = None"
    and "w_files w (requestRecordPath sampleCfg ''req-1'') = None"
  shows "w_sends (snd (run_state (settleRequest (sampleEnv down io) sampleCfg role pf bc sampleRequest) w)) =
      w_sends w @ [bankSendArgs sampleCfg key sampleNormalized]"
    and "io (t + 1) (requestRecordPath sampleCfg ''req-1'') = None \<Longrightarrow>
      \<exists>r. fst (run_state (settleRequest (sampleEnv down io) sampleCfg role pf bc sampleRequest) w) = Inr r \<and> xr_OK r \<and> xr_Status r = ''confirmed'' \<and> xr_AmountUWolo r = ''500''"
proof -
  let ?n = "sampleNormalized\<lparr>nq_SignerRole := role\<rparr>"
  let ?w1 = "w\<lparr>w_locks := (w_locks w)(requestLockPath sampleCfg ''req-1'' \<mapsto> t)\<rparr>"
  let ?attempt = "run_state (attemptTransfer (sampleEnv down io) sampleCfg pf bc ?n) ?w1"
  have lock: "run_state (lockAttempt (sampleEnv down io) sampleCfg (requestLockPath sampleCfg ''req-1'')) w = (LockHeld, ?w1)"
    using assms by (subst lockAttempt_free) simp_all
  have pre: "run_state (pf (sampleEnv down io) sampleCfg (nq_AmountUWolo ?n)) (w_chain ?w1) = ((a, None), t)"
    using assms by simp
  have body: "run_state (settleLocked (sampleEnv down io) sampleCfg role pf bc ?n) ?w1 = ?attempt"
    using assms(7) by (simp add: settleLocked_def readSettlementStoredResult_def readStateFile_def)
  have snd_run: "snd (run_state (settleRequest (sampleEnv down io) sampleCfg role pf bc sampleRequest) w) =
      (snd ?attempt)\<lparr>w_locks := (w_locks (snd ?attempt))(requestLockPath sampleCfg ''req-1'' := None)\<rparr>"
    and fst_run: "fst (run_state (settleRequest (sampleEnv down io) sampleCfg role pf bc sampleRequest) w) = fst ?attempt"
    using body by (simp_all add: settleRequest_def withRequestLock_def lock Let_def)
  note b = sample_broadcast [of down t "?w1\<lparr>w_chain := t\<rparr>" io role key what ?n a]
  show "w_sends (snd (run_state (settleRequest (sampleEnv down io) sampleCfg role pf bc sampleRequest) w)) =
      w_sends w @ [bankSendArgs sampleCfg key sampleNormalized]"
    using b assms(2-7) unfolding snd_run by (simp add: attempt_sent [of pf, OF pre])
  show "io (t + 1) (requestRecordPath sampleCfg ''req-1'') = None \<Longrightarrow>
      \<exists>r. fst (run_state (settleRequest (sampleEnv down io) sampleCfg role pf bc sampleRequest) w) = Inr r \<and> xr_OK r \<and> xr_Status r = ''confirmed'' \<and> xr_AmountUWolo r = ''500''"
    using b assms(2-7) unfolding fst_run by (simp add: attempt_sent [of pf, OF pre] recordResult_result)
qed

lemma sample_escrow_preflight:
  assumes "\<not> down t"
  shows "run_state (preflightEscrowTransfer (sampleEnv down io) sampleCfg ''500'') t = ((''wolo1escrow'', None), t)"
proof -
  have "checkEscrowCapacity sampleCfg 1000000 500 = ([], [], False)"
    by (simp add: checkEscrowCapacity_def sampleCfg_def)
  moreover have "ParseUint (TrimSpace ''500'') = Inr 500" by (simp add: go_eval)
  ultimately show ?thesis
    using assms by (simp add: preflightEscrowTransfer_def preflightEscrowSigner_def)
qed

lemma sample_execute:
  assumes "w_locks w (requestLockPath sampleCfg ''req-1'') = None"
    and "w_files w (requestRecordPath sampleCfg ''req-1'') = None"
  shows "w_sends (snd (run_state (executeSettlement (sampleEnv (\<lambda>t. False) (\<lambda>t path. None)) sampleCfg sampleRequest) w)) =
      w_sends w @ [bankSendArgs sampleCfg ''payer'' sampleNormalized]"
    "\<exists>r. fst (run_state (executeSettlement (sampleEnv (\<lambda>t. False) (\<lambda>t path. None)) sampleCfg sampleRequest) w) = Inr r \<and> xr_OK r \<and> xr_Status r = ''confirmed'' \<and> xr_AmountUWolo r = ''500''"
    "w_sends (snd (run_state (executeEscrowTransfer (sampleEnv (\<lambda>t. False) (\<lambda>t path. None)) sampleCfg sampleRequest) w)) =
      w_sends w @ [bankSendArgs sampleCfg ''vault'' sampleNormalized]"
  unfolding executeSettlement_def executeEscrowTransfer_def
  using assms
  by (auto simp: broadcastPayout_def broadcastEscrowTransfer_def sample_escrow_preflight intro!: sample_settle [OF _ _ _ _ refl])

end
