(* ===== verification/Rail_Properties.thy ===== *)
theory Rail_Properties
  imports Sample
begin

text \<open>
  The properties of the single-transfer rail, over the model's own definitions: at-most-once
  payment, idempotent replay, conflict detection, balance evidence, the confirmation loop, and the
  two places where the code does not keep what it intends.
\<close>

lemma sample_diskOK: "diskOK (sampleEnv down (\<lambda>t path. None))"
  by (simp add: diskOK_def sampleEnv_def)

text \<open>
  C1. At most one payment per request id.  Over any sequence of payout and escrow calls, interleaved
  with arbitrary changes of the outside world and started from any state, at most one of the calls
  for a given request id runs a \<open>tx bank send\<close> command and ends otherwise than with a refusal that
  carries no transaction hash and is marked retryable, provided the state directory can be written.
\<close>

theorem at_most_one_payment:
  assumes "diskOK env"
  shows "length (filter (finalSend rid) (serveCalls env cfg calls w)) \<le> 1"
  using assms by (rule serve_at_most_once)

theorem at_most_one_payment_witness:
  "diskOK (sampleEnv (\<lambda>t. False) (\<lambda>t path. None)) \<and>
   length (filter (finalSend ''req-1'') (serveCalls (sampleEnv (\<lambda>t. False) (\<lambda>t path. None)) sampleCfg
     [CallPayout sampleRequest, Outside 7, CallPayout sampleRequest, CallEscrow sampleRequest] (emptyWorld 0))) = 1"
  (is "_ \<and> length (filter ?p (serveCalls ?env _ (?call # ?calls) ?w)) = 1")
proof -
  have "?p (logCall sampleRequest (executeSettlement ?env sampleCfg sampleRequest) ?w)"
    using sample_execute(1,2) [of ?w]
    by (auto simp: finalSend_def logCall_def finalResult_def isSettled_def)
  then have "length (filter ?p (serveCalls ?env sampleCfg (?call # ?calls) ?w)) \<ge> 1" by simp
  moreover have "length (filter ?p (serveCalls ?env sampleCfg (?call # ?calls) ?w)) \<le> 1"
    by (rule at_most_one_payment [OF sample_diskOK])
  ultimately show ?thesis using sample_diskOK by simp
qed

text \<open>
  C2. A settled request is answered from its record.  When the record of the request id holds a
  response that is OK, carries a transaction hash or is not retryable, neither rail sends anything
  or changes that record.  A call that asks for the recorded payload and can take the request's lock is answered
  with the stored response marked as a replay and leaves the whole state as it was; in every case a
  response with a transaction hash is the stored one marked as a replay.
\<close>

theorem settled_request_replayed:
  assumes "settledAt cfg (TrimSpace (xq_RequestID request)) s w"
    and "role = settlementSignerRole \<and> m = executeSettlement env cfg request \<or>
      role = settlementEscrowSignerRole \<and> m = executeEscrowTransfer env cfg request"
  shows "w_sends (snd (run_state m w)) = w_sends w \<and>
    settledAt cfg (TrimSpace (xq_RequestID request)) s (snd (run_state m w)) \<and>
    (\<forall>n. normalizeSettlementRequest request = Inr n \<and> sameSettlementRequest (sr_Request s) (n\<lparr>nq_SignerRole := role\<rparr>) \<and>
       env_ioError env (w_chain w) (requestLockPath cfg (nq_RequestID n)) = None \<and> w_locks w (requestLockPath cfg (nq_RequestID n)) = None \<longrightarrow>
       run_state m w = (Inr ((sr_Response s)\<lparr>xr_IdempotentReplay := True\<rparr>), w)) \<and>
    (\<forall>r. fst (run_state m w) = Inr r \<and> xr_TxHash r \<noteq> [] \<longrightarrow> r = (sr_Response s)\<lparr>xr_IdempotentReplay := True\<rparr>)"
  using assms payout_rail.settle_no_resend [OF assms(1)] escrow_rail.settle_no_resend [OF assms(1)]
    payout_rail.settle_settled [OF assms(1)] escrow_rail.settle_settled [OF assms(1)]
    payout_rail.settle_replay [OF assms(1)] escrow_rail.settle_replay [OF assms(1)]
  by (auto simp: executeSettlement_def executeEscrowTransfer_def)

definition sampleStored :: settlementStoredResult where
  "sampleStored = zero_settlementStoredResult\<lparr>sr_Request := sampleNormalized\<lparr>nq_SignerRole := settlementSignerRole\<rparr>,
     sr_Response := zero_settlementExecuteResponse\<lparr>xr_OK := True, xr_Status := ''confirmed'', xr_TxHash := ''AB12''\<rparr>\<rparr>"

definition settledWorld :: "int world" where
  "settledWorld = (emptyWorld 0)\<lparr>w_files := [requestRecordPath sampleCfg ''req-1'' \<mapsto> RequestFile sampleStored]\<rparr>"

lemma settledWorld_settled: "settledAt sampleCfg (TrimSpace (xq_RequestID sampleRequest)) sampleStored settledWorld"
  by (simp add: settledAt_def settledWorld_def readSettlementStoredResult_def readStateFile_def isSettled_def sampleStored_def)

theorem settled_request_replayed_witness:
  "settledAt sampleCfg (TrimSpace (xq_RequestID sampleRequest)) sampleStored settledWorld \<and>
   run_state (executeSettlement (sampleEnv (\<lambda>t. False) (\<lambda>t path. None)) sampleCfg sampleRequest) settledWorld =
     (Inr ((sr_Response sampleStored)\<lparr>xr_IdempotentReplay := True\<rparr>), settledWorld) \<and>
   w_sends (snd (run_state (executeEscrowTransfer (sampleEnv (\<lambda>t. False) (\<lambda>t path. None)) sampleCfg sampleRequest) settledWorld)) = []"
  (is "_ \<and> run_state (executeSettlement ?env _ _) _ = _ \<and> _")
proof -
  have same: "sameSettlementRequest (sr_Request sampleStored) (sampleNormalized\<lparr>nq_SignerRole := settlementSignerRole\<rparr>)"
    and free: "w_locks settledWorld p = None" "w_sends settledWorld = []" for p
    by (simp_all add: sampleStored_def sameSettlementRequest_def settledWorld_def)
  have "run_state (executeSettlement ?env sampleCfg sampleRequest) settledWorld =
      (Inr ((sr_Response sampleStored)\<lparr>xr_IdempotentReplay := True\<rparr>), settledWorld)"
    by (rule spec [where x = sampleNormalized, THEN mp, OF conjunct1 [OF conjunct2 [OF conjunct2 [OF
          settled_request_replayed [OF settledWorld_settled, of settlementSignerRole _ ?env]]]]])
      (simp_all add: same free)
  moreover have "w_sends (snd (run_state (executeEscrowTransfer ?env sampleCfg sampleRequest) settledWorld)) = []"
    using settled_request_replayed [OF settledWorld_settled, of settlementEscrowSignerRole _ ?env, THEN conjunct1] free by simp
  ultimately show ?thesis using settledWorld_settled by simp
qed

text \<open>
  C4. Every payout is backed by a balance.  When \<open>executeSettlement\<close> runs a command, it is exactly
  one \<open>tx bank send\<close> from the payout key to the address and amount of the normalised request, and
  in the state of the outside in which the call began the node had the configured chain id, the REST endpoint agreed with
  the configuration, the payout key resolved to an address, and the balance reported for that address covers
  the amount together with the larger of the fee headroom and the reserve floor, without any wrap-around.
\<close>

theorem payout_backed_by_balance:
  assumes "w_sends (snd (run_state (executeSettlement env cfg request) w)) \<noteq> w_sends w"
  shows "\<exists>n signer balance amount. normalizeSettlementRequest request = Inr n \<and>
    w_sends (snd (run_state (executeSettlement env cfg request) w)) = w_sends w @ [bankSendArgs cfg (cfg_PayoutKeyName cfg) n] \<and>
    signer \<noteq> [] \<and>
    fst (run_state (signerBalance env cfg (resolvePayoutAddress env cfg)) (w_chain w)) = Some (signer, balance) \<and>
    ParseUint (TrimSpace (nq_AmountUWolo n)) = Inr amount \<and>
    unat amount + max (unat (cfg_FeeHeadroomUWolo cfg)) (unat (cfg_MinPayoutBalanceUWolo cfg)) \<le> unat balance"
proof -
  obtain n where n: "normalizeSettlementRequest request = Inr n"
      "w_sends (snd (run_state (executeSettlement env cfg request) w)) = w_sends w @ [bankSendArgs cfg (cfg_PayoutKeyName cfg) n]"
      "snd (fst (run_state (preflightExecution env cfg (nq_AmountUWolo n)) (w_chain w))) = None"
    using payout_rail.settle_sends [OF assms [unfolded executeSettlement_def]] by (auto simp: executeSettlement_def)
  from n(3) obtain a where "fst (run_state (preflightExecution env cfg (nq_AmountUWolo n)) (w_chain w)) = (a, None)"
    by (metis prod.collapse)
  with n(1,2) show ?thesis
    unfolding preflightExecution_passes by (fastforce simp: coversAmount_def split: sum.splits)
qed

theorem payout_backed_by_balance_witness:
  "\<exists>n amount. normalizeSettlementRequest sampleRequest = Inr n \<and> ParseUint (TrimSpace (nq_AmountUWolo n)) = Inr amount \<and>
    unat amount + 1000 \<le> 1000000"
  using payout_backed_by_balance [of "sampleEnv (\<lambda>t. False) (\<lambda>t path. None)" sampleCfg sampleRequest "emptyWorld 0"]
    sample_execute(1) [of "emptyWorld 0"]
  by (auto simp: sampleCfg_reserves)

text \<open>
  C16. Every escrow transfer is backed by a balance: the same for \<open>executeEscrowTransfer\<close>, the escrow
  key and the address it resolves to, and the escrow fee headroom and reserve floor.
\<close>

theorem escrow_backed_by_balance:
  assumes "w_sends (snd (run_state (executeEscrowTransfer env cfg request) w)) \<noteq> w_sends w"
  shows "\<exists>n signer balance amount. normalizeSettlementRequest request = Inr n \<and>
    w_sends (snd (run_state (executeEscrowTransfer env cfg request) w)) = w_sends w @ [bankSendArgs cfg (cfg_EscrowKeyName cfg) n] \<and>
    fst (run_state (signerBalance env cfg (resolveEscrowAddress env cfg)) (w_chain w)) = Some (signer, balance) \<and>
    ParseUint (TrimSpace (nq_AmountUWolo n)) = Inr amount \<and>
    unat amount + max (unat (cfg_EscrowFeeHeadroomUWolo cfg)) (unat (cfg_MinEscrowBalanceUWolo cfg)) \<le> unat balance"
proof -
  obtain n where n: "normalizeSettlementRequest request = Inr n"
      "w_sends (snd (run_state (executeEscrowTransfer env cfg request) w)) = w_sends w @ [bankSendArgs cfg (cfg_EscrowKeyName cfg) n]"
      "snd (fst (run_state (preflightEscrowTransfer env cfg (nq_AmountUWolo n)) (w_chain w))) = None"
    using escrow_rail.settle_sends [OF assms [unfolded executeEscrowTransfer_def]] by (auto simp: executeEscrowTransfer_def)
  from n(3) obtain a where "fst (run_state (preflightEscrowTransfer env cfg (nq_AmountUWolo n)) (w_chain w)) = (a, None)"
    by (metis prod.collapse)
  with n(1,2) show ?thesis
    unfolding preflightEscrowTransfer_passes by (fastforce simp: coversAmount_def split: sum.splits)
qed

theorem escrow_backed_by_balance_witness:
  "\<exists>n amount. normalizeSettlementRequest sampleRequest = Inr n \<and> ParseUint (TrimSpace (nq_AmountUWolo n)) = Inr amount \<and>
    unat amount + 1000 \<le> 1000000"
  using escrow_backed_by_balance [of "sampleEnv (\<lambda>t. False) (\<lambda>t path. None)" sampleCfg sampleRequest "emptyWorld 0"]
    sample_execute(3) [of "emptyWorld 0"]
  by (auto simp: sampleCfg_reserves)

text \<open>
  C17. A reused request id is refused.  When the record of the id holds another payload (address,
  amount, memo, or the other rail's signer role), the call answers \<open>IDEMPOTENCY_CONFLICT\<close>, runs no
  command and changes no record.
\<close>

theorem conflicting_request_refused:
  assumes "normalizeSettlementRequest request = Inr n"
    and "readSettlementStoredResult (requestRecordPath cfg (nq_RequestID n)) w = ReadOK s"
    and "\<not> sameSettlementRequest (sr_Request s) (n\<lparr>nq_SignerRole := settlementSignerRole\<rparr>)"
    and "env_ioError env (w_chain w) (requestLockPath cfg (nq_RequestID n)) = None" and "w_locks w (requestLockPath cfg (nq_RequestID n)) = None"
  shows "\<exists>r. run_state (executeSettlement env cfg request) w = (Inr r, w) \<and> \<not> xr_OK r \<and>
    xr_FailureCode r = ''IDEMPOTENCY_CONFLICT'' \<and> \<not> xr_Retryable r"
proof -
  have same: "(w_locks w)(requestLockPath cfg (nq_RequestID n) := None) = w_locks w"
    using assms(5) by auto
  show ?thesis
    using assms(1-3)
    by (simp add: executeSettlement_def settleRequest_def withRequestLock_def lockAttempt_free [OF assms(4,5)] settleLocked_def
        readSettlementStoredResult_def conflictResponse_def requestFields_def same Let_def)
qed

definition escrowStored :: settlementStoredResult where
  "escrowStored = sampleStored\<lparr>sr_Request := sampleNormalized\<lparr>nq_SignerRole := settlementEscrowSignerRole\<rparr>\<rparr>"

theorem conflicting_request_refused_witness:
  "\<exists>r. run_state (executeSettlement (sampleEnv (\<lambda>t. False) (\<lambda>t path. None)) sampleCfg sampleRequest)
      ((emptyWorld 0)\<lparr>w_files := [requestRecordPath sampleCfg ''req-1'' \<mapsto> RequestFile escrowStored]\<rparr>) =
    (Inr r, (emptyWorld 0)\<lparr>w_files := [requestRecordPath sampleCfg ''req-1'' \<mapsto> RequestFile escrowStored]\<rparr>) \<and>
    \<not> xr_OK r \<and> xr_FailureCode r = ''IDEMPOTENCY_CONFLICT'' \<and> \<not> xr_Retryable r"
  by (rule conflicting_request_refused [OF sampleRequest_normalizes, where s = escrowStored])
    (simp_all add: readSettlementStoredResult_def readStateFile_def escrowStored_def sameSettlementRequest_def
      normalizeStoredSettlementSignerRole_def settlementEscrowSignerRole_def settlementSignerRole_def go_eval Let_def)

lemma recordResult_failed:
  "env_ioError env (w_chain w) (requestRecordPath cfg (nq_RequestID n)) = Some e \<Longrightarrow> run_state (recordResult env cfg n a r) w = (Inl e, w)"
  by (simp add: recordResult_def writeSettlementRecord_def writeSettlementStoredResult_def)

lemma attempt_unrecorded:
  assumes "\<And>c. env_ioError env c (requestRecordPath cfg (nq_RequestID n)) = Some e"
    and "\<And>c. snd (fst (run_state (preflightExecution env cfg (nq_AmountUWolo n)) c)) = None"
  shows "fst (run_state (attemptTransfer env cfg preflightExecution broadcastPayout n) w) = Inl e"
    "w_files (snd (run_state (attemptTransfer env cfg preflightExecution broadcastPayout n) w)) = w_files w"
    "w_locks (snd (run_state (attemptTransfer env cfg preflightExecution broadcastPayout n) w)) = w_locks w"
    "w_sends (snd (run_state (attemptTransfer env cfg preflightExecution broadcastPayout n) w)) =
       w_sends w @ [bankSendArgs cfg (cfg_PayoutKeyName cfg) n]"
  using assms(2) [of "w_chain w"]
  by (cases rule: attempt_cases [of preflightExecution env cfg n w];
      simp add: attempt_sent recordResult_failed assms(1) payout_rail.broadcast_sends payout_rail.broadcast_files)+

text \<open>
  C27. A record that cannot be written makes the payment repeatable.  When the record file cannot be
  written, a call whose preflight passes sends the payment and returns the write error; nothing
  about it is remembered, so the same request, if its preflight passes again, is sent a second time.
\<close>

theorem failed_write_pays_twice:
  assumes "normalizeSettlementRequest request = Inr n"
    and "w_files w (requestRecordPath cfg (nq_RequestID n)) = None" and "w_locks w (requestLockPath cfg (nq_RequestID n)) = None"
    and "\<And>c. env_ioError env c (requestLockPath cfg (nq_RequestID n)) = None"
    and "\<And>c. env_ioError env c (requestRecordPath cfg (nq_RequestID n)) = Some e"
    and "\<And>c. snd (fst (run_state (preflightExecution env cfg (nq_AmountUWolo n)) c)) = None"
  shows "fst (run_state (executeSettlement env cfg request) w) = Inl e \<and>
    w_sends (snd (run_state (do { executeSettlement env cfg request; executeSettlement env cfg request }) w)) =
      w_sends w @ [bankSendArgs cfg (cfg_PayoutKeyName cfg) n, bankSendArgs cfg (cfg_PayoutKeyName cfg) n]"
proof -
  let ?n = "n\<lparr>nq_SignerRole := settlementSignerRole\<rparr>" and ?lock = "requestLockPath cfg (nq_RequestID n)"
  have call: "fst (run_state (executeSettlement env cfg request) v) = Inl e \<and>
      w_files (snd (run_state (executeSettlement env cfg request) v)) = w_files v \<and>
      w_locks (snd (run_state (executeSettlement env cfg request) v)) = w_locks v \<and>
      w_sends (snd (run_state (executeSettlement env cfg request) v)) = w_sends v @ [bankSendArgs cfg (cfg_PayoutKeyName cfg) n]"
    if "w_files v (requestRecordPath cfg (nq_RequestID n)) = None" "w_locks v ?lock = None" for v
    using that assms(1) attempt_unrecorded [of env cfg ?n e "v\<lparr>w_locks := (w_locks v)(?lock \<mapsto> env_now env (w_chain v))\<rparr>"]
    by (simp add: executeSettlement_def settleRequest_def withRequestLock_def lockAttempt_free assms(4-6) settleLocked_def
        readSettlementStoredResult_def readStateFile_def Let_def fun_upd_idem)
  show ?thesis using assms(2,3) call [of w] call [of "snd (run_state (executeSettlement env cfg request) w)"] by simp
qed

theorem failed_write_pays_twice_witness:
  "w_sends (snd (run_state
     (do { executeSettlement (sampleEnv (\<lambda>t. False) (\<lambda>t path. if path = requestRecordPath sampleCfg ''req-1'' then Some ''disk full'' else None))
             sampleCfg sampleRequest;
           executeSettlement (sampleEnv (\<lambda>t. False) (\<lambda>t path. if path = requestRecordPath sampleCfg ''req-1'' then Some ''disk full'' else None))
             sampleCfg sampleRequest }) (emptyWorld 0))) =
   [bankSendArgs sampleCfg ''payer'' sampleNormalized, bankSendArgs sampleCfg ''payer'' sampleNormalized]"
proof -
  have "requestLockPath sampleCfg ''req-1'' \<noteq> requestRecordPath sampleCfg ''req-1''"
    by simp
  then show ?thesis
    using failed_write_pays_twice [OF sampleRequest_normalizes, of "emptyWorld 0" sampleCfg
      "sampleEnv (\<lambda>t. False) (\<lambda>t path. if path = requestRecordPath sampleCfg ''req-1'' then Some ''disk full'' else None)" "''disk full''"]
    by simp
qed

text \<open>
  C28. An outage during confirmation is reported as a rejected payment.  When the chain accepted the
  broadcast (a transaction hash, code 0) and the RPC endpoint is unreachable at the first
  confirmation look-up, the payout is reported failed with \<open>TX_REJECTED\<close>, code 0 and no retry, and
  this final answer is what every later attempt replays.
\<close>

theorem outage_reported_as_rejection:
  assumes "run_state (env_txBankSend env (bankSendArgs cfg (cfg_PayoutKeyName cfg) n)) (w_chain w) = ((output, err), c)"
    and "extractJSONPayload output \<noteq> []" and "env_decodeBroadcast env (extractJSONPayload output) = Some b"
    and "bb_Code b = 0" and "isHexHash (normalizeTxHash (bb_TxHash b))" and "bb_TxHash b \<noteq> []"
    and "fst (run_state (fetchRuntimeChainID env cfg) c) = Inl msg" and "0 < cfg_ConfirmTimeout cfg"
  shows "let r = fst (run_state (broadcastPayout env cfg n signer) w) in
    \<not> xr_OK r \<and> xr_Status r = ''failed'' \<and> xr_FailureCode r = ''TX_REJECTED'' \<and> xr_TxHash r = bb_TxHash b \<and>
    xr_Code r = 0 \<and> xr_Detail r = ''tx failed with code 0'' \<and> \<not> xr_Retryable r \<and> isSettled r"
proof -
  let ?l = "lookupFailure ''RPC_UNREACHABLE'' msg"
  have "fst (run_state (waitForTxConfirmation env cfg (bb_TxHash b)) c) = Inr (Some ?l)"
    using waitForTx_lookup_failed [OF surjective_pairing, of env cfg "bb_TxHash b" c] lookup_unreachable [OF assms(7,5)] assms(8)
    by (simp add: lookupFailure_def)
  moreover have "classifyRejectedTx [] 0 = ''TX_REJECTED''" by (simp add: classifyRejectedTx_def)
  moreover have "Itoa 0 = ''0''" by (simp add: go_eval)
  ultimately show ?thesis
    using assms(1-4,6)
    by (simp add: broadcastPayout_def broadcastTransfer_def confirmedResponse_def lookupFailure_def withBroadcast_def withTxURLs_def
        broadcastBase_def isSettled_def Let_def)
qed

theorem outage_reported_as_rejection_witness:
  "xr_FailureCode (fst (run_state (broadcastPayout (sampleEnv (\<lambda>t. t \<ge> 1) (\<lambda>t path. None)) sampleCfg sampleNormalized ''wolo1payer'')
     (emptyWorld 0))) = ''TX_REJECTED''"
proof -
  have "isHexHash (normalizeTxHash ''AB12'')" "extractJSONPayload ''{}'' = ''{}''"
    by (simp_all add: isHexHash_def normalizeTxHash_def extractJSONPayload_def go_eval)
  then show ?thesis
    using outage_reported_as_rejection [of "sampleEnv (\<lambda>t. t \<ge> 1) (\<lambda>t path. None)" sampleCfg sampleNormalized "emptyWorld 0"
        "''{}''" None 1 "zero_bankSendBroadcastResponse\<lparr>bb_TxHash := ''AB12''\<rparr>" "''connection refused''" "''wolo1payer''"]
      sample_chainID(2) [of "\<lambda>t. t \<ge> 1" 1]
    by (simp add: Let_def) (simp add: sampleEnv_def)
qed

text \<open>
  C22. The confirmation loop ends within the rounds the model allows.  For a clock that each sleep
  advances by at least the interval and that no look-up turns back, any larger number of rounds
  gives the same result and the same state as \<open>waitForTxConfirmation\<close>.
\<close>

theorem confirmation_rounds_enough:
  assumes "clockAdvances env cfg txHash" and "0 < cfg_ConfirmInterval cfg"
  shows "run_state (waitLoop (confirmRounds cfg + k) env cfg txHash (env_now env c + cfg_ConfirmTimeout cfg)) c =
    run_state (waitForTxConfirmation env cfg txHash) c"
  using assms by (rule waitLoop_enough)

theorem confirmation_rounds_enough_witness:
  "run_state (waitLoop 1000 (sampleEnv (\<lambda>t. False) (\<lambda>t path. None)) sampleCfg ''AB12'' 10) 0 =
   run_state (waitForTxConfirmation (sampleEnv (\<lambda>t. False) (\<lambda>t path. None)) sampleCfg ''AB12'') 0"
proof -
  have "env_sleep (sampleEnv (\<lambda>t. False) (\<lambda>t path. None)) d = do { t \<leftarrow> State_Monad.get; State_Monad.set (t + d); State_Monad.return None }" for d
    by (simp add: sampleEnv_def)
  then have "clockAdvances (sampleEnv (\<lambda>t. False) (\<lambda>t path. None)) sampleCfg ''AB12''"
    using sample_lookup(1) [of "\<lambda>t. False"] by (simp add: clockAdvances_def)
  from confirmation_rounds_enough [OF this, of 989 0] show ?thesis
    by (simp add: confirmRounds_def)
qed

end
