(* ===== verification/Runs.thy ===== *)
theory Runs
  imports Idempotency
begin

text \<open>
  Grouped settlement runs (settlement.go, lines 1906--2486 and 3581--3988): preparation of the line
  items, the plan of a run on the payout or the escrow signer, execution of the lines one by one over
  the idempotent single-transfer rail, the counters and totals of the response, and the record of
  the run.  Logging is left out.

  The loop over the requested lines keeps its variables in the record \<open>runScan\<close>.  The source collects
  duplicate lines in a Go map and walks it in an unspecified order; the model walks it in the order
  of insertion, which only fixes the order of the run's duplicate warnings.
\<close>

section \<open>Line results and the response's counters\<close>

definition settlementRunPayoutResultFromExecuteResponse :: "normalizedSettlementPayout \<Rightarrow> settlementExecuteResponse \<Rightarrow> settlementRunPayoutResult" where
  "settlementRunPayoutResultFromExecuteResponse payout response = zero_settlementRunPayoutResult\<lparr>
     pr_Index := np_Index payout, pr_RequestID := xr_RequestID response, pr_Attempted := True, pr_OK := xr_OK response,
     pr_Status := xr_Status response, pr_Outcome := deriveSettlementOutcome response, pr_FailureCode := xr_FailureCode response,
     pr_Retryable := xr_Retryable response, pr_IdempotentReplay := xr_IdempotentReplay response,
     pr_SignerRole := xr_SignerRole response, pr_SignerAddress := xr_SignerAddress response, pr_ToAddress := xr_ToAddress response,
     pr_AmountUWolo := xr_AmountUWolo response, pr_AmountWolo := xr_AmountWolo response, pr_Memo := np_Memo payout,
     pr_TxHash := xr_TxHash response, pr_Detail := xr_Detail response,
     pr_CanonicalTxLookup := xr_CanonicalTxLookup response, pr_CanonicalTxLookupPreferred := xr_CanonicalTxLookupPreferred response,
     pr_CanonicalTxLookupInternal := xr_CanonicalTxLookupInternal response, pr_CanonicalTxLookupPublic := xr_CanonicalTxLookupPublic response\<rparr>"

fun firstSettlementRunFailureCode :: "settlementRunPayoutResult list \<Rightarrow> string" where
  "firstSettlementRunFailureCode [] = []"
| "firstSettlementRunFailureCode (payout # payouts) =
     (if TrimSpace (pr_FailureCode payout) \<noteq> [] then pr_FailureCode payout else firstSettlementRunFailureCode payouts)"

fun firstSettlementRunFailureDetail :: "settlementRunPayoutResult list \<Rightarrow> string" where
  "firstSettlementRunFailureDetail [] = []"
| "firstSettlementRunFailureDetail (payout # payouts) =
     (if TrimSpace (pr_Detail payout) \<noteq> [] \<and> TrimSpace (pr_FailureCode payout) \<noteq> [] then pr_Detail payout
      else firstSettlementRunFailureDetail payouts)"

definition deriveSettlementRunStatus :: "settlementRunResponse \<Rightarrow> string \<times> bool \<times> string" where
  "deriveSettlementRunStatus response =
     (if rr_FailureCode response = ''INVALID_RUN'' then (''failed'', False, rr_FailureCode response)
      else if rr_ConfirmedPayoutCount response = rr_RequestedPayoutCount response \<and> rr_RequestedPayoutCount response > 0
      then (''confirmed'', True, [])
      else if rr_ExecutedPayoutCount response = rr_RequestedPayoutCount response \<and> rr_RequestedPayoutCount response > 0
      then (''accepted'', True, [])
      else if rr_ExecutedPayoutCount response > 0 \<and> (rr_RefusedPayoutCount response > 0 \<or> rr_RejectedPayoutCount response > 0)
      then (''partial'', False, firstNonEmpty [rr_FailureCode response, firstSettlementRunFailureCode (rr_Payouts response), ''RUN_PARTIAL_FAILURE''])
      else if rr_ExecutedPayoutCount response = 0 \<and> (rr_RefusedPayoutCount response > 0 \<or> rr_RejectedPayoutCount response > 0)
      then (''failed'', False, firstNonEmpty [rr_FailureCode response, firstSettlementRunFailureCode (rr_Payouts response), ''RUN_FAILED''])
      else (TrimSpace (rr_Status response), rr_OK response, rr_FailureCode response))"

definition settlementRunExecutionDetail :: "settlementRunResponse \<Rightarrow> string" where
  "settlementRunExecutionDetail response =
     (let status = TrimSpace (rr_Status response) in
      if status = ''confirmed'' then ''all '' @ Itoa (rr_ConfirmedPayoutCount response) @ '' payouts confirmed on WoloChain''
      else if status = ''accepted''
      then ''all '' @ Itoa (rr_ExecutedPayoutCount response) @ '' payouts broadcast accepted; final confirmation is still pending for at least one payout''
      else if status = ''partial''
      then Itoa (rr_ExecutedPayoutCount response) @ '' of '' @ Itoa (rr_RequestedPayoutCount response) @
        '' payouts executed; inspect per-recipient results for the remaining failures''
      else if status = ''failed''
      then (let detail = firstSettlementRunFailureDetail (rr_Payouts response) in
            if detail \<noteq> [] then detail else ''no payouts executed successfully'')
      else TrimSpace (rr_Detail response))"

definition runResponseHasReadyPayouts :: "settlementRunResponse \<Rightarrow> bool" where
  "runResponseHasReadyPayouts response = list_ex (\<lambda>payout. pr_Outcome payout = ''ready'') (rr_Payouts response)"

definition runResponseHasRetryablePayouts :: "settlementRunResponse \<Rightarrow> bool" where
  "runResponseHasRetryablePayouts response = list_ex pr_Retryable (rr_Payouts response)"

definition settlementRunResponseIsFinal :: "settlementRunResponse \<Rightarrow> bool" where
  "settlementRunResponseIsFinal response =
     (if runResponseHasRetryablePayouts response then False
      else rr_OK response \<or> EqualFold (TrimSpace (rr_Status response)) ''failed'' \<or> EqualFold (TrimSpace (rr_Status response)) ''partial'')"

definition markRunReadyPayoutsRefused :: "settlementRunPayoutResult list \<Rightarrow> string \<Rightarrow> string \<Rightarrow> bool \<Rightarrow> settlementRunPayoutResult list" where
  "markRunReadyPayoutsRefused payouts failureCode detail retryable =
     map (\<lambda>payout. if pr_Outcome payout \<noteq> ''ready'' then payout
       else payout\<lparr>pr_OK := False, pr_Status := ''failed'', pr_Outcome := ''refused'', pr_FailureCode := failureCode,
              pr_Retryable := retryable, pr_Detail := detail\<rparr>) payouts"

definition markRunReadyPayoutsSigner :: "settlementRunPayoutResult list \<Rightarrow> string \<Rightarrow> string \<Rightarrow> settlementRunPayoutResult list" where
  "markRunReadyPayoutsSigner payouts signerRole signerAddress =
     map (\<lambda>payout. if pr_Outcome payout \<noteq> ''ready'' then payout
       else payout\<lparr>pr_SignerRole := signerRole, pr_SignerAddress := signerAddress\<rparr>) payouts"

text \<open>The five totals of \<open>finalizeSettlementRunResponse\<close>; the counters are fields of the response.\<close>

record runTotals =
  rt_executed :: u64
  rt_confirmed :: u64
  rt_accepted :: u64
  rt_refused :: u64
  rt_rejected :: u64

definition zero_runTotals :: runTotals where
  "zero_runTotals = \<lparr>rt_executed = 0, rt_confirmed = 0, rt_accepted = 0, rt_refused = 0, rt_rejected = 0\<rparr>"

definition countStatus :: "u64 \<Rightarrow> settlementRunPayoutResult \<Rightarrow> settlementRunResponse \<times> runTotals \<Rightarrow> settlementRunResponse \<times> runTotals" where
  "countStatus amount payout acc = (case acc of (response, t) \<Rightarrow>
     if pr_Status payout = ''confirmed''
     then (response\<lparr>rr_ConfirmedPayoutCount := rr_ConfirmedPayoutCount response + 1, rr_ExecutedPayoutCount := rr_ExecutedPayoutCount response + 1\<rparr>,
           t\<lparr>rt_executed := rt_executed t + amount, rt_confirmed := rt_confirmed t + amount\<rparr>)
     else if pr_Status payout = ''accepted''
     then (response\<lparr>rr_AcceptedPayoutCount := rr_AcceptedPayoutCount response + 1, rr_ExecutedPayoutCount := rr_ExecutedPayoutCount response + 1\<rparr>,
           t\<lparr>rt_executed := rt_executed t + amount, rt_accepted := rt_accepted t + amount\<rparr>)
     else (response, t))"

definition countOutcome :: "u64 \<Rightarrow> settlementRunPayoutResult \<Rightarrow> settlementRunResponse \<times> runTotals \<Rightarrow> settlementRunResponse \<times> runTotals" where
  "countOutcome amount payout acc = (case acc of (response, t) \<Rightarrow>
     if pr_Outcome payout = ''refused'' \<or> pr_Outcome payout = ''invalid''
     then (response\<lparr>rr_RefusedPayoutCount := rr_RefusedPayoutCount response + 1\<rparr>, t\<lparr>rt_refused := rt_refused t + amount\<rparr>)
     else if pr_Outcome payout = ''rejected''
     then (response\<lparr>rr_RejectedPayoutCount := rr_RejectedPayoutCount response + 1\<rparr>, t\<lparr>rt_rejected := rt_rejected t + amount\<rparr>)
     else (response, t))"

definition countFlags :: "settlementRunPayoutResult \<Rightarrow> settlementRunResponse \<times> runTotals \<Rightarrow> settlementRunResponse \<times> runTotals" where
  "countFlags payout acc = (case acc of (response, t) \<Rightarrow>
     (response\<lparr>rr_ReplayPayoutCount := rr_ReplayPayoutCount response + (if pr_IdempotentReplay payout then 1 else 0),
        rr_Retryable := (rr_Retryable response \<or> pr_Retryable payout)\<rparr>, t))"

fun countPayouts :: "settlementRunPayoutResult list \<Rightarrow> settlementRunResponse \<times> runTotals \<Rightarrow> settlementRunResponse \<times> runTotals" where
  "countPayouts [] acc = acc"
| "countPayouts (payout # payouts) acc =
     (case parseOptionalUWoloString (pr_AmountUWolo payout) of
        Inl _ \<Rightarrow> countPayouts payouts acc
      | Inr amount \<Rightarrow> countPayouts payouts (countFlags payout (countOutcome amount payout (countStatus amount payout acc))))"

fun sumPayouts :: "settlementRunPayoutResult list \<Rightarrow> u64 \<Rightarrow> u64" where
  "sumPayouts [] acc = acc"
| "sumPayouts (payout # payouts) acc =
     (case parseOptionalUWoloString (pr_AmountUWolo payout) of
        Inl _ \<Rightarrow> sumPayouts payouts acc
      | Inr amount \<Rightarrow> sumPayouts payouts (acc + amount))"

definition withRunTotals :: "runTotals \<Rightarrow> settlementRunResponse \<Rightarrow> settlementRunResponse" where
  "withRunTotals t response = response\<lparr>
     rr_ExecutedTotalUWolo := formatOptionalRunAmount (rt_executed t), rr_ExecutedTotalWolo := formatOptionalRunDisplayAmount (rt_executed t),
     rr_ConfirmedTotalUWolo := formatOptionalRunAmount (rt_confirmed t), rr_ConfirmedTotalWolo := formatOptionalRunDisplayAmount (rt_confirmed t),
     rr_AcceptedTotalUWolo := formatOptionalRunAmount (rt_accepted t), rr_AcceptedTotalWolo := formatOptionalRunDisplayAmount (rt_accepted t),
     rr_RefusedTotalUWolo := formatOptionalRunAmount (rt_refused t), rr_RefusedTotalWolo := formatOptionalRunDisplayAmount (rt_refused t),
     rr_RejectedTotalUWolo := formatOptionalRunAmount (rt_rejected t), rr_RejectedTotalWolo := formatOptionalRunDisplayAmount (rt_rejected t)\<rparr>"

definition withRequested :: "settlementRunResponse \<Rightarrow> settlementRunResponse" where
  "withRequested response0 =
     (let response1 = (if rr_RequestedPayoutCount response0 = 0
            then response0\<lparr>rr_RequestedPayoutCount := length (rr_Payouts response0)\<rparr> else response0);
          requestedTotal = FormatUint (sumPayouts (rr_Payouts response1) 0)
      in if rr_RequestedTotalUWolo response1 = []
         then response1\<lparr>rr_RequestedTotalUWolo := requestedTotal, rr_RequestedTotalWolo := formatDisplayAmount requestedTotal\<rparr>
         else response1)"

definition finalizeSettlementRunResponse :: "settlementRunResponse \<Rightarrow> settlementRunResponse" where
  "finalizeSettlementRunResponse response0 =
     (let response2 = withRequested response0 in
      case countPayouts (rr_Payouts response2) (response2, zero_runTotals) of
        (response3, t) \<Rightarrow>
          let response4 = withRunTotals t response3 in
          if rr_Status response4 = []
          then (case deriveSettlementRunStatus response4 of
                  (status, ok, failureCode) \<Rightarrow> response4\<lparr>rr_Status := status, rr_OK := ok, rr_FailureCode := failureCode\<rparr>)
          else response4)"

section \<open>Preparing the lines\<close>

record runScan =
  sc_seenRequestIDs :: "string set"
  sc_seenPayoutKeys :: "(string \<times> nat list) list"
  sc_payouts :: "normalizedSettlementPayout list"
  sc_results :: "settlementRunPayoutResult list"
  sc_invalid :: bool
  sc_totalRequested :: u64

definition zero_runScan :: runScan where
  "zero_runScan = \<lparr>sc_seenRequestIDs = {}, sc_seenPayoutKeys = [], sc_payouts = [], sc_results = [], sc_invalid = False, sc_totalRequested = 0\<rparr>"

fun appendKey :: "string \<Rightarrow> nat \<Rightarrow> (string \<times> nat list) list \<Rightarrow> (string \<times> nat list) list" where
  "appendKey key index [] = [(key, [index])]"
| "appendKey key index ((k, is) # keys) = (if k = key then (k, is @ [index]) # keys else (k, is) # appendKey key index keys)"

definition payoutKey :: "normalizedSettlementRequest \<Rightarrow> string" where
  "payoutKey n = nq_ToAddress n @ ''|'' @ nq_AmountUWolo n @ ''|'' @ nq_Memo n"

text \<open>One turn of the loop over \<open>request.Payouts\<close>; \<open>memo\<close> is the run's memo.\<close>

definition scanPayout :: "string \<Rightarrow> string \<Rightarrow> string \<Rightarrow> nat \<Rightarrow> settlementRunPayoutInput \<Rightarrow> runScan \<Rightarrow> runScan" where
  "scanPayout runID memo signerRole index payout sc =
     (let requestID = (if TrimSpace (pi_RequestID payout) = [] then deriveSettlementRunRequestID runID index else TrimSpace (pi_RequestID payout));
          itemMemo = (if TrimSpace (pi_Memo payout) = [] then memo else TrimSpace (pi_Memo payout));
          itemResult = zero_settlementRunPayoutResult\<lparr>pr_Index := index, pr_RequestID := requestID, pr_Attempted := False,
            pr_Status := ''failed'', pr_Outcome := ''invalid'', pr_SignerRole := signerRole, pr_Memo := itemMemo\<rparr>
      in case normalizeSettlementRequest (zero_settlementExecuteRequest\<lparr>xq_RequestID := requestID, xq_ToAddress := pi_ToAddress payout,
             xq_AmountUWolo := pi_AmountUWolo payout, xq_AmountWolo := pi_AmountWolo payout, xq_Memo := itemMemo\<rparr>) of
           Inl err \<Rightarrow> sc\<lparr>sc_results := sc_results sc @ [itemResult\<lparr>pr_FailureCode := ''INVALID_PAYOUT'', pr_Detail := err\<rparr>], sc_invalid := True\<rparr>
         | Inr n \<Rightarrow>
           if nq_RequestID n \<in> sc_seenRequestIDs sc
           then sc\<lparr>sc_results := sc_results sc @ [itemResult\<lparr>pr_ToAddress := nq_ToAddress n, pr_AmountUWolo := nq_AmountUWolo n,
                    pr_AmountWolo := formatDisplayAmount (nq_AmountUWolo n), pr_FailureCode := ''DUPLICATE_REQUEST_ID'',
                    pr_Detail := ''request_id '' @ Quote (nq_RequestID n) @ '' appears more than once in this settlement run''\<rparr>],
                  sc_invalid := True\<rparr>
           else sc\<lparr>
             sc_seenRequestIDs := insert (nq_RequestID n) (sc_seenRequestIDs sc),
             sc_payouts := sc_payouts sc @ [\<lparr>np_Index = index, np_RequestID = nq_RequestID n, np_ToAddress = nq_ToAddress n,
               np_AmountUWolo = nq_AmountUWolo n, np_Memo = nq_Memo n\<rparr>],
             sc_totalRequested := (case parseOptionalUWoloString (nq_AmountUWolo n) of
               Inl _ \<Rightarrow> sc_totalRequested sc | Inr amountUWolo \<Rightarrow> sc_totalRequested sc + amountUWolo),
             sc_results := sc_results sc @ [itemResult\<lparr>pr_OK := True, pr_Status := ''validated'', pr_Outcome := ''ready'',
               pr_ToAddress := nq_ToAddress n, pr_AmountUWolo := nq_AmountUWolo n, pr_AmountWolo := formatDisplayAmount (nq_AmountUWolo n),
               pr_Memo := nq_Memo n\<rparr>],
             sc_seenPayoutKeys := appendKey (payoutKey n) index (sc_seenPayoutKeys sc)\<rparr>)"

fun scanPayouts :: "string \<Rightarrow> string \<Rightarrow> string \<Rightarrow> nat \<Rightarrow> settlementRunPayoutInput list \<Rightarrow> runScan \<Rightarrow> runScan" where
  "scanPayouts runID memo signerRole index [] sc = sc"
| "scanPayouts runID memo signerRole index (payout # payouts) sc =
     scanPayouts runID memo signerRole (index + 1) payouts (scanPayout runID memo signerRole index payout sc)"

text \<open>The part before the first bar and the part between the first and the second of a payout key.\<close>

definition keyParts :: "string \<Rightarrow> string \<times> string" where
  "keyParts key =
     (let rest = drop 1 (dropWhile (\<lambda>c. c \<noteq> CHR ''|'') key) in
      (takeWhile (\<lambda>c. c \<noteq> CHR ''|'') key, takeWhile (\<lambda>c. c \<noteq> CHR ''|'') rest))"

fun duplicateWarnings :: "(string \<times> nat list) list \<Rightarrow> settlementRunResponse \<Rightarrow> settlementRunResponse" where
  "duplicateWarnings [] response = response"
| "duplicateWarnings ((key, indexes) # keys) response =
     (if length indexes < 2 then duplicateWarnings keys response
      else case keyParts key of (address, amount) \<Rightarrow>
        let warning = ''duplicate payout line items detected for '' @ address @ '' '' @ amount @ '' uwolo ('' @ Itoa (length indexes) @ '' entries)''
        in duplicateWarnings keys (response\<lparr>rr_Warnings := rr_Warnings response @ [warning],
             rr_Payouts := map (\<lambda>payout. if pr_Index payout \<in> set indexes then payout\<lparr>pr_Warnings := pr_Warnings payout @ [warning]\<rparr> else payout)
               (rr_Payouts response)\<rparr>))"

definition optionList :: "'a option \<Rightarrow> 'a list" where
  "optionList x = (case x of None \<Rightarrow> [] | Some a \<Rightarrow> [a])"

definition runValidationErrors :: "settlementRunRequest \<Rightarrow> string list" where
  "runValidationErrors request =
     optionList (snd (normalizeSettlementRunSignerRole (rq_SignerRole request))) @
     optionList (validateSettlementRunID (TrimSpace (rq_SettlementRunID request))) @
     (case normalizeSettlementRunMetadataID ''source_app'' (TrimSpace (rq_SourceApp request)) 64 settlementRequestIDPattern of Inl err \<Rightarrow> [err] | Inr _ \<Rightarrow> []) @
     (case normalizeSettlementRunMetadataID ''source_event_id'' (TrimSpace (rq_SourceEventID request)) 128 settlementSourceEventPattern of Inl err \<Rightarrow> [err] | Inr _ \<Rightarrow> []) @
     (if rq_Payouts request = [] then [''payouts must contain at least one payout''] else []) @
     (if length (rq_Payouts request) > settlementMaxRunPayouts
      then [''payouts may contain at most '' @ Itoa settlementMaxRunPayouts @ '' line items''] else [])"

definition prepareSettlementRunRequest :: "settlementRunRequest \<Rightarrow> normalizedSettlementRunRequest \<times> settlementRunResponse" where
  "prepareSettlementRunRequest request =
     (let runID = TrimSpace (rq_SettlementRunID request);
          sourceApp = TrimSpace (rq_SourceApp request);
          sourceEventID = TrimSpace (rq_SourceEventID request);
          note = cutAt 280 (TrimSpace (rq_Note request));
          memo = cutAt 180 (TrimSpace (rq_Memo request));
          signerRole = fst (normalizeSettlementRunSignerRole (rq_SignerRole request));
          response = zero_settlementRunResponse\<lparr>rr_OK := False, rr_DryRun := True, rr_Status := ''failed'', rr_SettlementRunID := runID,
            rr_SourceApp := sourceApp, rr_SourceEventID := sourceEventID, rr_Note := note, rr_Memo := memo, rr_SignerRole := signerRole\<rparr>;
          validationErrors = runValidationErrors request
      in if validationErrors \<noteq> []
         then (zero_normalizedSettlementRunRequest, response\<lparr>rr_FailureCode := ''INVALID_RUN'', rr_Detail := Join validationErrors ''; ''\<rparr>)
         else
           let sc = scanPayouts runID memo signerRole 0 (rq_Payouts request) zero_runScan;
               normalized = zero_normalizedSettlementRunRequest\<lparr>nr_SettlementRunID := runID, nr_SourceApp := sourceApp,
                 nr_SourceEventID := sourceEventID, nr_Note := note, nr_Memo := memo, nr_SignerRole := signerRole, nr_Payouts := sc_payouts sc\<rparr>;
               response = response\<lparr>rr_Payouts := sc_results sc, rr_RequestedPayoutCount := length (rq_Payouts request),
                 rr_RequestedTotalUWolo := FormatUint (sc_totalRequested sc),
                 rr_RequestedTotalWolo := formatDisplayAmount (FormatUint (sc_totalRequested sc))\<rparr>;
               response = duplicateWarnings (sc_seenPayoutKeys sc) response
           in (normalized, if sc_invalid sc
                then response\<lparr>rr_FailureCode := ''INVALID_RUN'', rr_Detail := ''one or more payout lines are invalid''\<rparr> else response))"

section \<open>The plan of a run\<close>

definition requiresEscrowSignerForSettlementRun :: "normalizedSettlementRunRequest \<Rightarrow> bool" where
  "requiresEscrowSignerForSettlementRun request =
     (let sourceApp = ToLower (TrimSpace (nr_SourceApp request));
          sourceEventID = ToLower (TrimSpace (nr_SourceEventID request));
          runID = ToLower (TrimSpace (nr_SettlementRunID request));
          isAoE2BetMarketRun = (sourceApp = ''aoe2hdbets'' \<and> (prefix ''bet-market-'' sourceEventID \<or> prefix ''aoe2-bet-market-'' runID))
      in isAoE2BetMarketRun \<and> nr_SignerRole request \<noteq> settlementEscrowSignerRole)"

text \<open>The assignments of a refused plan: the run fails and its ready lines are refused for the same reason.\<close>

definition failRun :: "string \<Rightarrow> bool \<Rightarrow> string \<Rightarrow> settlementRunResponse \<Rightarrow> settlementRunResponse" where
  "failRun failureCode retryable detail response = response\<lparr>rr_OK := False, rr_Status := ''failed'', rr_FailureCode := failureCode,
     rr_Retryable := retryable, rr_Detail := detail,
     rr_Payouts := markRunReadyPayoutsRefused (rr_Payouts response) failureCode detail retryable\<rparr>"

definition feeWarning :: "string \<Rightarrow> u64 \<Rightarrow> settlementRunResponse \<Rightarrow> settlementRunResponse" where
  "feeWarning what projectedRemaining response =
     (if rr_EstimatedFeeTotalUWolo response = [] then response
      else case parseOptionalUWoloString (rr_EstimatedFeeTotalUWolo response) of
        Inl _ \<Rightarrow> response
      | Inr estimatedFee \<Rightarrow>
          if projectedRemaining < estimatedFee
          then response\<lparr>rr_Warnings := rr_Warnings response @ [what @ rr_ProjectedRemainingUWolo response @
            '' uwolo is below estimated configured fees '' @ rr_EstimatedFeeTotalUWolo response @
            '' uwolo; fixed-fee runs may still fail during execution'']\<rparr>
          else response)"

definition runLeaves :: "settlementRunResponse \<Rightarrow> string \<Rightarrow> string \<Rightarrow> string \<Rightarrow> string" where
  "runLeaves response what uwolo wolo = ''run would leave '' @ rr_ProjectedRemainingUWolo response @ '' uwolo ('' @
     rr_ProjectedRemainingWolo response @ '' wolo), below configured '' @ what @ uwolo @ '' uwolo ('' @ wolo @ '' wolo)''"

definition buildPayoutSettlementRunPlan :: "'c env \<Rightarrow> settlementConfig \<Rightarrow> settlementRunResponse \<Rightarrow> u64 \<Rightarrow> ('c, settlementRunResponse) state" where
  "buildPayoutSettlementRunPlan env cfg response0 totalRequested = do {
     health \<leftarrow> buildHealthReport env cfg;
     let response = response0\<lparr>rr_SignerRole := settlementSignerRole, rr_SignerAddress := hr_PayoutAddress health,
       rr_PayoutBalanceBeforeUWolo := hr_PayoutBalanceUWolo health, rr_PayoutBalanceBeforeWolo := hr_PayoutBalanceWolo health,
       rr_SignerBalanceBeforeUWolo := hr_PayoutBalanceUWolo health, rr_SignerBalanceBeforeWolo := hr_PayoutBalanceWolo health,
       rr_MinPayoutBalanceUWolo := formatOptionalUWolo (cfg_MinPayoutBalanceUWolo cfg),
       rr_MinPayoutBalanceWolo := formatOptionalDisplayAmount (cfg_MinPayoutBalanceUWolo cfg),
       rr_FeeHeadroomUWolo := formatOptionalUWolo (cfg_FeeHeadroomUWolo cfg),
       rr_FeeHeadroomWolo := formatOptionalDisplayAmount (cfg_FeeHeadroomUWolo cfg),
       rr_Payouts := markRunReadyPayoutsSigner (rr_Payouts response0) settlementSignerRole (hr_PayoutAddress health)\<rparr>;
     State_Monad.return
       (if \<not> hr_OK health
        then failRun (hr_FailureCode health) (hr_FailureCode health = ''RPC_UNREACHABLE'') (hr_Detail health) response
        else if cfg_PayoutKeyName cfg = []
        then failRun ''PAYOUT_SIGNER_UNCONFIGURED'' False ''WOLO_SETTLEMENT_PAYOUT_KEY_NAME is required for payout-signed settlement runs'' response
        else if rr_SignerAddress response = []
        then failRun ''PAYOUT_SIGNER_UNAVAILABLE'' False (payoutUnresolvedDetail cfg) response
        else (case parseOptionalUWoloString (rr_SignerBalanceBeforeUWolo response) of
          Inl _ \<Rightarrow> failRun ''PAYOUT_BALANCE_LOOKUP_FAILED'' True ''payout signer balance could not be parsed'' response
        | Inr balanceBefore \<Rightarrow>
          if totalRequested > balanceBefore
          then failRun ''PAYOUT_BALANCE_TOO_LOW'' True (''run requests '' @ rr_RequestedTotalUWolo response @ '' uwolo ('' @
                 rr_RequestedTotalWolo response @ '' wolo) but payout signer balance is '' @ rr_SignerBalanceBeforeUWolo response @
                 '' uwolo ('' @ rr_SignerBalanceBeforeWolo response @ '' wolo)'') response
          else
            let projectedRemaining = balanceBefore - totalRequested;
                response = response\<lparr>rr_ProjectedRemainingUWolo := FormatUint projectedRemaining,
                  rr_ProjectedRemainingWolo := formatDisplayAmount (FormatUint projectedRemaining)\<rparr>
            in if cfg_FeeHeadroomUWolo cfg > 0 \<and> projectedRemaining < cfg_FeeHeadroomUWolo cfg
               then failRun ''PAYOUT_FEE_HEADROOM_TOO_LOW'' True
                 (runLeaves response ''fee headroom '' (rr_FeeHeadroomUWolo response) (rr_FeeHeadroomWolo response)) response
               else if cfg_MinPayoutBalanceUWolo cfg > 0 \<and> projectedRemaining < cfg_MinPayoutBalanceUWolo cfg
               then failRun ''PAYOUT_RESERVE_FLOOR_HIT'' True
                 (runLeaves response ''reserve floor '' (rr_MinPayoutBalanceUWolo response) (rr_MinPayoutBalanceWolo response)) response
               else (feeWarning ''projected remaining balance '' projectedRemaining response)
                 \<lparr>rr_OK := True, rr_Status := ''validated'', rr_Detail := ''settlement run validated''\<rparr>))
   }"

definition buildEscrowSettlementRunPlan :: "'c env \<Rightarrow> settlementConfig \<Rightarrow> settlementRunResponse \<Rightarrow> u64 \<Rightarrow> ('c, settlementRunResponse) state" where
  "buildEscrowSettlementRunPlan env cfg response0 totalRequested = do {
     (signerAddress, balanceBefore, failure) \<leftarrow> preflightEscrowSigner env cfg (FormatUint totalRequested);
     let response1 = response0\<lparr>rr_SignerRole := settlementEscrowSignerRole,
       rr_MinEscrowBalanceUWolo := formatOptionalUWolo (cfg_MinEscrowBalanceUWolo cfg),
       rr_MinEscrowBalanceWolo := formatOptionalDisplayAmount (cfg_MinEscrowBalanceUWolo cfg),
       rr_EscrowFeeHeadroomUWolo := formatOptionalUWolo (cfg_EscrowFeeHeadroomUWolo cfg),
       rr_EscrowFeeHeadroomWolo := formatOptionalDisplayAmount (cfg_EscrowFeeHeadroomUWolo cfg),
       rr_SignerAddress := (case failure of Some failed \<Rightarrow> if signerAddress = [] then xr_SignerAddress failed else signerAddress
                            | None \<Rightarrow> signerAddress)\<rparr>;
     let response2 = (if signerAddress \<noteq> [] \<and> (case failure of None \<Rightarrow> True | Some failed \<Rightarrow> escrowFailureHasBalance (xr_FailureCode failed))
       then response1\<lparr>rr_SignerBalanceBeforeUWolo := FormatUint balanceBefore,
              rr_SignerBalanceBeforeWolo := formatDisplayAmount (FormatUint balanceBefore)\<rparr>
       else response1);
     let response = response2\<lparr>rr_Payouts := markRunReadyPayoutsSigner (rr_Payouts response2) settlementEscrowSignerRole (rr_SignerAddress response2)\<rparr>;
     State_Monad.return
       (case failure of
          Some failed \<Rightarrow> failRun (xr_FailureCode failed) (xr_Retryable failed) (xr_Detail failed) response
        | None \<Rightarrow>
            let projectedRemaining = balanceBefore - totalRequested;
                response = response\<lparr>rr_ProjectedRemainingUWolo := FormatUint projectedRemaining,
                  rr_ProjectedRemainingWolo := formatDisplayAmount (FormatUint projectedRemaining)\<rparr>
            in (feeWarning ''projected escrow balance '' projectedRemaining response)
                 \<lparr>rr_OK := True, rr_Status := ''validated'', rr_Detail := ''settlement run validated from escrow signer''\<rparr>)
   }"

definition escrowRequiredDetail :: string where
  "escrowRequiredDetail = ''AoE2HDBets escrow-backed bet-market settlement runs must use signer_role=escrow; payout signer reserves cannot fund market obligations''"

definition buildSettlementRunPlan :: "'c env \<Rightarrow> settlementConfig \<Rightarrow> settlementRunRequest
    \<Rightarrow> ('c, normalizedSettlementRunRequest \<times> settlementRunResponse) state" where
  "buildSettlementRunPlan env cfg request =
     (case prepareSettlementRunRequest request of
        (normalized, prepared) \<Rightarrow>
          let response = prepared\<lparr>rr_DryRun := True\<rparr> in
          if \<not> runResponseHasReadyPayouts response then State_Monad.return (normalized, finalizeSettlementRunResponse response)
          else if requiresEscrowSignerForSettlementRun normalized
          then State_Monad.return (normalized, finalizeSettlementRunResponse (failRun ''ESCROW_SIGNER_REQUIRED'' False escrowRequiredDetail response))
          else
            let (estimatedFeeUWolo, feeNote) = estimateSettlementRunFee cfg (length (nr_Payouts normalized));
                response = (if estimatedFeeUWolo \<noteq> []
                  then response\<lparr>rr_EstimatedFeeTotalUWolo := estimatedFeeUWolo, rr_EstimatedFeeTotalWolo := formatDisplayAmount estimatedFeeUWolo\<rparr>
                  else if feeNote \<noteq> [] then response\<lparr>rr_Warnings := rr_Warnings response @ [feeNote]\<rparr> else response)
            in (case parseOptionalUWoloString (rr_RequestedTotalUWolo response) of
                 Inl _ \<Rightarrow> State_Monad.return (normalized, finalizeSettlementRunResponse
                   ((failRun ''INVALID_RUN'' False ''requested_total_uwolo could not be parsed'' response)\<lparr>rr_Retryable := rr_Retryable response\<rparr>))
               | Inr totalRequested \<Rightarrow> do {
                   planned \<leftarrow> (if nr_SignerRole normalized = settlementEscrowSignerRole
                     then buildEscrowSettlementRunPlan env cfg response totalRequested
                     else buildPayoutSettlementRunPlan env cfg response totalRequested);
                   State_Monad.return (normalized, finalizeSettlementRunResponse planned)
                 }))"

definition validateSettlementRun :: "'c env \<Rightarrow> settlementConfig \<Rightarrow> settlementRunRequest \<Rightarrow> ('c, settlementRunResponse) state" where
  "validateSettlementRun env cfg request = do {
     (normalized, response) \<leftarrow> buildSettlementRunPlan env cfg request;
     State_Monad.return (response\<lparr>rr_DryRun := True\<rparr>)
   }"

section \<open>Escrow top-up of the payout signer\<close>

definition topUpChar :: "char \<Rightarrow> char" where
  "topUpChar c = (if isAlnum c \<or> c \<in> set ''._:-'' then c else CHR ''-'')"

text \<open>The source maps runes, the model bytes: the same on the ASCII run ids that pass validation.\<close>

definition settlementRunTopUpRequestID :: "string \<Rightarrow> string" where
  "settlementRunTopUpRequestID runID =
     (let normalized = Trim (map topUpChar (TrimSpace runID)) ''.:-_'';
          normalized = (if normalized = [] then ''run'' else normalized)
      in cutAt 127 (''escrow-top-up-'' @ normalized))"

definition shouldAttemptSettlementRunEscrowTopUp :: "string \<Rightarrow> bool" where
  "shouldAttemptSettlementRunEscrowTopUp failureCode = False"

definition settlementRunTopUpSafetyBufferUWolo :: u64 where
  "settlementRunTopUpSafetyBufferUWolo = 1000000"

text \<open>
  The balance the payout signer needs: the request, the larger reserve, the estimated fee and a
  safety buffer, or the message of the addition that does not fit a \<open>uint64\<close>.
\<close>

definition addGuarded :: "string \<Rightarrow> u64 \<Rightarrow> u64 \<Rightarrow> string + u64" where
  "addGuarded message extra required = (if required > max_u64 - extra then Inl message else Inr (required + extra))"

definition requiredPayoutBalance :: "settlementConfig \<Rightarrow> u64 \<Rightarrow> string \<Rightarrow> string + u64" where
  "requiredPayoutBalance cfg requested estimatedFeeTotal =
     (let reserveFloor = (if cfg_MinPayoutBalanceUWolo cfg > cfg_FeeHeadroomUWolo cfg then cfg_MinPayoutBalanceUWolo cfg else cfg_FeeHeadroomUWolo cfg) in
      case (if reserveFloor > 0 then addGuarded ''escrow top-up required balance overflowed uint64'' reserveFloor requested else Inr requested) of
        Inl err \<Rightarrow> Inl err
      | Inr required \<Rightarrow>
        (case (case (if estimatedFeeTotal = [] then Inl ErrSyntax else parseOptionalUWoloString estimatedFeeTotal) of
                Inl _ \<Rightarrow> Inr required
              | Inr estimatedFee \<Rightarrow>
                  if estimatedFee > 0 then addGuarded ''escrow top-up estimated fee overflowed uint64'' estimatedFee required else Inr required) of
           Inl err \<Rightarrow> Inl err
         | Inr required \<Rightarrow> addGuarded ''escrow top-up safety buffer overflowed uint64'' settlementRunTopUpSafetyBufferUWolo required))"

definition topUpPayoutSignerForSettlementRun :: "'c env \<Rightarrow> settlementConfig \<Rightarrow> string \<Rightarrow> settlementRunResponse
    \<Rightarrow> ('c world, string + settlementExecuteResponse) state" where
  "topUpPayoutSignerForSettlementRun env cfg runID response = do {
     let baseFailure = zero_settlementExecuteResponse\<lparr>xr_OK := False, xr_Status := ''failed'', xr_Retryable := True,
       xr_RequestID := settlementRunTopUpRequestID runID, xr_ChainID := cfg_ChainID cfg, xr_SignerRole := ''escrow'',
       xr_ToAddress := TrimSpace (cfg_PayoutAddress cfg), xr_AmountUWolo := ''0'', xr_AmountWolo := formatDisplayAmount ''0''\<rparr>;
     if \<not> cfg_EscrowAutoTopUp cfg
     then State_Monad.return (Inr (baseFailure\<lparr>xr_FailureCode := ''ESCROW_TOP_UP_DISABLED'', xr_Retryable := False,
            xr_Detail := ''WOLO_SETTLEMENT_ESCROW_AUTO_TOP_UP_ENABLED is not enabled''\<rparr>))
     else do {
       health \<leftarrow> onChain (buildHealthReport env cfg);
       let payoutAddress = (if TrimSpace (hr_PayoutAddress health) = [] then TrimSpace (cfg_PayoutAddress cfg) else TrimSpace (hr_PayoutAddress health));
       let failTo = (\<lambda>code retryable detail. State_Monad.return (Inr (baseFailure\<lparr>xr_ToAddress := payoutAddress, xr_FailureCode := code,
         xr_Retryable := retryable, xr_Detail := detail\<rparr>)));
       if \<not> hr_OK health \<and> \<not> shouldAttemptSettlementRunEscrowTopUp (hr_FailureCode health)
       then State_Monad.return (Inr (baseFailure\<lparr>xr_FailureCode := hr_FailureCode health,
              xr_Retryable := (hr_FailureCode health = ''RPC_UNREACHABLE''), xr_Detail := hr_Detail health\<rparr>))
       else if payoutAddress = []
       then State_Monad.return (Inr (baseFailure\<lparr>xr_FailureCode := ''PAYOUT_SIGNER_UNAVAILABLE'', xr_Retryable := False,
              xr_Detail := ''payout signer address is unavailable for escrow top-up''\<rparr>))
       else (case parseOptionalUWoloString (rr_RequestedTotalUWolo response) of
         Inl _ \<Rightarrow> failTo ''INVALID_RUN'' False ''requested_total_uwolo could not be parsed for escrow top-up''
       | Inr requested \<Rightarrow>
         (case parseOptionalUWoloString (hr_PayoutBalanceUWolo health) of
            Inl _ \<Rightarrow> failTo ''PAYOUT_BALANCE_LOOKUP_FAILED'' True ''payout signer balance could not be parsed for escrow top-up''
          | Inr balanceBefore \<Rightarrow>
            (case requiredPayoutBalance cfg requested (rr_EstimatedFeeTotalUWolo response) of
               Inl err \<Rightarrow> failTo ''INVALID_RUN'' False err
             | Inr requiredBalance \<Rightarrow>
               if balanceBefore \<ge> requiredBalance
               then State_Monad.return (Inr (zero_settlementExecuteResponse\<lparr>xr_OK := True, xr_Status := ''confirmed'',
                      xr_RequestID := settlementRunTopUpRequestID runID, xr_ChainID := cfg_ChainID cfg, xr_SignerRole := ''escrow'',
                      xr_ToAddress := payoutAddress, xr_AmountUWolo := ''0'', xr_AmountWolo := formatDisplayAmount ''0'',
                      xr_Detail := ''payout signer already has enough balance after recalculation'', xr_BroadcastMode := cfg_BroadcastMode cfg\<rparr>))
               else executeEscrowTransfer env cfg (zero_settlementExecuteRequest\<lparr>
                      xq_RequestID := settlementRunTopUpRequestID runID, xq_ToAddress := payoutAddress,
                      xq_AmountUWolo := FormatUint (requiredBalance - balanceBefore),
                      xq_Memo := cutAt 180 (''settlement run top-up '' @ TrimSpace runID)\<rparr>))))
     }
   }"

section \<open>Executing a run\<close>

definition itemRequest :: "normalizedSettlementPayout \<Rightarrow> settlementExecuteRequest" where
  "itemRequest payout = zero_settlementExecuteRequest\<lparr>xq_RequestID := np_RequestID payout, xq_ToAddress := np_ToAddress payout,
     xq_AmountUWolo := np_AmountUWolo payout, xq_Memo := np_Memo payout\<rparr>"

fun executeRunItems :: "'c env \<Rightarrow> settlementConfig \<Rightarrow> string \<Rightarrow> normalizedSettlementPayout list
    \<Rightarrow> ('c world, string + settlementRunPayoutResult list) state" where
  "executeRunItems env cfg signerRole [] = State_Monad.return (Inr [])"
| "executeRunItems env cfg signerRole (payout # payouts) = do {
     itemResult \<leftarrow> (if signerRole = settlementEscrowSignerRole then executeEscrowTransfer env cfg (itemRequest payout)
                    else executeSettlement env cfg (itemRequest payout));
     (case itemResult of
        Inl err \<Rightarrow> State_Monad.return (Inl err)
      | Inr itemResponse \<Rightarrow> do {
          rest \<leftarrow> executeRunItems env cfg signerRole payouts;
          State_Monad.return (case rest of Inl err \<Rightarrow> Inl err
            | Inr results \<Rightarrow> Inr (settlementRunPayoutResultFromExecuteResponse payout itemResponse # results))
        })
   }"

definition resetRunCounters :: "settlementRunResponse \<Rightarrow> settlementRunResponse" where
  "resetRunCounters response = response\<lparr>rr_OK := False, rr_Status := [], rr_FailureCode := [], rr_Retryable := False, rr_IdempotentReplay := False,
     rr_ExecutedPayoutCount := 0, rr_ConfirmedPayoutCount := 0, rr_AcceptedPayoutCount := 0, rr_RefusedPayoutCount := 0,
     rr_RejectedPayoutCount := 0, rr_ReplayPayoutCount := 0,
     rr_ExecutedTotalUWolo := [], rr_ExecutedTotalWolo := [], rr_ConfirmedTotalUWolo := [], rr_ConfirmedTotalWolo := [],
     rr_AcceptedTotalUWolo := [], rr_AcceptedTotalWolo := [], rr_RefusedTotalUWolo := [], rr_RefusedTotalWolo := [],
     rr_RejectedTotalUWolo := [], rr_RejectedTotalWolo := [], rr_Detail := []\<rparr>"

definition recordRun :: "'c env \<Rightarrow> settlementConfig \<Rightarrow> string \<Rightarrow> normalizedSettlementRunRequest \<Rightarrow> string \<Rightarrow> settlementRunResponse
    \<Rightarrow> ('c world, string + settlementRunResponse) state" where
  "recordRun env cfg runID normalized fingerprint response = do {
     w \<leftarrow> State_Monad.get;
     err \<leftarrow> writeSettlementRunStoredResult env (runRecordPath cfg runID) \<lparr>rs_Request = normalized, rs_Fingerprint = fingerprint,
       rs_Response = response, rs_UpdatedAt = env_now env (w_chain w)\<rparr>;
     State_Monad.return (case err of Some e \<Rightarrow> Inl e | None \<Rightarrow> Inr response)
   }"

definition runRefusal :: "string \<Rightarrow> string \<Rightarrow> string \<Rightarrow> settlementRunResponse \<Rightarrow> settlementRunResponse" where
  "runRefusal runID failureCode detail validation = zero_settlementRunResponse\<lparr>rr_OK := False, rr_DryRun := False, rr_Status := ''failed'',
     rr_FailureCode := failureCode, rr_Retryable := False, rr_SettlementRunID := runID, rr_SourceApp := rr_SourceApp validation,
     rr_SourceEventID := rr_SourceEventID validation, rr_Note := rr_Note validation, rr_Memo := rr_Memo validation,
     rr_SignerRole := rr_SignerRole validation, rr_SignerAddress := rr_SignerAddress validation, rr_Detail := detail\<rparr>"

text \<open>The execution proper, once the plan (possibly rebuilt after a top-up) is known.\<close>

definition executePlannedRun :: "'c env \<Rightarrow> settlementConfig \<Rightarrow> string \<Rightarrow> normalizedSettlementRunRequest \<Rightarrow> string \<Rightarrow> settlementRunResponse
    \<Rightarrow> ('c world, string + settlementRunResponse) state" where
  "executePlannedRun env cfg runID normalized fingerprint response =
     (if \<not> rr_OK response then recordRun env cfg runID normalized fingerprint response
      else do {
        items \<leftarrow> executeRunItems env cfg (nr_SignerRole normalized) (nr_Payouts normalized);
        (case items of
           Inl err \<Rightarrow> State_Monad.return (Inl err)
         | Inr itemResults \<Rightarrow>
             let finalized = finalizeSettlementRunResponse (resetRunCounters (response\<lparr>rr_Payouts := itemResults\<rparr>));
                 finalized = finalized\<lparr>rr_Detail := settlementRunExecutionDetail finalized\<rparr>
             in recordRun env cfg runID normalized fingerprint finalized)
      })"

definition topUpWarning :: "settlementExecuteResponse \<Rightarrow> string" where
  "topUpWarning topUp =
     (let warning = ''escrow auto-top-up confirmed '' @ xr_AmountUWolo topUp @ '' uwolo ('' @ xr_AmountWolo topUp @ '' wolo) into payout signer'' in
      if xr_TxHash topUp \<noteq> [] then warning @ '' '' @ [CHR 0xC2, CHR 0xB7] @ '' tx '' @ xr_TxHash topUp else warning)"

definition runUnderLock :: "'c env \<Rightarrow> settlementConfig \<Rightarrow> settlementRunRequest \<Rightarrow> string \<Rightarrow> normalizedSettlementRunRequest \<Rightarrow> settlementRunResponse
    \<Rightarrow> ('c world, string + settlementRunResponse) state" where
  "runUnderLock env cfg request runID normalized validation = do {
     let fingerprint = env_hashRun env normalized;
     w \<leftarrow> State_Monad.get;
     let proceed = (do {
       let response = validation\<lparr>rr_DryRun := False\<rparr>;
       if nr_SignerRole normalized = settlementSignerRole \<and> \<not> rr_OK response \<and>
          shouldAttemptSettlementRunEscrowTopUp (rr_FailureCode response) \<and> cfg_EscrowAutoTopUp cfg
       then do {
         topUp \<leftarrow> topUpPayoutSignerForSettlementRun env cfg runID response;
         (case topUp of
            Inl err \<Rightarrow> State_Monad.return (Inl err)
          | Inr topUpResponse \<Rightarrow>
            if \<not> xr_OK topUpResponse
            then (let failed = failRun (xr_FailureCode topUpResponse) (xr_Retryable topUpResponse)
                        (''escrow auto-top-up failed: '' @ TrimSpace (xr_Detail topUpResponse)) response;
                      failed = failed\<lparr>rr_Warnings := rr_Warnings failed @ [''escrow auto-top-up attempted before grouped payout execution'']\<rparr>
                  in recordRun env cfg runID normalized fingerprint (finalizeSettlementRunResponse failed))
            else do {
              (rebuiltNormalized, rebuilt) \<leftarrow> onChain (buildSettlementRunPlan env cfg request);
              executePlannedRun env cfg runID rebuiltNormalized fingerprint
                (rebuilt\<lparr>rr_DryRun := False, rr_Warnings := rr_Warnings rebuilt @ [topUpWarning topUpResponse]\<rparr>)
            })
       }
       else executePlannedRun env cfg runID normalized fingerprint response
     });
     (case readSettlementRunStoredResult (runRecordPath cfg runID) w of
        ReadOK stored \<Rightarrow>
          if rs_Fingerprint stored \<noteq> fingerprint
          then State_Monad.return (Inr (runRefusal runID ''IDEMPOTENCY_CONFLICT''
                 ''settlement_run_id already exists with different settlement payload'' validation))
          else if settlementRunResponseIsFinal (rs_Response stored)
          then State_Monad.return (Inr ((rs_Response stored)\<lparr>rr_DryRun := False, rr_IdempotentReplay := True\<rparr>))
          else proceed
      | ReadFailed readErr \<Rightarrow> State_Monad.return (Inr (runRefusal runID ''STATE_FILE_INVALID''
          (''could not read settlement run state file: '' @ readErr) validation))
      | NotExist \<Rightarrow> proceed)
   }"

definition executeSettlementRun :: "'c env \<Rightarrow> settlementConfig \<Rightarrow> settlementRunRequest \<Rightarrow> ('c world, string + settlementRunResponse) state" where
  "executeSettlementRun env cfg request = do {
     (normalized, plan) \<leftarrow> onChain (buildSettlementRunPlan env cfg request);
     let validation = plan\<lparr>rr_DryRun := False\<rparr>;
     let runID = TrimSpace (rr_SettlementRunID validation);
     if runID = [] then State_Monad.return (Inr validation)
     else withRunLock env cfg runID (rr_SignerRole validation) (runUnderLock env cfg request runID normalized validation)
   }"

end
