(* ===== verification/Run_Lemmas.thy ===== *)
theory Run_Lemmas
  imports Runs
begin

text \<open>
  Facts about grouped runs that the properties rest on: what preparation guarantees of the lines,
  which commands the execution of the lines may run, and the closed forms of the counters.
\<close>

section \<open>Prepared lines\<close>

definition lineAmount :: "string \<Rightarrow> u64" where
  "lineAmount amount = (case parseOptionalUWoloString amount of Inl _ \<Rightarrow> 0 | Inr v \<Rightarrow> v)"

text \<open>The invariant of the loop over the requested lines.\<close>

definition scanInv :: "nat \<Rightarrow> runScan \<Rightarrow> bool" where
  "scanInv index sc \<longleftrightarrow>
     length (sc_results sc) = index \<and>
     map pr_Index (sc_results sc) = [0..<index] \<and>
     sc_seenRequestIDs sc = set (map np_RequestID (sc_payouts sc)) \<and>
     distinct (map np_RequestID (sc_payouts sc)) \<and>
     list_all (\<lambda>p. settlementRequestIDPattern (np_RequestID p)) (sc_payouts sc) \<and>
     sc_totalRequested sc = sum_list (map (\<lambda>p. lineAmount (np_AmountUWolo p)) (sc_payouts sc)) \<and>
     length (sc_payouts sc) = length (filter (\<lambda>r. pr_Outcome r = ''ready'') (sc_results sc)) \<and>
     (sc_invalid sc \<longleftrightarrow> (\<exists>r \<in> set (sc_results sc). pr_Outcome r \<noteq> ''ready''))"

lemma scanInv_zero: "scanInv 0 zero_runScan"
  by (simp add: scanInv_def zero_runScan_def)

lemma scanInv_step:
  assumes "scanInv index sc"
  shows "scanInv (index + 1) (scanPayout runID memo signerRole index payout sc)"
proof -
  let ?id = "if TrimSpace (pi_RequestID payout) = [] then deriveSettlementRunRequestID runID index else TrimSpace (pi_RequestID payout)"
  let ?memo = "if TrimSpace (pi_Memo payout) = [] then memo else TrimSpace (pi_Memo payout)"
  let ?q = "zero_settlementExecuteRequest\<lparr>xq_RequestID := ?id, xq_ToAddress := pi_ToAddress payout,
             xq_AmountUWolo := pi_AmountUWolo payout, xq_AmountWolo := pi_AmountWolo payout, xq_Memo := ?memo\<rparr>"
  show ?thesis
  proof (cases "normalizeSettlementRequest ?q")
    case (Inl e)
    with assms show ?thesis by (simp add: scanPayout_def scanInv_def Let_def)
  next
    case (Inr n)
    then have "settlementRequestIDPattern (nq_RequestID n)" by (rule normalizeSettlementRequest_fields)
    with Inr assms show ?thesis
      by (simp add: scanPayout_def scanInv_def lineAmount_def Let_def split: sum.splits)
  qed
qed

lemma scanInv_scan:
  "scanInv index sc \<Longrightarrow> scanInv (index + length payouts) (scanPayouts runID memo signerRole index payouts sc)"
  by (induction payouts arbitrary: index sc) (use scanInv_step in fastforce)+

lemma duplicateWarnings_sel [simp]:
  "rr_RequestedTotalUWolo (duplicateWarnings keys r) = rr_RequestedTotalUWolo r"
  "rr_RequestedPayoutCount (duplicateWarnings keys r) = rr_RequestedPayoutCount r"
  "rr_Retryable (duplicateWarnings keys r) = rr_Retryable r"
  "rr_SettlementRunID (duplicateWarnings keys r) = rr_SettlementRunID r"
  "rr_SignerRole (duplicateWarnings keys r) = rr_SignerRole r"
  "rr_FailureCode (duplicateWarnings keys r) = rr_FailureCode r"
  "rr_Status (duplicateWarnings keys r) = rr_Status r"
  "rr_OK (duplicateWarnings keys r) = rr_OK r"
  by (induction keys r rule: duplicateWarnings.induct) (simp_all add: case_prod_beta Let_def)

lemma duplicateWarnings_outcomes [simp]:
  "map pr_Outcome (rr_Payouts (duplicateWarnings keys r)) = map pr_Outcome (rr_Payouts r)"
  by (induction keys r rule: duplicateWarnings.induct)
    (simp_all add: case_prod_beta Let_def comp_def if_distrib cong: if_cong)

abbreviation prepared :: "settlementRunRequest \<Rightarrow> normalizedSettlementRunRequest" where
  "prepared request \<equiv> fst (prepareSettlementRunRequest request)"

definition runScanOf :: "settlementRunRequest \<Rightarrow> runScan" where
  "runScanOf request = scanPayouts (TrimSpace (rq_SettlementRunID request)) (cutAt 180 (TrimSpace (rq_Memo request)))
     (fst (normalizeSettlementRunSignerRole (rq_SignerRole request))) 0 (rq_Payouts request) zero_runScan"

lemma runScanOf_inv: "scanInv (length (rq_Payouts request)) (runScanOf request)"
  unfolding runScanOf_def using scanInv_scan [OF scanInv_zero] by simp

lemma prepare_invalid:
  assumes "runValidationErrors request \<noteq> []"
  shows "prepared request = zero_normalizedSettlementRunRequest"
    "rr_Payouts (snd (prepareSettlementRunRequest request)) = []"
    "rr_FailureCode (snd (prepareSettlementRunRequest request)) = ''INVALID_RUN''"
    "rr_Status (snd (prepareSettlementRunRequest request)) = ''failed''"
    "\<not> rr_OK (snd (prepareSettlementRunRequest request))"
  using assms by (simp_all add: prepareSettlementRunRequest_def Let_def)

lemma prepare_valid:
  assumes "runValidationErrors request = []"
  shows "nr_Payouts (prepared request) = sc_payouts (runScanOf request)"
    "nr_SettlementRunID (prepared request) = TrimSpace (rq_SettlementRunID request)"
    "nr_SignerRole (prepared request) = fst (normalizeSettlementRunSignerRole (rq_SignerRole request))"
    "nr_SourceApp (prepared request) = TrimSpace (rq_SourceApp request)"
    "nr_SourceEventID (prepared request) = TrimSpace (rq_SourceEventID request)"
    "map pr_Outcome (rr_Payouts (snd (prepareSettlementRunRequest request))) = map pr_Outcome (sc_results (runScanOf request))"
    "rr_RequestedPayoutCount (snd (prepareSettlementRunRequest request)) = length (rq_Payouts request)"
    "rr_RequestedTotalUWolo (snd (prepareSettlementRunRequest request)) = FormatUint (sc_totalRequested (runScanOf request))"
    "\<not> rr_OK (snd (prepareSettlementRunRequest request))"
  using assms by (simp_all add: prepareSettlementRunRequest_def runScanOf_def Let_def)

lemma prepare_always:
  "rr_SettlementRunID (snd (prepareSettlementRunRequest request)) = TrimSpace (rq_SettlementRunID request)"
  "rr_SignerRole (snd (prepareSettlementRunRequest request)) = fst (normalizeSettlementRunSignerRole (rq_SignerRole request))"
  by (simp_all add: prepareSettlementRunRequest_def Let_def)

text \<open>
  The lines that will be paid have valid, pairwise distinct request ids, and the requested total is
  the sum of their amounts in \<open>uint64\<close>.
\<close>

lemma prepared_lines:
  "distinct (map np_RequestID (nr_Payouts (prepared request)))"
  "\<forall>p \<in> set (nr_Payouts (prepared request)). settlementRequestIDPattern (np_RequestID p)"
  "runValidationErrors request = [] \<Longrightarrow> rr_RequestedTotalUWolo (snd (prepareSettlementRunRequest request)) =
     FormatUint (\<Sum>p \<leftarrow> nr_Payouts (prepared request). lineAmount (np_AmountUWolo p))"
  "length (nr_Payouts (prepared request)) \<le> length (rq_Payouts request)"
proof -
  have inv: "scanInv (length (rq_Payouts request)) (runScanOf request)" by (rule runScanOf_inv)
  show "distinct (map np_RequestID (nr_Payouts (prepared request)))"
    using inv prepare_valid(1) [of request] prepare_invalid(1) [of request]
    by (cases "runValidationErrors request = []") (simp_all add: scanInv_def)
  show "\<forall>p \<in> set (nr_Payouts (prepared request)). settlementRequestIDPattern (np_RequestID p)"
    using inv prepare_valid(1) [of request] prepare_invalid(1) [of request]
    by (cases "runValidationErrors request = []") (simp_all add: scanInv_def list_all_iff)
  show "runValidationErrors request = [] \<Longrightarrow> rr_RequestedTotalUWolo (snd (prepareSettlementRunRequest request)) =
     FormatUint (\<Sum>p \<leftarrow> nr_Payouts (prepared request). lineAmount (np_AmountUWolo p))"
    using inv by (simp add: prepare_valid(1,8) scanInv_def)
  show "length (nr_Payouts (prepared request)) \<le> length (rq_Payouts request)"
  proof (cases "runValidationErrors request = []")
    case True
    have "length (sc_payouts (runScanOf request)) = length (filter (\<lambda>r. pr_Outcome r = ''ready'') (sc_results (runScanOf request)))"
      "length (sc_results (runScanOf request)) = length (rq_Payouts request)"
      using inv by (simp_all add: scanInv_def)
    with length_filter_le [of "\<lambda>r. pr_Outcome r = ''ready''" "sc_results (runScanOf request)"] show ?thesis
      by (simp add: prepare_valid(1) [OF True])
  next
    case False
    then show ?thesis by (simp add: prepare_invalid(1))
  qed
qed

section \<open>What executing the lines may send\<close>

definition runKey :: "settlementConfig \<Rightarrow> string \<Rightarrow> string" where
  "runKey cfg signerRole = (if signerRole = settlementEscrowSignerRole then cfg_EscrowKeyName cfg else cfg_PayoutKeyName cfg)"

definition executeLine :: "'c env \<Rightarrow> settlementConfig \<Rightarrow> string \<Rightarrow> normalizedSettlementPayout \<Rightarrow> ('c world, string + settlementExecuteResponse) state" where
  "executeLine env cfg signerRole payout = (if signerRole = settlementEscrowSignerRole then executeEscrowTransfer env cfg (itemRequest payout)
     else executeSettlement env cfg (itemRequest payout))"

lemma itemRequest_sel [simp]: "xq_RequestID (itemRequest p) = np_RequestID p" "xq_Memo (itemRequest p) = np_Memo p"
  "xq_ToAddress (itemRequest p) = np_ToAddress p" "xq_AmountUWolo (itemRequest p) = np_AmountUWolo p" "xq_AmountWolo (itemRequest p) = 0"
  by (simp_all add: itemRequest_def)

lemma line_sends:
  "w_sends (snd (run_state (executeLine env cfg role p) w)) = w_sends w \<or>
   (\<exists>n. normalizeSettlementRequest (itemRequest p) = Inr n \<and>
      w_sends (snd (run_state (executeLine env cfg role p) w)) = w_sends w @ [bankSendArgs cfg (runKey cfg role) n] \<and>
      (\<nexists>s. settledAt cfg (TrimSpace (np_RequestID p)) s w))"
proof (cases "role = settlementEscrowSignerRole")
  case True
  with escrow_rail.settle_sends [of env cfg settlementEscrowSignerRole "itemRequest p" w]
    escrow_rail.settle_no_resend(1) [of cfg "itemRequest p" _ w env settlementEscrowSignerRole]
  show ?thesis by (simp add: executeLine_def runKey_def executeEscrowTransfer_def) blast
next
  case False
  with payout_rail.settle_sends [of env cfg settlementSignerRole "itemRequest p" w]
    payout_rail.settle_no_resend(1) [of cfg "itemRequest p" _ w env settlementSignerRole]
  show ?thesis by (simp add: executeLine_def runKey_def executeSettlement_def) blast
qed

lemma line_settled:
  "settledAt cfg rid s w \<Longrightarrow> settledAt cfg rid s (snd (run_state (executeLine env cfg role p) w))"
  using payout_rail.settle_settled escrow_rail.settle_settled
  by (auto simp: executeLine_def executeSettlement_def executeEscrowTransfer_def)

lemma executeRunItems_Cons:
  "run_state (executeRunItems env cfg role (p # ps)) w =
     (case run_state (executeLine env cfg role p) w of
        (Inl err, w1) \<Rightarrow> (Inl err, w1)
      | (Inr response, w1) \<Rightarrow>
          (case fst (run_state (executeRunItems env cfg role ps) w1) of
             Inl err \<Rightarrow> Inl err | Inr results \<Rightarrow> Inr (settlementRunPayoutResultFromExecuteResponse p response # results),
           snd (run_state (executeRunItems env cfg role ps) w1)))"
  by (auto simp: executeLine_def split: sum.splits prod.splits)

declare executeRunItems.simps(2) [simp del]

text \<open>The commands of a sequence of lines are those of some of them, in their order, none of which was settled before.\<close>

definition linesSent :: "settlementConfig \<Rightarrow> string \<Rightarrow> normalizedSettlementPayout list \<Rightarrow> 'c world \<Rightarrow> 'c world \<Rightarrow> bool" where
  "linesSent cfg role payouts w w' \<longleftrightarrow>
     (\<exists>ps ns. subseq ps payouts \<and> list_all2 (\<lambda>p n. normalizeSettlementRequest (itemRequest p) = Inr n) ps ns \<and>
        w_sends w' = w_sends w @ map (bankSendArgs cfg (runKey cfg role)) ns \<and>
        (\<forall>p \<in> set ps. \<nexists>s. settledAt cfg (TrimSpace (np_RequestID p)) s w))"

lemma linesSent_none: "w_sends w' = w_sends w \<Longrightarrow> linesSent cfg role payouts w w'"
  unfolding linesSent_def by (intro exI [of _ "[]"]) simp

lemma linesSent_cong:
  assumes "linesSent cfg role payouts w1 w1'" and "w_sends w1 = w_sends w" and "w_files w1 = w_files w"
    and "w_sends w1' = w_sends w'"
  shows "linesSent cfg role payouts w w'"
  using assms(1) unfolding linesSent_def assms(2,4) settledAt_cong [OF assms(3)] .

lemma linesSent_Cons:
  assumes "w1 = snd (run_state (executeLine env cfg role p) w)" and "linesSent cfg role payouts w1 w'"
  shows "linesSent cfg role (p # payouts) w w'"
proof -
  obtain ps ns where rest: "subseq ps payouts" "list_all2 (\<lambda>p n. normalizeSettlementRequest (itemRequest p) = Inr n) ps ns"
      "w_sends w' = w_sends w1 @ map (bankSendArgs cfg (runKey cfg role)) ns"
      "\<forall>p \<in> set ps. \<nexists>s. settledAt cfg (TrimSpace (np_RequestID p)) s w1"
    using assms(2) unfolding linesSent_def by blast
  have fresh: "\<forall>p \<in> set ps. \<nexists>s. settledAt cfg (TrimSpace (np_RequestID p)) s w"
    using rest(4) line_settled unfolding assms(1) by blast
  from line_sends [of env cfg role p w] show ?thesis
  proof (elim disjE exE conjE)
    assume "w_sends (snd (run_state (executeLine env cfg role p) w)) = w_sends w"
    with rest fresh show ?thesis
      unfolding linesSent_def assms(1) by (intro exI [of _ ps] exI [of _ ns]) (auto intro: list_emb_Cons)
  next
    fix n
    assume "normalizeSettlementRequest (itemRequest p) = Inr n" "\<nexists>s. settledAt cfg (TrimSpace (np_RequestID p)) s w"
      "w_sends (snd (run_state (executeLine env cfg role p) w)) = w_sends w @ [bankSendArgs cfg (runKey cfg role) n]"
    with rest fresh show ?thesis
      unfolding linesSent_def assms(1) by (intro exI [of _ "p # ps"] exI [of _ "n # ns"]) auto
  qed
qed

lemma items_sent: "linesSent cfg role payouts w (snd (run_state (executeRunItems env cfg role payouts) w))"
proof (induction payouts arbitrary: w)
  case Nil
  show ?case by (rule linesSent_none) simp
next
  case (Cons p payouts)
  obtain r w1 where line: "run_state (executeLine env cfg role p) w = (r, w1)" by (cases "run_state (executeLine env cfg role p) w")
  have "linesSent cfg role payouts w1 (snd (run_state (executeRunItems env cfg role (p # payouts)) w))"
    using Cons [of w1] linesSent_none [of w1 w1] by (cases r) (simp_all add: executeRunItems_Cons line)
  then show ?case by (intro linesSent_Cons [of w1 env]) (simp_all add: line)
qed

section \<open>The whole run\<close>

lemma shouldAttempt_never [simp]: "\<not> shouldAttemptSettlementRunEscrowTopUp code"
  by (simp add: shouldAttemptSettlementRunEscrowTopUp_def)

lemma recordRun_frame [simp]:
  "w_sends (snd (run_state (recordRun env cfg runID n f r) w)) = w_sends w"
  "path \<noteq> runRecordPath cfg runID \<Longrightarrow> w_files (snd (run_state (recordRun env cfg runID n f r) w)) path = w_files w path"
  "w_locks (snd (run_state (recordRun env cfg runID n f r) w)) = w_locks w"
  by (auto simp: recordRun_def writeSettlementRunStoredResult_def split: option.splits)

lemma plannedRun_sent:
  "linesSent cfg (nr_SignerRole n) (nr_Payouts n) w (snd (run_state (executePlannedRun env cfg runID n f response) w))"
proof (cases "rr_OK response")
  case False
  then show ?thesis by (intro linesSent_none) (simp add: executePlannedRun_def)
next
  case True
  show ?thesis
    by (rule linesSent_cong [OF items_sent [of cfg "nr_SignerRole n" "nr_Payouts n" w env]])
      (auto simp: executePlannedRun_def True Let_def split: sum.splits)
qed

text \<open>A refused plan is recorded and nothing is sent.\<close>

lemma plannedRun_refused:
  "\<not> rr_OK response \<Longrightarrow> run_state (executePlannedRun env cfg runID n f response) w = run_state (recordRun env cfg runID n f response) w"
  by (simp add: executePlannedRun_def)

lemma runUnderLock_run:
  "run_state (runUnderLock env cfg request runID n validation) w =
     (let proceed = run_state (executePlannedRun env cfg runID n (env_hashRun env n) (validation\<lparr>rr_DryRun := False\<rparr>)) w in
      case readSettlementRunStoredResult (runRecordPath cfg runID) w of
        ReadOK stored \<Rightarrow>
          if rs_Fingerprint stored \<noteq> env_hashRun env n
          then (Inr (runRefusal runID ''IDEMPOTENCY_CONFLICT'' ''settlement_run_id already exists with different settlement payload'' validation), w)
          else if settlementRunResponseIsFinal (rs_Response stored)
          then (Inr ((rs_Response stored)\<lparr>rr_DryRun := False, rr_IdempotentReplay := True\<rparr>), w)
          else proceed
      | ReadFailed readErr \<Rightarrow> (Inr (runRefusal runID ''STATE_FILE_INVALID'' (''could not read settlement run state file: '' @ readErr) validation), w)
      | NotExist \<Rightarrow> proceed)"
  by (simp add: runUnderLock_def Let_def split: readResult.splits)

lemma runUnderLock_sent:
  "linesSent cfg (nr_SignerRole n) (nr_Payouts n) w (snd (run_state (runUnderLock env cfg request runID n validation) w))"
  unfolding runUnderLock_run Let_def
  by (auto simp: linesSent_none plannedRun_sent split: readResult.splits)

lemma withRunLock_cases:
  obtains (busy) r where "run_state (withRunLock env cfg rid role fn) w = (r, w)" "\<And>x. r = Inr x \<Longrightarrow> \<not> rr_OK x"
  | (held) w1 where "w_chain w1 = w_chain w" "w_files w1 = w_files w" "w_sends w1 = w_sends w"
      "run_state (withRunLock env cfg rid role fn) w =
         (fst (run_state fn w1), (snd (run_state fn w1))\<lparr>w_locks := (w_locks (snd (run_state fn w1)))(runLockPath cfg rid := None)\<rparr>)"
proof (cases "fst (run_state (lockAttempt env cfg (runLockPath cfg rid)) w)")
  case LockHeld
  then show ?thesis
    by (intro held [of "snd (run_state (lockAttempt env cfg (runLockPath cfg rid)) w)"])
      (simp_all add: withRunLock_def Let_def)
next
  case (LockError e)
  show ?thesis by (rule busy [of "Inl e"]) (simp_all add: LockError withRunLock_def Let_def)
next
  case LockBusy
  let ?r = "fst (run_state (withRunLock env cfg rid role fn) w)"
  show ?thesis by (rule busy [of ?r]) (auto simp add: LockBusy withRunLock_def Let_def)
qed

lemma buildSettlementRunPlan_normalized [simp]:
  "fst (fst (run_state (buildSettlementRunPlan env cfg request) c)) = prepared request"
  by (auto simp: buildSettlementRunPlan_def case_prod_beta Let_def split: sum.splits)

section \<open>Counters, totals and the status\<close>

definition counted :: "settlementRunPayoutResult \<Rightarrow> bool" where
  "counted p \<longleftrightarrow> (\<exists>v. parseOptionalUWoloString (pr_AmountUWolo p) = Inr v)"

definition linesWith :: "(settlementRunPayoutResult \<Rightarrow> bool) \<Rightarrow> settlementRunPayoutResult list \<Rightarrow> settlementRunPayoutResult list" where
  "linesWith P ps = filter (\<lambda>p. counted p \<and> P p) ps"

abbreviation sumLines :: "(settlementRunPayoutResult \<Rightarrow> bool) \<Rightarrow> settlementRunPayoutResult list \<Rightarrow> u64" where
  "sumLines P ps \<equiv> (\<Sum>p \<leftarrow> linesWith P ps. lineAmount (pr_AmountUWolo p))"

definition isExecuted :: "settlementRunPayoutResult \<Rightarrow> bool" where
  "isExecuted p \<longleftrightarrow> pr_Status p = ''confirmed'' \<or> pr_Status p = ''accepted''"

definition isRefused :: "settlementRunPayoutResult \<Rightarrow> bool" where
  "isRefused p \<longleftrightarrow> pr_Outcome p = ''refused'' \<or> pr_Outcome p = ''invalid''"

lemmas count_defs = countStatus_def countOutcome_def countFlags_def

lemma countLine:
  fixes p :: settlementRunPayoutResult and v :: u64 and acc :: "settlementRunResponse \<times> runTotals"
  defines "acc1 \<equiv> countFlags p (countOutcome v p (countStatus v p acc))"
  shows "rr_ConfirmedPayoutCount (fst acc1) = rr_ConfirmedPayoutCount (fst acc) + (if pr_Status p = ''confirmed'' then 1 else 0)"
    "rr_AcceptedPayoutCount (fst acc1) = rr_AcceptedPayoutCount (fst acc) + (if pr_Status p = ''accepted'' then 1 else 0)"
    "rr_ExecutedPayoutCount (fst acc1) = rr_ExecutedPayoutCount (fst acc) + (if isExecuted p then 1 else 0)"
    "rr_RefusedPayoutCount (fst acc1) = rr_RefusedPayoutCount (fst acc) + (if isRefused p then 1 else 0)"
    "rr_RejectedPayoutCount (fst acc1) = rr_RejectedPayoutCount (fst acc) + (if pr_Outcome p = ''rejected'' then 1 else 0)"
    "rr_Retryable (fst acc1) \<longleftrightarrow> rr_Retryable (fst acc) \<or> pr_Retryable p"
    "rt_confirmed (snd acc1) = rt_confirmed (snd acc) + (if pr_Status p = ''confirmed'' then v else 0)"
    "rt_accepted (snd acc1) = rt_accepted (snd acc) + (if pr_Status p = ''accepted'' then v else 0)"
    "rt_executed (snd acc1) = rt_executed (snd acc) + (if isExecuted p then v else 0)"
    "rt_refused (snd acc1) = rt_refused (snd acc) + (if isRefused p then v else 0)"
    "rt_rejected (snd acc1) = rt_rejected (snd acc) + (if pr_Outcome p = ''rejected'' then v else 0)"
    "rr_Payouts (fst acc1) = rr_Payouts (fst acc)" "rr_Status (fst acc1) = rr_Status (fst acc)" "rr_OK (fst acc1) = rr_OK (fst acc)"
    "rr_FailureCode (fst acc1) = rr_FailureCode (fst acc)" "rr_RequestedPayoutCount (fst acc1) = rr_RequestedPayoutCount (fst acc)"
  unfolding acc1_def isExecuted_def isRefused_def by (simp_all add: count_defs case_prod_beta)

lemma linesWith_simps [simp]:
  "linesWith P [] = []"
  "linesWith P (p # ps) = (if counted p \<and> P p then p # linesWith P ps else linesWith P ps)"
  by (simp_all add: linesWith_def)

lemma countPayouts_step:
  "countPayouts (p # ps) acc =
     countPayouts ps (if counted p then countFlags p (countOutcome (lineAmount (pr_AmountUWolo p)) p (countStatus (lineAmount (pr_AmountUWolo p)) p acc)) else acc)"
  by (auto simp: counted_def lineAmount_def split: sum.splits)

declare countPayouts.simps(2) [simp del] countPayouts_step [simp]

lemma countPayouts_counts:
  "rr_ConfirmedPayoutCount (fst (countPayouts ps acc)) = rr_ConfirmedPayoutCount (fst acc) + length (linesWith (\<lambda>p. pr_Status p = ''confirmed'') ps)"
  "rr_AcceptedPayoutCount (fst (countPayouts ps acc)) = rr_AcceptedPayoutCount (fst acc) + length (linesWith (\<lambda>p. pr_Status p = ''accepted'') ps)"
  "rr_ExecutedPayoutCount (fst (countPayouts ps acc)) = rr_ExecutedPayoutCount (fst acc) + length (linesWith isExecuted ps)"
  "rr_RefusedPayoutCount (fst (countPayouts ps acc)) = rr_RefusedPayoutCount (fst acc) + length (linesWith isRefused ps)"
  "rr_RejectedPayoutCount (fst (countPayouts ps acc)) = rr_RejectedPayoutCount (fst acc) + length (linesWith (\<lambda>p. pr_Outcome p = ''rejected'') ps)"
  by (induction ps arbitrary: acc) (simp_all add: countLine)

lemma countPayouts_totals:
  "rt_confirmed (snd (countPayouts ps acc)) = rt_confirmed (snd acc) + sumLines (\<lambda>p. pr_Status p = ''confirmed'') ps"
  "rt_accepted (snd (countPayouts ps acc)) = rt_accepted (snd acc) + sumLines (\<lambda>p. pr_Status p = ''accepted'') ps"
  "rt_executed (snd (countPayouts ps acc)) = rt_executed (snd acc) + sumLines isExecuted ps"
  "rt_refused (snd (countPayouts ps acc)) = rt_refused (snd acc) + sumLines isRefused ps"
  "rt_rejected (snd (countPayouts ps acc)) = rt_rejected (snd acc) + sumLines (\<lambda>p. pr_Outcome p = ''rejected'') ps"
  by (induction ps arbitrary: acc) (simp_all add: countLine add.assoc)

lemma countPayouts_frame:
  "rr_Payouts (fst (countPayouts ps acc)) = rr_Payouts (fst acc)" "rr_Status (fst (countPayouts ps acc)) = rr_Status (fst acc)"
  "rr_OK (fst (countPayouts ps acc)) = rr_OK (fst acc)" "rr_FailureCode (fst (countPayouts ps acc)) = rr_FailureCode (fst acc)"
  "rr_RequestedPayoutCount (fst (countPayouts ps acc)) = rr_RequestedPayoutCount (fst acc)"
  by (induction ps arbitrary: acc) (simp_all add: countLine)

section \<open>The response of an executed run\<close>

abbreviation executedRun :: "settlementRunResponse \<Rightarrow> settlementRunPayoutResult list \<Rightarrow> settlementRunResponse" where
  "executedRun response items \<equiv> finalizeSettlementRunResponse (resetRunCounters (response\<lparr>rr_Payouts := items\<rparr>))"

lemma resetRunCounters_sel [simp]:
  "rr_OK (resetRunCounters r) = False" "rr_Status (resetRunCounters r) = []" "rr_FailureCode (resetRunCounters r) = []"
  "rr_Payouts (resetRunCounters r) = rr_Payouts r" "rr_RequestedPayoutCount (resetRunCounters r) = rr_RequestedPayoutCount r"
  "rr_ConfirmedPayoutCount (resetRunCounters r) = 0" "rr_AcceptedPayoutCount (resetRunCounters r) = 0"
  "rr_ExecutedPayoutCount (resetRunCounters r) = 0" "rr_RefusedPayoutCount (resetRunCounters r) = 0" "rr_RejectedPayoutCount (resetRunCounters r) = 0"
  by (simp_all add: resetRunCounters_def)

lemma withRunTotals_sel [simp]:
  "rr_OK (withRunTotals t r) = rr_OK r" "rr_Status (withRunTotals t r) = rr_Status r" "rr_FailureCode (withRunTotals t r) = rr_FailureCode r"
  "rr_Payouts (withRunTotals t r) = rr_Payouts r" "rr_RequestedPayoutCount (withRunTotals t r) = rr_RequestedPayoutCount r"
  "rr_ConfirmedPayoutCount (withRunTotals t r) = rr_ConfirmedPayoutCount r" "rr_AcceptedPayoutCount (withRunTotals t r) = rr_AcceptedPayoutCount r"
  "rr_ExecutedPayoutCount (withRunTotals t r) = rr_ExecutedPayoutCount r" "rr_RefusedPayoutCount (withRunTotals t r) = rr_RefusedPayoutCount r"
  "rr_RejectedPayoutCount (withRunTotals t r) = rr_RejectedPayoutCount r"
  "rr_ExecutedTotalUWolo (withRunTotals t r) = formatOptionalRunAmount (rt_executed t)"
  "rr_ConfirmedTotalUWolo (withRunTotals t r) = formatOptionalRunAmount (rt_confirmed t)"
  "rr_AcceptedTotalUWolo (withRunTotals t r) = formatOptionalRunAmount (rt_accepted t)"
  "rr_RefusedTotalUWolo (withRunTotals t r) = formatOptionalRunAmount (rt_refused t)"
  "rr_RejectedTotalUWolo (withRunTotals t r) = formatOptionalRunAmount (rt_rejected t)"
  by (simp_all add: withRunTotals_def)

lemma withRequested_sel [simp]:
  "rr_OK (withRequested r) = rr_OK r" "rr_Status (withRequested r) = rr_Status r" "rr_FailureCode (withRequested r) = rr_FailureCode r"
  "rr_Payouts (withRequested r) = rr_Payouts r"
  "rr_RequestedPayoutCount (withRequested r) = (if rr_RequestedPayoutCount r = 0 then length (rr_Payouts r) else rr_RequestedPayoutCount r)"
  "rr_ConfirmedPayoutCount (withRequested r) = rr_ConfirmedPayoutCount r" "rr_AcceptedPayoutCount (withRequested r) = rr_AcceptedPayoutCount r"
  "rr_ExecutedPayoutCount (withRequested r) = rr_ExecutedPayoutCount r" "rr_RefusedPayoutCount (withRequested r) = rr_RefusedPayoutCount r"
  "rr_RejectedPayoutCount (withRequested r) = rr_RejectedPayoutCount r"
  by (simp_all add: withRequested_def Let_def)

lemma zero_runTotals_sel [simp]:
  "rt_executed zero_runTotals = 0" "rt_confirmed zero_runTotals = 0" "rt_accepted zero_runTotals = 0"
  "rt_refused zero_runTotals = 0" "rt_rejected zero_runTotals = 0"
  by (simp_all add: zero_runTotals_def)

lemma executedRun_counts:
  "rr_ConfirmedPayoutCount (executedRun r items) = length (linesWith (\<lambda>p. pr_Status p = ''confirmed'') items)"
  "rr_AcceptedPayoutCount (executedRun r items) = length (linesWith (\<lambda>p. pr_Status p = ''accepted'') items)"
  "rr_ExecutedPayoutCount (executedRun r items) = length (linesWith isExecuted items)"
  "rr_RefusedPayoutCount (executedRun r items) = length (linesWith isRefused items)"
  "rr_RejectedPayoutCount (executedRun r items) = length (linesWith (\<lambda>p. pr_Outcome p = ''rejected'') items)"
  "rr_Payouts (executedRun r items) = items"
  "rr_RequestedPayoutCount (executedRun r items) = (if rr_RequestedPayoutCount r = 0 then length items else rr_RequestedPayoutCount r)"
  by (simp_all add: finalizeSettlementRunResponse_def case_prod_beta Let_def countPayouts_counts countPayouts_frame)

lemma executedRun_totals:
  "rr_ConfirmedTotalUWolo (executedRun r items) = formatOptionalRunAmount (sumLines (\<lambda>p. pr_Status p = ''confirmed'') items)"
  "rr_AcceptedTotalUWolo (executedRun r items) = formatOptionalRunAmount (sumLines (\<lambda>p. pr_Status p = ''accepted'') items)"
  "rr_ExecutedTotalUWolo (executedRun r items) = formatOptionalRunAmount (sumLines isExecuted items)"
  "rr_RefusedTotalUWolo (executedRun r items) = formatOptionalRunAmount (sumLines isRefused items)"
  "rr_RejectedTotalUWolo (executedRun r items) = formatOptionalRunAmount (sumLines (\<lambda>p. pr_Outcome p = ''rejected'') items)"
  by (simp_all add: finalizeSettlementRunResponse_def case_prod_beta Let_def countPayouts_totals countPayouts_frame)

lemma deriveSettlementRunStatus_blank:
  assumes "rr_FailureCode r = []" and "rr_Status r = []" and "\<not> rr_OK r"
  shows "fst (snd (deriveSettlementRunStatus r)) \<longleftrightarrow> rr_RequestedPayoutCount r > 0 \<and>
      (rr_ConfirmedPayoutCount r = rr_RequestedPayoutCount r \<or> rr_ExecutedPayoutCount r = rr_RequestedPayoutCount r)"
    and "fst (deriveSettlementRunStatus r) =
      (if rr_RequestedPayoutCount r > 0 \<and> rr_ConfirmedPayoutCount r = rr_RequestedPayoutCount r then ''confirmed''
       else if rr_RequestedPayoutCount r > 0 \<and> rr_ExecutedPayoutCount r = rr_RequestedPayoutCount r then ''accepted''
       else if rr_RefusedPayoutCount r + rr_RejectedPayoutCount r = 0 then []
       else if rr_ExecutedPayoutCount r > 0 then ''partial'' else ''failed'')"
  using assms by (auto simp: deriveSettlementRunStatus_def)

text \<open>The status in terms of the response's own counters.\<close>

lemma executedRun_ok:
  "rr_OK (executedRun r items) \<longleftrightarrow> rr_RequestedPayoutCount (executedRun r items) > 0 \<and>
     (rr_ConfirmedPayoutCount (executedRun r items) = rr_RequestedPayoutCount (executedRun r items) \<or>
      rr_ExecutedPayoutCount (executedRun r items) = rr_RequestedPayoutCount (executedRun r items))"
  unfolding executedRun_counts
  by (simp add: finalizeSettlementRunResponse_def case_prod_beta Let_def deriveSettlementRunStatus_blank countPayouts_counts countPayouts_frame
      cong: if_cong split del: if_split)

lemma executedRun_status:
  "rr_Status (executedRun r items) =
     (if rr_RequestedPayoutCount (executedRun r items) > 0 \<and>
         rr_ConfirmedPayoutCount (executedRun r items) = rr_RequestedPayoutCount (executedRun r items) then ''confirmed''
      else if rr_RequestedPayoutCount (executedRun r items) > 0 \<and>
         rr_ExecutedPayoutCount (executedRun r items) = rr_RequestedPayoutCount (executedRun r items) then ''accepted''
      else if rr_RefusedPayoutCount (executedRun r items) + rr_RejectedPayoutCount (executedRun r items) = 0 then []
      else if rr_ExecutedPayoutCount (executedRun r items) > 0 then ''partial'' else ''failed'')"
  unfolding executedRun_counts
  by (simp add: finalizeSettlementRunResponse_def case_prod_beta Let_def deriveSettlementRunStatus_blank countPayouts_counts countPayouts_frame
      cong: if_cong split del: if_split)

lemma length_linesWith_mono: "(\<And>p. P p \<Longrightarrow> Q p) \<Longrightarrow> length (linesWith P ps) \<le> length (linesWith Q ps)"
  by (induction ps) auto

lemma length_linesWith_le: "length (linesWith P ps) \<le> length ps"
  by (simp add: linesWith_def)

lemma linesWith_all: "length (linesWith P ps) = length ps \<Longrightarrow> \<forall>p \<in> set ps. counted p \<and> P p"
  unfolding linesWith_def
  by (metis (mono_tags, lifting) filter_id_conv length_filter_less linorder_less_linear nless_le filter_True)

section \<open>Refused plans\<close>

lemma finalize_keeps:
  assumes "rr_Status r \<noteq> []"
  shows "rr_OK (finalizeSettlementRunResponse r) = rr_OK r" "rr_Status (finalizeSettlementRunResponse r) = rr_Status r"
    "rr_FailureCode (finalizeSettlementRunResponse r) = rr_FailureCode r"
  using assms by (simp_all add: finalizeSettlementRunResponse_def case_prod_beta Let_def countPayouts_frame)

lemma countPayouts_more [simp]:
  "rr_SettlementRunID (fst (countPayouts ps acc)) = rr_SettlementRunID (fst acc)"
  "rr_RequestedTotalUWolo (fst (countPayouts ps acc)) = rr_RequestedTotalUWolo (fst acc)"
  "rr_SignerRole (fst (countPayouts ps acc)) = rr_SignerRole (fst acc)"
  by (induction ps arbitrary: acc) (simp_all add: count_defs case_prod_beta)

lemma finalize_runID [simp]:
  "rr_SettlementRunID (finalizeSettlementRunResponse r) = rr_SettlementRunID r"
  "rr_SignerRole (finalizeSettlementRunResponse r) = rr_SignerRole r"
  "rr_Payouts (finalizeSettlementRunResponse r) = rr_Payouts r"
  "rr_RequestedTotalUWolo r \<noteq> [] \<Longrightarrow> rr_RequestedTotalUWolo (finalizeSettlementRunResponse r) = rr_RequestedTotalUWolo r"
  by (simp_all add: finalizeSettlementRunResponse_def withRequested_def withRunTotals_def case_prod_beta Let_def countPayouts_frame)

lemma failRun_sel [simp]:
  "\<not> rr_OK (failRun code retry detail r)" "rr_Status (failRun code retry detail r) = ''failed''"
  "rr_FailureCode (failRun code retry detail r) = code" "rr_SettlementRunID (failRun code retry detail r) = rr_SettlementRunID r"
  by (simp_all add: failRun_def)

lemma prepared_status:
  "rr_Status (snd (prepareSettlementRunRequest request)) = ''failed''" "\<not> rr_OK (snd (prepareSettlementRunRequest request))"
  by (simp_all add: prepareSettlementRunRequest_def Let_def)

lemma feeWarning_sel [simp]: "rr_SettlementRunID (feeWarning what v r) = rr_SettlementRunID r" "rr_Payouts (feeWarning what v r) = rr_Payouts r"
  "rr_FailureCode (feeWarning what v r) = rr_FailureCode r" "rr_RequestedTotalUWolo (feeWarning what v r) = rr_RequestedTotalUWolo r"
  "rr_RequestedPayoutCount (feeWarning what v r) = rr_RequestedPayoutCount r"
  by (auto simp: feeWarning_def split: sum.splits)

lemma payoutPlan_runID [simp]:
  "rr_SettlementRunID (fst (run_state (buildPayoutSettlementRunPlan env cfg r t) c)) = rr_SettlementRunID r"
  by (simp add: buildPayoutSettlementRunPlan_def Let_def split: sum.splits)

lemma escrowPlan_runID [simp]:
  "rr_SettlementRunID (fst (run_state (buildEscrowSettlementRunPlan env cfg r t) c)) = rr_SettlementRunID r"
  by (simp add: buildEscrowSettlementRunPlan_def case_prod_beta Let_def split: option.splits)

lemma plan_runID [simp]:
  "rr_SettlementRunID (snd (fst (run_state (buildSettlementRunPlan env cfg request) c))) = TrimSpace (rq_SettlementRunID request)"
  by (auto simp: buildSettlementRunPlan_def case_prod_beta Let_def prepare_always split: sum.splits)

abbreviation planOf :: "'c env \<Rightarrow> settlementConfig \<Rightarrow> settlementRunRequest \<Rightarrow> 'c \<Rightarrow> settlementRunResponse" where
  "planOf env cfg request c \<equiv> snd (fst (run_state (buildSettlementRunPlan env cfg request) c))"

text \<open>The run as the body under its lock, on the state after planning.\<close>

lemma run_cases:
  obtains (unlocked) w' where "snd (run_state (executeSettlementRun env cfg request) w) = w'"
      "w_sends w' = w_sends w" "w_files w' = w_files w"
      "\<And>x. fst (run_state (executeSettlementRun env cfg request) w) = Inr x \<Longrightarrow> TrimSpace (rq_SettlementRunID request) \<noteq> [] \<Longrightarrow> \<not> rr_OK x"
  | (held) w1 locks where "w_files w1 = w_files w" "w_sends w1 = w_sends w"
      "TrimSpace (rq_SettlementRunID request) \<noteq> []"
      "run_state (executeSettlementRun env cfg request) w =
        (let body = run_state (runUnderLock env cfg request (TrimSpace (rq_SettlementRunID request)) (prepared request)
           ((planOf env cfg request (w_chain w))\<lparr>rr_DryRun := False\<rparr>)) w1
         in (fst body, (snd body)\<lparr>w_locks := locks\<rparr>))"
proof -
  let ?w0 = "w\<lparr>w_chain := snd (run_state (buildSettlementRunPlan env cfg request) (w_chain w))\<rparr>"
  let ?v = "(planOf env cfg request (w_chain w))\<lparr>rr_DryRun := False\<rparr>"
  let ?rid = "TrimSpace (rq_SettlementRunID request)"
  let ?fn = "runUnderLock env cfg request ?rid (prepared request) ?v"
  have run: "run_state (executeSettlementRun env cfg request) w =
      (if ?rid = [] then (Inr ?v, ?w0) else run_state (withRunLock env cfg ?rid (rr_SignerRole ?v) ?fn) ?w0)"
    by (simp add: executeSettlementRun_def case_prod_beta Let_def)
  show ?thesis
  proof (cases "?rid = []")
    case True
    then show ?thesis by (intro unlocked [of ?w0]) (simp_all add: run)
  next
    case False
    show ?thesis
    proof (cases rule: withRunLock_cases [of env cfg ?rid "rr_SignerRole ?v" ?fn ?w0])
      case (busy r)
      with False show ?thesis by (intro unlocked [of ?w0]) (auto simp: run)
    next
      case (held w1)
      with False show ?thesis by (intro that(2) [of w1]) (simp_all add: run Let_def)
    qed
  qed
qed

lemma run_sent:
  "linesSent cfg (nr_SignerRole (prepared request)) (nr_Payouts (prepared request)) w
     (snd (run_state (executeSettlementRun env cfg request) w))"
proof (cases rule: run_cases [of env cfg request w])
  case (unlocked w')
  then show ?thesis by (simp add: linesSent_none)
next
  case (held w1 locks)
  then show ?thesis
    by (intro linesSent_cong [OF runUnderLock_sent [of cfg "prepared request" w1 env request "TrimSpace (rq_SettlementRunID request)"]])
      (simp_all add: Let_def)
qed

lemma run_refused_sends:
  assumes "\<not> rr_OK (planOf env cfg request (w_chain w))"
  shows "w_sends (snd (run_state (executeSettlementRun env cfg request) w)) = w_sends w"
  using assms
  by (cases rule: run_cases [of env cfg request w]) (auto simp: runUnderLock_run plannedRun_refused Let_def split: readResult.splits)

end
