(* ===== verification/Run_Properties.thy ===== *)
theory Run_Properties
  imports Run_Lemmas Sample
begin

text \<open>
  The properties of grouped runs: which lines are paid and from which key, that a validated plan is
  covered by the signer's balance, the accounting of the response, and the cases in which the run's
  answer or record is not what the code intends.
\<close>

text \<open>
  A run with at least one requested line that executed its lines and ends with \<open>ok\<close> has a result for each
  requested line, and each result is confirmed or accepted.
\<close>

lemma ok_run_paid_every_line:
  assumes "rr_OK (executedRun response items)" and "length items \<le> rr_RequestedPayoutCount response"
    and "0 < rr_RequestedPayoutCount response"
  shows "length items = rr_RequestedPayoutCount response \<and> (\<forall>p \<in> set items. isExecuted p)"
proof -
  have "length (linesWith (\<lambda>p. pr_Status p = ''confirmed'') items) \<le> length (linesWith isExecuted items)"
    by (rule length_linesWith_mono) (simp add: isExecuted_def)
  with assms length_linesWith_le [of isExecuted items]
  have "length (linesWith isExecuted items) = length items" "length items = rr_RequestedPayoutCount response"
    unfolding executedRun_ok executedRun_counts by auto
  with linesWith_all [of isExecuted items] show ?thesis by blast
qed

definition sampleItem :: settlementRunPayoutResult where
  "sampleItem = zero_settlementRunPayoutResult\<lparr>pr_Status := ''confirmed'', pr_OK := True, pr_Outcome := ''confirmed'', pr_AmountUWolo := ''500''\<rparr>"

lemma sampleItem_counted: "counted sampleItem" "isExecuted sampleItem" "pr_Status sampleItem = ''confirmed''" "\<not> isRefused sampleItem"
    "pr_Outcome sampleItem \<noteq> ''rejected''"
  by (simp_all add: counted_def sampleItem_def isExecuted_def isRefused_def parseOptionalUWoloString_def go_eval)

text \<open>
  C20. The accounts of an executed run are those of its lines.  Counting only the lines whose amount can be
  parsed, each of the five counters is the number of the lines with its status (confirmed, accepted, either of
  the two) or outcome (refused or invalid, rejected), and each of the five printed totals is the decimal form of the \<open>uint64\<close>
  sum of the amounts of exactly those lines, or empty when that sum is zero.
\<close>

theorem executed_run_accounts:
  "rr_ConfirmedPayoutCount (executedRun response items) = length (filter (\<lambda>p. counted p \<and> pr_Status p = ''confirmed'') items) \<and>
   rr_AcceptedPayoutCount (executedRun response items) = length (filter (\<lambda>p. counted p \<and> pr_Status p = ''accepted'') items) \<and>
   rr_ExecutedPayoutCount (executedRun response items) =
     rr_ConfirmedPayoutCount (executedRun response items) + rr_AcceptedPayoutCount (executedRun response items) \<and>
   rr_RefusedPayoutCount (executedRun response items) =
     length (filter (\<lambda>p. counted p \<and> pr_Outcome p \<in> {''refused'', ''invalid''}) items) \<and>
   rr_RejectedPayoutCount (executedRun response items) = length (filter (\<lambda>p. counted p \<and> pr_Outcome p = ''rejected'') items) \<and>
   rr_ConfirmedTotalUWolo (executedRun response items) =
     formatOptionalRunAmount (\<Sum>p \<leftarrow> filter (\<lambda>p. counted p \<and> pr_Status p = ''confirmed'') items. lineAmount (pr_AmountUWolo p)) \<and>
   rr_AcceptedTotalUWolo (executedRun response items) =
     formatOptionalRunAmount (\<Sum>p \<leftarrow> filter (\<lambda>p. counted p \<and> pr_Status p = ''accepted'') items. lineAmount (pr_AmountUWolo p)) \<and>
   rr_ExecutedTotalUWolo (executedRun response items) = formatOptionalRunAmount
     ((\<Sum>p \<leftarrow> filter (\<lambda>p. counted p \<and> pr_Status p = ''confirmed'') items. lineAmount (pr_AmountUWolo p)) +
      (\<Sum>p \<leftarrow> filter (\<lambda>p. counted p \<and> pr_Status p = ''accepted'') items. lineAmount (pr_AmountUWolo p))) \<and>
   rr_RefusedTotalUWolo (executedRun response items) = formatOptionalRunAmount
     (\<Sum>p \<leftarrow> filter (\<lambda>p. counted p \<and> pr_Outcome p \<in> {''refused'', ''invalid''}) items. lineAmount (pr_AmountUWolo p)) \<and>
   rr_RejectedTotalUWolo (executedRun response items) =
     formatOptionalRunAmount (\<Sum>p \<leftarrow> filter (\<lambda>p. counted p \<and> pr_Outcome p = ''rejected'') items. lineAmount (pr_AmountUWolo p))"
proof -
  have "length (linesWith isExecuted items) =
      length (linesWith (\<lambda>p. pr_Status p = ''confirmed'') items) + length (linesWith (\<lambda>p. pr_Status p = ''accepted'') items)"
    by (induction items) (auto simp: isExecuted_def)
  moreover have "sumLines isExecuted items =
      sumLines (\<lambda>p. pr_Status p = ''confirmed'') items + sumLines (\<lambda>p. pr_Status p = ''accepted'') items"
    by (induction items) (auto simp: isExecuted_def)
  ultimately show ?thesis
    unfolding executedRun_counts executedRun_totals by (simp add: linesWith_def isRefused_def)
qed

text \<open>
  C5. A run pays each of its lines at most once and never a line that is already settled.  The
  commands a call of \<open>executeSettlementRun\<close> adds are the \<open>tx bank send\<close>s of some of the prepared lines,
  in their order, from the key of the run's signer role; those lines have valid, pairwise distinct
  request ids, and none of them had a settled record before.
\<close>

theorem run_pays_lines_once:
  "\<exists>ps ns. subseq ps (nr_Payouts (prepared request)) \<and> distinct (map np_RequestID ps) \<and>
     list_all2 (\<lambda>p n. normalizeSettlementRequest (itemRequest p) = Inr n) ps ns \<and>
     w_sends (snd (run_state (executeSettlementRun env cfg request) w)) =
       w_sends w @ map (bankSendArgs cfg (runKey cfg (nr_SignerRole (prepared request)))) ns \<and>
     list_all (\<lambda>p. settlementRequestIDPattern (np_RequestID p) \<and> (\<nexists>s. settledAt cfg (np_RequestID p) s w)) ps"
proof -
  obtain ps ns where sent: "subseq ps (nr_Payouts (prepared request))"
      "list_all2 (\<lambda>p n. normalizeSettlementRequest (itemRequest p) = Inr n) ps ns"
      "w_sends (snd (run_state (executeSettlementRun env cfg request) w)) =
         w_sends w @ map (bankSendArgs cfg (runKey cfg (nr_SignerRole (prepared request)))) ns"
      "\<forall>p \<in> set ps. \<nexists>s. settledAt cfg (TrimSpace (np_RequestID p)) s w"
    using run_sent [of cfg request w env] unfolding linesSent_def by blast
  have ids: "\<forall>p \<in> set ps. settlementRequestIDPattern (np_RequestID p)"
    using prepared_lines(2) [of request] list_emb_set [OF sent(1)] by fastforce
  have "distinct (map np_RequestID ps)"
    using prepared_lines(1) [of request] subseq_map [OF sent(1), of np_RequestID] subseq_distinct by blast
  moreover have "list_all (\<lambda>p. settlementRequestIDPattern (np_RequestID p) \<and> (\<nexists>s. settledAt cfg (np_RequestID p) s w)) ps"
    using ids sent(4) requestID_trim by (fastforce simp: list_all_iff)
  ultimately show ?thesis using sent(1-3) by blast
qed

text \<open>
  C6. Bet-market runs are never paid from the payout signer.  A run of the application
  \<open>aoe2hdbets\<close> whose event id starts with \<open>bet-market-\<close> or whose run id starts with \<open>aoe2-bet-market-\<close>
  (in any case, with surrounding white space) and whose signer role is not escrow sends nothing.
\<close>

theorem bet_market_needs_escrow:
  assumes "EqualFold (TrimSpace (rq_SourceApp request)) ''aoe2hdbets''"
    and "prefix ''bet-market-'' (ToLower (TrimSpace (rq_SourceEventID request))) \<or>
      prefix ''aoe2-bet-market-'' (ToLower (TrimSpace (rq_SettlementRunID request)))"
    and "TrimSpace (ToLower (rq_SignerRole request)) \<noteq> settlementEscrowSignerRole"
  shows "w_sends (snd (run_state (executeSettlementRun env cfg request) w)) = w_sends w"
proof (rule run_refused_sends, cases "runValidationErrors request = []")
  case False
  then show "\<not> rr_OK (planOf env cfg request (w_chain w))"
    using prepare_invalid(2,4,5) [OF False]
    by (simp add: buildSettlementRunPlan_def case_prod_beta Let_def runResponseHasReadyPayouts_def finalize_keeps)
next
  case True
  have "fst (normalizeSettlementRunSignerRole (rq_SignerRole request)) \<noteq> settlementEscrowSignerRole"
    using assms(3) by (auto simp: normalizeSettlementRunSignerRole_def Let_def settlementSignerRole_def settlementEscrowSignerRole_def)
  moreover have "ToLower ''aoe2hdbets'' = ''aoe2hdbets''" by (simp add: go_eval)
  ultimately have "requiresEscrowSignerForSettlementRun (prepared request)"
    using assms(1,2) unfolding requiresEscrowSignerForSettlementRun_def Let_def prepare_valid [OF True] EqualFold_def by simp
  then show "\<not> rr_OK (planOf env cfg request (w_chain w))"
    using prepared_status [of request] by (simp add: buildSettlementRunPlan_def case_prod_beta Let_def finalize_keeps)
qed

definition betMarketRun :: settlementRunRequest where
  "betMarketRun = zero_settlementRunRequest\<lparr>rq_SettlementRunID := ''run-7'', rq_SourceApp := '' AoE2HDBets'',
     rq_SourceEventID := ''Bet-Market-12'', rq_SignerRole := ''payout'',
     rq_Payouts := [zero_settlementRunPayoutInput\<lparr>pi_RequestID := ''req-1'', pi_ToAddress := ''wolo1abc'', pi_AmountUWolo := ''500''\<rparr>]\<rparr>"

theorem bet_market_needs_escrow_witness:
  "w_sends (snd (run_state (executeSettlementRun (sampleEnv (\<lambda>t. False) (\<lambda>t path. None)) sampleCfg betMarketRun) (emptyWorld 0))) = []"
  using bet_market_needs_escrow [of betMarketRun "sampleEnv (\<lambda>t. False) (\<lambda>t path. None)" sampleCfg "emptyWorld 0"]
  by (simp add: betMarketRun_def settlementEscrowSignerRole_def go_eval)

lemma payoutPlan_ok:
  "rr_OK (fst (run_state (buildPayoutSettlementRunPlan env cfg r t) c)) \<longleftrightarrow>
     (\<exists>a. fst (run_state (preflightExecution env cfg (FormatUint t)) c) = (a, None))"
proof -
  let ?h = "fst (run_state (buildHealthReport env cfg) c)"
  have "rr_OK (fst (run_state (buildPayoutSettlementRunPlan env cfg r t) c)) \<longleftrightarrow>
      hr_OK ?h \<and> cfg_PayoutKeyName cfg \<noteq> [] \<and> hr_PayoutAddress ?h \<noteq> [] \<and>
      (\<exists>b. parseOptionalUWoloString (hr_PayoutBalanceUWolo ?h) = Inr b \<and> \<not> b < t \<and>
        \<not> (0 < cfg_FeeHeadroomUWolo cfg \<and> b - t < cfg_FeeHeadroomUWolo cfg) \<and>
        \<not> (0 < cfg_MinPayoutBalanceUWolo cfg \<and> b - t < cfg_MinPayoutBalanceUWolo cfg))"
    by (auto simp: buildPayoutSettlementRunPlan_def Let_def split: sum.splits)
  moreover have "(\<exists>a. fst (run_state (preflightExecution env cfg (FormatUint t)) c) = (a, None)) \<longleftrightarrow>
      hr_OK ?h \<and> cfg_PayoutKeyName cfg \<noteq> [] \<and> hr_PayoutAddress ?h \<noteq> [] \<and>
      (\<exists>b. ParseUint (TrimSpace (hr_PayoutBalanceUWolo ?h)) = Inr b \<and> \<not> snd (snd (checkPayoutCapacity cfg b t)))"
    by (auto simp: preflightExecution_def split: if_splits sum.splits prod.splits)
  moreover have "\<exists>b. hr_PayoutBalanceUWolo ?h = FormatUint b" if "hr_OK ?h" "hr_PayoutAddress ?h \<noteq> []"
    using that buildHealthReport_ok [OF that(2), of env cfg c "hr_PayoutBalanceUWolo ?h"] by blast
  ultimately show ?thesis unfolding payout_cap.check_iff word_reserve_iff not_less by fastforce
qed

lemma escrowPlan_ok:
  "rr_OK (fst (run_state (buildEscrowSettlementRunPlan env cfg r t) c)) \<longleftrightarrow>
     (\<exists>a. fst (run_state (preflightEscrowTransfer env cfg (FormatUint t)) c) = (a, None))"
  by (simp add: buildEscrowSettlementRunPlan_def preflightEscrowTransfer_def case_prod_beta Let_def split: option.splits)

lemma coversAmount_Format [simp]:
  "coversAmount headroom reserve balance (FormatUint t) \<longleftrightarrow> unat t + max (unat headroom) (unat reserve) \<le> unat balance"
  by (simp add: coversAmount_def)

lemma payoutPlan_total [simp]:
  "rr_RequestedTotalUWolo (fst (run_state (buildPayoutSettlementRunPlan env cfg r t) c)) = rr_RequestedTotalUWolo r"
  by (simp add: buildPayoutSettlementRunPlan_def failRun_def Let_def split: sum.splits)

lemma planned_status [simp]:
  "rr_Status (fst (run_state (buildPayoutSettlementRunPlan env cfg r t) c)) \<noteq> []"
  "rr_Status (fst (run_state (buildEscrowSettlementRunPlan env cfg r t) c)) \<noteq> []"
  by (simp_all add: buildPayoutSettlementRunPlan_def buildEscrowSettlementRunPlan_def case_prod_beta Let_def split: sum.splits option.splits)

text \<open>
  C15. A validated plan is covered by its signer's balance.  When the plan made in a state \<open>c\<close> of the outside is \<open>ok\<close>,
  then in that same state the node had the configured chain id, the REST endpoint agreed with the configuration, the key of the
  run's signer role (the escrow key for the escrow role, the payout key otherwise) resolved to an address, and the balance
  reported for that address covers the \<open>uint64\<close> sum of the line amounts together with the larger of that role's two reserves.
\<close>

theorem validated_run_covered:
  assumes "rr_OK (planOf env cfg request c)"
  shows "\<exists>signer balance.
    fst (run_state (signerBalance env cfg
      (if nr_SignerRole (prepared request) = settlementEscrowSignerRole then resolveEscrowAddress env cfg else resolvePayoutAddress env cfg)) c) =
      Some (signer, balance) \<and>
    unat (\<Sum>p \<leftarrow> nr_Payouts (prepared request). lineAmount (np_AmountUWolo p)) +
      (if nr_SignerRole (prepared request) = settlementEscrowSignerRole
       then max (unat (cfg_EscrowFeeHeadroomUWolo cfg)) (unat (cfg_MinEscrowBalanceUWolo cfg))
       else max (unat (cfg_FeeHeadroomUWolo cfg)) (unat (cfg_MinPayoutBalanceUWolo cfg))) \<le> unat balance"
proof -
  let ?total = "\<Sum>p \<leftarrow> nr_Payouts (prepared request). lineAmount (np_AmountUWolo p)"
  have valid: "runValidationErrors request = []"
  proof (rule ccontr)
    assume "runValidationErrors request \<noteq> []"
    then have "rr_Payouts (snd (prepareSettlementRunRequest request)) = []" by (rule prepare_invalid)
    with assms show False
      using prepared_status [of request] by (simp add: buildSettlementRunPlan_def case_prod_beta Let_def runResponseHasReadyPayouts_def finalize_keeps)
  qed
  have "if nr_SignerRole (prepared request) = settlementEscrowSignerRole
      then \<exists>a. fst (run_state (preflightEscrowTransfer env cfg (FormatUint ?total)) c) = (a, None)
      else \<exists>a. fst (run_state (preflightExecution env cfg (FormatUint ?total)) c) = (a, None)"
    using assms prepared_status [of request]
    by (auto simp: buildSettlementRunPlan_def case_prod_beta Let_def finalize_keeps payoutPlan_ok escrowPlan_ok prepared_lines(3) [OF valid]
        split: if_splits sum.splits)
  then show ?thesis
    unfolding preflightExecution_passes preflightEscrowTransfer_passes by (auto split: if_splits)
qed

subsection \<open>Plans on the sample chain\<close>

lemma ready_iff: "runResponseHasReadyPayouts r \<longleftrightarrow> ''ready'' \<in> set (map pr_Outcome (rr_Payouts r))"
  by (force simp: runResponseHasReadyPayouts_def list_ex_iff)

lemma countPayouts_balance [simp]:
  "rr_PayoutBalanceBeforeUWolo (fst (countPayouts ps acc)) = rr_PayoutBalanceBeforeUWolo (fst acc)"
  "rr_EstimatedFeeTotalUWolo (fst (countPayouts ps acc)) = rr_EstimatedFeeTotalUWolo (fst acc)"
  by (induction ps arbitrary: acc) (simp_all add: count_defs case_prod_beta)

lemma finalize_balance [simp]:
  "rr_PayoutBalanceBeforeUWolo (finalizeSettlementRunResponse r) = rr_PayoutBalanceBeforeUWolo r"
  "rr_EstimatedFeeTotalUWolo (finalizeSettlementRunResponse r) = rr_EstimatedFeeTotalUWolo r"
  by (simp_all add: finalizeSettlementRunResponse_def withRequested_def withRunTotals_def case_prod_beta Let_def)

lemma payoutPlan_balance:
  "rr_PayoutBalanceBeforeUWolo (fst (run_state (buildPayoutSettlementRunPlan env cfg r t) c)) =
     hr_PayoutBalanceUWolo (fst (run_state (buildHealthReport env cfg) c))"
  "rr_EstimatedFeeTotalUWolo (fst (run_state (buildPayoutSettlementRunPlan env cfg r t) c)) = rr_EstimatedFeeTotalUWolo r"
  by (simp_all add: buildPayoutSettlementRunPlan_def failRun_def feeWarning_def Let_def split: sum.splits)

lemma duplicateWarnings_fee [simp]: "rr_EstimatedFeeTotalUWolo (duplicateWarnings keys r) = rr_EstimatedFeeTotalUWolo r"
  by (induction keys r rule: duplicateWarnings.induct) (simp_all add: case_prod_beta Let_def)

lemma prepare_fee: "rr_EstimatedFeeTotalUWolo (snd (prepareSettlementRunRequest request)) = []"
  by (simp add: prepareSettlementRunRequest_def zero_settlementRunResponse_def Let_def case_prod_beta)

lemma samplePayoutPlan:
  assumes "t \<le> 999000"
  shows "rr_OK (fst (run_state (buildPayoutSettlementRunPlan (sampleEnv (\<lambda>t. False) io) sampleCfg r t) c))"
proof -
  have "\<not> t > 1000000" "\<not> 1000000 - t < 500" "\<not> 1000000 - t < 1000"
    using assms by (simp_all add: word_le_nat_alt word_less_nat_alt unat_sub_if_size)
  moreover have "parseOptionalUWoloString ''1000000'' = Inr 1000000"
    by (simp add: parseOptionalUWoloString_def go_eval)
  moreover have "cfg_FeeHeadroomUWolo sampleCfg = 500" "cfg_MinPayoutBalanceUWolo sampleCfg = 1000"
    by (simp_all add: sampleCfg_def)
  ultimately show ?thesis by (simp add: buildPayoutSettlementRunPlan_def sample_health Let_def)
qed

lemma samplePlan:
  assumes "runValidationErrors request = []" and "sc_payouts (runScanOf request) \<noteq> []"
    and "rq_SignerRole request = []" and "ToLower (TrimSpace (rq_SourceApp request)) \<noteq> ''aoe2hdbets''" and "sc_totalRequested (runScanOf request) \<le> 999000"
  shows "rr_OK (planOf (sampleEnv (\<lambda>t. False) io) sampleCfg request c)"
    "rr_RequestedTotalUWolo (planOf (sampleEnv (\<lambda>t. False) io) sampleCfg request c) = FormatUint (sc_totalRequested (runScanOf request))"
    "rr_PayoutBalanceBeforeUWolo (planOf (sampleEnv (\<lambda>t. False) io) sampleCfg request c) = ''1000000''"
    "rr_EstimatedFeeTotalUWolo (planOf (sampleEnv (\<lambda>t. False) io) sampleCfg request c) = []"
proof -
  have "length (filter (\<lambda>r. pr_Outcome r = ''ready'') (sc_results (runScanOf request))) > 0"
    using runScanOf_inv [of request] assms(2) unfolding scanInv_def by (metis length_greater_0_conv)
  then have "''ready'' \<in> set (map pr_Outcome (rr_Payouts (snd (prepareSettlementRunRequest request))))"
    unfolding prepare_valid(6) [OF assms(1)] by (force simp: filter_empty_conv)
  moreover have "nr_SignerRole (prepared request) = ''payout''" "ToLower (TrimSpace (nr_SourceApp (prepared request))) \<noteq> ''aoe2hdbets''"
    using assms(3,4) unfolding prepare_valid [OF assms(1)] by (simp_all add: normalizeSettlementRunSignerRole_def settlementSignerRole_def)
  moreover have "rr_RequestedTotalUWolo (snd (prepareSettlementRunRequest request)) = FormatUint (sc_totalRequested (runScanOf request))"
    by (rule prepare_valid(8) [OF assms(1)])
  moreover have "fst (estimateSettlementRunFee sampleCfg k) = []" for k
    by (simp add: estimateSettlementRunFee_def sampleCfg_def)
  ultimately show "rr_OK (planOf (sampleEnv (\<lambda>t. False) io) sampleCfg request c)"
    "rr_RequestedTotalUWolo (planOf (sampleEnv (\<lambda>t. False) io) sampleCfg request c) = FormatUint (sc_totalRequested (runScanOf request))"
    "rr_PayoutBalanceBeforeUWolo (planOf (sampleEnv (\<lambda>t. False) io) sampleCfg request c) = ''1000000''"
    "rr_EstimatedFeeTotalUWolo (planOf (sampleEnv (\<lambda>t. False) io) sampleCfg request c) = []"
    using samplePayoutPlan [OF assms(5)]
    by (simp_all add: buildSettlementRunPlan_def case_prod_beta Let_def ready_iff requiresEscrowSignerForSettlementRun_def
        settlementEscrowSignerRole_def finalize_keeps payoutPlan_total payoutPlan_balance prepare_fee sample_health)
qed

definition sampleLine :: "string \<Rightarrow> string \<Rightarrow> string \<Rightarrow> settlementRunPayoutInput" where
  "sampleLine requestID address amount = zero_settlementRunPayoutInput\<lparr>pi_RequestID := requestID, pi_ToAddress := address, pi_AmountUWolo := amount\<rparr>"

lemma sampleLine_sel [simp]:
  "pi_RequestID (sampleLine i a v) = i" "pi_ToAddress (sampleLine i a v) = a" "pi_AmountUWolo (sampleLine i a v) = v"
  "pi_AmountWolo (sampleLine i a v) = 0" "pi_Memo (sampleLine i a v) = []"
  by (simp_all add: sampleLine_def)

definition sampleRun :: "settlementRunPayoutInput list \<Rightarrow> settlementRunRequest" where
  "sampleRun payouts = zero_settlementRunRequest\<lparr>rq_SettlementRunID := ''run-8'', rq_Payouts := payouts\<rparr>"

lemma sampleRun_valid:
  assumes "payouts \<noteq> []" and "length payouts \<le> 250"
  shows "runValidationErrors (sampleRun payouts) = []" "rq_SignerRole (sampleRun payouts) = []" "rq_SourceApp (sampleRun payouts) = []"
    "rq_Payouts (sampleRun payouts) = payouts"
  using assms
  by (simp_all add: sampleRun_def runValidationErrors_def normalizeSettlementRunSignerRole_def validateSettlementRunID_def optionList_def
      normalizeSettlementRunMetadataID_def settlementRequestIDPattern_def settlementMaxRunPayouts_def go_eval)

lemma scan_valid_line:
  assumes "settlementRequestIDPattern rid" and "isWoloAddress a settlementCanonicalPrefix" and "TrimSpace a = a"
    and "ParseUint amount = Inr v" and "amount \<noteq> ''0''" and "rid \<notin> sc_seenRequestIDs sc"
  shows "sc_totalRequested (scanPayout runID [] role index (sampleLine rid a amount) sc) = sc_totalRequested sc + v"
    "sc_seenRequestIDs (scanPayout runID [] role index (sampleLine rid a amount) sc) = insert rid (sc_seenRequestIDs sc)"
    "sc_payouts (scanPayout runID [] role index (sampleLine rid a amount) sc) = sc_payouts sc @
      [\<lparr>np_Index = index, np_RequestID = rid, np_ToAddress = a, np_AmountUWolo = amount, np_Memo = []\<rparr>]"
proof -
  have "normalizeAmountUWolo amount 0 = Inr amount" by (rule normalizeAmount_fixed [OF assms(4,5)])
  moreover have "TrimSpace rid = rid" "rid \<noteq> []" using assms(1) requestID_trim requestID_nonempty by blast+
  moreover have "parseOptionalUWoloString amount = Inr v"
    using assms(4) TrimSpace_ParseUint [OF assms(4)] ParseUint_isDigit [OF assms(4)] by (simp add: parseOptionalUWoloString_def)
  ultimately show "sc_totalRequested (scanPayout runID [] role index (sampleLine rid a amount) sc) = sc_totalRequested sc + v"
    "sc_seenRequestIDs (scanPayout runID [] role index (sampleLine rid a amount) sc) = insert rid (sc_seenRequestIDs sc)"
    "sc_payouts (scanPayout runID [] role index (sampleLine rid a amount) sc) = sc_payouts sc @
      [\<lparr>np_Index = index, np_RequestID = rid, np_ToAddress = a, np_AmountUWolo = amount, np_Memo = []\<rparr>]"
    using assms by (simp_all add: scanPayout_def normalizeSettlementRequest_def zero_normalizedSettlementRequest_def Let_def)
qed

lemma sampleIDs:
  "settlementRequestIDPattern ''req-1''" "settlementRequestIDPattern ''req-2''" "isWoloAddress ''wolo1abc'' settlementCanonicalPrefix"
  "TrimSpace ''wolo1abc'' = ''wolo1abc''"
  by (simp_all add: settlementRequestIDPattern_def isWoloAddress_def settlementCanonicalPrefix_def go_eval)

theorem validated_run_covered_witness:
  "\<exists>signer balance. fst (run_state (signerBalance (sampleEnv (\<lambda>t. False) (\<lambda>t path. None)) sampleCfg
      (resolvePayoutAddress (sampleEnv (\<lambda>t. False) (\<lambda>t path. None)) sampleCfg)) 0) = Some (signer, balance) \<and>
    500 + 1000 \<le> unat balance"
proof -
  let ?run = "sampleRun [sampleLine ''req-1'' ''wolo1abc'' ''500'']"
  have num: "ParseUint ''500'' = Inr 500" by (simp add: go_eval)
  note valid = sampleRun_valid [of "[sampleLine ''req-1'' ''wolo1abc'' ''500'']"]
  have memo: "cutAt 180 (TrimSpace (rq_Memo ?run)) = []" by (simp add: sampleRun_def)
  have scan: "sc_totalRequested (runScanOf ?run) = 500" "sc_payouts (runScanOf ?run) \<noteq> []"
    unfolding runScanOf_def memo
    by (simp_all add: valid scan_valid_line [OF sampleIDs(1,3,4) num] zero_runScan_def)
  have ok: "rr_OK (planOf (sampleEnv (\<lambda>t. False) (\<lambda>t path. None)) sampleCfg ?run 0)"
    by (rule samplePlan) (use valid scan in simp_all)
  have total: "(\<Sum>p \<leftarrow> nr_Payouts (prepared ?run). lineAmount (np_AmountUWolo p)) = 500"
    using runScanOf_inv [of ?run] scan(1) prepare_valid(1) [of ?run] valid(1) by (simp add: scanInv_def)
  have role: "nr_SignerRole (prepared ?run) \<noteq> settlementEscrowSignerRole"
    using prepare_valid(3) [of ?run] valid(1,2)
    by (simp add: normalizeSettlementRunSignerRole_def settlementSignerRole_def settlementEscrowSignerRole_def)
  show ?thesis using validated_run_covered [OF ok] unfolding total if_not_P [OF role] by (auto simp: sampleCfg_reserves)
qed

text \<open>
  C30. The requested total of a run wraps around.  Two lines of \<open>2 ^ 63\<close> uwolo each add up to a
  requested total of zero, and the plan of that run is validated by a signer that holds one WOLO.
\<close>

theorem run_total_wraps:
  "rr_OK (planOf (sampleEnv (\<lambda>t. False) (\<lambda>t path. None)) sampleCfg
     (sampleRun [sampleLine ''req-1'' ''wolo1abc'' ''9223372036854775808'', sampleLine ''req-2'' ''wolo1abc'' ''9223372036854775808'']) 0) \<and>
   rr_RequestedTotalUWolo (planOf (sampleEnv (\<lambda>t. False) (\<lambda>t path. None)) sampleCfg
     (sampleRun [sampleLine ''req-1'' ''wolo1abc'' ''9223372036854775808'', sampleLine ''req-2'' ''wolo1abc'' ''9223372036854775808'']) 0) = ''0''"
proof -
  let ?run = "sampleRun [sampleLine ''req-1'' ''wolo1abc'' ''9223372036854775808'', sampleLine ''req-2'' ''wolo1abc'' ''9223372036854775808'']"
  have num: "ParseUint ''9223372036854775808'' = Inr 9223372036854775808" by (simp add: go_eval)
  have wrap: "(9223372036854775808 :: u64) + 9223372036854775808 = 0" by simp
  note line = scan_valid_line [OF _ sampleIDs(3,4) num]
  note valid = sampleRun_valid [of "[sampleLine ''req-1'' ''wolo1abc'' ''9223372036854775808'', sampleLine ''req-2'' ''wolo1abc'' ''9223372036854775808'']"]
  have memo: "cutAt 180 (TrimSpace (rq_Memo ?run)) = []" by (simp add: sampleRun_def)
  have scan: "sc_totalRequested (runScanOf ?run) = 0" "sc_payouts (runScanOf ?run) \<noteq> []"
    unfolding runScanOf_def memo using wrap
    by (simp_all add: valid line [OF sampleIDs(1)] line [OF sampleIDs(2)] zero_runScan_def)
  show ?thesis
    using samplePlan [OF valid(1) scan(2) valid(2)] valid(3) scan(1) by (simp add: go_eval)
qed

lemma payoutPlan_validated:
  "rr_OK (fst (run_state (buildPayoutSettlementRunPlan env cfg r t) c)) \<Longrightarrow>
     rr_Status (fst (run_state (buildPayoutSettlementRunPlan env cfg r t) c)) = ''validated''"
  by (auto simp: buildPayoutSettlementRunPlan_def Let_def split: sum.splits if_splits)

lemma payoutPlan_code:
  "rr_OK (fst (run_state (buildPayoutSettlementRunPlan env cfg r t) c)) \<Longrightarrow>
     rr_FailureCode (fst (run_state (buildPayoutSettlementRunPlan env cfg r t) c)) = rr_FailureCode r"
  by (auto simp: buildPayoutSettlementRunPlan_def Let_def split: sum.splits if_splits)

lemma some_line_invalid:
  assumes "runValidationErrors request = []" and "length (nr_Payouts (prepared request)) < length (rq_Payouts request)"
  shows "rr_FailureCode (snd (prepareSettlementRunRequest request)) = ''INVALID_RUN''"
proof -
  have "sc_invalid (runScanOf request)"
  proof (rule ccontr)
    assume "\<not> sc_invalid (runScanOf request)"
    then have "filter (\<lambda>r. pr_Outcome r = ''ready'') (sc_results (runScanOf request)) = sc_results (runScanOf request)"
      using runScanOf_inv [of request] by (auto simp: scanInv_def filter_id_conv)
    then show False using runScanOf_inv [of request] assms(2) by (simp add: scanInv_def prepare_valid(1) [OF assms(1)])
  qed
  then show ?thesis using assms(1) by (simp add: prepareSettlementRunRequest_def runScanOf_def Let_def)
qed

lemma some_line_ready:
  assumes "runValidationErrors request = []" and "nr_Payouts (prepared request) \<noteq> []"
  shows "''ready'' \<in> set (map pr_Outcome (rr_Payouts (snd (prepareSettlementRunRequest request))))"
proof -
  have "length (filter (\<lambda>r. pr_Outcome r = ''ready'') (sc_results (runScanOf request))) > 0"
    using runScanOf_inv [of request] assms(2) unfolding scanInv_def prepare_valid(1) [OF assms(1)] by (metis length_greater_0_conv)
  then show ?thesis unfolding prepare_valid(6) [OF assms(1)] by (force simp: filter_empty_conv)
qed

text \<open>
  C31. A run with an invalid line is validated and can be executed.  When some but not all lines of an
  otherwise well-formed run of the payout signer pass the preparation, the run needs no escrow signer, and the balance
  reported for the payout signer covers the lines that passed together with the larger reserve, the plan is
  \<open>ok\<close> with the status \<open>validated\<close>, although it carries the failure code \<open>INVALID_RUN\<close> of the bad lines.
\<close>

theorem invalid_line_run_validated:
  assumes "runValidationErrors request = []"
    and "nr_Payouts (prepared request) \<noteq> []" and "length (nr_Payouts (prepared request)) < length (rq_Payouts request)"
    and "nr_SignerRole (prepared request) \<noteq> settlementEscrowSignerRole" and "\<not> requiresEscrowSignerForSettlementRun (prepared request)"
    and "cfg_PayoutKeyName cfg \<noteq> []" and "escrowAddressOK cfg"
    and "fst (run_state (signerBalance env cfg (resolvePayoutAddress env cfg)) c) = Some (signer, balance)" and "signer \<noteq> []"
    and "unat (\<Sum>p \<leftarrow> nr_Payouts (prepared request). lineAmount (np_AmountUWolo p)) +
      max (unat (cfg_FeeHeadroomUWolo cfg)) (unat (cfg_MinPayoutBalanceUWolo cfg)) \<le> unat balance"
  shows "rr_OK (planOf env cfg request c) \<and> rr_Status (planOf env cfg request c) = ''validated'' \<and>
    rr_FailureCode (planOf env cfg request c) = ''INVALID_RUN''"
proof -
  let ?total = "\<Sum>p \<leftarrow> nr_Payouts (prepared request). lineAmount (np_AmountUWolo p)"
  have "fst (run_state (preflightExecution env cfg (FormatUint ?total)) c) = (signer, None)"
    unfolding preflightExecution_passes using assms(6-10) by simp
  then have "rr_OK (fst (run_state (buildPayoutSettlementRunPlan env cfg r ?total) c))" for r
    unfolding payoutPlan_ok by blast
  with assms(1,4,5) some_line_ready [OF assms(1,2)] some_line_invalid [OF assms(1,3)] show ?thesis
    by (simp add: buildSettlementRunPlan_def case_prod_beta Let_def ready_iff finalize_keeps prepared_lines(3)
        payoutPlan_code payoutPlan_validated)
qed

definition mixedRun :: settlementRunRequest where
  "mixedRun = sampleRun [sampleLine ''req-1'' ''wolo1abc'' ''500'', sampleLine ''req-2'' ''cosmos1abc'' ''500'']"

lemma mixedRun_scan:
  "runValidationErrors mixedRun = []" "sc_invalid (runScanOf mixedRun)" "sc_totalRequested (runScanOf mixedRun) = 500"
  "sc_payouts (runScanOf mixedRun) = [\<lparr>np_Index = 0, np_RequestID = ''req-1'', np_ToAddress = ''wolo1abc'', np_AmountUWolo = ''500'', np_Memo = []\<rparr>]"
  "rq_SignerRole mixedRun = []" "rq_SourceApp mixedRun = []" "length (rq_Payouts mixedRun) = 2"
proof -
  have num: "ParseUint ''500'' = Inr 500" by (simp add: go_eval)
  note valid = sampleRun_valid [of "[sampleLine ''req-1'' ''wolo1abc'' ''500'', sampleLine ''req-2'' ''cosmos1abc'' ''500'']", folded mixedRun_def]
  have memo: "cutAt 180 (TrimSpace (rq_Memo mixedRun)) = []" by (simp add: mixedRun_def sampleRun_def)
  have bad: "normalizeSettlementRequest (zero_settlementExecuteRequest\<lparr>xq_RequestID := ''req-2'', xq_ToAddress := ''cosmos1abc'', xq_AmountUWolo := ''500'',
      xq_AmountWolo := 0, xq_Memo := []\<rparr>) = Inl ''to_address must be a valid wolo address''"
    using sampleIDs by (simp add: normalizeSettlementRequest_def isWoloAddress_def settlementCanonicalPrefix_def go_eval)
  have bad2: "TrimSpace ''req-2'' = ''req-2''" by (rule requestID_trim [OF sampleIDs(2)])
  have badline: "scanPayout runID [] role index (sampleLine ''req-2'' ''cosmos1abc'' ''500'') sc = sc\<lparr>sc_results :=
      sc_results (scanPayout runID [] role index (sampleLine ''req-2'' ''cosmos1abc'' ''500'') sc), sc_invalid := True\<rparr>" for runID role index sc
    using bad by (simp add: scanPayout_def bad2 Let_def)
  note line = scan_valid_line [OF sampleIDs(1,3,4) num]
  show "runValidationErrors mixedRun = []" "rq_SignerRole mixedRun = []" "rq_SourceApp mixedRun = []" "length (rq_Payouts mixedRun) = 2"
    using valid by simp_all
  show "sc_invalid (runScanOf mixedRun)" "sc_totalRequested (runScanOf mixedRun) = 500"
    "sc_payouts (runScanOf mixedRun) = [\<lparr>np_Index = 0, np_RequestID = ''req-1'', np_ToAddress = ''wolo1abc'', np_AmountUWolo = ''500'', np_Memo = []\<rparr>]"
    unfolding runScanOf_def memo
    by (simp_all add: valid) (subst badline, simp add: line zero_runScan_def)+
qed

theorem invalid_line_run_validated_witness:
  "rr_OK (planOf (sampleEnv (\<lambda>t. False) (\<lambda>t path. None)) sampleCfg mixedRun 0) \<and>
   rr_FailureCode (planOf (sampleEnv (\<lambda>t. False) (\<lambda>t path. None)) sampleCfg mixedRun 0) = ''INVALID_RUN''"
proof -
  have role: "nr_SignerRole (prepared mixedRun) \<noteq> settlementEscrowSignerRole" and noescrow: "\<not> requiresEscrowSignerForSettlementRun (prepared mixedRun)"
    unfolding requiresEscrowSignerForSettlementRun_def prepare_valid [OF mixedRun_scan(1)]
    by (simp_all add: mixedRun_scan normalizeSettlementRunSignerRole_def settlementSignerRole_def settlementEscrowSignerRole_def go_eval)
  have total: "(\<Sum>p \<leftarrow> nr_Payouts (prepared mixedRun). lineAmount (np_AmountUWolo p)) = 500"
    using runScanOf_inv [of mixedRun] mixedRun_scan(3) prepare_valid(1) [OF mixedRun_scan(1)] by (simp add: scanInv_def)
  have "escrowAddressOK sampleCfg" "lineAmount ''500'' = 500"
    by (simp_all add: escrowAddressOK_def isWoloAddress_def lineAmount_def parseOptionalUWoloString_def go_eval)
  then show ?thesis
    using invalid_line_run_validated [OF mixedRun_scan(1) _ _ role noescrow, of sampleCfg "sampleEnv (\<lambda>t. False) (\<lambda>t path. None)" 0 "''wolo1payer''" 1000000]
    by (simp add: total prepare_valid(1) [OF mixedRun_scan(1)] mixedRun_scan sampleCfg_reserves)
qed

text \<open>
  A run that leaves lines without a result has no status.  When every executed line of a run is
  confirmed or accepted, none is counted as refused or rejected, and there are fewer lines than
  requested, the response is neither \<open>ok\<close> nor failed: its status is empty, and its record is not final.
\<close>

theorem incomplete_run_without_status:
  assumes "\<forall>p \<in> set items. isExecuted p \<and> \<not> isRefused p \<and> pr_Outcome p \<noteq> ''rejected''"
    and "length items < rr_RequestedPayoutCount response"
  shows "\<not> rr_OK (executedRun response items) \<and> rr_Status (executedRun response items) = [] \<and>
    \<not> settlementRunResponseIsFinal (executedRun response items)"
proof -
  have none: "linesWith isRefused items = []" "linesWith (\<lambda>p. pr_Outcome p = ''rejected'') items = []"
    using assms(1) by (auto simp: linesWith_def filter_empty_conv)
  have k: "rr_RequestedPayoutCount (executedRun response items) = rr_RequestedPayoutCount response"
    using assms(2) by (simp add: executedRun_counts)
  have lt: "length (linesWith isExecuted items) < rr_RequestedPayoutCount response"
      "length (linesWith (\<lambda>p. pr_Status p = ''confirmed'') items) < rr_RequestedPayoutCount response"
    using assms(2) length_linesWith_le [of _ items] le_less_trans by blast+
  have ok: "\<not> rr_OK (executedRun response items)"
    unfolding executedRun_ok k executedRun_counts(1,3) using lt by auto
  have "rr_Status (executedRun response items) = []"
    unfolding executedRun_status k executedRun_counts(1,3,4,5) none using lt by auto
  with ok show ?thesis by (simp add: settlementRunResponseIsFinal_def EqualFold_def ToLower_def)
qed

theorem incomplete_run_without_status_witness:
  "rr_Status (executedRun (zero_settlementRunResponse\<lparr>rr_RequestedPayoutCount := 2\<rparr>) [sampleItem]) = []"
  using incomplete_run_without_status [of "[sampleItem]" "zero_settlementRunResponse\<lparr>rr_RequestedPayoutCount := 2\<rparr>"]
  by (simp add: sampleItem_counted)

section \<open>Records of refused runs\<close>

lemma withRunLock_free:
  assumes "env_ioError env (w_chain w) (runLockPath cfg rid) = None" and "w_locks w (runLockPath cfg rid) = None"
    and "w1 = w\<lparr>w_locks := (w_locks w)(runLockPath cfg rid \<mapsto> env_now env (w_chain w))\<rparr>"
  shows "run_state (withRunLock env cfg rid role fn) w =
    (fst (run_state fn w1), (snd (run_state fn w1))\<lparr>w_locks := (w_locks (snd (run_state fn w1)))(runLockPath cfg rid := None)\<rparr>)"
  using assms by (simp add: withRunLock_def lockAttempt_free Let_def)

lemma invalid_plan:
  assumes "runValidationErrors request \<noteq> []"
  shows "snd (run_state (buildSettlementRunPlan env cfg request) c) = c" and "\<not> rr_OK (planOf env cfg request c)" and "\<not> rr_Retryable (planOf env cfg request c)"
  using prepare_invalid [OF assms]
  by (simp_all add: buildSettlementRunPlan_def case_prod_beta Let_def runResponseHasReadyPayouts_def finalize_keeps)
    (simp add: finalizeSettlementRunResponse_def withRunTotals_def withRequested_def prepareSettlementRunRequest_def assms Let_def case_prod_beta)

lemma recordRun_ok:
  assumes "env_ioError env (w_chain w) (runRecordPath cfg rid) = None"
  shows "w_files (snd (run_state (recordRun env cfg rid n f r) w)) (runRecordPath cfg rid) =
      Some (RunFile \<lparr>rs_Request = n, rs_Fingerprint = f, rs_Response = r, rs_UpdatedAt = env_now env (w_chain w)\<rparr>)"
    "w_chain (snd (run_state (recordRun env cfg rid n f r) w)) = w_chain w"
  using assms by (simp_all add: recordRun_def writeSettlementRunStoredResult_def)

text \<open>What a run that fails validation leaves behind: its record, and a released lock.\<close>

lemma refused_run_record:
  assumes "runValidationErrors request \<noteq> []" and "TrimSpace (rq_SettlementRunID request) = rid" and "rid \<noteq> []"
    and "env_ioError env (w_chain w) (runLockPath cfg rid) = None" and "env_ioError env (w_chain w) (runRecordPath cfg rid) = None"
    and "w_locks w (runLockPath cfg rid) = None" and "w_files w (runRecordPath cfg rid) = None"
  shows "\<exists>s. w_files (snd (run_state (executeSettlementRun env cfg request) w)) (runRecordPath cfg rid) = Some (RunFile s) \<and>
    rs_Fingerprint s = env_hashRun env zero_normalizedSettlementRunRequest \<and> \<not> rr_OK (rs_Response s) \<and> \<not> rr_Retryable (rs_Response s) \<and>
    w_locks (snd (run_state (executeSettlementRun env cfg request) w)) (runLockPath cfg rid) = None \<and>
    w_chain (snd (run_state (executeSettlementRun env cfg request) w)) = w_chain w"
proof -
  let ?v = "(planOf env cfg request (w_chain w))\<lparr>rr_DryRun := False\<rparr>"
  let ?w1 = "w\<lparr>w_locks := (w_locks w)(runLockPath cfg rid \<mapsto> env_now env (w_chain w))\<rparr>"
  let ?rec = "run_state (recordRun env cfg rid zero_normalizedSettlementRunRequest (env_hashRun env zero_normalizedSettlementRunRequest) ?v) ?w1"
  have body: "run_state (runUnderLock env cfg request rid zero_normalizedSettlementRunRequest ?v) ?w1 = ?rec"
    using invalid_plan(2) [OF assms(1), of env cfg "w_chain w"] assms(7)
    by (simp add: runUnderLock_run readSettlementRunStoredResult_def readStateFile_def plannedRun_refused)
  have "run_state (executeSettlementRun env cfg request) w =
      (fst ?rec, (snd ?rec)\<lparr>w_locks := (w_locks (snd ?rec))(runLockPath cfg rid := None)\<rparr>)"
    using assms(2,3) TrimSpace_idem [of "rq_SettlementRunID request"] by (simp add: executeSettlementRun_def case_prod_beta invalid_plan(1) [OF assms(1)]
        prepare_invalid(1) [OF assms(1)] withRunLock_free [OF assms(4,6) refl] body Let_def)
  moreover have "env_ioError env (w_chain ?w1) (runRecordPath cfg rid) = None" using assms(5) by simp
  note recordRun_ok [OF this, of zero_normalizedSettlementRunRequest "env_hashRun env zero_normalizedSettlementRunRequest" ?v]
  ultimately show ?thesis using invalid_plan(2,3) [OF assms(1), of env cfg "w_chain w"] by simp
qed

lemma stray_id:
  assumes "settlementRequestIDPattern rid" and "TrimSpace (rq_SettlementRunID run) = ''../requests/'' @ rid"
  shows "runValidationErrors run \<noteq> []"
proof -
  have "\<not> settlementRequestIDPattern (''../requests/'' @ rid)" by (simp add: settlementRequestIDPattern_def go_eval)
  then show ?thesis by (simp add: runValidationErrors_def assms(2) validateSettlementRunID_def optionList_def)
qed

text \<open>
  C33. A refused run can block the payment of a request.  The id of a run is part of a file name before it is validated, and the
  path is cleaned, so a run with the id \<open>../requests/\<close>\<open>rid\<close> is refused, but its refusal is written to the record
  of the request \<open>rid\<close>.  If there was no such record, then afterwards the request counts as settled with a response
  that is not \<open>ok\<close> and has no transaction, and no sequence of later calls, whatever the outside does in between, sends anything for it.
\<close>

theorem refused_run_blocks_request:
  assumes "settlementRequestIDPattern rid" and "TrimSpace (rq_SettlementRunID run) = ''../requests/'' @ rid"
    and "env_ioError env (w_chain w) (runLockPath cfg (''../requests/'' @ rid)) = None"
    and "env_ioError env (w_chain w) (requestRecordPath cfg rid) = None"
    and "w_locks w (runLockPath cfg (''../requests/'' @ rid)) = None" and "w_files w (requestRecordPath cfg rid) = None"
    and "w' = snd (run_state (executeSettlementRun env cfg run) w)"
  shows "(\<exists>s. settledAt cfg rid s w' \<and> \<not> xr_OK (sr_Response s) \<and> xr_TxHash (sr_Response s) = []) \<and>
    filter (sentFor rid) (serveCalls env' cfg calls w') = []"
proof -
  have path: "runRecordPath cfg (''../requests/'' @ rid) = requestRecordPath cfg rid"
    by (rule runRecordPath_stray [OF plainID_valid [OF assms(1)]])
  obtain s where "w_files w' (requestRecordPath cfg rid) = Some (RunFile s)" "\<not> rr_OK (rs_Response s)" "\<not> rr_Retryable (rs_Response s)"
    using refused_run_record [OF stray_id [OF assms(1,2)] assms(2) _ assms(3) _ assms(5), unfolded path] assms(4,6,7) by auto
  then have s: "settledAt cfg rid (requestOfRun s) w'" "\<not> xr_OK (sr_Response (requestOfRun s))" "xr_TxHash (sr_Response (requestOfRun s)) = []"
    using assms(1) by (simp_all add: settledAt_def readSettlementStoredResult_def readStateFile_def isSettled_def)
  then show ?thesis using serve_settled [OF s(1)] by blast
qed

definition strayRun :: settlementRunRequest where
  "strayRun = zero_settlementRunRequest\<lparr>rq_SettlementRunID := ''../requests/req-1''\<rparr>"

theorem refused_run_blocks_request_witness:
  "filter (sentFor ''req-1'') (serveCalls (sampleEnv (\<lambda>t. False) (\<lambda>t path. None)) sampleCfg [CallPayout sampleRequest]
     (snd (run_state (executeSettlementRun (sampleEnv (\<lambda>t. False) (\<lambda>t path. None)) sampleCfg strayRun) (emptyWorld 0)))) = [] \<and>
   length (filter (sentFor ''req-1'') (serveCalls (sampleEnv (\<lambda>t. False) (\<lambda>t path. None)) sampleCfg [CallPayout sampleRequest] (emptyWorld 0))) = 1"
proof -
  have "TrimSpace (rq_SettlementRunID strayRun) = ''../requests/'' @ ''req-1''" by (simp add: strayRun_def go_eval)
  from refused_run_blocks_request [OF sample_id this, of "sampleEnv (\<lambda>t. False) (\<lambda>t path. None)" "emptyWorld 0" sampleCfg,
      OF _ _ _ _ refl, of "sampleEnv (\<lambda>t. False) (\<lambda>t path. None)" "[CallPayout sampleRequest]"]
  show ?thesis using sample_execute(1) [of "emptyWorld 0"] by (simp add: sentFor_def logCall_def)
qed

text \<open>
  C34. A refused attempt uses up its run id.  After a run that failed validation, a run with the same
  id whose fingerprint is not that of the empty request is answered \<open>IDEMPOTENCY_CONFLICT\<close> and sends
  nothing, so the corrected run can never be executed under its id.
\<close>

theorem invalid_attempt_blocks_run_id:
  assumes "runValidationErrors bad \<noteq> []" and "TrimSpace (rq_SettlementRunID bad) = rid" and "rid \<noteq> []"
    and "\<And>c. env_ioError env c (runLockPath cfg rid) = None" and "\<And>c. env_ioError env c (runRecordPath cfg rid) = None"
    and "w_locks w (runLockPath cfg rid) = None" and "w_files w (runRecordPath cfg rid) = None"
    and "TrimSpace (rq_SettlementRunID request) = rid"
    and "env_hashRun env (prepared request) \<noteq> env_hashRun env zero_normalizedSettlementRunRequest"
  shows "\<exists>r. fst (run_state (do { executeSettlementRun env cfg bad; executeSettlementRun env cfg request }) w) = Inr r \<and>
    rr_FailureCode r = ''IDEMPOTENCY_CONFLICT'' \<and> \<not> rr_Retryable r \<and>
    w_sends (snd (run_state (do { executeSettlementRun env cfg bad; executeSettlementRun env cfg request }) w)) =
      w_sends (snd (run_state (executeSettlementRun env cfg bad) w))"
proof -
  let ?w = "snd (run_state (executeSettlementRun env cfg bad) w)"
  obtain s where s: "w_files ?w (runRecordPath cfg rid) = Some (RunFile s)" "w_locks ?w (runLockPath cfg rid) = None"
      "rs_Fingerprint s = env_hashRun env zero_normalizedSettlementRunRequest"
    using refused_run_record [OF assms(1-3) assms(4) assms(5) assms(6,7)] by blast
  let ?w0 = "?w\<lparr>w_chain := snd (run_state (buildSettlementRunPlan env cfg request) (w_chain ?w))\<rparr>"
  have free: "env_ioError env (w_chain ?w0) (runLockPath cfg rid) = None" "w_locks ?w0 (runLockPath cfg rid) = None"
    using assms(4) s(2) by simp_all
  have trim: "TrimSpace rid = rid" using assms(2) TrimSpace_idem by metis
  show ?thesis
    using s assms(3,8,9) trim
    by (simp add: executeSettlementRun_def [of env cfg request] case_prod_beta Let_def withRunLock_free [OF free refl]
        runUnderLock_run readSettlementRunStoredResult_def readStateFile_def runRefusal_def)
qed

definition hashingEnv :: "int env" where
  "hashingEnv = (sampleEnv (\<lambda>t. False) (\<lambda>t path. None))\<lparr>env_hashRun := nr_SettlementRunID\<rparr>"

theorem invalid_attempt_blocks_run_id_witness:
  "\<exists>r. fst (run_state (do { executeSettlementRun hashingEnv sampleCfg (sampleRun []);
      executeSettlementRun hashingEnv sampleCfg (sampleRun [sampleLine ''req-1'' ''wolo1abc'' ''500'']) }) (emptyWorld 0)) = Inr r \<and>
    rr_FailureCode r = ''IDEMPOTENCY_CONFLICT''"
proof -
  have rid: "TrimSpace (rq_SettlementRunID (sampleRun ps)) = ''run-8''" for ps by (simp add: sampleRun_def go_eval)
  have "runValidationErrors (sampleRun []) \<noteq> []" by (simp add: runValidationErrors_def sampleRun_def)
  moreover have "nr_SettlementRunID (prepared (sampleRun [sampleLine ''req-1'' ''wolo1abc'' ''500''])) = ''run-8''"
    using prepare_valid(2) [OF sampleRun_valid(1)] rid by simp
  ultimately show ?thesis
    using invalid_attempt_blocks_run_id [of "sampleRun []" "''run-8''" hashingEnv sampleCfg "emptyWorld 0"
        "sampleRun [sampleLine ''req-1'' ''wolo1abc'' ''500'']"] rid
    by (fastforce simp: hashingEnv_def)
qed

end
