(* ===== verification/Request_Properties.thy ===== *)
theory Request_Properties
  imports Sample
begin

text \<open>
  Properties of request validation, amounts, identifiers, the reserve checks and the serving guard,
  with the inputs on which amounts are not what the messages promise.
\<close>

text \<open>
  C24. Normalisation is stable: a normalised request, handed back to the normaliser as a grouped run
  does, is accepted unchanged, provided its amount was given in uwolo or within \<open>int64\<close> micro-units
  and its memo was not cut.
\<close>

theorem normalized_request_stable:
  assumes "normalizeSettlementRequest request = Inr n"
    and "TrimSpace (xq_AmountUWolo request) \<noteq> [] \<or> sint (xq_AmountWolo request) \<le> 9223372036854"
    and "length (TrimSpace (xq_Memo request)) \<le> 180"
  shows "normalizeSettlementRequest (requestOfNormalized n) = Inr n"
  using assms by (rule normalize_again)

definition plainRequest :: settlementExecuteRequest where
  "plainRequest = zero_settlementExecuteRequest\<lparr>xq_RequestID := '' req-1 '', xq_ToAddress := ''wolo1abc '', xq_AmountUWolo := ''500''\<rparr>"

theorem normalized_request_stable_witness:
  "\<exists>n. normalizeSettlementRequest plainRequest = Inr n \<and> normalizeSettlementRequest (requestOfNormalized n) = Inr n"
proof -
  have "\<exists>n. normalizeSettlementRequest plainRequest = Inr n"
    by (simp add: plainRequest_def normalizeSettlementRequest_def normalizeAmountUWolo_def settlementRequestIDPattern_def
        isWoloAddress_def settlementCanonicalPrefix_def go_eval Let_def)
  then obtain n where n: "normalizeSettlementRequest plainRequest = Inr n" by blast
  moreover have "TrimSpace (xq_AmountUWolo plainRequest) \<noteq> []" "TrimSpace (xq_Memo plainRequest) = []"
    by (simp_all add: plainRequest_def go_eval)
  ultimately show ?thesis using normalized_request_stable [OF n] by auto
qed

text \<open>
  A zero amount is accepted.  Only the literal \<open>0\<close> is refused as not greater than zero; \<open>00\<close>
  passes validation and is a payment of nothing.
\<close>

theorem zero_amount_accepted:
  "normalizeAmountUWolo ''00'' 0 = Inr ''00'' \<and> ParseUint ''00'' = Inr 0 \<and>
   normalizeAmountUWolo ''0'' 0 = Inl ''amount_uwolo must be greater than zero''"
  by (simp add: normalizeAmountUWolo_def go_eval Let_def)

text \<open>
  Amounts in WOLO overflow.  An \<open>amount_wolo\<close> of 18446744073710 is accepted as 448384 uwolo, and
  one of 9223372036855 as a negative number of uwolo.
\<close>

theorem wolo_amount_overflows:
  "normalizeAmountUWolo [] 18446744073710 = Inr ''448384'' \<and>
   normalizeAmountUWolo [] 9223372036855 = Inr ''-9223372036854551616''"
  by (simp add: normalizeAmountUWolo_def go_eval Let_def)

text \<open>
  The display form of an amount determines it, for amounts below \<open>2 ^ 63\<close> uwolo; a larger amount
  is displayed as the empty string.
\<close>

theorem display_amount_injective:
  assumes "uint v < 2 ^ 63" and "uint u < 2 ^ 63"
  shows "(formatDisplayAmount (FormatUint v) = formatDisplayAmount (FormatUint u) \<longleftrightarrow> v = u) \<and>
    (\<forall>x. 2 ^ 63 \<le> uint x \<longrightarrow> formatDisplayAmount (FormatUint x) = [])"
  using formatDisplayAmount_inject [OF assms] formatDisplayAmount_large [OF ParseUint_FormatUint] by auto

theorem display_amount_injective_witness:
  "formatDisplayAmount (FormatUint 1500000) \<noteq> formatDisplayAmount (FormatUint 1500001)"
  using display_amount_injective [of 1500000 1500001] by simp

text \<open>
  C26. A list of Cosmos coins is read back as it is printed: splitting the comma-separated printed
  form of well-formed coins gives the coins.
\<close>

theorem coins_read_back:
  assumes "cs \<noteq> []" and "\<forall>c \<in> set cs. wfCoin c"
  shows "splitCoinAmounts (Join (map printCoin cs) '','') = cs"
  using assms by (rule splitCoinAmounts_print)

theorem coins_read_back_witness:
  "splitCoinAmounts (Join (map printCoin [\<lparr>co_Amount = ''15'', co_Denom = ''uwolo''\<rparr>, \<lparr>co_Amount = ''7'', co_Denom = ''uatom''\<rparr>]) '','') =
     [\<lparr>co_Amount = ''15'', co_Denom = ''uwolo''\<rparr>, \<lparr>co_Amount = ''7'', co_Denom = ''uatom''\<rparr>]"
  by (rule coins_read_back) (simp_all add: wfCoin_def go_eval)

text \<open>
  C23. The capacity checks are exact: each rail's check passes exactly when the balance covers the
  request together with the larger of the rail's fee headroom and reserve floor, as natural numbers.
\<close>

theorem capacity_checks_exact:
  "(\<not> snd (snd (checkPayoutCapacity cfg balance request)) \<longleftrightarrow>
      unat request + max (unat (cfg_FeeHeadroomUWolo cfg)) (unat (cfg_MinPayoutBalanceUWolo cfg)) \<le> unat balance) \<and>
   (\<not> snd (snd (checkEscrowCapacity cfg balance request)) \<longleftrightarrow>
      unat request + max (unat (cfg_EscrowFeeHeadroomUWolo cfg)) (unat (cfg_MinEscrowBalanceUWolo cfg)) \<le> unat balance)"
  using payout_cap.pass_nat escrow_cap.pass_nat by blast

lemma showNat_length: "n < 1000 \<Longrightarrow> length (showNat n) \<le> 3"
  by (subst showNat.simps, simp, subst showNat.simps, simp, subst showNat.simps, simp)

lemma padZero_length: "length s \<le> w \<Longrightarrow> length (padZero w s) = w"
  by (simp add: padZero_def)

text \<open>
  C25. The request ids derived for the lines of a run are valid request ids and differ from line to
  line, for every run id that passes validation and every line a run may have.
\<close>

theorem derived_ids_valid:
  assumes "validateSettlementRunID runID = None" and "i < settlementMaxRunPayouts" and "j < settlementMaxRunPayouts"
  shows "settlementRequestIDPattern (deriveSettlementRunRequestID runID i) \<and>
    (deriveSettlementRunRequestID runID i = deriveSettlementRunRequestID runID j \<longleftrightarrow> i = j)"
proof -
  have pat: "settlementRequestIDPattern runID" and len: "length runID \<le> 96"
    using assms(1) by (auto simp: validateSettlementRunID_def split: if_splits)
  then obtain c cs where runID: "runID = c # cs" by (cases runID) (auto simp: settlementRequestIDPattern_def)
  let ?d = "\<lambda>k. padZero 3 (Itoa (k + 1))"
  have digits: "list_all isDigit (?d k)" for k by (rule padZero_digits [OF showNat_digits])
  have dlen: "length (?d i) = 3"
    using assms(2) showNat_length [of "i + 1"] by (intro padZero_length) (simp add: settlementMaxRunPayouts_def)
  have sep: "list_all (\<lambda>c. isAlnum c \<or> c \<in> set ''._:-'') '':item-''" by (simp add: go_eval)
  have "list_all (\<lambda>c. isAlnum c \<or> c \<in> set ''._:-'') (?d i)"
    using digits [of i] by (auto simp: list_all_iff)
  with pat sep len dlen have valid: "settlementRequestIDPattern (deriveSettlementRunRequestID runID i)"
    unfolding settlementRequestIDPattern_def deriveSettlementRunRequestID_def runID by simp
  have "?d i = ?d j \<longleftrightarrow> i = j"
  proof
    assume "?d i = ?d j"
    then have "parseDigits 0 (Itoa (i + 1)) = parseDigits 0 (Itoa (j + 1))" by (metis parseDigits_padZero)
    moreover have "i + 1 < 2 ^ 64" "j + 1 < 2 ^ 64" using assms(2,3) by (simp_all add: settlementMaxRunPayouts_def)
    ultimately show "i = j" by (simp add: parseDigits_showNat)
  qed simp
  with valid show ?thesis by (simp add: deriveSettlementRunRequestID_def)
qed

theorem derived_ids_valid_witness:
  "settlementRequestIDPattern (deriveSettlementRunRequestID ''run-8'' 0) \<and>
   deriveSettlementRunRequestID ''run-8'' 0 \<noteq> deriveSettlementRunRequestID ''run-8'' 1"
  using derived_ids_valid [of "''run-8''" 0 1]
  by (simp add: validateSettlementRunID_def settlementRequestIDPattern_def settlementMaxRunPayouts_def go_eval)

text \<open>
  A service that may be reached from outside is authenticated.  When serving is allowed on an
  address that is not the loopback, a request is let through exactly when its authorization header
  is the bearer token of the configuration, which is not empty.
\<close>

theorem remote_service_authenticated:
  assumes "validateServeSafety env cfg = None" and "\<not> listenAddrIsLoopback env cfg"
  shows "cfg_AuthToken cfg \<noteq> [] \<and> (checkAuth cfg header = None \<longleftrightarrow> TrimSpace header = ''Bearer '' @ cfg_AuthToken cfg)"
  using assms by (auto simp: validateServeSafety_def checkAuth_def split: if_splits)

theorem remote_service_authenticated_witness:
  "checkAuth (sampleCfg\<lparr>cfg_ListenAddr := ''0.0.0.0'', cfg_AuthToken := ''s3cret''\<rparr>) ''Bearer guess'' \<noteq> None"
proof -
  let ?cfg = "sampleCfg\<lparr>cfg_ListenAddr := ''0.0.0.0'', cfg_AuthToken := ''s3cret''\<rparr>"
  have "\<not> listenAddrIsLoopback (sampleEnv (\<lambda>t. False) (\<lambda>t path. None)) ?cfg"
    by (simp add: listenAddrIsLoopback_def sampleEnv_def)
  moreover have "TrimSpace ''Bearer guess'' \<noteq> ''Bearer '' @ ''s3cret''" by (simp add: go_eval)
  ultimately show ?thesis
    using remote_service_authenticated [of "sampleEnv (\<lambda>t. False) (\<lambda>t path. None)" ?cfg "''Bearer guess''"]
    by (simp add: validateServeSafety_def)
qed

end
