(* ===== verification/Chain_Properties.thy ===== *)
theory Chain_Properties
  imports Sample
begin

text \<open>
  What a verified escrow deposit proves of the transaction, and what it does not: the denomination
  of the matched transfer and the success of the transaction are not looked at.
\<close>

lemma firstTransferKind_escrow:
  "firstTransferKind cfg ts = Some ''escrow_deposit'' \<Longrightarrow>
     \<exists>t \<in> set ts. cfg_EscrowAddress cfg \<noteq> [] \<and> EqualFold (tr_Recipient t) (cfg_EscrowAddress cfg) \<and> tr_Denom t = cfg_BaseDenom cfg"
  by (induction cfg ts rule: firstTransferKind.induct) (auto split: if_splits)

lemma classifyTransferKind_escrow:
  assumes "classifyTransferKind cfg ts = ''escrow_deposit''"
  shows "\<exists>t \<in> set ts. EqualFold (tr_Recipient t) (cfg_EscrowAddress cfg) \<and> tr_Denom t = cfg_BaseDenom cfg"
  using assms firstTransferKind_escrow [of cfg ts] by (auto simp: classifyTransferKind_def split: option.splits if_splits)

lemma refineTransferKind_escrow:
  assumes "fst (run_state (refineTransferKind env cfg ts (classifyTransferKind cfg ts)) c) = ''escrow_deposit''"
  shows "\<exists>t \<in> set ts. EqualFold (tr_Recipient t) (cfg_EscrowAddress cfg) \<and> tr_Denom t = cfg_BaseDenom cfg"
  using assms classifyTransferKind_escrow [of cfg ts] classifyTransferKind_escrow [of "cfg\<lparr>cfg_PayoutAddress := _\<rparr>" ts]
  by (auto simp: refineTransferKind_def split: if_splits sum.splits)

lemma withLookupURLs_sel [simp]:
  "lr_OK (withLookupURLs cfg h r) = lr_OK r" "lr_Found (withLookupURLs cfg h r) = lr_Found r" "lr_Kind (withLookupURLs cfg h r) = lr_Kind r"
  "lr_Transfers (withLookupURLs cfg h r) = lr_Transfers r" "lr_MatchedTransfer (withLookupURLs cfg h r) = lr_MatchedTransfer r"
  "lr_MatchedExpected (withLookupURLs cfg h r) = lr_MatchedExpected r" "lr_TxSuccess (withLookupURLs cfg h r) = lr_TxSuccess r"
  by (simp_all add: withLookupURLs_def)

lemma lookupFailure_sel [simp]: "\<not> lr_OK (lookupFailure code detail)" "\<not> lr_Found (lookupFailure code detail)"
  by (simp_all add: lookupFailure_def)

lemma matchSettlementTransfer_some:
  "matchSettlementTransfer ts e = Some t \<Longrightarrow> t \<in> set ts \<and> transferMatches e t"
  by (auto simp: matchSettlementTransfer_def find_Some_iff split: if_splits)

lemma lookup_found:
  assumes "lr_OK (fst (run_state (lookupSettlementTx env cfg h e) c))"
  shows "lr_MatchedTransfer (fst (run_state (lookupSettlementTx env cfg h e) c)) =
      matchSettlementTransfer (lr_Transfers (fst (run_state (lookupSettlementTx env cfg h e) c))) e"
    "lr_MatchedExpected (fst (run_state (lookupSettlementTx env cfg h e) c)) \<longleftrightarrow>
      lr_MatchedTransfer (fst (run_state (lookupSettlementTx env cfg h e) c)) \<noteq> None"
    "lr_Kind (fst (run_state (lookupSettlementTx env cfg h e) c)) = ''escrow_deposit'' \<Longrightarrow>
      \<exists>t \<in> set (lr_Transfers (fst (run_state (lookupSettlementTx env cfg h e) c))).
        EqualFold (tr_Recipient t) (cfg_EscrowAddress cfg) \<and> tr_Denom t = cfg_BaseDenom cfg"
  using assms
  by (auto simp: lookupSettlementTx_def Let_def case_prod_beta dest!: refineTransferKind_escrow split: if_splits sum.splits option.splits)

lemma depositVerdict_ok:
  "\<not> ev_OK r \<Longrightarrow> ev_OK (depositVerdict l r) \<longleftrightarrow> lr_OK l \<and> lr_Found l \<and> lr_Kind l = ''escrow_deposit'' \<and> lr_MatchedExpected l"
  "ev_Lookup (depositVerdict l r) = ev_Lookup r"
  by (simp_all add: depositVerdict_def)

declare depositVerdict_ok(2) [simp]

text \<open>
  C18. A verified escrow deposit is on the chain: when \<open>verifyEscrowDeposit\<close> answers \<open>ok\<close>, the looked-up
  transaction has a transfer of the base denomination into the escrow address, and a transfer into
  the escrow address from the expected sender with the expected amount.
\<close>

theorem verified_deposit_sound:
  assumes "ev_OK (fst (run_state (verifyEscrowDeposit env cfg txHash sender amount) c))"
  shows "\<exists>lookup. ev_Lookup (fst (run_state (verifyEscrowDeposit env cfg txHash sender amount) c)) = Some lookup \<and> lr_Found lookup \<and>
    (\<exists>t \<in> set (lr_Transfers lookup). EqualFold (tr_Recipient t) (cfg_EscrowAddress cfg) \<and> tr_Denom t = cfg_BaseDenom cfg) \<and>
    (\<exists>t \<in> set (lr_Transfers lookup). EqualFold (tr_Recipient t) (TrimSpace (cfg_EscrowAddress cfg)) \<and>
       (TrimSpace sender = [] \<or> EqualFold (tr_Sender t) (TrimSpace sender)) \<and> (TrimSpace amount = [] \<or> tr_Amount t = TrimSpace amount))"
proof -
  let ?e = "\<lparr>le_Sender = TrimSpace sender, le_Recipient = cfg_EscrowAddress cfg, le_AmountUWolo = TrimSpace amount\<rparr>"
  let ?l = "fst (run_state (lookupSettlementTx env cfg txHash ?e) c)"
  let ?r = "zero_settlementEscrowVerifyResponse\<lparr>ev_OK := False, ev_EscrowAddress := cfg_EscrowAddress cfg,
      ev_ExpectedSender := TrimSpace sender, ev_ExpectedAmountUWolo := TrimSpace amount, ev_Lookup := Some ?l\<rparr>"
  have escrow: "TrimSpace (cfg_EscrowAddress cfg) \<noteq> []"
    and run: "fst (run_state (verifyEscrowDeposit env cfg txHash sender amount) c) = depositVerdict ?l ?r"
    using assms by (auto simp: verifyEscrowDeposit_def Let_def split: if_split_asm)
  from assms have l: "lr_OK ?l" "lr_Found ?l" "lr_Kind ?l = ''escrow_deposit''" "lr_MatchedExpected ?l"
    unfolding run by (simp_all add: depositVerdict_ok)
  have eq: "ev_Lookup (fst (run_state (verifyEscrowDeposit env cfg txHash sender amount) c)) = Some ?l"
    unfolding run by simp
  obtain t where "matchSettlementTransfer (lr_Transfers ?l) ?e = Some t"
    using lookup_found(1,2) [OF l(1)] l(4) by auto
  then have t: "t \<in> set (lr_Transfers ?l)" "transferMatches ?e t" using matchSettlementTransfer_some by blast+
  then have "EqualFold (tr_Recipient t) (TrimSpace (cfg_EscrowAddress cfg)) \<and>
      (TrimSpace sender = [] \<or> EqualFold (tr_Sender t) (TrimSpace sender)) \<and> (TrimSpace amount = [] \<or> tr_Amount t = TrimSpace amount)"
    using escrow by (simp add: transferMatches_def Let_def)
  then show ?thesis using eq l(2) lookup_found(3) [OF l(1,3)] t(1) by blast
qed

subsection \<open>A concrete deposit\<close>

definition transferEvent :: "string \<Rightarrow> restTxEvent" where
  "transferEvent amount = \<lparr>te_Type = ''transfer'', te_Attributes =
     [\<lparr>ta_Key = ''recipient'', ta_Value = ''wolo1escrow''\<rparr>, \<lparr>ta_Key = ''sender'', ta_Value = ''wolo1abc''\<rparr>,
      \<lparr>ta_Key = ''amount'', ta_Value = amount\<rparr>]\<rparr>"

definition depositEnv :: "u32 \<Rightarrow> string list \<Rightarrow> int env" where
  "depositEnv code amounts = (sampleEnv (\<lambda>t. False) (\<lambda>t path. None))\<lparr>env_restTx := (\<lambda>url. State_Monad.return (Replied 200 []
     (Inr \<lparr>tl_Memo = [], tl_TxResponse = zero_restTxResponse\<lparr>tx_TxHash := ''AB12'', tx_Code := code, tx_Events := map transferEvent amounts\<rparr>\<rparr>)))\<rparr>"

lemma deposit_lookup:
  fixes code amounts
  defines "ts \<equiv> concat (map (\<lambda>amount. transfersOfEvent (transferEvent amount)) amounts)"
  assumes "classifyTransferKind sampleCfg ts = ''escrow_deposit''"
  shows "lr_OK (fst (run_state (lookupSettlementTx (depositEnv code amounts) sampleCfg ''AB12'' e) t))"
    "lr_Found (fst (run_state (lookupSettlementTx (depositEnv code amounts) sampleCfg ''AB12'' e) t))"
    "lr_Kind (fst (run_state (lookupSettlementTx (depositEnv code amounts) sampleCfg ''AB12'' e) t)) = ''escrow_deposit''"
    "lr_Transfers (fst (run_state (lookupSettlementTx (depositEnv code amounts) sampleCfg ''AB12'' e) t)) = ts"
    "lr_MatchedTransfer (fst (run_state (lookupSettlementTx (depositEnv code amounts) sampleCfg ''AB12'' e) t)) = matchSettlementTransfer ts e"
    "lr_MatchedExpected (fst (run_state (lookupSettlementTx (depositEnv code amounts) sampleCfg ''AB12'' e) t)) \<longleftrightarrow> matchSettlementTransfer ts e \<noteq> None"
    "lr_TxSuccess (fst (run_state (lookupSettlementTx (depositEnv code amounts) sampleCfg ''AB12'' e) t)) \<longleftrightarrow> code = 0"
proof -
  have "normalizeTxHash ''AB12'' = ''AB12''" "isHexHash ''AB12''"
    by (simp_all add: normalizeTxHash_def isHexHash_def go_eval)
  moreover have "run_state (fetchRuntimeChainID (depositEnv code amounts) sampleCfg) t = (Inr ''wolo-testnet'', t)"
    by (simp add: fetchRuntimeChainID_def depositEnv_def sampleEnv_def getJSON_def go_eval)
  moreover have "env_restTx (depositEnv code amounts) = (\<lambda>url. State_Monad.return (Replied 200 []
     (Inr \<lparr>tl_Memo = [], tl_TxResponse = zero_restTxResponse\<lparr>tx_TxHash := ''AB12'', tx_Code := code, tx_Events := map transferEvent amounts\<rparr>\<rparr>)))"
    by (simp add: depositEnv_def)
  moreover have "extractSettlementTransfers \<lparr>tl_Memo = [], tl_TxResponse = zero_restTxResponse\<lparr>tx_TxHash := ''AB12'', tx_Code := code,
      tx_Events := map transferEvent amounts\<rparr>\<rparr> = ts"
    by (simp add: extractSettlementTransfers_def extractSettlementTransfersFromLogsAndEvents_def zero_restTxResponse_def ts_def comp_def)
  ultimately show "lr_OK (fst (run_state (lookupSettlementTx (depositEnv code amounts) sampleCfg ''AB12'' e) t))"
    "lr_Found (fst (run_state (lookupSettlementTx (depositEnv code amounts) sampleCfg ''AB12'' e) t))"
    "lr_Kind (fst (run_state (lookupSettlementTx (depositEnv code amounts) sampleCfg ''AB12'' e) t)) = ''escrow_deposit''"
    "lr_Transfers (fst (run_state (lookupSettlementTx (depositEnv code amounts) sampleCfg ''AB12'' e) t)) = ts"
    "lr_MatchedTransfer (fst (run_state (lookupSettlementTx (depositEnv code amounts) sampleCfg ''AB12'' e) t)) = matchSettlementTransfer ts e"
    "lr_MatchedExpected (fst (run_state (lookupSettlementTx (depositEnv code amounts) sampleCfg ''AB12'' e) t)) \<longleftrightarrow> matchSettlementTransfer ts e \<noteq> None"
    "lr_TxSuccess (fst (run_state (lookupSettlementTx (depositEnv code amounts) sampleCfg ''AB12'' e) t)) \<longleftrightarrow> code = 0"
    using assms(2) by (simp_all add: lookupSettlementTx_def getJSON_def refineTransferKind_def Let_def)
qed

lemma transferEvent_transfers:
  "splitCoinAmounts amount = [\<lparr>co_Amount = v, co_Denom = d\<rparr>] \<Longrightarrow> TrimSpace amount = amount \<Longrightarrow> amount \<noteq> [] \<Longrightarrow>
     transfersOfEvent (transferEvent amount) = [\<lparr>tr_Sender = ''wolo1abc'', tr_Recipient = ''wolo1escrow'', tr_Amount = v, tr_Denom = d\<rparr>]"
  by (simp add: transfersOfEvent_def transferEvent_def) (simp add: go_eval)

theorem verified_deposit_sound_witness:
  "\<exists>lookup. ev_Lookup (fst (run_state (verifyEscrowDeposit (depositEnv 0 [''7uwolo'']) sampleCfg ''AB12'' [] ''7'') 0)) = Some lookup \<and>
     lr_Found lookup \<and> (\<exists>t \<in> set (lr_Transfers lookup). EqualFold (tr_Recipient t) ''wolo1escrow'' \<and> tr_Denom t = ''uwolo'')"
proof -
  let ?ts = "concat (map (\<lambda>amount. transfersOfEvent (transferEvent amount)) [''7uwolo''])"
  have "splitCoinAmounts ''7uwolo'' = [\<lparr>co_Amount = ''7'', co_Denom = ''uwolo''\<rparr>]" "TrimSpace ''7uwolo'' = ''7uwolo''"
    by (simp_all add: splitCoinAmounts_def splitCoinPart_def go_eval)
  then have ts: "?ts = [\<lparr>tr_Sender = ''wolo1abc'', tr_Recipient = ''wolo1escrow'', tr_Amount = ''7'', tr_Denom = ''uwolo''\<rparr>]"
    by (simp add: transferEvent_transfers)
  have kind: "classifyTransferKind sampleCfg ?ts = ''escrow_deposit''" unfolding ts by (simp add: classifyTransferKind_def)
  have matched: "matchSettlementTransfer ?ts \<lparr>le_Sender = [], le_Recipient = ''wolo1escrow'', le_AmountUWolo = ''7''\<rparr> \<noteq> None"
    unfolding ts by (simp add: matchSettlementTransfer_def transferMatches_def go_eval)
  have num: "TrimSpace ''7'' = ''7''" "TrimSpace ''wolo1escrow'' \<noteq> []" "\<not> isl (ParseUint ''7'')" by (simp_all add: go_eval)
  have "ev_OK (fst (run_state (verifyEscrowDeposit (depositEnv 0 [''7uwolo'']) sampleCfg ''AB12'' [] ''7'') 0))"
    using deposit_lookup [OF kind, of 0 _ 0] matched num by (simp add: verifyEscrowDeposit_def depositVerdict_ok Let_def)
  from verified_deposit_sound [OF this] show ?thesis unfolding sampleCfg_sel by blast
qed

text \<open>
  C29. The verification of a deposit ignores the denomination and the outcome of the transaction.  A
  failed transaction whose events carry a transfer of one uwolo and one of five million units of
  another coin into escrow is verified as a deposit of 5000000 uwolo.
\<close>

theorem foreign_coin_verified_as_deposit:
  "ev_OK (fst (run_state (verifyEscrowDeposit (depositEnv 5 [''1uwolo'', ''5000000ujunk'']) sampleCfg ''AB12'' ''wolo1abc'' ''5000000'') 0)) \<and>
   lr_Transfers (fst (run_state (lookupSettlementTx (depositEnv 5 [''1uwolo'', ''5000000ujunk'']) sampleCfg ''AB12'' zero_settlementLookupExpectations) 0)) =
     [\<lparr>tr_Sender = ''wolo1abc'', tr_Recipient = ''wolo1escrow'', tr_Amount = ''1'', tr_Denom = ''uwolo''\<rparr>,
      \<lparr>tr_Sender = ''wolo1abc'', tr_Recipient = ''wolo1escrow'', tr_Amount = ''5000000'', tr_Denom = ''ujunk''\<rparr>] \<and>
   \<not> lr_TxSuccess (fst (run_state (lookupSettlementTx (depositEnv 5 [''1uwolo'', ''5000000ujunk'']) sampleCfg ''AB12'' zero_settlementLookupExpectations) 0))"
proof -
  let ?amounts = "[''1uwolo'', ''5000000ujunk'']"
  let ?ts = "concat (map (\<lambda>amount. transfersOfEvent (transferEvent amount)) ?amounts)"
  let ?e = "\<lparr>le_Sender = ''wolo1abc'', le_Recipient = ''wolo1escrow'', le_AmountUWolo = ''5000000''\<rparr>"
  have coins: "splitCoinAmounts ''1uwolo'' = [\<lparr>co_Amount = ''1'', co_Denom = ''uwolo''\<rparr>]"
      "splitCoinAmounts ''5000000ujunk'' = [\<lparr>co_Amount = ''5000000'', co_Denom = ''ujunk''\<rparr>]"
      "TrimSpace ''1uwolo'' = ''1uwolo''" "TrimSpace ''5000000ujunk'' = ''5000000ujunk''"
    by (simp_all add: splitCoinAmounts_def splitCoinPart_def go_eval)
  have ts: "?ts = [\<lparr>tr_Sender = ''wolo1abc'', tr_Recipient = ''wolo1escrow'', tr_Amount = ''1'', tr_Denom = ''uwolo''\<rparr>,
      \<lparr>tr_Sender = ''wolo1abc'', tr_Recipient = ''wolo1escrow'', tr_Amount = ''5000000'', tr_Denom = ''ujunk''\<rparr>]"
    using transferEvent_transfers [OF coins(1)] transferEvent_transfers [OF coins(2)] coins(3,4) by simp
  have kind: "classifyTransferKind sampleCfg ?ts = ''escrow_deposit''"
    unfolding ts by (simp add: classifyTransferKind_def)
  have matched: "matchSettlementTransfer ?ts ?e \<noteq> None"
    unfolding ts by (simp add: matchSettlementTransfer_def transferMatches_def go_eval)
  have num: "TrimSpace ''5000000'' = ''5000000''" "TrimSpace ''wolo1abc'' = ''wolo1abc''" "TrimSpace ''wolo1escrow'' \<noteq> []"
      "isWoloAddress ''wolo1abc'' ''wolo''" "\<not> isl (ParseUint ''5000000'')"
    by (simp_all add: isWoloAddress_def go_eval)
  show ?thesis
    using deposit_lookup [OF kind, of 5 _ 0] matched ts num by (simp add: verifyEscrowDeposit_def depositVerdict_ok Let_def)
qed

end
