(* ===== verification/Locks.thy ===== *)
theory Locks
  imports Sample
begin

text \<open>
  The lock-file protocol shared by request, run and challenge locks, as a state machine of processes
  that contend for one lock file.  Each call a process makes on the file is a step of its own, and the steps of different
  processes interleave in any order: opening the file exclusively, the \<open>Stat\<close> after an open that found
  the file, the comparison of the age of the lock with the time-to-live, the removal of an expired lock before the next attempt,
  the write of the time stamp into the file just created (which moves its modification time, if the file is still the one in the directory), the removal
  at the end of the locked section, and the passage of time.
\<close>

section \<open>Processes\<close>

text \<open>
  Where a process is: outside, after an open that found the file, with the modification time it read and when it
  read it, about to remove an expired lock, after the creation of the file at some time, or in the locked section entered with that creation.
\<close>

datatype lockPC = Idle | FoundFile | Looked int int | Expired | Created int | Inside int

primrec lockedSince :: "lockPC \<Rightarrow> int option" where
  "lockedSince Idle = None"
| "lockedSince FoundFile = None"
| "lockedSince (Looked m s) = None"
| "lockedSince Expired = None"
| "lockedSince (Created t) = Some t"
| "lockedSince (Inside t) = Some t"

text \<open>A state: the world, the place of each process, and the process that created the lock file that is there now.\<close>

type_synonym 'c lockState = "'c world \<times> (nat \<Rightarrow> lockPC) \<times> nat option"

definition stampLock :: "'c env \<Rightarrow> string \<Rightarrow> bool \<Rightarrow> 'c world \<Rightarrow> 'c world" where
  "stampLock env path own w = (if own then w\<lparr>w_locks := (w_locks w)(path \<mapsto> env_now env (w_chain w))\<rparr> else w)"

inductive lockStep :: "'c env \<Rightarrow> settlementConfig \<Rightarrow> string \<Rightarrow> 'c lockState \<Rightarrow> 'c lockState \<Rightarrow> bool"
  for env :: "'c env" and cfg :: settlementConfig and path :: string where
  Create: "pcs pid = Idle \<Longrightarrow> run_state (openLock env path) w = (OpenedNew, w') \<Longrightarrow>
    lockStep env cfg path (w, pcs, owner) (w', pcs(pid := Created (env_now env (w_chain w))), Some pid)"
| Find: "pcs pid = Idle \<Longrightarrow> run_state (openLock env path) w = (OpenExists, w') \<Longrightarrow>
    lockStep env cfg path (w, pcs, owner) (w', pcs(pid := FoundFile), owner)"
| Fail: "pcs pid = Idle \<Longrightarrow> run_state (openLock env path) w = (OpenError err, w') \<Longrightarrow>
    lockStep env cfg path (w, pcs, owner) (w', pcs, owner)"
| Look: "pcs pid = FoundFile \<Longrightarrow>
    lockStep env cfg path (w, pcs, owner)
      (w, pcs(pid := case w_locks w path of None \<Rightarrow> Idle | Some modTime \<Rightarrow> Looked modTime (env_now env (w_chain w))), owner)"
| Judge: "pcs pid = Looked modTime s \<Longrightarrow>
    lockStep env cfg path (w, pcs, owner) (w, pcs(pid := if lockExpired env cfg modTime w then Expired else Idle), owner)"
| Remove: "pcs pid = Expired \<Longrightarrow>
    lockStep env cfg path (w, pcs, owner) (snd (run_state (lockRelease path) w), pcs(pid := Idle), None)"
| Stamp: "pcs pid = Created t \<Longrightarrow>
    lockStep env cfg path (w, pcs, owner) (stampLock env path (owner = Some pid) w, pcs(pid := Inside t), owner)"
| Leave: "pcs pid = Inside t \<Longrightarrow>
    lockStep env cfg path (w, pcs, owner) (snd (run_state (lockRelease path) w), pcs(pid := Idle), None)"
| Pass: "env_now env (w_chain w) \<le> env_now env c \<Longrightarrow> lockStep env cfg path (w, pcs, owner) (w\<lparr>w_chain := c\<rparr>, pcs, owner)"

text \<open>The states reached from a start in which all processes are outside, through states with the property \<open>P\<close>.\<close>

inductive lockReach :: "'c env \<Rightarrow> settlementConfig \<Rightarrow> string \<Rightarrow> ('c world \<Rightarrow> bool) \<Rightarrow> ('c lockState \<Rightarrow> bool) \<Rightarrow> 'c lockState \<Rightarrow> bool"
  for env :: "'c env" and cfg :: settlementConfig and path :: string and start :: "'c world \<Rightarrow> bool" and P :: "'c lockState \<Rightarrow> bool" where
  Start: "start w \<Longrightarrow> lockReach env cfg path start P (w, \<lambda>pid. Idle, None)"
| Step: "lockReach env cfg path start P s \<Longrightarrow> P s \<Longrightarrow> lockStep env cfg path s s' \<Longrightarrow> lockReach env cfg path start P s'"

subsection \<open>The uninterrupted attempt\<close>

text \<open>The attempt of the sequential model is what the steps of one process do when no other process interrupts them.\<close>

lemma attempt_steps:
  assumes "run_state (lockAttempt env cfg path) w = (LockHeld, w')" and "pcs pid = Idle"
  shows "(lockStep env cfg path)\<^sup>*\<^sup>* (w, pcs, owner) (w', pcs(pid := Created (env_now env (w_chain w))), Some pid)"
proof (cases "w_locks w path")
  case None
  with assms have "run_state (openLock env path) w = (OpenedNew, w')"
    by (auto simp: lockAttempt_run openLock_def split: option.splits)
  from lockStep.Create [of pcs pid env path w w' cfg owner, OF assms(2) this] show ?thesis by (rule r_into_rtranclp)
next
  case (Some m)
  let ?S = "lockStep env cfg path" and ?now = "env_now env (w_chain w)"
  let ?w1 = "snd (run_state (lockRelease path) w)"
  have io: "env_ioError env (w_chain w) path = None" and old: "lockExpired env cfg m w"
    and w': "w' = w\<lparr>w_locks := (w_locks w)(path \<mapsto> ?now)\<rparr>"
    using assms(1) Some by (auto simp: lockAttempt_run lockIsStale_def split: option.splits if_splits)
  have "run_state (openLock env path) w = (OpenExists, w)" using io Some by (simp add: openLock_def)
  from lockStep.Find [of pcs pid env path w w cfg owner, OF assms(2) this]
  have found: "?S (w, pcs, owner) (w, pcs(pid := FoundFile), owner)" .
  have looked: "?S (w, pcs(pid := FoundFile), owner) (w, pcs(pid := Looked m ?now), owner)"
    using lockStep.Look [of "pcs(pid := FoundFile)" pid env cfg path w owner] Some by simp
  have judged: "?S (w, pcs(pid := Looked m ?now), owner) (w, pcs(pid := Expired), owner)"
    using lockStep.Judge [of "pcs(pid := Looked m ?now)" pid m ?now env cfg path w owner] old by simp
  have removed: "?S (w, pcs(pid := Expired), owner) (?w1, pcs(pid := Idle), None)"
    using lockStep.Remove [of "pcs(pid := Expired)" pid env cfg path w owner] by simp
  have created: "?S (?w1, pcs(pid := Idle), None) (w', pcs(pid := Created ?now), Some pid)"
    using lockStep.Create [of "pcs(pid := Idle)" pid env path ?w1 w' cfg None] io by (simp add: openLock_def w')
  note step = converse_rtranclp_into_rtranclp [where r = ?S]
  show ?thesis by (rule step [OF found], rule step [OF looked], rule step [OF judged], rule step [OF removed], rule r_into_rtranclp [where r = ?S, OF created])
qed

section \<open>Exclusion\<close>

text \<open>
  No process keeps the lock longer than the time-to-live, and no process that read a modification time within the
  time-to-live takes so long to compare it that the time-to-live passes.
\<close>

definition prompt :: "'c env \<Rightarrow> settlementConfig \<Rightarrow> 'c lockState \<Rightarrow> bool" where
  "prompt env cfg st \<longleftrightarrow> (case st of (w, pcs, owner) \<Rightarrow>
     (\<forall>pid t. lockedSince (pcs pid) = Some t \<longrightarrow> env_now env (w_chain w) - t \<le> cfg_RequestLockTTL cfg) \<and>
     (\<forall>pid m s. pcs pid = Looked m s \<and> s - m \<le> cfg_RequestLockTTL cfg \<longrightarrow> env_now env (w_chain w) - m \<le> cfg_RequestLockTTL cfg))"






section \<open>Traces on the sample environment\<close>

abbreviation freshEnv :: "int env" where
  "freshEnv \<equiv> sampleEnv (\<lambda>t. False) (\<lambda>t path. None)"

lemma sample_create:
  assumes "pcs pid = Idle" and "w_locks w path = None"
  shows "lockStep freshEnv sampleCfg path (w, pcs, owner) (w\<lparr>w_locks := (w_locks w)(path \<mapsto> w_chain w)\<rparr>, pcs(pid := Created (w_chain w)), Some pid)"
  using lockStep.Create [of pcs pid freshEnv path w _ sampleCfg owner, OF assms(1)] assms(2) by (simp add: openLock_def)


text \<open>Reaching along several steps when nothing is asked of the states on the way.\<close>

lemma reach_steps:
  "(lockStep env cfg path)\<^sup>*\<^sup>* s s' \<Longrightarrow> lockReach env cfg path start (\<lambda>s. True) s \<Longrightarrow> lockReach env cfg path start (\<lambda>s. True) s'"
  by (induction rule: rtranclp_induct) (auto intro: lockReach.Step)

text \<open>
  C36. A section that outlives the time-to-live breaks the exclusion for others too.  When a process
  stays in its section longer than the time-to-live, a second one takes the lock over; the first
  then removes the lock file of the second on leaving, and a third enters while the second is still
  in its section and has only just entered it.
\<close>

theorem overrun_breaks_exclusion:
  "\<exists>w pcs owner. lockReach freshEnv sampleCfg ''p'' (\<lambda>w. w_locks w ''p'' = None) (\<lambda>s. True) (w, pcs, owner) \<and>
     lockedSince (pcs 2) = Some 101 \<and> lockedSince (pcs 3) = Some 101 \<and> w_chain w = 101"
proof -
  let ?R = "lockReach freshEnv sampleCfg ''p'' (\<lambda>w. w_locks w ''p'' = None) (\<lambda>s. True)"
  define w0 where "w0 = emptyWorld (0 :: int)"
  define w1 where "w1 = w0\<lparr>w_locks := (w_locks w0)(''p'' \<mapsto> 0)\<rparr>"
  define w2 where "w2 = w1\<lparr>w_chain := 101\<rparr>"
  define w3 where "w3 = w2\<lparr>w_locks := (w_locks w2)(''p'' \<mapsto> 101)\<rparr>"
  define w4 where "w4 = snd (run_state (lockRelease ''p'') w3)"
  define w5 where "w5 = w4\<lparr>w_locks := (w_locks w4)(''p'' \<mapsto> 101)\<rparr>"
  note defs = w0_def w1_def w2_def w3_def w4_def w5_def
  define p1 where "p1 = (\<lambda>pid :: nat. Idle)(1 := Inside 0)"
  define p3 where "p3 = p1(2 := Created 101)"
  have "?R (w0, \<lambda>pid. Idle, None)" by (rule lockReach.Start) (simp add: defs)
  from lockReach.Step [OF this TrueI sample_create [of _ 1]] have "?R (w1, (\<lambda>pid. Idle)(1 := Created 0), Some 1)"
    by (simp add: defs)
  from lockReach.Step [OF this TrueI lockStep.Stamp [of _ 1 0]] have "?R (w1, p1, Some 1)"
    by (simp add: defs p1_def stampLock_def)
  from lockReach.Step [OF this TrueI lockStep.Pass [of _ _ 101]] have "?R (w2, p1, Some 1)" by (simp add: defs)
  moreover have "run_state (lockAttempt freshEnv sampleCfg ''p'') w2 = (LockHeld, w3)"
    by (simp add: lockAttempt_run lockIsStale_def lockExpired_def defs)
  from attempt_steps [OF this, of p1 2 "Some 1"] have "(lockStep freshEnv sampleCfg ''p'')\<^sup>*\<^sup>* (w2, p1, Some 1) (w3, p3, Some 2)"
    by (simp add: p1_def p3_def w2_def)
  ultimately have "?R (w3, p3, Some 2)" by (rule reach_steps [rotated])
  from lockReach.Step [OF this TrueI lockStep.Leave [of _ 1 0]] have "?R (w4, p3(1 := Idle), None)"
    by (simp add: w4_def p3_def p1_def)
  from lockReach.Step [OF this TrueI sample_create [of _ 3]] have "?R (w5, p3(1 := Idle, 3 := Created 101), Some 3)"
    by (simp add: defs p3_def p1_def)
  then show ?thesis by (intro exI conjI) (auto simp: p3_def defs)
qed

section \<open>A lock file left over\<close>

text \<open>In the trace below time stands still at 101, after a lock file of time 0 has expired.\<close>

lemma calm: "w_chain w = 101 \<Longrightarrow> range pcs \<subseteq> {Idle, FoundFile, Looked 0 101, Expired, Created 101} \<Longrightarrow> prompt freshEnv sampleCfg (w, pcs, owner)"
proof -
  assume w: "w_chain w = 101" and "range pcs \<subseteq> {Idle, FoundFile, Looked 0 101, Expired, Created 101}"
  then have pcs: "pcs pid \<in> {Idle, FoundFile, Looked 0 101, Expired, Created 101}" for pid by blast
  have "lockedSince (pcs pid) = Some t \<Longrightarrow> t = 101" "pcs pid = Looked m s \<Longrightarrow> m = 0 \<and> s = 101" for pid t m s
    using pcs [of pid] by auto
  with w show ?thesis by (fastforce simp: prompt_def)
qed

lemma calm_step:
  assumes "lockReach freshEnv sampleCfg path start (prompt freshEnv sampleCfg) (w, pcs, owner)" and "w_chain w = 101"
    and "range pcs \<subseteq> {Idle, FoundFile, Looked 0 101, Expired, Created 101}" and "lockStep freshEnv sampleCfg path (w, pcs, owner) s"
  shows "lockReach freshEnv sampleCfg path start (prompt freshEnv sampleCfg) s"
  using lockReach.Step [OF assms(1) calm [OF assms(2,3)] assms(4)] .

text \<open>A process that finds the expired lock gets to the point of removing it.\<close>

lemma calm_expired:
  assumes R: "lockReach freshEnv sampleCfg path start (prompt freshEnv sampleCfg) (w, pcs, owner)" and w: "w_chain w = 101" "w_locks w path = Some 0"
    and pcs: "range pcs \<subseteq> {Idle, FoundFile, Looked 0 101, Expired, Created 101}" "pcs pid = Idle"
  shows "lockReach freshEnv sampleCfg path start (prompt freshEnv sampleCfg) (w, pcs(pid := Expired), owner)"
proof -
  have upd: "range (pcs(pid := x)) \<subseteq> {Idle, FoundFile, Looked 0 101, Expired, Created 101}" if "x \<in> {FoundFile, Looked 0 101}" for x
    using pcs(1) that by (auto simp: image_subset_iff)
  have "run_state (openLock freshEnv path) w = (OpenExists, w)" using w(2) by (simp add: openLock_def)
  from calm_step [OF R w(1) pcs(1) lockStep.Find [where pcs = pcs and pid = pid, OF pcs(2) this]]
  have "lockReach freshEnv sampleCfg path start (prompt freshEnv sampleCfg) (w, pcs(pid := FoundFile), owner)" .
  from calm_step [OF this w(1) upd lockStep.Look [of _ pid]] w
  have "lockReach freshEnv sampleCfg path start (prompt freshEnv sampleCfg) (w, pcs(pid := Looked 0 101), owner)" by simp
  from calm_step [OF this w(1) upd lockStep.Judge [of _ pid 0 101]] w show ?thesis by (simp add: lockExpired_def)
qed

text \<open>
  Two processes that both found the expired lock both enter, although no process overruns or hesitates: the second one removes the
  lock file that the first has just created.
\<close>

theorem stale_lock_admits_two:
  "\<exists>w pcs owner. lockReach freshEnv sampleCfg ''p'' (\<lambda>w. w_locks w ''p'' = Some 0 \<and> w_chain w = 101) (prompt freshEnv sampleCfg) (w, pcs, owner) \<and>
     lockedSince (pcs 1) = Some 101 \<and> lockedSince (pcs 2) = Some 101 \<and> w_chain w = 101"
proof -
  let ?R = "lockReach freshEnv sampleCfg ''p'' (\<lambda>w. w_locks w ''p'' = Some 0 \<and> w_chain w = 101) (prompt freshEnv sampleCfg)"
  define w0 where "w0 = (emptyWorld (101 :: int))\<lparr>w_locks := [''p'' \<mapsto> 0]\<rparr>"
  define w1 where "w1 = snd (run_state (lockRelease ''p'') w0)"
  define w2 where "w2 = w1\<lparr>w_locks := (w_locks w1)(''p'' \<mapsto> 101)\<rparr>"
  define w3 where "w3 = snd (run_state (lockRelease ''p'') w2)"
  define w4 where "w4 = w3\<lparr>w_locks := (w_locks w3)(''p'' \<mapsto> 101)\<rparr>"
  note defs = w0_def w1_def w2_def w3_def w4_def
  have t: "w_chain w0 = 101" "w_locks w0 ''p'' = Some 0" "w_chain w1 = 101" "w_chain w2 = 101" "w_chain w3 = 101" by (simp_all add: defs)
  define both where "both = (\<lambda>pid :: nat. Idle)(1 := Expired, 2 := Expired)"
  have both: "both 1 = Expired" "both 2 = Expired" "range both \<subseteq> {Idle, FoundFile, Looked 0 101, Expired, Created 101}"
    by (auto simp: both_def)
  have "?R (w0, \<lambda>pid. Idle, None)" by (rule lockReach.Start) (simp add: t)
  from calm_expired [OF this t(1,2), of 1] have "?R (w0, (\<lambda>pid. Idle)(1 := Expired), None)" by auto
  from calm_expired [OF this t(1,2), of 2] have "?R (w0, both, None)" by (auto simp: both_def)
  from calm_step [OF this t(1) both(3) lockStep.Remove [where pcs = both and pid = 1, OF both(1)]] have "?R (w1, both(1 := Idle), None)"
    by (simp add: w1_def)
  from calm_step [OF this t(3) _ sample_create [of _ 1]] both have "?R (w2, both(1 := Created 101), Some 1)"
    by (auto simp: t w2_def w1_def image_subset_iff)
  from calm_step [OF this t(4) _ lockStep.Remove [of _ 2]] both have "?R (w3, both(1 := Created 101, 2 := Idle), None)"
    by (auto simp: w3_def image_subset_iff)
  from calm_step [OF this t(5) _ sample_create [of _ 2]] both have "?R (w4, both(1 := Created 101, 2 := Created 101), Some 2)"
    by (auto simp: t w4_def w3_def image_subset_iff)
  then show ?thesis by (intro exI conjI) (auto simp: defs)
qed

end
