(* ===== verification/Funding.thy ===== *)
theory Funding
  imports Idempotency
begin

text \<open>
  Funding of a challenge (settlement_challenge.go, lines 24--33, 1414--1820 and 2623--2646): the memo
  convention by which a deposit into escrow names the challenge, the participant and the two buckets
  it funds, the check of a deposit against what the caller expects, and the discovery of recent
  deposits.

  \<open>validateChallengeFundingExpectation\<close> walks a Go map of three amount fields in an unspecified
  order; the model walks it in the order of the literal, which only decides which of several bad
  fields the message names.
\<close>

section \<open>Patterns, keys and derived identifiers\<close>

definition settlementChallengeParticipantSidePattern :: "string \<Rightarrow> bool" where
  "settlementChallengeParticipantSidePattern = matchClass isAlnum (\<lambda>c. isAlnum c \<or> c \<in> set ''_-'') 0 31"

definition settlementChallengeReasonPattern :: "string \<Rightarrow> bool" where
  "settlementChallengeReasonPattern = matchClass isLower (\<lambda>c. isLower c \<or> isDigit c \<or> c \<in> set ''_-'') 0 31"

definition challengeFundingIdentityKey :: "string \<Rightarrow> string \<Rightarrow> string \<Rightarrow> string" where
  "challengeFundingIdentityKey participantSide participantID fundingTxHash =
     ToLower (TrimSpace participantSide) @ ''|'' @ ToLower (TrimSpace participantID) @ ''|'' @ ToUpper (TrimSpace fundingTxHash)"

definition challengeFundingLabel :: "string \<Rightarrow> string \<Rightarrow> string \<Rightarrow> string" where
  "challengeFundingLabel participantSide participantID fundingTxHash =
     (if TrimSpace participantSide \<noteq> [] \<and> TrimSpace participantID \<noteq> []
      then ''participant_side='' @ participantSide @ '' participant_id='' @ participantID @ '' (tx '' @ fundingTxHash @ '')''
      else if TrimSpace participantSide \<noteq> [] then ''participant_side='' @ participantSide @ '' (tx '' @ fundingTxHash @ '')''
      else if TrimSpace participantID \<noteq> [] then ''participant_id='' @ participantID @ '' (tx '' @ fundingTxHash @ '')''
      else ''funding tx '' @ fundingTxHash)"

definition deriveSettlementChallengeTransferRequestID :: "string \<Rightarrow> nat \<Rightarrow> string" where
  "deriveSettlementChallengeTransferRequestID settlementID index = settlementID @ '':challenge-'' @ padZero 3 (Itoa (index + 1))"

definition deriveSettlementChallengeTopUpRequestID :: "string \<Rightarrow> string" where
  "deriveSettlementChallengeTopUpRequestID settlementID = settlementID @ '':topup''"

section \<open>The caller's expectation\<close>

text \<open>A check of a field that is only made when the trimmed field is not empty.\<close>

definition whenSet :: "string \<Rightarrow> (string \<Rightarrow> string option) \<Rightarrow> string option" where
  "whenSet field check = (let value = TrimSpace field in if value = [] then None else check value)"

fun firstError :: "string option list \<Rightarrow> string option" where
  "firstError [] = None"
| "firstError (Some err # checks) = Some err"
| "firstError (None # checks) = firstError checks"

definition metadataError :: "string \<Rightarrow> nat \<Rightarrow> (string \<Rightarrow> bool) \<Rightarrow> string \<Rightarrow> string option" where
  "metadataError fieldName maxLen pattern value =
     (case normalizeSettlementRunMetadataID fieldName value maxLen pattern of Inl err \<Rightarrow> Some err | Inr _ \<Rightarrow> None)"

definition positiveAmountError :: "string \<Rightarrow> string \<Rightarrow> string option" where
  "positiveAmountError field value =
     (case ParseUint value of
        Inl _ \<Rightarrow> Some (field @ '' must be a positive integer'')
      | Inr parsed \<Rightarrow> if parsed = 0 then Some (field @ '' must be a positive integer'') else None)"

definition validateChallengeFundingExpectation :: "settlementChallengeFundingExpectation \<Rightarrow> string \<Rightarrow> string option" where
  "validateChallengeFundingExpectation expectation addressPrefix = firstError
     [whenSet (fe_Sender expectation) (\<lambda>sender.
        if \<not> isWoloAddress sender addressPrefix then Some ''expected_sender must be a valid WOLO address'' else None),
      whenSet (fe_SourceApp expectation) (metadataError ''source_app'' 64 settlementRequestIDPattern),
      whenSet (fe_SettlementRunID expectation) validateSettlementRunID,
      whenSet (fe_ChallengeID expectation) (metadataError ''challenge_id'' 128 settlementSourceEventPattern),
      whenSet (fe_SourceEventID expectation) (metadataError ''source_event_id'' 128 settlementSourceEventPattern),
      whenSet (fe_ParticipantSide expectation) (\<lambda>side.
        if \<not> settlementChallengeParticipantSidePattern side then Some ''participant_side uses unsupported characters'' else None),
      whenSet (fe_ParticipantID expectation) (metadataError ''participant_id'' 128 settlementSourceEventPattern),
      whenSet (fe_TotalFundedUWolo expectation) (positiveAmountError ''expected_amount_uwolo''),
      whenSet (fe_WagerUWolo expectation) (positiveAmountError ''wager_uwolo''),
      whenSet (fe_GuaranteeUWolo expectation) (positiveAmountError ''guarantee_uwolo'')]"

section \<open>The funding memo\<close>

definition parseChallengeMemoAmount :: "string \<Rightarrow> string \<Rightarrow> string + u64" where
  "parseChallengeMemoAmount fieldName raw0 =
     (let raw = TrimSpace raw0 in
      if raw = [] then Inl (''memo is missing '' @ fieldName)
      else case ParseUint raw of
        Inl _ \<Rightarrow> Inl (fieldName @ '' must be a positive integer'')
      | Inr value \<Rightarrow> if value = 0 then Inl (fieldName @ '' must be a positive integer'') else Inr value)"

text \<open>\<open>getValue(keys...)\<close>: the first non-blank value under one of the keys.\<close>

definition getValue :: "(string \<times> string) list \<Rightarrow> string list \<Rightarrow> string" where
  "getValue values keys = firstNonEmpty (map (valuesGet values) keys)"

text \<open>
  The identifiers of a memo, checked in the source's order.
\<close>

record memoIdentity =
  mi_sourceApp :: string
  mi_settlementRunID :: string
  mi_challengeID :: string
  mi_sourceEventID :: string
  mi_participantSide :: string
  mi_participantID :: string

definition optionalMetadata :: "string \<Rightarrow> string \<Rightarrow> string + string" where
  "optionalMetadata fieldName value =
     (if value = [] then Inr [] else normalizeSettlementRunMetadataID fieldName value 128 settlementSourceEventPattern)"

definition parseMemoIdentity :: "(string \<times> string) list \<Rightarrow> string + memoIdentity" where
  "parseMemoIdentity values =
     (let sourceApp0 = getValue values [''source_app'', ''app'']; settlementRunID = getValue values [''settlement_run_id'', ''run_id'', ''sid''];
          participantSide = getValue values [''participant_side'', ''side''] in
      if sourceApp0 = [] then Inl ''memo is missing source_app''
      else case normalizeSettlementRunMetadataID ''source_app'' sourceApp0 64 settlementRequestIDPattern of
        Inl err \<Rightarrow> Inl err
      | Inr sourceApp \<Rightarrow>
        (case (if settlementRunID = [] then None else validateSettlementRunID settlementRunID) of
           Some err \<Rightarrow> Inl err
         | None \<Rightarrow>
           (case optionalMetadata ''challenge_id'' (getValue values [''challenge_id'', ''cid'']) of
              Inl err \<Rightarrow> Inl err
            | Inr challengeID \<Rightarrow>
              (case optionalMetadata ''source_event_id'' (getValue values [''source_event_id'', ''event_id'', ''eid'']) of
                 Inl err \<Rightarrow> Inl err
               | Inr sourceEventID \<Rightarrow>
                 if challengeID = [] \<and> sourceEventID = [] then Inl ''memo is missing challenge_id or source_event_id''
                 else if participantSide \<noteq> [] \<and> \<not> settlementChallengeParticipantSidePattern participantSide
                 then Inl ''memo participant_side uses unsupported characters''
                 else (case optionalMetadata ''participant_id'' (getValue values [''participant_id'', ''pid'']) of
                    Inl err \<Rightarrow> Inl err
                  | Inr participantID \<Rightarrow>
                    if participantSide = [] \<and> participantID = [] then Inl ''memo is missing participant_side or participant_id''
                    else Inr \<lparr>mi_sourceApp = sourceApp, mi_settlementRunID = settlementRunID, mi_challengeID = challengeID,
                           mi_sourceEventID = sourceEventID, mi_participantSide = participantSide, mi_participantID = participantID\<rparr>)))))"

text \<open>The amounts: wager, guarantee and the total, whose decimal form is the amount of the transfer.\<close>

definition parseMemoAmounts :: "(string \<times> string) list \<Rightarrow> string \<Rightarrow> string + (u64 \<times> u64)" where
  "parseMemoAmounts values totalFundedUWolo =
     (case parseChallengeMemoAmount ''wager_uwolo'' (getValue values [''wager_uwolo'', ''w'']) of
        Inl err \<Rightarrow> Inl err
      | Inr wagerUWolo \<Rightarrow>
        (case parseChallengeMemoAmount ''guarantee_uwolo'' (getValue values [''guarantee_uwolo'', ''g'']) of
           Inl err \<Rightarrow> Inl err
         | Inr guaranteeUWolo \<Rightarrow>
           (case ParseUint totalFundedUWolo of
              Inl _ \<Rightarrow> Inl ''escrow transfer amount is not a positive uwolo integer''
            | Inr totalFunded \<Rightarrow>
              let declaredTotal = TrimSpace (getValue values [''total_funded_uwolo'', ''total_uwolo'', ''total'', ''t'']) in
              if totalFunded = 0 then Inl ''escrow transfer amount is not a positive uwolo integer''
              else if declaredTotal \<noteq> [] \<and> declaredTotal \<noteq> totalFundedUWolo
              then Inl (''memo total_funded_uwolo='' @ declaredTotal @ '' does not match the escrow transfer amount '' @ totalFundedUWolo)
              else if wagerUWolo + guaranteeUWolo \<noteq> totalFunded
              then Inl (''memo bucket totals '' @ FormatUint (wagerUWolo + guaranteeUWolo) @
                     '' do not match the escrow transfer amount '' @ FormatUint totalFunded)
              else Inr (wagerUWolo, guaranteeUWolo))))"

definition parseChallengeFundingResult :: "settlementTransfer \<Rightarrow> settlementLookupResponse \<Rightarrow> string \<Rightarrow> string + settlementChallengeFundingResult" where
  "parseChallengeFundingResult transfer lookup escrowAddress =
     (let memo = TrimSpace (lr_Memo lookup); totalFundedUWolo = TrimSpace (tr_Amount transfer) in
      if \<not> prefix settlementChallengeFundingMemoPrefix memo
      then Inl ''memo does not use the wolo.challenge.funding.v1 convention''
      else case ParseQuery (TrimPrefix memo settlementChallengeFundingMemoPrefix) of
        (_, Some err) \<Rightarrow> Inl (''memo query string is invalid: '' @ err)
      | (values, None) \<Rightarrow>
        (case parseMemoIdentity values of
           Inl err \<Rightarrow> Inl err
         | Inr ident \<Rightarrow>
           (case parseMemoAmounts values totalFundedUWolo of
              Inl err \<Rightarrow> Inl err
            | Inr (wagerUWolo, guaranteeUWolo) \<Rightarrow> Inr (zero_settlementChallengeFundingResult\<lparr>
                fr_OK := True, fr_DepositFound := True, fr_FundingTxHash := lr_TxHash lookup, fr_SourceApp := mi_sourceApp ident,
                fr_SettlementRunID := mi_settlementRunID ident, fr_ChallengeID := mi_challengeID ident,
                fr_SourceEventID := mi_sourceEventID ident, fr_ParticipantSide := mi_participantSide ident,
                fr_ParticipantID := mi_participantID ident, fr_Sender := tr_Sender transfer, fr_EscrowAddress := escrowAddress,
                fr_TotalFundedUWolo := totalFundedUWolo, fr_TotalFundedWolo := formatDisplayAmount totalFundedUWolo,
                fr_WagerUWolo := FormatUint wagerUWolo, fr_WagerWolo := formatDisplayAmount (FormatUint wagerUWolo),
                fr_GuaranteeUWolo := FormatUint guaranteeUWolo, fr_GuaranteeWolo := formatDisplayAmount (FormatUint guaranteeUWolo),
                fr_Memo := memo, fr_CanonicalTxLookup := lr_CanonicalTxLookup lookup,
                fr_CanonicalTxLookupPreferred := lr_CanonicalTxLookupPreferred lookup,
                fr_CanonicalTxLookupInternal := lr_CanonicalTxLookupInternal lookup,
                fr_CanonicalTxLookupPublic := lr_CanonicalTxLookupPublic lookup\<rparr>))))"

section \<open>Comparing a deposit with the expectation\<close>

fun firstMismatch :: "(string \<times> string \<times> string) list \<Rightarrow> string" where
  "firstMismatch [] = []"
| "firstMismatch ((name, expected0, actual) # checks) =
     (let expected = TrimSpace expected0 in
      if expected = [] then firstMismatch checks
      else if \<not> EqualFold expected (TrimSpace actual)
      then name @ ''='' @ Quote expected @ '' does not match the verified challenge funding value '' @ Quote actual
      else firstMismatch checks)"

definition fundingChecks :: "settlementChallengeFundingResult \<Rightarrow> settlementChallengeFundingExpectation \<Rightarrow> (string \<times> string \<times> string) list" where
  "fundingChecks funding expectation =
     [(''source_app'', fe_SourceApp expectation, fr_SourceApp funding),
      (''settlement_run_id'', fe_SettlementRunID expectation, fr_SettlementRunID funding),
      (''challenge_id'', fe_ChallengeID expectation, fr_ChallengeID funding),
      (''source_event_id'', fe_SourceEventID expectation, fr_SourceEventID funding),
      (''participant_side'', fe_ParticipantSide expectation, fr_ParticipantSide funding),
      (''participant_id'', fe_ParticipantID expectation, fr_ParticipantID funding),
      (''expected_sender'', fe_Sender expectation, fr_Sender funding),
      (''expected_amount_uwolo'', fe_TotalFundedUWolo expectation, fr_TotalFundedUWolo funding),
      (''wager_uwolo'', fe_WagerUWolo expectation, fr_WagerUWolo funding),
      (''guarantee_uwolo'', fe_GuaranteeUWolo expectation, fr_GuaranteeUWolo funding)]"

definition compareChallengeFundingExpectation :: "settlementChallengeFundingResult \<Rightarrow> settlementChallengeFundingExpectation \<Rightarrow> string" where
  "compareChallengeFundingExpectation funding expectation = firstMismatch (fundingChecks funding expectation)"

section \<open>Verification of a deposit\<close>

text \<open>\<open>response.Funding\<close> is a pointer to \<open>result\<close>: a refusal writes its code and message into both.\<close>

definition refuseFunding :: "string \<Rightarrow> string \<Rightarrow> settlementChallengeFundingResult \<Rightarrow> settlementLookupResponse option
    \<Rightarrow> settlementChallengeFundingVerifyResponse" where
  "refuseFunding failureCode detail result lookup = \<lparr>fv_OK = False, fv_FailureCode = failureCode, fv_Detail = detail,
     fv_Funding = Some (result\<lparr>fr_FailureCode := failureCode, fr_Detail := detail\<rparr>), fv_Lookup = lookup\<rparr>"

text \<open>The answer once the transaction has been looked up.\<close>

definition fundingVerdict :: "settlementConfig \<Rightarrow> settlementChallengeFundingExpectation \<Rightarrow> settlementChallengeFundingResult
    \<Rightarrow> settlementLookupResponse \<Rightarrow> settlementChallengeFundingVerifyResponse" where
  "fundingVerdict cfg expectation result lookup =
     (if \<not> lr_OK lookup
      then refuseFunding (firstNonEmpty [lr_FailureCode lookup, ''LOOKUP_FAILED'']) (lr_Detail lookup) result (Some lookup)
      else if \<not> lr_Found lookup then refuseFunding ''TX_NOT_FOUND'' ''tx hash not found on WoloChain REST'' result (Some lookup)
      else if lr_Kind lookup \<noteq> ''escrow_deposit''
      then refuseFunding ''NOT_ESCROW_DEPOSIT'' ''tx did not deliver a WOLO transfer into the configured escrow address'' result (Some lookup)
      else case lr_MatchedTransfer lookup of
        None \<Rightarrow> refuseFunding ''CHALLENGE_FUNDING_MISMATCH''
          ''tx reached escrow but no matching WOLO transfer was found for the expected challenge funding amount''
          (result\<lparr>fr_DepositFound := True\<rparr>) (Some lookup)
      | Some transfer \<Rightarrow>
        (case parseChallengeFundingResult transfer lookup (cfg_EscrowAddress cfg) of
           Inl err \<Rightarrow> refuseFunding ''INVALID_CHALLENGE_FUNDING_MEMO'' err (result\<lparr>fr_DepositFound := True,
             fr_CanonicalTxLookup := lr_CanonicalTxLookup lookup, fr_CanonicalTxLookupPreferred := lr_CanonicalTxLookupPreferred lookup,
             fr_CanonicalTxLookupInternal := lr_CanonicalTxLookupInternal lookup,
             fr_CanonicalTxLookupPublic := lr_CanonicalTxLookupPublic lookup\<rparr>) (Some lookup)
         | Inr parsedFunding \<Rightarrow>
             let mismatch = compareChallengeFundingExpectation parsedFunding expectation in
             if mismatch \<noteq> [] then refuseFunding ''CHALLENGE_FUNDING_MISMATCH'' mismatch (parsedFunding\<lparr>fr_OK := False\<rparr>) (Some lookup)
             else \<lparr>fv_OK = True, fv_FailureCode = [], fv_Detail = ''challenge funding deposit verified'',
                    fv_Funding = Some (parsedFunding\<lparr>fr_OK := True, fr_Detail := ''challenge funding deposit verified''\<rparr>),
                    fv_Lookup = Some lookup\<rparr>))"

definition verifyChallengeFundingDeposit :: "'c env \<Rightarrow> settlementConfig \<Rightarrow> string \<Rightarrow> settlementChallengeFundingExpectation
    \<Rightarrow> ('c, settlementChallengeFundingVerifyResponse) state" where
  "verifyChallengeFundingDeposit env cfg txHash expectation =
     (let result = zero_settlementChallengeFundingResult\<lparr>fr_OK := False, fr_FundingTxHash := normalizeTxHash txHash,
            fr_EscrowAddress := TrimSpace (cfg_EscrowAddress cfg)\<rparr> in
      if TrimSpace (cfg_EscrowAddress cfg) = []
      then State_Monad.return (refuseFunding ''ESCROW_UNCONFIGURED''
             ''WOLO_SETTLEMENT_ESCROW_ADDRESS must be set before challenge funding verification can be used'' result None)
      else case validateChallengeFundingExpectation expectation (cfg_AddressPrefix cfg) of
        Some err \<Rightarrow> State_Monad.return (refuseFunding ''INVALID_CHALLENGE'' err result None)
      | None \<Rightarrow> do {
          lookup \<leftarrow> lookupSettlementTx env cfg txHash \<lparr>le_Sender = TrimSpace (fe_Sender expectation),
            le_Recipient = cfg_EscrowAddress cfg, le_AmountUWolo = TrimSpace (fe_TotalFundedUWolo expectation)\<rparr>;
          State_Monad.return (fundingVerdict cfg expectation result lookup)
        })"

section \<open>Discovery of recent deposits\<close>

text \<open>The look-up response that is made of a deposit of the escrow search.\<close>

definition lookupOfDeposit :: "settlementConfig \<Rightarrow> settlementEscrowDepositItem \<Rightarrow> settlementLookupResponse" where
  "lookupOfDeposit cfg deposit = zero_settlementLookupResponse\<lparr>lr_OK := ed_TxSuccess deposit, lr_Found := True,
     lr_ChainID := cfg_ChainID cfg, lr_TxHash := ed_TxHash deposit, lr_TxSuccess := ed_TxSuccess deposit,
     lr_Kind := ''escrow_deposit'', lr_Height := ed_Height deposit, lr_Memo := ed_Memo deposit, lr_Timestamp := ed_Timestamp deposit,
     lr_CanonicalTxLookup := ed_CanonicalTxLookup deposit, lr_CanonicalTxLookupPreferred := ed_CanonicalTxLookupPreferred deposit,
     lr_CanonicalTxLookupInternal := ed_CanonicalTxLookupInternal deposit, lr_CanonicalTxLookupPublic := ed_CanonicalTxLookupPublic deposit,
     lr_MatchedTransfer := Some \<lparr>tr_Sender = ed_Sender deposit, tr_Recipient = ed_Recipient deposit,
       tr_Amount = ed_AmountUWolo deposit, tr_Denom = cfg_BaseDenom cfg\<rparr>\<rparr>"

fun collectFunding :: "settlementConfig \<Rightarrow> settlementChallengeFundingExpectation \<Rightarrow> int \<Rightarrow> settlementEscrowDepositItem list
    \<Rightarrow> settlementChallengeFundingResult list \<Rightarrow> settlementChallengeFundingResult list" where
  "collectFunding cfg expectation limit [] items = items"
| "collectFunding cfg expectation limit (deposit # deposits) items =
     (let lookup = lookupOfDeposit cfg deposit in
      case parseChallengeFundingResult (the (lr_MatchedTransfer lookup)) lookup (cfg_EscrowAddress cfg) of
        Inl _ \<Rightarrow> collectFunding cfg expectation limit deposits items
      | Inr funding \<Rightarrow>
          if compareChallengeFundingExpectation funding expectation \<noteq> [] then collectFunding cfg expectation limit deposits items
          else let items = items @ [funding\<lparr>fr_Index := length items\<rparr>] in
            if int (length items) \<ge> limit then items else collectFunding cfg expectation limit deposits items)"

text \<open>\<open>response.Limit * 5\<close> is a product of 64-bit integers.\<close>

definition fundingSearchLimit :: "int \<Rightarrow> int" where
  "fundingSearchLimit limit =
     (let searchLimit = sint (word_of_int (limit * 5) :: i64);
          searchLimit = (if searchLimit < limit then limit else searchLimit)
      in if searchLimit > 100 then 100 else searchLimit)"

definition listRecentChallengeFundingDeposits :: "'c env \<Rightarrow> settlementConfig \<Rightarrow> settlementChallengeFundingRecentFilters
    \<Rightarrow> ('c, settlementChallengeFundingRecentResponse) state" where
  "listRecentChallengeFundingDeposits env cfg filters =
     (let response = zero_settlementChallengeFundingRecentResponse\<lparr>fc_OK := False, fc_Limit := ff_Limit filters,
            fc_SenderFilter := TrimSpace (ff_Sender filters), fc_SourceApp := TrimSpace (ff_SourceApp filters),
            fc_SettlementRunID := TrimSpace (ff_SettlementRunID filters), fc_ChallengeID := TrimSpace (ff_ChallengeID filters),
            fc_SourceEventID := TrimSpace (ff_SourceEventID filters), fc_ParticipantSide := TrimSpace (ff_ParticipantSide filters),
            fc_ParticipantID := TrimSpace (ff_ParticipantID filters)\<rparr>;
          expectation = zero_settlementChallengeFundingExpectation\<lparr>fe_Sender := fc_SenderFilter response,
            fe_SourceApp := fc_SourceApp response, fe_SettlementRunID := fc_SettlementRunID response,
            fe_ChallengeID := fc_ChallengeID response, fe_SourceEventID := fc_SourceEventID response,
            fe_ParticipantSide := fc_ParticipantSide response, fe_ParticipantID := fc_ParticipantID response\<rparr> in
      if fc_Limit response \<le> 0
      then State_Monad.return (response\<lparr>fc_FailureCode := ''INVALID_LIMIT'', fc_Detail := ''limit must be greater than zero''\<rparr>)
      else case validateChallengeFundingExpectation expectation (cfg_AddressPrefix cfg) of
        Some err \<Rightarrow> State_Monad.return (response\<lparr>fc_FailureCode := ''INVALID_CHALLENGE'', fc_Detail := err\<rparr>)
      | None \<Rightarrow> do {
          escrowRecent \<leftarrow> listRecentEscrowDeposits env cfg (fundingSearchLimit (fc_Limit response)) (fc_SenderFilter response);
          State_Monad.return
            (if \<not> er_OK escrowRecent
             then response\<lparr>fc_FailureCode := er_FailureCode escrowRecent, fc_Detail := er_Detail escrowRecent\<rparr>
             else let items = collectFunding cfg expectation (fc_Limit response) (er_Deposits escrowRecent) []
                  in response\<lparr>fc_OK := True, fc_Count := length items, fc_Funding := items\<rparr>)
        })"

end
