(* ===== verification/Challenge_Plan.thy ===== *)
theory Challenge_Plan
  imports Funding Run_Lemmas
begin

text \<open>
  The plan of a challenge settlement (settlement_challenge.go, lines 780--1367 and 2215--2392):
  validation of the request, verification of every funding deposit, the loop over the requested
  transfers with its allocation of funded buckets, the check that every bucket is allocated exactly,
  the validation of the resulting run, the escrow top-up it needs, and the counters and totals of the
  response.

  The variables of the two loops are kept in the records \<open>fundingScan\<close> and \<open>transferScan\<close>.  The Go
  map of maps \<open>allocation\<close>, whose missing entries read as zero, is a function to \<open>uint64\<close>.
\<close>

section \<open>Status, counters and bucket totals of the response\<close>

fun firstChallengeTransferFailureCode :: "settlementChallengeTransferResult list \<Rightarrow> string" where
  "firstChallengeTransferFailureCode [] = []"
| "firstChallengeTransferFailureCode (transfer # transfers) =
     (if TrimSpace (ct_FailureCode transfer) \<noteq> [] then ct_FailureCode transfer else firstChallengeTransferFailureCode transfers)"

fun firstChallengeTransferFailureDetail :: "settlementChallengeTransferResult list \<Rightarrow> string" where
  "firstChallengeTransferFailureDetail [] = []"
| "firstChallengeTransferFailureDetail (transfer # transfers) =
     (if TrimSpace (ct_Detail transfer) \<noteq> [] \<and> TrimSpace (ct_FailureCode transfer) \<noteq> [] then ct_Detail transfer
      else firstChallengeTransferFailureDetail transfers)"

definition deriveSettlementChallengeStatus :: "settlementChallengeResponse \<Rightarrow> string \<times> bool \<times> string" where
  "deriveSettlementChallengeStatus response =
     (if cr_FailureCode response = ''INVALID_CHALLENGE'' then (''failed'', False, cr_FailureCode response)
      else if cr_ConfirmedTransferCount response = cr_RequestedTransferCount response \<and> cr_RequestedTransferCount response > 0
      then (''confirmed'', True, [])
      else if cr_ExecutedTransferCount response = cr_RequestedTransferCount response \<and> cr_RequestedTransferCount response > 0
      then (''accepted'', True, [])
      else if cr_ExecutedTransferCount response > 0 \<and> (cr_RefusedTransferCount response > 0 \<or> cr_RejectedTransferCount response > 0)
      then (''partial'', False, firstNonEmpty [cr_FailureCode response, firstChallengeTransferFailureCode (cr_Transfers response), ''CHALLENGE_PARTIAL_FAILURE''])
      else if cr_ExecutedTransferCount response = 0 \<and> (cr_RefusedTransferCount response > 0 \<or> cr_RejectedTransferCount response > 0)
      then (''failed'', False, firstNonEmpty [cr_FailureCode response, firstChallengeTransferFailureCode (cr_Transfers response), ''CHALLENGE_FAILED''])
      else (TrimSpace (cr_Status response), cr_OK response, cr_FailureCode response))"

definition settlementChallengeExecutionDetail :: "settlementChallengeResponse \<Rightarrow> string" where
  "settlementChallengeExecutionDetail response =
     (let status = TrimSpace (cr_Status response) in
      if status = ''confirmed'' then ''all '' @ Itoa (cr_ConfirmedTransferCount response) @ '' challenge transfers confirmed on WoloChain''
      else if status = ''accepted''
      then ''all '' @ Itoa (cr_ExecutedTransferCount response) @ '' challenge transfers were broadcast accepted; final confirmation is still pending for at least one transfer''
      else if status = ''partial''
      then Itoa (cr_ExecutedTransferCount response) @ '' of '' @ Itoa (cr_RequestedTransferCount response) @
        '' challenge transfers executed; inspect per-bucket results for the remaining failures''
      else if status = ''failed''
      then (let detail = firstChallengeTransferFailureDetail (cr_Transfers response) in
            if detail \<noteq> [] then detail else TrimSpace (cr_Detail response))
      else TrimSpace (cr_Detail response))"

definition markChallengeReadyTransfersFailed :: "settlementChallengeTransferResult list \<Rightarrow> string \<Rightarrow> string \<Rightarrow> bool
    \<Rightarrow> settlementChallengeTransferResult list" where
  "markChallengeReadyTransfersFailed transfers failureCode detail retryable =
     map (\<lambda>transfer. if ct_Outcome transfer \<noteq> ''ready'' then transfer
       else transfer\<lparr>ct_OK := False, ct_Status := ''failed'', ct_Outcome := ''refused'', ct_FailureCode := failureCode,
              ct_Retryable := retryable, ct_Detail := detail\<rparr>) transfers"

text \<open>
  The six totals of \<open>finalizeSettlementChallengeResponse\<close> and its map of bucket totals (the map's
  values are pointers: the fields of a bucket are updated in place).
\<close>

record challengeTotals =
  ctot_requested :: u64
  ctot_executed :: u64
  ctot_confirmed :: u64
  ctot_accepted :: u64
  ctot_refused :: u64
  ctot_rejected :: u64
  ctot_buckets :: "string \<Rightarrow> settlementChallengeBucketTotals option"

definition zero_challengeTotals :: challengeTotals where
  "zero_challengeTotals = \<lparr>ctot_requested = 0, ctot_executed = 0, ctot_confirmed = 0, ctot_accepted = 0, ctot_refused = 0,
     ctot_rejected = 0, ctot_buckets = (\<lambda>b. None)\<rparr>"

definition getBucketTotals :: "string \<Rightarrow> challengeTotals \<Rightarrow> settlementChallengeBucketTotals" where
  "getBucketTotals bucket t = (case ctot_buckets t bucket of
     None \<Rightarrow> zero_settlementChallengeBucketTotals\<lparr>bt_Bucket := bucket\<rparr> | Some totals \<Rightarrow> totals)"

text \<open>The string of a bucket's field after an amount has been added to it.\<close>

definition addAmount :: "u64 \<Rightarrow> string \<Rightarrow> string" where
  "addAmount amount uwolo = FormatUint (parseOptionalUWoloVal uwolo + amount)"

definition bucketRequested :: "u64 \<Rightarrow> settlementChallengeBucketTotals \<Rightarrow> settlementChallengeBucketTotals" where
  "bucketRequested amount b = b\<lparr>bt_RequestedUWolo := addAmount amount (bt_RequestedUWolo b),
     bt_RequestedWolo := formatDisplayAmount (addAmount amount (bt_RequestedUWolo b))\<rparr>"

definition bucketExecuted :: "u64 \<Rightarrow> settlementChallengeBucketTotals \<Rightarrow> settlementChallengeBucketTotals" where
  "bucketExecuted amount b = b\<lparr>bt_ExecutedUWolo := addAmount amount (bt_ExecutedUWolo b),
     bt_ExecutedWolo := formatDisplayAmount (addAmount amount (bt_ExecutedUWolo b))\<rparr>"

definition bucketConfirmed :: "u64 \<Rightarrow> settlementChallengeBucketTotals \<Rightarrow> settlementChallengeBucketTotals" where
  "bucketConfirmed amount b = b\<lparr>bt_ConfirmedUWolo := addAmount amount (bt_ConfirmedUWolo b),
     bt_ConfirmedWolo := formatDisplayAmount (addAmount amount (bt_ConfirmedUWolo b))\<rparr>"

definition bucketAccepted :: "u64 \<Rightarrow> settlementChallengeBucketTotals \<Rightarrow> settlementChallengeBucketTotals" where
  "bucketAccepted amount b = b\<lparr>bt_AcceptedUWolo := addAmount amount (bt_AcceptedUWolo b),
     bt_AcceptedWolo := formatDisplayAmount (addAmount amount (bt_AcceptedUWolo b))\<rparr>"

definition bucketRefused :: "u64 \<Rightarrow> settlementChallengeBucketTotals \<Rightarrow> settlementChallengeBucketTotals" where
  "bucketRefused amount b = b\<lparr>bt_RefusedUWolo := addAmount amount (bt_RefusedUWolo b),
     bt_RefusedWolo := formatDisplayAmount (addAmount amount (bt_RefusedUWolo b))\<rparr>"

definition bucketRejected :: "u64 \<Rightarrow> settlementChallengeBucketTotals \<Rightarrow> settlementChallengeBucketTotals" where
  "bucketRejected amount b = b\<lparr>bt_RejectedUWolo := addAmount amount (bt_RejectedUWolo b),
     bt_RejectedWolo := formatDisplayAmount (addAmount amount (bt_RejectedUWolo b))\<rparr>"

definition onBucket :: "string \<Rightarrow> (settlementChallengeBucketTotals \<Rightarrow> settlementChallengeBucketTotals) \<Rightarrow> challengeTotals \<Rightarrow> challengeTotals" where
  "onBucket bucket f t = t\<lparr>ctot_buckets := (ctot_buckets t)(bucket := Some (f (getBucketTotals bucket t)))\<rparr>"

definition tallyStatus :: "u64 \<Rightarrow> settlementChallengeTransferResult \<Rightarrow> settlementChallengeResponse \<times> challengeTotals
    \<Rightarrow> settlementChallengeResponse \<times> challengeTotals" where
  "tallyStatus amount transfer acc = (case acc of (response, t) \<Rightarrow>
     if ct_Status transfer = ''confirmed''
     then (response\<lparr>cr_ConfirmedTransferCount := cr_ConfirmedTransferCount response + 1, cr_ExecutedTransferCount := cr_ExecutedTransferCount response + 1\<rparr>,
           onBucket (ct_Bucket transfer) (bucketConfirmed amount \<circ> bucketExecuted amount)
             (t\<lparr>ctot_executed := ctot_executed t + amount, ctot_confirmed := ctot_confirmed t + amount\<rparr>))
     else if ct_Status transfer = ''accepted''
     then (response\<lparr>cr_AcceptedTransferCount := cr_AcceptedTransferCount response + 1, cr_ExecutedTransferCount := cr_ExecutedTransferCount response + 1\<rparr>,
           onBucket (ct_Bucket transfer) (bucketAccepted amount \<circ> bucketExecuted amount)
             (t\<lparr>ctot_executed := ctot_executed t + amount, ctot_accepted := ctot_accepted t + amount\<rparr>))
     else (response, t))"

definition tallyOutcome :: "u64 \<Rightarrow> settlementChallengeTransferResult \<Rightarrow> settlementChallengeResponse \<times> challengeTotals
    \<Rightarrow> settlementChallengeResponse \<times> challengeTotals" where
  "tallyOutcome amount transfer acc = (case acc of (response, t) \<Rightarrow>
     if ct_Outcome transfer = ''refused'' \<or> ct_Outcome transfer = ''invalid''
     then (response\<lparr>cr_RefusedTransferCount := cr_RefusedTransferCount response + 1\<rparr>,
           onBucket (ct_Bucket transfer) (bucketRefused amount) (t\<lparr>ctot_refused := ctot_refused t + amount\<rparr>))
     else if ct_Outcome transfer = ''rejected''
     then (response\<lparr>cr_RejectedTransferCount := cr_RejectedTransferCount response + 1\<rparr>,
           onBucket (ct_Bucket transfer) (bucketRejected amount) (t\<lparr>ctot_rejected := ctot_rejected t + amount\<rparr>))
     else (response, t))"

definition tallyFlags :: "settlementChallengeTransferResult \<Rightarrow> settlementChallengeResponse \<times> challengeTotals
    \<Rightarrow> settlementChallengeResponse \<times> challengeTotals" where
  "tallyFlags transfer acc = (case acc of (response, t) \<Rightarrow>
     (response\<lparr>cr_ReplayTransferCount := cr_ReplayTransferCount response + (if ct_IdempotentReplay transfer then 1 else 0),
        cr_Retryable := (cr_Retryable response \<or> ct_Retryable transfer)\<rparr>, t))"

fun tallyTransfers :: "settlementChallengeTransferResult list \<Rightarrow> settlementChallengeResponse \<times> challengeTotals
    \<Rightarrow> settlementChallengeResponse \<times> challengeTotals" where
  "tallyTransfers [] acc = acc"
| "tallyTransfers (transfer # transfers) acc =
     (case parseOptionalUWoloString (ct_AmountUWolo transfer) of
        Inl _ \<Rightarrow> tallyTransfers transfers acc
      | Inr amount \<Rightarrow>
          (case acc of (response, t) \<Rightarrow>
             let t1 = onBucket (ct_Bucket transfer) (bucketRequested amount) (t\<lparr>ctot_requested := ctot_requested t + amount\<rparr>)
             in tallyTransfers transfers (tallyFlags transfer (tallyOutcome amount transfer (tallyStatus amount transfer (response, t1))))))"

definition withChallengeTotals :: "challengeTotals \<Rightarrow> settlementChallengeResponse \<Rightarrow> settlementChallengeResponse" where
  "withChallengeTotals t response = response\<lparr>
     cr_RequestedTotalUWolo := firstNonEmpty [cr_RequestedTotalUWolo response, formatOptionalRunAmount (ctot_requested t)],
     cr_RequestedTotalWolo := firstNonEmpty [cr_RequestedTotalWolo response, formatOptionalRunDisplayAmount (ctot_requested t)],
     cr_ExecutedTotalUWolo := formatOptionalRunAmount (ctot_executed t), cr_ExecutedTotalWolo := formatOptionalRunDisplayAmount (ctot_executed t),
     cr_ConfirmedTotalUWolo := formatOptionalRunAmount (ctot_confirmed t), cr_ConfirmedTotalWolo := formatOptionalRunDisplayAmount (ctot_confirmed t),
     cr_AcceptedTotalUWolo := formatOptionalRunAmount (ctot_accepted t), cr_AcceptedTotalWolo := formatOptionalRunDisplayAmount (ctot_accepted t),
     cr_RefusedTotalUWolo := formatOptionalRunAmount (ctot_refused t), cr_RefusedTotalWolo := formatOptionalRunDisplayAmount (ctot_refused t),
     cr_RejectedTotalUWolo := formatOptionalRunAmount (ctot_rejected t), cr_RejectedTotalWolo := formatOptionalRunDisplayAmount (ctot_rejected t),
     cr_BucketTotals := concat (map (\<lambda>bucket. optionList (ctot_buckets t bucket))
       [settlementChallengeBucketWager, settlementChallengeBucketGuarantee])\<rparr>"

definition finalizeSettlementChallengeResponse :: "settlementChallengeResponse \<Rightarrow> settlementChallengeResponse" where
  "finalizeSettlementChallengeResponse response0 =
     (let response1 = (if cr_RequestedTransferCount response0 = 0
            then response0\<lparr>cr_RequestedTransferCount := length (cr_Transfers response0)\<rparr> else response0) in
      case tallyTransfers (cr_Transfers response1) (response1, zero_challengeTotals) of
        (response2, t) \<Rightarrow>
          let response3 = withChallengeTotals t response2;
              response4 = (if cr_Status response3 = []
                then (case deriveSettlementChallengeStatus response3 of
                        (status, ok, failureCode) \<Rightarrow> response3\<lparr>cr_Status := status, cr_OK := ok, cr_FailureCode := failureCode\<rparr>)
                else response3)
          in (case cr_Run response4 of
                None \<Rightarrow> response4
              | Some run \<Rightarrow> response4\<lparr>cr_Retryable := (cr_Retryable response4 \<or> rr_Retryable run)\<rparr>))"

section \<open>The requested transfers\<close>

definition transferErrors :: "settlementChallengeTransferInput \<Rightarrow> normalizedSettlementChallengeTransfer \<Rightarrow> string \<Rightarrow> string list" where
  "transferErrors transfer n addressPrefix =
     (if \<not> settlementRequestIDPattern (nt_RequestID n) then [requestIDMessage] else []) @
     (if nt_ParticipantSide n = [] \<and> nt_ParticipantID n = []
      then [''participant_side or participant_id is required on each challenge transfer''] else []) @
     (if nt_ParticipantSide n \<noteq> [] \<and> \<not> settlementChallengeParticipantSidePattern (nt_ParticipantSide n)
      then [''participant_side uses unsupported characters''] else []) @
     (if nt_ParticipantID n \<noteq> [] then optionList (metadataError ''participant_id'' 128 settlementSourceEventPattern (nt_ParticipantID n)) else []) @
     (if nt_Bucket n = settlementChallengeBucketWager \<or> nt_Bucket n = settlementChallengeBucketGuarantee then []
      else [''bucket must be wager or guarantee'']) @
     (if nt_Reason n = [] \<or> \<not> settlementChallengeReasonPattern (nt_Reason n)
      then [''reason must be a lowercase token such as refund, return, payout, or treasury''] else []) @
     (if nt_ToAddress n = [] then [''to_address is required for each challenge transfer'']
      else if \<not> isWoloAddress (nt_ToAddress n) addressPrefix then [''to_address must be a valid WOLO address''] else []) @
     (case normalizeAmountUWolo (ti_AmountUWolo transfer) (ti_AmountWolo transfer) of Inl err \<Rightarrow> [err] | Inr _ \<Rightarrow> [])"

text \<open>
  The trimmed participant id is a fixed point of \<open>normalizeSettlementRunMetadataID\<close>, so storing the
  normalised id changes nothing and is left out.
\<close>

lemma metadata_fixed:
  "normalizeSettlementRunMetadataID fieldName (TrimSpace value) maxLen pattern = Inr x \<Longrightarrow> x = TrimSpace value"
  by (auto simp: normalizeSettlementRunMetadataID_def Let_def split: if_splits)

definition trimmedTransfer :: "settlementChallengeTransferInput \<Rightarrow> string \<Rightarrow> nat \<Rightarrow> string \<Rightarrow> string \<Rightarrow> normalizedSettlementChallengeTransfer" where
  "trimmedTransfer transfer settlementID index defaultMemo treasuryAddress =
     (let reason = TrimSpace (ToLower (ti_Reason transfer)) in
      zero_normalizedSettlementChallengeTransfer\<lparr>nt_Index := index,
        nt_RequestID := (if TrimSpace (ti_RequestID transfer) = [] then deriveSettlementChallengeTransferRequestID settlementID index
          else TrimSpace (ti_RequestID transfer)),
        nt_ParticipantSide := TrimSpace (ti_ParticipantSide transfer), nt_ParticipantID := TrimSpace (ti_ParticipantID transfer),
        nt_Bucket := TrimSpace (ToLower (ti_Bucket transfer)), nt_Reason := reason,
        nt_ToAddress := (if TrimSpace (ti_ToAddress transfer) = [] \<and> reason = ''treasury'' then treasuryAddress
          else TrimSpace (ti_ToAddress transfer)),
        nt_Memo := cutAt 180 (if TrimSpace (ti_Memo transfer) = [] then defaultMemo else TrimSpace (ti_Memo transfer))\<rparr>)"

definition transferResult :: "normalizedSettlementChallengeTransfer \<Rightarrow> settlementChallengeTransferResult" where
  "transferResult n = zero_settlementChallengeTransferResult\<lparr>ct_Index := nt_Index n, ct_RequestID := nt_RequestID n,
     ct_ParticipantSide := nt_ParticipantSide n, ct_ParticipantID := nt_ParticipantID n, ct_Bucket := nt_Bucket n, ct_Reason := nt_Reason n,
     ct_Attempted := False, ct_OK := False, ct_Status := ''failed'', ct_Outcome := ''invalid'', ct_Memo := nt_Memo n,
     ct_AmountUWolo := nt_AmountUWolo n, ct_AmountWolo := formatDisplayAmount (nt_AmountUWolo n)\<rparr>"

definition normalizeSettlementChallengeTransfer :: "settlementChallengeTransferInput \<Rightarrow> string \<Rightarrow> nat \<Rightarrow> string \<Rightarrow> string \<Rightarrow> string
    \<Rightarrow> normalizedSettlementChallengeTransfer \<times> settlementChallengeTransferResult \<times> u64" where
  "normalizeSettlementChallengeTransfer transfer settlementID index defaultMemo treasuryAddress addressPrefix =
     (let trimmed = trimmedTransfer transfer settlementID index defaultMemo treasuryAddress;
          validationErrors = transferErrors transfer trimmed addressPrefix;
          normalized = trimmed\<lparr>nt_AmountUWolo := (case normalizeAmountUWolo (ti_AmountUWolo transfer) (ti_AmountWolo transfer) of
            Inl _ \<Rightarrow> [] | Inr amountUWolo \<Rightarrow> amountUWolo)\<rparr>
      in if validationErrors \<noteq> []
         then (normalized, (transferResult normalized)\<lparr>ct_FailureCode := ''INVALID_TRANSFER'', ct_Detail := Join validationErrors ''; ''\<rparr>, 0)
         else (normalized, (transferResult normalized)\<lparr>ct_OK := True, ct_Status := ''validated'', ct_Outcome := ''ready'',
                 ct_ToAddress := nt_ToAddress normalized\<rparr>,
               ParseUintVal (nt_AmountUWolo normalized)))"

section \<open>Participants\<close>

abbreviation fundingKey :: "settlementChallengeFundingResult \<Rightarrow> string" where
  "fundingKey f \<equiv> challengeFundingIdentityKey (fr_ParticipantSide f) (fr_ParticipantID f) (fr_FundingTxHash f)"

abbreviation fundingLabel :: "settlementChallengeFundingResult \<Rightarrow> string" where
  "fundingLabel f \<equiv> challengeFundingLabel (fr_ParticipantSide f) (fr_ParticipantID f) (fr_FundingTxHash f)"

text \<open>One of the two duplicate checks: by participant side or by participant id, ignoring case.\<close>

definition checkSeen :: "string \<Rightarrow> string \<Rightarrow> string \<Rightarrow> (string \<rightharpoonup> string) \<Rightarrow> string list \<times> (string \<rightharpoonup> string)" where
  "checkSeen what value label seen =
     (if value = [] then ([], seen)
      else case seen (ToLower value) of
        Some existing \<Rightarrow> ([what @ '' '' @ Quote value @ '' appears in multiple funding deposits ('' @ existing @ '' and '' @ label @ '')''], seen)
      | None \<Rightarrow> ([], seen(ToLower value \<mapsto> label)))"

fun participantErrors :: "(string \<rightharpoonup> string) \<Rightarrow> (string \<rightharpoonup> string) \<Rightarrow> verifiedSettlementChallengeFunding list \<Rightarrow> string list" where
  "participantErrors seenSides seenIDs [] = []"
| "participantErrors seenSides seenIDs (item # funding) =
     (let label = fundingLabel (vf_Result item);
          (sideErrors, seenSides) = checkSeen ''participant_side'' (TrimSpace (fr_ParticipantSide (vf_Result item))) label seenSides;
          (idErrors, seenIDs) = checkSeen ''participant_id'' (TrimSpace (fr_ParticipantID (vf_Result item))) label seenIDs
      in sideErrors @ idErrors @ participantErrors seenSides seenIDs funding)"

definition validateVerifiedChallengeFundingParticipants :: "verifiedSettlementChallengeFunding list \<Rightarrow> string list" where
  "validateVerifiedChallengeFundingParticipants funding = participantErrors Map.empty Map.empty funding"

definition participantMatches :: "string \<Rightarrow> string \<Rightarrow> verifiedSettlementChallengeFunding \<Rightarrow> bool" where
  "participantMatches participantSide participantID item =
     (if participantSide \<noteq> [] \<and> \<not> EqualFold (TrimSpace (fr_ParticipantSide (vf_Result item))) participantSide then False
      else if participantID \<noteq> [] \<and> \<not> EqualFold (TrimSpace (fr_ParticipantID (vf_Result item))) participantID then False
      else if participantSide = [] \<and> participantID = [] then False
      else True)"

definition resolveChallengeFundingParticipant :: "verifiedSettlementChallengeFunding list \<Rightarrow> string \<Rightarrow> string
    \<Rightarrow> verifiedSettlementChallengeFunding \<times> string" where
  "resolveChallengeFundingParticipant funding participantSide0 participantID0 =
     (let participantSide = TrimSpace participantSide0; participantID = TrimSpace participantID0 in
      case filter (participantMatches participantSide participantID) funding of
        [item] \<Rightarrow> (item, [])
      | [] \<Rightarrow> (zero_verifiedSettlementChallengeFunding, ''no verified funding deposit matches participant_side='' @ Quote participantSide @
                '' participant_id='' @ Quote participantID)
      | _ \<Rightarrow> (zero_verifiedSettlementChallengeFunding, ''participant reference is ambiguous across verified funding deposits''))"

section \<open>Allocation of the funded buckets\<close>

type_synonym allocation = "string \<Rightarrow> string \<Rightarrow> u64"

definition allocate :: "string \<Rightarrow> string \<Rightarrow> u64 \<Rightarrow> allocation \<Rightarrow> allocation" where
  "allocate key bucket amount allocation =
     allocation(key := (allocation key)(bucket := allocation key bucket + amount))"

definition bucketErrors :: "allocation \<Rightarrow> verifiedSettlementChallengeFunding \<Rightarrow> string list" where
  "bucketErrors allocation item =
     (let f = vf_Result item; buckets = allocation (fundingKey f);
          wagerAllocated = buckets settlementChallengeBucketWager;
          guaranteeAllocated = buckets settlementChallengeBucketGuarantee;
          wagerFunded = ParseUintVal (fr_WagerUWolo f);
          guaranteeFunded = ParseUintVal (fr_GuaranteeUWolo f)
      in (if wagerAllocated \<noteq> wagerFunded
          then [fundingLabel f @ '' wager bucket allocates '' @ FormatUint wagerAllocated @ '' uwolo but funding proves '' @ FormatUint wagerFunded @ '' uwolo''] else []) @
         (if guaranteeAllocated \<noteq> guaranteeFunded
          then [fundingLabel f @ '' guarantee bucket allocates '' @ FormatUint guaranteeAllocated @ '' uwolo but funding proves '' @ FormatUint guaranteeFunded @ '' uwolo''] else []))"

definition validateChallengeBucketAllocation :: "verifiedSettlementChallengeFunding list \<Rightarrow> allocation \<Rightarrow> string list" where
  "validateChallengeBucketAllocation funding allocation = concat (map (bucketErrors allocation) funding)"

definition hasInvalidChallengeTransfers :: "settlementChallengeTransferResult list \<Rightarrow> bool" where
  "hasInvalidChallengeTransfers transfers = list_ex (\<lambda>transfer. ct_Outcome transfer = ''invalid'') transfers"

record transferScan =
  cx_results :: "settlementChallengeTransferResult list"
  cx_normalized :: "normalizedSettlementChallengeTransfer list"
  cx_allocation :: allocation
  cx_seenRequestIDs :: "string set"
  cx_requestedTotal :: u64
  cx_payouts :: "settlementRunPayoutInput list"

definition zero_transferScan :: transferScan where
  "zero_transferScan = \<lparr>cx_results = [], cx_normalized = [], cx_allocation = (\<lambda>key bucket. 0), cx_seenRequestIDs = {},
     cx_requestedTotal = 0, cx_payouts = []\<rparr>"

definition payoutInput :: "normalizedSettlementChallengeTransfer \<Rightarrow> settlementRunPayoutInput" where
  "payoutInput n = zero_settlementRunPayoutInput\<lparr>pi_RequestID := nt_RequestID n, pi_ToAddress := nt_ToAddress n,
     pi_AmountUWolo := nt_AmountUWolo n, pi_Memo := nt_Memo n\<rparr>"

text \<open>The assignments of a line that turns out invalid after its normalisation (its \<open>ok\<close> flag is left alone).\<close>

definition invalidTransfer :: "string \<Rightarrow> string \<Rightarrow> settlementChallengeTransferResult \<Rightarrow> settlementChallengeTransferResult" where
  "invalidTransfer failureCode detail result = result\<lparr>ct_FailureCode := failureCode, ct_Detail := detail,
     ct_Status := ''failed'', ct_Outcome := ''invalid''\<rparr>"

text \<open>One turn of the loop over \<open>request.Transfers\<close>.\<close>

definition scanTransfer :: "settlementConfig \<Rightarrow> verifiedSettlementChallengeFunding list \<Rightarrow> string \<Rightarrow> string \<Rightarrow> string \<Rightarrow> nat
    \<Rightarrow> settlementChallengeTransferInput \<Rightarrow> transferScan \<Rightarrow> transferScan" where
  "scanTransfer cfg funding settlementID memo treasuryAddress index transfer cx0 =
     (case normalizeSettlementChallengeTransfer transfer settlementID index memo treasuryAddress (cfg_AddressPrefix cfg) of
        (n, result, amount) \<Rightarrow>
          let cx = cx0\<lparr>cx_normalized := cx_normalized cx0 @ [n]\<rparr>;
              emit = (\<lambda>r cx. cx\<lparr>cx_results := cx_results cx @ [r]\<rparr>) in
          if ct_FailureCode result \<noteq> [] then emit result cx
          else case resolveChallengeFundingParticipant funding (nt_ParticipantSide n) (nt_ParticipantID n) of
            (item, matchErr) \<Rightarrow>
              if matchErr \<noteq> [] then emit (invalidTransfer ''INVALID_TRANSFER_PARTICIPANT'' matchErr result) cx
              else if EqualFold (nt_Reason n) ''treasury'' \<and> treasuryAddress \<noteq> [] \<and> \<not> EqualFold (nt_ToAddress n) treasuryAddress
              then emit (invalidTransfer ''INVALID_TREASURY_ROUTE'' ''treasury transfer must route to the configured treasury_address'' result) cx
              else
                let f = vf_Result item;
                    cx = cx\<lparr>cx_allocation := allocate (fundingKey f) (nt_Bucket n) amount (cx_allocation cx)\<rparr>;
                    ready = result\<lparr>ct_OK := True, ct_Status := ''validated'', ct_Outcome := ''ready'',
                      ct_ParticipantSide := fr_ParticipantSide f, ct_ParticipantID := fr_ParticipantID f,
                      ct_AmountUWolo := nt_AmountUWolo n, ct_AmountWolo := formatDisplayAmount (nt_AmountUWolo n)\<rparr> in
                if nt_RequestID n \<in> cx_seenRequestIDs cx
                then emit (invalidTransfer ''DUPLICATE_REQUEST_ID'' (''request_id '' @ Quote (nt_RequestID n) @
                       '' appears more than once in this challenge settlement'') (ready\<lparr>ct_OK := False\<rparr>)) cx
                else emit ready (cx\<lparr>cx_seenRequestIDs := insert (nt_RequestID n) (cx_seenRequestIDs cx),
                       cx_requestedTotal := cx_requestedTotal cx + amount, cx_payouts := cx_payouts cx @ [payoutInput n]\<rparr>))"

fun scanTransfers :: "settlementConfig \<Rightarrow> verifiedSettlementChallengeFunding list \<Rightarrow> string \<Rightarrow> string \<Rightarrow> string \<Rightarrow> nat
    \<Rightarrow> settlementChallengeTransferInput list \<Rightarrow> transferScan \<Rightarrow> transferScan" where
  "scanTransfers cfg funding settlementID memo treasuryAddress index [] cx = cx"
| "scanTransfers cfg funding settlementID memo treasuryAddress index (transfer # transfers) cx =
     scanTransfers cfg funding settlementID memo treasuryAddress (index + 1) transfers
       (scanTransfer cfg funding settlementID memo treasuryAddress index transfer cx)"

section \<open>The funding deposits\<close>

record fundingScan =
  gs_normalized :: "normalizedSettlementChallengeFundingInput list"
  gs_results :: "settlementChallengeFundingResult list"
  gs_verified :: "verifiedSettlementChallengeFunding list"
  gs_fundedTotal :: u64

definition zero_fundingScan :: fundingScan where
  "zero_fundingScan = \<lparr>gs_normalized = [], gs_results = [], gs_verified = [], gs_fundedTotal = 0\<rparr>"

definition normalizedFundingInput :: "settlementChallengeFundingInput \<Rightarrow> normalizedSettlementChallengeFundingInput" where
  "normalizedFundingInput fundingInput = \<lparr>nf_FundingTxHash = normalizeTxHash (fi_FundingTxHash fundingInput),
     nf_DepositorAddress = TrimSpace (fi_DepositorAddress fundingInput), nf_SettlementRunID = TrimSpace (fi_SettlementRunID fundingInput),
     nf_ParticipantSide = TrimSpace (fi_ParticipantSide fundingInput), nf_ParticipantID = TrimSpace (fi_ParticipantID fundingInput),
     nf_ExpectedAmountUWolo = TrimSpace (fi_ExpectedAmountUWolo fundingInput), nf_WagerUWolo = TrimSpace (fi_WagerUWolo fundingInput),
     nf_GuaranteeUWolo = TrimSpace (fi_GuaranteeUWolo fundingInput)\<rparr>"

definition expectationOf :: "string \<Rightarrow> string \<Rightarrow> string \<Rightarrow> normalizedSettlementChallengeFundingInput \<Rightarrow> settlementChallengeFundingExpectation" where
  "expectationOf sourceApp challengeID sourceEventID n = \<lparr>fe_Sender = nf_DepositorAddress n, fe_SourceApp = sourceApp,
     fe_SettlementRunID = nf_SettlementRunID n, fe_ChallengeID = challengeID, fe_SourceEventID = sourceEventID,
     fe_ParticipantSide = nf_ParticipantSide n, fe_ParticipantID = nf_ParticipantID n, fe_TotalFundedUWolo = nf_ExpectedAmountUWolo n,
     fe_WagerUWolo = nf_WagerUWolo n, fe_GuaranteeUWolo = nf_GuaranteeUWolo n\<rparr>"

text \<open>What the loop does with the answer to one verification.\<close>

definition addFunding :: "nat \<Rightarrow> normalizedSettlementChallengeFundingInput \<Rightarrow> settlementChallengeFundingVerifyResponse \<Rightarrow> fundingScan \<Rightarrow> fundingScan" where
  "addFunding index n verifyResponse gs0 =
     (let gs = gs0\<lparr>gs_normalized := gs_normalized gs0 @ [n]\<rparr> in
      case fv_Funding verifyResponse of
        None \<Rightarrow> gs\<lparr>gs_results := gs_results gs @ [zero_settlementChallengeFundingResult\<lparr>fr_Index := index, fr_OK := False,
          fr_FundingTxHash := nf_FundingTxHash n, fr_FailureCode := firstNonEmpty [fv_FailureCode verifyResponse, ''INVALID_CHALLENGE''],
          fr_Detail := fv_Detail verifyResponse\<rparr>]\<rparr>
      | Some f0 \<Rightarrow>
          let f = f0\<lparr>fr_Index := index\<rparr>; gs = gs\<lparr>gs_results := gs_results gs @ [f]\<rparr> in
          if \<not> fv_OK verifyResponse then gs
          else gs\<lparr>gs_fundedTotal := (case parseOptionalUWoloString (fr_TotalFundedUWolo f) of
                  Inl _ \<Rightarrow> gs_fundedTotal gs | Inr amount \<Rightarrow> gs_fundedTotal gs + amount),
                gs_verified := gs_verified gs @ [\<lparr>vf_Result = f\<rparr>]\<rparr>)"

fun verifyFundings :: "'c env \<Rightarrow> settlementConfig \<Rightarrow> string \<Rightarrow> string \<Rightarrow> string \<Rightarrow> nat \<Rightarrow> settlementChallengeFundingInput list
    \<Rightarrow> fundingScan \<Rightarrow> ('c, fundingScan) state" where
  "verifyFundings env cfg sourceApp challengeID sourceEventID index [] gs = State_Monad.return gs"
| "verifyFundings env cfg sourceApp challengeID sourceEventID index (fundingInput # inputs) gs = do {
     let n = normalizedFundingInput fundingInput;
     verifyResponse \<leftarrow> verifyChallengeFundingDeposit env cfg (nf_FundingTxHash n) (expectationOf sourceApp challengeID sourceEventID n);
     verifyFundings env cfg sourceApp challengeID sourceEventID (index + 1) inputs (addFunding index n verifyResponse gs)
   }"

section \<open>The escrow top-up\<close>

text \<open>The payout balance the run needs, in plain \<open>uint64\<close> additions.\<close>

definition challengeRequiredBalance :: "settlementConfig \<Rightarrow> u64 \<Rightarrow> string \<Rightarrow> u64" where
  "challengeRequiredBalance cfg requestedTotal estimatedFeeTotal =
     (let required = (if cfg_MinPayoutBalanceUWolo cfg > requestedTotal - requestedTotal
            then requestedTotal + cfg_MinPayoutBalanceUWolo cfg else requestedTotal);
          required = (if cfg_FeeHeadroomUWolo cfg > required - requestedTotal
            then requestedTotal + cfg_FeeHeadroomUWolo cfg else required)
      in case parseOptionalUWoloString estimatedFeeTotal of Inl _ \<Rightarrow> required | Inr feeTotal \<Rightarrow> required + feeTotal)"

definition topUpText :: "string \<Rightarrow> string \<Rightarrow> string" where
  "topUpText uwolo wolo = uwolo @ '' uwolo ('' @ wolo @ '' wolo)''"

definition buildChallengeTopUpPlan :: "'c env \<Rightarrow> settlementConfig \<Rightarrow> string \<Rightarrow> settlementRunResponse
    \<Rightarrow> ('c, settlementChallengeTopUpResult option) state" where
  "buildChallengeTopUpPlan env cfg settlementID run =
     (case (parseOptionalUWoloString (rr_PayoutBalanceBeforeUWolo run), parseOptionalUWoloString (rr_RequestedTotalUWolo run)) of
        (Inr payoutBalanceBefore, Inr requestedTotal) \<Rightarrow>
          if rr_PayoutBalanceBeforeUWolo run = [] then State_Monad.return None
          else
            let required = challengeRequiredBalance cfg requestedTotal (rr_EstimatedFeeTotalUWolo run);
                shortfall = (if payoutBalanceBefore < required then required - payoutBalanceBefore else 0);
                plan = zero_settlementChallengeTopUpResult\<lparr>tu_Required := (shortfall > 0), tu_Enabled := cfg_EscrowAutoTopUp cfg,
                  tu_Possible := (shortfall = 0), tu_RequestID := deriveSettlementChallengeTopUpRequestID settlementID,
                  tu_SignerRole := ''escrow'', tu_ToAddress := TrimSpace (cfg_PayoutAddress cfg),
                  tu_AmountUWolo := FormatUint shortfall, tu_AmountWolo := formatDisplayAmount (FormatUint shortfall),
                  tu_PayoutBalanceBeforeUWolo := rr_PayoutBalanceBeforeUWolo run, tu_PayoutBalanceBeforeWolo := rr_PayoutBalanceBeforeWolo run,
                  tu_RequiredPayoutBalanceUWolo := FormatUint required,
                  tu_RequiredPayoutBalanceWolo := formatDisplayAmount (FormatUint required)\<rparr>
            in if \<not> tu_Required plan then State_Monad.return (Some plan)
               else if TrimSpace (cfg_PayoutAddress cfg) = []
               then State_Monad.return (Some (plan\<lparr>tu_FailureCode := ''PAYOUT_SIGNER_UNAVAILABLE'',
                      tu_Detail := ''payout signer address is unavailable for challenge top-up planning''\<rparr>))
               else if TrimSpace (cfg_EscrowKeyName cfg) = [] \<or> TrimSpace (cfg_EscrowAddress cfg) = []
               then State_Monad.return (Some (plan\<lparr>tu_FailureCode := ''ESCROW_TOP_UP_UNCONFIGURED'',
                      tu_Detail := ''WOLO_SETTLEMENT_ESCROW_KEY_NAME and WOLO_SETTLEMENT_ESCROW_ADDRESS are required for escrow auto top-up''\<rparr>))
               else do {
                 resolved \<leftarrow> resolveEscrowAddress env cfg;
                 (case resolved of
                    Inl err \<Rightarrow> State_Monad.return (Some (plan\<lparr>tu_FailureCode := ''ESCROW_TOP_UP_UNCONFIGURED'', tu_Detail := err\<rparr>))
                  | Inr escrowAddress \<Rightarrow> do {
                      balance \<leftarrow> fetchAccountBalanceUWolo env cfg escrowAddress;
                      let plan = plan\<lparr>tu_FromAddress := escrowAddress\<rparr>;
                      State_Monad.return (Some (case balance of
                        Inl err \<Rightarrow> plan\<lparr>tu_FailureCode := ''ESCROW_BALANCE_LOOKUP_FAILED'', tu_Detail := err\<rparr>
                      | Inr escrowBalance \<Rightarrow>
                          let plan = plan\<lparr>tu_EscrowBalanceUWolo := FormatUint escrowBalance,
                                tu_EscrowBalanceWolo := formatDisplayAmount (FormatUint escrowBalance)\<rparr>;
                              amount = topUpText (tu_AmountUWolo plan) (tu_AmountWolo plan) in
                          if escrowBalance < shortfall
                          then plan\<lparr>tu_FailureCode := ''ESCROW_BALANCE_TOO_LOW'', tu_Detail := ''escrow balance '' @
                                 topUpText (tu_EscrowBalanceUWolo plan) (tu_EscrowBalanceWolo plan) @ '' is below the required payout top-up '' @ amount\<rparr>
                          else plan\<lparr>tu_Possible := True, tu_Detail :=
                                 (if cfg_EscrowAutoTopUp cfg
                                  then ''escrow top-up of '' @ amount @ '' will raise the payout signer to '' @
                                    topUpText (tu_RequiredPayoutBalanceUWolo plan) (tu_RequiredPayoutBalanceWolo plan) @ '' before challenge execution''
                                  else ''escrow holds enough WOLO to top up the payout signer by '' @ amount @
                                    '', but WOLO_SETTLEMENT_ESCROW_AUTO_TOP_UP_ENABLED is off'')\<rparr>))
                    })
               }
      | _ \<Rightarrow> State_Monad.return None)"

section \<open>The plan\<close>

text \<open>The trimmed request and the checks made before anything is looked up.\<close>

definition treasuryOf :: "settlementConfig \<Rightarrow> settlementChallengeRequest \<Rightarrow> string" where
  "treasuryOf cfg request = (if TrimSpace (cq_TreasuryAddress request) = [] then TrimSpace (cfg_TreasuryAddress cfg)
     else TrimSpace (cq_TreasuryAddress request))"

definition sourceAppCheck :: "settlementChallengeRequest \<Rightarrow> string list" where
  "sourceAppCheck request =
     (case normalizeSettlementRunMetadataID ''source_app'' (TrimSpace (cq_SourceApp request)) 64 settlementRequestIDPattern of
        Inl err \<Rightarrow> [err] | Inr app \<Rightarrow> if app = [] then [''source_app is required''] else [])"

definition challengeValidationErrors :: "settlementConfig \<Rightarrow> settlementChallengeRequest \<Rightarrow> string list" where
  "challengeValidationErrors cfg request =
     optionList (validateSettlementRunID (TrimSpace (cq_SettlementRunID request))) @
     sourceAppCheck request @
     optionList (metadataError ''challenge_id'' 128 settlementSourceEventPattern (TrimSpace (cq_ChallengeID request))) @
     optionList (metadataError ''source_event_id'' 128 settlementSourceEventPattern (TrimSpace (cq_SourceEventID request))) @
     (if TrimSpace (cq_ChallengeID request) = [] \<and> TrimSpace (cq_SourceEventID request) = []
      then [''challenge_id or source_event_id is required''] else []) @
     (if treasuryOf cfg request \<noteq> [] \<and> \<not> isWoloAddress (treasuryOf cfg request) (cfg_AddressPrefix cfg)
      then [''treasury_address must be a valid WOLO address''] else []) @
     (if cq_Funding request = [] then [''funding must contain at least one verified escrow deposit''] else []) @
     (if cq_Transfers request = [] then [''transfers must contain at least one bucket movement''] else [])"

definition challengeBase :: "settlementConfig \<Rightarrow> settlementChallengeRequest \<Rightarrow> settlementChallengeResponse" where
  "challengeBase cfg request = zero_settlementChallengeResponse\<lparr>cr_OK := False, cr_DryRun := True, cr_Status := ''failed'',
     cr_SettlementRunID := TrimSpace (cq_SettlementRunID request), cr_SourceApp := TrimSpace (cq_SourceApp request),
     cr_ChallengeID := TrimSpace (cq_ChallengeID request), cr_SourceEventID := TrimSpace (cq_SourceEventID request),
     cr_TreasuryAddress := treasuryOf cfg request, cr_Note := cutAt 280 (TrimSpace (cq_Note request)),
     cr_Memo := cutAt 180 (TrimSpace (cq_Memo request)), cr_FundingCount := length (cq_Funding request)\<rparr>"

definition normalizedBase :: "settlementConfig \<Rightarrow> settlementChallengeRequest \<Rightarrow> normalizedSettlementChallengeRequest" where
  "normalizedBase cfg request = zero_normalizedSettlementChallengeRequest\<lparr>nc_SettlementRunID := TrimSpace (cq_SettlementRunID request),
     nc_SourceApp := TrimSpace (cq_SourceApp request), nc_ChallengeID := TrimSpace (cq_ChallengeID request),
     nc_SourceEventID := TrimSpace (cq_SourceEventID request), nc_TreasuryAddress := treasuryOf cfg request,
     nc_Note := cutAt 280 (TrimSpace (cq_Note request)), nc_Memo := cutAt 180 (TrimSpace (cq_Memo request))\<rparr>"

definition earlyPlan :: "normalizedSettlementChallengeRequest \<Rightarrow> settlementChallengeResponse \<Rightarrow> settlementChallengePlan" where
  "earlyPlan normalized response = zero_settlementChallengePlan\<lparr>pl_Normalized := normalized, pl_Response := response\<rparr>"

text \<open>The switch at the end: what the run's validation and the top-up plan make of the settlement.\<close>

definition challengeVerdict :: "settlementRunResponse \<Rightarrow> settlementChallengeTopUpResult option \<Rightarrow> settlementChallengeResponse \<Rightarrow> settlementChallengeResponse" where
  "challengeVerdict runValidation topUp response0 =
     (let response = response0\<lparr>cr_Run := Some runValidation, cr_TopUp := topUp\<rparr>;
          required = (case topUp of None \<Rightarrow> False | Some t \<Rightarrow> tu_Required t);
          t = the topUp in
      if required \<and> \<not> tu_Enabled t
      then response\<lparr>cr_OK := False, cr_Status := ''failed'', cr_FailureCode := ''PAYOUT_TOP_UP_REQUIRED'', cr_Retryable := True,
             cr_Detail := firstNonEmpty [tu_Detail t, ''escrow top-up is required before executing this challenge settlement'']\<rparr>
      else if required \<and> \<not> tu_Possible t
      then let failureCode = firstNonEmpty [tu_FailureCode t, ''ESCROW_TOP_UP_UNAVAILABLE''] in
           response\<lparr>cr_OK := False, cr_Status := ''failed'', cr_FailureCode := failureCode,
             cr_Retryable := (suffix ''_LOOKUP_FAILED'' failureCode \<or> suffix ''_TOO_LOW'' failureCode), cr_Detail := tu_Detail t\<rparr>
      else if required
      then response\<lparr>cr_OK := True, cr_Status := ''validated'',
             cr_Detail := ''challenge settlement validated; escrow top-up will fund the payout signer before execution''\<rparr>
      else if rr_OK runValidation
      then response\<lparr>cr_OK := True, cr_Status := ''validated'', cr_Detail := ''challenge settlement validated''\<rparr>
      else response\<lparr>cr_OK := False, cr_Status := ''failed'', cr_FailureCode := rr_FailureCode runValidation,
             cr_Retryable := rr_Retryable runValidation, cr_Detail := rr_Detail runValidation\<rparr>)"

definition challengeRunRequest :: "settlementChallengeRequest \<Rightarrow> settlementRunPayoutInput list \<Rightarrow> settlementRunRequest" where
  "challengeRunRequest request payouts = zero_settlementRunRequest\<lparr>rq_SettlementRunID := TrimSpace (cq_SettlementRunID request),
     rq_SourceApp := TrimSpace (cq_SourceApp request),
     rq_SourceEventID := firstNonEmpty [TrimSpace (cq_SourceEventID request), TrimSpace (cq_ChallengeID request)],
     rq_Note := cutAt 280 (TrimSpace (cq_Note request)), rq_Memo := cutAt 180 (TrimSpace (cq_Memo request)), rq_Payouts := payouts\<rparr>"

text \<open>The part after the transfers have been scanned.\<close>

definition planTransfers :: "'c env \<Rightarrow> settlementConfig \<Rightarrow> settlementChallengeRequest \<Rightarrow> verifiedSettlementChallengeFunding list
    \<Rightarrow> normalizedSettlementChallengeRequest \<Rightarrow> settlementChallengeResponse \<Rightarrow> transferScan \<Rightarrow> ('c, settlementChallengePlan) state" where
  "planTransfers env cfg request funding normalized0 response0 cx =
     (let normalized = normalized0\<lparr>nc_Transfers := cx_normalized cx\<rparr>;
          response = response0\<lparr>cr_Transfers := cx_results cx, cr_RequestedTransferCount := length (cx_results cx),
            cr_RequestedTotalUWolo := FormatUint (cx_requestedTotal cx),
            cr_RequestedTotalWolo := formatDisplayAmount (FormatUint (cx_requestedTotal cx))\<rparr>;
          runRequest = challengeRunRequest request (cx_payouts cx);
          errors = validateChallengeBucketAllocation funding (cx_allocation cx) in
      if errors \<noteq> []
      then State_Monad.return (earlyPlan normalized (finalizeSettlementChallengeResponse
             (response\<lparr>cr_FailureCode := ''INVALID_CHALLENGE'',
                cr_Detail := (if cr_Detail response \<noteq> [] then cr_Detail response @ ''; '' else []) @ Join errors ''; ''\<rparr>)))
      else if hasInvalidChallengeTransfers (cr_Transfers response)
      then State_Monad.return (earlyPlan normalized (finalizeSettlementChallengeResponse
             (response\<lparr>cr_FailureCode := ''INVALID_CHALLENGE'',
                cr_Detail := (if cr_Detail response = [] then ''one or more challenge transfer lines are invalid'' else cr_Detail response)\<rparr>)))
      else do {
        runValidation \<leftarrow> validateSettlementRun env cfg runRequest;
        topUp \<leftarrow> buildChallengeTopUpPlan env cfg (TrimSpace (cq_SettlementRunID request)) runValidation;
        State_Monad.return \<lparr>pl_Normalized = normalized,
          pl_Response = finalizeSettlementChallengeResponse (challengeVerdict runValidation topUp response), pl_RunRequest = runRequest\<rparr>
      })"

definition buildSettlementChallengePlan :: "'c env \<Rightarrow> settlementConfig \<Rightarrow> settlementChallengeRequest \<Rightarrow> ('c, settlementChallengePlan) state" where
  "buildSettlementChallengePlan env cfg request =
     (let response = challengeBase cfg request; normalized = normalizedBase cfg request; errors = challengeValidationErrors cfg request in
      if errors \<noteq> []
      then State_Monad.return (earlyPlan normalized (response\<lparr>cr_FailureCode := ''INVALID_CHALLENGE'', cr_Detail := Join errors ''; ''\<rparr>))
      else do {
        gs \<leftarrow> verifyFundings env cfg (TrimSpace (cq_SourceApp request)) (TrimSpace (cq_ChallengeID request))
          (TrimSpace (cq_SourceEventID request)) 0 (cq_Funding request) zero_fundingScan;
        let normalized = normalized\<lparr>nc_Funding := gs_normalized gs\<rparr>;
        let response = response\<lparr>cr_Funding := gs_results gs, cr_FundingVerifiedCount := length (gs_verified gs),
          cr_FundingCount := length (gs_results gs), cr_FundingTotalUWolo := FormatUint (gs_fundedTotal gs),
          cr_FundingTotalWolo := formatDisplayAmount (FormatUint (gs_fundedTotal gs))\<rparr>;
        let participantErrs = validateVerifiedChallengeFundingParticipants (gs_verified gs);
        if length (gs_verified gs) \<noteq> length (cq_Funding request)
        then State_Monad.return (earlyPlan normalized (finalizeSettlementChallengeResponse (response\<lparr>cr_FailureCode := ''INVALID_CHALLENGE'',
               cr_Detail := ''one or more funding deposits could not be verified against the challenge funding memo convention''\<rparr>)))
        else if participantErrs \<noteq> []
        then State_Monad.return (earlyPlan normalized (finalizeSettlementChallengeResponse (response\<lparr>cr_FailureCode := ''INVALID_CHALLENGE'',
               cr_Detail := Join participantErrs ''; ''\<rparr>)))
        else planTransfers env cfg request (gs_verified gs) normalized (response\<lparr>cr_ParticipantCount := length (gs_verified gs)\<rparr>)
               (scanTransfers cfg (gs_verified gs) (TrimSpace (cq_SettlementRunID request)) (cutAt 180 (TrimSpace (cq_Memo request)))
                  (treasuryOf cfg request) 0 (cq_Transfers request) zero_transferScan)
      })"

definition validateSettlementChallenge :: "'c env \<Rightarrow> settlementConfig \<Rightarrow> settlementChallengeRequest \<Rightarrow> ('c, settlementChallengeResponse) state" where
  "validateSettlementChallenge env cfg request = do {
     plan \<leftarrow> buildSettlementChallengePlan env cfg request;
     State_Monad.return ((pl_Response plan)\<lparr>cr_DryRun := True\<rparr>)
   }"

end
