(* ===== verification/Challenge.thy ===== *)
theory Challenge
  imports Challenge_Plan
begin

text \<open>
  Execution of a challenge settlement (settlement_challenge.go, lines 646--778, 1369--1412, 2168--2213
  and 2394--2405): under the challenge's lock the stored record is replayed or refused, or else the
  payout signer is topped up from escrow, the run of the planned transfers is executed, its line
  results are merged back into the transfers, and the outcome is recorded.
\<close>

section \<open>Merging the run's results\<close>

text \<open>Later lines of the run overwrite earlier ones in the source's map.\<close>

definition resultsByRequestID :: "settlementRunPayoutResult list \<Rightarrow> string \<rightharpoonup> settlementRunPayoutResult" where
  "resultsByRequestID payouts = map_of (rev (map (\<lambda>payout. (pr_RequestID payout, payout)) payouts))"

definition mergedTransfer :: "normalizedSettlementChallengeTransfer \<Rightarrow> settlementRunPayoutResult option \<Rightarrow> settlementChallengeTransferResult" where
  "mergedTransfer transfer found =
     (let result = zero_settlementChallengeTransferResult\<lparr>ct_Index := nt_Index transfer, ct_RequestID := nt_RequestID transfer,
            ct_ParticipantSide := nt_ParticipantSide transfer, ct_ParticipantID := nt_ParticipantID transfer, ct_Bucket := nt_Bucket transfer,
            ct_Reason := nt_Reason transfer, ct_Attempted := False, ct_OK := False, ct_Status := ''failed'', ct_Outcome := ''invalid'',
            ct_ToAddress := nt_ToAddress transfer, ct_AmountUWolo := nt_AmountUWolo transfer,
            ct_AmountWolo := formatDisplayAmount (nt_AmountUWolo transfer), ct_Memo := nt_Memo transfer\<rparr> in
      case found of
        None \<Rightarrow> result
      | Some payout \<Rightarrow> result\<lparr>ct_Attempted := pr_Attempted payout, ct_OK := pr_OK payout, ct_Status := pr_Status payout,
          ct_Outcome := pr_Outcome payout, ct_FailureCode := pr_FailureCode payout, ct_Retryable := pr_Retryable payout,
          ct_IdempotentReplay := pr_IdempotentReplay payout, ct_SignerRole := pr_SignerRole payout,
          ct_SignerAddress := pr_SignerAddress payout, ct_TxHash := pr_TxHash payout, ct_Detail := pr_Detail payout,
          ct_CanonicalTxLookup := pr_CanonicalTxLookup payout, ct_CanonicalTxLookupPreferred := pr_CanonicalTxLookupPreferred payout,
          ct_CanonicalTxLookupInternal := pr_CanonicalTxLookupInternal payout,
          ct_CanonicalTxLookupPublic := pr_CanonicalTxLookupPublic payout, ct_Warnings := pr_Warnings payout\<rparr>)"

definition mergeChallengeRunResults :: "normalizedSettlementChallengeTransfer list \<Rightarrow> settlementRunResponse
    \<Rightarrow> settlementChallengeTransferResult list" where
  "mergeChallengeRunResults transfers run =
     map (\<lambda>transfer. mergedTransfer transfer (resultsByRequestID (rr_Payouts run) (nt_RequestID transfer))) transfers"

section \<open>The escrow top-up\<close>

definition executeChallengeTopUp :: "'c env \<Rightarrow> settlementConfig \<Rightarrow> string \<Rightarrow> settlementChallengeTopUpResult
    \<Rightarrow> ('c world, string + settlementChallengeTopUpResult) state" where
  "executeChallengeTopUp env cfg settlementID plan0 =
     (if \<not> tu_Required plan0 then State_Monad.return (Inr plan0)
      else do {
        result \<leftarrow> executeEscrowTransfer env cfg (zero_settlementExecuteRequest\<lparr>xq_RequestID := tu_RequestID plan0,
          xq_ToAddress := tu_ToAddress plan0, xq_AmountUWolo := tu_AmountUWolo plan0,
          xq_Memo := cutAt 180 (''challenge top-up '' @ settlementID)\<rparr>);
        (case result of
           Inl err \<Rightarrow> State_Monad.return (Inl err)
         | Inr response \<Rightarrow>
           let plan = plan0\<lparr>tu_Response := Some response, tu_FailureCode := xr_FailureCode response, tu_Detail := xr_Detail response,
                 tu_SignerRole := xr_SignerRole response, tu_FromAddress := xr_SignerAddress response, tu_ToAddress := xr_ToAddress response\<rparr>;
               pendingDetail = ''escrow top-up broadcast was accepted but the payout balance has not reached the required level yet'';
               pending = plan\<lparr>tu_Response := Some (response\<lparr>xr_OK := False, xr_Status := ''failed'',
                 xr_FailureCode := ''ESCROW_TOP_UP_PENDING_CONFIRMATION'', xr_Retryable := True, xr_Detail := pendingDetail\<rparr>),
                 tu_FailureCode := ''ESCROW_TOP_UP_PENDING_CONFIRMATION'', tu_Detail := pendingDetail\<rparr> in
           if xr_OK response \<and> xr_Status response = ''accepted''
           then do {
             balance \<leftarrow> onChain (fetchAccountBalanceUWolo env cfg (tu_ToAddress plan));
             State_Monad.return (Inr (case balance of
               Inl _ \<Rightarrow> pending
             | Inr b \<Rightarrow> if b \<ge> ParseUintVal (tu_RequiredPayoutBalanceUWolo plan) then plan else pending))
           }
           else State_Monad.return (Inr plan))
      })"

section \<open>Execution\<close>

definition settlementChallengeResponseIsFinal :: "settlementChallengeResponse \<Rightarrow> bool" where
  "settlementChallengeResponseIsFinal response =
     (if cr_Retryable response then False
      else cr_OK response \<or> EqualFold (TrimSpace (cr_Status response)) ''failed'' \<or> EqualFold (TrimSpace (cr_Status response)) ''partial'')"

definition challengeRefusal :: "string \<Rightarrow> string \<Rightarrow> string \<Rightarrow> settlementChallengeResponse \<Rightarrow> settlementChallengeResponse" where
  "challengeRefusal settlementID failureCode detail response = zero_settlementChallengeResponse\<lparr>cr_OK := False, cr_DryRun := False,
     cr_Status := ''failed'', cr_FailureCode := failureCode, cr_Retryable := False, cr_SettlementRunID := settlementID,
     cr_SourceApp := cr_SourceApp response, cr_ChallengeID := cr_ChallengeID response, cr_SourceEventID := cr_SourceEventID response,
     cr_TreasuryAddress := cr_TreasuryAddress response, cr_Note := cr_Note response, cr_Memo := cr_Memo response, cr_Detail := detail\<rparr>"

definition recordChallenge :: "'c env \<Rightarrow> settlementConfig \<Rightarrow> string \<Rightarrow> normalizedSettlementChallengeRequest \<Rightarrow> settlementChallengeResponse
    \<Rightarrow> ('c world, string + settlementChallengeResponse) state" where
  "recordChallenge env cfg settlementID normalized response = do {
     w \<leftarrow> State_Monad.get;
     err \<leftarrow> writeSettlementChallengeStoredResult env (challengeRecordPath cfg settlementID) \<lparr>cs_Request = normalized,
       cs_Fingerprint = env_hashChallenge env normalized, cs_Response = response, cs_UpdatedAt = env_now env (w_chain w)\<rparr>;
     State_Monad.return (case err of Some e \<Rightarrow> Inl e | None \<Rightarrow> Inr response)
   }"

text \<open>The run of the planned transfers, and the response made of its results.\<close>

definition settledResponse :: "normalizedSettlementChallengeRequest \<Rightarrow> settlementRunResponse \<Rightarrow> settlementChallengeResponse \<Rightarrow> settlementChallengeResponse" where
  "settledResponse normalized runResponse response =
     (let finalized = finalizeSettlementChallengeResponse (response\<lparr>cr_Run := Some runResponse,
            cr_Transfers := mergeChallengeRunResults (nc_Transfers normalized) runResponse, cr_Status := [], cr_OK := False,
            cr_FailureCode := [], cr_Retryable := rr_Retryable runResponse, cr_IdempotentReplay := False\<rparr>)
      in finalized\<lparr>cr_Detail := settlementChallengeExecutionDetail finalized\<rparr>)"

definition executeChallengeRun :: "'c env \<Rightarrow> settlementConfig \<Rightarrow> string \<Rightarrow> settlementChallengePlan \<Rightarrow> settlementChallengeResponse
    \<Rightarrow> ('c world, string + settlementChallengeResponse) state" where
  "executeChallengeRun env cfg settlementID plan response = do {
     result \<leftarrow> executeSettlementRun env cfg (pl_RunRequest plan);
     (case result of
        Inl err \<Rightarrow> State_Monad.return (Inl err)
      | Inr runResponse \<Rightarrow>
          recordChallenge env cfg settlementID (pl_Normalized plan) (settledResponse (pl_Normalized plan) runResponse response))
   }"

text \<open>A top-up that did not go through fails the settlement.\<close>

definition topUpFailed :: "settlementChallengeTopUpResult \<Rightarrow> settlementChallengeResponse \<Rightarrow> settlementChallengeResponse" where
  "topUpFailed topUp response =
     (let failureCode = firstNonEmpty [tu_FailureCode topUp, ''ESCROW_TOP_UP_FAILED''];
          retryable = (case tu_Response topUp of None \<Rightarrow> False | Some r \<Rightarrow> xr_Retryable r);
          detail = firstNonEmpty [tu_Detail topUp, ''escrow top-up failed'']
      in finalizeSettlementChallengeResponse (response\<lparr>cr_TopUp := Some topUp, cr_OK := False, cr_Status := ''failed'',
           cr_FailureCode := failureCode, cr_Retryable := retryable, cr_Detail := detail,
           cr_Transfers := markChallengeReadyTransfersFailed (cr_Transfers response) failureCode detail retryable\<rparr>))"

definition executePlannedChallenge :: "'c env \<Rightarrow> settlementConfig \<Rightarrow> string \<Rightarrow> settlementChallengePlan
    \<Rightarrow> ('c world, string + settlementChallengeResponse) state" where
  "executePlannedChallenge env cfg settlementID plan =
     (let response = (pl_Response plan)\<lparr>cr_DryRun := False\<rparr> in
      if \<not> cr_OK response
      then recordChallenge env cfg settlementID (pl_Normalized plan) (finalizeSettlementChallengeResponse (response\<lparr>cr_Transfers :=
             markChallengeReadyTransfersFailed (cr_Transfers response) (cr_FailureCode response) (cr_Detail response) (cr_Retryable response)\<rparr>))
      else case cr_TopUp response of
        None \<Rightarrow> executeChallengeRun env cfg settlementID plan response
      | Some topUp \<Rightarrow>
        if \<not> tu_Required topUp then executeChallengeRun env cfg settlementID plan response
        else do {
          result \<leftarrow> executeChallengeTopUp env cfg settlementID topUp;
          (case result of
             Inl err \<Rightarrow> State_Monad.return (Inl err)
           | Inr topUpResult \<Rightarrow>
               if (case tu_Response topUpResult of None \<Rightarrow> True | Some r \<Rightarrow> \<not> xr_OK r)
               then recordChallenge env cfg settlementID (pl_Normalized plan) (topUpFailed topUpResult response)
               else executeChallengeRun env cfg settlementID plan (response\<lparr>cr_TopUp := Some topUpResult\<rparr>))
        })"

definition challengeUnderLock :: "'c env \<Rightarrow> settlementConfig \<Rightarrow> string \<Rightarrow> settlementChallengePlan
    \<Rightarrow> ('c world, string + settlementChallengeResponse) state" where
  "challengeUnderLock env cfg settlementID plan = do {
     w \<leftarrow> State_Monad.get;
     (case readSettlementChallengeStoredResult (challengeRecordPath cfg settlementID) w of
        ReadOK stored \<Rightarrow>
          if cs_Fingerprint stored \<noteq> env_hashChallenge env (pl_Normalized plan)
          then State_Monad.return (Inr (challengeRefusal settlementID ''IDEMPOTENCY_CONFLICT''
                 ''settlement_run_id already exists with different challenge settlement payload'' (pl_Response plan)))
          else if settlementChallengeResponseIsFinal (cs_Response stored)
          then State_Monad.return (Inr ((cs_Response stored)\<lparr>cr_DryRun := False, cr_IdempotentReplay := True\<rparr>))
          else executePlannedChallenge env cfg settlementID plan
      | ReadFailed readErr \<Rightarrow> State_Monad.return (Inr (challengeRefusal settlementID ''STATE_FILE_INVALID''
          (''could not read challenge settlement state file: '' @ readErr) (pl_Response plan)))
      | NotExist \<Rightarrow> executePlannedChallenge env cfg settlementID plan)
   }"

definition executeSettlementChallenge :: "'c env \<Rightarrow> settlementConfig \<Rightarrow> settlementChallengeRequest
    \<Rightarrow> ('c world, string + settlementChallengeResponse) state" where
  "executeSettlementChallenge env cfg request = do {
     plan \<leftarrow> onChain (buildSettlementChallengePlan env cfg request);
     let settlementID = TrimSpace (cr_SettlementRunID (pl_Response plan));
     if settlementID = [] then State_Monad.return (Inr ((pl_Response plan)\<lparr>cr_DryRun := False\<rparr>))
     else withChallengeLock env cfg settlementID (challengeUnderLock env cfg settlementID plan)
   }"

end
