(* ===== verification/Challenge_Lemmas.thy ===== *)
theory Challenge_Lemmas
  imports Challenge
begin

text \<open>
  Facts about challenge settlement that the properties rest on: what a parsed funding memo and a
  passed comparison guarantee, what the two scans of the plan collect, that distinct participants
  have distinct allocation keys, and the closed forms of the response's counters.
\<close>

section \<open>Funding memos\<close>

lemma metadataError_None:
  "metadataError fieldName maxLen pattern value = None \<Longrightarrow> TrimSpace value = [] \<or> pattern (TrimSpace value)"
  by (auto simp: metadataError_def normalizeSettlementRunMetadataID_def Let_def split: sum.splits if_splits)

lemma optionalMetadata_Inr: "optionalMetadata fieldName value = Inr x \<Longrightarrow> x = [] \<or> settlementSourceEventPattern x"
  by (auto simp: optionalMetadata_def normalizeSettlementRunMetadataID_def Let_def split: if_splits)

text \<open>What holds of the identity and the amounts a memo names.\<close>

lemma parseMemoIdentity_cases:
  assumes "parseMemoIdentity values = Inr i"
  shows "\<exists>cid eid pid. optionalMetadata ''challenge_id'' cid = Inr (mi_challengeID i) \<and>
    optionalMetadata ''source_event_id'' eid = Inr (mi_sourceEventID i) \<and>
    optionalMetadata ''participant_id'' pid = Inr (mi_participantID i) \<and>
    \<not> (mi_challengeID i = [] \<and> mi_sourceEventID i = []) \<and>
    \<not> (mi_participantSide i \<noteq> [] \<and> \<not> settlementChallengeParticipantSidePattern (mi_participantSide i)) \<and>
    \<not> (mi_participantSide i = [] \<and> mi_participantID i = [])"
  using assms unfolding parseMemoIdentity_def Let_def
  by (clarsimp split: if_split_asm sum.split_asm option.split_asm) blast+

lemma parseMemoIdentity_sound:
  assumes "parseMemoIdentity values = Inr i"
  shows "mi_participantSide i \<noteq> [] \<or> mi_participantID i \<noteq> []"
    "mi_participantSide i = [] \<or> settlementChallengeParticipantSidePattern (mi_participantSide i)"
    "mi_participantID i = [] \<or> settlementSourceEventPattern (mi_participantID i)"
    "mi_challengeID i \<noteq> [] \<or> mi_sourceEventID i \<noteq> []"
  using parseMemoIdentity_cases [OF assms] optionalMetadata_Inr by blast+

lemma parseChallengeMemoAmount_pos: "parseChallengeMemoAmount fieldName raw = Inr v \<Longrightarrow> v \<noteq> 0"
  by (auto simp: parseChallengeMemoAmount_def Let_def split: if_splits sum.splits)

lemma parseMemoAmounts_sound:
  assumes "parseMemoAmounts values amount = Inr (w, g)"
  shows "ParseUint amount = Inr (w + g)" "w \<noteq> 0" "g \<noteq> 0" "w + g \<noteq> 0"
  using assms
  by (auto simp: parseMemoAmounts_def Let_def dest: parseChallengeMemoAmount_pos split: if_splits sum.splits)

text \<open>A funding result as the memo parser makes it.\<close>

definition wfFunding :: "settlementChallengeFundingResult \<Rightarrow> bool" where
  "wfFunding f \<longleftrightarrow>
     (fr_ParticipantSide f \<noteq> [] \<or> fr_ParticipantID f \<noteq> []) \<and>
     (fr_ParticipantSide f = [] \<or> settlementChallengeParticipantSidePattern (fr_ParticipantSide f)) \<and>
     (fr_ParticipantID f = [] \<or> settlementSourceEventPattern (fr_ParticipantID f)) \<and>
     (\<exists>w g. fr_WagerUWolo f = FormatUint w \<and> fr_GuaranteeUWolo f = FormatUint g \<and> w \<noteq> 0 \<and> g \<noteq> 0 \<and>
        ParseUint (fr_TotalFundedUWolo f) = Inr (w + g))"

lemma parseChallengeFundingResult_sound:
  assumes "parseChallengeFundingResult transfer lookup escrow = Inr f"
  shows "wfFunding f" "fr_Sender f = tr_Sender transfer" "fr_TotalFundedUWolo f = TrimSpace (tr_Amount transfer)"
    "prefix settlementChallengeFundingMemoPrefix (fr_Memo f)" "fr_Memo f = TrimSpace (lr_Memo lookup)"
    "fr_FundingTxHash f = lr_TxHash lookup"
proof -
  obtain vs i w g where memo: "prefix settlementChallengeFundingMemoPrefix (TrimSpace (lr_Memo lookup))"
    and i: "parseMemoIdentity vs = Inr i"
    and a: "parseMemoAmounts vs (TrimSpace (tr_Amount transfer)) = Inr (w, g)"
    and f: "fr_ParticipantSide f = mi_participantSide i" "fr_ParticipantID f = mi_participantID i"
      "fr_WagerUWolo f = FormatUint w" "fr_GuaranteeUWolo f = FormatUint g" "fr_TotalFundedUWolo f = TrimSpace (tr_Amount transfer)"
      "fr_Sender f = tr_Sender transfer" "fr_Memo f = TrimSpace (lr_Memo lookup)" "fr_FundingTxHash f = lr_TxHash lookup"
    using assms by (auto simp: parseChallengeFundingResult_def Let_def split: if_splits prod.splits option.splits sum.splits)
  from parseMemoIdentity_sound [OF i] parseMemoAmounts_sound [OF a] show "wfFunding f"
    unfolding wfFunding_def f by blast
  from f memo show "fr_Sender f = tr_Sender transfer" "fr_TotalFundedUWolo f = TrimSpace (tr_Amount transfer)"
    "prefix settlementChallengeFundingMemoPrefix (fr_Memo f)" "fr_Memo f = TrimSpace (lr_Memo lookup)" "fr_FundingTxHash f = lr_TxHash lookup"
    by simp_all
qed

text \<open>A passed comparison: every field that is expected agrees, ignoring case.\<close>

definition agrees :: "string \<Rightarrow> string \<Rightarrow> bool" where
  "agrees expected actual \<longleftrightarrow> TrimSpace expected = [] \<or> EqualFold (TrimSpace expected) (TrimSpace actual)"

lemma firstMismatch_Nil:
  "\<forall>(name, expected, actual) \<in> set checks. name \<noteq> [] \<Longrightarrow>
     firstMismatch checks = [] \<longleftrightarrow> (\<forall>(name, expected, actual) \<in> set checks. agrees expected actual)"
  by (induction checks rule: firstMismatch.induct) (auto simp: agrees_def Let_def)

lemma compareChallengeFundingExpectation_Nil:
  "compareChallengeFundingExpectation f e = [] \<longleftrightarrow>
     agrees (fe_SourceApp e) (fr_SourceApp f) \<and> agrees (fe_SettlementRunID e) (fr_SettlementRunID f) \<and>
     agrees (fe_ChallengeID e) (fr_ChallengeID f) \<and> agrees (fe_SourceEventID e) (fr_SourceEventID f) \<and>
     agrees (fe_ParticipantSide e) (fr_ParticipantSide f) \<and> agrees (fe_ParticipantID e) (fr_ParticipantID f) \<and>
     agrees (fe_Sender e) (fr_Sender f) \<and> agrees (fe_TotalFundedUWolo e) (fr_TotalFundedUWolo f) \<and>
     agrees (fe_WagerUWolo e) (fr_WagerUWolo f) \<and> agrees (fe_GuaranteeUWolo e) (fr_GuaranteeUWolo f)"
  unfolding compareChallengeFundingExpectation_def by (subst firstMismatch_Nil) (auto simp: fundingChecks_def)

lemma refuseFunding_sel [simp]: "\<not> fv_OK (refuseFunding code detail result lookup)"
  by (simp add: refuseFunding_def)

lemma fundingVerdict_ok:
  assumes "fv_OK (fundingVerdict cfg e result lookup)"
  shows "lr_OK lookup" "lr_Found lookup" "lr_Kind lookup = ''escrow_deposit''"
    "\<exists>transfer f. lr_MatchedTransfer lookup = Some transfer \<and>
       parseChallengeFundingResult transfer lookup (cfg_EscrowAddress cfg) = Inr f \<and>
       compareChallengeFundingExpectation f e = [] \<and>
       fv_Funding (fundingVerdict cfg e result lookup) = Some (f\<lparr>fr_OK := True, fr_Detail := ''challenge funding deposit verified''\<rparr>)"
  using assms by (auto simp: fundingVerdict_def Let_def split: if_splits option.splits sum.splits)

lemma verifyChallengeFundingDeposit_ok:
  assumes "fv_OK (fst (run_state (verifyChallengeFundingDeposit env cfg txHash e) c))"
  shows "\<exists>result lookup. lookup = fst (run_state (lookupSettlementTx env cfg txHash \<lparr>le_Sender = TrimSpace (fe_Sender e),
      le_Recipient = cfg_EscrowAddress cfg, le_AmountUWolo = TrimSpace (fe_TotalFundedUWolo e)\<rparr>) c) \<and>
    fst (run_state (verifyChallengeFundingDeposit env cfg txHash e) c) = fundingVerdict cfg e result lookup \<and>
    TrimSpace (cfg_EscrowAddress cfg) \<noteq> []"
  using assms
  by (auto simp: verifyChallengeFundingDeposit_def Let_def split: if_splits option.splits)

lemma wfFunding_update [simp]:
  "wfFunding (f\<lparr>fr_OK := b\<rparr>) = wfFunding f" "wfFunding (f\<lparr>fr_Detail := d\<rparr>) = wfFunding f" "wfFunding (f\<lparr>fr_Index := n\<rparr>) = wfFunding f"
  by (simp_all add: wfFunding_def)

lemma verified_wfFunding:
  assumes "fv_OK (fst (run_state (verifyChallengeFundingDeposit env cfg txHash e) c))"
  shows "\<exists>f. fv_Funding (fst (run_state (verifyChallengeFundingDeposit env cfg txHash e) c)) = Some f \<and> wfFunding f"
proof -
  obtain result lookup where v: "fst (run_state (verifyChallengeFundingDeposit env cfg txHash e) c) = fundingVerdict cfg e result lookup"
    using verifyChallengeFundingDeposit_ok [OF assms] by blast
  show ?thesis
    using fundingVerdict_ok(4) [of cfg e result lookup] assms parseChallengeFundingResult_sound(1)
    unfolding v by fastforce
qed

section \<open>The scan of the funding deposits\<close>

definition fundingInv :: "nat \<Rightarrow> fundingScan \<Rightarrow> bool" where
  "fundingInv index gs \<longleftrightarrow>
     length (gs_results gs) = index \<and> length (gs_verified gs) \<le> index \<and>
     (length (gs_verified gs) = index \<longrightarrow> gs_results gs = map vf_Result (gs_verified gs)) \<and>
     (\<forall>item \<in> set (gs_verified gs). wfFunding (vf_Result item)) \<and>
     gs_fundedTotal gs = (\<Sum>item \<leftarrow> gs_verified gs. lineAmount (fr_TotalFundedUWolo (vf_Result item)))"

lemma fundingInv_zero: "fundingInv 0 zero_fundingScan"
  by (simp add: fundingInv_def zero_fundingScan_def)

lemma fundingInv_step:
  assumes "fundingInv index gs" and "fv_OK v \<Longrightarrow> \<exists>f. fv_Funding v = Some f \<and> wfFunding f"
  shows "fundingInv (index + 1) (addFunding index n v gs)"
proof (cases "fv_OK v")
  case False
  have "gs_verified (addFunding index n v gs) = gs_verified gs" "gs_fundedTotal (addFunding index n v gs) = gs_fundedTotal gs"
    "length (gs_results (addFunding index n v gs)) = length (gs_results gs) + 1"
    using False by (simp_all add: addFunding_def Let_def split: option.splits)
  with assms(1) show ?thesis unfolding fundingInv_def by simp
next
  case True
  then obtain f where "fv_Funding v = Some f" "wfFunding f" using assms(2) by blast
  with True assms(1) show ?thesis
    by (simp add: addFunding_def fundingInv_def lineAmount_def Let_def split: sum.splits)
qed

lemma fundingInv_scan:
  "fundingInv index gs \<Longrightarrow>
     fundingInv (index + length inputs) (fst (run_state (verifyFundings env cfg app cid eid index inputs gs) c))"
proof (induction inputs arbitrary: index gs c)
  case (Cons input inputs)
  let ?n = "normalizedFundingInput input"
  let ?v = "run_state (verifyChallengeFundingDeposit env cfg (nf_FundingTxHash ?n) (expectationOf app cid eid ?n)) c"
  have "fundingInv (index + 1) (addFunding index ?n (fst ?v) gs)"
    by (rule fundingInv_step [OF Cons.prems]) (rule verified_wfFunding)
  from Cons.IH [OF this, of "snd ?v"] show ?case by (simp add: Let_def)
qed simp

section \<open>Distinct participants have distinct allocation keys\<close>

lemma checkSeen_ok:
  assumes "fst (checkSeen what value label seen) = []"
  shows "value = [] \<or> ToLower value \<notin> dom seen"
    "dom (snd (checkSeen what value label seen)) = dom seen \<union> (if value = [] then {} else {ToLower value})"
  using assms by (auto simp: checkSeen_def split: if_splits option.splits)

definition foldedSide :: "verifiedSettlementChallengeFunding \<Rightarrow> string" where
  "foldedSide item = ToLower (TrimSpace (fr_ParticipantSide (vf_Result item)))"

definition foldedID :: "verifiedSettlementChallengeFunding \<Rightarrow> string" where
  "foldedID item = ToLower (TrimSpace (fr_ParticipantID (vf_Result item)))"

lemma participantErrors_ok:
  assumes "participantErrors seenSides seenIDs funding = []"
  shows "distinct (filter (\<lambda>s. s \<noteq> []) (map foldedSide funding)) \<and> distinct (filter (\<lambda>s. s \<noteq> []) (map foldedID funding)) \<and>
    set (filter (\<lambda>s. s \<noteq> []) (map foldedSide funding)) \<inter> dom seenSides = {} \<and>
    set (filter (\<lambda>s. s \<noteq> []) (map foldedID funding)) \<inter> dom seenIDs = {}"
  using assms
proof (induction funding arbitrary: seenSides seenIDs)
  case (Cons item funding)
  let ?s = "checkSeen ''participant_side'' (TrimSpace (fr_ParticipantSide (vf_Result item))) (fundingLabel (vf_Result item)) seenSides"
  let ?i = "checkSeen ''participant_id'' (TrimSpace (fr_ParticipantID (vf_Result item))) (fundingLabel (vf_Result item)) seenIDs"
  have errs: "fst ?s = []" "fst ?i = []" and rest: "participantErrors (snd ?s) (snd ?i) funding = []"
    using Cons.prems by (simp_all add: case_prod_beta Let_def)
  note ih = Cons.IH [OF rest]
  from ih checkSeen_ok [OF errs(1)] checkSeen_ok [OF errs(2)] show ?case
    by (auto simp: foldedSide_def foldedID_def split: if_splits)
qed simp

lemma distinct_folded:
  assumes "distinct (filter (\<lambda>s. s \<noteq> []) (map g xs))" and "i < length xs" and "j < length xs"
    and "g (xs ! i) = g (xs ! j)" and "g (xs ! i) \<noteq> []"
  shows "i = j"
  using assms
proof (induction xs arbitrary: i j)
  case (Cons x xs)
  show ?case
  proof (cases i; cases j)
    fix i' j' assume "i = Suc i'" "j = Suc j'"
    with Cons show ?thesis by (auto split: if_splits)
  next
    fix j' assume "i = 0" "j = Suc j'"
    then have False using Cons.prems by (auto split: if_splits)
    then show ?thesis ..
  next
    fix i' assume "i = Suc i'" "j = 0"
    then have False using Cons.prems by (auto split: if_splits) (metis image_eqI nth_mem)
    then show ?thesis ..
  qed simp
qed simp

text \<open>The parts of a key are separated by a bar, which occurs in no side and no participant id.\<close>

lemma join_bar_inject:
  assumes "a @ ''|'' @ b = a' @ ''|'' @ b'" and "CHR ''|'' \<notin> set a" and "CHR ''|'' \<notin> set a'"
  shows "a = a' \<and> b = b'"
proof -
  have "takeWhile (\<lambda>c. c \<noteq> CHR ''|'') (x @ ''|'' @ y) = x" if "CHR ''|'' \<notin> set x" for x y :: string
    using that by (induction x) auto
  with assms show ?thesis by (metis same_append_eq)
qed

lemma bar_class: "\<not> isAlnum (CHR ''|'')"
  by (simp add: byte_class_defs byte_def)

lemma byte_lowerChar: "byte (lowerChar c) = (if isUpper c then byte c + 32 else byte c)"
  by (auto simp: lowerChar_def isUpper_def)

lemma bar_ToLower: "CHR ''|'' \<in> set (ToLower s) \<longleftrightarrow> CHR ''|'' \<in> set s"
proof -
  have "lowerChar c = CHR ''|'' \<longleftrightarrow> c = CHR ''|''" for c
  proof
    assume l: "lowerChar c = CHR ''|''"
    have "\<not> isUpper c"
    proof
      assume "isUpper c"
      then have "byte (lowerChar c) \<le> 122" by (simp add: byte_lowerChar isUpper_def)
      moreover have "byte (lowerChar c) = 124" unfolding l by (simp add: byte_def)
      ultimately show False by simp
    qed
    with l show "c = CHR ''|''" by (simp add: lowerChar_def)
  qed (simp add: lowerChar_def isUpper_def byte_def)
  then show ?thesis unfolding ToLower_def set_map image_iff by metis
qed

lemma bar_notin:
  "s = [] \<or> settlementChallengeParticipantSidePattern s \<Longrightarrow> CHR ''|'' \<notin> set (ToLower (TrimSpace s))"
  "s = [] \<or> settlementSourceEventPattern s \<Longrightarrow> CHR ''|'' \<notin> set (ToLower (TrimSpace s))"
  unfolding bar_ToLower using set_TrimSpace [of s] bar_class
  by (cases s; auto simp: settlementChallengeParticipantSidePattern_def settlementSourceEventPattern_def list_all_iff)+

lemma fundingKey_inject:
  assumes "wfFunding f" and "wfFunding g" and "fundingKey f = fundingKey g"
  shows "ToLower (TrimSpace (fr_ParticipantSide f)) = ToLower (TrimSpace (fr_ParticipantSide g)) \<and>
    ToLower (TrimSpace (fr_ParticipantID f)) = ToLower (TrimSpace (fr_ParticipantID g))"
proof -
  have side: "CHR ''|'' \<notin> set (ToLower (TrimSpace (fr_ParticipantSide h)))"
    and pid: "CHR ''|'' \<notin> set (ToLower (TrimSpace (fr_ParticipantID h)))" if "wfFunding h" for h
    using that bar_notin(1) [of "fr_ParticipantSide h"] bar_notin(2) [of "fr_ParticipantID h"] by (simp_all add: wfFunding_def)
  note outer = join_bar_inject [OF assms(3) [unfolded challengeFundingIdentityKey_def] side [OF assms(1)] side [OF assms(2)]]
  from outer join_bar_inject [OF outer [THEN conjunct2] pid [OF assms(1)] pid [OF assms(2)]] show ?thesis by simp
qed

section \<open>The scan of the transfers\<close>

lemma optionList_Nil [simp]: "optionList x = [] \<longleftrightarrow> x = None"
  by (simp add: optionList_def split: option.splits)

lemma transferErrors_Nil:
  assumes "transferErrors transfer n p = []"
  shows "nt_Bucket n \<in> {settlementChallengeBucketWager, settlementChallengeBucketGuarantee}" "settlementRequestIDPattern (nt_RequestID n)"
  using assms by (simp_all add: transferErrors_def split: if_split_asm)

lemma transferResult_sel [simp]:
  "ct_Outcome (transferResult n) = ''invalid''" "ct_FailureCode (transferResult n) = []" "ct_Bucket (transferResult n) = nt_Bucket n"
  "ct_RequestID (transferResult n) = nt_RequestID n" "ct_AmountUWolo (transferResult n) = nt_AmountUWolo n"
  by (simp_all add: transferResult_def)

lemma normalizeTransfer_invalid:
  assumes "normalizeSettlementChallengeTransfer transfer sid index memo treasury p = (n, result, amount)" and "ct_FailureCode result \<noteq> []"
  shows "ct_Outcome result = ''invalid''"
  using assms by (simp add: normalizeSettlementChallengeTransfer_def Let_def split: if_split_asm) auto

lemma normalizeTransfer_ready:
  assumes "normalizeSettlementChallengeTransfer transfer sid index memo treasury p = (n, result, amount)" and "ct_FailureCode result = []"
  shows "nt_Bucket n \<in> {settlementChallengeBucketWager, settlementChallengeBucketGuarantee}"
    "amount = ParseUintVal (nt_AmountUWolo n)" "ct_Bucket result = nt_Bucket n" "ct_RequestID result = nt_RequestID n"
    "ct_ToAddress result = nt_ToAddress n" "settlementRequestIDPattern (nt_RequestID n)"
proof -
  let ?t = "trimmedTransfer transfer sid index memo treasury"
  have ok: "transferErrors transfer ?t p = []"
    using assms by (auto simp: normalizeSettlementChallengeTransfer_def Let_def split: if_split_asm)
  note eqs = assms(1) [unfolded normalizeSettlementChallengeTransfer_def Let_def ok, simplified]
  show "nt_Bucket n \<in> {settlementChallengeBucketWager, settlementChallengeBucketGuarantee}" "settlementRequestIDPattern (nt_RequestID n)"
    using eqs transferErrors_Nil [OF ok] by auto
  show "amount = ParseUintVal (nt_AmountUWolo n)" "ct_Bucket result = nt_Bucket n" "ct_RequestID result = nt_RequestID n"
    "ct_ToAddress result = nt_ToAddress n"
    using eqs by auto
qed

text \<open>A line and the deposit it is charged to.\<close>

definition chargedTo :: "verifiedSettlementChallengeFunding \<Rightarrow> settlementChallengeTransferResult \<Rightarrow> bool" where
  "chargedTo item r \<longleftrightarrow> ct_ParticipantSide r = fr_ParticipantSide (vf_Result item) \<and> ct_ParticipantID r = fr_ParticipantID (vf_Result item) \<and>
     ct_Bucket r \<in> {settlementChallengeBucketWager, settlementChallengeBucketGuarantee}"

definition resultOfLine :: "normalizedSettlementChallengeTransfer \<Rightarrow> settlementChallengeTransferResult \<Rightarrow> bool" where
  "resultOfLine n r \<longleftrightarrow> ct_RequestID r = nt_RequestID n \<and> ct_AmountUWolo r = nt_AmountUWolo n \<and> ct_ToAddress r = nt_ToAddress n \<and>
     ct_Bucket r = nt_Bucket n \<and> ct_Outcome r = ''ready'' \<and> ct_Status r = ''validated'' \<and> settlementRequestIDPattern (nt_RequestID n)"

lemma invalidTransfer_sel [simp]: "ct_Outcome (invalidTransfer code detail r) = ''invalid''"
  by (simp add: invalidTransfer_def)

lemma resolve_member:
  assumes "resolveChallengeFundingParticipant funding side pid = (item, [])"
  shows "item \<in> set funding" "participantMatches (TrimSpace side) (TrimSpace pid) item"
proof -
  have "filter (participantMatches (TrimSpace side) (TrimSpace pid)) funding = [item]"
    using assms by (auto simp: resolveChallengeFundingParticipant_def Let_def split: list.splits)
  then have "item \<in> set (filter (participantMatches (TrimSpace side) (TrimSpace pid)) funding)" by simp
  then show "item \<in> set funding" "participantMatches (TrimSpace side) (TrimSpace pid) item" by simp_all
qed

lemma scanTransfer_cases:
  obtains (invalid) n r al where
      "scanTransfer cfg funding sid memo treasury index transfer cx =
         cx\<lparr>cx_normalized := cx_normalized cx @ [n], cx_results := cx_results cx @ [r], cx_allocation := al\<rparr>" "ct_Outcome r = ''invalid''"
  | (ready) n item r where
      "scanTransfer cfg funding sid memo treasury index transfer cx = cx\<lparr>cx_normalized := cx_normalized cx @ [n],
         cx_allocation := allocate (fundingKey (vf_Result item)) (ct_Bucket r) (ParseUintVal (ct_AmountUWolo r)) (cx_allocation cx),
         cx_seenRequestIDs := insert (nt_RequestID n) (cx_seenRequestIDs cx),
         cx_requestedTotal := cx_requestedTotal cx + ParseUintVal (ct_AmountUWolo r),
         cx_payouts := cx_payouts cx @ [payoutInput n], cx_results := cx_results cx @ [r]\<rparr>"
      "item \<in> set funding" "nt_RequestID n \<notin> cx_seenRequestIDs cx" "chargedTo item r" "resultOfLine n r"
proof -
  obtain n result amount where n: "normalizeSettlementChallengeTransfer transfer sid index memo treasury (cfg_AddressPrefix cfg) = (n, result, amount)"
    by (cases "normalizeSettlementChallengeTransfer transfer sid index memo treasury (cfg_AddressPrefix cfg)")
  obtain item err where item: "resolveChallengeFundingParticipant funding (nt_ParticipantSide n) (nt_ParticipantID n) = (item, err)"
    by (cases "resolveChallengeFundingParticipant funding (nt_ParticipantSide n) (nt_ParticipantID n)")
  define mis where "mis \<longleftrightarrow> EqualFold (nt_Reason n) ''treasury'' \<and> treasury \<noteq> [] \<and> \<not> EqualFold (nt_ToAddress n) treasury"
  have run: "scanTransfer cfg funding sid memo treasury index transfer cx =
      (let cx = cx\<lparr>cx_normalized := cx_normalized cx @ [n]\<rparr>; emit = (\<lambda>r cx. cx\<lparr>cx_results := cx_results cx @ [r]\<rparr>);
         f = vf_Result item; cx1 = cx\<lparr>cx_allocation := allocate (fundingKey f) (nt_Bucket n) amount (cx_allocation cx)\<rparr>;
         ready = result\<lparr>ct_OK := True, ct_Status := ''validated'', ct_Outcome := ''ready'',
           ct_ParticipantSide := fr_ParticipantSide f, ct_ParticipantID := fr_ParticipantID f,
           ct_AmountUWolo := nt_AmountUWolo n, ct_AmountWolo := formatDisplayAmount (nt_AmountUWolo n)\<rparr> in
       if ct_FailureCode result \<noteq> [] then emit result cx
       else if err \<noteq> [] then emit (invalidTransfer ''INVALID_TRANSFER_PARTICIPANT'' err result) cx
       else if mis
       then emit (invalidTransfer ''INVALID_TREASURY_ROUTE'' ''treasury transfer must route to the configured treasury_address'' result) cx
       else if nt_RequestID n \<in> cx_seenRequestIDs cx
       then emit (invalidTransfer ''DUPLICATE_REQUEST_ID'' (''request_id '' @ Quote (nt_RequestID n) @
              '' appears more than once in this challenge settlement'') (ready\<lparr>ct_OK := False\<rparr>)) cx1
       else emit ready (cx1\<lparr>cx_seenRequestIDs := insert (nt_RequestID n) (cx_seenRequestIDs cx),
              cx_requestedTotal := cx_requestedTotal cx + amount, cx_payouts := cx_payouts cx @ [payoutInput n]\<rparr>))"
    by (simp add: scanTransfer_def n item Let_def mis_def)
  show ?thesis
  proof (cases "ct_FailureCode result = [] \<and> err = [] \<and> \<not> mis \<and> nt_RequestID n \<notin> cx_seenRequestIDs cx")
    case True
    note facts = normalizeTransfer_ready [OF n True [THEN conjunct1]]
    let ?f = "vf_Result item"
    let ?r = "result\<lparr>ct_OK := True, ct_Status := ''validated'', ct_Outcome := ''ready'', ct_ParticipantSide := fr_ParticipantSide ?f,
      ct_ParticipantID := fr_ParticipantID ?f, ct_AmountUWolo := nt_AmountUWolo n, ct_AmountWolo := formatDisplayAmount (nt_AmountUWolo n)\<rparr>"
    have member: "item \<in> set funding" using True item resolve_member(1) by simp
    show ?thesis
    proof (rule ready [where n = n and item = item and r = ?r, OF _ member])
      show "chargedTo item ?r" "resultOfLine n ?r" "nt_RequestID n \<notin> cx_seenRequestIDs cx"
        using facts True by (simp_all add: chargedTo_def resultOfLine_def)
    qed (use True facts in \<open>simp add: run Let_def\<close>)
  next
    case False
    then consider "ct_FailureCode result \<noteq> []" | "ct_FailureCode result = []" "err \<noteq> []"
      | "ct_FailureCode result = []" "err = []" mis
      | "ct_FailureCode result = []" "err = []" "\<not> mis" "nt_RequestID n \<in> cx_seenRequestIDs cx" by blast
    then show ?thesis
    proof cases
      case 1
      then show ?thesis
        by (intro invalid [where n = n and r = result and al = "cx_allocation cx"]) (simp_all add: run Let_def normalizeTransfer_invalid [OF n])
    next
      case 2
      then show ?thesis
        by (intro invalid [where n = n and r = "invalidTransfer ''INVALID_TRANSFER_PARTICIPANT'' err result" and al = "cx_allocation cx"])
          (simp_all add: run Let_def)
    next
      case 3
      then show ?thesis
        by (intro invalid [where n = n and al = "cx_allocation cx" and r = "invalidTransfer ''INVALID_TREASURY_ROUTE''
            ''treasury transfer must route to the configured treasury_address'' result"]) (simp_all add: run Let_def)
    next
      case 4
      then show ?thesis
        by (intro invalid [where n = n and al = "allocate (fundingKey (vf_Result item)) (nt_Bucket n) amount (cx_allocation cx)" and
            r = "invalidTransfer ''DUPLICATE_REQUEST_ID'' (''request_id '' @ Quote (nt_RequestID n) @
              '' appears more than once in this challenge settlement'') (result\<lparr>ct_Status := ''validated'', ct_Outcome := ''ready'',
              ct_ParticipantSide := fr_ParticipantSide (vf_Result item), ct_ParticipantID := fr_ParticipantID (vf_Result item),
              ct_AmountUWolo := nt_AmountUWolo n, ct_AmountWolo := formatDisplayAmount (nt_AmountUWolo n), ct_OK := False\<rparr>)"])
          (simp_all add: run Let_def)
    qed
  qed
qed

text \<open>The amounts that the lines charge to a key and a bucket.\<close>

definition charged :: "(verifiedSettlementChallengeFunding \<times> settlementChallengeTransferResult) list \<Rightarrow> allocation" where
  "charged lines k b = (\<Sum>(item, r) \<leftarrow> lines. if fundingKey (vf_Result item) = k \<and> ct_Bucket r = b then ParseUintVal (ct_AmountUWolo r) else 0)"

definition transferInv :: "verifiedSettlementChallengeFunding list \<Rightarrow> transferScan \<Rightarrow> bool" where
  "transferInv funding cx \<longleftrightarrow>
     length (cx_results cx) = length (cx_normalized cx) \<and>
     cx_seenRequestIDs cx = set (map pi_RequestID (cx_payouts cx)) \<and> distinct (map pi_RequestID (cx_payouts cx)) \<and>
     (\<not> hasInvalidChallengeTransfers (cx_results cx) \<longrightarrow>
        (\<exists>items. length items = length (cx_results cx) \<and> set items \<subseteq> set funding \<and> list_all2 chargedTo items (cx_results cx) \<and>
           cx_allocation cx = charged (zip items (cx_results cx)) \<and>
           cx_requestedTotal cx = (\<Sum>r \<leftarrow> cx_results cx. ParseUintVal (ct_AmountUWolo r)) \<and>
           cx_payouts cx = map payoutInput (cx_normalized cx) \<and> list_all2 resultOfLine (cx_normalized cx) (cx_results cx)))"

lemma transferInv_zero: "transferInv funding zero_transferScan"
  by (simp add: transferInv_def zero_transferScan_def charged_def fun_eq_iff)

lemma payoutInput_sel [simp]: "pi_RequestID (payoutInput n) = nt_RequestID n" "pi_ToAddress (payoutInput n) = nt_ToAddress n"
  "pi_AmountUWolo (payoutInput n) = nt_AmountUWolo n" "pi_Memo (payoutInput n) = nt_Memo n" "pi_AmountWolo (payoutInput n) = 0"
  by (simp_all add: payoutInput_def)

lemma charged_snoc:
  "charged (lines @ [(item, r)]) = allocate (fundingKey (vf_Result item)) (ct_Bucket r) (ParseUintVal (ct_AmountUWolo r)) (charged lines)"
  by (auto simp: charged_def allocate_def fun_eq_iff)

lemma transferInv_step:
  assumes "transferInv funding cx"
  shows "transferInv funding (scanTransfer cfg funding sid memo treasury index transfer cx)"
proof (cases rule: scanTransfer_cases [of cfg funding sid memo treasury index transfer cx])
  case (invalid n r al)
  with assms show ?thesis by (simp add: transferInv_def hasInvalidChallengeTransfers_def)
next
  case (ready n item r)
  have r: "ct_Outcome r \<noteq> ''invalid''" using ready(5) by (simp add: resultOfLine_def)
  let ?cx = "scanTransfer cfg funding sid memo treasury index transfer cx"
  have "\<exists>items. length items = length (cx_results ?cx) \<and> set items \<subseteq> set funding \<and> list_all2 chargedTo items (cx_results ?cx) \<and>
      cx_allocation ?cx = charged (zip items (cx_results ?cx)) \<and>
      cx_requestedTotal ?cx = (\<Sum>r \<leftarrow> cx_results ?cx. ParseUintVal (ct_AmountUWolo r)) \<and>
      cx_payouts ?cx = map payoutInput (cx_normalized ?cx) \<and> list_all2 resultOfLine (cx_normalized ?cx) (cx_results ?cx)"
    if "\<not> hasInvalidChallengeTransfers (cx_results ?cx)"
  proof -
    have "\<not> hasInvalidChallengeTransfers (cx_results cx)"
      using that unfolding ready(1) by (simp add: hasInvalidChallengeTransfers_def)
    then obtain items where "length items = length (cx_results cx)" "set items \<subseteq> set funding" "list_all2 chargedTo items (cx_results cx)"
        "cx_allocation cx = charged (zip items (cx_results cx))" "cx_requestedTotal cx = (\<Sum>r \<leftarrow> cx_results cx. ParseUintVal (ct_AmountUWolo r))"
        "cx_payouts cx = map payoutInput (cx_normalized cx)" "list_all2 resultOfLine (cx_normalized cx) (cx_results cx)"
      using assms unfolding transferInv_def by blast
    then show ?thesis
      using ready(2,4,5) unfolding ready(1)
      by (intro exI [of _ "items @ [item]"]) (simp add: charged_snoc list_all2_appendI)
  qed
  moreover have "length (cx_results ?cx) = length (cx_normalized ?cx)" "cx_seenRequestIDs ?cx = set (map pi_RequestID (cx_payouts ?cx))"
      "distinct (map pi_RequestID (cx_payouts ?cx))"
    using assms ready(3) unfolding ready(1) transferInv_def by simp_all
  ultimately show ?thesis unfolding transferInv_def by blast
qed

lemma transferInv_scan:
  "transferInv funding cx \<Longrightarrow> transferInv funding (scanTransfers cfg funding sid memo treasury index transfers cx)"
  by (induction transfers arbitrary: index cx) (simp_all add: transferInv_step)

text \<open>
  When no line is invalid and every bucket is allocated as funded, the lines charged to a deposit,
  bucket by bucket, are worth exactly what the deposit's memo declares.
\<close>

definition bucketSum :: "string \<Rightarrow> settlementChallengeFundingResult \<Rightarrow> settlementChallengeTransferResult list \<Rightarrow> u64" where
  "bucketSum bucket f transfers = (\<Sum>r \<leftarrow> filter (\<lambda>r. ct_ParticipantSide r = fr_ParticipantSide f \<and>
     ct_ParticipantID r = fr_ParticipantID f \<and> ct_Bucket r = bucket) transfers. ParseUintVal (ct_AmountUWolo r))"

lemma participants_index:
  assumes "validateVerifiedChallengeFundingParticipants funding = []" and "\<forall>item \<in> set funding. wfFunding (vf_Result item)"
    and "i < length funding" and "j < length funding" and "foldedSide (funding ! i) = foldedSide (funding ! j)"
    and "foldedID (funding ! i) = foldedID (funding ! j)"
  shows "i = j"
proof -
  note d = participantErrors_ok [OF assms(1) [unfolded validateVerifiedChallengeFundingParticipants_def]]
  have "TrimSpace s = s" if "settlementChallengeParticipantSidePattern s \<or> settlementSourceEventPattern s" for s
    using that unfolding settlementChallengeParticipantSidePattern_def settlementSourceEventPattern_def
    by (auto intro!: TrimSpace_graph elim!: matchClass_graph)
  moreover have "wfFunding (vf_Result (funding ! i))" using assms(2,3) by simp
  ultimately have "foldedSide (funding ! i) \<noteq> [] \<or> foldedID (funding ! i) \<noteq> []"
    by (auto simp: wfFunding_def foldedSide_def foldedID_def)
  then show ?thesis
    using d distinct_folded [of foldedSide funding i j] distinct_folded [of foldedID funding i j] assms(3-6) by blast
qed

lemma verified_distinct:
  assumes "validateVerifiedChallengeFundingParticipants funding = []" and "\<forall>item \<in> set funding. wfFunding (vf_Result item)"
  shows "distinct funding"
  unfolding distinct_conv_nth using participants_index [OF assms] by metis

lemma participants_distinct:
  assumes "validateVerifiedChallengeFundingParticipants funding = []" and "\<forall>item \<in> set funding. wfFunding (vf_Result item)"
    and "x \<in> set funding" and "y \<in> set funding" and "foldedSide x = foldedSide y" and "foldedID x = foldedID y"
  shows "x = y"
  using participants_index [OF assms(1,2)] assms(3-6) unfolding in_set_conv_nth by metis

lemma key_iff_item:
  assumes "validateVerifiedChallengeFundingParticipants funding = []" and "\<forall>item \<in> set funding. wfFunding (vf_Result item)"
    and "x \<in> set funding" and "y \<in> set funding"
  shows "fundingKey (vf_Result x) = fundingKey (vf_Result y) \<longleftrightarrow> x = y"
    and "fr_ParticipantSide (vf_Result x) = fr_ParticipantSide (vf_Result y) \<and>
      fr_ParticipantID (vf_Result x) = fr_ParticipantID (vf_Result y) \<longleftrightarrow> x = y"
  using participants_distinct [OF assms] fundingKey_inject [of "vf_Result x" "vf_Result y"] assms(2-4)
  by (auto simp: foldedSide_def foldedID_def)

lemma charged_bucketSum:
  assumes "validateVerifiedChallengeFundingParticipants funding = []" and "\<forall>item \<in> set funding. wfFunding (vf_Result item)"
    and "list_all2 chargedTo items results" and "set items \<subseteq> set funding" and "x \<in> set funding"
  shows "charged (zip items results) (fundingKey (vf_Result x)) b = bucketSum b (vf_Result x) results"
  using assms(3,4)
proof (induction rule: list_all2_induct)
  case (Cons item items r results)
  then have "item \<in> set funding" by simp
  note iff = key_iff_item [OF assms(1,2) this assms(5)]
  have "fundingKey (vf_Result item) = fundingKey (vf_Result x) \<longleftrightarrow>
      ct_ParticipantSide r = fr_ParticipantSide (vf_Result x) \<and> ct_ParticipantID r = fr_ParticipantID (vf_Result x)"
    using iff Cons(1) by (simp add: chargedTo_def)
  with Cons show ?case by (simp add: charged_def bucketSum_def)
qed (simp add: charged_def bucketSum_def)

lemma bucketErrors_Nil:
  "bucketErrors al item = [] \<longleftrightarrow>
     al (fundingKey (vf_Result item)) settlementChallengeBucketWager = ParseUintVal (fr_WagerUWolo (vf_Result item)) \<and>
     al (fundingKey (vf_Result item)) settlementChallengeBucketGuarantee = ParseUintVal (fr_GuaranteeUWolo (vf_Result item))"
  by (simp add: bucketErrors_def Let_def)

text \<open>Summing the allocation over the deposits counts every line once.\<close>

lemma sum_charged:
  assumes "list_all2 chargedTo items results" and "set items \<subseteq> set funding" and "distinct funding"
    and "\<And>x y. x \<in> set funding \<Longrightarrow> y \<in> set funding \<Longrightarrow> fundingKey (vf_Result x) = fundingKey (vf_Result y) \<longleftrightarrow> x = y"
  shows "(\<Sum>item \<leftarrow> funding. charged (zip items results) (fundingKey (vf_Result item)) settlementChallengeBucketWager +
      charged (zip items results) (fundingKey (vf_Result item)) settlementChallengeBucketGuarantee) =
    (\<Sum>r \<leftarrow> results. ParseUintVal (ct_AmountUWolo r))"
  using assms(1,2)
proof (induction rule: list_all2_induct)
  case (Cons item items r results)
  let ?v = "ParseUintVal (ct_AmountUWolo r)"
  have b: "settlementChallengeBucketWager \<noteq> settlementChallengeBucketGuarantee"
    by (simp add: settlementChallengeBucketWager_def settlementChallengeBucketGuarantee_def)
  have bucket: "ct_Bucket r \<in> {settlementChallengeBucketWager, settlementChallengeBucketGuarantee}" and mem: "item \<in> set funding"
    using Cons.hyps Cons.prems by (simp_all add: chargedTo_def)
  let ?c = "\<lambda>lines x. charged lines (fundingKey (vf_Result x)) settlementChallengeBucketWager +
      charged lines (fundingKey (vf_Result x)) settlementChallengeBucketGuarantee"
  have step: "?c (zip (item # items) (r # results)) x = (if x = item then ?v else 0) + ?c (zip items results) x" if "x \<in> set funding" for x
    using bucket b assms(4) [OF mem that] by (auto simp: charged_def)
  have "(\<Sum>x \<leftarrow> funding. ?c (zip (item # items) (r # results)) x) =
      (\<Sum>x \<leftarrow> funding. (if x = item then ?v else 0) + ?c (zip items results) x)"
    using step by (intro arg_cong [where f = sum_list] map_cong) auto
  also have "\<dots> = (\<Sum>x \<leftarrow> funding. if x = item then ?v else 0) + (\<Sum>x \<leftarrow> funding. ?c (zip items results) x)"
    by (rule sum_list_addf)
  also have "(\<Sum>x \<leftarrow> funding. if x = item then ?v else 0) = ?v"
    using assms(3) mem by (simp add: sum_list_distinct_conv_sum_set)
  finally show ?case using Cons by simp
qed (simp add: charged_def)

section \<open>Counters of the response\<close>

lemmas tally_defs = tallyStatus_def tallyOutcome_def tallyFlags_def

definition transfersWith :: "(settlementChallengeTransferResult \<Rightarrow> bool) \<Rightarrow> settlementChallengeTransferResult list \<Rightarrow> settlementChallengeTransferResult list" where
  "transfersWith P ts = filter (\<lambda>t. \<not> isl (parseOptionalUWoloString (ct_AmountUWolo t)) \<and> P t) ts"

abbreviation transferExecuted :: "settlementChallengeTransferResult \<Rightarrow> bool" where
  "transferExecuted t \<equiv> ct_Status t = ''confirmed'' \<or> ct_Status t = ''accepted''"

abbreviation transferRefused :: "settlementChallengeTransferResult \<Rightarrow> bool" where
  "transferRefused t \<equiv> ct_Outcome t = ''refused'' \<or> ct_Outcome t = ''invalid''"

lemma tallyTransfers_Cons:
  "tallyTransfers (t # ts) acc =
     (case parseOptionalUWoloString (ct_AmountUWolo t) of
        Inl _ \<Rightarrow> tallyTransfers ts acc
      | Inr amount \<Rightarrow> tallyTransfers ts (tallyFlags t (tallyOutcome amount t (tallyStatus amount t
          (fst acc, onBucket (ct_Bucket t) (bucketRequested amount) ((snd acc)\<lparr>ctot_requested := ctot_requested (snd acc) + amount\<rparr>))))))"
  by (simp add: case_prod_beta Let_def split: sum.splits)

declare tallyTransfers.simps(2) [simp del]

lemma tally_line:
  "cr_ConfirmedTransferCount (fst (tallyFlags t (tallyOutcome v t (tallyStatus v t acc)))) =
     cr_ConfirmedTransferCount (fst acc) + (if ct_Status t = ''confirmed'' then 1 else 0)"
  "cr_ExecutedTransferCount (fst (tallyFlags t (tallyOutcome v t (tallyStatus v t acc)))) =
     cr_ExecutedTransferCount (fst acc) + (if transferExecuted t then 1 else 0)"
  "cr_RefusedTransferCount (fst (tallyFlags t (tallyOutcome v t (tallyStatus v t acc)))) =
     cr_RefusedTransferCount (fst acc) + (if transferRefused t then 1 else 0)"
  "cr_RejectedTransferCount (fst (tallyFlags t (tallyOutcome v t (tallyStatus v t acc)))) =
     cr_RejectedTransferCount (fst acc) + (if ct_Outcome t = ''rejected'' then 1 else 0)"
  "cr_Retryable (fst (tallyFlags t (tallyOutcome v t (tallyStatus v t acc)))) \<longleftrightarrow> cr_Retryable (fst acc) \<or> ct_Retryable t"
  by (simp_all add: tally_defs case_prod_beta)

lemma tally_line_frame:
  "cr_OK (fst (tallyFlags t (tallyOutcome v t (tallyStatus v t acc)))) = cr_OK (fst acc)"
  "cr_Status (fst (tallyFlags t (tallyOutcome v t (tallyStatus v t acc)))) = cr_Status (fst acc)"
  "cr_FailureCode (fst (tallyFlags t (tallyOutcome v t (tallyStatus v t acc)))) = cr_FailureCode (fst acc)"
  "cr_Transfers (fst (tallyFlags t (tallyOutcome v t (tallyStatus v t acc)))) = cr_Transfers (fst acc)"
  "cr_Funding (fst (tallyFlags t (tallyOutcome v t (tallyStatus v t acc)))) = cr_Funding (fst acc)"
  "cr_FundingTotalUWolo (fst (tallyFlags t (tallyOutcome v t (tallyStatus v t acc)))) = cr_FundingTotalUWolo (fst acc)"
  "cr_SettlementRunID (fst (tallyFlags t (tallyOutcome v t (tallyStatus v t acc)))) = cr_SettlementRunID (fst acc)"
  "cr_TopUp (fst (tallyFlags t (tallyOutcome v t (tallyStatus v t acc)))) = cr_TopUp (fst acc)"
  "cr_Run (fst (tallyFlags t (tallyOutcome v t (tallyStatus v t acc)))) = cr_Run (fst acc)"
  "cr_RequestedTransferCount (fst (tallyFlags t (tallyOutcome v t (tallyStatus v t acc)))) = cr_RequestedTransferCount (fst acc)"
  "cr_RequestedTotalUWolo (fst (tallyFlags t (tallyOutcome v t (tallyStatus v t acc)))) = cr_RequestedTotalUWolo (fst acc)"
  by (simp_all add: tally_defs case_prod_beta)

lemma tallyTransfers_frame:
  "cr_OK (fst (tallyTransfers ts acc)) = cr_OK (fst acc)" "cr_Status (fst (tallyTransfers ts acc)) = cr_Status (fst acc)"
  "cr_FailureCode (fst (tallyTransfers ts acc)) = cr_FailureCode (fst acc)" "cr_Transfers (fst (tallyTransfers ts acc)) = cr_Transfers (fst acc)"
  "cr_Funding (fst (tallyTransfers ts acc)) = cr_Funding (fst acc)"
  "cr_FundingTotalUWolo (fst (tallyTransfers ts acc)) = cr_FundingTotalUWolo (fst acc)"
  "cr_SettlementRunID (fst (tallyTransfers ts acc)) = cr_SettlementRunID (fst acc)"
  "cr_TopUp (fst (tallyTransfers ts acc)) = cr_TopUp (fst acc)" "cr_Run (fst (tallyTransfers ts acc)) = cr_Run (fst acc)"
  "cr_RequestedTransferCount (fst (tallyTransfers ts acc)) = cr_RequestedTransferCount (fst acc)"
  "cr_RequestedTotalUWolo (fst (tallyTransfers ts acc)) = cr_RequestedTotalUWolo (fst acc)"
  by (induction ts arbitrary: acc) (simp_all add: tallyTransfers_Cons tally_line_frame split: sum.splits)

lemma tallyTransfers_counts:
  "cr_ConfirmedTransferCount (fst (tallyTransfers ts acc)) = cr_ConfirmedTransferCount (fst acc) + length (transfersWith (\<lambda>t. ct_Status t = ''confirmed'') ts)"
  "cr_ExecutedTransferCount (fst (tallyTransfers ts acc)) = cr_ExecutedTransferCount (fst acc) + length (transfersWith transferExecuted ts)"
  "cr_RefusedTransferCount (fst (tallyTransfers ts acc)) = cr_RefusedTransferCount (fst acc) + length (transfersWith transferRefused ts)"
  "cr_RejectedTransferCount (fst (tallyTransfers ts acc)) = cr_RejectedTransferCount (fst acc) + length (transfersWith (\<lambda>t. ct_Outcome t = ''rejected'') ts)"
  "cr_Retryable (fst (tallyTransfers ts acc)) \<longleftrightarrow> cr_Retryable (fst acc) \<or> transfersWith ct_Retryable ts \<noteq> []"
  by (induction ts arbitrary: acc) (simp_all add: tallyTransfers_Cons tally_line transfersWith_def split: sum.splits)

lemma withChallengeTotals_sel [simp]:
  "cr_OK (withChallengeTotals t r) = cr_OK r" "cr_Status (withChallengeTotals t r) = cr_Status r"
  "cr_FailureCode (withChallengeTotals t r) = cr_FailureCode r" "cr_Transfers (withChallengeTotals t r) = cr_Transfers r"
  "cr_Funding (withChallengeTotals t r) = cr_Funding r" "cr_FundingTotalUWolo (withChallengeTotals t r) = cr_FundingTotalUWolo r"
  "cr_SettlementRunID (withChallengeTotals t r) = cr_SettlementRunID r" "cr_TopUp (withChallengeTotals t r) = cr_TopUp r"
  "cr_Run (withChallengeTotals t r) = cr_Run r" "cr_RequestedTransferCount (withChallengeTotals t r) = cr_RequestedTransferCount r"
  "cr_ConfirmedTransferCount (withChallengeTotals t r) = cr_ConfirmedTransferCount r"
  "cr_ExecutedTransferCount (withChallengeTotals t r) = cr_ExecutedTransferCount r"
  "cr_RefusedTransferCount (withChallengeTotals t r) = cr_RefusedTransferCount r"
  "cr_RejectedTransferCount (withChallengeTotals t r) = cr_RejectedTransferCount r"
  "cr_Retryable (withChallengeTotals t r) = cr_Retryable r"
  by (simp_all add: withChallengeTotals_def)

abbreviation finalized :: "settlementChallengeResponse \<Rightarrow> settlementChallengeResponse" where
  "finalized \<equiv> finalizeSettlementChallengeResponse"

lemmas finalized_unfold = finalizeSettlementChallengeResponse_def Let_def case_prod_beta

lemma finalized_sel [simp]:
  "cr_Transfers (finalized r) = cr_Transfers r" "cr_Funding (finalized r) = cr_Funding r"
  "cr_FundingTotalUWolo (finalized r) = cr_FundingTotalUWolo r" "cr_SettlementRunID (finalized r) = cr_SettlementRunID r"
  "cr_TopUp (finalized r) = cr_TopUp r" "cr_Run (finalized r) = cr_Run r"
  "cr_RequestedTransferCount (finalized r) = (if cr_RequestedTransferCount r = 0 then length (cr_Transfers r) else cr_RequestedTransferCount r)"
  by (simp_all add: finalized_unfold tallyTransfers_frame split: option.splits)

lemma finalized_counts:
  "cr_ConfirmedTransferCount (finalized r) = cr_ConfirmedTransferCount r + length (transfersWith (\<lambda>t. ct_Status t = ''confirmed'') (cr_Transfers r))"
  "cr_ExecutedTransferCount (finalized r) = cr_ExecutedTransferCount r + length (transfersWith transferExecuted (cr_Transfers r))"
  "cr_RefusedTransferCount (finalized r) = cr_RefusedTransferCount r + length (transfersWith transferRefused (cr_Transfers r))"
  "cr_RejectedTransferCount (finalized r) = cr_RejectedTransferCount r + length (transfersWith (\<lambda>t. ct_Outcome t = ''rejected'') (cr_Transfers r))"
  by (simp_all add: finalized_unfold tallyTransfers_frame tallyTransfers_counts split: option.splits)

lemma finalized_retryable:
  "cr_Retryable (finalized r) \<longleftrightarrow> cr_Retryable r \<or> transfersWith ct_Retryable (cr_Transfers r) \<noteq> [] \<or>
     (case cr_Run r of None \<Rightarrow> False | Some run \<Rightarrow> rr_Retryable run)"
  by (auto simp: finalized_unfold tallyTransfers_frame tallyTransfers_counts split: option.splits)

lemma finalized_keeps:
  assumes "cr_Status r \<noteq> []"
  shows "cr_OK (finalized r) = cr_OK r" "cr_Status (finalized r) = cr_Status r" "cr_FailureCode (finalized r) = cr_FailureCode r"
  using assms by (simp_all add: finalized_unfold tallyTransfers_frame split: option.splits)

lemma finalized_requested:
  "TrimSpace (cr_RequestedTotalUWolo r) = cr_RequestedTotalUWolo r \<Longrightarrow> cr_RequestedTotalUWolo r \<noteq> [] \<Longrightarrow>
     cr_RequestedTotalUWolo (finalized r) = cr_RequestedTotalUWolo r"
  by (simp add: finalized_unfold withChallengeTotals_def tallyTransfers_frame split: option.splits)

text \<open>The total of a well-formed deposit is the \<open>uint64\<close> sum of its buckets.\<close>

lemma wfFunding_total:
  assumes "wfFunding f"
  shows "lineAmount (fr_TotalFundedUWolo f) = ParseUintVal (fr_WagerUWolo f) + ParseUintVal (fr_GuaranteeUWolo f)"
proof -
  obtain w g where f: "fr_WagerUWolo f = FormatUint w" "fr_GuaranteeUWolo f = FormatUint g" "ParseUint (fr_TotalFundedUWolo f) = Inr (w + g)"
    using assms unfolding wfFunding_def by blast
  have "parseOptionalUWoloString (fr_TotalFundedUWolo f) = Inr (w + g)"
    using f(3) TrimSpace_ParseUint [OF f(3)] ParseUint_isDigit [OF f(3)] by (simp add: parseOptionalUWoloString_def)
  with f show ?thesis by (simp add: lineAmount_def)
qed

end
