(* ===== verification/Challenge_Execution.thy ===== *)
theory Challenge_Execution
  imports Challenge_Lemmas
begin

text \<open>
  Facts about the execution of a challenge settlement: what its lock, its record, its top-up and its
  run may change, and which commands it can cause.
\<close>

section \<open>Lock and record\<close>

lemma withChallengeLock_cases:
  obtains (busy) r where "run_state (withChallengeLock env cfg sid fn) w = (r, w)" "\<And>x. r = Inr x \<Longrightarrow> \<not> cr_OK x \<and> cr_FailureCode x = ''CHALLENGE_IN_PROGRESS''"
  | (held) w1 where "w_chain w1 = w_chain w" "w_files w1 = w_files w" "w_sends w1 = w_sends w"
      "run_state (withChallengeLock env cfg sid fn) w =
         (fst (run_state fn w1), (snd (run_state fn w1))\<lparr>w_locks := (w_locks (snd (run_state fn w1)))(challengeLockPath cfg sid := None)\<rparr>)"
proof (cases "fst (run_state (lockAttempt env cfg (challengeLockPath cfg sid)) w)")
  case LockHeld
  then show ?thesis
    by (intro held [of "snd (run_state (lockAttempt env cfg (challengeLockPath cfg sid)) w)"])
      (simp_all add: withChallengeLock_def Let_def)
next
  case (LockError e)
  show ?thesis by (rule busy [of "Inl e"]) (simp_all add: LockError withChallengeLock_def Let_def)
next
  case LockBusy
  let ?r = "fst (run_state (withChallengeLock env cfg sid fn) w)"
  show ?thesis by (rule busy [of ?r]) (auto simp add: LockBusy withChallengeLock_def Let_def)
qed

lemma recordChallenge_frame [simp]:
  "w_sends (snd (run_state (recordChallenge env cfg sid n r) w)) = w_sends w"
  "path \<noteq> challengeRecordPath cfg sid \<Longrightarrow> w_files (snd (run_state (recordChallenge env cfg sid n r) w)) path = w_files w path"
  "w_chain (snd (run_state (recordChallenge env cfg sid n r) w)) = w_chain w"
  by (auto simp: recordChallenge_def writeSettlementChallengeStoredResult_def split: option.splits)

lemma recordChallenge_ok:
  assumes "fst (run_state (recordChallenge env cfg sid n r) w) = Inr x"
  shows "x = r" "\<exists>s. readSettlementChallengeStoredResult (challengeRecordPath cfg sid) (snd (run_state (recordChallenge env cfg sid n r) w)) = ReadOK s \<and>
    cs_Response s = r \<and> cs_Request s = n \<and> cs_Fingerprint s = env_hashChallenge env n"
  using assms
  by (auto simp: recordChallenge_def writeSettlementChallengeStoredResult_def readSettlementChallengeStoredResult_def readStateFile_def
      split: option.splits)

section \<open>The lines of the run are the planned transfers\<close>

lemma scanPayouts_from_inputs:
  assumes "p \<in> set (sc_payouts (scanPayouts runID memo role index payouts sc))"
  shows "p \<in> set (sc_payouts sc) \<or> (\<exists>input \<in> set payouts. np_ToAddress p = TrimSpace (pi_ToAddress input) \<and>
    normalizeAmountUWolo (pi_AmountUWolo input) (pi_AmountWolo input) = Inr (np_AmountUWolo p) \<and>
    (TrimSpace (pi_RequestID input) \<noteq> [] \<longrightarrow> np_RequestID p = TrimSpace (pi_RequestID input)))"
  using assms
proof (induction payouts arbitrary: index sc)
  case (Cons input payouts)
  let ?sc = "scanPayout runID memo role index input sc"
  have step: "p \<in> set (sc_payouts sc) \<or> (np_ToAddress p = TrimSpace (pi_ToAddress input) \<and>
      normalizeAmountUWolo (pi_AmountUWolo input) (pi_AmountWolo input) = Inr (np_AmountUWolo p) \<and>
      (TrimSpace (pi_RequestID input) \<noteq> [] \<longrightarrow> np_RequestID p = TrimSpace (pi_RequestID input)))"
    if "p \<in> set (sc_payouts ?sc)"
  proof -
    let ?id = "if TrimSpace (pi_RequestID input) = [] then deriveSettlementRunRequestID runID index else TrimSpace (pi_RequestID input)"
    let ?memo = "if TrimSpace (pi_Memo input) = [] then memo else TrimSpace (pi_Memo input)"
    let ?q = "zero_settlementExecuteRequest\<lparr>xq_RequestID := ?id, xq_ToAddress := pi_ToAddress input,
             xq_AmountUWolo := pi_AmountUWolo input, xq_AmountWolo := pi_AmountWolo input, xq_Memo := ?memo\<rparr>"
    show ?thesis
    proof (cases "normalizeSettlementRequest ?q")
      case (Inl e)
      with that show ?thesis by (simp add: scanPayout_def Let_def)
    next
      case (Inr n)
      have "nq_ToAddress n = TrimSpace (pi_ToAddress input)"
        "normalizeAmountUWolo (pi_AmountUWolo input) (pi_AmountWolo input) = Inr (nq_AmountUWolo n)" "nq_RequestID n = TrimSpace ?id"
        using normalizeSettlementRequest_fields [OF Inr] by simp_all
      with Inr that show ?thesis by (auto simp: scanPayout_def Let_def split: if_splits)
    qed
  qed
  from Cons.prems have "p \<in> set (sc_payouts (scanPayouts runID memo role (index + 1) payouts ?sc))" by simp
  from Cons.IH [OF this] step show ?case by auto
qed simp

lemma prepared_from_inputs:
  assumes "p \<in> set (nr_Payouts (prepared request))"
  shows "\<exists>input \<in> set (rq_Payouts request). np_ToAddress p = TrimSpace (pi_ToAddress input) \<and>
    normalizeAmountUWolo (pi_AmountUWolo input) (pi_AmountWolo input) = Inr (np_AmountUWolo p) \<and>
    (TrimSpace (pi_RequestID input) \<noteq> [] \<longrightarrow> np_RequestID p = TrimSpace (pi_RequestID input))"
proof (cases "runValidationErrors request = []")
  case True
  have "p \<in> set (sc_payouts (runScanOf request))" using assms by (simp add: prepare_valid(1) [OF True])
  from scanPayouts_from_inputs [OF this [unfolded runScanOf_def]] show ?thesis by (simp add: zero_runScan_def)
next
  case False
  with assms show ?thesis by (simp add: prepare_invalid(1))
qed

text \<open>
  A command pays a transfer: it is the \<open>tx bank send\<close> from the given key to the transfer's address,
  of the transfer's amount, under the transfer's request id.
\<close>

definition paysTransfer :: "normalizedSettlementRequest \<Rightarrow> normalizedSettlementChallengeTransfer \<Rightarrow> bool" where
  "paysTransfer n t \<longleftrightarrow> nq_RequestID n = nt_RequestID t \<and> nq_ToAddress n = TrimSpace (nt_ToAddress t) \<and> nq_AmountUWolo n = TrimSpace (nt_AmountUWolo t)"

lemma normalizeAmount_again:
  assumes "normalizeAmountUWolo a 0 = Inr b"
  shows "b = TrimSpace a"
proof -
  have "TrimSpace a \<noteq> []" using assms by (rule contrapos_pn) (simp add: normalizeAmountUWolo_def)
  then show ?thesis using normalizeAmount_uwolo [OF _ assms] by simp
qed

lemma challenge_line_pays:
  assumes "p \<in> set (nr_Payouts (prepared (challengeRunRequest request (map payoutInput ts))))"
    and "normalizeSettlementRequest (itemRequest p) = Inr n" and "\<forall>t \<in> set ts. settlementRequestIDPattern (nt_RequestID t)"
  shows "\<exists>t \<in> set ts. paysTransfer n t"
proof -
  obtain t where t: "t \<in> set ts" "np_ToAddress p = TrimSpace (nt_ToAddress t)"
      "normalizeAmountUWolo (nt_AmountUWolo t) 0 = Inr (np_AmountUWolo p)"
      "TrimSpace (nt_RequestID t) \<noteq> [] \<longrightarrow> np_RequestID p = TrimSpace (nt_RequestID t)"
    using prepared_from_inputs [OF assms(1)] by (auto simp: challengeRunRequest_def)
  have "TrimSpace (nt_RequestID t) = nt_RequestID t" "nt_RequestID t \<noteq> []"
    using assms(3) t(1) requestID_trim requestID_nonempty by blast+
  with t(4) have rid: "np_RequestID p = nt_RequestID t" "TrimSpace (np_RequestID p) = nt_RequestID t" by simp_all
  have "normalizeAmountUWolo (np_AmountUWolo p) 0 = Inr (nq_AmountUWolo n)"
    using normalizeSettlementRequest_fields(5) [OF assms(2)] by simp
  then have "nq_AmountUWolo n = TrimSpace (nt_AmountUWolo t)"
    using normalizeAmount_again t(3) TrimSpace_idem by metis
  with t rid show ?thesis
    unfolding paysTransfer_def using normalizeSettlementRequest_fields(1,3) [OF assms(2)] by (intro bexI [of _ t]) simp_all
qed

section \<open>What a challenge settlement may send\<close>

definition topUpRequest :: "string \<Rightarrow> settlementChallengeTopUpResult \<Rightarrow> settlementExecuteRequest" where
  "topUpRequest sid t = zero_settlementExecuteRequest\<lparr>xq_RequestID := tu_RequestID t, xq_ToAddress := tu_ToAddress t,
     xq_AmountUWolo := tu_AmountUWolo t, xq_Memo := cutAt 180 (''challenge top-up '' @ sid)\<rparr>"

text \<open>The run's part: payments of planned transfers from the payout key, under distinct request ids.\<close>

definition transfersSent :: "settlementConfig \<Rightarrow> normalizedSettlementChallengeTransfer list \<Rightarrow> string list list \<Rightarrow> bool" where
  "transfersSent cfg ts cmds \<longleftrightarrow> (\<exists>ns. cmds = map (bankSendArgs cfg (cfg_PayoutKeyName cfg)) ns \<and> distinct (map nq_RequestID ns) \<and>
     (\<forall>n \<in> set ns. \<exists>t \<in> set ts. paysTransfer n t))"

text \<open>The top-up's part: at most one payment from the escrow key, the planned one.\<close>

definition topUpSent :: "settlementConfig \<Rightarrow> string \<Rightarrow> settlementChallengeTopUpResult option \<Rightarrow> string list list \<Rightarrow> bool" where
  "topUpSent cfg sid topUp cmds \<longleftrightarrow> cmds = [] \<or> (\<exists>t n. topUp = Some t \<and> tu_Required t \<and>
     normalizeSettlementRequest (topUpRequest sid t) = Inr n \<and> cmds = [bankSendArgs cfg (cfg_EscrowKeyName cfg) n])"

lemma transfersSent_Nil [simp]: "transfersSent cfg ts []"
  unfolding transfersSent_def by (rule exI [of _ "[]"]) simp

lemma topUpSent_Nil [simp]: "topUpSent cfg sid topUp []"
  by (simp add: topUpSent_def)

lemma challengeRunRequest_role [simp]:
  "runKey cfg (nr_SignerRole (prepared (challengeRunRequest request payouts))) = cfg_PayoutKeyName cfg"
proof -
  have "nr_SignerRole (prepared (challengeRunRequest request payouts)) \<in> {[], settlementSignerRole}"
    using prepare_valid(3) [of "challengeRunRequest request payouts"] prepare_invalid(1) [of "challengeRunRequest request payouts"]
    by (cases "runValidationErrors (challengeRunRequest request payouts) = []")
      (simp_all add: challengeRunRequest_def normalizeSettlementRunSignerRole_def)
  then show ?thesis by (auto simp: runKey_def settlementSignerRole_def settlementEscrowSignerRole_def)
qed

lemma run_transfersSent:
  assumes "\<forall>t \<in> set ts. settlementRequestIDPattern (nt_RequestID t)"
  shows "\<exists>cmds. w_sends (snd (run_state (executeSettlementRun env cfg (challengeRunRequest request (map payoutInput ts))) w)) = w_sends w @ cmds \<and>
    transfersSent cfg ts cmds"
proof -
  let ?run = "challengeRunRequest request (map payoutInput ts)"
  obtain ps ns where sent: "subseq ps (nr_Payouts (prepared ?run))"
      "list_all2 (\<lambda>p n. normalizeSettlementRequest (itemRequest p) = Inr n) ps ns"
      "w_sends (snd (run_state (executeSettlementRun env cfg ?run) w)) = w_sends w @ map (bankSendArgs cfg (cfg_PayoutKeyName cfg)) ns"
    using run_sent [of cfg ?run w env] unfolding linesSent_def challengeRunRequest_role by blast
  have lines: "set ps \<subseteq> set (nr_Payouts (prepared ?run))"
    by (rule subsetI) (use list_emb_set [OF sent(1)] in blast)
  have ids: "list_all2 (\<lambda>p n. nq_RequestID n = np_RequestID p) ps ns"
    using sent(2)
  proof (rule list.rel_mono_strong)
    fix p n assume p: "p \<in> set ps" and n: "normalizeSettlementRequest (itemRequest p) = Inr n"
    then have "settlementRequestIDPattern (np_RequestID p)" using lines prepared_lines(2) [of ?run] by blast
    with normalizeSettlementRequest_fields(1) [OF n] show "nq_RequestID n = np_RequestID p" by (simp add: requestID_trim)
  qed
  have "map nq_RequestID ns = map np_RequestID ps"
    using ids by (induction rule: list_all2_induct) simp_all
  then have "distinct (map nq_RequestID ns)"
    using prepared_lines(1) [of ?run] subseq_map [OF sent(1), of np_RequestID] subseq_distinct by metis
  moreover have "\<exists>t \<in> set ts. paysTransfer n t" if n: "n \<in> set ns" for n
  proof -
    obtain i where i: "i < length ns" "n = ns ! i" using n by (auto simp: in_set_conv_nth)
    then have "ps ! i \<in> set ps" "normalizeSettlementRequest (itemRequest (ps ! i)) = Inr n"
      using sent(2) by (simp_all add: list_all2_conv_all_nth)
    with lines challenge_line_pays [OF _ _ assms, of "ps ! i" request n] show ?thesis by blast
  qed
  ultimately show ?thesis using sent(3) unfolding transfersSent_def by blast
qed

lemma topUp_sends:
  "\<exists>cmds. w_sends (snd (run_state (executeChallengeTopUp env cfg sid t) w)) = w_sends w @ cmds \<and> topUpSent cfg sid (Some t) cmds"
proof (cases "tu_Required t")
  case False
  then show ?thesis by (simp add: executeChallengeTopUp_def)
next
  case True
  let ?w' = "snd (run_state (executeEscrowTransfer env cfg (topUpRequest sid t)) w)"
  have eq: "w_sends (snd (run_state (executeChallengeTopUp env cfg sid t) w)) = w_sends ?w'"
    using True by (simp add: executeChallengeTopUp_def topUpRequest_def Let_def split: sum.splits)
  show ?thesis
  proof (cases "w_sends ?w' = w_sends w")
    case False
    then obtain n where "normalizeSettlementRequest (topUpRequest sid t) = Inr n"
        "w_sends ?w' = w_sends w @ [bankSendArgs cfg (cfg_EscrowKeyName cfg) n]"
      using escrow_rail.settle_sends [of env cfg settlementEscrowSignerRole "topUpRequest sid t" w] by (auto simp: executeEscrowTransfer_def)
    with True eq show ?thesis by (auto simp: topUpSent_def)
  qed (simp add: eq)
qed

lemma executeChallengeRun_sends:
  "w_sends (snd (run_state (executeChallengeRun env cfg sid plan r) w)) = w_sends (snd (run_state (executeSettlementRun env cfg (pl_RunRequest plan)) w))"
  by (simp add: executeChallengeRun_def split: sum.splits)

lemma plannedChallenge_sends:
  assumes "cr_OK (pl_Response plan) \<Longrightarrow> pl_RunRequest plan = challengeRunRequest request (map payoutInput ts)"
    and "cr_OK (pl_Response plan) \<Longrightarrow> \<forall>t \<in> set ts. settlementRequestIDPattern (nt_RequestID t)"
  shows "\<exists>tops cmds. w_sends (snd (run_state (executePlannedChallenge env cfg sid plan) w)) = w_sends w @ tops @ cmds \<and>
    topUpSent cfg sid (cr_TopUp (pl_Response plan)) tops \<and> transfersSent cfg ts cmds \<and>
    (\<not> cr_OK (pl_Response plan) \<longrightarrow> tops = [] \<and> cmds = [])"
proof (cases "cr_OK (pl_Response plan)")
  case False
  then show ?thesis by (simp add: executePlannedChallenge_def Let_def)
next
  case True
  have run: "\<exists>cmds. w_sends (snd (run_state (executeChallengeRun env cfg sid plan r) w1)) = w_sends w1 @ cmds \<and> transfersSent cfg ts cmds" for r w1
    unfolding executeChallengeRun_sends assms(1) [OF True] by (rule run_transfersSent [OF assms(2) [OF True]])
  let ?t = "cr_TopUp (pl_Response plan)"
  show ?thesis
  proof (cases "\<exists>t. ?t = Some t \<and> tu_Required t")
    case False
    then have "run_state (executePlannedChallenge env cfg sid plan) w =
        run_state (executeChallengeRun env cfg sid plan ((pl_Response plan)\<lparr>cr_DryRun := False\<rparr>)) w"
      using True by (simp add: executePlannedChallenge_def Let_def split: option.splits)
    with run True show ?thesis by (metis append_Nil topUpSent_Nil)
  next
    case t: True
    then obtain t where t: "?t = Some t" "tu_Required t" by blast
    let ?w1 = "snd (run_state (executeChallengeTopUp env cfg sid t) w)"
    obtain tops where tops: "w_sends ?w1 = w_sends w @ tops" "topUpSent cfg sid (Some t) tops"
      using topUp_sends by blast
    have "\<exists>cmds. w_sends (snd (run_state (executePlannedChallenge env cfg sid plan) w)) = w_sends ?w1 @ cmds \<and> transfersSent cfg ts cmds"
      using True t run by (auto simp: executePlannedChallenge_def Let_def split: sum.splits)
    with tops t True show ?thesis by (metis append.assoc)
  qed
qed

end
