(* ===== verification/Challenge_Properties.thy ===== *)
theory Challenge_Properties
  imports Challenge_Execution Run_Properties
begin

text \<open>
  Properties of challenge settlement.
\<close>

section \<open>Plans\<close>

abbreviation challengePlanOf :: "'c env \<Rightarrow> settlementConfig \<Rightarrow> settlementChallengeRequest \<Rightarrow> 'c \<Rightarrow> settlementChallengePlan" where
  "challengePlanOf env cfg request c \<equiv> fst (run_state (buildSettlementChallengePlan env cfg request) c)"

definition fundingScanOf :: "'c env \<Rightarrow> settlementConfig \<Rightarrow> settlementChallengeRequest \<Rightarrow> 'c \<Rightarrow> fundingScan" where
  "fundingScanOf env cfg request c = fst (run_state (verifyFundings env cfg (TrimSpace (cq_SourceApp request))
     (TrimSpace (cq_ChallengeID request)) (TrimSpace (cq_SourceEventID request)) 0 (cq_Funding request) zero_fundingScan) c)"

definition transferScanOf :: "settlementConfig \<Rightarrow> settlementChallengeRequest \<Rightarrow> verifiedSettlementChallengeFunding list \<Rightarrow> transferScan" where
  "transferScanOf cfg request funding = scanTransfers cfg funding (TrimSpace (cq_SettlementRunID request))
     (cutAt 180 (TrimSpace (cq_Memo request))) (treasuryOf cfg request) 0 (cq_Transfers request) zero_transferScan"

lemma fundingScanOf_inv: "fundingInv (length (cq_Funding request)) (fundingScanOf env cfg request c)"
  unfolding fundingScanOf_def using fundingInv_scan [OF fundingInv_zero] by simp

lemma transferScanOf_inv: "transferInv funding (transferScanOf cfg request funding)"
  unfolding transferScanOf_def by (rule transferInv_scan [OF transferInv_zero])

lemma challengeBase_sel [simp]: "cr_Status (challengeBase cfg request) = ''failed''" "\<not> cr_OK (challengeBase cfg request)"
  "cr_SettlementRunID (challengeBase cfg request) = TrimSpace (cq_SettlementRunID request)" "cr_Detail (challengeBase cfg request) = []"
  "cr_RefusedTransferCount (challengeBase cfg request) = 0" "cr_ExecutedTransferCount (challengeBase cfg request) = 0"
  "cr_ConfirmedTransferCount (challengeBase cfg request) = 0" "cr_RejectedTransferCount (challengeBase cfg request) = 0"
  "cr_Retryable (challengeBase cfg request) = False" "cr_Transfers (challengeBase cfg request) = []" "cr_Run (challengeBase cfg request) = None"
  by (simp_all add: challengeBase_def)

lemma challengeVerdict_sel [simp]:
  "cr_Status (challengeVerdict run topUp r) \<noteq> []" "cr_Transfers (challengeVerdict run topUp r) = cr_Transfers r"
  "cr_Funding (challengeVerdict run topUp r) = cr_Funding r" "cr_SettlementRunID (challengeVerdict run topUp r) = cr_SettlementRunID r"
  "cr_RequestedTotalUWolo (challengeVerdict run topUp r) = cr_RequestedTotalUWolo r"
  "cr_FundingTotalUWolo (challengeVerdict run topUp r) = cr_FundingTotalUWolo r"
  "cr_RequestedTransferCount (challengeVerdict run topUp r) = cr_RequestedTransferCount r"
  "cr_TopUp (challengeVerdict run topUp r) = topUp"
  "cr_ExecutedTransferCount (challengeVerdict run topUp r) = cr_ExecutedTransferCount r"
  "cr_ConfirmedTransferCount (challengeVerdict run topUp r) = cr_ConfirmedTransferCount r"
  by (simp_all add: challengeVerdict_def Let_def)

lemma earlyPlan_sel [simp]: "pl_Response (earlyPlan n r) = r" "pl_Normalized (earlyPlan n r) = n"
  by (simp_all add: earlyPlan_def)

text \<open>A validated plan has passed every check, and is made of what its two scans collected.\<close>

lemma plan_ok:
  fixes env :: "'c env"
  assumes "cr_OK (pl_Response (challengePlanOf env cfg request c))"
  defines "gs \<equiv> fundingScanOf env cfg request c"
  defines "cx \<equiv> transferScanOf cfg request (gs_verified gs)"
  shows "length (gs_verified gs) = length (cq_Funding request)"
    "validateVerifiedChallengeFundingParticipants (gs_verified gs) = []"
    "validateChallengeBucketAllocation (gs_verified gs) (cx_allocation cx) = []"
    "\<not> hasInvalidChallengeTransfers (cx_results cx)"
    "cr_Funding (pl_Response (challengePlanOf env cfg request c)) = gs_results gs"
    "cr_Transfers (pl_Response (challengePlanOf env cfg request c)) = cx_results cx"
    "cr_FundingTotalUWolo (pl_Response (challengePlanOf env cfg request c)) = FormatUint (gs_fundedTotal gs)"
    "cr_RequestedTotalUWolo (pl_Response (challengePlanOf env cfg request c)) = FormatUint (cx_requestedTotal cx)"
    "pl_RunRequest (challengePlanOf env cfg request c) = challengeRunRequest request (cx_payouts cx)"
    "nc_Transfers (pl_Normalized (challengePlanOf env cfg request c)) = cx_normalized cx"
proof -
  have valid: "challengeValidationErrors cfg request = []"
    using assms(1) by (rule contrapos_pp) (simp add: buildSettlementChallengePlan_def Let_def)
  have verified: "length (gs_verified gs) = length (cq_Funding request)"
    using assms(1) by (rule contrapos_pp)
      (simp add: buildSettlementChallengePlan_def Let_def valid gs_def fundingScanOf_def finalized_keeps)
  have participants: "validateVerifiedChallengeFundingParticipants (gs_verified gs) = []"
    using assms(1) by (rule contrapos_pp)
      (use verified in \<open>simp add: buildSettlementChallengePlan_def Let_def valid gs_def fundingScanOf_def finalized_keeps\<close>)
  let ?r = "challengeBase cfg request\<lparr>cr_Funding := gs_results gs, cr_FundingVerifiedCount := length (gs_verified gs),
      cr_FundingCount := length (gs_results gs), cr_FundingTotalUWolo := FormatUint (gs_fundedTotal gs),
      cr_FundingTotalWolo := formatDisplayAmount (FormatUint (gs_fundedTotal gs)), cr_ParticipantCount := length (gs_verified gs)\<rparr>"
  obtain c' where run: "challengePlanOf env cfg request c = fst (run_state (planTransfers env cfg request (gs_verified gs)
      (normalizedBase cfg request\<lparr>nc_Funding := gs_normalized gs\<rparr>) ?r cx) c')"
    using verified participants
    by (simp add: buildSettlementChallengePlan_def Let_def valid gs_def fundingScanOf_def cx_def transferScanOf_def)
  have buckets: "validateChallengeBucketAllocation (gs_verified gs) (cx_allocation cx) = []"
    using assms(1) by (rule contrapos_pp) (simp add: run planTransfers_def Let_def finalized_keeps)
  have lines: "\<not> hasInvalidChallengeTransfers (cx_results cx)"
    using assms(1) by (rule contrapos_pn) (simp add: run planTransfers_def Let_def finalized_keeps buckets)
  show "length (gs_verified gs) = length (cq_Funding request)"
    "validateVerifiedChallengeFundingParticipants (gs_verified gs) = []"
    "validateChallengeBucketAllocation (gs_verified gs) (cx_allocation cx) = []"
    "\<not> hasInvalidChallengeTransfers (cx_results cx)"
    by (fact verified participants buckets lines)+
  show "cr_Funding (pl_Response (challengePlanOf env cfg request c)) = gs_results gs"
    "cr_Transfers (pl_Response (challengePlanOf env cfg request c)) = cx_results cx"
    "cr_FundingTotalUWolo (pl_Response (challengePlanOf env cfg request c)) = FormatUint (gs_fundedTotal gs)"
    "cr_RequestedTotalUWolo (pl_Response (challengePlanOf env cfg request c)) = FormatUint (cx_requestedTotal cx)"
    "pl_RunRequest (challengePlanOf env cfg request c) = challengeRunRequest request (cx_payouts cx)"
    "nc_Transfers (pl_Normalized (challengePlanOf env cfg request c)) = cx_normalized cx"
    by (simp_all add: run planTransfers_def Let_def buckets lines finalized_requested)
qed

text \<open>
  C7. A validated challenge settlement hands out exactly what was deposited.  When the plan of a
  challenge settlement is \<open>ok\<close>, then for every funding deposit of the plan the transfers charged to
  its participant add up, in \<open>uint64\<close>, to the deposit's wager in the wager bucket and to its
  guarantee in the guarantee bucket, and the requested total of the plan is its funded total.
\<close>

theorem challenge_allocates_deposits:
  fixes env :: "'c env"
  assumes "cr_OK (pl_Response (challengePlanOf env cfg request c))"
  shows "(\<forall>f \<in> set (cr_Funding (pl_Response (challengePlanOf env cfg request c))).
      bucketSum settlementChallengeBucketWager f (cr_Transfers (pl_Response (challengePlanOf env cfg request c))) = ParseUintVal (fr_WagerUWolo f) \<and>
      bucketSum settlementChallengeBucketGuarantee f (cr_Transfers (pl_Response (challengePlanOf env cfg request c))) = ParseUintVal (fr_GuaranteeUWolo f)) \<and>
    cr_RequestedTotalUWolo (pl_Response (challengePlanOf env cfg request c)) = cr_FundingTotalUWolo (pl_Response (challengePlanOf env cfg request c))"
proof -
  let ?gs = "fundingScanOf env cfg request c"
  let ?fs = "gs_verified ?gs"
  let ?cx = "transferScanOf cfg request ?fs"
  note ok = plan_ok [OF assms]
  note gs = fundingScanOf_inv [of request env cfg c, unfolded fundingInv_def]
  have results: "gs_results ?gs = map vf_Result ?fs" and wf: "\<forall>item \<in> set ?fs. wfFunding (vf_Result item)"
    using gs ok(1) by blast+
  obtain items where items: "list_all2 chargedTo items (cx_results ?cx)" "set items \<subseteq> set ?fs"
      "cx_allocation ?cx = charged (zip items (cx_results ?cx))" "cx_requestedTotal ?cx = (\<Sum>r \<leftarrow> cx_results ?cx. ParseUintVal (ct_AmountUWolo r))"
    using transferScanOf_inv [of ?fs cfg request] ok(4) unfolding transferInv_def by blast
  have alloc: "bucketErrors (cx_allocation ?cx) item = []" if "item \<in> set ?fs" for item
    using ok(3) that by (simp add: validateChallengeBucketAllocation_def)
  have sums: "bucketSum settlementChallengeBucketWager (vf_Result item) (cx_results ?cx) = ParseUintVal (fr_WagerUWolo (vf_Result item)) \<and>
      bucketSum settlementChallengeBucketGuarantee (vf_Result item) (cx_results ?cx) = ParseUintVal (fr_GuaranteeUWolo (vf_Result item))"
    if "item \<in> set ?fs" for item
    using alloc [OF that] charged_bucketSum [OF ok(2) wf items(1,2) that] unfolding bucketErrors_Nil items(3) by simp
  then have buckets: "\<forall>f \<in> set (cr_Funding (pl_Response (challengePlanOf env cfg request c))).
      bucketSum settlementChallengeBucketWager f (cr_Transfers (pl_Response (challengePlanOf env cfg request c))) = ParseUintVal (fr_WagerUWolo f) \<and>
      bucketSum settlementChallengeBucketGuarantee f (cr_Transfers (pl_Response (challengePlanOf env cfg request c))) = ParseUintVal (fr_GuaranteeUWolo f)"
    unfolding ok(5,6) results by auto
  have "cx_requestedTotal ?cx = (\<Sum>item \<leftarrow> ?fs. cx_allocation ?cx (fundingKey (vf_Result item)) settlementChallengeBucketWager +
      cx_allocation ?cx (fundingKey (vf_Result item)) settlementChallengeBucketGuarantee)"
    unfolding items(3,4) using sum_charged [OF items(1,2) verified_distinct [OF ok(2) wf] key_iff_item(1) [OF ok(2) wf]] by simp
  also have "\<dots> = (\<Sum>item \<leftarrow> ?fs. lineAmount (fr_TotalFundedUWolo (vf_Result item)))"
    using alloc wf by (intro arg_cong [where f = sum_list] map_cong refl) (simp add: bucketErrors_Nil wfFunding_total)
  also have "\<dots> = gs_fundedTotal ?gs" using gs by simp
  finally have "cx_requestedTotal ?cx = gs_fundedTotal ?gs" .
  with buckets show ?thesis unfolding ok(7,8) by simp
qed

section \<open>Execution\<close>

lemma challengePlan_runID [simp]:
  "cr_SettlementRunID (pl_Response (challengePlanOf env cfg request c)) = TrimSpace (cq_SettlementRunID request)"
  by (simp add: buildSettlementChallengePlan_def planTransfers_def Let_def)

lemma challenge_cases:
  obtains (unlocked) r w' where "run_state (executeSettlementChallenge env cfg request) w = (r, w')"
      "w_sends w' = w_sends w" "w_files w' = w_files w"
      "\<And>x. r = Inr x \<Longrightarrow> TrimSpace (cq_SettlementRunID request) \<noteq> [] \<Longrightarrow> \<not> cr_OK x \<and> cr_FailureCode x = ''CHALLENGE_IN_PROGRESS''"
  | (held) w1 locks where "w_files w1 = w_files w" "w_sends w1 = w_sends w" "TrimSpace (cq_SettlementRunID request) \<noteq> []"
      "run_state (executeSettlementChallenge env cfg request) w =
        (let body = run_state (challengeUnderLock env cfg (TrimSpace (cq_SettlementRunID request)) (challengePlanOf env cfg request (w_chain w))) w1
         in (fst body, (snd body)\<lparr>w_locks := locks\<rparr>))"
proof -
  let ?w0 = "w\<lparr>w_chain := snd (run_state (buildSettlementChallengePlan env cfg request) (w_chain w))\<rparr>"
  let ?plan = "challengePlanOf env cfg request (w_chain w)"
  let ?sid = "TrimSpace (cq_SettlementRunID request)"
  let ?fn = "challengeUnderLock env cfg ?sid ?plan"
  have run: "run_state (executeSettlementChallenge env cfg request) w =
      (if ?sid = [] then (Inr ((pl_Response ?plan)\<lparr>cr_DryRun := False\<rparr>), ?w0) else run_state (withChallengeLock env cfg ?sid ?fn) ?w0)"
    by (simp add: executeSettlementChallenge_def Let_def)
  show ?thesis
  proof (cases "?sid = []")
    case True
    then show ?thesis by (intro unlocked [of _ ?w0]) (simp_all add: run)
  next
    case False
    show ?thesis
    proof (cases rule: withChallengeLock_cases [of env cfg ?sid ?fn ?w0])
      case (busy r)
      with False show ?thesis by (intro unlocked [of r ?w0]) (auto simp: run)
    next
      case (held w1)
      with False show ?thesis by (intro that(2) [of w1]) (simp_all add: run Let_def)
    qed
  qed
qed

text \<open>A plan always has a status, and a plan that is \<open>ok\<close> has a valid settlement id, which is also the id of its run.\<close>

lemma challengeVerdict_status: "cr_Status (challengeVerdict run topUp r) \<noteq> []"
  by (simp add: challengeVerdict_def Let_def)

lemma planTransfers_status:
  "cr_Status r = ''failed'' \<Longrightarrow> cr_Status (pl_Response (fst (run_state (planTransfers env cfg request funding n r cx) c))) \<noteq> []"
  by (simp add: planTransfers_def finalized_keeps challengeVerdict_status Let_def)

lemma challengePlan_status: "cr_Status (pl_Response (challengePlanOf env cfg request c)) \<noteq> []"
  by (simp add: buildSettlementChallengePlan_def planTransfers_status finalized_keeps Let_def)

lemma ok_challenge_valid:
  fixes env :: "'c env"
  assumes "cr_OK (pl_Response (challengePlanOf env cfg request c))"
  shows "settlementRequestIDPattern (TrimSpace (cq_SettlementRunID request))"
    "rq_SettlementRunID (pl_RunRequest (challengePlanOf env cfg request c)) = TrimSpace (cq_SettlementRunID request)"
proof -
  have "challengeValidationErrors cfg request = []"
    using assms by (rule contrapos_pp) (simp add: buildSettlementChallengePlan_def Let_def)
  then show "settlementRequestIDPattern (TrimSpace (cq_SettlementRunID request))"
    by (auto simp: challengeValidationErrors_def validateSettlementRunID_def split: if_splits)
  show "rq_SettlementRunID (pl_RunRequest (challengePlanOf env cfg request c)) = TrimSpace (cq_SettlementRunID request)"
    unfolding plan_ok(9) [OF assms] by (simp add: challengeRunRequest_def)
qed

text \<open>The planned lines of a validated plan.\<close>

lemma plan_lines:
  fixes env :: "'c env"
  assumes "cr_OK (pl_Response (challengePlanOf env cfg request c))"
  shows "pl_RunRequest (challengePlanOf env cfg request c) =
      challengeRunRequest request (map payoutInput (nc_Transfers (pl_Normalized (challengePlanOf env cfg request c))))"
    "\<forall>t \<in> set (nc_Transfers (pl_Normalized (challengePlanOf env cfg request c))). settlementRequestIDPattern (nt_RequestID t)"
proof -
  let ?cx = "transferScanOf cfg request (gs_verified (fundingScanOf env cfg request c))"
  note ok = plan_ok [OF assms]
  have inv: "cx_payouts ?cx = map payoutInput (cx_normalized ?cx)" "list_all2 resultOfLine (cx_normalized ?cx) (cx_results ?cx)"
    using transferScanOf_inv [of "gs_verified (fundingScanOf env cfg request c)" cfg request] ok(4) unfolding transferInv_def by blast+
  show "pl_RunRequest (challengePlanOf env cfg request c) =
      challengeRunRequest request (map payoutInput (nc_Transfers (pl_Normalized (challengePlanOf env cfg request c))))"
    unfolding ok(9,10) inv(1) ..
  show "\<forall>t \<in> set (nc_Transfers (pl_Normalized (challengePlanOf env cfg request c))). settlementRequestIDPattern (nt_RequestID t)"
    unfolding ok(10) using inv(2) by (auto simp: list_all2_conv_all_nth in_set_conv_nth resultOfLine_def)
qed

text \<open>
  C37. A challenge settlement sends its plan and nothing else.  The commands that a call of
  \<open>executeSettlementChallenge\<close> adds are at most one transfer from the escrow key, the top-up its plan
  requires, followed by payments from the payout key, each to the address and of the amount of a
  planned transfer, under pairwise distinct request ids; a plan that is not \<open>ok\<close> sends nothing.
\<close>

theorem challenge_sends_planned:
  fixes env :: "'c env" and w :: "'c world"
  shows "\<exists>tops cmds. w_sends (snd (run_state (executeSettlementChallenge env cfg request) w)) = w_sends w @ tops @ cmds \<and>
    topUpSent cfg (TrimSpace (cq_SettlementRunID request)) (cr_TopUp (pl_Response (challengePlanOf env cfg request (w_chain w)))) tops \<and>
    transfersSent cfg (nc_Transfers (pl_Normalized (challengePlanOf env cfg request (w_chain w)))) cmds \<and>
    (cr_OK (pl_Response (challengePlanOf env cfg request (w_chain w))) \<or> tops = [] \<and> cmds = [])"
proof (cases rule: challenge_cases [of env cfg request w])
  case (unlocked r w')
  then show ?thesis by (intro exI [of _ "[]"]) simp
next
  case (held w1 locks)
  let ?plan = "challengePlanOf env cfg request (w_chain w)"
  let ?sid = "TrimSpace (cq_SettlementRunID request)"
  obtain tops cmds where planned: "w_sends (snd (run_state (executePlannedChallenge env cfg ?sid ?plan) w1)) = w_sends w1 @ tops @ cmds"
      "topUpSent cfg ?sid (cr_TopUp (pl_Response ?plan)) tops" "transfersSent cfg (nc_Transfers (pl_Normalized ?plan)) cmds"
      "\<not> cr_OK (pl_Response ?plan) \<longrightarrow> tops = [] \<and> cmds = []"
    using plannedChallenge_sends [OF plan_lines [of env cfg request "w_chain w"], of env cfg ?sid w1] by blast
  have "w_sends (snd (run_state (challengeUnderLock env cfg ?sid ?plan) w1)) \<in> {w_sends w1, w_sends w1 @ tops @ cmds}"
    using planned(1) by (auto simp: challengeUnderLock_def split: readResult.splits)
  with held(2,4) planned show ?thesis
    by (auto simp: Let_def intro: exI [of _ tops] exI [of _ cmds])
qed

lemma final_challenge_inert:
  assumes "readSettlementChallengeStoredResult (challengeRecordPath cfg (TrimSpace (cq_SettlementRunID request))) w = ReadOK s"
    and "settlementChallengeResponseIsFinal (cs_Response s)" and "TrimSpace (cq_SettlementRunID request) \<noteq> []"
  shows "w_sends (snd (run_state (executeSettlementChallenge env cfg request) w)) = w_sends w \<and>
    w_files (snd (run_state (executeSettlementChallenge env cfg request) w)) = w_files w \<and>
    (case fst (run_state (executeSettlementChallenge env cfg request) w) of Inl _ \<Rightarrow> True
     | Inr r \<Rightarrow> r = (cs_Response s)\<lparr>cr_DryRun := False, cr_IdempotentReplay := True\<rparr> \<or> \<not> cr_OK r)"
proof (cases rule: challenge_cases [of env cfg request w])
  case (unlocked r w')
  then show ?thesis using assms(3) by (auto split: sum.splits)
next
  case (held w1 locks)
  have "readSettlementChallengeStoredResult (challengeRecordPath cfg (TrimSpace (cq_SettlementRunID request))) w1 = ReadOK s"
    using assms(1) held(1) by (simp add: readSettlementChallengeStoredResult_def)
  with held assms(2) show ?thesis by (simp add: challengeUnderLock_def challengeRefusal_def Let_def)
qed

text \<open>
  C38. A challenge settlement is executed once.  When the record of a settlement id holds a response
  that is final (not retryable, and \<open>ok\<close>, failed or partial), every later call under that id sends
  nothing, leaves the record as it is, and answers with the recorded response marked as a replay, or
  does not answer \<open>ok\<close>.
\<close>

theorem final_challenge_replayed:
  assumes "readSettlementChallengeStoredResult (challengeRecordPath cfg (TrimSpace (cq_SettlementRunID request))) w = ReadOK s"
    and "settlementChallengeResponseIsFinal (cs_Response s)" and "TrimSpace (cq_SettlementRunID request) \<noteq> []"
  shows "w_sends (snd (run_state (executeSettlementChallenge env cfg request) w)) = w_sends w \<and>
    w_files (snd (run_state (executeSettlementChallenge env cfg request) w)) = w_files w \<and>
    (case fst (run_state (executeSettlementChallenge env cfg request) w) of Inl _ \<Rightarrow> True
     | Inr r \<Rightarrow> r = (cs_Response s)\<lparr>cr_DryRun := False, cr_IdempotentReplay := True\<rparr> \<or> \<not> cr_OK r)"
  using assms by (rule final_challenge_inert)

text \<open>The response of a plan whose deposits are not all verified.\<close>

lemma unverified_plan:
  fixes env :: "'c env"
  assumes "challengeValidationErrors cfg request = []"
    and "length (gs_verified (fundingScanOf env cfg request c)) \<noteq> length (cq_Funding request)"
  shows "\<not> cr_OK (pl_Response (challengePlanOf env cfg request c))" "cr_Status (pl_Response (challengePlanOf env cfg request c)) = ''failed''"
    "\<not> cr_Retryable (pl_Response (challengePlanOf env cfg request c))" "cr_Transfers (pl_Response (challengePlanOf env cfg request c)) = []"
    "cr_Run (pl_Response (challengePlanOf env cfg request c)) = None"
  using assms by (simp_all add: buildSettlementChallengePlan_def fundingScanOf_def Let_def finalized_keeps finalized_retryable transfersWith_def)

lemma unverified_recorded:
  assumes "\<not> cr_OK (pl_Response plan)" and "cr_Status (pl_Response plan) = ''failed''" and "\<not> cr_Retryable (pl_Response plan)"
    and "cr_Transfers (pl_Response plan) = []" and "cr_Run (pl_Response plan) = None"
    and "fst (run_state (executePlannedChallenge env cfg sid plan) w) = Inr r"
  shows "\<exists>s. readSettlementChallengeStoredResult (challengeRecordPath cfg sid) (snd (run_state (executePlannedChallenge env cfg sid plan) w)) = ReadOK s \<and>
    settlementChallengeResponseIsFinal (cs_Response s) \<and> \<not> cr_OK (cs_Response s)"
proof -
  let ?r = "finalized ((pl_Response plan)\<lparr>cr_DryRun := False, cr_Transfers := []\<rparr>)"
  have run: "run_state (executePlannedChallenge env cfg sid plan) w = run_state (recordChallenge env cfg sid (pl_Normalized plan) ?r) w"
    using assms(1,4) by (simp add: executePlannedChallenge_def markChallengeReadyTransfersFailed_def Let_def)
  have "EqualFold (TrimSpace ''failed'') ''failed''" by (simp add: go_eval)
  then have "settlementChallengeResponseIsFinal ?r" "\<not> cr_OK ?r"
    using assms(1-5) by (simp_all add: settlementChallengeResponseIsFinal_def finalized_keeps finalized_retryable transfersWith_def)
  with recordChallenge_ok(2) [OF assms(6) [unfolded run]] show ?thesis unfolding run by metis
qed

text \<open>
  C39. A challenge whose deposits cannot be verified is lost to its settlement id.  When a valid
  request is executed for the first time and one of its deposits is not verified, for whatever reason,
  then unless another attempt holds the lock or the record cannot be written, every later call under
  the same id, whatever its payload and the state of the chain, sends nothing and is never \<open>ok\<close>, as
  long as the file of that settlement's record is left as it is.
\<close>

theorem unverified_challenge_blocked:
  fixes env :: "'c env" and w :: "'c world" and env' :: "'d env" and w' :: "'d world"
  assumes "challengeValidationErrors cfg request = []"
    and "length (gs_verified (fundingScanOf env cfg request (w_chain w))) \<noteq> length (cq_Funding request)"
    and "readSettlementChallengeStoredResult (challengeRecordPath cfg (TrimSpace (cq_SettlementRunID request))) w = NotExist"
    and "fst (run_state (executeSettlementChallenge env cfg request) w) = Inr r" and "cr_FailureCode r \<noteq> ''CHALLENGE_IN_PROGRESS''"
    and "w_files w' (challengeRecordPath cfg (TrimSpace (cq_SettlementRunID request))) =
      w_files (snd (run_state (executeSettlementChallenge env cfg request) w)) (challengeRecordPath cfg (TrimSpace (cq_SettlementRunID request)))"
    and "TrimSpace (cq_SettlementRunID request') = TrimSpace (cq_SettlementRunID request)"
  shows "w_sends (snd (run_state (executeSettlementChallenge env' cfg request') w')) = w_sends w' \<and>
    (case fst (run_state (executeSettlementChallenge env' cfg request') w') of Inl _ \<Rightarrow> True | Inr r' \<Rightarrow> \<not> cr_OK r')"
proof -
  let ?sid = "TrimSpace (cq_SettlementRunID request)"
  let ?plan = "challengePlanOf env cfg request (w_chain w)"
  have sid: "?sid \<noteq> []"
    using assms(1) requestID_nonempty by (auto simp: challengeValidationErrors_def validateSettlementRunID_def split: if_splits)
  obtain s where s: "readSettlementChallengeStoredResult (challengeRecordPath cfg ?sid) w' = ReadOK s"
      "settlementChallengeResponseIsFinal (cs_Response s)" "\<not> cr_OK (cs_Response s)"
  proof (cases rule: challenge_cases [of env cfg request w])
    case (unlocked r' w1)
    with assms(4,5) sid show ?thesis by auto
  next
    case (held w1 locks)
    have "readSettlementChallengeStoredResult (challengeRecordPath cfg ?sid) w1 = NotExist"
      using assms(3) held(1) by (simp add: readSettlementChallengeStoredResult_def)
    then have body: "run_state (challengeUnderLock env cfg ?sid ?plan) w1 = run_state (executePlannedChallenge env cfg ?sid ?plan) w1"
      by (simp add: challengeUnderLock_def)
    have "fst (run_state (executePlannedChallenge env cfg ?sid ?plan) w1) = Inr r"
      using assms(4) held(4) body by (simp add: Let_def)
    from unverified_recorded [OF unverified_plan [OF assms(1,2)] this] show ?thesis
      using that assms(6) held(4) body by (auto simp: Let_def readSettlementChallengeStoredResult_def)
  qed
  with final_challenge_inert [of cfg request' w' s env'] assms(7) sid show ?thesis by (auto split: sum.splits)
qed

end
