(* ===== verification/Challenge_Sample.thy ===== *)
theory Challenge_Sample
  imports Challenge_Properties Chain_Properties
begin

text \<open>
  A challenge on the sample chain: one deposit of 300 uwolo wager and 200 uwolo guarantee, and two
  transfers that hand it out.
\<close>

definition sampleTransfer :: "string \<Rightarrow> string \<Rightarrow> string \<Rightarrow> string \<Rightarrow> string \<Rightarrow> settlementChallengeTransferInput" where
  "sampleTransfer requestID bucket reason address amount = zero_settlementChallengeTransferInput\<lparr>ti_RequestID := requestID,
     ti_ParticipantSide := ''left'', ti_Bucket := bucket, ti_Reason := reason, ti_ToAddress := address, ti_AmountUWolo := amount\<rparr>"

definition sampleChallenge :: "string \<Rightarrow> settlementChallengeRequest" where
  "sampleChallenge sid = zero_settlementChallengeRequest\<lparr>cq_SettlementRunID := sid, cq_SourceApp := ''arena'', cq_ChallengeID := ''c1'',
     cq_Funding := [zero_settlementChallengeFundingInput\<lparr>fi_FundingTxHash := ''F00D''\<rparr>],
     cq_Transfers := [sampleTransfer ''req-1'' ''wager'' ''payout'' ''wolo1abc'' ''300'',
       sampleTransfer ''req-2'' ''guarantee'' ''return'' ''wolo1left'' ''200'']\<rparr>"

section \<open>The deposit\<close>

definition depositTransfer :: settlementTransfer where
  "depositTransfer = \<lparr>tr_Sender = ''wolo1left'', tr_Recipient = ''wolo1escrow'', tr_Amount = ''500'', tr_Denom = ''uwolo''\<rparr>"

lemma deposit_transfers: "extractSettlementTransfers sampleDeposit = [depositTransfer]"
proof -
  have "splitCoinAmounts ''500uwolo'' = [\<lparr>co_Amount = ''500'', co_Denom = ''uwolo''\<rparr>]" "TrimSpace ''500uwolo'' = ''500uwolo''"
    by (simp_all add: splitCoinAmounts_def splitCoinPart_def go_eval)
  then show ?thesis
    by (simp add: extractSettlementTransfers_def extractSettlementTransfersFromLogsAndEvents_def zero_restTxResponse_def
        sampleDeposit_def transfersOfEvent_def depositTransfer_def) (simp add: go_eval)
qed

text \<open>A chain that answers for the transaction \<open>F00D\<close> with the deposit.\<close>

definition hasDeposit :: "int env \<Rightarrow> bool" where
  "hasDeposit env \<longleftrightarrow> (\<forall>t. run_state (fetchRuntimeChainID env sampleCfg) t = (Inr ''wolo-testnet'', t)) \<and>
     env_restTx env (txLookupURL sampleCfg ''F00D'') = State_Monad.return (Replied 200 [] (Inr sampleDeposit))"

lemma sample_hasDeposit: "hasDeposit (sampleEnv (\<lambda>t. False) io)"
proof -
  have "env_restTx (sampleEnv (\<lambda>t. False) io) (txLookupURL sampleCfg ''F00D'') = State_Monad.return (Replied 200 [] (Inr sampleDeposit))"
    by (simp add: sampleEnv_def txLookupURL_def txPath_def restBase_def sampleCfg_def go_eval)
  then show ?thesis by (simp add: hasDeposit_def)
qed

lemma deposit_found:
  fixes t
  assumes "hasDeposit env" and "matchSettlementTransfer [depositTransfer] e = Some depositTransfer"
  defines "lookup \<equiv> fst (run_state (lookupSettlementTx env sampleCfg ''F00D'' e) t)"
  shows "lr_OK lookup" "lr_Found lookup" "lr_Kind lookup = ''escrow_deposit''" "lr_MatchedTransfer lookup = Some depositTransfer"
    "lr_Memo lookup = sampleDepositMemo" "lr_TxHash lookup = ''F00D''"
    "snd (run_state (lookupSettlementTx env sampleCfg ''F00D'' e) t) = t"
proof -
  have "normalizeTxHash ''F00D'' = ''F00D''" "isHexHash ''F00D''"
    by (simp_all add: normalizeTxHash_def isHexHash_def go_eval)
  moreover have "classifyTransferKind sampleCfg [depositTransfer] = ''escrow_deposit''"
    by (simp add: classifyTransferKind_def depositTransfer_def)
  moreover have "TrimSpace sampleDepositMemo = sampleDepositMemo" "tl_Memo sampleDeposit = sampleDepositMemo" "tx_TxHash (tl_TxResponse sampleDeposit) = ''F00D''"
    "tx_Code (tl_TxResponse sampleDeposit) = 0"
    by (simp_all add: sampleDepositMemo_def sampleDeposit_def zero_restTxResponse_def go_eval)
  ultimately show "lr_OK lookup" "lr_Found lookup" "lr_Kind lookup = ''escrow_deposit''" "lr_MatchedTransfer lookup = Some depositTransfer"
    "lr_Memo lookup = sampleDepositMemo" "lr_TxHash lookup = ''F00D''"
    "snd (run_state (lookupSettlementTx env sampleCfg ''F00D'' e) t) = t"
    using assms(1,2) unfolding lookup_def hasDeposit_def
    by (simp_all add: lookupSettlementTx_def getJSON_def deposit_transfers refineTransferKind_def withLookupURLs_def Let_def)
qed

lemma sampleMemo_query:
  "ParseQuery (TrimPrefix sampleDepositMemo settlementChallengeFundingMemoPrefix) =
     ([(''app'', ''arena''), (''cid'', ''c1''), (''side'', ''left''), (''w'', ''300''), (''g'', ''200'')], None)"
  "prefix settlementChallengeFundingMemoPrefix sampleDepositMemo" "TrimSpace sampleDepositMemo = sampleDepositMemo"
  by (simp_all add: sampleDepositMemo_def settlementChallengeFundingMemoPrefix_def ParseQuery_def Cut1_def go_eval)


lemma sampleMemo_identity:
  "parseMemoIdentity [(''app'', ''arena''), (''cid'', ''c1''), (''side'', ''left''), (''w'', ''300''), (''g'', ''200'')] =
     Inr \<lparr>mi_sourceApp = ''arena'', mi_settlementRunID = [], mi_challengeID = ''c1'', mi_sourceEventID = [], mi_participantSide = ''left'',
       mi_participantID = []\<rparr>"
  by (simp add: parseMemoIdentity_def getValue_def valuesGet_def optionalMetadata_def normalizeSettlementRunMetadataID_def
      settlementRequestIDPattern_def settlementSourceEventPattern_def settlementChallengeParticipantSidePattern_def Let_def go_eval)

lemma sampleMemo_amounts:
  "parseMemoAmounts [(''app'', ''arena''), (''cid'', ''c1''), (''side'', ''left''), (''w'', ''300''), (''g'', ''200'')] ''500'' = Inr (300, 200)"
  by (simp add: parseMemoAmounts_def getValue_def valuesGet_def parseChallengeMemoAmount_def Let_def go_eval)

abbreviation sampleInput :: settlementChallengeFundingInput where
  "sampleInput \<equiv> zero_settlementChallengeFundingInput\<lparr>fi_FundingTxHash := ''F00D''\<rparr>"

lemma sampleInput_sel [simp]:
  "nf_FundingTxHash (normalizedFundingInput sampleInput) = ''F00D''"
  "expectationOf app cid eid (normalizedFundingInput sampleInput) = \<lparr>fe_Sender = [], fe_SourceApp = app, fe_SettlementRunID = [],
     fe_ChallengeID = cid, fe_SourceEventID = eid, fe_ParticipantSide = [], fe_ParticipantID = [], fe_TotalFundedUWolo = [],
     fe_WagerUWolo = [], fe_GuaranteeUWolo = []\<rparr>"
  by (simp_all add: normalizedFundingInput_def expectationOf_def zero_settlementChallengeFundingInput_def normalizeTxHash_def go_eval)

lemma sample_expectation:
  "validateChallengeFundingExpectation (expectationOf ''arena'' ''c1'' [] (normalizedFundingInput sampleInput)) addressPrefix = None"
  by (simp add: validateChallengeFundingExpectation_def whenSet_def metadataError_def normalizeSettlementRunMetadataID_def
      settlementRequestIDPattern_def settlementSourceEventPattern_def go_eval)

definition isSampleFunding :: "settlementChallengeFundingResult \<Rightarrow> bool" where
  "isSampleFunding f \<longleftrightarrow> fr_TotalFundedUWolo f = ''500'' \<and> fr_WagerUWolo f = ''300'' \<and> fr_GuaranteeUWolo f = ''200'' \<and>
     fr_ParticipantSide f = ''left'' \<and> fr_ParticipantID f = [] \<and> fr_FundingTxHash f = ''F00D'' \<and> fr_SourceApp f = ''arena'' \<and>
     fr_SettlementRunID f = [] \<and> fr_ChallengeID f = ''c1'' \<and> fr_SourceEventID f = [] \<and> fr_Sender f = ''wolo1left'' \<and>
     fr_EscrowAddress f = ''wolo1escrow''"

lemma deposit_parses:
  assumes "lr_Memo lookup = sampleDepositMemo" and "lr_TxHash lookup = ''F00D''"
  shows "\<exists>f. parseChallengeFundingResult depositTransfer lookup ''wolo1escrow'' = Inr f \<and> isSampleFunding f"
proof -
  have "TrimSpace ''500'' = ''500''" "FormatUint 300 = ''300''" "FormatUint 200 = ''200''" by (simp_all add: go_eval)
  with assms show ?thesis
    by (simp add: parseChallengeFundingResult_def sampleMemo_query sampleMemo_identity sampleMemo_amounts depositTransfer_def
        isSampleFunding_def zero_settlementChallengeFundingResult_def Let_def)
qed

text \<open>An expectation that the deposit meets.\<close>

definition meetsDeposit :: "settlementChallengeFundingExpectation \<Rightarrow> bool" where
  "meetsDeposit e \<longleftrightarrow> validateChallengeFundingExpectation e ''wolo'' = None \<and>
     matchSettlementTransfer [depositTransfer] \<lparr>le_Sender = TrimSpace (fe_Sender e), le_Recipient = ''wolo1escrow'',
       le_AmountUWolo = TrimSpace (fe_TotalFundedUWolo e)\<rparr> = Some depositTransfer \<and>
     (\<forall>f. isSampleFunding f \<longrightarrow> compareChallengeFundingExpectation f e = [])"

lemma deposit_verified:
  assumes "hasDeposit env" and "meetsDeposit e"
  obtains f response where "run_state (verifyChallengeFundingDeposit env sampleCfg ''F00D'' e) t = (response, t)"
    "fv_OK response" "fv_Funding response = Some f" "isSampleFunding f"
proof -
  let ?le = "\<lparr>le_Sender = TrimSpace (fe_Sender e), le_Recipient = ''wolo1escrow'', le_AmountUWolo = TrimSpace (fe_TotalFundedUWolo e)\<rparr>"
  let ?lookup = "fst (run_state (lookupSettlementTx env sampleCfg ''F00D'' ?le) t)"
  have e: "validateChallengeFundingExpectation e ''wolo'' = None" "matchSettlementTransfer [depositTransfer] ?le = Some depositTransfer"
    "\<And>f. isSampleFunding f \<Longrightarrow> compareChallengeFundingExpectation f e = []"
    using assms(2) by (simp_all add: meetsDeposit_def)
  note found = deposit_found [OF assms(1) e(2), of t]
  have escrow: "TrimSpace ''wolo1escrow'' = ''wolo1escrow''" by (simp add: go_eval)
  obtain f where f: "parseChallengeFundingResult depositTransfer ?lookup ''wolo1escrow'' = Inr f" "isSampleFunding f"
    using deposit_parses [OF found(5,6)] by blast
  have run: "run_state (verifyChallengeFundingDeposit env sampleCfg ''F00D'' e) t =
      (\<lparr>fv_OK = True, fv_FailureCode = [], fv_Detail = ''challenge funding deposit verified'',
        fv_Funding = Some (f\<lparr>fr_OK := True, fr_Detail := ''challenge funding deposit verified''\<rparr>), fv_Lookup = Some ?lookup\<rparr>, t)"
    using found f(1) e(1) e(3) [OF f(2)] escrow
    by (simp add: verifyChallengeFundingDeposit_def fundingVerdict_def Let_def prod_eq_iff)
  show ?thesis by (rule that [OF run, where f = "f\<lparr>fr_OK := True, fr_Detail := ''challenge funding deposit verified''\<rparr>"]) (use f(2) in \<open>simp_all add: isSampleFunding_def\<close>)
qed

lemma sample_meets: "meetsDeposit (expectationOf ''arena'' ''c1'' [] (normalizedFundingInput sampleInput))"
proof -
  have "matchSettlementTransfer [depositTransfer] \<lparr>le_Sender = [], le_Recipient = ''wolo1escrow'', le_AmountUWolo = []\<rparr> = Some depositTransfer"
    by (simp add: matchSettlementTransfer_def transferMatches_def depositTransfer_def go_eval)
  moreover have "compareChallengeFundingExpectation f (expectationOf ''arena'' ''c1'' [] (normalizedFundingInput sampleInput)) = []"
    if "isSampleFunding f" for f
    using that by (simp add: compareChallengeFundingExpectation_def fundingChecks_def isSampleFunding_def go_eval)
  ultimately show ?thesis using sample_expectation by (simp add: meetsDeposit_def)
qed

lemmas sample_verified = deposit_verified [OF sample_hasDeposit sample_meets]

section \<open>The plan\<close>

lemma sampleChallenge_sel [simp]:
  "cq_SettlementRunID (sampleChallenge sid) = sid" "cq_SourceApp (sampleChallenge sid) = ''arena''" "cq_ChallengeID (sampleChallenge sid) = ''c1''"
  "cq_SourceEventID (sampleChallenge sid) = []" "cq_Funding (sampleChallenge sid) = [sampleInput]" "cq_Memo (sampleChallenge sid) = []"
  "cq_Transfers (sampleChallenge sid) = [sampleTransfer ''req-1'' ''wager'' ''payout'' ''wolo1abc'' ''300'',
     sampleTransfer ''req-2'' ''guarantee'' ''return'' ''wolo1left'' ''200'']"
  "cq_TreasuryAddress (sampleChallenge sid) = []" "cq_Note (sampleChallenge sid) = []"
  by (simp_all add: sampleChallenge_def zero_settlementChallengeRequest_def)

lemma sampleTreasury [simp]: "treasuryOf sampleCfg (sampleChallenge sid) = []"
  by (simp add: treasuryOf_def sampleCfg_def)

lemma sample_words [simp]: "TrimSpace ''arena'' = ''arena''" "TrimSpace ''c1'' = ''c1''"
  by (simp_all add: go_eval)

lemma sampleChallenge_valid:
  assumes "settlementRequestIDPattern sid" and "length sid \<le> 96"
  shows "challengeValidationErrors sampleCfg (sampleChallenge sid) = []"
  using assms requestID_trim [OF assms(1)]
  by (simp add: challengeValidationErrors_def sourceAppCheck_def metadataError_def normalizeSettlementRunMetadataID_def validateSettlementRunID_def
      optionList_def settlementSourceEventPattern_def) (simp add: settlementRequestIDPattern_def go_eval)

lemma sample_fundings:
  obtains f where "run_state (verifyFundings (sampleEnv (\<lambda>t. False) io) sampleCfg ''arena'' ''c1'' [] 0 [sampleInput] zero_fundingScan) t =
      (\<lparr>gs_normalized = [normalizedFundingInput sampleInput], gs_results = [f], gs_verified = [\<lparr>vf_Result = f\<rparr>], gs_fundedTotal = 500\<rparr>, t)"
    "isSampleFunding f"
proof -
  obtain f response where f: "run_state (verifyChallengeFundingDeposit (sampleEnv (\<lambda>t. False) io) sampleCfg ''F00D''
      (expectationOf ''arena'' ''c1'' [] (normalizedFundingInput sampleInput))) t = (response, t)"
    "fv_OK response" "fv_Funding response = Some f" "isSampleFunding f"
    by (rule sample_verified)
  have "parseOptionalUWoloString ''500'' = Inr 500" by (simp add: parseOptionalUWoloString_def go_eval)
  with f show ?thesis
    by (intro that [of "f\<lparr>fr_Index := 0\<rparr>"]) (simp_all add: addFunding_def zero_fundingScan_def isSampleFunding_def Let_def)
qed

lemma sample_participants:
  "validateVerifiedChallengeFundingParticipants [\<lparr>vf_Result = f\<rparr>] = []"
  by (simp add: validateVerifiedChallengeFundingParticipants_def checkSeen_def Let_def)

lemma sampleTransfer_normalizes:
  assumes "settlementRequestIDPattern rid" and "isWoloAddress a ''wolo''" and "TrimSpace a = a"
    and "ParseUint amount = Inr v" and "amount \<noteq> ''0''" and "bucket \<in> {''wager'', ''guarantee''}" and "reason \<in> {''payout'', ''return''}"
  shows "\<exists>result n. normalizeSettlementChallengeTransfer (sampleTransfer rid bucket reason a amount) sid index [] [] ''wolo'' = (n, result, v) \<and>
    ct_FailureCode result = [] \<and> ct_Outcome result = ''ready'' \<and> nt_RequestID n = rid \<and> nt_ParticipantSide n = ''left'' \<and> nt_ParticipantID n = [] \<and>
    nt_Bucket n = bucket \<and> nt_Reason n = reason \<and> nt_ToAddress n = a \<and> nt_AmountUWolo n = amount \<and> nt_Memo n = [] \<and> ct_Bucket result = bucket"
proof -
  have amount: "normalizeAmountUWolo amount 0 = Inr amount" by (rule normalizeAmount_fixed [OF assms(4,5)])
  have rid: "TrimSpace rid = rid" "rid \<noteq> []" using assms(1) requestID_trim requestID_nonempty by blast+
  have words: "TrimSpace (ToLower bucket) = bucket" "TrimSpace (ToLower reason) = reason" "settlementChallengeReasonPattern reason" "TrimSpace ''left'' = ''left''"
    "settlementChallengeParticipantSidePattern ''left''"
    using assms(6,7) by (auto simp: settlementChallengeReasonPattern_def settlementChallengeParticipantSidePattern_def go_eval)
  have "a \<noteq> []" using assms(2) by (auto simp: isWoloAddress_def)
  then show ?thesis
    using assms amount rid words
    by (auto simp: normalizeSettlementChallengeTransfer_def trimmedTransfer_def transferErrors_def sampleTransfer_def transferResult_def
        zero_settlementChallengeTransferInput_def zero_normalizedSettlementChallengeTransfer_def zero_settlementChallengeTransferResult_def
        settlementChallengeBucketWager_def settlementChallengeBucketGuarantee_def ParseUintVal_def Let_def)
qed

lemma sample_resolves:
  assumes "isSampleFunding f"
  shows "resolveChallengeFundingParticipant [\<lparr>vf_Result = f\<rparr>] ''left'' [] = (\<lparr>vf_Result = f\<rparr>, [])"
  using assms by (simp add: resolveChallengeFundingParticipant_def participantMatches_def isSampleFunding_def Let_def) (simp add: go_eval)

lemma sampleTransfer_scanned:
  fixes sid :: string and index :: nat
  assumes "settlementRequestIDPattern rid" and "isWoloAddress a ''wolo''" and "TrimSpace a = a"
    and "ParseUint amount = Inr v" and "amount \<noteq> ''0''" and "bucket \<in> {''wager'', ''guarantee''}" and "reason \<in> {''payout'', ''return''}"
    and "isSampleFunding f" and "rid \<notin> cx_seenRequestIDs cx"
  defines "cx' \<equiv> scanTransfer sampleCfg [\<lparr>vf_Result = f\<rparr>] sid [] [] index (sampleTransfer rid bucket reason a amount) cx"
  shows "cx_allocation cx' = allocate (fundingKey f) bucket v (cx_allocation cx)" "cx_requestedTotal cx' = cx_requestedTotal cx + v"
    "cx_seenRequestIDs cx' = insert rid (cx_seenRequestIDs cx)"
    "\<exists>r. cx_results cx' = cx_results cx @ [r] \<and> ct_Outcome r = ''ready''"
    "cx_payouts cx' = cx_payouts cx @ [sampleLine rid a amount]"
proof -
  obtain n result where n: "normalizeSettlementChallengeTransfer (sampleTransfer rid bucket reason a amount) sid index [] [] ''wolo'' = (n, result, v)"
      "ct_FailureCode result = []" "nt_RequestID n = rid" "nt_ParticipantSide n = ''left''" "nt_ParticipantID n = []"
      "nt_Bucket n = bucket" "nt_ToAddress n = a" "nt_AmountUWolo n = amount" "nt_Memo n = []"
    using sampleTransfer_normalizes [OF assms(1-7), of sid index] by blast
  then show "cx_allocation cx' = allocate (fundingKey f) bucket v (cx_allocation cx)" "cx_requestedTotal cx' = cx_requestedTotal cx + v"
    "cx_seenRequestIDs cx' = insert rid (cx_seenRequestIDs cx)"
    "\<exists>r. cx_results cx' = cx_results cx @ [r] \<and> ct_Outcome r = ''ready''"
    "cx_payouts cx' = cx_payouts cx @ [sampleLine rid a amount]"
    using assms(9) sample_resolves [OF assms(8)]
    by (simp_all add: cx'_def scanTransfer_def payoutInput_def sampleLine_def Let_def)
qed

lemma sampleAddresses:
  "isWoloAddress ''wolo1abc'' ''wolo''" "isWoloAddress ''wolo1left'' ''wolo''" "TrimSpace ''wolo1left'' = ''wolo1left''"
  "ParseUint ''300'' = Inr 300" "ParseUint ''200'' = Inr 200"
  by (simp_all add: isWoloAddress_def go_eval)

abbreviation sampleLines :: "settlementRunPayoutInput list" where
  "sampleLines \<equiv> [sampleLine ''req-1'' ''wolo1abc'' ''300'', sampleLine ''req-2'' ''wolo1left'' ''200'']"

lemma sample_scan:
  assumes "isSampleFunding f" and "TrimSpace sid = sid"
  defines "cx \<equiv> transferScanOf sampleCfg (sampleChallenge sid) [\<lparr>vf_Result = f\<rparr>]"
  shows "cx_requestedTotal cx = 500" "cx_payouts cx = sampleLines" "\<not> hasInvalidChallengeTransfers (cx_results cx)"
    "validateChallengeBucketAllocation [\<lparr>vf_Result = f\<rparr>] (cx_allocation cx) = []"
proof -
  let ?cx1 = "scanTransfer sampleCfg [\<lparr>vf_Result = f\<rparr>] sid [] [] 0 (sampleTransfer ''req-1'' ''wager'' ''payout'' ''wolo1abc'' ''300'') zero_transferScan"
  have cx: "cx = scanTransfer sampleCfg [\<lparr>vf_Result = f\<rparr>] sid [] [] 1 (sampleTransfer ''req-2'' ''guarantee'' ''return'' ''wolo1left'' ''200'') ?cx1"
    using assms(2) by (simp add: cx_def transferScanOf_def)
  note first = sampleTransfer_scanned [OF sampleIDs(1) sampleAddresses(1) sampleIDs(4) sampleAddresses(4) _ _ _ assms(1),
      of "''wager''" "''payout''" zero_transferScan sid 0]
  have seen: "cx_seenRequestIDs ?cx1 = {''req-1''}" using first(3) by (simp add: zero_transferScan_def)
  note second = sampleTransfer_scanned [OF sampleIDs(2) sampleAddresses(2,3,5) _ _ _ assms(1), of "''guarantee''" "''return''" ?cx1 sid 1, folded cx]
  show "cx_requestedTotal cx = 500" "cx_payouts cx = sampleLines" 
    using first(2,5) second(2,5) seen by (simp_all add: zero_transferScan_def)
  obtain r1 r2 where "cx_results cx = [r1, r2]" "ct_Outcome r1 = ''ready''" "ct_Outcome r2 = ''ready''"
    using first(4) second(4) seen by (auto simp: zero_transferScan_def)
  then show "\<not> hasInvalidChallengeTransfers (cx_results cx)" by (simp add: hasInvalidChallengeTransfers_def)
  have "cx_allocation cx = allocate (fundingKey f) ''guarantee'' 200 (allocate (fundingKey f) ''wager'' 300 (\<lambda>key bucket. 0))"
    using first(1) second(1) seen by (simp add: zero_transferScan_def)
  moreover have "ParseUintVal ''300'' = 300" "ParseUintVal ''200'' = 200" by (simp_all add: ParseUintVal_def go_eval)
  ultimately show "validateChallengeBucketAllocation [\<lparr>vf_Result = f\<rparr>] (cx_allocation cx) = []"
    using assms(1) by (simp add: validateChallengeBucketAllocation_def bucketErrors_def allocate_def isSampleFunding_def
        settlementChallengeBucketWager_def settlementChallengeBucketGuarantee_def Let_def)
qed

lemma sample_run:
  fixes sid :: string
  assumes "settlementRequestIDPattern sid" and "length sid \<le> 96"
  defines "run \<equiv> challengeRunRequest (sampleChallenge sid) sampleLines"
  shows "rr_OK (planOf (sampleEnv (\<lambda>t. False) io) sampleCfg run c)"
    "rr_RequestedTotalUWolo (planOf (sampleEnv (\<lambda>t. False) io) sampleCfg run c) = ''500''"
    "rr_PayoutBalanceBeforeUWolo (planOf (sampleEnv (\<lambda>t. False) io) sampleCfg run c) = ''1000000''"
    "rr_EstimatedFeeTotalUWolo (planOf (sampleEnv (\<lambda>t. False) io) sampleCfg run c) = []"
    "runValidationErrors run = []" "sc_payouts (runScanOf run) \<noteq> []" "sc_totalRequested (runScanOf run) = 500"
proof -
  have run: "rq_Payouts run = sampleLines" "rq_SignerRole run = []" "rq_SourceApp run = ''arena''" "rq_Memo run = []" "rq_SettlementRunID run = sid"
    "rq_SourceEventID run = ''c1''"
    using requestID_trim [OF assms(1)] by (simp_all add: run_def challengeRunRequest_def zero_settlementRunRequest_def)
  have memo: "cutAt 180 (TrimSpace (rq_Memo run)) = []" by (simp add: run)
  show valid: "runValidationErrors run = []"
    using assms(1,2) requestID_trim [OF assms(1)] run
    by (simp add: runValidationErrors_def normalizeSettlementRunSignerRole_def validateSettlementRunID_def optionList_def
      normalizeSettlementRunMetadataID_def settlementSourceEventPattern_def settlementMaxRunPayouts_def)
      (simp add: settlementRequestIDPattern_def go_eval)
  note first = scan_valid_line [OF sampleIDs(1,3,4) sampleAddresses(4)]
  note second = scan_valid_line [OF sampleIDs(2) sampleAddresses(2) [folded settlementCanonicalPrefix_def] sampleAddresses(3,5)]
  show scan: "sc_totalRequested (runScanOf run) = 500" "sc_payouts (runScanOf run) \<noteq> []"
    unfolding runScanOf_def memo by (simp_all add: run first second zero_runScan_def)
  have "FormatUint 500 = ''500''" "ToLower (TrimSpace ''arena'') \<noteq> ''aoe2hdbets''" by (simp_all add: go_eval)
  with samplePlan [OF valid scan(2) run(2), of io c] scan(1) run(3)
  show "rr_OK (planOf (sampleEnv (\<lambda>t. False) io) sampleCfg run c)"
    "rr_RequestedTotalUWolo (planOf (sampleEnv (\<lambda>t. False) io) sampleCfg run c) = ''500''"
    "rr_PayoutBalanceBeforeUWolo (planOf (sampleEnv (\<lambda>t. False) io) sampleCfg run c) = ''1000000''"
    "rr_EstimatedFeeTotalUWolo (planOf (sampleEnv (\<lambda>t. False) io) sampleCfg run c) = []"
    by simp_all
qed

lemma sample_topUp:
  assumes "rr_RequestedTotalUWolo run = ''500''" and "rr_PayoutBalanceBeforeUWolo run = ''1000000''" and "rr_EstimatedFeeTotalUWolo run = []"
  shows "\<exists>topUp. run_state (buildChallengeTopUpPlan env sampleCfg sid run) c = (Some topUp, c) \<and> \<not> tu_Required topUp"
proof -
  have "parseOptionalUWoloString ''500'' = Inr 500" "parseOptionalUWoloString ''1000000'' = Inr 1000000" "parseOptionalUWoloString [] = Inr 0"
    by (simp_all add: parseOptionalUWoloString_def go_eval)
  moreover have "challengeRequiredBalance sampleCfg 500 [] = 1500"
    using \<open>parseOptionalUWoloString [] = Inr 0\<close> by (simp add: challengeRequiredBalance_def sampleCfg_def)
  ultimately show ?thesis using assms by (simp add: buildChallengeTopUpPlan_def Let_def)
qed

lemma sampleChallenge_ok:
  assumes "settlementRequestIDPattern sid" and "length sid \<le> 96"
  shows "cr_OK (pl_Response (challengePlanOf (sampleEnv (\<lambda>t. False) io) sampleCfg (sampleChallenge sid) c))"
proof -
  obtain f where gs: "run_state (verifyFundings (sampleEnv (\<lambda>t. False) io) sampleCfg ''arena'' ''c1'' [] 0 [sampleInput] zero_fundingScan) c =
      (\<lparr>gs_normalized = [normalizedFundingInput sampleInput], gs_results = [f], gs_verified = [\<lparr>vf_Result = f\<rparr>], gs_fundedTotal = 500\<rparr>, c)"
    "isSampleFunding f"
    by (rule sample_fundings)
  note sid = requestID_trim [OF assms(1)]
  note scan = sample_scan [OF gs(2) sid, unfolded transferScanOf_def]
  note run = sample_run(1-4) [OF assms, of io c]
  define validated where "validated = run_state (validateSettlementRun (sampleEnv (\<lambda>t. False) io) sampleCfg (challengeRunRequest (sampleChallenge sid) sampleLines)) c"
  have validation: "rr_OK (fst validated)" "rr_RequestedTotalUWolo (fst validated) = ''500''" "rr_PayoutBalanceBeforeUWolo (fst validated) = ''1000000''"
    "rr_EstimatedFeeTotalUWolo (fst validated) = []"
    using run(1-4) by (simp_all add: validated_def validateSettlementRun_def case_prod_beta)
  obtain topUp where topUp: "run_state (buildChallengeTopUpPlan (sampleEnv (\<lambda>t. False) io) sampleCfg sid (fst validated)) (snd validated) =
      (Some topUp, snd validated)" "\<not> tu_Required topUp"
    using sample_topUp [OF validation(2-4), of "sampleEnv (\<lambda>t. False) io" sid "snd validated"] by blast
  show ?thesis
    using sampleChallenge_valid [OF assms] gs(1) scan topUp validation(1) sid
    by (simp add: buildSettlementChallengePlan_def planTransfers_def sample_participants Let_def finalized_keeps challengeVerdict_def
        validated_def [symmetric] case_prod_beta)
qed

section \<open>The hypotheses of the challenge properties can hold\<close>

lemma set1 [simp]: "settlementRequestIDPattern ''set-1''" "TrimSpace ''set-1'' = ''set-1''"
  by (simp_all add: settlementRequestIDPattern_def go_eval)

theorem challenge_allocates_deposits_witness:
  "cr_OK (pl_Response (challengePlanOf (sampleEnv (\<lambda>t. False) (\<lambda>t path. None)) sampleCfg (sampleChallenge ''set-1'') 0)) \<and>
   cr_RequestedTotalUWolo (pl_Response (challengePlanOf (sampleEnv (\<lambda>t. False) (\<lambda>t path. None)) sampleCfg (sampleChallenge ''set-1'') 0)) =
   cr_FundingTotalUWolo (pl_Response (challengePlanOf (sampleEnv (\<lambda>t. False) (\<lambda>t path. None)) sampleCfg (sampleChallenge ''set-1'') 0))"
proof -
  have ok: "cr_OK (pl_Response (challengePlanOf (sampleEnv (\<lambda>t. False) (\<lambda>t path. None)) sampleCfg (sampleChallenge ''set-1'') 0))"
    by (rule sampleChallenge_ok) simp_all
  with challenge_allocates_deposits [OF ok] show ?thesis by blast
qed

definition settledChallenge :: "int world" where
  "settledChallenge = (emptyWorld 0)\<lparr>w_files := [challengeRecordPath sampleCfg ''set-1'' \<mapsto> ChallengeFile
     \<lparr>cs_Request = zero_normalizedSettlementChallengeRequest, cs_Fingerprint = [],
      cs_Response = zero_settlementChallengeResponse\<lparr>cr_OK := True\<rparr>, cs_UpdatedAt = 0\<rparr>]\<rparr>"

theorem final_challenge_replayed_witness:
  "w_sends (snd (run_state (executeSettlementChallenge (sampleEnv (\<lambda>t. False) (\<lambda>t path. None)) sampleCfg (sampleChallenge ''set-1'')) settledChallenge)) = [] \<and>
   w_files (snd (run_state (executeSettlementChallenge (sampleEnv (\<lambda>t. False) (\<lambda>t path. None)) sampleCfg (sampleChallenge ''set-1'')) settledChallenge)) =
     w_files settledChallenge"
proof -
  let ?s = "\<lparr>cs_Request = zero_normalizedSettlementChallengeRequest, cs_Fingerprint = [],
      cs_Response = zero_settlementChallengeResponse\<lparr>cr_OK := True\<rparr>, cs_UpdatedAt = 0\<rparr>"
  have read: "readSettlementChallengeStoredResult (challengeRecordPath sampleCfg (TrimSpace (cq_SettlementRunID (sampleChallenge ''set-1'')))) settledChallenge = ReadOK ?s"
    by (simp add: readSettlementChallengeStoredResult_def readStateFile_def settledChallenge_def)
  have final: "settlementChallengeResponseIsFinal (cs_Response ?s)"
    by (simp add: settlementChallengeResponseIsFinal_def zero_settlementChallengeResponse_def)
  have id: "TrimSpace (cq_SettlementRunID (sampleChallenge ''set-1'')) \<noteq> []" by simp
  have "w_sends settledChallenge = []" by (simp add: settledChallenge_def)
  with final_challenge_replayed [OF read final id, of "sampleEnv (\<lambda>t. False) (\<lambda>t path. None)"] show ?thesis by metis
qed

lemma outage_unverified:
  assumes "down c"
  shows "gs_verified (fundingScanOf (sampleEnv down io) sampleCfg (sampleChallenge sid) c) = []"
proof -
  let ?e = "expectationOf ''arena'' ''c1'' [] (normalizedFundingInput sampleInput)"
  have "\<not> lr_OK (fst (run_state (lookupSettlementTx (sampleEnv down io) sampleCfg ''F00D'' e) c))" for e
    using assms by (simp add: lookupSettlementTx_def normalizeTxHash_def isHexHash_def Let_def)
  moreover have "TrimSpace ''wolo1escrow'' \<noteq> []" by (simp add: go_eval)
  ultimately have "\<not> fv_OK (fst (run_state (verifyChallengeFundingDeposit (sampleEnv down io) sampleCfg ''F00D'' ?e) c))"
    using sample_expectation by (simp add: verifyChallengeFundingDeposit_def fundingVerdict_def Let_def)
  then show ?thesis
    by (simp add: fundingScanOf_def addFunding_def zero_fundingScan_def Let_def split: option.splits)
qed

lemma failed_challenge_answers:
  fixes w :: "'c world"
  assumes "\<And>path. env_ioError env (w_chain (w\<lparr>w_chain := c\<rparr>)) path = None" and "w_locks w = Map.empty" and "w_files w = Map.empty"
    and "run_state (buildSettlementChallengePlan env cfg request) (w_chain w) = (plan, c)" and "\<not> cr_OK (pl_Response plan)"
    and "TrimSpace (cr_SettlementRunID (pl_Response plan)) \<noteq> []" and "cr_Status (pl_Response plan) \<noteq> []"
  shows "\<exists>r. fst (run_state (executeSettlementChallenge env cfg request) w) = Inr r \<and> cr_FailureCode r = cr_FailureCode (pl_Response plan)"
  using assms
  by (simp add: executeSettlementChallenge_def withChallengeLock_def lockAttempt_free challengeUnderLock_def readSettlementChallengeStoredResult_def
      readStateFile_def executePlannedChallenge_def recordChallenge_def writeSettlementChallengeStoredResult_def Let_def finalized_keeps)

theorem unverified_challenge_blocked_witness:
  "w_sends (snd (run_state (executeSettlementChallenge (sampleEnv (\<lambda>t. False) (\<lambda>t path. None)) sampleCfg (sampleChallenge ''set-1''))
     ((emptyWorld 1)\<lparr>w_files := w_files (snd (run_state (executeSettlementChallenge (sampleEnv (\<lambda>t. t = 0) (\<lambda>t path. None)) sampleCfg
        (sampleChallenge ''set-1'')) (emptyWorld 0)))\<rparr>))) = []"
proof -
  let ?env = "sampleEnv (\<lambda>t. t = 0) (\<lambda>t path. None)" and ?request = "sampleChallenge ''set-1''"
  let ?w = "emptyWorld 0 :: int world"
  have valid: "challengeValidationErrors sampleCfg ?request = []" by (rule sampleChallenge_valid) simp_all
  have short: "length (gs_verified (fundingScanOf ?env sampleCfg ?request (w_chain ?w))) \<noteq> length (cq_Funding ?request)"
    by (simp add: outage_unverified)
  note plan = unverified_plan [OF valid short]
  obtain c where c: "run_state (buildSettlementChallengePlan ?env sampleCfg ?request) (w_chain ?w) = (challengePlanOf ?env sampleCfg ?request (w_chain ?w), c)"
    by (metis prod.collapse)
  have code: "cr_FailureCode (pl_Response (challengePlanOf ?env sampleCfg ?request (w_chain ?w))) = ''INVALID_CHALLENGE''"
    using valid short by (simp add: buildSettlementChallengePlan_def fundingScanOf_def Let_def finalized_keeps)
  obtain r where r: "fst (run_state (executeSettlementChallenge ?env sampleCfg ?request) ?w) = Inr r"
      "cr_FailureCode r = cr_FailureCode (pl_Response (challengePlanOf ?env sampleCfg ?request (w_chain ?w)))"
    using failed_challenge_answers [OF _ _ _ c] plan by (auto simp: emptyWorld_def)
  have busy: "cr_FailureCode r \<noteq> ''CHALLENGE_IN_PROGRESS''" using r(2) code by simp
  have none: "readSettlementChallengeStoredResult (challengeRecordPath sampleCfg (TrimSpace (cq_SettlementRunID ?request))) ?w = NotExist"
    by (simp add: readSettlementChallengeStoredResult_def readStateFile_def)
  show ?thesis
    using unverified_challenge_blocked [OF valid short none r(1) busy, where request' = ?request and env' = "sampleEnv (\<lambda>t. False) (\<lambda>t path. None)" and w' = "(emptyWorld 1)\<lparr>w_files := w_files (snd (run_state (executeSettlementChallenge ?env sampleCfg ?request) ?w))\<rparr>"]
    by simp
qed

end
