(* ===== verification/Recovery.thy ===== *)
theory Recovery
  imports Sample
begin

text \<open>
  Progress of the single-transfer rail: a payout that was refused while the node could not be reached
  goes through with the first call after the node is back, and only once; a payout that was called while the
  REST endpoint could not be reached is refused for good.
\<close>

section \<open>An open request\<close>

text \<open>No call holds the lock, and what is stored, if anything, is the same request with an outcome to be retried.\<close>

definition openFor :: "settlementConfig \<Rightarrow> normalizedSettlementRequest \<Rightarrow> 'c world \<Rightarrow> bool" where
  "openFor cfg n w \<longleftrightarrow> w_locks w (requestLockPath cfg (nq_RequestID n)) = None \<and>
     (case readSettlementStoredResult (requestRecordPath cfg (nq_RequestID n)) w of
        NotExist \<Rightarrow> True
      | ReadFailed _ \<Rightarrow> False
      | ReadOK s \<Rightarrow> sameSettlementRequest (sr_Request s) n \<and> \<not> isSettled (sr_Response s))"

text \<open>The preflight refuses in the state \<open>c\<close> of the outside world with a failure that may be retried, as it does when the node does not answer.\<close>

definition refusesForNow :: "'c preflight \<Rightarrow> 'c env \<Rightarrow> settlementConfig \<Rightarrow> normalizedSettlementRequest \<Rightarrow> 'c \<Rightarrow> bool" where
  "refusesForNow preflight env cfg n c =
     (case run_state (preflight env cfg (nq_AmountUWolo n)) c of
        ((_, Some failed), _) \<Rightarrow> xr_Retryable failed
      | ((_, None), _) \<Rightarrow> False)"

lemma unreachable_refuses:
  assumes "fst (run_state (fetchRuntimeChainID env cfg) c) = Inl err"
  shows "refusesForNow preflightExecution env cfg n c"
  using buildHealthReport_unreachable [OF assms]
  by (simp add: refusesForNow_def preflightExecution_def case_prod_beta)

text \<open>The node takes the transfer: its answer names a transaction with code zero, and a confirmation that arrives is of a success.\<close>

definition nodeAccepts :: "'c env \<Rightarrow> settlementConfig \<Rightarrow> string \<Rightarrow> normalizedSettlementRequest \<Rightarrow> 'c \<Rightarrow> bool" where
  "nodeAccepts env cfg keyName n c =
     (case run_state (env_txBankSend env (bankSendArgs cfg keyName n)) c of
        ((output, err), c1) \<Rightarrow> extractJSONPayload output \<noteq> [] \<and>
          (case env_decodeBroadcast env (extractJSONPayload output) of
             None \<Rightarrow> False
           | Some b \<Rightarrow> bb_TxHash b \<noteq> [] \<and> bb_Code b = 0 \<and>
               (case fst (run_state (waitForTxConfirmation env cfg (bb_TxHash b)) c1) of Inr (Some l) \<Rightarrow> lr_TxSuccess l | _ \<Rightarrow> True)))"

definition takesPayout :: "'c preflight \<Rightarrow> 'c env \<Rightarrow> settlementConfig \<Rightarrow> string \<Rightarrow> normalizedSettlementRequest \<Rightarrow> 'c \<Rightarrow> bool" where
  "takesPayout preflight env cfg keyName n c =
     (case run_state (preflight env cfg (nq_AmountUWolo n)) c of
        ((_, None), c1) \<Rightarrow> nodeAccepts env cfg keyName n c1
      | ((_, Some _), _) \<Rightarrow> False)"

lemma accepted_ok:
  "nodeAccepts env cfg keyName n (w_chain w) \<Longrightarrow> xr_OK (fst (run_state (broadcastTransfer env cfg role keyName what n a) w))"
  by (auto simp: nodeAccepts_def broadcastTransfer_def confirmedResponse_def Let_def case_prod_beta split: option.splits sum.splits if_splits)

context transfer_rail
begin

lemma settle_open:
  assumes "diskOK env" and "normalizeSettlementRequest request = Inr n" and "openFor cfg (n\<lparr>nq_SignerRole := role\<rparr>) w"
  obtains w1 where "w_chain w1 = w_chain w" "w_sends w1 = w_sends w"
    "run_state (settle env cfg role request) w =
      (let attempt = run_state (attemptTransfer env cfg preflight broadcast (n\<lparr>nq_SignerRole := role\<rparr>)) w1
       in (fst attempt, (snd attempt)\<lparr>w_locks := (w_locks (snd attempt))(requestLockPath cfg (nq_RequestID n) := None)\<rparr>))"
proof -
  let ?n = "n\<lparr>nq_SignerRole := role\<rparr>" and ?p = "requestLockPath cfg (nq_RequestID n)"
  let ?w1 = "w\<lparr>w_locks := (w_locks w)(?p \<mapsto> env_now env (w_chain w))\<rparr>"
  have lock: "run_state (lockAttempt env cfg ?p) w = (LockHeld, ?w1)"
    using assms(1,3) by (intro lockAttempt_free) (simp_all add: diskOK_def openFor_def)
  have body: "run_state (settleLocked env cfg role preflight broadcast ?n) ?w1 = run_state (attemptTransfer env cfg preflight broadcast ?n) ?w1"
    using assms(3) by (auto simp: settleLocked_def openFor_def readSettlementStoredResult_def split: readResult.splits)
  show thesis
    by (rule that [of ?w1]) (simp_all add: settleRequest_def withRequestLock_def assms(2) lock body Let_def)
qed

lemma settle_refused:
  assumes "diskOK env" and "normalizeSettlementRequest request = Inr n" and "openFor cfg (n\<lparr>nq_SignerRole := role\<rparr>) w"
    and "refusesForNow preflight env cfg n (w_chain w)"
  shows "w_sends (snd (run_state (settle env cfg role request) w)) = w_sends w"
    and "openFor cfg (n\<lparr>nq_SignerRole := role\<rparr>) (snd (run_state (settle env cfg role request) w))"
proof -
  let ?n = "n\<lparr>nq_SignerRole := role\<rparr>"
  obtain w1 where w1: "w_chain w1 = w_chain w" "w_sends w1 = w_sends w"
    "run_state (settle env cfg role request) w = (let attempt = run_state (attemptTransfer env cfg preflight broadcast ?n) w1
       in (fst attempt, (snd attempt)\<lparr>w_locks := (w_locks (snd attempt))(requestLockPath cfg (nq_RequestID n) := None)\<rparr>))"
    using settle_open [OF assms(1-3)] by metis
  obtain a failed c where pre: "run_state (preflight env cfg (nq_AmountUWolo ?n)) (w_chain w1) = ((a, Some failed), c)" "xr_Retryable failed"
    using assms(4) by (auto simp: refusesForNow_def w1 split: prod.splits option.splits)
  let ?r = "requestFields cfg ?n failed"
  obtain b where attempt: "run_state (attemptTransfer env cfg preflight broadcast ?n) w1 = run_state (recordResult env cfg ?n b ?r) (w1\<lparr>w_chain := c\<rparr>)"
    using attempt_refused [of preflight, OF pre(1)] by blast
  have unsettled: "\<not> isSettled ?r"
    using preflight_failure [of env cfg "nq_AmountUWolo n" "w_chain w1" failed] pre by (simp add: isSettled_def requestFields_def)
  have "fst (run_state (recordResult env cfg ?n b ?r) (w1\<lparr>w_chain := c\<rparr>)) = Inr ?r"
    using assms(1) by (simp add: recordResult_result diskOK_def)
  from recordResult_ok [OF this] unsettled sameSettlementRequest_equiv(1)
  show "openFor cfg ?n (snd (run_state (settle env cfg role request) w))"
    by (auto simp: openFor_def w1(3) Let_def attempt readSettlementStoredResult_def split: readResult.splits)
  show "w_sends (snd (run_state (settle env cfg role request) w)) = w_sends w"
    by (simp add: w1 Let_def attempt)
qed

lemma settle_taken:
  assumes "diskOK env" and "normalizeSettlementRequest request = Inr n" and "openFor cfg (n\<lparr>nq_SignerRole := role\<rparr>) w"
    and "takesPayout preflight env cfg (keyName cfg) n (w_chain w)"
    and accepted: "\<And>w a. nodeAccepts env cfg (keyName cfg) n (w_chain w) \<Longrightarrow> xr_OK (fst (run_state (broadcast env cfg (n\<lparr>nq_SignerRole := role\<rparr>) a) w))"
  shows "w_sends (snd (run_state (settle env cfg role request) w)) = w_sends w @ [bankSendArgs cfg (keyName cfg) n]"
    and "\<exists>s. settledAt cfg (nq_RequestID n) s (snd (run_state (settle env cfg role request) w)) \<and> xr_OK (sr_Response s)"
proof -
  let ?n = "n\<lparr>nq_SignerRole := role\<rparr>"
  obtain w1 where w1: "w_chain w1 = w_chain w" "w_sends w1 = w_sends w"
    "run_state (settle env cfg role request) w = (let attempt = run_state (attemptTransfer env cfg preflight broadcast ?n) w1
       in (fst attempt, (snd attempt)\<lparr>w_locks := (w_locks (snd attempt))(requestLockPath cfg (nq_RequestID n) := None)\<rparr>))"
    using settle_open [OF assms(1-3)] by metis
  obtain a c where pre: "run_state (preflight env cfg (nq_AmountUWolo ?n)) (w_chain w1) = ((a, None), c)" "nodeAccepts env cfg (keyName cfg) n c"
    using assms(4) by (auto simp: takesPayout_def w1 split: prod.splits option.splits)
  show "w_sends (snd (run_state (settle env cfg role request) w)) = w_sends w @ [bankSendArgs cfg (keyName cfg) n]"
    by (simp add: w1 Let_def attempt_sent [of preflight, OF pre(1)])
  let ?r = "fst (run_state (broadcast env cfg ?n a) (w1\<lparr>w_chain := c\<rparr>))" and ?w2 = "snd (run_state (broadcast env cfg ?n a) (w1\<lparr>w_chain := c\<rparr>))"
  have "xr_OK ?r" by (rule accepted) (simp add: pre)
  moreover have "fst (run_state (recordResult env cfg ?n a ?r) ?w2) = Inr ?r"
    using assms(1) by (simp add: recordResult_result diskOK_def)
  ultimately show "\<exists>s. settledAt cfg (nq_RequestID n) s (snd (run_state (settle env cfg role request) w)) \<and> xr_OK (sr_Response s)"
    using normalizeSettlementRequest_fields(2) [OF assms(2)] recordResult_ok [of env cfg ?n a ?r ?w2 ?r]
    by (auto simp: settledAt_def isSettled_def w1(3) Let_def attempt_sent [of preflight, OF pre(1)] readSettlementStoredResult_def)
qed

end

section \<open>Calls repeated until the node is back\<close>

definition payoutCalls :: "'c env \<Rightarrow> settlementConfig \<Rightarrow> settlementExecuteRequest \<Rightarrow> 'c list \<Rightarrow> 'c world \<Rightarrow> 'c world" where
  "payoutCalls env cfg request cs w = foldl (\<lambda>w c. snd (run_state (executeSettlement env cfg request) (w\<lparr>w_chain := c\<rparr>))) w cs"

lemma payoutCalls_refused:
  assumes "diskOK env" and "normalizeSettlementRequest request = Inr n" and "\<forall>c \<in> set cs. refusesForNow preflightExecution env cfg n c"
    and "openFor cfg (n\<lparr>nq_SignerRole := settlementSignerRole\<rparr>) w"
  shows "w_sends (payoutCalls env cfg request cs w) = w_sends w \<and>
    openFor cfg (n\<lparr>nq_SignerRole := settlementSignerRole\<rparr>) (payoutCalls env cfg request cs w)"
  using assms(3,4)
proof (induction cs arbitrary: w)
  case (Cons c cs)
  let ?w1 = "snd (run_state (executeSettlement env cfg request) (w\<lparr>w_chain := c\<rparr>))"
  have "openFor cfg (n\<lparr>nq_SignerRole := settlementSignerRole\<rparr>) (w\<lparr>w_chain := c\<rparr>)"
    using Cons.prems(2) by (simp add: openFor_def readSettlementStoredResult_def)
  with Cons.prems payout_rail.settle_refused [OF assms(1,2), of cfg settlementSignerRole "w\<lparr>w_chain := c\<rparr>"]
  have "w_sends ?w1 = w_sends w" "openFor cfg (n\<lparr>nq_SignerRole := settlementSignerRole\<rparr>) ?w1" by (simp_all add: executeSettlement_def)
  with Cons.IH [of ?w1] Cons.prems(1) show ?case by (simp add: payoutCalls_def)
qed (simp add: payoutCalls_def)

text \<open>
  C10. An outage of the node delays a payout and does not lose or double it.  A payout for a new request id is called
  any number of times while the node's RPC endpoint does not tell its chain id, and then once in a state in which the outside reports
  for the payout signer a balance that covers the amount together with the larger reserve, and after these queries the node accepts the transfer.
  If records can be written, exactly one transfer has been issued after these
  calls, that of the request, and the record of the id is a success.
\<close>

theorem payout_survives_outage:
  assumes "diskOK env" and "normalizeSettlementRequest request = Inr n"
    and "w_files w (requestRecordPath cfg (nq_RequestID n)) = None" and "w_locks w (requestLockPath cfg (nq_RequestID n)) = None"
    and "\<forall>c \<in> set outage. \<exists>err. fst (run_state (fetchRuntimeChainID env cfg) c) = Inl err"
    and "cfg_PayoutKeyName cfg \<noteq> []" and "escrowAddressOK cfg"
    and "fst (run_state (signerBalance env cfg (resolvePayoutAddress env cfg)) c) = Some (signer, balance)" and "signer \<noteq> []"
    and "ParseUint (TrimSpace (nq_AmountUWolo n)) = Inr amount"
    and "unat amount + max (unat (cfg_FeeHeadroomUWolo cfg)) (unat (cfg_MinPayoutBalanceUWolo cfg)) \<le> unat balance"
    and "nodeAccepts env cfg (cfg_PayoutKeyName cfg) n (snd (run_state (buildHealthReport env cfg) c))"
  shows "w_sends (payoutCalls env cfg request (outage @ [c]) w) = w_sends w @ [bankSendArgs cfg (cfg_PayoutKeyName cfg) n] \<and>
    (\<exists>s. settledAt cfg (nq_RequestID n) s (payoutCalls env cfg request (outage @ [c]) w) \<and> xr_OK (sr_Response s))"
proof -
  let ?n = "n\<lparr>nq_SignerRole := settlementSignerRole\<rparr>" and ?w1 = "payoutCalls env cfg request outage w"
  have refuses: "\<forall>c \<in> set outage. refusesForNow preflightExecution env cfg n c" using assms(5) by (auto intro: unreachable_refuses)
  have "fst (run_state (preflightExecution env cfg (nq_AmountUWolo n)) c) = (signer, None)"
    unfolding preflightExecution_passes coversAmount_def using assms(6-11) by simp
  then have takes: "takesPayout preflightExecution env cfg (cfg_PayoutKeyName cfg) n c"
    using assms(12) by (simp add: takesPayout_def preflightExecution_def case_prod_beta)
  have "openFor cfg ?n w" using assms(3,4) by (simp add: openFor_def readSettlementStoredResult_def readStateFile_def)
  then have w1: "w_sends ?w1 = w_sends w" "openFor cfg ?n ?w1" using payoutCalls_refused [OF assms(1,2) refuses] by simp_all
  then have "openFor cfg ?n (?w1\<lparr>w_chain := c\<rparr>)" by (simp add: openFor_def readSettlementStoredResult_def)
  moreover have "xr_OK (fst (run_state (broadcastPayout env cfg ?n a) v))" if "nodeAccepts env cfg (cfg_PayoutKeyName cfg) n (w_chain v)" for a v
    using that accepted_ok [of env cfg "cfg_PayoutKeyName cfg" ?n v] by (simp add: broadcastPayout_def nodeAccepts_def)
  ultimately show ?thesis
    using payout_rail.settle_taken [OF assms(1,2), of cfg settlementSignerRole "?w1\<lparr>w_chain := c\<rparr>"] takes w1(1)
    by (simp add: payoutCalls_def executeSettlement_def)
qed

text \<open>The node of the sample chain is down at time 5 and back at time 7.\<close>

lemma sample_back: "nodeAccepts (sampleEnv (\<lambda>t. t = 5) (\<lambda>t path. None)) sampleCfg ''payer'' sampleNormalized 7"
proof -
  have [simp]: "extractJSONPayload ''{}'' = ''{}''" by (simp add: extractJSONPayload_def go_eval)
  have send: "env_txBankSend (sampleEnv (\<lambda>t. t = 5) (\<lambda>t path. None)) = (\<lambda>args. do { t \<leftarrow> State_Monad.get; State_Monad.set (t + 1); State_Monad.return (''{}'', None) })"
    "env_decodeBroadcast (sampleEnv (\<lambda>t. t = 5) (\<lambda>t path. None)) = (\<lambda>payload. Some (zero_bankSendBroadcastResponse\<lparr>bb_TxHash := ''AB12''\<rparr>))"
    by (simp_all add: sampleEnv_def)
  show ?thesis
    using sample_confirmed [of "\<lambda>t. t = 5" 8 "\<lambda>t path. None"] sample_lookup(4) [of "\<lambda>t. t = 5" 8 "\<lambda>t path. None"]
    by (simp add: nodeAccepts_def send)
qed

theorem payout_survives_outage_witness:
  "w_sends (payoutCalls (sampleEnv (\<lambda>t. t = 5) (\<lambda>t path. None)) sampleCfg sampleRequest [5, 5, 7] (emptyWorld 0)) =
     [bankSendArgs sampleCfg ''payer'' sampleNormalized]"
proof -
  let ?env = "sampleEnv (\<lambda>t. t = 5) (\<lambda>t path. None)"
  have "diskOK ?env" "escrowAddressOK sampleCfg" "ParseUint (TrimSpace ''500'') = Inr 500"
    by (simp_all add: diskOK_def escrowAddressOK_def isWoloAddress_def go_eval)
  then show ?thesis
    using payout_survives_outage [of ?env sampleRequest sampleNormalized "emptyWorld 0" sampleCfg "[5, 5]" 7 "''wolo1payer''" 1000000 500]
      sample_back sample_health(1) [of "\<lambda>t. t = 5" 7 "\<lambda>t path. None"]
    by (simp add: sampleCfg_reserves)
qed

section \<open>A REST outage\<close>

text \<open>
  When the node answers but the REST endpoint does not, or disagrees with the configuration, the refusal \<open>REST_DRIFT\<close> is not to be
  retried: it is recorded as the outcome of the request, and no later sequence of calls sends anything for its id.
\<close>

theorem rest_outage_loses_payout:
  assumes "diskOK env" and "normalizeSettlementRequest request = Inr n"
    and "w_files w (requestRecordPath cfg (nq_RequestID n)) = None" and "w_locks w (requestLockPath cfg (nq_RequestID n)) = None"
    and "run_state (fetchRuntimeChainID env cfg) (w_chain w) = (Inr (cfg_ChainID cfg), c1)"
    and "fst (run_state (validateRESTInvariants env cfg) c1) = Some err"
  shows "filter (sentFor (nq_RequestID n)) (serveCalls env' cfg calls (snd (run_state (executeSettlement env cfg request) w))) = []"
proof -
  let ?n = "n\<lparr>nq_SignerRole := settlementSignerRole\<rparr>"
  have "openFor cfg ?n w" using assms(3,4) by (simp add: openFor_def readSettlementStoredResult_def readStateFile_def)
  then obtain w1 where w1: "w_chain w1 = w_chain w"
    "run_state (executeSettlement env cfg request) w = (let attempt = run_state (attemptTransfer env cfg preflightExecution broadcastPayout ?n) w1
       in (fst attempt, (snd attempt)\<lparr>w_locks := (w_locks (snd attempt))(requestLockPath cfg (nq_RequestID n) := None)\<rparr>))"
    using payout_rail.settle_open [OF assms(1,2)] by (metis executeSettlement_def)
  obtain failed c where pre: "run_state (preflightExecution env cfg (nq_AmountUWolo ?n)) (w_chain w1) = (([], Some failed), c)" "\<not> xr_Retryable failed"
    using buildHealthReport_drift [OF assms(5,6)] by (simp add: preflightExecution_def w1(1))
  let ?r = "requestFields cfg ?n failed"
  have attempt: "run_state (attemptTransfer env cfg preflightExecution broadcastPayout ?n) w1 =
      run_state (recordResult env cfg ?n (xr_SignerAddress failed) ?r) (w1\<lparr>w_chain := c\<rparr>)"
    using attempt_refused [of preflightExecution, OF pre(1)] by simp
  have "fst (run_state (recordResult env cfg ?n (xr_SignerAddress failed) ?r) (w1\<lparr>w_chain := c\<rparr>)) = Inr ?r"
    using assms(1) by (simp add: recordResult_result diskOK_def)
  from recordResult_ok [OF this] pre(2) normalizeSettlementRequest_fields(2) [OF assms(2)]
  obtain s where "settledAt cfg (nq_RequestID n) s (snd (run_state (executeSettlement env cfg request) w))"
    by (auto simp: settledAt_def w1(2) Let_def attempt readSettlementStoredResult_def isSettled_def requestFields_def)
  then show ?thesis by (rule serve_settled)
qed

end
