(* ===== verification/Run_Settled.thy ===== *)
theory Run_Settled
  imports Run_Properties
begin

text \<open>
  From the answer of a run to the records of its lines: a rail whose answers say \<open>confirmed\<close> or
  \<open>accepted\<close> only for a transfer that is on record (locale \<open>executing_rail\<close>, which extends the contract of
  a transfer rail and is interpreted for the payout and for the escrow signer), and what follows for a
  run that reports success.
\<close>

subsection \<open>Executed transfers are on record\<close>

abbreviation executedStatus :: "string \<Rightarrow> bool" where
  "executedStatus status \<equiv> status = ''confirmed'' \<or> status = ''accepted''"

text \<open>The record that backs an executed transfer: settled, for the same payload, with that status.\<close>

definition backedBy :: "settlementConfig \<Rightarrow> string \<Rightarrow> normalizedSettlementRequest \<Rightarrow> 'c world \<Rightarrow> bool" where
  "backedBy cfg role n w \<longleftrightarrow> (\<exists>s. settledAt cfg (nq_RequestID n) s w \<and>
     sameSettlementRequest (sr_Request s) (n\<lparr>nq_SignerRole := role\<rparr>) \<and> executedStatus (xr_Status (sr_Response s)))"

text \<open>Two states with the same settled records.\<close>

definition sameSettled :: "settlementConfig \<Rightarrow> 'c world \<Rightarrow> 'c world \<Rightarrow> bool" where
  "sameSettled cfg w w' \<longleftrightarrow> (\<forall>rid s. settledAt cfg rid s w = settledAt cfg rid s w')"

lemma sameSettled_files: "w_files w = w_files w' \<Longrightarrow> sameSettled cfg w w'"
  by (simp add: sameSettled_def settledAt_cong [of w w'])

lemma sameSettled_recordRun:
  "settlementRequestIDPattern runID \<Longrightarrow> sameSettled cfg (snd (run_state (recordRun env cfg runID n f r) w)) w"
  by (auto simp: sameSettled_def settledAt_def readSettlementStoredResult_def)

lemma backedBy_cong: "sameSettled cfg w w' \<Longrightarrow> backedBy cfg role n w = backedBy cfg role n w'"
  by (simp add: backedBy_def sameSettled_def)

lemma settle_held:
  assumes "fst (run_state (settleRequest env cfg role preflight broadcast request) w) = Inr r" and "xr_Status r \<noteq> ''failed''"
  shows "\<exists>n w1. normalizeSettlementRequest request = Inr n \<and>
    fst (run_state (settleLocked env cfg role preflight broadcast (n\<lparr>nq_SignerRole := role\<rparr>)) w1) = Inr r \<and>
    w_files (snd (run_state (settleRequest env cfg role preflight broadcast request) w)) =
      w_files (snd (run_state (settleLocked env cfg role preflight broadcast (n\<lparr>nq_SignerRole := role\<rparr>)) w1))"
proof (cases "normalizeSettlementRequest request")
  case (Inl e)
  with assms show ?thesis by (auto simp: settleRequest_def invalidRequestResponse_def)
next
  case (Inr n)
  let ?lock = "run_state (lockAttempt env cfg (requestLockPath cfg (nq_RequestID n))) w"
  have "fst ?lock = LockHeld"
    using assms Inr by (cases "fst ?lock") (auto simp: settleRequest_def withRequestLock_def Let_def)
  with assms(1) Inr show ?thesis
    by (intro exI [of _ n] exI [of _ "snd ?lock"]) (simp add: settleRequest_def withRequestLock_def Let_def)
qed

locale executing_rail = transfer_rail +
  assumes broadcast_status: "executedStatus (xr_Status (fst (run_state (broadcast env cfg n a) w))) \<Longrightarrow>
      xr_OK (fst (run_state (broadcast env cfg n a) w))"
    and preflight_status: "snd (fst (run_state (preflight env cfg amt) c)) = Some r \<Longrightarrow> xr_Status r = ''failed''"
begin

lemma attempt_executed:
  assumes "fst (run_state (attemptTransfer env cfg preflight broadcast n) w) = Inr r" and "executedStatus (xr_Status r)"
  shows "xr_OK r"
  using assms broadcast_status preflight_status [of env cfg "nq_AmountUWolo n" "w_chain w"]
  by (cases rule: attempt_cases [of preflight env cfg n w])
    (auto simp: attempt_refused attempt_sent requestFields_def dest!: recordResult_ok)

lemma locked_executed:
  assumes "fst (run_state (settleLocked env cfg role preflight broadcast (n\<lparr>nq_SignerRole := role\<rparr>)) w) = Inr r"
    and "executedStatus (xr_Status r)" and "settlementRequestIDPattern (nq_RequestID n)"
  shows "backedBy cfg role n (snd (run_state (settleLocked env cfg role preflight broadcast (n\<lparr>nq_SignerRole := role\<rparr>)) w))"
proof (cases "run_state (settleLocked env cfg role preflight broadcast (n\<lparr>nq_SignerRole := role\<rparr>)) w =
    run_state (attemptTransfer env cfg preflight broadcast (n\<lparr>nq_SignerRole := role\<rparr>)) w")
  case True
  then have r: "fst (run_state (attemptTransfer env cfg preflight broadcast (n\<lparr>nq_SignerRole := role\<rparr>)) w) = Inr r"
    using assms(1) by simp
  have "xr_OK r" by (rule attempt_executed [OF r assms(2)])
  with attempt_recorded [OF r] assms(2,3) show ?thesis
    unfolding True backedBy_def by (auto simp: settledAt_def isSettled_def sameSettlementRequest_def)
next
  case False
  then obtain s where "readSettlementStoredResult (requestRecordPath cfg (nq_RequestID n)) w = ReadOK s"
      "sameSettlementRequest (sr_Request s) (n\<lparr>nq_SignerRole := role\<rparr>)" "isSettled (sr_Response s)"
      "run_state (settleLocked env cfg role preflight broadcast (n\<lparr>nq_SignerRole := role\<rparr>)) w =
         (Inr ((sr_Response s)\<lparr>xr_IdempotentReplay := True\<rparr>), w)"
    using assms by (auto simp: settleLocked_def conflictResponse_def stateFileResponse_def requestFields_def refusal_def
        split: readResult.splits if_splits)
  with assms show ?thesis unfolding backedBy_def by (auto simp: settledAt_def)
qed

lemma settle_executed:
  assumes "fst (run_state (settle env cfg role request) w) = Inr r" and "executedStatus (xr_Status r)"
  shows "\<exists>n. normalizeSettlementRequest request = Inr n \<and> backedBy cfg role n (snd (run_state (settle env cfg role request) w))"
proof -
  have "xr_Status r \<noteq> ''failed''" using assms(2) by auto
  from settle_held [OF assms(1) this] obtain n w1 where n: "normalizeSettlementRequest request = Inr n"
    and locked: "fst (run_state (settleLocked env cfg role preflight broadcast (n\<lparr>nq_SignerRole := role\<rparr>)) w1) = Inr r"
    and files: "w_files (snd (run_state (settle env cfg role request) w)) =
      w_files (snd (run_state (settleLocked env cfg role preflight broadcast (n\<lparr>nq_SignerRole := role\<rparr>)) w1))"
    by blast
  with locked_executed [OF locked assms(2)] normalizeSettlementRequest_fields(2) [OF n] show ?thesis
    by (auto simp: backedBy_cong [OF sameSettled_files [OF files]] normalizeSettlementRequest_fields(2))
qed

end

lemma broadcastTransfer_status:
  "executedStatus (xr_Status (fst (run_state (broadcastTransfer env cfg role keyName what n a) w))) \<Longrightarrow>
     xr_OK (fst (run_state (broadcastTransfer env cfg role keyName what n a) w))"
  by (auto simp: broadcastTransfer_def case_prod_beta Let_def confirmedResponse_def failedBroadcast_def withBroadcast_def
      withTxURLs_def broadcastBase_def split: option.splits if_splits sum.splits)

lemma preflightExecution_status:
  "snd (fst (run_state (preflightExecution env cfg amt) c)) = Some r \<Longrightarrow> xr_Status r = ''failed''"
  by (auto simp: preflightExecution_def Let_def split: sum.splits if_splits prod.splits)

lemma preflightEscrowTransfer_status:
  "snd (fst (run_state (preflightEscrowTransfer env cfg amt) c)) = Some r \<Longrightarrow> xr_Status r = ''failed''"
  by (auto simp: preflightEscrowTransfer_def preflightEscrowSigner_def Let_def case_prod_beta split: sum.splits option.splits if_splits)

interpretation payout_execution: executing_rail preflightExecution broadcastPayout cfg_PayoutKeyName
  by unfold_locales (simp_all add: broadcastPayout_def broadcastTransfer_status preflightExecution_status)

interpretation escrow_execution: executing_rail preflightEscrowTransfer broadcastEscrowTransfer cfg_EscrowKeyName
  by unfold_locales (simp_all add: broadcastEscrowTransfer_def broadcastTransfer_status preflightEscrowTransfer_status)

subsection \<open>The lines of a run\<close>

text \<open>The role under which a line is executed.\<close>

definition lineRole :: "string \<Rightarrow> string" where
  "lineRole role = (if role = settlementEscrowSignerRole then settlementEscrowSignerRole else settlementSignerRole)"

definition lineBackedBy :: "settlementConfig \<Rightarrow> string \<Rightarrow> normalizedSettlementPayout \<Rightarrow> 'c world \<Rightarrow> bool" where
  "lineBackedBy cfg role p w \<longleftrightarrow>
     (\<exists>n. normalizeSettlementRequest (itemRequest p) = Inr n \<and> backedBy cfg (lineRole role) n w)"

lemma lineBackedBy_cong: "sameSettled cfg w w' \<Longrightarrow> lineBackedBy cfg role p w = lineBackedBy cfg role p w'"
  using backedBy_cong by (fastforce simp: lineBackedBy_def)

lemma line_executed:
  assumes "fst (run_state (executeLine env cfg role p) w) = Inr r" and "executedStatus (xr_Status r)"
  shows "lineBackedBy cfg role p (snd (run_state (executeLine env cfg role p) w))"
  using assms payout_execution.settle_executed [of env cfg settlementSignerRole "itemRequest p" w r]
    escrow_execution.settle_executed [of env cfg settlementEscrowSignerRole "itemRequest p" w r]
  by (cases "role = settlementEscrowSignerRole")
    (simp_all add: executeLine_def executeSettlement_def executeEscrowTransfer_def lineBackedBy_def lineRole_def)

lemma line_keeps: "lineBackedBy cfg role p w \<Longrightarrow> lineBackedBy cfg role p (snd (run_state (executeLine env cfg role' q) w))"
  unfolding lineBackedBy_def backedBy_def using line_settled by blast

lemma items_keep: "lineBackedBy cfg role p w \<Longrightarrow> lineBackedBy cfg role p (snd (run_state (executeRunItems env cfg role' ps) w))"
proof (induction ps arbitrary: w)
  case (Cons q ps)
  obtain r w1 where line: "run_state (executeLine env cfg role' q) w = (r, w1)"
    by (cases "run_state (executeLine env cfg role' q) w")
  have "lineBackedBy cfg role p w1"
    using line_keeps [OF Cons.prems, of env role' q] by (simp add: line)
  then show ?case
    using Cons.IH [of w1] by (cases r) (simp_all add: executeRunItems_Cons line)
qed simp

lemma items_executed:
  assumes "fst (run_state (executeRunItems env cfg role ps) w) = Inr results"
  shows "length results = length ps \<and>
    (\<forall>i < length ps. isExecuted (results ! i) \<longrightarrow>
       lineBackedBy cfg role (ps ! i) (snd (run_state (executeRunItems env cfg role ps) w)))"
  using assms
proof (induction ps arbitrary: w results)
  case Nil
  then show ?case by simp
next
  case (Cons p ps)
  then obtain r w1 rest where line: "run_state (executeLine env cfg role p) w = (Inr r, w1)"
    and rest: "fst (run_state (executeRunItems env cfg role ps) w1) = Inr rest"
    and results: "results = settlementRunPayoutResultFromExecuteResponse p r # rest"
    by (auto simp: executeRunItems_Cons split: prod.splits sum.splits)
  have final: "snd (run_state (executeRunItems env cfg role (p # ps)) w) = snd (run_state (executeRunItems env cfg role ps) w1)"
    by (simp add: executeRunItems_Cons line)
  have "lineBackedBy cfg role p w1" if "isExecuted (settlementRunPayoutResultFromExecuteResponse p r)"
    using that line_executed [of env cfg role p w r]
    by (auto simp: line isExecuted_def settlementRunPayoutResultFromExecuteResponse_def)
  then show ?case
    using Cons.IH [OF rest] items_keep [of cfg role p w1 env role ps]
    unfolding final results by (auto simp: nth_Cons split: nat.splits)
qed

subsection \<open>The whole run\<close>

lemma plan_count [simp]:
  "rr_RequestedPayoutCount (fst (run_state (buildPayoutSettlementRunPlan env cfg r t) c)) = rr_RequestedPayoutCount r"
  "rr_RequestedPayoutCount (fst (run_state (buildEscrowSettlementRunPlan env cfg r t) c)) = rr_RequestedPayoutCount r"
  by (simp_all add: buildPayoutSettlementRunPlan_def buildEscrowSettlementRunPlan_def failRun_def case_prod_beta Let_def
      split: sum.splits option.splits)

lemma finalize_count [simp]:
  "rr_RequestedPayoutCount (finalizeSettlementRunResponse r) =
     (if rr_RequestedPayoutCount r = 0 then length (rr_Payouts r) else rr_RequestedPayoutCount r)"
  by (simp add: finalizeSettlementRunResponse_def case_prod_beta Let_def countPayouts_frame)

text \<open>A plan that is \<open>ok\<close> counts the lines of a valid request with at least one line.\<close>

lemma ok_plan:
  assumes "rr_OK (planOf env cfg request c)"
  shows "runValidationErrors request = []" and "rr_RequestedPayoutCount (planOf env cfg request c) = length (rq_Payouts request)"
    and "0 < length (rq_Payouts request)"
proof -
  show valid: "runValidationErrors request = []"
    using assms invalid_plan(2) [of request env cfg c] by auto
  have ready: "runResponseHasReadyPayouts (snd (prepareSettlementRunRequest request))"
    using assms prepared_status [of request]
    by (auto simp: buildSettlementRunPlan_def case_prod_beta Let_def finalize_keeps runResponseHasReadyPayouts_def split: if_splits)
  then have "''ready'' \<in> set (map pr_Outcome (sc_results (runScanOf request)))"
    unfolding ready_iff prepare_valid(6) [OF valid] .
  then have "sc_results (runScanOf request) \<noteq> []" by auto
  then show pos: "0 < length (rq_Payouts request)"
    using runScanOf_inv [of request] by (auto simp: scanInv_def)
  show "rr_RequestedPayoutCount (planOf env cfg request c) = length (rq_Payouts request)"
    using assms pos prepare_valid(7) [OF valid] prepared_status [of request]
    by (auto simp: buildSettlementRunPlan_def case_prod_beta Let_def finalize_keeps split: if_splits sum.splits)
qed

lemma recordRun_result: "fst (run_state (recordRun env cfg runID n f response) w) = Inr r \<Longrightarrow> r = response"
  by (auto simp: recordRun_def split: option.splits)

lemma plannedRun_ok:
  assumes "fst (run_state (executePlannedRun env cfg runID n f response) w) = Inr r" and "rr_OK r"
  shows "\<exists>items. rr_OK response \<and> fst (run_state (executeRunItems env cfg (nr_SignerRole n) (nr_Payouts n)) w) = Inr items \<and>
    rr_OK (executedRun response items) \<and>
    (settlementRequestIDPattern runID \<longrightarrow> sameSettled cfg (snd (run_state (executePlannedRun env cfg runID n f response) w))
      (snd (run_state (executeRunItems env cfg (nr_SignerRole n) (nr_Payouts n)) w)))"
  using assms sameSettled_recordRun
  by (auto simp: executePlannedRun_def Let_def split: if_splits sum.splits dest!: recordRun_result)

lemma runUnderLock_ok:
  assumes "fst (run_state (runUnderLock env cfg request runID n validation) w) = Inr r" and "rr_OK r" and "\<not> rr_IdempotentReplay r"
  shows "run_state (runUnderLock env cfg request runID n validation) w =
    run_state (executePlannedRun env cfg runID n (env_hashRun env n) (validation\<lparr>rr_DryRun := False\<rparr>)) w"
  using assms by (auto simp: runUnderLock_run runRefusal_def Let_def split: readResult.splits if_splits)

lemma countPayouts_replay: "rr_IdempotentReplay (fst (countPayouts ps acc)) = rr_IdempotentReplay (fst acc)"
  by (induction ps arbitrary: acc) (simp_all add: countLine count_defs case_prod_beta)

lemma finalize_replay [simp]: "rr_IdempotentReplay (finalizeSettlementRunResponse r) = rr_IdempotentReplay r"
  by (simp add: finalizeSettlementRunResponse_def withRunTotals_def withRequested_def case_prod_beta Let_def countPayouts_replay)

lemma valid_runID: "runValidationErrors request = [] \<Longrightarrow> settlementRequestIDPattern (TrimSpace (rq_SettlementRunID request))"
  by (auto simp: runValidationErrors_def validateSettlementRunID_def optionList_def split: if_splits option.splits)

lemma valid_run8: "plainID ''run-8''"
  by (simp add: plainID_def)

text \<open>A run of the one sample line, on an empty disk, reports success.\<close>

lemma sampleRun_lines:
  "nr_Payouts (prepared (sampleRun [sampleLine ''req-1'' ''wolo1abc'' ''500''])) =
     [\<lparr>np_Index = 0, np_RequestID = ''req-1'', np_ToAddress = ''wolo1abc'', np_AmountUWolo = ''500'', np_Memo = []\<rparr>]"
  "nr_SignerRole (prepared (sampleRun [sampleLine ''req-1'' ''wolo1abc'' ''500''])) = settlementSignerRole"
  "rr_OK (planOf (sampleEnv (\<lambda>t. False) io) sampleCfg (sampleRun [sampleLine ''req-1'' ''wolo1abc'' ''500'']) c)"
proof -
  let ?run = "sampleRun [sampleLine ''req-1'' ''wolo1abc'' ''500'']"
  have num: "ParseUint ''500'' = Inr 500" by (simp add: go_eval)
  note valid = sampleRun_valid [of "[sampleLine ''req-1'' ''wolo1abc'' ''500'']"]
  have memo: "cutAt 180 (TrimSpace (rq_Memo ?run)) = []" by (simp add: sampleRun_def)
  have scan: "sc_totalRequested (runScanOf ?run) = 500"
    "sc_payouts (runScanOf ?run) = [\<lparr>np_Index = 0, np_RequestID = ''req-1'', np_ToAddress = ''wolo1abc'', np_AmountUWolo = ''500'', np_Memo = []\<rparr>]"
    unfolding runScanOf_def memo
    by (simp_all add: valid scan_valid_line [OF sampleIDs(1,3,4) num] zero_runScan_def)
  show "rr_OK (planOf (sampleEnv (\<lambda>t. False) io) sampleCfg ?run c)"
    by (rule samplePlan) (use valid scan in simp_all)
  show "nr_Payouts (prepared ?run) = [\<lparr>np_Index = 0, np_RequestID = ''req-1'', np_ToAddress = ''wolo1abc'', np_AmountUWolo = ''500'', np_Memo = []\<rparr>]"
    "nr_SignerRole (prepared ?run) = settlementSignerRole"
    using prepare_valid(1,3) [of ?run] valid(1,2) scan by (simp_all add: normalizeSettlementRunSignerRole_def)
qed

lemma sampleLine_request:
  "itemRequest \<lparr>np_Index = 0, np_RequestID = ''req-1'', np_ToAddress = ''wolo1abc'', np_AmountUWolo = ''500'', np_Memo = []\<rparr> = sampleRequest"
  by (simp add: itemRequest_def sampleRequest_def zero_settlementExecuteRequest_def)

lemma sampleRun_ok:
  "\<exists>r w'. run_state (executeSettlementRun (sampleEnv (\<lambda>t. False) (\<lambda>t path. None)) sampleCfg
      (sampleRun [sampleLine ''req-1'' ''wolo1abc'' ''500''])) (emptyWorld 0) = (Inr r, w') \<and> rr_OK r \<and> \<not> rr_IdempotentReplay r"
proof -
  let ?run = "sampleRun [sampleLine ''req-1'' ''wolo1abc'' ''500'']" and ?env = "sampleEnv (\<lambda>t. False) (\<lambda>t path. None)"
  let ?v = "(planOf ?env sampleCfg ?run 0)\<lparr>rr_DryRun := False\<rparr>" and ?t = "snd (run_state (buildSettlementRunPlan ?env sampleCfg ?run) 0)"
  let ?p = "\<lparr>np_Index = 0, np_RequestID = ''req-1'', np_ToAddress = ''wolo1abc'', np_AmountUWolo = ''500'', np_Memo = []\<rparr>"
  define w1 where "w1 = (emptyWorld 0)\<lparr>w_chain := ?t, w_locks := [runLockPath sampleCfg ''run-8'' \<mapsto> ?t]\<rparr>"
  have rid: "TrimSpace (rq_SettlementRunID ?run) = ''run-8''" "TrimSpace ''run-8'' = ''run-8''" by (simp_all add: sampleRun_def go_eval)
  have "w_locks w1 (requestLockPath sampleCfg ''req-1'') = None" "w_files w1 (requestRecordPath sampleCfg ''req-1'') = None"
    by (simp_all add: w1_def valid_run8)
  from sample_execute(2) [OF this] obtain r where "fst (run_state (executeSettlement ?env sampleCfg sampleRequest) w1) = Inr r"
    and r: "xr_OK r" "xr_Status r = ''confirmed''" "xr_AmountUWolo r = ''500''" by blast
  then obtain w2 where line: "run_state (executeLine ?env sampleCfg settlementSignerRole ?p) w1 = (Inr r, w2)"
    by (cases "run_state (executeSettlement ?env sampleCfg sampleRequest) w1")
      (simp add: executeLine_def sampleLine_request settlementSignerRole_def settlementEscrowSignerRole_def)
  let ?item = "settlementRunPayoutResultFromExecuteResponse ?p r"
  have items: "run_state (executeRunItems ?env sampleCfg settlementSignerRole [?p]) w1 = (Inr [?item], w2)"
    by (simp add: executeRunItems_Cons line)
  have "counted ?item" "isExecuted ?item" "pr_Status ?item = ''confirmed''"
    using r by (simp_all add: counted_def isExecuted_def settlementRunPayoutResultFromExecuteResponse_def parseOptionalUWoloString_def go_eval)
  then have ok: "rr_OK (executedRun ?v [?item])"
    unfolding executedRun_ok executedRun_counts using ok_plan(2) [OF sampleRun_lines(3)] by (simp add: sampleRun_def)
  define x where "x = executedRun ?v [?item]"
  have exec: "fst (run_state (executePlannedRun ?env sampleCfg ''run-8'' (prepared ?run) (env_hashRun ?env (prepared ?run)) ?v) w1) =
      Inr (x\<lparr>rr_Detail := settlementRunExecutionDetail x\<rparr>)"
    using sampleRun_lines(3) unfolding executePlannedRun_def x_def
    by (simp add: sampleRun_lines(1,2) items Let_def recordRun_def writeSettlementRunStoredResult_def)
  have "w_files w1 (runRecordPath sampleCfg ''run-8'') = None" by (simp add: w1_def)
  with exec have body: "fst (run_state (runUnderLock ?env sampleCfg ?run ''run-8'' (prepared ?run) ?v) w1) =
      Inr (x\<lparr>rr_Detail := settlementRunExecutionDetail x\<rparr>)"
    by (simp add: runUnderLock_run readSettlementRunStoredResult_def readStateFile_def Let_def)
  have "fst (run_state (executeSettlementRun ?env sampleCfg ?run) (emptyWorld 0)) = Inr (x\<lparr>rr_Detail := settlementRunExecutionDetail x\<rparr>)"
    using body unfolding w1_def
    by (simp add: executeSettlementRun_def case_prod_beta Let_def rid withRunLock_free [OF _ _ refl] emptyWorld_def)
  moreover have "rr_OK x" "\<not> rr_IdempotentReplay x" using ok by (simp_all add: x_def resetRunCounters_def)
  ultimately show ?thesis by (cases "run_state (executeSettlementRun ?env sampleCfg ?run) (emptyWorld 0)") simp
qed

text \<open>
  C19. A run that reports success has settled every requested line.  When a call of
  \<open>executeSettlementRun\<close> answers \<open>ok\<close> and does not replay an earlier answer, no requested line was dropped
  in the preparation, and each line has a settled record of its payload and signer role whose status is
  \<open>confirmed\<close> or \<open>accepted\<close>.
\<close>

theorem ok_run_settled_every_line:
  assumes run: "run_state (executeSettlementRun env cfg request) w = (Inr r, w')"
    and ok: "rr_OK r" and fresh: "\<not> rr_IdempotentReplay r" and rid: "TrimSpace (rq_SettlementRunID request) \<noteq> []"
  shows "length (nr_Payouts (prepared request)) = length (rq_Payouts request) \<and>
    (\<forall>p \<in> set (nr_Payouts (prepared request)). lineBackedBy cfg (nr_SignerRole (prepared request)) p w')"
proof (cases rule: run_cases [of env cfg request w])
  case (unlocked v)
  then show ?thesis using run ok rid by simp
next
  case (held w1 locks)
  let ?rid = "TrimSpace (rq_SettlementRunID request)" and ?n = "prepared request"
  let ?v = "(planOf env cfg request (w_chain w))\<lparr>rr_DryRun := False\<rparr>"
  let ?body = "run_state (runUnderLock env cfg request ?rid ?n ?v) w1"
  let ?exec = "run_state (executePlannedRun env cfg ?rid ?n (env_hashRun env ?n) ?v) w1"
  let ?items = "run_state (executeRunItems env cfg (nr_SignerRole ?n) (nr_Payouts ?n)) w1"
  have body: "fst ?body = Inr r" and w': "w_files w' = w_files (snd ?body)"
    using run held(4) by (auto simp: Let_def)
  have exec: "?body = ?exec" using runUnderLock_ok [OF body ok fresh] by simp
  obtain items where plan: "rr_OK ?v" and items: "fst ?items = Inr items" and fin: "rr_OK (executedRun ?v items)"
    and files: "settlementRequestIDPattern ?rid \<Longrightarrow> sameSettled cfg (snd ?exec) (snd ?items)"
    using plannedRun_ok [of env cfg ?rid ?n "env_hashRun env ?n" ?v w1 r] body ok unfolding exec by blast
  have "settlementRequestIDPattern ?rid" using plan ok_plan(1) [of env cfg request "w_chain w"] valid_runID by simp
  with files sameSettled_files [OF w'] have same: "sameSettled cfg w' (snd ?items)"
    by (simp add: exec sameSettled_def)
  note count = ok_plan(2,3) [of env cfg request "w_chain w"] and lines = items_executed [OF items]
  have "length items = length (rq_Payouts request) \<and> (\<forall>p \<in> set items. isExecuted p)"
    using ok_run_paid_every_line [OF fin] plan count lines prepared_lines(4) [of request] by simp
  with lines have len: "length (nr_Payouts ?n) = length (rq_Payouts request)"
    and executed: "\<And>i. i < length (nr_Payouts ?n) \<Longrightarrow> isExecuted (items ! i)" by simp_all
  with lines have "lineBackedBy cfg (nr_SignerRole ?n) (nr_Payouts ?n ! i) w'" if "i < length (nr_Payouts ?n)" for i
    using that unfolding lineBackedBy_cong [OF same] by blast
  with len show ?thesis by (auto simp: in_set_conv_nth)
qed

theorem ok_run_settled_every_line_witness:
  "\<exists>w'. snd (run_state (executeSettlementRun (sampleEnv (\<lambda>t. False) (\<lambda>t path. None)) sampleCfg
       (sampleRun [sampleLine ''req-1'' ''wolo1abc'' ''500''])) (emptyWorld 0)) = w' \<and>
     backedBy sampleCfg settlementSignerRole sampleNormalized w'"
proof -
  obtain r w' where run: "run_state (executeSettlementRun (sampleEnv (\<lambda>t. False) (\<lambda>t path. None)) sampleCfg
      (sampleRun [sampleLine ''req-1'' ''wolo1abc'' ''500''])) (emptyWorld 0) = (Inr r, w')" "rr_OK r" "\<not> rr_IdempotentReplay r"
    using sampleRun_ok by blast
  have "TrimSpace (rq_SettlementRunID (sampleRun [sampleLine ''req-1'' ''wolo1abc'' ''500''])) \<noteq> []"
    by (simp add: sampleRun_def go_eval)
  from ok_run_settled_every_line [OF run this] run(1) show ?thesis
    by (simp add: sampleRun_lines lineBackedBy_def sampleLine_request lineRole_def settlementSignerRole_def settlementEscrowSignerRole_def)
qed

end
