(* ===== verification/Report_Types.thy ===== *)
theory Report_Types
  imports Challenge_Types
begin

text \<open>
  The data of the reports on stored records (settlement.go, lines 359--486; settlement_challenge.go,
  lines 300--362), by the same conventions as in \<open>Settlement_Types\<close>.  The map of failure codes is
  empty where the source has \<open>nil\<close>.
\<close>

record settlementRecordSummary =
  sm_RequestID :: string
  sm_UpdatedAt :: int
  sm_Outcome :: string
  sm_Status :: string
  sm_FailureCode :: string
  sm_Retryable :: bool
  sm_IdempotentReplay :: bool
  sm_SignerRole :: string
  sm_SignerAddress :: string
  sm_ToAddress :: string
  sm_AmountUWolo :: string
  sm_AmountWolo :: string
  sm_TxHash :: string
  sm_Detail :: string
  sm_CanonicalTxLookup :: string
  sm_CanonicalTxLookupPreferred :: string
  sm_CanonicalTxLookupInternal :: string
  sm_CanonicalTxLookupPublic :: string

definition zero_settlementRecordSummary :: settlementRecordSummary where
  "zero_settlementRecordSummary = \<lparr>sm_RequestID = '''', sm_UpdatedAt = 0, sm_Outcome = '''',
     sm_Status = '''', sm_FailureCode = '''', sm_Retryable = False,
     sm_IdempotentReplay = False, sm_SignerRole = '''', sm_SignerAddress = '''',
     sm_ToAddress = '''', sm_AmountUWolo = '''', sm_AmountWolo = '''',
     sm_TxHash = '''', sm_Detail = '''', sm_CanonicalTxLookup = '''',
     sm_CanonicalTxLookupPreferred = '''', sm_CanonicalTxLookupInternal = '''', sm_CanonicalTxLookupPublic = ''''\<rparr>"

lemma zero_settlementRecordSummary_sel [simp, zero_simps]:
  "sm_RequestID zero_settlementRecordSummary = ''''"
  "sm_UpdatedAt zero_settlementRecordSummary = 0"
  "sm_Outcome zero_settlementRecordSummary = ''''"
  "sm_Status zero_settlementRecordSummary = ''''"
  "sm_FailureCode zero_settlementRecordSummary = ''''"
  "sm_Retryable zero_settlementRecordSummary = False"
  "sm_IdempotentReplay zero_settlementRecordSummary = False"
  "sm_SignerRole zero_settlementRecordSummary = ''''"
  "sm_SignerAddress zero_settlementRecordSummary = ''''"
  "sm_ToAddress zero_settlementRecordSummary = ''''"
  "sm_AmountUWolo zero_settlementRecordSummary = ''''"
  "sm_AmountWolo zero_settlementRecordSummary = ''''"
  "sm_TxHash zero_settlementRecordSummary = ''''"
  "sm_Detail zero_settlementRecordSummary = ''''"
  "sm_CanonicalTxLookup zero_settlementRecordSummary = ''''"
  "sm_CanonicalTxLookupPreferred zero_settlementRecordSummary = ''''"
  "sm_CanonicalTxLookupInternal zero_settlementRecordSummary = ''''"
  "sm_CanonicalTxLookupPublic zero_settlementRecordSummary = ''''"
  by (simp_all add: zero_settlementRecordSummary_def)

record settlementInspectResponse =
  ii_Found :: bool
  ii_RequestID :: string
  ii_RequestPath :: string
  ii_Summary :: "settlementRecordSummary option"
  ii_Record :: "settlementStoredResult option"

definition zero_settlementInspectResponse :: settlementInspectResponse where
  "zero_settlementInspectResponse = \<lparr>ii_Found = False, ii_RequestID = '''', ii_RequestPath = '''',
     ii_Summary = None, ii_Record = None\<rparr>"

lemma zero_settlementInspectResponse_sel [simp, zero_simps]:
  "ii_Found zero_settlementInspectResponse = False"
  "ii_RequestID zero_settlementInspectResponse = ''''"
  "ii_RequestPath zero_settlementInspectResponse = ''''"
  "ii_Summary zero_settlementInspectResponse = None"
  "ii_Record zero_settlementInspectResponse = None"
  by (simp_all add: zero_settlementInspectResponse_def)

record settlementRecentItem =
  it_RequestID :: string
  it_RequestPath :: string
  it_UpdatedAt :: int
  it_Summary :: settlementRecordSummary
  it_Record :: settlementStoredResult

definition zero_settlementRecentItem :: settlementRecentItem where
  "zero_settlementRecentItem = \<lparr>it_RequestID = '''', it_RequestPath = '''', it_UpdatedAt = 0,
     it_Summary = zero_settlementRecordSummary, it_Record = zero_settlementStoredResult\<rparr>"

lemma zero_settlementRecentItem_sel [simp, zero_simps]:
  "it_RequestID zero_settlementRecentItem = ''''"
  "it_RequestPath zero_settlementRecentItem = ''''"
  "it_UpdatedAt zero_settlementRecentItem = 0"
  "it_Summary zero_settlementRecentItem = zero_settlementRecordSummary"
  "it_Record zero_settlementRecentItem = zero_settlementStoredResult"
  by (simp_all add: zero_settlementRecentItem_def)

record settlementRecentSummary =
  sx_RequestedLimit :: int
  sx_Returned :: nat
  sx_StatusFilter :: string
  sx_FailureCodeFilter :: string
  sx_FailedCount :: nat
  sx_RefusedCount :: nat
  sx_RejectedCount :: nat
  sx_AcceptedCount :: nat
  sx_ConfirmedCount :: nat
  sx_ReplayCount :: nat
  sx_RetryableCount :: nat
  sx_FailureCodes :: "string \<rightharpoonup> nat"

definition zero_settlementRecentSummary :: settlementRecentSummary where
  "zero_settlementRecentSummary = \<lparr>sx_RequestedLimit = 0, sx_Returned = 0, sx_StatusFilter = '''',
     sx_FailureCodeFilter = '''', sx_FailedCount = 0, sx_RefusedCount = 0,
     sx_RejectedCount = 0, sx_AcceptedCount = 0, sx_ConfirmedCount = 0,
     sx_ReplayCount = 0, sx_RetryableCount = 0, sx_FailureCodes = Map.empty\<rparr>"

lemma zero_settlementRecentSummary_sel [simp, zero_simps]:
  "sx_RequestedLimit zero_settlementRecentSummary = 0"
  "sx_Returned zero_settlementRecentSummary = 0"
  "sx_StatusFilter zero_settlementRecentSummary = ''''"
  "sx_FailureCodeFilter zero_settlementRecentSummary = ''''"
  "sx_FailedCount zero_settlementRecentSummary = 0"
  "sx_RefusedCount zero_settlementRecentSummary = 0"
  "sx_RejectedCount zero_settlementRecentSummary = 0"
  "sx_AcceptedCount zero_settlementRecentSummary = 0"
  "sx_ConfirmedCount zero_settlementRecentSummary = 0"
  "sx_ReplayCount zero_settlementRecentSummary = 0"
  "sx_RetryableCount zero_settlementRecentSummary = 0"
  "sx_FailureCodes zero_settlementRecentSummary = Map.empty"
  by (simp_all add: zero_settlementRecentSummary_def)

record settlementRecentResponse =
  il_Count :: nat
  il_Summary :: settlementRecentSummary
  il_Items :: "settlementRecentItem list"

definition zero_settlementRecentResponse :: settlementRecentResponse where
  "zero_settlementRecentResponse = \<lparr>il_Count = 0, il_Summary = zero_settlementRecentSummary, il_Items = []\<rparr>"

lemma zero_settlementRecentResponse_sel [simp, zero_simps]:
  "il_Count zero_settlementRecentResponse = 0"
  "il_Summary zero_settlementRecentResponse = zero_settlementRecentSummary"
  "il_Items zero_settlementRecentResponse = []"
  by (simp_all add: zero_settlementRecentResponse_def)

record settlementRunSummary =
  ru_SettlementRunID :: string
  ru_UpdatedAt :: int
  ru_Status :: string
  ru_FailureCode :: string
  ru_Retryable :: bool
  ru_IdempotentReplay :: bool
  ru_SourceApp :: string
  ru_SourceEventID :: string
  ru_Note :: string
  ru_Memo :: string
  ru_SignerRole :: string
  ru_SignerAddress :: string
  ru_RequestedPayoutCount :: nat
  ru_ExecutedPayoutCount :: nat
  ru_ConfirmedPayoutCount :: nat
  ru_AcceptedPayoutCount :: nat
  ru_RefusedPayoutCount :: nat
  ru_RejectedPayoutCount :: nat
  ru_ReplayPayoutCount :: nat
  ru_RequestedTotalUWolo :: string
  ru_RequestedTotalWolo :: string
  ru_ExecutedTotalUWolo :: string
  ru_ExecutedTotalWolo :: string
  ru_ConfirmedTotalUWolo :: string
  ru_ConfirmedTotalWolo :: string
  ru_AcceptedTotalUWolo :: string
  ru_AcceptedTotalWolo :: string
  ru_RefusedTotalUWolo :: string
  ru_RefusedTotalWolo :: string
  ru_RejectedTotalUWolo :: string
  ru_RejectedTotalWolo :: string
  ru_Detail :: string

definition zero_settlementRunSummary :: settlementRunSummary where
  "zero_settlementRunSummary = \<lparr>ru_SettlementRunID = '''', ru_UpdatedAt = 0, ru_Status = '''',
     ru_FailureCode = '''', ru_Retryable = False, ru_IdempotentReplay = False,
     ru_SourceApp = '''', ru_SourceEventID = '''', ru_Note = '''',
     ru_Memo = '''', ru_SignerRole = '''', ru_SignerAddress = '''',
     ru_RequestedPayoutCount = 0, ru_ExecutedPayoutCount = 0, ru_ConfirmedPayoutCount = 0,
     ru_AcceptedPayoutCount = 0, ru_RefusedPayoutCount = 0, ru_RejectedPayoutCount = 0,
     ru_ReplayPayoutCount = 0, ru_RequestedTotalUWolo = '''', ru_RequestedTotalWolo = '''',
     ru_ExecutedTotalUWolo = '''', ru_ExecutedTotalWolo = '''', ru_ConfirmedTotalUWolo = '''',
     ru_ConfirmedTotalWolo = '''', ru_AcceptedTotalUWolo = '''', ru_AcceptedTotalWolo = '''',
     ru_RefusedTotalUWolo = '''', ru_RefusedTotalWolo = '''', ru_RejectedTotalUWolo = '''',
     ru_RejectedTotalWolo = '''', ru_Detail = ''''\<rparr>"

lemma zero_settlementRunSummary_sel [simp, zero_simps]:
  "ru_SettlementRunID zero_settlementRunSummary = ''''"
  "ru_UpdatedAt zero_settlementRunSummary = 0"
  "ru_Status zero_settlementRunSummary = ''''"
  "ru_FailureCode zero_settlementRunSummary = ''''"
  "ru_Retryable zero_settlementRunSummary = False"
  "ru_IdempotentReplay zero_settlementRunSummary = False"
  "ru_SourceApp zero_settlementRunSummary = ''''"
  "ru_SourceEventID zero_settlementRunSummary = ''''"
  "ru_Note zero_settlementRunSummary = ''''"
  "ru_Memo zero_settlementRunSummary = ''''"
  "ru_SignerRole zero_settlementRunSummary = ''''"
  "ru_SignerAddress zero_settlementRunSummary = ''''"
  "ru_RequestedPayoutCount zero_settlementRunSummary = 0"
  "ru_ExecutedPayoutCount zero_settlementRunSummary = 0"
  "ru_ConfirmedPayoutCount zero_settlementRunSummary = 0"
  "ru_AcceptedPayoutCount zero_settlementRunSummary = 0"
  "ru_RefusedPayoutCount zero_settlementRunSummary = 0"
  "ru_RejectedPayoutCount zero_settlementRunSummary = 0"
  "ru_ReplayPayoutCount zero_settlementRunSummary = 0"
  "ru_RequestedTotalUWolo zero_settlementRunSummary = ''''"
  "ru_RequestedTotalWolo zero_settlementRunSummary = ''''"
  "ru_ExecutedTotalUWolo zero_settlementRunSummary = ''''"
  "ru_ExecutedTotalWolo zero_settlementRunSummary = ''''"
  "ru_ConfirmedTotalUWolo zero_settlementRunSummary = ''''"
  "ru_ConfirmedTotalWolo zero_settlementRunSummary = ''''"
  "ru_AcceptedTotalUWolo zero_settlementRunSummary = ''''"
  "ru_AcceptedTotalWolo zero_settlementRunSummary = ''''"
  "ru_RefusedTotalUWolo zero_settlementRunSummary = ''''"
  "ru_RefusedTotalWolo zero_settlementRunSummary = ''''"
  "ru_RejectedTotalUWolo zero_settlementRunSummary = ''''"
  "ru_RejectedTotalWolo zero_settlementRunSummary = ''''"
  "ru_Detail zero_settlementRunSummary = ''''"
  by (simp_all add: zero_settlementRunSummary_def)

record settlementRunInspectResponse =
  ri_Found :: bool
  ri_SettlementRunID :: string
  ri_RunPath :: string
  ri_Summary :: "settlementRunSummary option"
  ri_Record :: "settlementRunStoredResult option"

definition zero_settlementRunInspectResponse :: settlementRunInspectResponse where
  "zero_settlementRunInspectResponse = \<lparr>ri_Found = False, ri_SettlementRunID = '''', ri_RunPath = '''',
     ri_Summary = None, ri_Record = None\<rparr>"

lemma zero_settlementRunInspectResponse_sel [simp, zero_simps]:
  "ri_Found zero_settlementRunInspectResponse = False"
  "ri_SettlementRunID zero_settlementRunInspectResponse = ''''"
  "ri_RunPath zero_settlementRunInspectResponse = ''''"
  "ri_Summary zero_settlementRunInspectResponse = None"
  "ri_Record zero_settlementRunInspectResponse = None"
  by (simp_all add: zero_settlementRunInspectResponse_def)

record settlementRunRecentItem =
  re_SettlementRunID :: string
  re_RunPath :: string
  re_UpdatedAt :: int
  re_Summary :: settlementRunSummary
  re_Record :: settlementRunStoredResult

definition zero_settlementRunRecentItem :: settlementRunRecentItem where
  "zero_settlementRunRecentItem = \<lparr>re_SettlementRunID = '''', re_RunPath = '''', re_UpdatedAt = 0,
     re_Summary = zero_settlementRunSummary, re_Record = zero_settlementRunStoredResult\<rparr>"

lemma zero_settlementRunRecentItem_sel [simp, zero_simps]:
  "re_SettlementRunID zero_settlementRunRecentItem = ''''"
  "re_RunPath zero_settlementRunRecentItem = ''''"
  "re_UpdatedAt zero_settlementRunRecentItem = 0"
  "re_Summary zero_settlementRunRecentItem = zero_settlementRunSummary"
  "re_Record zero_settlementRunRecentItem = zero_settlementRunStoredResult"
  by (simp_all add: zero_settlementRunRecentItem_def)

record settlementRunRecentSummary =
  rx_RequestedLimit :: int
  rx_Returned :: nat
  rx_StatusFilter :: string
  rx_FailureCodeFilter :: string
  rx_FailedCount :: nat
  rx_PartialCount :: nat
  rx_ConfirmedCount :: nat
  rx_AcceptedCount :: nat
  rx_ReplayCount :: nat
  rx_RetryableCount :: nat
  rx_FailureCodes :: "string \<rightharpoonup> nat"

definition zero_settlementRunRecentSummary :: settlementRunRecentSummary where
  "zero_settlementRunRecentSummary = \<lparr>rx_RequestedLimit = 0, rx_Returned = 0, rx_StatusFilter = '''',
     rx_FailureCodeFilter = '''', rx_FailedCount = 0, rx_PartialCount = 0,
     rx_ConfirmedCount = 0, rx_AcceptedCount = 0, rx_ReplayCount = 0,
     rx_RetryableCount = 0, rx_FailureCodes = Map.empty\<rparr>"

lemma zero_settlementRunRecentSummary_sel [simp, zero_simps]:
  "rx_RequestedLimit zero_settlementRunRecentSummary = 0"
  "rx_Returned zero_settlementRunRecentSummary = 0"
  "rx_StatusFilter zero_settlementRunRecentSummary = ''''"
  "rx_FailureCodeFilter zero_settlementRunRecentSummary = ''''"
  "rx_FailedCount zero_settlementRunRecentSummary = 0"
  "rx_PartialCount zero_settlementRunRecentSummary = 0"
  "rx_ConfirmedCount zero_settlementRunRecentSummary = 0"
  "rx_AcceptedCount zero_settlementRunRecentSummary = 0"
  "rx_ReplayCount zero_settlementRunRecentSummary = 0"
  "rx_RetryableCount zero_settlementRunRecentSummary = 0"
  "rx_FailureCodes zero_settlementRunRecentSummary = Map.empty"
  by (simp_all add: zero_settlementRunRecentSummary_def)

record settlementRunRecentResponse =
  rl_Count :: nat
  rl_Summary :: settlementRunRecentSummary
  rl_Items :: "settlementRunRecentItem list"

definition zero_settlementRunRecentResponse :: settlementRunRecentResponse where
  "zero_settlementRunRecentResponse = \<lparr>rl_Count = 0, rl_Summary = zero_settlementRunRecentSummary, rl_Items = []\<rparr>"

lemma zero_settlementRunRecentResponse_sel [simp, zero_simps]:
  "rl_Count zero_settlementRunRecentResponse = 0"
  "rl_Summary zero_settlementRunRecentResponse = zero_settlementRunRecentSummary"
  "rl_Items zero_settlementRunRecentResponse = []"
  by (simp_all add: zero_settlementRunRecentResponse_def)

record settlementChallengeSummary =
  cu_SettlementRunID :: string
  cu_UpdatedAt :: int
  cu_Status :: string
  cu_FailureCode :: string
  cu_Retryable :: bool
  cu_IdempotentReplay :: bool
  cu_SourceApp :: string
  cu_ChallengeID :: string
  cu_SourceEventID :: string
  cu_TreasuryAddress :: string
  cu_ParticipantCount :: nat
  cu_FundingVerifiedCount :: nat
  cu_RequestedTransferCount :: nat
  cu_ExecutedTransferCount :: nat
  cu_ConfirmedTransferCount :: nat
  cu_AcceptedTransferCount :: nat
  cu_RefusedTransferCount :: nat
  cu_RejectedTransferCount :: nat
  cu_ReplayTransferCount :: nat
  cu_FundingTotalUWolo :: string
  cu_RequestedTotalUWolo :: string
  cu_TopUpRequired :: bool
  cu_TopUpExecuted :: bool
  cu_TopUpTxHash :: string
  cu_Detail :: string

definition zero_settlementChallengeSummary :: settlementChallengeSummary where
  "zero_settlementChallengeSummary = \<lparr>cu_SettlementRunID = '''', cu_UpdatedAt = 0, cu_Status = '''',
     cu_FailureCode = '''', cu_Retryable = False, cu_IdempotentReplay = False,
     cu_SourceApp = '''', cu_ChallengeID = '''', cu_SourceEventID = '''',
     cu_TreasuryAddress = '''', cu_ParticipantCount = 0, cu_FundingVerifiedCount = 0,
     cu_RequestedTransferCount = 0, cu_ExecutedTransferCount = 0, cu_ConfirmedTransferCount = 0,
     cu_AcceptedTransferCount = 0, cu_RefusedTransferCount = 0, cu_RejectedTransferCount = 0,
     cu_ReplayTransferCount = 0, cu_FundingTotalUWolo = '''', cu_RequestedTotalUWolo = '''',
     cu_TopUpRequired = False, cu_TopUpExecuted = False, cu_TopUpTxHash = '''',
     cu_Detail = ''''\<rparr>"

lemma zero_settlementChallengeSummary_sel [simp, zero_simps]:
  "cu_SettlementRunID zero_settlementChallengeSummary = ''''"
  "cu_UpdatedAt zero_settlementChallengeSummary = 0"
  "cu_Status zero_settlementChallengeSummary = ''''"
  "cu_FailureCode zero_settlementChallengeSummary = ''''"
  "cu_Retryable zero_settlementChallengeSummary = False"
  "cu_IdempotentReplay zero_settlementChallengeSummary = False"
  "cu_SourceApp zero_settlementChallengeSummary = ''''"
  "cu_ChallengeID zero_settlementChallengeSummary = ''''"
  "cu_SourceEventID zero_settlementChallengeSummary = ''''"
  "cu_TreasuryAddress zero_settlementChallengeSummary = ''''"
  "cu_ParticipantCount zero_settlementChallengeSummary = 0"
  "cu_FundingVerifiedCount zero_settlementChallengeSummary = 0"
  "cu_RequestedTransferCount zero_settlementChallengeSummary = 0"
  "cu_ExecutedTransferCount zero_settlementChallengeSummary = 0"
  "cu_ConfirmedTransferCount zero_settlementChallengeSummary = 0"
  "cu_AcceptedTransferCount zero_settlementChallengeSummary = 0"
  "cu_RefusedTransferCount zero_settlementChallengeSummary = 0"
  "cu_RejectedTransferCount zero_settlementChallengeSummary = 0"
  "cu_ReplayTransferCount zero_settlementChallengeSummary = 0"
  "cu_FundingTotalUWolo zero_settlementChallengeSummary = ''''"
  "cu_RequestedTotalUWolo zero_settlementChallengeSummary = ''''"
  "cu_TopUpRequired zero_settlementChallengeSummary = False"
  "cu_TopUpExecuted zero_settlementChallengeSummary = False"
  "cu_TopUpTxHash zero_settlementChallengeSummary = ''''"
  "cu_Detail zero_settlementChallengeSummary = ''''"
  by (simp_all add: zero_settlementChallengeSummary_def)

record settlementChallengeInspectResponse =
  ci_Found :: bool
  ci_SettlementRunID :: string
  ci_ChallengePath :: string
  ci_Summary :: "settlementChallengeSummary option"
  ci_Record :: "settlementChallengeStoredResult option"

definition zero_settlementChallengeInspectResponse :: settlementChallengeInspectResponse where
  "zero_settlementChallengeInspectResponse = \<lparr>ci_Found = False, ci_SettlementRunID = '''', ci_ChallengePath = '''',
     ci_Summary = None, ci_Record = None\<rparr>"

lemma zero_settlementChallengeInspectResponse_sel [simp, zero_simps]:
  "ci_Found zero_settlementChallengeInspectResponse = False"
  "ci_SettlementRunID zero_settlementChallengeInspectResponse = ''''"
  "ci_ChallengePath zero_settlementChallengeInspectResponse = ''''"
  "ci_Summary zero_settlementChallengeInspectResponse = None"
  "ci_Record zero_settlementChallengeInspectResponse = None"
  by (simp_all add: zero_settlementChallengeInspectResponse_def)

record settlementChallengeRecentItem =
  ce_SettlementRunID :: string
  ce_ChallengePath :: string
  ce_UpdatedAt :: int
  ce_Summary :: settlementChallengeSummary
  ce_Record :: settlementChallengeStoredResult

definition zero_settlementChallengeRecentItem :: settlementChallengeRecentItem where
  "zero_settlementChallengeRecentItem = \<lparr>ce_SettlementRunID = '''', ce_ChallengePath = '''', ce_UpdatedAt = 0,
     ce_Summary = zero_settlementChallengeSummary, ce_Record = zero_settlementChallengeStoredResult\<rparr>"

lemma zero_settlementChallengeRecentItem_sel [simp, zero_simps]:
  "ce_SettlementRunID zero_settlementChallengeRecentItem = ''''"
  "ce_ChallengePath zero_settlementChallengeRecentItem = ''''"
  "ce_UpdatedAt zero_settlementChallengeRecentItem = 0"
  "ce_Summary zero_settlementChallengeRecentItem = zero_settlementChallengeSummary"
  "ce_Record zero_settlementChallengeRecentItem = zero_settlementChallengeStoredResult"
  by (simp_all add: zero_settlementChallengeRecentItem_def)

record settlementChallengeRecentSummary =
  ch_RequestedLimit :: int
  ch_Returned :: nat
  ch_StatusFilter :: string
  ch_FailureCodeFilter :: string
  ch_FailedCount :: nat
  ch_PartialCount :: nat
  ch_ConfirmedCount :: nat
  ch_AcceptedCount :: nat
  ch_ReplayCount :: nat
  ch_RetryableCount :: nat
  ch_FailureCodes :: "string \<rightharpoonup> nat"

definition zero_settlementChallengeRecentSummary :: settlementChallengeRecentSummary where
  "zero_settlementChallengeRecentSummary = \<lparr>ch_RequestedLimit = 0, ch_Returned = 0, ch_StatusFilter = '''',
     ch_FailureCodeFilter = '''', ch_FailedCount = 0, ch_PartialCount = 0,
     ch_ConfirmedCount = 0, ch_AcceptedCount = 0, ch_ReplayCount = 0,
     ch_RetryableCount = 0, ch_FailureCodes = Map.empty\<rparr>"

lemma zero_settlementChallengeRecentSummary_sel [simp, zero_simps]:
  "ch_RequestedLimit zero_settlementChallengeRecentSummary = 0"
  "ch_Returned zero_settlementChallengeRecentSummary = 0"
  "ch_StatusFilter zero_settlementChallengeRecentSummary = ''''"
  "ch_FailureCodeFilter zero_settlementChallengeRecentSummary = ''''"
  "ch_FailedCount zero_settlementChallengeRecentSummary = 0"
  "ch_PartialCount zero_settlementChallengeRecentSummary = 0"
  "ch_ConfirmedCount zero_settlementChallengeRecentSummary = 0"
  "ch_AcceptedCount zero_settlementChallengeRecentSummary = 0"
  "ch_ReplayCount zero_settlementChallengeRecentSummary = 0"
  "ch_RetryableCount zero_settlementChallengeRecentSummary = 0"
  "ch_FailureCodes zero_settlementChallengeRecentSummary = Map.empty"
  by (simp_all add: zero_settlementChallengeRecentSummary_def)

record settlementChallengeRecentResponse =
  cl_Count :: nat
  cl_Summary :: settlementChallengeRecentSummary
  cl_Items :: "settlementChallengeRecentItem list"

definition zero_settlementChallengeRecentResponse :: settlementChallengeRecentResponse where
  "zero_settlementChallengeRecentResponse = \<lparr>cl_Count = 0, cl_Summary = zero_settlementChallengeRecentSummary, cl_Items = []\<rparr>"

lemma zero_settlementChallengeRecentResponse_sel [simp, zero_simps]:
  "cl_Count zero_settlementChallengeRecentResponse = 0"
  "cl_Summary zero_settlementChallengeRecentResponse = zero_settlementChallengeRecentSummary"
  "cl_Items zero_settlementChallengeRecentResponse = []"
  by (simp_all add: zero_settlementChallengeRecentResponse_def)

end
