(* ===== verification/Reports.thy ===== *)
theory Reports
  imports Challenge Report_Types
begin

text \<open>
  Reports on the stored records (settlement.go, lines 776--870, 948--1042, 3365--3461 and 4058--4234;
  settlement_challenge.go, lines 556--634 and 2476--2621): summaries of requests, runs and challenge
  settlements, the inspection of one record and the filtered list of the most recent ones.

  The result of \<open>os.ReadDir\<close> is an argument: the entries of the directory with a flag for
  subdirectories, or an error.  \<open>sort.Slice\<close> does not fix the order of records with the same time;
  the model keeps the order of the directory for them.  A command is its \<open>RunE\<close> body: from the loaded
  configuration and the flags to what is written as JSON or returned as an error; \<open>None\<close> is a panic.
\<close>

section \<open>Lists of records\<close>

type_synonym dirEntries = "(string \<times> bool) list readResult"

definition readErrorText :: "string \<Rightarrow> 'r readResult \<Rightarrow> string" where
  "readErrorText path r = (case r of ReadFailed err \<Rightarrow> err | _ \<Rightarrow> ''open '' @ path @ '': no such file or directory'')"

text \<open>
  The loop over the directory entries: records that cannot be read end it with an error, \<open>select\<close> turns
  a record that passes the filters into an item.  A name has the extension \<open>.json\<close> exactly when it
  ends so.
\<close>

fun collectRecords :: "string \<Rightarrow> (string \<Rightarrow> 'r readResult) \<Rightarrow> (string \<Rightarrow> 'r \<Rightarrow> 'i option) \<Rightarrow> string \<Rightarrow> (string \<times> bool) list
    \<Rightarrow> string + 'i list" where
  "collectRecords what load select dir [] = Inr []"
| "collectRecords what load select dir ((name, isDir) # entries) =
     (if isDir \<or> \<not> suffix ''.json'' name then collectRecords what load select dir entries
      else let recordPath = JoinPath [dir, name] in
        case load recordPath of
          ReadOK r \<Rightarrow>
            (case collectRecords what load select dir entries of
               Inl err \<Rightarrow> Inl err
             | Inr items \<Rightarrow> Inr ((case select recordPath r of None \<Rightarrow> [] | Some item \<Rightarrow> [item]) @ items))
        | bad \<Rightarrow> Inl (''read '' @ what @ '' '' @ recordPath @ '': '' @ readErrorText recordPath bad))"

text \<open>The slice expression \<open>items[:limit]\<close> panics on a negative limit, the value \<open>None\<close>.\<close>

definition newestFirst :: "('i \<Rightarrow> int) \<Rightarrow> int \<Rightarrow> 'i list \<Rightarrow> 'i list option" where
  "newestFirst updatedAt limit items =
     (let sorted = sort_key (\<lambda>item. - updatedAt item) items in
      if int (length sorted) > limit then if limit < 0 then None else Some (take (nat limit) sorted) else Some sorted)"

definition listRecords :: "string \<Rightarrow> (string \<Rightarrow> 'r readResult) \<Rightarrow> (string \<Rightarrow> 'r \<Rightarrow> 'i option) \<Rightarrow> ('i \<Rightarrow> int) \<Rightarrow> string \<Rightarrow> dirEntries \<Rightarrow> int
    \<Rightarrow> (string + 'i list) option" where
  "listRecords what load select updatedAt dir listing limit =
     (case listing of
        NotExist \<Rightarrow> Some (Inr [])
      | ReadFailed err \<Rightarrow> Some (Inl err)
      | ReadOK entries \<Rightarrow>
          (case collectRecords what load select dir entries of
             Inl err \<Rightarrow> Some (Inl err)
           | Inr items \<Rightarrow> map_option Inr (newestFirst updatedAt limit items)))"

definition failureCodeMatches :: "string \<Rightarrow> string \<Rightarrow> bool" where
  "failureCodeMatches failureCodeFilter failureCode \<longleftrightarrow> failureCodeFilter = [] \<or> EqualFold (TrimSpace failureCode) failureCodeFilter"

definition statusMatches :: "string \<Rightarrow> string \<Rightarrow> bool" where
  "statusMatches statusFilter status \<longleftrightarrow> statusFilter = [] \<or> statusFilter = ''all'' \<or> EqualFold status statusFilter"

definition countCode :: "string \<Rightarrow> (string \<rightharpoonup> nat) \<Rightarrow> (string \<rightharpoonup> nat)" where
  "countCode code codes = (if code = [] then codes else codes(code \<mapsto> (case codes code of None \<Rightarrow> 0 | Some n \<Rightarrow> n) + 1))"

definition bump :: "bool \<Rightarrow> nat \<Rightarrow> nat" where
  "bump b n = (if b then n + 1 else n)"

section \<open>Single transfers\<close>

definition summarizeSettlementStoredResult :: "settlementStoredResult \<Rightarrow> settlementRecordSummary" where
  "summarizeSettlementStoredResult record =
     (let response = sr_Response record; request = sr_Request record;
          canonicalInternal = firstNonEmpty [xr_CanonicalTxLookupInternal response, xr_CanonicalTxLookup response];
          canonicalPreferred = firstNonEmpty [xr_CanonicalTxLookupPreferred response, xr_CanonicalTxLookupPublic response, canonicalInternal] in
      \<lparr>sm_RequestID = firstNonEmpty [nq_RequestID request, xr_RequestID response], sm_UpdatedAt = sr_UpdatedAt record,
       sm_Outcome = deriveSettlementOutcome response, sm_Status = xr_Status response, sm_FailureCode = xr_FailureCode response,
       sm_Retryable = xr_Retryable response, sm_IdempotentReplay = xr_IdempotentReplay response, sm_SignerRole = xr_SignerRole response,
       sm_SignerAddress = xr_SignerAddress response, sm_ToAddress = firstNonEmpty [xr_ToAddress response, nq_ToAddress request],
       sm_AmountUWolo = firstNonEmpty [xr_AmountUWolo response, nq_AmountUWolo request],
       sm_AmountWolo = firstNonEmpty [xr_AmountWolo response, formatDisplayAmount (nq_AmountUWolo request)],
       sm_TxHash = xr_TxHash response, sm_Detail = xr_Detail response, sm_CanonicalTxLookup = xr_CanonicalTxLookup response,
       sm_CanonicalTxLookupPreferred = canonicalPreferred, sm_CanonicalTxLookupInternal = canonicalInternal,
       sm_CanonicalTxLookupPublic = xr_CanonicalTxLookupPublic response\<rparr>)"

definition matchesSettlementStatusFilter :: "settlementExecuteResponse \<Rightarrow> string \<Rightarrow> bool" where
  "matchesSettlementStatusFilter response statusFilter =
     (let failed = EqualFold (TrimSpace (xr_Status response)) ''failed'' in
      if statusFilter = [] \<or> statusFilter = ''all'' then True
      else if statusFilter \<in> {''failed'', ''confirmed'', ''accepted''} then EqualFold (TrimSpace (xr_Status response)) statusFilter
      else if statusFilter = ''refused'' then failed \<and> TrimSpace (xr_TxHash response) = []
      else if statusFilter = ''rejected'' then failed \<and> TrimSpace (xr_TxHash response) \<noteq> []
      else False)"

definition recentItem :: "string \<Rightarrow> string \<Rightarrow> string \<Rightarrow> settlementStoredResult \<Rightarrow> settlementRecentItem option" where
  "recentItem statusFilter failureCodeFilter recordPath record =
     (if matchesSettlementStatusFilter (sr_Response record) statusFilter \<and> failureCodeMatches failureCodeFilter (xr_FailureCode (sr_Response record))
      then Some \<lparr>it_RequestID = nq_RequestID (sr_Request record), it_RequestPath = recordPath, it_UpdatedAt = sr_UpdatedAt record,
             it_Summary = summarizeSettlementStoredResult record, it_Record = record\<rparr>
      else None)"

definition listRecentSettlementRecords :: "settlementConfig \<Rightarrow> 'c world \<Rightarrow> dirEntries \<Rightarrow> int \<Rightarrow> string \<Rightarrow> string
    \<Rightarrow> (string + settlementRecentItem list) option" where
  "listRecentSettlementRecords cfg w listing limit statusFilter failureCodeFilter =
     listRecords ''settlement record'' (\<lambda>path. readSettlementStoredResult path w) (recentItem statusFilter failureCodeFilter) it_UpdatedAt
       (JoinPath [cfg_StateDir cfg, ''requests'']) listing limit"

definition countRecentItem :: "settlementRecentItem \<Rightarrow> settlementRecentSummary \<Rightarrow> settlementRecentSummary" where
  "countRecentItem item summary =
     (let s = it_Summary item in
      summary\<lparr>sx_FailedCount := bump (sm_Status s = ''failed'') (sx_FailedCount summary),
        sx_AcceptedCount := bump (sm_Status s = ''accepted'') (sx_AcceptedCount summary),
        sx_ConfirmedCount := bump (sm_Status s = ''confirmed'') (sx_ConfirmedCount summary),
        sx_RefusedCount := bump (sm_Outcome s = ''refused'') (sx_RefusedCount summary),
        sx_RejectedCount := bump (sm_Outcome s = ''rejected'') (sx_RejectedCount summary),
        sx_ReplayCount := bump (sm_IdempotentReplay s) (sx_ReplayCount summary),
        sx_RetryableCount := bump (sm_Retryable s) (sx_RetryableCount summary),
        sx_FailureCodes := countCode (sm_FailureCode s) (sx_FailureCodes summary)\<rparr>)"

definition summarizeSettlementRecentItems :: "int \<Rightarrow> string \<Rightarrow> string \<Rightarrow> settlementRecentItem list \<Rightarrow> settlementRecentSummary" where
  "summarizeSettlementRecentItems limit statusFilter failureCodeFilter items = fold countRecentItem items
     (zero_settlementRecentSummary\<lparr>sx_RequestedLimit := limit, sx_Returned := length items, sx_StatusFilter := statusFilter,
        sx_FailureCodeFilter := failureCodeFilter\<rparr>)"

definition optionalSettlementRecord :: "bool \<Rightarrow> settlementStoredResult \<Rightarrow> settlementStoredResult option" where
  "optionalSettlementRecord summaryOnly record = (if summaryOnly then None else Some record)"

definition optionalSettlementRecentItems :: "bool \<Rightarrow> settlementRecentItem list \<Rightarrow> settlementRecentItem list" where
  "optionalSettlementRecentItems summaryOnly items = (if summaryOnly then [] else items)"

definition newSettlementInspectCmd :: "string + settlementConfig \<Rightarrow> string \<Rightarrow> bool \<Rightarrow> 'c world \<Rightarrow> string + settlementInspectResponse" where
  "newSettlementInspectCmd loaded requestID0 summaryOnly w =
     (case loaded of
        Inl err \<Rightarrow> Inl err
      | Inr cfg \<Rightarrow>
          let requestID = TrimSpace requestID0; recordPath = requestRecordPath cfg requestID in
          if requestID = [] then Inl ''--request-id is required''
          else case readSettlementStoredResult recordPath w of
            NotExist \<Rightarrow> Inr (zero_settlementInspectResponse\<lparr>ii_Found := False, ii_RequestID := requestID\<rparr>)
          | ReadFailed err \<Rightarrow> Inl err
          | ReadOK record \<Rightarrow> Inr \<lparr>ii_Found = True, ii_RequestID = requestID, ii_RequestPath = recordPath,
              ii_Summary = Some (summarizeSettlementStoredResult record), ii_Record = optionalSettlementRecord summaryOnly record\<rparr>)"

definition newSettlementRecentCmd :: "string + settlementConfig \<Rightarrow> int \<Rightarrow> string \<Rightarrow> string \<Rightarrow> bool \<Rightarrow> dirEntries \<Rightarrow> 'c world
    \<Rightarrow> (string + settlementRecentResponse) option" where
  "newSettlementRecentCmd loaded limit status0 failureCode0 summaryOnly listing w =
     (case loaded of
        Inl err \<Rightarrow> Some (Inl err)
      | Inr cfg \<Rightarrow>
          let status = TrimSpace (ToLower status0); failureCode = TrimSpace (ToUpper failureCode0) in
          if status \<notin> {'''', ''all'', ''failed'', ''refused'', ''rejected'', ''confirmed'', ''accepted''}
          then Some (Inl ''--status must be one of all, failed, refused, rejected, confirmed, accepted'')
          else if limit \<le> 0 then Some (Inl ''--limit must be greater than zero'')
          else case listRecentSettlementRecords cfg w listing limit status failureCode of
            None \<Rightarrow> None
          | Some (Inl err) \<Rightarrow> Some (Inl err)
          | Some (Inr items) \<Rightarrow> Some (Inr \<lparr>il_Count = length items, il_Summary = summarizeSettlementRecentItems limit status failureCode items,
              il_Items = optionalSettlementRecentItems summaryOnly items\<rparr>))"

section \<open>Grouped runs\<close>

fun runSigner :: "settlementRunPayoutResult list \<Rightarrow> string \<times> string \<Rightarrow> string \<times> string" where
  "runSigner [] acc = acc"
| "runSigner (payout # payouts) (signerRole, signerAddress) = runSigner payouts
     (if TrimSpace (pr_SignerRole payout) \<noteq> [] then pr_SignerRole payout else signerRole,
      if signerAddress = [] \<and> TrimSpace (pr_SignerAddress payout) \<noteq> [] then pr_SignerAddress payout else signerAddress)"

definition summarizeSettlementRunSigner :: "settlementRunPayoutResult list \<Rightarrow> string \<times> string" where
  "summarizeSettlementRunSigner payouts =
     (case runSigner payouts (settlementSignerRole, []) of (signerRole, signerAddress) \<Rightarrow>
        if signerRole = settlementSignerRole \<and> signerAddress = [] \<and> payouts = [] then ([], []) else (signerRole, signerAddress))"

definition summarizeSettlementRunStoredResult :: "settlementRunStoredResult \<Rightarrow> settlementRunSummary" where
  "summarizeSettlementRunStoredResult record =
     (let response = rs_Response record; request = rs_Request record; signer = summarizeSettlementRunSigner (rr_Payouts response) in
      \<lparr>ru_SettlementRunID = nr_SettlementRunID request, ru_UpdatedAt = rs_UpdatedAt record, ru_Status = rr_Status response,
       ru_FailureCode = rr_FailureCode response, ru_Retryable = rr_Retryable response, ru_IdempotentReplay = rr_IdempotentReplay response,
       ru_SourceApp = nr_SourceApp request, ru_SourceEventID = nr_SourceEventID request, ru_Note = nr_Note request, ru_Memo = nr_Memo request,
       ru_SignerRole = fst signer, ru_SignerAddress = snd signer,
       ru_RequestedPayoutCount = rr_RequestedPayoutCount response, ru_ExecutedPayoutCount = rr_ExecutedPayoutCount response, ru_ConfirmedPayoutCount = rr_ConfirmedPayoutCount response,
       ru_AcceptedPayoutCount = rr_AcceptedPayoutCount response, ru_RefusedPayoutCount = rr_RefusedPayoutCount response, ru_RejectedPayoutCount = rr_RejectedPayoutCount response,
       ru_ReplayPayoutCount = rr_ReplayPayoutCount response, ru_RequestedTotalUWolo = rr_RequestedTotalUWolo response, ru_RequestedTotalWolo = rr_RequestedTotalWolo response,
       ru_ExecutedTotalUWolo = rr_ExecutedTotalUWolo response, ru_ExecutedTotalWolo = rr_ExecutedTotalWolo response, ru_ConfirmedTotalUWolo = rr_ConfirmedTotalUWolo response,
       ru_ConfirmedTotalWolo = rr_ConfirmedTotalWolo response, ru_AcceptedTotalUWolo = rr_AcceptedTotalUWolo response, ru_AcceptedTotalWolo = rr_AcceptedTotalWolo response,
       ru_RefusedTotalUWolo = rr_RefusedTotalUWolo response, ru_RefusedTotalWolo = rr_RefusedTotalWolo response, ru_RejectedTotalUWolo = rr_RejectedTotalUWolo response,
       ru_RejectedTotalWolo = rr_RejectedTotalWolo response, ru_Detail = rr_Detail response\<rparr>)"

definition runRecentItem :: "string \<Rightarrow> string \<Rightarrow> string \<Rightarrow> settlementRunStoredResult \<Rightarrow> settlementRunRecentItem option" where
  "runRecentItem statusFilter failureCodeFilter recordPath record =
     (if statusMatches statusFilter (rr_Status (rs_Response record)) \<and> failureCodeMatches failureCodeFilter (rr_FailureCode (rs_Response record))
      then Some \<lparr>re_SettlementRunID = nr_SettlementRunID (rs_Request record), re_RunPath = recordPath, re_UpdatedAt = rs_UpdatedAt record,
             re_Summary = summarizeSettlementRunStoredResult record, re_Record = record\<rparr>
      else None)"

definition listRecentSettlementRuns :: "settlementConfig \<Rightarrow> 'c world \<Rightarrow> dirEntries \<Rightarrow> int \<Rightarrow> string \<Rightarrow> string
    \<Rightarrow> (string + settlementRunRecentItem list) option" where
  "listRecentSettlementRuns cfg w listing limit statusFilter failureCodeFilter =
     listRecords ''settlement run record'' (\<lambda>path. readSettlementRunStoredResult path w) (runRecentItem statusFilter failureCodeFilter) re_UpdatedAt
       (JoinPath [cfg_StateDir cfg, ''runs'']) listing limit"

definition countRunItem :: "settlementRunRecentItem \<Rightarrow> settlementRunRecentSummary \<Rightarrow> settlementRunRecentSummary" where
  "countRunItem item summary =
     (let s = re_Summary item in
      summary\<lparr>rx_FailedCount := bump (ru_Status s = ''failed'') (rx_FailedCount summary),
        rx_PartialCount := bump (ru_Status s = ''partial'') (rx_PartialCount summary),
        rx_ConfirmedCount := bump (ru_Status s = ''confirmed'') (rx_ConfirmedCount summary),
        rx_AcceptedCount := bump (ru_Status s = ''accepted'') (rx_AcceptedCount summary),
        rx_ReplayCount := bump (ru_IdempotentReplay s) (rx_ReplayCount summary),
        rx_RetryableCount := bump (ru_Retryable s) (rx_RetryableCount summary),
        rx_FailureCodes := countCode (ru_FailureCode s) (rx_FailureCodes summary)\<rparr>)"

definition summarizeSettlementRunRecentItems :: "int \<Rightarrow> string \<Rightarrow> string \<Rightarrow> settlementRunRecentItem list \<Rightarrow> settlementRunRecentSummary" where
  "summarizeSettlementRunRecentItems limit statusFilter failureCodeFilter items = fold countRunItem items
     (zero_settlementRunRecentSummary\<lparr>rx_RequestedLimit := limit, rx_Returned := length items, rx_StatusFilter := statusFilter,
        rx_FailureCodeFilter := failureCodeFilter\<rparr>)"

definition optionalSettlementRunRecord :: "bool \<Rightarrow> settlementRunStoredResult \<Rightarrow> settlementRunStoredResult option" where
  "optionalSettlementRunRecord summaryOnly record = (if summaryOnly then None else Some record)"

definition optionalSettlementRunRecentItems :: "bool \<Rightarrow> settlementRunRecentItem list \<Rightarrow> settlementRunRecentItem list" where
  "optionalSettlementRunRecentItems summaryOnly items = (if summaryOnly then [] else items)"

definition newSettlementRunInspectCmd :: "string + settlementConfig \<Rightarrow> string \<Rightarrow> bool \<Rightarrow> 'c world \<Rightarrow> string + settlementRunInspectResponse" where
  "newSettlementRunInspectCmd loaded runID0 summaryOnly w =
     (case loaded of
        Inl err \<Rightarrow> Inl err
      | Inr cfg \<Rightarrow>
          let runID = TrimSpace runID0; recordPath = runRecordPath cfg runID in
          if runID = [] then Inl ''--run-id is required''
          else case readSettlementRunStoredResult recordPath w of
            NotExist \<Rightarrow> Inr (zero_settlementRunInspectResponse\<lparr>ri_Found := False, ri_SettlementRunID := runID\<rparr>)
          | ReadFailed err \<Rightarrow> Inl err
          | ReadOK record \<Rightarrow> Inr \<lparr>ri_Found = True, ri_SettlementRunID = runID, ri_RunPath = recordPath,
              ri_Summary = Some (summarizeSettlementRunStoredResult record), ri_Record = optionalSettlementRunRecord summaryOnly record\<rparr>)"

definition newSettlementRunRecentCmd :: "string + settlementConfig \<Rightarrow> int \<Rightarrow> string \<Rightarrow> string \<Rightarrow> bool \<Rightarrow> dirEntries \<Rightarrow> 'c world
    \<Rightarrow> (string + settlementRunRecentResponse) option" where
  "newSettlementRunRecentCmd loaded limit status0 failureCode0 summaryOnly listing w =
     (case loaded of
        Inl err \<Rightarrow> Some (Inl err)
      | Inr cfg \<Rightarrow>
          let status = TrimSpace (ToLower status0); failureCode = TrimSpace (ToUpper failureCode0) in
          if status \<notin> {'''', ''all'', ''failed'', ''partial'', ''confirmed'', ''accepted''}
          then Some (Inl ''--status must be one of all, failed, partial, confirmed, accepted'')
          else if limit \<le> 0 then Some (Inl ''--limit must be greater than zero'')
          else case listRecentSettlementRuns cfg w listing limit status failureCode of
            None \<Rightarrow> None
          | Some (Inl err) \<Rightarrow> Some (Inl err)
          | Some (Inr items) \<Rightarrow> Some (Inr \<lparr>rl_Count = length items, rl_Summary = summarizeSettlementRunRecentItems limit status failureCode items,
              rl_Items = optionalSettlementRunRecentItems summaryOnly items\<rparr>))"

section \<open>Challenge settlements\<close>

definition summarizeSettlementChallengeStoredResult :: "settlementChallengeStoredResult \<Rightarrow> settlementChallengeSummary" where
  "summarizeSettlementChallengeStoredResult record =
     (let response = cs_Response record; request = cs_Request record;
          executed = (case cr_TopUp response of None \<Rightarrow> None | Some topUp \<Rightarrow> tu_Response topUp) in
      \<lparr>cu_SettlementRunID = nc_SettlementRunID request, cu_UpdatedAt = cs_UpdatedAt record, cu_Status = cr_Status response,
       cu_FailureCode = cr_FailureCode response, cu_Retryable = cr_Retryable response, cu_IdempotentReplay = cr_IdempotentReplay response,
       cu_SourceApp = nc_SourceApp request, cu_ChallengeID = nc_ChallengeID request, cu_SourceEventID = nc_SourceEventID request,
       cu_TreasuryAddress = nc_TreasuryAddress request, cu_ParticipantCount = cr_ParticipantCount response,
       cu_FundingVerifiedCount = cr_FundingVerifiedCount response,
       cu_RequestedTransferCount = cr_RequestedTransferCount response, cu_ExecutedTransferCount = cr_ExecutedTransferCount response, cu_ConfirmedTransferCount = cr_ConfirmedTransferCount response,
       cu_AcceptedTransferCount = cr_AcceptedTransferCount response, cu_RefusedTransferCount = cr_RefusedTransferCount response, cu_RejectedTransferCount = cr_RejectedTransferCount response,
       cu_ReplayTransferCount = cr_ReplayTransferCount response, cu_FundingTotalUWolo = cr_FundingTotalUWolo response, cu_RequestedTotalUWolo = cr_RequestedTotalUWolo response,
       cu_TopUpRequired = (case cr_TopUp response of None \<Rightarrow> False | Some topUp \<Rightarrow> tu_Required topUp),
       cu_TopUpExecuted = (case executed of None \<Rightarrow> False | Some r \<Rightarrow> xr_OK r),
       cu_TopUpTxHash = (case executed of None \<Rightarrow> [] | Some r \<Rightarrow> xr_TxHash r), cu_Detail = cr_Detail response\<rparr>)"

definition challengeRecentItem :: "string \<Rightarrow> string \<Rightarrow> string \<Rightarrow> settlementChallengeStoredResult \<Rightarrow> settlementChallengeRecentItem option" where
  "challengeRecentItem statusFilter failureCodeFilter recordPath record =
     (if statusMatches statusFilter (cr_Status (cs_Response record)) \<and> failureCodeMatches failureCodeFilter (cr_FailureCode (cs_Response record))
      then Some \<lparr>ce_SettlementRunID = nc_SettlementRunID (cs_Request record), ce_ChallengePath = recordPath, ce_UpdatedAt = cs_UpdatedAt record,
             ce_Summary = summarizeSettlementChallengeStoredResult record, ce_Record = record\<rparr>
      else None)"

definition listRecentSettlementChallenges :: "settlementConfig \<Rightarrow> 'c world \<Rightarrow> dirEntries \<Rightarrow> int \<Rightarrow> string \<Rightarrow> string
    \<Rightarrow> (string + settlementChallengeRecentItem list) option" where
  "listRecentSettlementChallenges cfg w listing limit statusFilter failureCodeFilter =
     listRecords ''challenge settlement record'' (\<lambda>path. readSettlementChallengeStoredResult path w)
       (challengeRecentItem statusFilter failureCodeFilter) ce_UpdatedAt (JoinPath [cfg_StateDir cfg, ''challenge-settlements'']) listing limit"

definition countChallengeItem :: "settlementChallengeRecentItem \<Rightarrow> settlementChallengeRecentSummary \<Rightarrow> settlementChallengeRecentSummary" where
  "countChallengeItem item summary =
     (let s = ce_Summary item in
      summary\<lparr>ch_FailedCount := bump (cu_Status s = ''failed'') (ch_FailedCount summary),
        ch_PartialCount := bump (cu_Status s = ''partial'') (ch_PartialCount summary),
        ch_ConfirmedCount := bump (cu_Status s = ''confirmed'') (ch_ConfirmedCount summary),
        ch_AcceptedCount := bump (cu_Status s = ''accepted'') (ch_AcceptedCount summary),
        ch_ReplayCount := bump (cu_IdempotentReplay s) (ch_ReplayCount summary),
        ch_RetryableCount := bump (cu_Retryable s) (ch_RetryableCount summary),
        ch_FailureCodes := countCode (cu_FailureCode s) (ch_FailureCodes summary)\<rparr>)"

definition summarizeSettlementChallengeRecentItems :: "int \<Rightarrow> string \<Rightarrow> string \<Rightarrow> settlementChallengeRecentItem list
    \<Rightarrow> settlementChallengeRecentSummary" where
  "summarizeSettlementChallengeRecentItems limit statusFilter failureCodeFilter items = fold countChallengeItem items
     (zero_settlementChallengeRecentSummary\<lparr>ch_RequestedLimit := limit, ch_Returned := length items, ch_StatusFilter := statusFilter,
        ch_FailureCodeFilter := failureCodeFilter\<rparr>)"

definition optionalSettlementChallengeRecentItems :: "bool \<Rightarrow> settlementChallengeRecentItem list \<Rightarrow> settlementChallengeRecentItem list" where
  "optionalSettlementChallengeRecentItems summaryOnly items = (if summaryOnly then [] else items)"

definition inspectSettlementChallenge :: "settlementConfig \<Rightarrow> string \<Rightarrow> 'c world \<Rightarrow> string + settlementChallengeInspectResponse" where
  "inspectSettlementChallenge cfg settlementID0 w =
     (let settlementID = TrimSpace settlementID0; recordPath = challengeRecordPath cfg settlementID in
      if settlementID = [] then Inl ''settlement id is required''
      else case readSettlementChallengeStoredResult recordPath w of
        NotExist \<Rightarrow> Inr (zero_settlementChallengeInspectResponse\<lparr>ci_Found := False, ci_SettlementRunID := settlementID\<rparr>)
      | ReadFailed err \<Rightarrow> Inl err
      | ReadOK record \<Rightarrow> Inr \<lparr>ci_Found = True, ci_SettlementRunID = settlementID, ci_ChallengePath = recordPath,
          ci_Summary = Some (summarizeSettlementChallengeStoredResult record), ci_Record = Some record\<rparr>)"

definition newSettlementChallengeInspectCmd :: "string + settlementConfig \<Rightarrow> string \<Rightarrow> bool \<Rightarrow> 'c world
    \<Rightarrow> string + settlementChallengeInspectResponse" where
  "newSettlementChallengeInspectCmd loaded settlementID summaryOnly w =
     (case loaded of
        Inl err \<Rightarrow> Inl err
      | Inr cfg \<Rightarrow>
          (case inspectSettlementChallenge cfg settlementID w of
             Inl err \<Rightarrow> Inl err
           | Inr response \<Rightarrow> Inr (if summaryOnly then response\<lparr>ci_Record := None\<rparr> else response)))"

definition newSettlementChallengeRecentCmd :: "string + settlementConfig \<Rightarrow> int \<Rightarrow> string \<Rightarrow> string \<Rightarrow> bool \<Rightarrow> dirEntries \<Rightarrow> 'c world
    \<Rightarrow> (string + settlementChallengeRecentResponse) option" where
  "newSettlementChallengeRecentCmd loaded limit status0 failureCode0 summaryOnly listing w =
     (case loaded of
        Inl err \<Rightarrow> Some (Inl err)
      | Inr cfg \<Rightarrow>
          let status = TrimSpace (ToLower status0); failureCode = TrimSpace (ToUpper failureCode0) in
          if status \<notin> {'''', ''all'', ''failed'', ''partial'', ''confirmed'', ''accepted''}
          then Some (Inl ''--status must be one of all, failed, partial, confirmed, accepted'')
          else if limit \<le> 0 then Some (Inl ''--limit must be greater than zero'')
          else case listRecentSettlementChallenges cfg w listing limit status failureCode of
            None \<Rightarrow> None
          | Some (Inl err) \<Rightarrow> Some (Inl err)
          | Some (Inr items) \<Rightarrow> Some (Inr \<lparr>cl_Count = length items, cl_Summary = summarizeSettlementChallengeRecentItems limit status failureCode items,
              cl_Items = optionalSettlementChallengeRecentItems summaryOnly items\<rparr>))"

end
