(* ===== verification/Config.thy ===== *)
theory Config
  imports Health Paths
begin

text \<open>
  The configuration of the settlement service (settlement.go, lines 1524--1607 and 4636--4760;
  settlement_challenge.go, lines 2648--2656): environment variables with their fallbacks, canonical
  chain identifiers that may not be changed, and fixed timeouts in nanoseconds.

  What the operating system answers is a record of type \<open>osEnv\<close>: the environment variables (empty when
  unset), the path of the executable or an error, the user's home directory if there is one, and the
  default node home that the application package computes.
\<close>

record osEnv =
  os_Getenv :: "string \<Rightarrow> string"
  os_Executable :: "string + string"
  os_UserHomeDir :: "string option"
  os_DefaultNodeHome :: string

section \<open>Environment variables\<close>

definition getenvDefault :: "osEnv \<Rightarrow> string \<Rightarrow> string \<Rightarrow> string" where
  "getenvDefault os key fallback = (let value = TrimSpace (os_Getenv os key) in if value = [] then fallback else value)"

fun getenvFirst :: "osEnv \<Rightarrow> string list \<Rightarrow> string" where
  "getenvFirst os [] = []"
| "getenvFirst os (key # keys) = (let value = TrimSpace (os_Getenv os key) in if value \<noteq> [] then value else getenvFirst os keys)"

definition parseOptionalUWoloEnv :: "osEnv \<Rightarrow> string \<Rightarrow> string + u64" where
  "parseOptionalUWoloEnv os key =
     (let value = TrimSpace (os_Getenv os key) in
      if value = [] then Inr 0
      else case ParseUint value of Inl _ \<Rightarrow> Inl (key @ '' must be a positive integer uwolo amount'') | Inr amount \<Rightarrow> Inr amount)"

definition parseBoolEnv :: "osEnv \<Rightarrow> string \<Rightarrow> bool" where
  "parseBoolEnv os key \<longleftrightarrow> TrimSpace (ToLower (os_Getenv os key)) \<in> {''1'', ''true'', ''yes'', ''on''}"

definition normalizeHTTPURL :: "string \<Rightarrow> string \<Rightarrow> string" where
  "normalizeHTTPURL raw fallback =
     (let value = TrimSpace raw;
          value = (if value = [] then fallback else value);
          value = TrimRight value ''/'';
          value = (if prefix ''tcp://'' value then ''http://'' @ TrimPrefix value ''tcp://'' else value)
      in if \<not> prefix ''http://'' value \<and> \<not> prefix ''https://'' value then ''http://'' @ value else value)"

definition expandHome :: "osEnv \<Rightarrow> string \<Rightarrow> string" where
  "expandHome os path0 =
     (let path = TrimSpace path0 in
      if path = [] \<or> hd path \<noteq> CHR ''~'' then path
      else case os_UserHomeDir os of
        None \<Rightarrow> path
      | Some home \<Rightarrow> if path = ''~'' then home else JoinPath [home, TrimPrefix path ''~/''])"

section \<open>Loading\<close>

definition driftError :: "settlementConfig \<Rightarrow> string" where
  "driftError cfg = ''settlement config drift detected: chain='' @ cfg_ChainID cfg @ '' denom='' @ cfg_BaseDenom cfg @ ''/'' @
     cfg_DisplayDenom cfg @ '' prefix='' @ cfg_AddressPrefix cfg"

definition configFromEnv :: "osEnv \<Rightarrow> string \<Rightarrow> u64 \<Rightarrow> u64 \<Rightarrow> u64 \<Rightarrow> u64 \<Rightarrow> settlementConfig" where
  "configFromEnv os executablePath minPayoutBalanceUWolo feeHeadroomUWolo minEscrowBalanceUWolo escrowFeeHeadroomUWolo =
     (let home = getenvFirst os [''WOLO_SETTLEMENT_HOME'', ''WOLO_HOME''];
          homeDir = expandHome os (if home = [] then os_DefaultNodeHome os else home);
          publicREST = TrimSpace (getenvFirst os [''WOLO_SETTLEMENT_PUBLIC_REST_URL'', ''WOLO_PUBLIC_REST_URL'']) in
      \<lparr>cfg_ExecutablePath = executablePath, cfg_HomeDir = homeDir,
       cfg_KeyringBackend = getenvDefault os ''WOLO_SETTLEMENT_KEYRING_BACKEND'' ''os'',
       cfg_KeyringDir = expandHome os (os_Getenv os ''WOLO_SETTLEMENT_KEYRING_DIR''),
       cfg_NodeAddr = getenvDefault os ''WOLO_SETTLEMENT_NODE'' settlementDefaultNode,
       cfg_RPCHTTP = normalizeHTTPURL (getenvFirst os [''WOLO_SETTLEMENT_RPC_HTTP'', ''WOLO_SETTLEMENT_RPC_URL'', ''WOLO_RPC_URL'']) settlementDefaultRPC,
       cfg_RESTURL = normalizeHTTPURL (getenvFirst os [''WOLO_SETTLEMENT_REST_URL'', ''WOLO_REST_URL'']) settlementDefaultREST,
       cfg_PublicRESTURL = (if publicREST \<noteq> [] then normalizeHTTPURL publicREST [] else publicREST),
       cfg_ChainID = getenvDefault os ''WOLO_SETTLEMENT_CHAIN_ID'' settlementCanonicalChainID,
       cfg_BaseDenom = getenvDefault os ''WOLO_SETTLEMENT_BASE_DENOM'' settlementCanonicalBaseDenom,
       cfg_DisplayDenom = getenvDefault os ''WOLO_SETTLEMENT_DISPLAY_DENOM'' settlementCanonicalDisplayDenom,
       cfg_AddressPrefix = getenvDefault os ''WOLO_SETTLEMENT_ADDRESS_PREFIX'' settlementCanonicalPrefix,
       cfg_PayoutKeyName = TrimSpace (os_Getenv os ''WOLO_SETTLEMENT_PAYOUT_KEY_NAME''),
       cfg_PayoutAddress = TrimSpace (os_Getenv os ''WOLO_SETTLEMENT_PAYOUT_ADDRESS''),
       cfg_EscrowKeyName = TrimSpace (getenvDefault os ''WOLO_SETTLEMENT_ESCROW_KEY_NAME'' ''escrow''),
       cfg_EscrowAddress = TrimSpace (getenvFirst os [''WOLO_SETTLEMENT_ESCROW_ADDRESS'', ''WOLO_BET_ESCROW_ADDRESS'']),
       cfg_TreasuryAddress = TrimSpace (os_Getenv os ''WOLO_SETTLEMENT_TREASURY_ADDRESS''),
       cfg_EscrowAutoTopUp = parseBoolEnv os ''WOLO_SETTLEMENT_ESCROW_AUTO_TOP_UP_ENABLED'',
       cfg_BroadcastMode = getenvDefault os ''WOLO_SETTLEMENT_BROADCAST_MODE'' ''sync'',
       cfg_Gas = getenvDefault os ''WOLO_SETTLEMENT_GAS'' ''auto'',
       cfg_GasAdjustment = getenvDefault os ''WOLO_SETTLEMENT_GAS_ADJUSTMENT'' ''1.5'',
       cfg_GasPrices = getenvDefault os ''WOLO_SETTLEMENT_GAS_PRICES'' settlementDefaultGasPrices,
       cfg_Fees = TrimSpace (os_Getenv os ''WOLO_SETTLEMENT_FEES''),
       cfg_MinPayoutBalanceUWolo = minPayoutBalanceUWolo, cfg_FeeHeadroomUWolo = feeHeadroomUWolo,
       cfg_MinEscrowBalanceUWolo = minEscrowBalanceUWolo, cfg_EscrowFeeHeadroomUWolo = escrowFeeHeadroomUWolo,
       cfg_StateDir = expandHome os (getenvDefault os ''WOLO_SETTLEMENT_STATE_DIR'' (JoinPath [homeDir, ''settlement''])),
       cfg_ListenAddr = getenvDefault os ''WOLO_SETTLEMENT_LISTEN_ADDR'' settlementDefaultListenAddr,
       cfg_AuthToken = TrimSpace (os_Getenv os ''WOLO_SETTLEMENT_AUTH_TOKEN''),
       cfg_RequestLockTTL = 120000000000, cfg_RequestTimeout = 30000000000, cfg_LookupTimeout = 10000000000,
       cfg_HealthTimeout = 5000000000, cfg_ConfirmTimeout = 12000000000, cfg_ConfirmInterval = 250000000\<rparr>)"

definition canonicalConfig :: "settlementConfig \<Rightarrow> bool" where
  "canonicalConfig cfg \<longleftrightarrow> cfg_BaseDenom cfg = settlementCanonicalBaseDenom \<and> cfg_DisplayDenom cfg = settlementCanonicalDisplayDenom \<and>
     cfg_AddressPrefix cfg = settlementCanonicalPrefix \<and> cfg_ChainID cfg = settlementCanonicalChainID"

definition loadSettlementConfig :: "osEnv \<Rightarrow> string + settlementConfig" where
  "loadSettlementConfig os =
     (case os_Executable os of
        Inl err \<Rightarrow> Inl err
      | Inr executablePath \<Rightarrow>
        (case parseOptionalUWoloEnv os ''WOLO_SETTLEMENT_MIN_PAYOUT_BALANCE_UWOLO'' of
           Inl err \<Rightarrow> Inl err
         | Inr minPayout \<Rightarrow>
           (case parseOptionalUWoloEnv os ''WOLO_SETTLEMENT_FEE_HEADROOM_UWOLO'' of
              Inl err \<Rightarrow> Inl err
            | Inr feeHeadroom \<Rightarrow>
              (case parseOptionalUWoloEnv os ''WOLO_SETTLEMENT_MIN_ESCROW_BALANCE_UWOLO'' of
                 Inl err \<Rightarrow> Inl err
               | Inr minEscrow \<Rightarrow>
                 (case parseOptionalUWoloEnv os ''WOLO_SETTLEMENT_ESCROW_FEE_HEADROOM_UWOLO'' of
                    Inl err \<Rightarrow> Inl err
                  | Inr escrowHeadroom \<Rightarrow>
                      let cfg = configFromEnv os executablePath minPayout feeHeadroom minEscrow escrowHeadroom in
                      if \<not> canonicalConfig cfg then Inl (driftError cfg) else Inr cfg)))))"

section \<open>Loaded configurations\<close>

lemma normalizeHTTPURL_scheme: "prefix ''http://'' (normalizeHTTPURL raw fallback) \<or> prefix ''https://'' (normalizeHTTPURL raw fallback)"
  by (auto simp: normalizeHTTPURL_def Let_def)

lemma normalizeHTTPURL_optional:
  "(if url \<noteq> [] then normalizeHTTPURL url [] else url) = [] \<or> prefix ''http://'' (if url \<noteq> [] then normalizeHTTPURL url [] else url) \<or>
     prefix ''https://'' (if url \<noteq> [] then normalizeHTTPURL url [] else url)"
  using normalizeHTTPURL_scheme [of url "[]"] by (cases "url = []") simp_all

text \<open>What every operation of the service can take for granted of its configuration.\<close>

definition wfConfig :: "settlementConfig \<Rightarrow> bool" where
  "wfConfig cfg \<longleftrightarrow> canonicalConfig cfg \<and>
     (\<forall>url \<in> {cfg_RPCHTTP cfg, cfg_RESTURL cfg}. prefix ''http://'' url \<or> prefix ''https://'' url) \<and>
     (cfg_PublicRESTURL cfg = [] \<or> prefix ''http://'' (cfg_PublicRESTURL cfg) \<or> prefix ''https://'' (cfg_PublicRESTURL cfg)) \<and>
     (\<forall>s \<in> {cfg_PayoutKeyName cfg, cfg_PayoutAddress cfg, cfg_EscrowKeyName cfg, cfg_EscrowAddress cfg, cfg_TreasuryAddress cfg,
        cfg_AuthToken cfg}. TrimSpace s = s) \<and>
     cfg_EscrowKeyName cfg \<noteq> [] \<and> cfg_ListenAddr cfg \<noteq> [] \<and>
     0 < cfg_ConfirmInterval cfg \<and> cfg_ConfirmInterval cfg < cfg_ConfirmTimeout cfg \<and>
     cfg_ConfirmTimeout cfg < cfg_RequestTimeout cfg \<and> cfg_RequestTimeout cfg < cfg_RequestLockTTL cfg"

lemma getenvDefault_nonempty: "fallback \<noteq> [] \<Longrightarrow> getenvDefault os key fallback \<noteq> []"
  by (simp add: getenvDefault_def Let_def)

lemma getenvDefault_trimmed: "TrimSpace fallback = fallback \<Longrightarrow> TrimSpace (getenvDefault os key fallback) = getenvDefault os key fallback"
  by (simp add: getenvDefault_def Let_def)

lemma configFromEnv_urls:
  fixes os executablePath a b c d
  defines "cfg \<equiv> configFromEnv os executablePath a b c d"
  shows "prefix ''http://'' (cfg_RPCHTTP cfg) \<or> prefix ''https://'' (cfg_RPCHTTP cfg)"
    "prefix ''http://'' (cfg_RESTURL cfg) \<or> prefix ''https://'' (cfg_RESTURL cfg)"
    "cfg_PublicRESTURL cfg = [] \<or> prefix ''http://'' (cfg_PublicRESTURL cfg) \<or> prefix ''https://'' (cfg_PublicRESTURL cfg)"
  unfolding cfg_def configFromEnv_def Let_def settlementConfig.simps 
  by (rule normalizeHTTPURL_scheme normalizeHTTPURL_optional)+

lemma configFromEnv_trimmed:
  fixes os executablePath a b c d
  defines "cfg \<equiv> configFromEnv os executablePath a b c d"
  shows "TrimSpace (cfg_PayoutKeyName cfg) = cfg_PayoutKeyName cfg" "TrimSpace (cfg_PayoutAddress cfg) = cfg_PayoutAddress cfg"
    "TrimSpace (cfg_EscrowKeyName cfg) = cfg_EscrowKeyName cfg" "TrimSpace (cfg_EscrowAddress cfg) = cfg_EscrowAddress cfg"
    "TrimSpace (cfg_TreasuryAddress cfg) = cfg_TreasuryAddress cfg" "TrimSpace (cfg_AuthToken cfg) = cfg_AuthToken cfg"
  unfolding cfg_def configFromEnv_def Let_def settlementConfig.simps by (rule TrimSpace_idem)+

lemma configFromEnv_timeouts:
  fixes os executablePath a b c d
  defines "cfg \<equiv> configFromEnv os executablePath a b c d"
  shows "cfg_ConfirmInterval cfg = 250000000" "cfg_ConfirmTimeout cfg = 12000000000" "cfg_RequestTimeout cfg = 30000000000"
    "cfg_RequestLockTTL cfg = 120000000000"
  unfolding cfg_def configFromEnv_def Let_def settlementConfig.simps by (rule refl)+

lemma configFromEnv_names:
  fixes os executablePath a b c d
  defines "cfg \<equiv> configFromEnv os executablePath a b c d"
  shows "cfg_EscrowKeyName cfg \<noteq> []" "cfg_ListenAddr cfg \<noteq> []"
proof -
  have escrow: "TrimSpace ''escrow'' = ''escrow''" by (simp add: go_eval)
  show "cfg_EscrowKeyName cfg \<noteq> []"
    unfolding cfg_def configFromEnv_def Let_def settlementConfig.simps getenvDefault_trimmed [OF escrow] by (rule getenvDefault_nonempty) simp
  show "cfg_ListenAddr cfg \<noteq> []"
    unfolding cfg_def configFromEnv_def Let_def settlementConfig.simps
    by (rule getenvDefault_nonempty) (simp add: settlementDefaultListenAddr_def)
qed

lemma configFromEnv_wf:
  assumes "canonicalConfig (configFromEnv os executablePath a b c d)"
  shows "wfConfig (configFromEnv os executablePath a b c d)"
  using assms configFromEnv_urls [of os executablePath a b c d] configFromEnv_trimmed [of os executablePath a b c d]
    configFromEnv_names [of os executablePath a b c d]
  unfolding wfConfig_def configFromEnv_timeouts by simp

lemma loadSettlementConfig_Inr:
  assumes "loadSettlementConfig os = Inr cfg"
  obtains executablePath a b c d where "cfg = configFromEnv os executablePath a b c d" "canonicalConfig cfg"
  using assms by (auto simp: loadSettlementConfig_def Let_def split: sum.splits if_splits)

end
