(* ===== verification/Audit_Types.thy ===== *)
theory Audit_Types
  imports Challenge_Types
begin

text \<open>
  The data of the challenge audit (cmd/wolochaind/cmd/settlement_challenge_audit.go, lines 15--104,
  321--325 and 433--438), by the same conventions as in \<open>Settlement_Types\<close>.
\<close>

record settlementChallengeAuditSummary =
  au_SourceApp :: string
  au_ChallengeID :: string
  au_SourceEventID :: string
  au_TreasuryAddress :: string
  au_FundingCount :: nat
  au_FundingVerifiedCount :: nat
  au_FundingTotalUWolo :: string
  au_WagerFundedUWolo :: string
  au_GuaranteeFundedUWolo :: string
  au_RequestedTransferCount :: nat
  au_TransferTxCheckedCount :: nat
  au_RequestedTotalUWolo :: string
  au_WagerTransferUWolo :: string
  au_GuaranteeTransferUWolo :: string
  au_TreasuryTransferUWolo :: string
  au_TopUpRequired :: bool
  au_TopUpAmountUWolo :: string
  au_TopUpTxChecked :: bool
  au_StoredStatus :: string
  au_StoredFailureCode :: string
  au_StoredConfirmedTotalUWolo :: string

definition zero_settlementChallengeAuditSummary :: settlementChallengeAuditSummary where
  "zero_settlementChallengeAuditSummary = \<lparr>au_SourceApp = '''', au_ChallengeID = '''', au_SourceEventID = '''',
     au_TreasuryAddress = '''', au_FundingCount = 0, au_FundingVerifiedCount = 0,
     au_FundingTotalUWolo = '''', au_WagerFundedUWolo = '''', au_GuaranteeFundedUWolo = '''',
     au_RequestedTransferCount = 0, au_TransferTxCheckedCount = 0, au_RequestedTotalUWolo = '''',
     au_WagerTransferUWolo = '''', au_GuaranteeTransferUWolo = '''', au_TreasuryTransferUWolo = '''',
     au_TopUpRequired = False, au_TopUpAmountUWolo = '''', au_TopUpTxChecked = False,
     au_StoredStatus = '''', au_StoredFailureCode = '''', au_StoredConfirmedTotalUWolo = ''''\<rparr>"

lemma zero_settlementChallengeAuditSummary_sel [simp, zero_simps]:
  "au_SourceApp zero_settlementChallengeAuditSummary = ''''"
  "au_ChallengeID zero_settlementChallengeAuditSummary = ''''"
  "au_SourceEventID zero_settlementChallengeAuditSummary = ''''"
  "au_TreasuryAddress zero_settlementChallengeAuditSummary = ''''"
  "au_FundingCount zero_settlementChallengeAuditSummary = 0"
  "au_FundingVerifiedCount zero_settlementChallengeAuditSummary = 0"
  "au_FundingTotalUWolo zero_settlementChallengeAuditSummary = ''''"
  "au_WagerFundedUWolo zero_settlementChallengeAuditSummary = ''''"
  "au_GuaranteeFundedUWolo zero_settlementChallengeAuditSummary = ''''"
  "au_RequestedTransferCount zero_settlementChallengeAuditSummary = 0"
  "au_TransferTxCheckedCount zero_settlementChallengeAuditSummary = 0"
  "au_RequestedTotalUWolo zero_settlementChallengeAuditSummary = ''''"
  "au_WagerTransferUWolo zero_settlementChallengeAuditSummary = ''''"
  "au_GuaranteeTransferUWolo zero_settlementChallengeAuditSummary = ''''"
  "au_TreasuryTransferUWolo zero_settlementChallengeAuditSummary = ''''"
  "au_TopUpRequired zero_settlementChallengeAuditSummary = False"
  "au_TopUpAmountUWolo zero_settlementChallengeAuditSummary = ''''"
  "au_TopUpTxChecked zero_settlementChallengeAuditSummary = False"
  "au_StoredStatus zero_settlementChallengeAuditSummary = ''''"
  "au_StoredFailureCode zero_settlementChallengeAuditSummary = ''''"
  "au_StoredConfirmedTotalUWolo zero_settlementChallengeAuditSummary = ''''"
  by (simp_all add: zero_settlementChallengeAuditSummary_def)

record settlementChallengeAuditCheck =
  ac_Name :: string
  ac_OK :: bool
  ac_FailureCode :: string
  ac_Detail :: string
  ac_Expected :: string
  ac_Actual :: string

definition zero_settlementChallengeAuditCheck :: settlementChallengeAuditCheck where
  "zero_settlementChallengeAuditCheck = \<lparr>ac_Name = '''', ac_OK = False, ac_FailureCode = '''',
     ac_Detail = '''', ac_Expected = '''', ac_Actual = ''''\<rparr>"

lemma zero_settlementChallengeAuditCheck_sel [simp, zero_simps]:
  "ac_Name zero_settlementChallengeAuditCheck = ''''"
  "ac_OK zero_settlementChallengeAuditCheck = False"
  "ac_FailureCode zero_settlementChallengeAuditCheck = ''''"
  "ac_Detail zero_settlementChallengeAuditCheck = ''''"
  "ac_Expected zero_settlementChallengeAuditCheck = ''''"
  "ac_Actual zero_settlementChallengeAuditCheck = ''''"
  by (simp_all add: zero_settlementChallengeAuditCheck_def)

record settlementChallengeAuditFunding =
  af_Index :: nat
  af_OK :: bool
  af_FailureCode :: string
  af_Detail :: string
  af_FundingTxHash :: string
  af_StoredFunding :: "settlementChallengeFundingResult option"
  af_VerifiedFunding :: "settlementChallengeFundingResult option"

definition zero_settlementChallengeAuditFunding :: settlementChallengeAuditFunding where
  "zero_settlementChallengeAuditFunding = \<lparr>af_Index = 0, af_OK = False, af_FailureCode = '''',
     af_Detail = '''', af_FundingTxHash = '''', af_StoredFunding = None,
     af_VerifiedFunding = None\<rparr>"

lemma zero_settlementChallengeAuditFunding_sel [simp, zero_simps]:
  "af_Index zero_settlementChallengeAuditFunding = 0"
  "af_OK zero_settlementChallengeAuditFunding = False"
  "af_FailureCode zero_settlementChallengeAuditFunding = ''''"
  "af_Detail zero_settlementChallengeAuditFunding = ''''"
  "af_FundingTxHash zero_settlementChallengeAuditFunding = ''''"
  "af_StoredFunding zero_settlementChallengeAuditFunding = None"
  "af_VerifiedFunding zero_settlementChallengeAuditFunding = None"
  by (simp_all add: zero_settlementChallengeAuditFunding_def)

record settlementChallengeAuditTransfer =
  ax_Index :: nat
  ax_RequestID :: string
  ax_Bucket :: string
  ax_Reason :: string
  ax_Status :: string
  ax_Outcome :: string
  ax_OK :: bool
  ax_FailureCode :: string
  ax_Detail :: string
  ax_SignerAddress :: string
  ax_ToAddress :: string
  ax_AmountUWolo :: string
  ax_Memo :: string
  ax_TxHash :: string
  ax_StatePath :: string
  ax_TxLookup :: "settlementLookupResponse option"

definition zero_settlementChallengeAuditTransfer :: settlementChallengeAuditTransfer where
  "zero_settlementChallengeAuditTransfer = \<lparr>ax_Index = 0, ax_RequestID = '''', ax_Bucket = '''',
     ax_Reason = '''', ax_Status = '''', ax_Outcome = '''',
     ax_OK = False, ax_FailureCode = '''', ax_Detail = '''',
     ax_SignerAddress = '''', ax_ToAddress = '''', ax_AmountUWolo = '''',
     ax_Memo = '''', ax_TxHash = '''', ax_StatePath = '''',
     ax_TxLookup = None\<rparr>"

lemma zero_settlementChallengeAuditTransfer_sel [simp, zero_simps]:
  "ax_Index zero_settlementChallengeAuditTransfer = 0"
  "ax_RequestID zero_settlementChallengeAuditTransfer = ''''"
  "ax_Bucket zero_settlementChallengeAuditTransfer = ''''"
  "ax_Reason zero_settlementChallengeAuditTransfer = ''''"
  "ax_Status zero_settlementChallengeAuditTransfer = ''''"
  "ax_Outcome zero_settlementChallengeAuditTransfer = ''''"
  "ax_OK zero_settlementChallengeAuditTransfer = False"
  "ax_FailureCode zero_settlementChallengeAuditTransfer = ''''"
  "ax_Detail zero_settlementChallengeAuditTransfer = ''''"
  "ax_SignerAddress zero_settlementChallengeAuditTransfer = ''''"
  "ax_ToAddress zero_settlementChallengeAuditTransfer = ''''"
  "ax_AmountUWolo zero_settlementChallengeAuditTransfer = ''''"
  "ax_Memo zero_settlementChallengeAuditTransfer = ''''"
  "ax_TxHash zero_settlementChallengeAuditTransfer = ''''"
  "ax_StatePath zero_settlementChallengeAuditTransfer = ''''"
  "ax_TxLookup zero_settlementChallengeAuditTransfer = None"
  by (simp_all add: zero_settlementChallengeAuditTransfer_def)

record settlementChallengeAuditTopUp =
  ap_Required :: bool
  ap_OK :: bool
  ap_FailureCode :: string
  ap_Detail :: string
  ap_RequestID :: string
  ap_FromAddress :: string
  ap_ToAddress :: string
  ap_AmountUWolo :: string
  ap_TxHash :: string
  ap_StatePath :: string
  ap_TxLookup :: "settlementLookupResponse option"

definition zero_settlementChallengeAuditTopUp :: settlementChallengeAuditTopUp where
  "zero_settlementChallengeAuditTopUp = \<lparr>ap_Required = False, ap_OK = False, ap_FailureCode = '''',
     ap_Detail = '''', ap_RequestID = '''', ap_FromAddress = '''',
     ap_ToAddress = '''', ap_AmountUWolo = '''', ap_TxHash = '''',
     ap_StatePath = '''', ap_TxLookup = None\<rparr>"

lemma zero_settlementChallengeAuditTopUp_sel [simp, zero_simps]:
  "ap_Required zero_settlementChallengeAuditTopUp = False"
  "ap_OK zero_settlementChallengeAuditTopUp = False"
  "ap_FailureCode zero_settlementChallengeAuditTopUp = ''''"
  "ap_Detail zero_settlementChallengeAuditTopUp = ''''"
  "ap_RequestID zero_settlementChallengeAuditTopUp = ''''"
  "ap_FromAddress zero_settlementChallengeAuditTopUp = ''''"
  "ap_ToAddress zero_settlementChallengeAuditTopUp = ''''"
  "ap_AmountUWolo zero_settlementChallengeAuditTopUp = ''''"
  "ap_TxHash zero_settlementChallengeAuditTopUp = ''''"
  "ap_StatePath zero_settlementChallengeAuditTopUp = ''''"
  "ap_TxLookup zero_settlementChallengeAuditTopUp = None"
  by (simp_all add: zero_settlementChallengeAuditTopUp_def)

record settlementChallengeAuditResponse =
  ar_OK :: bool
  ar_FailureCode :: string
  ar_Detail :: string
  ar_SettlementRunID :: string
  ar_ChallengePath :: string
  ar_RunPath :: string
  ar_CheckedAt :: int
  ar_Summary :: settlementChallengeAuditSummary
  ar_Checks :: "settlementChallengeAuditCheck list"
  ar_Funding :: "settlementChallengeAuditFunding list"
  ar_Transfers :: "settlementChallengeAuditTransfer list"
  ar_TopUp :: "settlementChallengeAuditTopUp option"

definition zero_settlementChallengeAuditResponse :: settlementChallengeAuditResponse where
  "zero_settlementChallengeAuditResponse = \<lparr>ar_OK = False, ar_FailureCode = '''', ar_Detail = '''',
     ar_SettlementRunID = '''', ar_ChallengePath = '''', ar_RunPath = '''',
     ar_CheckedAt = 0, ar_Summary = zero_settlementChallengeAuditSummary, ar_Checks = [],
     ar_Funding = [], ar_Transfers = [], ar_TopUp = None\<rparr>"

lemma zero_settlementChallengeAuditResponse_sel [simp, zero_simps]:
  "ar_OK zero_settlementChallengeAuditResponse = False"
  "ar_FailureCode zero_settlementChallengeAuditResponse = ''''"
  "ar_Detail zero_settlementChallengeAuditResponse = ''''"
  "ar_SettlementRunID zero_settlementChallengeAuditResponse = ''''"
  "ar_ChallengePath zero_settlementChallengeAuditResponse = ''''"
  "ar_RunPath zero_settlementChallengeAuditResponse = ''''"
  "ar_CheckedAt zero_settlementChallengeAuditResponse = 0"
  "ar_Summary zero_settlementChallengeAuditResponse = zero_settlementChallengeAuditSummary"
  "ar_Checks zero_settlementChallengeAuditResponse = []"
  "ar_Funding zero_settlementChallengeAuditResponse = []"
  "ar_Transfers zero_settlementChallengeAuditResponse = []"
  "ar_TopUp zero_settlementChallengeAuditResponse = None"
  by (simp_all add: zero_settlementChallengeAuditResponse_def)

record challengeAuditFundingTotals =
  gt_total :: u64
  gt_wager :: u64
  gt_guarantee :: u64

definition zero_challengeAuditFundingTotals :: challengeAuditFundingTotals where
  "zero_challengeAuditFundingTotals = \<lparr>gt_total = 0, gt_wager = 0, gt_guarantee = 0\<rparr>"

lemma zero_challengeAuditFundingTotals_sel [simp, zero_simps]:
  "gt_total zero_challengeAuditFundingTotals = 0"
  "gt_wager zero_challengeAuditFundingTotals = 0"
  "gt_guarantee zero_challengeAuditFundingTotals = 0"
  by (simp_all add: zero_challengeAuditFundingTotals_def)

record challengeAuditTransferTotals =
  xt_total :: u64
  xt_wager :: u64
  xt_guarantee :: u64
  xt_treasury :: u64

definition zero_challengeAuditTransferTotals :: challengeAuditTransferTotals where
  "zero_challengeAuditTransferTotals = \<lparr>xt_total = 0, xt_wager = 0, xt_guarantee = 0,
     xt_treasury = 0\<rparr>"

lemma zero_challengeAuditTransferTotals_sel [simp, zero_simps]:
  "xt_total zero_challengeAuditTransferTotals = 0"
  "xt_wager zero_challengeAuditTransferTotals = 0"
  "xt_guarantee zero_challengeAuditTransferTotals = 0"
  "xt_treasury zero_challengeAuditTransferTotals = 0"
  by (simp_all add: zero_challengeAuditTransferTotals_def)

end
