(* ===== verification/Challenge_Audit.thy ===== *)
theory Challenge_Audit
  imports Challenge Audit_Types
begin

text \<open>
  The audit of a challenge settlement (settlement_challenge_audit.go): the stored record is read back
  and reconciled with its funding transactions, with the record of the grouped run, with the records
  of the single transfers and their transactions, and with the escrow top-up.  The audit reads the
  record files and the chain and changes neither.

  A check list is a list of checks; \<open>checks.add\<close> and \<open>checks.addEqual\<close> append the element that
  \<open>auditCheck\<close> and \<open>equalCheck\<close> make.
\<close>

section \<open>Checks\<close>

definition auditCheck :: "string \<Rightarrow> bool \<Rightarrow> string \<Rightarrow> string \<Rightarrow> string \<Rightarrow> string \<Rightarrow> settlementChallengeAuditCheck" where
  "auditCheck name ok failureCode detail expected actual = \<lparr>ac_Name = name, ac_OK = ok,
     ac_FailureCode = (if ok then [] else TrimSpace failureCode), ac_Detail = TrimSpace detail,
     ac_Expected = TrimSpace expected, ac_Actual = TrimSpace actual\<rparr>"

definition equalCheck :: "string \<Rightarrow> string \<Rightarrow> string \<Rightarrow> string \<Rightarrow> settlementChallengeAuditCheck" where
  "equalCheck name failureCode expected0 actual0 =
     (let expected = TrimSpace expected0; actual = TrimSpace actual0 in
      if expected = actual then auditCheck name True [] ''values match'' expected actual
      else auditCheck name False failureCode (name @ '' expected '' @ Quote expected @ '' but found '' @ Quote actual) expected actual)"

definition checksOK :: "settlementChallengeAuditCheck list \<Rightarrow> bool" where
  "checksOK checks = list_all ac_OK checks"

definition firstFailureCode :: "settlementChallengeAuditCheck list \<Rightarrow> string" where
  "firstFailureCode checks =
     (case filter (\<lambda>check. \<not> ac_OK check \<and> TrimSpace (ac_FailureCode check) \<noteq> []) checks of
        check # _ \<Rightarrow> ac_FailureCode check
      | [] \<Rightarrow> ''CHALLENGE_AUDIT_FAILED'')"

definition firstFailureDetail :: "settlementChallengeAuditCheck list \<Rightarrow> string" where
  "firstFailureDetail checks =
     (case filter (\<lambda>check. \<not> ac_OK check \<and> TrimSpace (ac_Detail check) \<noteq> []) checks of
        check # _ \<Rightarrow> ac_Detail check
      | [] \<Rightarrow> ''one or more challenge settlement audit checks failed'')"

definition failedAuditCheck :: "string \<Rightarrow> string \<Rightarrow> string \<Rightarrow> string \<Rightarrow> string \<Rightarrow> settlementChallengeAuditCheck" where
  "failedAuditCheck name failureCode detail expected actual = \<lparr>ac_Name = name, ac_OK = False, ac_FailureCode = failureCode,
     ac_Detail = detail, ac_Expected = expected, ac_Actual = actual\<rparr>"

text \<open>The name of the check of an indexed line, and the map of a list by a key, where the last element wins.\<close>

definition lineCheck :: "string \<Rightarrow> nat \<Rightarrow> string \<Rightarrow> string" where
  "lineCheck what index ending = what @ ''_'' @ Itoa index @ ''_'' @ ending"

definition lastBy :: "('a \<Rightarrow> string) \<Rightarrow> 'a list \<Rightarrow> string \<rightharpoonup> 'a" where
  "lastBy key xs = map_of (rev (map (\<lambda>x. (key x, x)) xs))"

section \<open>Funding\<close>

definition auditedExpectation :: "settlementChallengeStoredResult \<Rightarrow> settlementChallengeFundingResult option
    \<Rightarrow> normalizedSettlementChallengeFundingInput \<Rightarrow> settlementChallengeFundingExpectation" where
  "auditedExpectation record stored funding =
     (let request = cs_Request record;
          expected = expectationOf (nc_SourceApp request) (nc_ChallengeID request) (nc_SourceEventID request) funding in
      case stored of
        None \<Rightarrow> expected
      | Some f \<Rightarrow> expected\<lparr>fe_Sender := firstNonEmpty [fe_Sender expected, fr_Sender f],
          fe_SettlementRunID := firstNonEmpty [fe_SettlementRunID expected, fr_SettlementRunID f],
          fe_TotalFundedUWolo := firstNonEmpty [fe_TotalFundedUWolo expected, fr_TotalFundedUWolo f],
          fe_WagerUWolo := firstNonEmpty [fe_WagerUWolo expected, fr_WagerUWolo f],
          fe_GuaranteeUWolo := firstNonEmpty [fe_GuaranteeUWolo expected, fr_GuaranteeUWolo f]\<rparr>)"

definition storedFundingFields :: "settlementChallengeFundingResult \<Rightarrow> settlementChallengeFundingResult \<Rightarrow> (string \<times> string \<times> string) list" where
  "storedFundingFields stored verified =
     [(''funding_tx_hash'', fr_FundingTxHash stored, fr_FundingTxHash verified),
      (''source_app'', fr_SourceApp stored, fr_SourceApp verified),
      (''settlement_run_id'', fr_SettlementRunID stored, fr_SettlementRunID verified),
      (''challenge_id'', fr_ChallengeID stored, fr_ChallengeID verified),
      (''source_event_id'', fr_SourceEventID stored, fr_SourceEventID verified),
      (''participant_side'', fr_ParticipantSide stored, fr_ParticipantSide verified),
      (''participant_id'', fr_ParticipantID stored, fr_ParticipantID verified),
      (''sender'', fr_Sender stored, fr_Sender verified),
      (''escrow_address'', fr_EscrowAddress stored, fr_EscrowAddress verified),
      (''total_funded_uwolo'', fr_TotalFundedUWolo stored, fr_TotalFundedUWolo verified),
      (''wager_uwolo'', fr_WagerUWolo stored, fr_WagerUWolo verified),
      (''guarantee_uwolo'', fr_GuaranteeUWolo stored, fr_GuaranteeUWolo verified)]"

fun firstDifference :: "(string \<times> string \<times> string) list \<Rightarrow> string" where
  "firstDifference [] = []"
| "firstDifference ((name, stored, actual) # rest) =
     (if \<not> EqualFold (TrimSpace stored) (TrimSpace actual)
      then name @ '' stored '' @ Quote stored @ '' does not match verified tx value '' @ Quote actual
      else firstDifference rest)"

definition compareStoredChallengeFunding :: "settlementChallengeFundingResult \<Rightarrow> settlementChallengeFundingResult \<Rightarrow> string" where
  "compareStoredChallengeFunding stored verified = firstDifference (storedFundingFields stored verified)"

record fundingAudit =
  fa_verified :: "verifiedSettlementChallengeFunding list"
  fa_audits :: "settlementChallengeAuditFunding list"
  fa_checks :: "settlementChallengeAuditCheck list"
  fa_totals :: challengeAuditFundingTotals

text \<open>One turn of the loop, after the deposit has been verified again.\<close>

definition auditFunding :: "nat \<Rightarrow> string \<Rightarrow> settlementChallengeFundingResult option \<Rightarrow> settlementChallengeFundingVerifyResponse
    \<Rightarrow> fundingAudit \<Rightarrow> fundingAudit" where
  "auditFunding index txHash stored verifyResponse fa =
     (let audit = zero_settlementChallengeAuditFunding\<lparr>af_Index := index, af_OK := fv_OK verifyResponse, af_FundingTxHash := txHash,
            af_StoredFunding := stored, af_VerifiedFunding := map_option (\<lambda>f. f\<lparr>fr_Index := index\<rparr>) (fv_Funding verifyResponse)\<rparr>;
          proofName = lineCheck ''funding'' index ''proof''; stateName = lineCheck ''funding'' index ''state'' in
      case (if fv_OK verifyResponse then af_VerifiedFunding audit else None) of
        None \<Rightarrow>
          let code = firstNonEmpty [fv_FailureCode verifyResponse, ''FUNDING_PROOF_MISMATCH'']; detail = fv_Detail verifyResponse in
          fa\<lparr>fa_audits := fa_audits fa @ [audit\<lparr>af_FailureCode := code, af_Detail := detail\<rparr>],
             fa_checks := fa_checks fa @ [auditCheck proofName False code detail txHash ''unverified'']\<rparr>
      | Some f \<Rightarrow>
          let totals = fa_totals fa;
              fa = fa\<lparr>fa_verified := fa_verified fa @ [\<lparr>vf_Result = f\<rparr>],
                fa_totals := \<lparr>gt_total = gt_total totals + parseOptionalUWoloVal (fr_TotalFundedUWolo f),
                  gt_wager = gt_wager totals + parseOptionalUWoloVal (fr_WagerUWolo f),
                  gt_guarantee = gt_guarantee totals + parseOptionalUWoloVal (fr_GuaranteeUWolo f)\<rparr>,
                fa_checks := fa_checks fa @ [auditCheck proofName True [] ''funding tx matches challenge memo and escrow expectations'' txHash txHash]\<rparr> in
          (case stored of
             None \<Rightarrow> fa\<lparr>fa_audits := fa_audits fa @ [audit]\<rparr>
           | Some s \<Rightarrow>
               let mismatch = compareStoredChallengeFunding s f in
               if mismatch \<noteq> []
               then fa\<lparr>fa_audits := fa_audits fa @ [audit\<lparr>af_OK := False, af_FailureCode := ''FUNDING_STATE_MISMATCH'', af_Detail := mismatch\<rparr>],
                      fa_checks := fa_checks fa @ [auditCheck stateName False ''FUNDING_STATE_MISMATCH'' mismatch ''stored funding'' ''verified funding'']\<rparr>
               else fa\<lparr>fa_audits := fa_audits fa @ [audit],
                      fa_checks := fa_checks fa @ [auditCheck stateName True [] ''stored funding state matches verified tx reality''
                        ''stored funding'' ''verified funding'']\<rparr>))"

definition storedFundingAt :: "settlementChallengeStoredResult \<Rightarrow> nat \<Rightarrow> settlementChallengeFundingResult option" where
  "storedFundingAt record index =
     (if index < length (cr_Funding (cs_Response record)) then Some (cr_Funding (cs_Response record) ! index) else None)"

fun auditFundings :: "'c env \<Rightarrow> settlementConfig \<Rightarrow> settlementChallengeStoredResult \<Rightarrow> nat \<Rightarrow> normalizedSettlementChallengeFundingInput list
    \<Rightarrow> fundingAudit \<Rightarrow> ('c, fundingAudit) state" where
  "auditFundings env cfg record index [] fa = State_Monad.return fa"
| "auditFundings env cfg record index (funding # fundings) fa = do {
     let stored = storedFundingAt record index;
     verifyResponse \<leftarrow> verifyChallengeFundingDeposit env cfg (nf_FundingTxHash funding) (auditedExpectation record stored funding);
     auditFundings env cfg record (index + 1) fundings (auditFunding index (nf_FundingTxHash funding) stored verifyResponse fa)
   }"

definition auditChallengeFunding :: "'c env \<Rightarrow> settlementConfig \<Rightarrow> settlementChallengeStoredResult \<Rightarrow> ('c, fundingAudit) state" where
  "auditChallengeFunding env cfg record = do {
     fa \<leftarrow> auditFundings env cfg record 0 (nc_Funding (cs_Request record))
       \<lparr>fa_verified = [], fa_audits = [], fa_checks = [], fa_totals = zero_challengeAuditFundingTotals\<rparr>;
     State_Monad.return (fa\<lparr>fa_checks := fa_checks fa @ [equalCheck ''funding_verified_count'' ''FUNDING_COUNT_MISMATCH''
       (Itoa (cr_FundingVerifiedCount (cs_Response record))) (Itoa (length (fa_verified fa)))]\<rparr>)
   }"

section \<open>Buckets\<close>

text \<open>The text of the error that \<open>parseOptionalUWoloString\<close> passes on from \<open>strconv.ParseUint\<close>.\<close>

definition numErrorText :: "string \<Rightarrow> numError \<Rightarrow> string" where
  "numErrorText value err = ''strconv.ParseUint: parsing '' @ Quote (TrimSpace value) @
     (case err of ErrSyntax \<Rightarrow> '': invalid syntax'' | ErrRange \<Rightarrow> '': value out of range'')"

record bucketAudit =
  ba_totals :: challengeAuditTransferTotals
  ba_checks :: "settlementChallengeAuditCheck list"
  ba_allocation :: allocation

definition addTotals :: "normalizedSettlementChallengeTransfer \<Rightarrow> u64 \<Rightarrow> challengeAuditTransferTotals \<Rightarrow> challengeAuditTransferTotals" where
  "addTotals transfer amount totals = totals\<lparr>xt_total := xt_total totals + amount,
     xt_wager := xt_wager totals + (if nt_Bucket transfer = settlementChallengeBucketWager then amount else 0),
     xt_guarantee := xt_guarantee totals + (if nt_Bucket transfer = settlementChallengeBucketGuarantee then amount else 0),
     xt_treasury := xt_treasury totals + (if EqualFold (nt_Reason transfer) ''treasury'' then amount else 0)\<rparr>"

definition auditAllocation :: "string \<Rightarrow> verifiedSettlementChallengeFunding list \<Rightarrow> normalizedSettlementChallengeTransfer \<Rightarrow> bucketAudit \<Rightarrow> bucketAudit" where
  "auditAllocation treasuryAddress funding transfer ba0 =
     (case parseOptionalUWoloString (nt_AmountUWolo transfer) of
        Inl err \<Rightarrow> ba0\<lparr>ba_checks := ba_checks ba0 @ [auditCheck (lineCheck ''transfer'' (nt_Index transfer) ''amount'') False
          ''INVALID_TRANSFER_AMOUNT'' (numErrorText (nt_AmountUWolo transfer) err) (nt_AmountUWolo transfer) []]\<rparr>
      | Inr amount \<Rightarrow>
          let ba = ba0\<lparr>ba_totals := addTotals transfer amount (ba_totals ba0),
                ba_checks := ba_checks ba0 @ (if EqualFold (nt_Reason transfer) ''treasury''
                  then [equalCheck (lineCheck ''transfer'' (nt_Index transfer) ''treasury_route'') ''TREASURY_ROUTE_MISMATCH''
                          (TrimSpace treasuryAddress) (nt_ToAddress transfer)]
                  else [])\<rparr> in
          (case resolveChallengeFundingParticipant funding (nt_ParticipantSide transfer) (nt_ParticipantID transfer) of
             (item, matchErr) \<Rightarrow>
               if matchErr \<noteq> []
               then ba\<lparr>ba_checks := ba_checks ba @ [auditCheck (lineCheck ''transfer'' (nt_Index transfer) ''funding_identity'') False
                      ''TRANSFER_FUNDING_MISMATCH'' matchErr (nt_ParticipantSide transfer @ ''|'' @ nt_ParticipantID transfer) []]\<rparr>
               else ba\<lparr>ba_allocation := allocate (fundingKey (vf_Result item)) (nt_Bucket transfer) amount (ba_allocation ba)\<rparr>))"

definition auditChallengeBucketAllocation :: "settlementChallengeStoredResult \<Rightarrow> verifiedSettlementChallengeFunding list
    \<Rightarrow> challengeAuditTransferTotals \<times> settlementChallengeAuditCheck list" where
  "auditChallengeBucketAllocation record funding =
     (let ba = fold (auditAllocation (nc_TreasuryAddress (cs_Request record)) funding) (nc_Transfers (cs_Request record))
            \<lparr>ba_totals = zero_challengeAuditTransferTotals, ba_checks = [], ba_allocation = (\<lambda>key bucket. 0)\<rparr>;
          errors = validateChallengeBucketAllocation funding (ba_allocation ba)
      in (ba_totals ba, ba_checks ba @
           [if errors \<noteq> []
            then auditCheck ''bucket_allocation'' False ''BUCKET_ALLOCATION_MISMATCH'' (Join errors ''; '') ''funded buckets'' ''transfer allocation''
            else auditCheck ''bucket_allocation'' True [] ''wager and guarantee transfer buckets reconcile to verified funding''
                   ''funded buckets'' ''transfer allocation'']))"

definition challengeResponseBucketRequested :: "settlementChallengeResponse \<Rightarrow> string \<Rightarrow> string" where
  "challengeResponseBucketRequested response bucket =
     (case filter (\<lambda>totals. EqualFold (bt_Bucket totals) bucket) (cr_BucketTotals response) of
        totals # _ \<Rightarrow> TrimSpace (bt_RequestedUWolo totals)
      | [] \<Rightarrow> ''0'')"

section \<open>The record of the grouped run\<close>

definition auditRunLine :: "(string \<rightharpoonup> normalizedSettlementPayout) \<Rightarrow> normalizedSettlementChallengeTransfer \<Rightarrow> settlementChallengeAuditCheck list" where
  "auditRunLine runPayoutsByID transfer =
     (case runPayoutsByID (nt_RequestID transfer) of
        None \<Rightarrow> [auditCheck (lineCheck ''transfer'' (nt_Index transfer) ''grouped_run_request'') False ''RUN_STATE_MISMATCH''
          ''challenge transfer request is missing from grouped run state'' (nt_RequestID transfer) ''missing'']
      | Some payout \<Rightarrow>
          [equalCheck (lineCheck ''transfer'' (nt_Index transfer) ''grouped_run_to'') ''RUN_STATE_MISMATCH'' (nt_ToAddress transfer) (np_ToAddress payout),
           equalCheck (lineCheck ''transfer'' (nt_Index transfer) ''grouped_run_amount'') ''RUN_STATE_MISMATCH'' (nt_AmountUWolo transfer) (np_AmountUWolo payout),
           equalCheck (lineCheck ''transfer'' (nt_Index transfer) ''grouped_run_memo'') ''RUN_STATE_MISMATCH'' (nt_Memo transfer) (np_Memo payout)])"

definition auditChallengeRunState :: "'c env \<Rightarrow> settlementConfig \<Rightarrow> settlementChallengeStoredResult \<Rightarrow> 'c world
    \<Rightarrow> string + settlementRunStoredResult option \<times> settlementChallengeAuditCheck list" where
  "auditChallengeRunState env cfg record w =
     (let request = cs_Request record; response = cs_Response record; runPath = runRecordPath cfg (nc_SettlementRunID request) in
      case cr_Run response of
        None \<Rightarrow> Inr (None,
          [if cr_Transfers response = [] \<or> EqualFold (cr_Status response) ''failed''
           then auditCheck ''grouped_run_state'' True [] ''no grouped run is expected for this stored failed challenge state'' [] []
           else auditCheck ''grouped_run_state'' False ''RUN_STATE_MISSING'' ''stored challenge response has transfers but no embedded grouped run''
                  (nc_SettlementRunID request) ''missing''])
      | Some run \<Rightarrow>
        (case readSettlementRunStoredResult runPath w of
           NotExist \<Rightarrow> Inr (None, [auditCheck ''grouped_run_state'' False ''RUN_STATE_MISSING'' ''stored grouped run state was not found'' runPath ''missing''])
         | ReadFailed err \<Rightarrow> Inl err
         | ReadOK runRecord \<Rightarrow> Inr (Some runRecord,
             [auditCheck ''grouped_run_state'' True [] ''stored grouped run state exists'' runPath runPath,
              equalCheck ''grouped_run_fingerprint'' ''RUN_STATE_FINGERPRINT_MISMATCH'' (rs_Fingerprint runRecord) (env_hashRun env (rs_Request runRecord)),
              equalCheck ''grouped_run_id'' ''RUN_STATE_MISMATCH'' (nr_SettlementRunID (rs_Request runRecord)) (nc_SettlementRunID request),
              equalCheck ''grouped_run_status'' ''RUN_STATE_MISMATCH'' (rr_Status (rs_Response runRecord)) (rr_Status run),
              equalCheck ''grouped_run_requested_total'' ''RUN_STATE_MISMATCH'' (rr_RequestedTotalUWolo (rs_Response runRecord)) (rr_RequestedTotalUWolo run),
              equalCheck ''grouped_run_confirmed_total'' ''RUN_STATE_MISMATCH'' (rr_ConfirmedTotalUWolo (rs_Response runRecord)) (rr_ConfirmedTotalUWolo run)] @
             concat (map (auditRunLine (lastBy np_RequestID (nr_Payouts (rs_Request runRecord)))) (nc_Transfers request)))))"

section \<open>The single transfers\<close>

definition shouldHaveSettlementRequestState :: "settlementChallengeTransferResult \<Rightarrow> bool" where
  "shouldHaveSettlementRequestState transfer \<longleftrightarrow> ct_Attempted transfer \<or> ct_TxHash transfer \<noteq> [] \<or>
     EqualFold (ct_Status transfer) ''confirmed'' \<or> EqualFold (ct_Status transfer) ''accepted''"

definition auditLookupMismatch :: "settlementLookupResponse \<Rightarrow> string \<Rightarrow> string \<Rightarrow> string" where
  "auditLookupMismatch lookup storedStatus memo =
     (if \<not> lr_OK lookup then firstNonEmpty [lr_Detail lookup, lr_FailureCode lookup, ''tx lookup failed'']
      else if \<not> lr_Found lookup then ''tx hash was not found on WoloChain REST''
      else if \<not> lr_MatchedExpected lookup then ''tx did not contain the expected sender, recipient, and amount transfer''
      else if TrimSpace storedStatus \<in> {''confirmed'', ''accepted''} \<and> \<not> lr_TxSuccess lookup
      then ''stored transfer status is '' @ storedStatus @ '' but tx failed with code '' @ Itoa (unat (lr_Code lookup))
      else if TrimSpace storedStatus = ''failed'' \<and> lr_TxSuccess lookup then ''stored transfer is failed/rejected but tx succeeded on chain''
      else if TrimSpace memo \<noteq> [] \<and> TrimSpace (lr_Memo lookup) \<noteq> TrimSpace memo
      then ''tx memo '' @ Quote (lr_Memo lookup) @ '' does not match stored memo '' @ Quote memo
      else [])"

definition auditBase :: "settlementConfig \<Rightarrow> nat \<Rightarrow> settlementChallengeTransferResult \<Rightarrow> settlementChallengeAuditTransfer" where
  "auditBase cfg index transfer = zero_settlementChallengeAuditTransfer\<lparr>ax_Index := index, ax_RequestID := ct_RequestID transfer,
     ax_Bucket := ct_Bucket transfer, ax_Reason := ct_Reason transfer, ax_Status := ct_Status transfer, ax_Outcome := ct_Outcome transfer,
     ax_OK := True, ax_SignerAddress := ct_SignerAddress transfer, ax_ToAddress := ct_ToAddress transfer,
     ax_AmountUWolo := ct_AmountUWolo transfer, ax_Memo := ct_Memo transfer, ax_TxHash := ct_TxHash transfer,
     ax_StatePath := requestRecordPath cfg (ct_RequestID transfer)\<rparr>"

definition failAudit :: "string \<Rightarrow> string \<Rightarrow> settlementChallengeAuditTransfer \<Rightarrow> settlementChallengeAuditTransfer" where
  "failAudit failureCode detail audit = audit\<lparr>ax_OK := False, ax_FailureCode := failureCode, ax_Detail := detail\<rparr>"

text \<open>The line against the request of the record, against the run record and against the record of the single transfer.\<close>

definition requestChecks :: "nat \<Rightarrow> normalizedSettlementChallengeTransfer option \<Rightarrow> settlementChallengeTransferResult
    \<Rightarrow> settlementChallengeAuditCheck list" where
  "requestChecks index request transfer =
     (case request of
        None \<Rightarrow> [auditCheck (lineCheck ''transfer'' index ''request'') False ''TRANSFER_STATE_MISMATCH''
          ''challenge transfer response has no matching normalized request line'' (ct_RequestID transfer) ''missing'']
      | Some n \<Rightarrow>
          [equalCheck (lineCheck ''transfer'' index ''request_to'') ''TRANSFER_STATE_MISMATCH'' (nt_ToAddress n) (ct_ToAddress transfer),
           equalCheck (lineCheck ''transfer'' index ''request_amount'') ''TRANSFER_STATE_MISMATCH'' (nt_AmountUWolo n) (ct_AmountUWolo transfer),
           equalCheck (lineCheck ''transfer'' index ''request_bucket'') ''TRANSFER_STATE_MISMATCH'' (nt_Bucket n) (ct_Bucket transfer),
           equalCheck (lineCheck ''transfer'' index ''request_reason'') ''TRANSFER_STATE_MISMATCH'' (nt_Reason n) (ct_Reason transfer)])"

definition runPayoutChecks :: "nat \<Rightarrow> settlementRunPayoutResult option \<Rightarrow> settlementChallengeTransferResult \<Rightarrow> settlementChallengeAuditCheck list" where
  "runPayoutChecks index runPayout transfer =
     (case runPayout of
        None \<Rightarrow> []
      | Some p \<Rightarrow>
          [equalCheck (lineCheck ''transfer'' index ''run_status'') ''RUN_STATE_MISMATCH'' (pr_Status p) (ct_Status transfer),
           equalCheck (lineCheck ''transfer'' index ''run_tx_hash'') ''RUN_STATE_MISMATCH'' (pr_TxHash p) (ct_TxHash transfer)])"

definition storedChecks :: "'c env \<Rightarrow> string \<Rightarrow> nat \<Rightarrow> settlementStoredResult \<Rightarrow> settlementChallengeTransferResult
    \<Rightarrow> settlementChallengeAuditCheck list" where
  "storedChecks env path index stored transfer =
     [auditCheck (lineCheck ''transfer'' index ''state'') True [] ''stored single-transfer state exists'' path path,
      equalCheck (lineCheck ''transfer'' index ''state_fingerprint'') ''TRANSFER_STATE_FINGERPRINT_MISMATCH'' (sr_Fingerprint stored)
        (env_hashRequest env (sr_Request stored) (xr_SignerAddress (sr_Response stored))),
      equalCheck (lineCheck ''transfer'' index ''state_to'') ''TRANSFER_STATE_MISMATCH'' (nq_ToAddress (sr_Request stored)) (ct_ToAddress transfer),
      equalCheck (lineCheck ''transfer'' index ''state_amount'') ''TRANSFER_STATE_MISMATCH'' (nq_AmountUWolo (sr_Request stored)) (ct_AmountUWolo transfer),
      equalCheck (lineCheck ''transfer'' index ''state_memo'') ''TRANSFER_STATE_MISMATCH'' (nq_Memo (sr_Request stored)) (ct_Memo transfer),
      equalCheck (lineCheck ''transfer'' index ''state_tx_hash'') ''TRANSFER_STATE_MISMATCH'' (xr_TxHash (sr_Response stored)) (ct_TxHash transfer)]"

text \<open>One turn of the loop: the audit of the line, its checks, and whether its transaction was looked up.\<close>

definition auditTransfer :: "'c env \<Rightarrow> settlementConfig \<Rightarrow> (string \<rightharpoonup> normalizedSettlementChallengeTransfer)
    \<Rightarrow> (string \<rightharpoonup> settlementRunPayoutResult) \<Rightarrow> nat \<Rightarrow> settlementChallengeTransferResult
    \<Rightarrow> ('c world, settlementChallengeAuditTransfer \<times> settlementChallengeAuditCheck list \<times> bool) state" where
  "auditTransfer env cfg requestsByID runPayouts index transfer = do {
     w \<leftarrow> State_Monad.get;
     let request = requestsByID (ct_RequestID transfer);
     let base = auditBase cfg index transfer;
     let audit = (if request = None then failAudit ''TRANSFER_STATE_MISMATCH''
       ''challenge transfer response has no matching normalized request line'' base else base);
     let checks = requestChecks index request transfer @ runPayoutChecks index (runPayouts (ct_RequestID transfer)) transfer;
     (case readSettlementStoredResult (ax_StatePath audit) w of
        ReadOK stored \<Rightarrow>
          let checks = checks @ storedChecks env (ax_StatePath audit) index stored transfer in
          if TrimSpace (ct_TxHash transfer) = []
          then State_Monad.return
            (if EqualFold (ct_Status transfer) ''confirmed'' \<or> EqualFold (ct_Status transfer) ''accepted''
             then (failAudit ''TRANSFER_TX_MISSING'' ''executed transfer has no tx hash'' audit,
                   checks @ [auditCheck (lineCheck ''transfer'' index ''tx'') False ''TRANSFER_TX_MISSING'' ''executed transfer has no tx hash''
                     ''tx hash'' ''missing''], False)
             else (audit, checks, False))
          else do {
            lookup \<leftarrow> onChain (lookupSettlementTx env cfg (ct_TxHash transfer)
              \<lparr>le_Sender = firstNonEmpty [ct_SignerAddress transfer, xr_SignerAddress (sr_Response stored)],
               le_Recipient = ct_ToAddress transfer, le_AmountUWolo = ct_AmountUWolo transfer\<rparr>);
            let audit = audit\<lparr>ax_TxLookup := Some lookup\<rparr>;
            let mismatch = auditLookupMismatch lookup (ct_Status transfer) (ct_Memo transfer);
            State_Monad.return
              (if mismatch \<noteq> []
               then (failAudit ''TRANSFER_TX_MISMATCH'' mismatch audit, checks @ [auditCheck (lineCheck ''transfer'' index ''tx'') False
                       ''TRANSFER_TX_MISMATCH'' mismatch (ct_TxHash transfer) (lr_TxHash lookup)], True)
               else (audit, checks @ [auditCheck (lineCheck ''transfer'' index ''tx'') True []
                       ''transfer tx reconciles with stored state and chain lookup'' (ct_TxHash transfer) (lr_TxHash lookup)], True))
          }
      | _ \<Rightarrow> State_Monad.return
          (if shouldHaveSettlementRequestState transfer
           then (failAudit ''TRANSFER_STATE_MISSING'' ''stored single-transfer state was not found'' audit,
                 checks @ [auditCheck (lineCheck ''transfer'' index ''state'') False ''TRANSFER_STATE_MISSING''
                   ''stored single-transfer state was not found'' (ax_StatePath audit) ''missing''], False)
           else (audit, checks @ [auditCheck (lineCheck ''transfer'' index ''state'') True []
                   ''single-transfer state is not required for this unattempted transfer'' [] []], False)))
   }"

fun auditTransfers :: "'c env \<Rightarrow> settlementConfig \<Rightarrow> (string \<rightharpoonup> normalizedSettlementChallengeTransfer)
    \<Rightarrow> (string \<rightharpoonup> settlementRunPayoutResult) \<Rightarrow> nat \<Rightarrow> settlementChallengeTransferResult list
    \<Rightarrow> ('c world, settlementChallengeAuditTransfer list \<times> settlementChallengeAuditCheck list \<times> nat) state" where
  "auditTransfers env cfg requestsByID runPayouts index [] = State_Monad.return ([], [], 0)"
| "auditTransfers env cfg requestsByID runPayouts index (transfer # transfers) = do {
     (audit, checks, looked) \<leftarrow> auditTransfer env cfg requestsByID runPayouts index transfer;
     (audits, checks', txChecked) \<leftarrow> auditTransfers env cfg requestsByID runPayouts (index + 1) transfers;
     State_Monad.return (audit # audits, checks @ checks', (if looked then 1 else 0) + txChecked)
   }"

definition auditChallengeTransfers :: "'c env \<Rightarrow> settlementConfig \<Rightarrow> settlementChallengeStoredResult \<Rightarrow> settlementRunStoredResult option
    \<Rightarrow> ('c world, settlementChallengeAuditTransfer list \<times> settlementChallengeAuditCheck list \<times> nat) state" where
  "auditChallengeTransfers env cfg record runRecord =
     auditTransfers env cfg (lastBy nt_RequestID (nc_Transfers (cs_Request record)))
       (case runRecord of None \<Rightarrow> Map.empty | Some r \<Rightarrow> lastBy pr_RequestID (rr_Payouts (rs_Response r))) 0 (cr_Transfers (cs_Response record))"

section \<open>The top-up\<close>

definition failTopUpAudit :: "string \<Rightarrow> string \<Rightarrow> settlementChallengeAuditTopUp \<Rightarrow> settlementChallengeAuditTopUp" where
  "failTopUpAudit failureCode detail audit = audit\<lparr>ap_OK := False, ap_FailureCode := failureCode, ap_Detail := detail\<rparr>"

definition topUpAuditBase :: "settlementConfig \<Rightarrow> settlementChallengeTopUpResult \<Rightarrow> settlementChallengeAuditTopUp" where
  "topUpAuditBase cfg plan = zero_settlementChallengeAuditTopUp\<lparr>ap_Required := tu_Required plan, ap_OK := True, ap_RequestID := tu_RequestID plan,
     ap_FromAddress := tu_FromAddress plan, ap_ToAddress := tu_ToAddress plan, ap_AmountUWolo := tu_AmountUWolo plan,
     ap_StatePath := requestRecordPath cfg (tu_RequestID plan)\<rparr>"

text \<open>The transaction of a top-up whose record has been found.\<close>

definition auditTopUpTx :: "'c env \<Rightarrow> settlementConfig \<Rightarrow> string \<Rightarrow> settlementChallengeTopUpResult \<Rightarrow> settlementExecuteResponse
    \<Rightarrow> settlementChallengeAuditTopUp \<Rightarrow> ('c world, settlementChallengeAuditTopUp \<times> settlementChallengeAuditCheck) state" where
  "auditTopUpTx env cfg settlementID plan planResponse audit =
     (if TrimSpace (xr_TxHash planResponse) = []
      then State_Monad.return (failTopUpAudit ''TOP_UP_TX_MISSING'' ''executed top-up has no tx hash'' audit,
             auditCheck ''top_up_tx'' False ''TOP_UP_TX_MISSING'' ''executed top-up has no tx hash'' ''tx hash'' ''missing'')
      else do {
        lookup \<leftarrow> onChain (lookupSettlementTx env cfg (xr_TxHash planResponse)
          \<lparr>le_Sender = firstNonEmpty [tu_FromAddress plan, xr_SignerAddress planResponse], le_Recipient = tu_ToAddress plan,
           le_AmountUWolo = tu_AmountUWolo plan\<rparr>);
        let audit = audit\<lparr>ap_TxLookup := Some lookup\<rparr>;
        let mismatch = auditLookupMismatch lookup (xr_Status planResponse) (cutAt 180 (''challenge top-up '' @ settlementID));
        State_Monad.return
          (if mismatch \<noteq> []
           then (failTopUpAudit ''TOP_UP_TX_MISMATCH'' mismatch audit,
                 auditCheck ''top_up_tx'' False ''TOP_UP_TX_MISMATCH'' mismatch (xr_TxHash planResponse) (lr_TxHash lookup))
           else (audit, auditCheck ''top_up_tx'' True [] ''top-up tx reconciles with stored state and chain lookup''
                   (xr_TxHash planResponse) (lr_TxHash lookup)))
      })"

definition auditChallengeTopUp :: "'c env \<Rightarrow> settlementConfig \<Rightarrow> settlementChallengeStoredResult
    \<Rightarrow> ('c world, string + settlementChallengeAuditTopUp option \<times> settlementChallengeAuditCheck list) state" where
  "auditChallengeTopUp env cfg record =
     (case cr_TopUp (cs_Response record) of
        None \<Rightarrow> State_Monad.return (Inr (None, [auditCheck ''top_up_state'' True [] ''no top-up was planned for this challenge settlement'' [] []]))
      | Some plan \<Rightarrow>
        let audit = topUpAuditBase cfg plan;
            checks = [auditCheck ''top_up_state'' True [] ''top-up plan is present in challenge state'' (tu_RequestID plan) (tu_RequestID plan)] in
        if \<not> tu_Required plan then State_Monad.return (Inr (Some audit, checks))
        else case tu_Response plan of
          None \<Rightarrow>
            let detail = ''top-up was required but no execution response was stored'' in
            State_Monad.return (Inr (Some (failTopUpAudit ''TOP_UP_STATE_MISSING'' detail audit), checks @
              [auditCheck ''top_up_response'' False ''TOP_UP_STATE_MISSING'' detail ''top-up response'' ''missing'']))
        | Some planResponse \<Rightarrow> do {
            w \<leftarrow> State_Monad.get;
            let audit = audit\<lparr>ap_TxHash := xr_TxHash planResponse\<rparr>;
            let checks = checks @
              [equalCheck ''top_up_response_amount'' ''TOP_UP_STATE_MISMATCH'' (tu_AmountUWolo plan) (xr_AmountUWolo planResponse),
               equalCheck ''top_up_response_to'' ''TOP_UP_STATE_MISMATCH'' (tu_ToAddress plan) (xr_ToAddress planResponse)];
            (case readSettlementStoredResult (ap_StatePath audit) w of
               NotExist \<Rightarrow>
                 let detail = ''stored top-up transfer state was not found'' in
                 State_Monad.return (Inr (Some (failTopUpAudit ''TOP_UP_STATE_MISSING'' detail audit), checks @
                   [auditCheck ''top_up_transfer_state'' False ''TOP_UP_STATE_MISSING'' detail (ap_StatePath audit) ''missing'']))
             | ReadFailed err \<Rightarrow> State_Monad.return (Inl err)
             | ReadOK stored \<Rightarrow> do {
                 let checks = checks @
                   [auditCheck ''top_up_transfer_state'' True [] ''stored top-up transfer state exists'' (ap_StatePath audit) (ap_StatePath audit),
                    equalCheck ''top_up_state_fingerprint'' ''TOP_UP_STATE_FINGERPRINT_MISMATCH'' (sr_Fingerprint stored)
                      (env_hashRequest env (sr_Request stored) (xr_SignerAddress (sr_Response stored))),
                    equalCheck ''top_up_state_tx_hash'' ''TOP_UP_STATE_MISMATCH'' (xr_TxHash (sr_Response stored)) (xr_TxHash planResponse)];
                 (audit, check) \<leftarrow> auditTopUpTx env cfg (nc_SettlementRunID (cs_Request record)) plan planResponse audit;
                 State_Monad.return (Inr (Some audit, checks @ [check]))
               })
          })"

section \<open>The audit\<close>

definition auditSummaryBase :: "settlementChallengeStoredResult \<Rightarrow> settlementChallengeAuditSummary" where
  "auditSummaryBase record =
     (let request = cs_Request record; response = cs_Response record in
      zero_settlementChallengeAuditSummary\<lparr>au_SourceApp := nc_SourceApp request, au_ChallengeID := nc_ChallengeID request,
        au_SourceEventID := nc_SourceEventID request, au_TreasuryAddress := nc_TreasuryAddress request,
        au_FundingCount := length (nc_Funding request), au_FundingVerifiedCount := cr_FundingVerifiedCount response,
        au_FundingTotalUWolo := cr_FundingTotalUWolo response, au_RequestedTransferCount := length (nc_Transfers request),
        au_RequestedTotalUWolo := cr_RequestedTotalUWolo response,
        au_TopUpRequired := (case cr_TopUp response of None \<Rightarrow> False | Some t \<Rightarrow> tu_Required t),
        au_StoredStatus := cr_Status response, au_StoredFailureCode := cr_FailureCode response,
        au_StoredConfirmedTotalUWolo := cr_ConfirmedTotalUWolo response\<rparr>)"

definition recordChecks :: "'c env \<Rightarrow> string \<Rightarrow> settlementChallengeStoredResult \<Rightarrow> settlementChallengeAuditCheck list" where
  "recordChecks env recordPath record =
     (let request = cs_Request record; response = cs_Response record in
      [auditCheck ''challenge_state_exists'' True [] ''stored challenge settlement state exists'' recordPath recordPath,
       equalCheck ''challenge_state_fingerprint'' ''CHALLENGE_STATE_FINGERPRINT_MISMATCH'' (cs_Fingerprint record) (env_hashChallenge env request),
       equalCheck ''challenge_response_settlement_id'' ''CHALLENGE_STATE_MISMATCH'' (cr_SettlementRunID response) (nc_SettlementRunID request),
       equalCheck ''challenge_response_source_app'' ''CHALLENGE_STATE_MISMATCH'' (cr_SourceApp response) (nc_SourceApp request),
       equalCheck ''challenge_response_challenge_id'' ''CHALLENGE_STATE_MISMATCH'' (cr_ChallengeID response) (nc_ChallengeID request),
       equalCheck ''challenge_response_source_event_id'' ''CHALLENGE_STATE_MISMATCH'' (cr_SourceEventID response) (nc_SourceEventID request),
       equalCheck ''challenge_response_funding_count'' ''FUNDING_COUNT_MISMATCH'' (Itoa (length (nc_Funding request))) (Itoa (length (cr_Funding response))),
       equalCheck ''challenge_response_transfer_count'' ''TRANSFER_STATE_MISMATCH'' (Itoa (length (nc_Transfers request))) (Itoa (length (cr_Transfers response)))])"

text \<open>The checks of the totals, against what the chain and the request say.\<close>

definition fundingTotalCheck :: "settlementChallengeStoredResult \<Rightarrow> challengeAuditFundingTotals \<Rightarrow> settlementChallengeAuditCheck" where
  "fundingTotalCheck record totals = equalCheck ''funding_total'' ''FUNDING_TOTAL_MISMATCH'' (cr_FundingTotalUWolo (cs_Response record))
     (FormatUint (gt_total totals))"

definition transferTotalChecks :: "settlementChallengeStoredResult \<Rightarrow> challengeAuditTransferTotals \<Rightarrow> settlementChallengeAuditCheck list" where
  "transferTotalChecks record totals =
     [equalCheck ''requested_total'' ''REQUESTED_TOTAL_MISMATCH'' (cr_RequestedTotalUWolo (cs_Response record)) (FormatUint (xt_total totals)),
      equalCheck ''wager_bucket_total'' ''BUCKET_TOTAL_MISMATCH''
        (challengeResponseBucketRequested (cs_Response record) settlementChallengeBucketWager) (FormatUint (xt_wager totals)),
      equalCheck ''guarantee_bucket_total'' ''BUCKET_TOTAL_MISMATCH''
        (challengeResponseBucketRequested (cs_Response record) settlementChallengeBucketGuarantee) (FormatUint (xt_guarantee totals))]"

definition auditVerdict :: "settlementChallengeAuditCheck list \<Rightarrow> settlementChallengeAuditResponse \<Rightarrow> settlementChallengeAuditResponse" where
  "auditVerdict checks response =
     (if checksOK checks
      then response\<lparr>ar_Checks := checks, ar_OK := True,
             ar_Detail := ''challenge settlement state reconciles with funding, payout, top-up, and grouped run proofs''\<rparr>
      else response\<lparr>ar_Checks := checks, ar_OK := False, ar_FailureCode := firstFailureCode checks, ar_Detail := firstFailureDetail checks\<rparr>)"

definition auditRecord :: "'c env \<Rightarrow> settlementConfig \<Rightarrow> settlementChallengeStoredResult \<Rightarrow> settlementChallengeAuditResponse
    \<Rightarrow> ('c world, string + settlementChallengeAuditResponse) state" where
  "auditRecord env cfg record response = do {
     fa \<leftarrow> onChain (auditChallengeFunding env cfg record);
     w \<leftarrow> State_Monad.get;
     let (totals, allocationChecks) = auditChallengeBucketAllocation record (fa_verified fa);
     let summary = (auditSummaryBase record)\<lparr>au_FundingVerifiedCount := length (fa_verified fa),
       au_FundingTotalUWolo := FormatUint (gt_total (fa_totals fa)), au_WagerFundedUWolo := FormatUint (gt_wager (fa_totals fa)),
       au_GuaranteeFundedUWolo := FormatUint (gt_guarantee (fa_totals fa)), au_RequestedTotalUWolo := FormatUint (xt_total totals),
       au_WagerTransferUWolo := FormatUint (xt_wager totals), au_GuaranteeTransferUWolo := FormatUint (xt_guarantee totals),
       au_TreasuryTransferUWolo := FormatUint (xt_treasury totals)\<rparr>;
     let checks = recordChecks env (ar_ChallengePath response) record @ fa_checks fa @ [fundingTotalCheck record (fa_totals fa)] @
       allocationChecks @ transferTotalChecks record totals;
     (case auditChallengeRunState env cfg record w of
        Inl err \<Rightarrow> State_Monad.return (Inl err)
      | Inr (runRecord, runChecks) \<Rightarrow> do {
          (transfers, transferChecks, txChecked) \<leftarrow> auditChallengeTransfers env cfg record runRecord;
          topUp \<leftarrow> auditChallengeTopUp env cfg record;
          (case topUp of
             Inl err \<Rightarrow> State_Monad.return (Inl err)
           | Inr (audit, topUpChecks) \<Rightarrow>
               let summary = summary\<lparr>au_TransferTxCheckedCount := txChecked\<rparr>;
                   summary = (case audit of None \<Rightarrow> summary
                     | Some t \<Rightarrow> summary\<lparr>au_TopUpAmountUWolo := ap_AmountUWolo t, au_TopUpTxChecked := (ap_TxLookup t \<noteq> None)\<rparr>)
               in State_Monad.return (Inr (auditVerdict (checks @ runChecks @ transferChecks @ topUpChecks)
                    (response\<lparr>ar_Summary := summary, ar_Funding := fa_audits fa,
                       ar_RunPath := (if runRecord = None then [] else runRecordPath cfg (nc_SettlementRunID (cs_Request record))),
                       ar_Transfers := transfers, ar_TopUp := audit\<rparr>))))
        })
   }"

definition auditSettlementChallenge :: "'c env \<Rightarrow> settlementConfig \<Rightarrow> string \<Rightarrow> ('c world, string + settlementChallengeAuditResponse) state" where
  "auditSettlementChallenge env cfg settlementID0 =
     (let settlementID = TrimSpace settlementID0; recordPath = challengeRecordPath cfg settlementID in
      if settlementID = [] then State_Monad.return (Inl ''settlement id is required'')
      else do {
        w \<leftarrow> State_Monad.get;
        let response = zero_settlementChallengeAuditResponse\<lparr>ar_OK := False, ar_SettlementRunID := settlementID,
          ar_ChallengePath := recordPath, ar_CheckedAt := env_now env (w_chain w)\<rparr>;
        (case readSettlementChallengeStoredResult recordPath w of
           NotExist \<Rightarrow>
             let detail = ''stored challenge settlement state was not found'' in
             State_Monad.return (Inr (response\<lparr>ar_FailureCode := ''CHALLENGE_STATE_NOT_FOUND'', ar_Detail := detail,
               ar_Checks := [failedAuditCheck ''challenge_state_exists'' ''CHALLENGE_STATE_NOT_FOUND'' detail recordPath ''missing'']\<rparr>))
         | ReadFailed err \<Rightarrow> State_Monad.return (Inl err)
         | ReadOK record \<Rightarrow> auditRecord env cfg record response)
      })"

end
