(* ===== verification/Service.thy ===== *)
theory Service
  imports Reports Config Challenge_Audit
begin

text \<open>
  The HTTP service (settlement.go, lines 1044--1522): the routes, their methods, the bearer token
  check, and the status code made of each answer.

  A request carries what the handlers read: the method, the cleaned path, the raw query, the
  \<open>Authorization\<close> header and, for each type a body is decoded at, what \<open>json.Decode\<close> makes of the body
  (\<open>None\<close> when it fails).  \<open>net/http\<close> serves a path by the exact pattern, redirects a path that a slash
  would make the exact pattern of a subtree, and otherwise takes the longest subtree pattern.  The
  directory listing that \<open>os.ReadDir\<close> returns during the request is an argument.
\<close>

record httpRequest =
  hq_Method :: string
  hq_Path :: string
  hq_RawQuery :: string
  hq_Authorization :: string
  hq_ExecuteBody :: "settlementExecuteRequest option"
  hq_RunBody :: "settlementRunRequest option"
  hq_ChallengeBody :: "settlementChallengeRequest option"

datatype httpBody =
    DetailBody string
  | HealthBody settlementHealthResponse
  | ExecuteBody settlementExecuteResponse
  | RunBody settlementRunResponse
  | EscrowVerifyBody settlementEscrowVerifyResponse
  | EscrowRecentBody settlementEscrowRecentResponse
  | ChallengeBody settlementChallengeResponse
  | FundingVerifyBody settlementChallengeFundingVerifyResponse
  | FundingRecentBody settlementChallengeFundingRecentResponse
  | ChallengeInspectBody settlementChallengeInspectResponse
  | ChallengeRecentBody settlementChallengeRecentResponse
  | LookupBody settlementLookupResponse

datatype served = Served nat httpBody | Redirected | NoRoute | Panicked

definition query :: "httpRequest \<Rightarrow> string \<Rightarrow> string" where
  "query r key = valuesGet (fst (ParseQuery (hq_RawQuery r))) key"

definition methodNotAllowed :: served where
  "methodNotAllowed = Served 405 (DetailBody ''method not allowed'')"

text \<open>The two guards most handlers open with.\<close>

definition onMethod :: "string \<Rightarrow> httpRequest \<Rightarrow> ('c world, served) state \<Rightarrow> ('c world, served) state" where
  "onMethod httpMethod r handle = (if hq_Method r \<noteq> httpMethod then State_Monad.return methodNotAllowed else handle)"

definition authorized :: "settlementConfig \<Rightarrow> httpRequest \<Rightarrow> ('c world, served) state \<Rightarrow> ('c world, served) state" where
  "authorized cfg r handle =
     (case checkAuth cfg (hq_Authorization r) of Some err \<Rightarrow> State_Monad.return (Served 401 (DetailBody err)) | None \<Rightarrow> handle)"

text \<open>An answer with its status, or an internal error.\<close>

definition answer :: "('a \<Rightarrow> nat) \<Rightarrow> ('a \<Rightarrow> httpBody) \<Rightarrow> string + 'a \<Rightarrow> served" where
  "answer status body result = (case result of Inl err \<Rightarrow> Served 500 (DetailBody err) | Inr response \<Rightarrow> Served (status response) (body response))"

section \<open>Status codes\<close>

definition payoutStatus :: "settlementExecuteResponse \<Rightarrow> nat" where
  "payoutStatus response = (if xr_OK response then 200
     else if xr_FailureCode response = ''INVALID_REQUEST'' \<or> xr_FailureCode response = ''INVALID_ADDRESS'' then 400 else 409)"

definition runStatus :: "settlementRunResponse \<Rightarrow> nat" where
  "runStatus response = (if rr_OK response then 200 else if rr_FailureCode response = ''INVALID_RUN'' then 400 else 409)"

definition challengeStatus :: "settlementChallengeResponse \<Rightarrow> nat" where
  "challengeStatus response = (if cr_OK response then 200 else if cr_FailureCode response = ''INVALID_CHALLENGE'' then 400 else 409)"

definition escrowVerifyStatus :: "settlementEscrowVerifyResponse \<Rightarrow> nat" where
  "escrowVerifyStatus response = (if ev_OK response then 200
     else if ev_FailureCode response \<in> {''ESCROW_UNCONFIGURED'', ''INVALID_ADDRESS'', ''INVALID_AMOUNT'', ''INVALID_TX_HASH''} then 400
     else if ev_FailureCode response \<in> {''TX_NOT_FOUND'', ''NOT_ESCROW_DEPOSIT''} then 404
     else if ev_FailureCode response \<in> {''LOOKUP_FAILED'', ''RPC_UNREACHABLE'', ''CHAIN_ID_MISMATCH''} then 503
     else 409)"

definition escrowRecentStatus :: "settlementEscrowRecentResponse \<Rightarrow> nat" where
  "escrowRecentStatus response = (if er_OK response then 200
     else if er_FailureCode response \<in> {''ESCROW_UNCONFIGURED'', ''INVALID_ADDRESS'', ''INVALID_LIMIT''} then 400
     else if er_FailureCode response \<in> {''LOOKUP_FAILED'', ''RPC_UNREACHABLE'', ''CHAIN_ID_MISMATCH''} then 503
     else 409)"

definition fundingVerifyStatus :: "settlementChallengeFundingVerifyResponse \<Rightarrow> nat" where
  "fundingVerifyStatus response = (if fv_OK response then 200
     else if fv_FailureCode response \<in> {''ESCROW_UNCONFIGURED'', ''INVALID_ADDRESS'', ''INVALID_AMOUNT'', ''INVALID_TX_HASH'', ''INVALID_CHALLENGE''} then 400
     else if fv_FailureCode response \<in> {''TX_NOT_FOUND'', ''NOT_ESCROW_DEPOSIT''} then 404
     else if fv_FailureCode response \<in> {''LOOKUP_FAILED'', ''RPC_UNREACHABLE'', ''CHAIN_ID_MISMATCH'', ''REST_DRIFT''} then 503
     else 409)"

definition fundingRecentStatus :: "settlementChallengeFundingRecentResponse \<Rightarrow> nat" where
  "fundingRecentStatus response = (if fc_OK response then 200
     else if fc_FailureCode response \<in> {''ESCROW_UNCONFIGURED'', ''INVALID_ADDRESS'', ''INVALID_LIMIT'', ''INVALID_CHALLENGE''} then 400
     else if fc_FailureCode response \<in> {''LOOKUP_FAILED'', ''RPC_UNREACHABLE'', ''CHAIN_ID_MISMATCH'', ''REST_DRIFT''} then 503
     else 409)"

definition lookupStatus :: "settlementLookupResponse \<Rightarrow> nat" where
  "lookupStatus response = (if lr_OK response then 200 else if lr_FailureCode response = ''INVALID_TX_HASH'' then 400 else 404)"

section \<open>Handlers\<close>

definition serveHealth :: "'c env \<Rightarrow> settlementConfig \<Rightarrow> httpRequest \<Rightarrow> ('c world, served) state" where
  "serveHealth env cfg r = onMethod ''GET'' r (do {
     report \<leftarrow> onChain (buildHealthReport env cfg);
     State_Monad.return (Served (if hr_OK report then 200 else 503) (HealthBody report))
   })"

definition servePayouts :: "'c env \<Rightarrow> settlementConfig \<Rightarrow> httpRequest \<Rightarrow> ('c world, served) state" where
  "servePayouts env cfg r = onMethod ''POST'' r (authorized cfg r
     (case hq_ExecuteBody r of
        None \<Rightarrow> State_Monad.return (Served 400 (ExecuteBody (zero_settlementExecuteResponse\<lparr>xr_OK := False, xr_Status := ''failed'',
          xr_FailureCode := ''INVALID_REQUEST'', xr_Detail := ''request body must be valid JSON'', xr_ChainID := cfg_ChainID cfg,
          xr_SignerRole := settlementSignerRole\<rparr>)))
      | Some request \<Rightarrow> do {
          result \<leftarrow> executeSettlement env cfg request;
          State_Monad.return (answer payoutStatus ExecuteBody result)
        }))"

definition badRun :: "bool \<Rightarrow> served" where
  "badRun dryRun = Served 400 (RunBody (zero_settlementRunResponse\<lparr>rr_OK := False, rr_DryRun := dryRun, rr_Status := ''failed'',
     rr_FailureCode := ''INVALID_RUN'', rr_Detail := ''request body must be valid JSON''\<rparr>))"

definition serveRunsValidate :: "'c env \<Rightarrow> settlementConfig \<Rightarrow> httpRequest \<Rightarrow> ('c world, served) state" where
  "serveRunsValidate env cfg r = onMethod ''POST'' r (authorized cfg r
     (case hq_RunBody r of
        None \<Rightarrow> State_Monad.return (badRun True)
      | Some request \<Rightarrow> do {
          response \<leftarrow> onChain (validateSettlementRun env cfg request);
          State_Monad.return (Served (runStatus response) (RunBody response))
        }))"

definition serveRuns :: "'c env \<Rightarrow> settlementConfig \<Rightarrow> httpRequest \<Rightarrow> ('c world, served) state" where
  "serveRuns env cfg r = onMethod ''POST'' r (authorized cfg r
     (case hq_RunBody r of
        None \<Rightarrow> State_Monad.return (badRun False)
      | Some request \<Rightarrow> do {
          result \<leftarrow> executeSettlementRun env cfg request;
          State_Monad.return (answer runStatus RunBody result)
        }))"

definition serveEscrowTx :: "'c env \<Rightarrow> settlementConfig \<Rightarrow> httpRequest \<Rightarrow> ('c world, served) state" where
  "serveEscrowTx env cfg r = onMethod ''GET'' r (do {
     response \<leftarrow> onChain (verifyEscrowDeposit env cfg (TrimPrefix (hq_Path r) ''/settlement/v1/escrow/txs/'')
       (query r ''expected_sender'') (query r ''expected_amount_uwolo''));
     State_Monad.return (Served (escrowVerifyStatus response) (EscrowVerifyBody response))
   })"

text \<open>\<open>strconv.Atoi\<close> is \<open>strconv.ParseInt\<close> on a 64-bit platform.\<close>

definition queryLimit :: "httpRequest \<Rightarrow> numError + int" where
  "queryLimit r = (let rawLimit = TrimSpace (query r ''limit'') in if rawLimit = [] then Inr 20 else ParseInt rawLimit)"

definition serveEscrowDeposits :: "'c env \<Rightarrow> settlementConfig \<Rightarrow> httpRequest \<Rightarrow> ('c world, served) state" where
  "serveEscrowDeposits env cfg r = onMethod ''GET'' r
     (case queryLimit r of
        Inl _ \<Rightarrow> State_Monad.return (Served 400 (EscrowRecentBody (zero_settlementEscrowRecentResponse\<lparr>er_OK := False,
          er_FailureCode := ''INVALID_LIMIT'', er_Detail := ''limit must be a positive integer''\<rparr>)))
      | Inr limit \<Rightarrow> do {
          response \<leftarrow> onChain (listRecentEscrowDeposits env cfg limit (query r ''sender''));
          State_Monad.return (Served (escrowRecentStatus response) (EscrowRecentBody response))
        })"

definition badChallenge :: "bool \<Rightarrow> served" where
  "badChallenge dryRun = Served 400 (ChallengeBody (zero_settlementChallengeResponse\<lparr>cr_OK := False, cr_DryRun := dryRun, cr_Status := ''failed'',
     cr_FailureCode := ''INVALID_CHALLENGE'', cr_Detail := ''request body must be valid JSON''\<rparr>))"

definition serveChallengesValidate :: "'c env \<Rightarrow> settlementConfig \<Rightarrow> httpRequest \<Rightarrow> ('c world, served) state" where
  "serveChallengesValidate env cfg r = onMethod ''POST'' r (authorized cfg r
     (case hq_ChallengeBody r of
        None \<Rightarrow> State_Monad.return (badChallenge True)
      | Some request \<Rightarrow> do {
          response \<leftarrow> onChain (validateSettlementChallenge env cfg request);
          State_Monad.return (Served (challengeStatus response) (ChallengeBody response))
        }))"

definition serveFundingTx :: "'c env \<Rightarrow> settlementConfig \<Rightarrow> httpRequest \<Rightarrow> ('c world, served) state" where
  "serveFundingTx env cfg r = onMethod ''GET'' r (do {
     response \<leftarrow> onChain (verifyChallengeFundingDeposit env cfg (TrimPrefix (hq_Path r) ''/settlement/v1/challenges/funding/txs/'')
       \<lparr>fe_Sender = query r ''expected_sender'', fe_SourceApp = query r ''source_app'', fe_SettlementRunID = query r ''settlement_run_id'',
        fe_ChallengeID = query r ''challenge_id'', fe_SourceEventID = query r ''source_event_id'', fe_ParticipantSide = query r ''participant_side'',
        fe_ParticipantID = query r ''participant_id'', fe_TotalFundedUWolo = query r ''expected_amount_uwolo'',
        fe_WagerUWolo = query r ''wager_uwolo'', fe_GuaranteeUWolo = query r ''guarantee_uwolo''\<rparr>);
     State_Monad.return (Served (fundingVerifyStatus response) (FundingVerifyBody response))
   })"

definition serveFundingDeposits :: "'c env \<Rightarrow> settlementConfig \<Rightarrow> httpRequest \<Rightarrow> ('c world, served) state" where
  "serveFundingDeposits env cfg r = onMethod ''GET'' r
     (case queryLimit r of
        Inl _ \<Rightarrow> State_Monad.return (Served 400 (FundingRecentBody (zero_settlementChallengeFundingRecentResponse\<lparr>fc_OK := False,
          fc_FailureCode := ''INVALID_LIMIT'', fc_Detail := ''limit must be a positive integer''\<rparr>)))
      | Inr limit \<Rightarrow> do {
          response \<leftarrow> onChain (listRecentChallengeFundingDeposits env cfg \<lparr>ff_Limit = limit, ff_Sender = query r ''sender'',
            ff_SourceApp = query r ''source_app'', ff_SettlementRunID = query r ''settlement_run_id'', ff_ChallengeID = query r ''challenge_id'',
            ff_SourceEventID = query r ''source_event_id'', ff_ParticipantSide = query r ''participant_side'',
            ff_ParticipantID = query r ''participant_id''\<rparr>);
          State_Monad.return (Served (fundingRecentStatus response) (FundingRecentBody response))
        })"

definition serveChallenge :: "settlementConfig \<Rightarrow> httpRequest \<Rightarrow> ('c world, served) state" where
  "serveChallenge cfg r = onMethod ''GET'' r (do {
     w \<leftarrow> State_Monad.get;
     State_Monad.return (answer (\<lambda>response. if ci_Found response then 200 else 404) ChallengeInspectBody
       (inspectSettlementChallenge cfg (TrimSpace (TrimPrefix (hq_Path r) ''/settlement/v1/challenges/'')) w))
   })"

definition serveChallenges :: "'c env \<Rightarrow> settlementConfig \<Rightarrow> dirEntries \<Rightarrow> httpRequest \<Rightarrow> ('c world, served) state" where
  "serveChallenges env cfg listing r =
     (if hq_Method r = ''POST''
      then authorized cfg r
        (case hq_ChallengeBody r of
           None \<Rightarrow> State_Monad.return (badChallenge False)
         | Some request \<Rightarrow> do {
             result \<leftarrow> executeSettlementChallenge env cfg request;
             State_Monad.return (answer challengeStatus ChallengeBody result)
           })
      else if hq_Method r = ''GET''
      then (case queryLimit r of
          Inl _ \<Rightarrow> State_Monad.return (Served 400 (ChallengeRecentBody (zero_settlementChallengeRecentResponse\<lparr>cl_Count := 0,
            cl_Summary := zero_settlementChallengeRecentSummary\<lparr>ch_RequestedLimit := 20\<rparr>\<rparr>)))
        | Inr limit \<Rightarrow> do {
            w \<leftarrow> State_Monad.get;
            let status0 = TrimSpace (ToLower (query r ''status''));
            let status = (if status0 = [] then ''all'' else status0);
            let failureCode = TrimSpace (ToUpper (query r ''failure_code''));
            let summaryOnly = EqualFold (TrimSpace (query r ''summary_only'')) ''true'';
            State_Monad.return (case listRecentSettlementChallenges cfg w listing limit status failureCode of
              None \<Rightarrow> Panicked
            | Some (Inl err) \<Rightarrow> Served 500 (DetailBody err)
            | Some (Inr items) \<Rightarrow> Served 200 (ChallengeRecentBody \<lparr>cl_Count = length items,
                cl_Summary = summarizeSettlementChallengeRecentItems limit status failureCode items,
                cl_Items = optionalSettlementChallengeRecentItems summaryOnly items\<rparr>))
          })
      else State_Monad.return methodNotAllowed)"

definition serveTx :: "'c env \<Rightarrow> settlementConfig \<Rightarrow> httpRequest \<Rightarrow> ('c world, served) state" where
  "serveTx env cfg r = onMethod ''GET'' r (do {
     response \<leftarrow> onChain (lookupSettlementTx env cfg (TrimPrefix (hq_Path r) ''/settlement/v1/txs/'')
       \<lparr>le_Sender = query r ''expected_sender'', le_Recipient = query r ''expected_recipient'', le_AmountUWolo = query r ''expected_amount_uwolo''\<rparr>);
     State_Monad.return (Served (lookupStatus response) (LookupBody response))
   })"

section \<open>Routing\<close>

definition subtrees :: "string list" where
  "subtrees = [''/settlement/v1/challenges/funding/txs/'', ''/settlement/v1/escrow/txs/'', ''/settlement/v1/challenges/'', ''/settlement/v1/txs/'']"

definition newSettlementHTTPHandler :: "'c env \<Rightarrow> settlementConfig \<Rightarrow> dirEntries \<Rightarrow> httpRequest \<Rightarrow> ('c world, served) state" where
  "newSettlementHTTPHandler env cfg listing r =
     (let path = hq_Path r in
      if path = ''/settlement/v1/health'' then serveHealth env cfg r
      else if path = ''/settlement/v1/payouts'' then servePayouts env cfg r
      else if path = ''/settlement/v1/runs/validate'' then serveRunsValidate env cfg r
      else if path = ''/settlement/v1/runs'' then serveRuns env cfg r
      else if path = ''/settlement/v1/escrow/deposits'' then serveEscrowDeposits env cfg r
      else if path = ''/settlement/v1/challenges/validate'' then serveChallengesValidate env cfg r
      else if path = ''/settlement/v1/challenges/funding/deposits'' then serveFundingDeposits env cfg r
      else if path = ''/settlement/v1/challenges'' then serveChallenges env cfg listing r
      else if path @ ''/'' \<in> set subtrees then State_Monad.return Redirected
      else if prefix ''/settlement/v1/challenges/funding/txs/'' path then serveFundingTx env cfg r
      else if prefix ''/settlement/v1/escrow/txs/'' path then serveEscrowTx env cfg r
      else if prefix ''/settlement/v1/challenges/'' path then serveChallenge cfg r
      else if prefix ''/settlement/v1/txs/'' path then serveTx env cfg r
      else State_Monad.return NoRoute)"

text \<open>The command that starts the service: it refuses to listen, or serves with its handler on the configured address.\<close>

definition newSettlementServeCmd :: "'c env \<Rightarrow> string + settlementConfig \<Rightarrow> string + string \<times> (dirEntries \<Rightarrow> httpRequest \<Rightarrow> ('c world, served) state)" where
  "newSettlementServeCmd env loaded =
     (case loaded of
        Inl err \<Rightarrow> Inl err
      | Inr cfg \<Rightarrow>
          (case validateServeSafety env cfg of
             Some err \<Rightarrow> Inl err
           | None \<Rightarrow> Inr (cfg_ListenAddr cfg, newSettlementHTTPHandler env cfg)))"

end
