(* ===== verification/Commands.thy ===== *)
theory Commands
  imports Service
begin

text \<open>
  The command line of the settlement rail (settlement.go, lines 597--946; settlement_challenge.go,
  lines 374--554; settlement_challenge_audit.go, lines 106--139).  A command is its \<open>RunE\<close> body: it loads
  the configuration, reads its JSON input where it has one, and writes the answer of one operation.
  \<open>loaded\<close> is the outcome of \<open>loadSettlementConfig\<close>, \<open>input\<close> that of \<open>readJSONInput\<close>; a bad file ends the
  command before the operation.
\<close>

definition withConfig :: "string + settlementConfig \<Rightarrow> (settlementConfig \<Rightarrow> ('s, string + 'a) state) \<Rightarrow> ('s, string + 'a) state" where
  "withConfig loaded run = (case loaded of Inl err \<Rightarrow> State_Monad.return (Inl err) | Inr cfg \<Rightarrow> run cfg)"

definition query1 :: "('c, 'a) state \<Rightarrow> ('c world, string + 'a) state" where
  "query1 m = do { response \<leftarrow> onChain m; State_Monad.return (Inr response) }"

section \<open>Single transfers and deposits\<close>

definition newSettlementEscrowVerifyCmd :: "'c env \<Rightarrow> string + settlementConfig \<Rightarrow> string \<Rightarrow> string \<Rightarrow> string
    \<Rightarrow> ('c world, string + settlementEscrowVerifyResponse) state" where
  "newSettlementEscrowVerifyCmd env loaded txHash expectedFrom expectedAmt =
     withConfig loaded (\<lambda>cfg. query1 (verifyEscrowDeposit env cfg txHash expectedFrom expectedAmt))"

definition newSettlementEscrowRecentCmd :: "'c env \<Rightarrow> string + settlementConfig \<Rightarrow> int \<Rightarrow> string
    \<Rightarrow> ('c world, string + settlementEscrowRecentResponse) state" where
  "newSettlementEscrowRecentCmd env loaded limit sender = withConfig loaded (\<lambda>cfg. query1 (listRecentEscrowDeposits env cfg limit sender))"

definition newSettlementDoctorCmd :: "'c env \<Rightarrow> string + settlementConfig \<Rightarrow> ('c world, string + settlementHealthResponse) state" where
  "newSettlementDoctorCmd env loaded = withConfig loaded (\<lambda>cfg. query1 (buildHealthReport env cfg))"

definition newSettlementExecuteCmd :: "'c env \<Rightarrow> string + settlementConfig \<Rightarrow> settlementExecuteRequest
    \<Rightarrow> ('c world, string + settlementExecuteResponse) state" where
  "newSettlementExecuteCmd env loaded request = withConfig loaded (\<lambda>cfg. executeSettlement env cfg request)"

definition newSettlementLookupCmd :: "'c env \<Rightarrow> string + settlementConfig \<Rightarrow> string \<Rightarrow> string \<Rightarrow> string \<Rightarrow> string
    \<Rightarrow> ('c world, string + settlementLookupResponse) state" where
  "newSettlementLookupCmd env loaded txHash expectedFrom expectedTo expectedAmt = withConfig loaded (\<lambda>cfg.
     query1 (lookupSettlementTx env cfg txHash \<lparr>le_Sender = expectedFrom, le_Recipient = expectedTo, le_AmountUWolo = expectedAmt\<rparr>))"

section \<open>Grouped runs\<close>

definition newSettlementRunValidateCmd :: "'c env \<Rightarrow> string + settlementConfig \<Rightarrow> string + settlementRunRequest
    \<Rightarrow> ('c world, string + settlementRunResponse) state" where
  "newSettlementRunValidateCmd env loaded input = withConfig loaded (\<lambda>cfg.
     case input of Inl err \<Rightarrow> State_Monad.return (Inl err) | Inr request \<Rightarrow> query1 (validateSettlementRun env cfg request))"

definition newSettlementRunExecuteCmd :: "'c env \<Rightarrow> string + settlementConfig \<Rightarrow> string + settlementRunRequest
    \<Rightarrow> ('c world, string + settlementRunResponse) state" where
  "newSettlementRunExecuteCmd env loaded input = withConfig loaded (\<lambda>cfg.
     case input of Inl err \<Rightarrow> State_Monad.return (Inl err) | Inr request \<Rightarrow> executeSettlementRun env cfg request)"

section \<open>Challenge settlements\<close>

definition newSettlementChallengeFundingVerifyCmd :: "'c env \<Rightarrow> string + settlementConfig \<Rightarrow> string \<Rightarrow> settlementChallengeFundingExpectation
    \<Rightarrow> ('c world, string + settlementChallengeFundingVerifyResponse) state" where
  "newSettlementChallengeFundingVerifyCmd env loaded txHash expectation =
     withConfig loaded (\<lambda>cfg. query1 (verifyChallengeFundingDeposit env cfg txHash expectation))"

definition newSettlementChallengeFundingRecentCmd :: "'c env \<Rightarrow> string + settlementConfig \<Rightarrow> settlementChallengeFundingRecentFilters
    \<Rightarrow> ('c world, string + settlementChallengeFundingRecentResponse) state" where
  "newSettlementChallengeFundingRecentCmd env loaded filters =
     withConfig loaded (\<lambda>cfg. query1 (listRecentChallengeFundingDeposits env cfg filters))"

definition newSettlementChallengeValidateCmd :: "'c env \<Rightarrow> string + settlementConfig \<Rightarrow> string + settlementChallengeRequest
    \<Rightarrow> ('c world, string + settlementChallengeResponse) state" where
  "newSettlementChallengeValidateCmd env loaded input = withConfig loaded (\<lambda>cfg.
     case input of Inl err \<Rightarrow> State_Monad.return (Inl err) | Inr request \<Rightarrow> query1 (validateSettlementChallenge env cfg request))"

definition newSettlementChallengeExecuteCmd :: "'c env \<Rightarrow> string + settlementConfig \<Rightarrow> string + settlementChallengeRequest
    \<Rightarrow> ('c world, string + settlementChallengeResponse) state" where
  "newSettlementChallengeExecuteCmd env loaded input = withConfig loaded (\<lambda>cfg.
     case input of Inl err \<Rightarrow> State_Monad.return (Inl err) | Inr request \<Rightarrow> executeSettlementChallenge env cfg request)"

definition newSettlementChallengeAuditCmd :: "'c env \<Rightarrow> string + settlementConfig \<Rightarrow> string \<Rightarrow> bool
    \<Rightarrow> ('c world, string + settlementChallengeAuditResponse) state" where
  "newSettlementChallengeAuditCmd env loaded settlementID summaryOnly = withConfig loaded (\<lambda>cfg. do {
     result \<leftarrow> auditSettlementChallenge env cfg settlementID;
     State_Monad.return (case result of
       Inl err \<Rightarrow> Inl err
     | Inr response \<Rightarrow> Inr (if summaryOnly then response\<lparr>ar_Checks := [], ar_Funding := [], ar_Transfers := [], ar_TopUp := None\<rparr> else response))
   })"

section \<open>The command tree\<close>

text \<open>The leaves of \<open>wolochaind settlement\<close> with the flags each takes.\<close>

datatype settlementCommand =
    Doctor
  | Execute settlementExecuteRequest
  | EscrowVerify string string string
  | EscrowRecent int string
  | ChallengeFundingVerify string settlementChallengeFundingExpectation
  | ChallengeFundingRecent settlementChallengeFundingRecentFilters
  | ChallengeValidate "string + settlementChallengeRequest"
  | ChallengeExecute "string + settlementChallengeRequest"
  | ChallengeInspect string bool
  | ChallengeRecent int string string bool
  | ChallengeAudit string bool
  | LookupTx string string string string
  | Inspect string bool
  | Recent int string string bool
  | RunValidate "string + settlementRunRequest"
  | RunExecute "string + settlementRunRequest"
  | RunInspect string bool
  | RunRecent int string string bool

definition unitResult :: "('s, string + 'a) state \<Rightarrow> ('s, string option) state" where
  "unitResult m = do { result \<leftarrow> m; State_Monad.return (case result of Inl err \<Rightarrow> Some err | Inr _ \<Rightarrow> None) }"

text \<open>Running a command, reduced to its effect and its error: the answer it prints is the value of its definition above.\<close>

definition runSettlementCommand :: "'c env \<Rightarrow> string + settlementConfig \<Rightarrow> dirEntries \<Rightarrow> settlementCommand \<Rightarrow> ('c world, string option) state" where
  "runSettlementCommand env loaded listing command =
     (let reading = (\<lambda>result. unitResult (do { w \<leftarrow> State_Monad.get; State_Monad.return (result w) })) in
      case command of
        Doctor \<Rightarrow> unitResult (newSettlementDoctorCmd env loaded)
      | Execute request \<Rightarrow> unitResult (newSettlementExecuteCmd env loaded request)
      | EscrowVerify txHash sender amount \<Rightarrow> unitResult (newSettlementEscrowVerifyCmd env loaded txHash sender amount)
      | EscrowRecent limit sender \<Rightarrow> unitResult (newSettlementEscrowRecentCmd env loaded limit sender)
      | ChallengeFundingVerify txHash expectation \<Rightarrow> unitResult (newSettlementChallengeFundingVerifyCmd env loaded txHash expectation)
      | ChallengeFundingRecent filters \<Rightarrow> unitResult (newSettlementChallengeFundingRecentCmd env loaded filters)
      | ChallengeValidate input \<Rightarrow> unitResult (newSettlementChallengeValidateCmd env loaded input)
      | ChallengeExecute input \<Rightarrow> unitResult (newSettlementChallengeExecuteCmd env loaded input)
      | ChallengeInspect sid summaryOnly \<Rightarrow> reading (\<lambda>w. map_sum id (\<lambda>_. ()) (newSettlementChallengeInspectCmd loaded sid summaryOnly w))
      | ChallengeRecent limit status code summaryOnly \<Rightarrow>
          reading (\<lambda>w. case newSettlementChallengeRecentCmd loaded limit status code summaryOnly listing w of
            None \<Rightarrow> Inl ''panic'' | Some r \<Rightarrow> map_sum id (\<lambda>_. ()) r)
      | ChallengeAudit sid summaryOnly \<Rightarrow> unitResult (newSettlementChallengeAuditCmd env loaded sid summaryOnly)
      | LookupTx txHash sender recipient amount \<Rightarrow> unitResult (newSettlementLookupCmd env loaded txHash sender recipient amount)
      | Inspect rid summaryOnly \<Rightarrow> reading (\<lambda>w. map_sum id (\<lambda>_. ()) (newSettlementInspectCmd loaded rid summaryOnly w))
      | Recent limit status code summaryOnly \<Rightarrow>
          reading (\<lambda>w. case newSettlementRecentCmd loaded limit status code summaryOnly listing w of
            None \<Rightarrow> Inl ''panic'' | Some r \<Rightarrow> map_sum id (\<lambda>_. ()) r)
      | RunValidate input \<Rightarrow> unitResult (newSettlementRunValidateCmd env loaded input)
      | RunExecute input \<Rightarrow> unitResult (newSettlementRunExecuteCmd env loaded input)
      | RunInspect rid summaryOnly \<Rightarrow> reading (\<lambda>w. map_sum id (\<lambda>_. ()) (newSettlementRunInspectCmd loaded rid summaryOnly w))
      | RunRecent limit status code summaryOnly \<Rightarrow>
          reading (\<lambda>w. case newSettlementRunRecentCmd loaded limit status code summaryOnly listing w of
            None \<Rightarrow> Inl ''panic'' | Some r \<Rightarrow> map_sum id (\<lambda>_. ()) r))"

end
