(* ===== verification/Read_Only.thy ===== *)
theory Read_Only
  imports Commands
begin

text \<open>
  Operations that only read: they may query the chain and the files, and leave records, locks and
  issued commands as they were.  \<open>readOnly\<close> is closed under the ways the code composes operations, so
  that an operation is read-only when its parts are.  The audit of a challenge settlement is, and so is
  every HTTP request that is not an authorized \<open>POST\<close>.
\<close>

definition readOnly :: "('c world, 'a) state \<Rightarrow> bool" where
  "readOnly m \<longleftrightarrow> (\<forall>w. (snd (run_state m w))\<lparr>w_chain := w_chain w\<rparr> = w)"

named_theorems read_only_intros \<open>read-only operations and their compositions\<close>

lemma world_same: "(w' :: 'c world)\<lparr>w_chain := w_chain w\<rparr> = w \<longleftrightarrow>
    w_files w' = w_files w \<and> w_locks w' = w_locks w \<and> w_sends w' = w_sends w"
  by (cases w; cases w') auto

lemma readOnlyD:
  assumes "readOnly m"
  shows "w_files (snd (run_state m w)) = w_files w" "w_locks (snd (run_state m w)) = w_locks w"
    "w_sends (snd (run_state m w)) = w_sends w"
  using assms unfolding readOnly_def world_same by blast+

lemma readOnly_bind [read_only_intros]:
  assumes "readOnly m" and "\<And>x. readOnly (f x)"
  shows "readOnly (State_Monad.bind m f)"
  using readOnlyD [OF assms(1)] readOnlyD [OF assms(2)] unfolding readOnly_def world_same by (simp add: case_prod_beta)

lemma readOnly_basic [read_only_intros]:
  "readOnly (State_Monad.return x)" "readOnly State_Monad.get" "readOnly (onChain q)"
  by (simp_all add: readOnly_def)

lemma readOnly_branch [read_only_intros]:
  "\<lbrakk>b \<Longrightarrow> readOnly m; \<not> b \<Longrightarrow> readOnly m'\<rbrakk> \<Longrightarrow> readOnly (if b then m else m')"
  "\<lbrakk>readOnly m; \<And>x. readOnly (f x)\<rbrakk> \<Longrightarrow> readOnly (case z of None \<Rightarrow> m | Some x \<Rightarrow> f x)"
  "\<lbrakk>\<And>e. readOnly (g e); \<And>x. readOnly (h x)\<rbrakk> \<Longrightarrow> readOnly (case u of Inl e \<Rightarrow> g e | Inr x \<Rightarrow> h x)"
  "\<lbrakk>\<And>x y. readOnly (k x y)\<rbrakk> \<Longrightarrow> readOnly (case v of (x, y) \<Rightarrow> k x y)"
  "\<lbrakk>\<And>s. readOnly (p s); \<And>e. readOnly (q e); readOnly r\<rbrakk> \<Longrightarrow> readOnly (case y of ReadOK s \<Rightarrow> p s | ReadFailed e \<Rightarrow> q e | NotExist \<Rightarrow> r)"
  by (auto split: option.splits sum.splits prod.splits readResult.splits)

section \<open>The audit\<close>

lemma auditTransfers_readOnly [read_only_intros]: "readOnly (auditTransfers env cfg byID runPayouts index transfers)"
proof (induction transfers arbitrary: index)
  case (Cons t ts)
  then show ?case unfolding auditTransfers.simps auditTransfer_def Let_def by (intro read_only_intros)
qed (simp add: read_only_intros)

lemma audit_readOnly [read_only_intros]: "readOnly (auditSettlementChallenge env cfg sid)"
  unfolding auditSettlementChallenge_def auditRecord_def auditChallengeTransfers_def auditChallengeTopUp_def auditTopUpTx_def Let_def
  by (intro read_only_intros)

section \<open>The service\<close>

lemmas handler_defs = serveHealth_def servePayouts_def serveRunsValidate_def serveRuns_def serveEscrowTx_def serveEscrowDeposits_def
  serveChallengesValidate_def serveFundingTx_def serveFundingDeposits_def serveChallenge_def serveChallenges_def serveTx_def

lemma authorized_not: "checkAuth cfg (hq_Authorization r) \<noteq> None \<Longrightarrow> readOnly (authorized cfg r handle)"
  by (auto simp: authorized_def read_only_intros split: option.splits)

lemma unauthorized_readOnly:
  assumes "checkAuth cfg (hq_Authorization r) \<noteq> None \<or> hq_Method r \<noteq> ''POST''"
  shows "readOnly (newSettlementHTTPHandler env cfg listing r)"
proof (cases "hq_Method r = ''POST''")
  case True
  with assms have "checkAuth cfg (hq_Authorization r) \<noteq> None" by blast
  then show ?thesis
    unfolding newSettlementHTTPHandler_def handler_defs onMethod_def Let_def by (intro read_only_intros authorized_not)
next
  case False
  then show ?thesis
    unfolding newSettlementHTTPHandler_def handler_defs onMethod_def Let_def
    by (simp only: False if_False not_False_eq_True if_True) (intro read_only_intros)
qed

text \<open>The commands that do not execute a transfer, a run or a challenge settlement.\<close>

definition executes :: "settlementCommand \<Rightarrow> bool" where
  "executes command = (case command of Execute _ \<Rightarrow> True | RunExecute _ \<Rightarrow> True | ChallengeExecute _ \<Rightarrow> True | _ \<Rightarrow> False)"

lemmas command_defs = newSettlementDoctorCmd_def newSettlementExecuteCmd_def newSettlementEscrowVerifyCmd_def newSettlementEscrowRecentCmd_def
  newSettlementLookupCmd_def newSettlementRunValidateCmd_def newSettlementRunExecuteCmd_def newSettlementChallengeFundingVerifyCmd_def
  newSettlementChallengeFundingRecentCmd_def newSettlementChallengeValidateCmd_def newSettlementChallengeExecuteCmd_def
  newSettlementChallengeAuditCmd_def unitResult_def withConfig_def query1_def

lemma command_readOnly:
  assumes "\<not> executes command"
  shows "readOnly (runSettlementCommand env loaded listing command)"
  using assms unfolding runSettlementCommand_def Let_def
  by (cases command; simp only: settlementCommand.case executes_def not_True_eq_False command_defs; (intro read_only_intros)?)

end
