(* ===== verification/Ledger.thy ===== *)
theory Ledger
  imports Run_Settled Challenge_Properties Read_Only
begin

text \<open>
  What the payment rail promises, as an abstract machine, and that every operation of the service
  implements it.

  The abstract state is a ledger: for each request id the record that settles it, if there is one, and
  the transfer commands issued so far.  The machine has three moves for an id that is not
  settled yet: issue a transfer and settle the id, issue a transfer and leave the id open (a refusal that may be
  retried, or a record that could not be written), and settle the id without a transfer.  A fourth move, for
  the ids of a given set only, puts a record that claims neither success nor a transaction in place of whatever was there, or
  removes what was there: it is what a run or a challenge settlement does whose id, which is part of a file name before it is validated,
  leads into the directory of the request records.

  \<open>ledgerOf\<close> reads a ledger off the files; \<open>refines\<close> says that an operation only makes moves of the machine, and is
  closed under the ways the code composes operations, so each operation follows from its parts.
\<close>

section \<open>The abstract machine\<close>

type_synonym ledger = "(string \<Rightarrow> settlementStoredResult option) \<times> string list list"

definition railKeys :: "settlementConfig \<Rightarrow> string set" where
  "railKeys cfg = {cfg_PayoutKeyName cfg, cfg_EscrowKeyName cfg}"

definition validTransfer :: "normalizedSettlementRequest \<Rightarrow> bool" where
  "validTransfer n \<longleftrightarrow> settlementRequestIDPattern (nq_RequestID n) \<and> isWoloAddress (nq_ToAddress n) settlementCanonicalPrefix"

lemma validTransfer_id: "validTransfer n \<Longrightarrow> settlementRequestIDPattern (nq_RequestID n)"
  by (simp add: validTransfer_def)

text \<open>A record that claims that something was paid.\<close>

definition claimsPayment :: "settlementStoredResult \<Rightarrow> bool" where
  "claimsPayment s \<longleftrightarrow> xr_OK (sr_Response s) \<or> xr_TxHash (sr_Response s) \<noteq> []"

inductive ledgerStep :: "settlementConfig \<Rightarrow> string set \<Rightarrow> ledger \<Rightarrow> ledger \<Rightarrow> bool" for cfg S where
  paid: "\<lbrakk>l (nq_RequestID n) = None; validTransfer n; key \<in> railKeys cfg; sr_Request s = n; isSettled (sr_Response s)\<rbrakk>
    \<Longrightarrow> ledgerStep cfg S (l, out) (l(nq_RequestID n \<mapsto> s), out @ [bankSendArgs cfg key n])"
| asked: "\<lbrakk>l (nq_RequestID n) = None; validTransfer n; key \<in> railKeys cfg\<rbrakk>
    \<Longrightarrow> ledgerStep cfg S (l, out) (l, out @ [bankSendArgs cfg key n])"
| refused: "\<lbrakk>l (nq_RequestID n) = None; validTransfer n; sr_Request s = n; isSettled (sr_Response s); \<not> claimsPayment s\<rbrakk>
    \<Longrightarrow> ledgerStep cfg S (l, out) (l(nq_RequestID n \<mapsto> s), out)"
| spoiled: "\<lbrakk>rid \<in> S; case entry of None \<Rightarrow> True | Some s \<Rightarrow> \<not> claimsPayment s\<rbrakk>
    \<Longrightarrow> ledgerStep cfg S (l, out) (l(rid := entry), out)"

inductive_cases ledgerStepE: "ledgerStep cfg S (l, out) (l', out')"

definition settledRecord :: "settlementConfig \<Rightarrow> 'c world \<Rightarrow> string \<Rightarrow> settlementStoredResult option" where
  "settledRecord cfg w rid =
     (if \<not> settlementRequestIDPattern rid then None
      else case readSettlementStoredResult (requestRecordPath cfg rid) w of
        ReadOK s \<Rightarrow> if isSettled (sr_Response s) then Some s else None
      | ReadFailed _ \<Rightarrow> None
      | NotExist \<Rightarrow> None)"

definition ledgerOf :: "settlementConfig \<Rightarrow> 'c world \<Rightarrow> ledger" where
  "ledgerOf cfg w = (settledRecord cfg w, w_sends w)"

lemma settledRecord_Some: "settledRecord cfg w rid = Some s \<longleftrightarrow> settledAt cfg rid s w"
  by (auto simp: settledRecord_def settledAt_def split: readResult.splits)

lemma ledgerOf_cong: "w_files w = w_files w' \<Longrightarrow> w_sends w = w_sends w' \<Longrightarrow> ledgerOf cfg w = ledgerOf cfg w'"
  by (simp add: ledgerOf_def settledRecord_def readSettlementStoredResult_def fun_eq_iff)

subsection \<open>What holds of every run of the machine\<close>

text \<open>A record that claims a payment has its transfer among the commands; outside the given set a settled id keeps its record.\<close>

definition ledgerInv :: "settlementConfig \<Rightarrow> ledger \<Rightarrow> bool" where
  "ledgerInv cfg lo \<longleftrightarrow> (\<forall>rid s. fst lo rid = Some s \<and> claimsPayment s \<longrightarrow>
     nq_RequestID (sr_Request s) = rid \<and> validTransfer (sr_Request s) \<and>
     (\<exists>key \<in> railKeys cfg. bankSendArgs cfg key (sr_Request s) \<in> set (snd lo)))"

lemma ledgerStep_inv: "ledgerStep cfg S lo lo' \<Longrightarrow> ledgerInv cfg lo \<Longrightarrow> ledgerInv cfg lo'"
  by (induction rule: ledgerStep.induct) (auto simp: ledgerInv_def split: option.splits)

lemma ledgerSteps_inv: "(ledgerStep cfg S)\<^sup>*\<^sup>* lo lo' \<Longrightarrow> ledgerInv cfg lo \<Longrightarrow> ledgerInv cfg lo'"
  by (induction rule: rtranclp_induct) (auto intro: ledgerStep_inv)

lemma ledgerStep_keeps: "ledgerStep cfg S lo lo' \<Longrightarrow> rid \<notin> S \<Longrightarrow> fst lo rid = Some s \<Longrightarrow> fst lo' rid = Some s"
  by (induction rule: ledgerStep.induct) auto

lemma ledgerSteps_keep: "(ledgerStep cfg S)\<^sup>*\<^sup>* lo lo' \<Longrightarrow> rid \<notin> S \<Longrightarrow> fst lo rid = Some s \<Longrightarrow> fst lo' rid = Some s"
  by (induction rule: rtranclp_induct) (auto intro: ledgerStep_keeps)

lemma ledgerStep_mono: "ledgerStep cfg S lo lo' \<Longrightarrow> S \<subseteq> T \<Longrightarrow> ledgerStep cfg T lo lo'"
  by (induction rule: ledgerStep.induct) (auto intro: ledgerStep.intros)

lemma ledgerSteps_mono: "(ledgerStep cfg S)\<^sup>*\<^sup>* lo lo' \<Longrightarrow> S \<subseteq> T \<Longrightarrow> (ledgerStep cfg T)\<^sup>*\<^sup>* lo lo'"
  by (induction rule: rtranclp_induct) (auto intro: ledgerStep_mono rtranclp.rtrancl_into_rtrancl)

section \<open>Operations that only make moves of the machine\<close>

definition refines :: "settlementConfig \<Rightarrow> string set \<Rightarrow> ('c world, 'a) state \<Rightarrow> bool" where
  "refines cfg S m \<longleftrightarrow> (\<forall>w. (ledgerStep cfg S)\<^sup>*\<^sup>* (ledgerOf cfg w) (ledgerOf cfg (snd (run_state m w))))"

named_theorems ledger_intros \<open>operations known to refine the ledger, and their compositions\<close>

lemma refines_quiet:
  assumes "\<And>w. w_files (snd (run_state m w)) = w_files w" and "\<And>w. w_sends (snd (run_state m w)) = w_sends w"
  shows "refines cfg S m"
  using ledgerOf_cong [OF assms] by (simp add: refines_def)

lemma readOnly_refines: "readOnly m \<Longrightarrow> refines cfg S m"
  by (rule refines_quiet) (simp_all add: readOnlyD)

lemma refines_bind [ledger_intros]:
  assumes "refines cfg S m" and "\<And>x. refines cfg S (f x)"
  shows "refines cfg S (State_Monad.bind m f)"
  unfolding refines_def
proof
  fix w
  obtain x w1 where m: "run_state m w = (x, w1)" by (cases "run_state m w")
  have "(ledgerStep cfg S)\<^sup>*\<^sup>* (ledgerOf cfg w) (ledgerOf cfg w1)" using assms(1) m unfolding refines_def by (metis snd_conv)
  moreover have "(ledgerStep cfg S)\<^sup>*\<^sup>* (ledgerOf cfg w1) (ledgerOf cfg (snd (run_state (f x) w1)))"
    using assms(2) unfolding refines_def by blast
  ultimately show "(ledgerStep cfg S)\<^sup>*\<^sup>* (ledgerOf cfg w) (ledgerOf cfg (snd (run_state (State_Monad.bind m f) w)))"
    by (simp add: m)
qed

lemma refines_basic [ledger_intros]:
  "refines cfg S (State_Monad.return x)" "refines cfg S State_Monad.get" "refines cfg S (onChain q)"
  "refines cfg S (lockAttempt env cfg' p)" "refines cfg S (lockRelease p)"
  by (rule refines_quiet; simp)+

lemma refines_branch [ledger_intros]:
  "\<lbrakk>b \<Longrightarrow> refines cfg S m; \<not> b \<Longrightarrow> refines cfg S m'\<rbrakk> \<Longrightarrow> refines cfg S (if b then m else m')"
  "\<lbrakk>refines cfg S m; \<And>x. refines cfg S (f x)\<rbrakk> \<Longrightarrow> refines cfg S (case z of None \<Rightarrow> m | Some x \<Rightarrow> f x)"
  "\<lbrakk>\<And>e. refines cfg S (g e); \<And>x. refines cfg S (h x)\<rbrakk> \<Longrightarrow> refines cfg S (case u of Inl e \<Rightarrow> g e | Inr x \<Rightarrow> h x)"
  "\<lbrakk>\<And>x y. refines cfg S (k x y)\<rbrakk> \<Longrightarrow> refines cfg S (case v of (x, y) \<Rightarrow> k x y)"
  by (auto split: option.splits sum.splits prod.splits)

lemma refines_mono: "refines cfg S m \<Longrightarrow> S \<subseteq> T \<Longrightarrow> refines cfg T m"
  unfolding refines_def using ledgerSteps_mono by blast

lemma refines_outcome [ledger_intros]:
  "\<lbrakk>\<And>e. refines cfg S (f e); refines cfg S m; refines cfg S m'\<rbrakk> \<Longrightarrow>
     refines cfg S (case z of LockError e \<Rightarrow> f e | LockBusy \<Rightarrow> m | LockHeld \<Rightarrow> m')"
  "\<lbrakk>\<And>s. refines cfg S (g s); \<And>e. refines cfg S (h e); refines cfg S k\<rbrakk> \<Longrightarrow>
     refines cfg S (case y of ReadOK s \<Rightarrow> g s | ReadFailed e \<Rightarrow> h e | NotExist \<Rightarrow> k)"
  by (auto split: lockOutcome.splits readResult.splits)

section \<open>The transfer rails\<close>

text \<open>What recording an outcome does to the settled records.\<close>

lemma recordResult_ledger:
  assumes "settlementRequestIDPattern (nq_RequestID n)"
  shows "\<exists>s. sr_Request s = n \<and> sr_Response s = r \<and>
    settledRecord cfg (snd (run_state (recordResult env cfg n a r) w)) \<in>
      {settledRecord cfg w, (settledRecord cfg w)(nq_RequestID n := if isSettled r then Some s else None)}"
proof -
  let ?s = "zero_settlementStoredResult\<lparr>sr_Request := n, sr_Fingerprint := env_hashRequest env n a, sr_Response := r,
    sr_UpdatedAt := env_now env (w_chain w)\<rparr>"
  show ?thesis
    using assms by (intro exI [of _ ?s])
      (auto simp: recordResult_def writeSettlementRecord_def settledRecord_def store_defs fun_eq_iff split: option.splits)
qed

lemma refines_step: "lo' = lo \<or> ledgerStep cfg S lo lo' \<Longrightarrow> (ledgerStep cfg S)\<^sup>*\<^sup>* lo lo'"
  by auto

context transfer_rail
begin

text \<open>An attempt for an id that is not settled is one move of the machine, or none.\<close>

lemma attempt_ledger:
  assumes "keyName cfg \<in> railKeys cfg" and "validTransfer n" and open_id: "settledRecord cfg w (nq_RequestID n) = None"
  shows "(ledgerStep cfg S)\<^sup>*\<^sup>* (ledgerOf cfg w) (ledgerOf cfg (snd (run_state (attemptTransfer env cfg preflight broadcast n) w)))"
    (is "rtranclp _ _ (ledgerOf cfg ?w')")
proof (cases rule: attempt_cases [of preflight env cfg n w])
  case (refused a failed c)
  let ?w1 = "w\<lparr>w_chain := c\<rparr>" and ?r = "requestFields cfg n failed"
  have same: "settledRecord cfg ?w1 = settledRecord cfg w"
    by (simp add: settledRecord_def readSettlementStoredResult_def fun_eq_iff)
  have fresh: "\<not> xr_OK ?r" "xr_TxHash ?r = []"
    using preflight_failure [of env cfg "nq_AmountUWolo n" "w_chain w" failed] refused by (simp_all add: requestFields_def)
  obtain s where s: "sr_Request s = n" "sr_Response s = ?r"
      "settledRecord cfg ?w' \<in> {settledRecord cfg w, (settledRecord cfg w)(nq_RequestID n := if isSettled ?r then Some s else None)}"
    using recordResult_ledger [OF validTransfer_id [OF assms(2)], of ?r cfg env "if a = [] then xr_SignerAddress failed else a" ?w1]
    unfolding attempt_refused [of preflight, OF refused] same by blast
  have "w_sends ?w' = w_sends w" by (simp add: attempt_refused [of preflight, OF refused])
  moreover have "settledRecord cfg ?w' = settledRecord cfg w \<or> isSettled ?r \<and> settledRecord cfg ?w' = (settledRecord cfg w)(nq_RequestID n \<mapsto> s)"
    using s(3) open_id by (auto simp: fun_upd_idem split: if_splits)
  ultimately show ?thesis
    using ledgerStep.refused [of "settledRecord cfg w" n s cfg S "w_sends w"] open_id assms(2) s(1,2) fresh
    by (intro refines_step) (auto simp: ledgerOf_def claimsPayment_def)
next
  case (sent a c)
  let ?w1 = "w\<lparr>w_chain := c\<rparr>"
  let ?r = "fst (run_state (broadcast env cfg n a) ?w1)" and ?w2 = "snd (run_state (broadcast env cfg n a) ?w1)"
  have same: "settledRecord cfg ?w2 = settledRecord cfg w"
    by (simp add: settledRecord_def readSettlementStoredResult_def fun_eq_iff)
  obtain s where s: "sr_Request s = n" "sr_Response s = ?r"
      "settledRecord cfg ?w' \<in> {settledRecord cfg w, (settledRecord cfg w)(nq_RequestID n := if isSettled ?r then Some s else None)}"
    using recordResult_ledger [OF validTransfer_id [OF assms(2)], of ?r cfg env a ?w2]
    unfolding attempt_sent [of preflight, OF sent] same by blast
  have "w_sends ?w' = w_sends w @ [bankSendArgs cfg (keyName cfg) n]" by (simp add: attempt_sent [of preflight, OF sent])
  moreover have "settledRecord cfg ?w' = settledRecord cfg w \<or> isSettled ?r \<and> settledRecord cfg ?w' = (settledRecord cfg w)(nq_RequestID n \<mapsto> s)"
    using s(3) open_id by (auto simp: fun_upd_idem split: if_splits)
  ultimately show ?thesis
    using ledgerStep.paid [of "settledRecord cfg w" n "keyName cfg" cfg s S "w_sends w"]
      ledgerStep.asked [of "settledRecord cfg w" n "keyName cfg" cfg S "w_sends w"] open_id assms(1,2) s(1,2)
    by (intro refines_step) (auto simp: ledgerOf_def)
qed

lemma locked_refines:
  assumes "keyName cfg \<in> railKeys cfg" and "validTransfer n"
  shows "refines cfg S (settleLocked env cfg role preflight broadcast n)"
  unfolding refines_def
proof
  fix w
  show "(ledgerStep cfg S)\<^sup>*\<^sup>* (ledgerOf cfg w) (ledgerOf cfg (snd (run_state (settleLocked env cfg role preflight broadcast n) w)))"
    using attempt_ledger [OF assms, of w S env]
    by (auto simp: settleLocked_def settledRecord_def split: readResult.splits)
qed

lemma settle_refines:
  assumes "keyName cfg \<in> railKeys cfg"
  shows "refines cfg S (settle env cfg role request)"
proof (cases "normalizeSettlementRequest request")
  case (Inl e)
  then show ?thesis by (simp add: settleRequest_def ledger_intros)
next
  case (Inr n)
  then have "validTransfer (n\<lparr>nq_SignerRole := role\<rparr>)"
    using normalizeSettlementRequest_fields(2,4) by (simp add: validTransfer_def)
  then show ?thesis
    unfolding settleRequest_def Inr sum.case Let_def withRequestLock_def
    by (intro ledger_intros locked_refines [OF assms])
qed

end

lemma rails_refine [ledger_intros]:
  "refines cfg S (executeSettlement env cfg request)" "refines cfg S (executeEscrowTransfer env cfg request)"
  unfolding executeSettlement_def executeEscrowTransfer_def
  by (simp_all add: payout_rail.settle_refines escrow_rail.settle_refines railKeys_def)

section \<open>Records of other kinds\<close>

text \<open>The request ids whose record file is also the record file of a run or a challenge settlement with a given id.\<close>

definition strayIDs :: "settlementConfig \<Rightarrow> string \<Rightarrow> string set" where
  "strayIDs cfg runID = {rid. settlementRequestIDPattern rid \<and>
     (requestRecordPath cfg rid = runRecordPath cfg runID \<or> requestRecordPath cfg rid = challengeRecordPath cfg runID)}"

lemma strayIDs_plain [simp]: "plainID runID \<Longrightarrow> strayIDs cfg runID = {}"
  by (auto simp: strayIDs_def)

text \<open>Writing a file that does not read as a claim of payment spoils at most the request that it is the record of.\<close>

lemma write_spoils:
  assumes "\<And>rid. settlementRequestIDPattern rid \<Longrightarrow> requestRecordPath cfg rid = path \<Longrightarrow> rid \<in> S"
    and "\<And>rid. settlementRequestIDPattern rid \<Longrightarrow> requestRecordPath cfg rid = path \<Longrightarrow> \<not> claimsPayment s"
    and "decodeRequest file = Inr s"
  shows "(ledgerStep cfg S)\<^sup>*\<^sup>* (ledgerOf cfg w) (ledgerOf cfg (w\<lparr>w_files := (w_files w)(path \<mapsto> file)\<rparr>))"
proof (cases "\<exists>rid. settlementRequestIDPattern rid \<and> requestRecordPath cfg rid = path")
  case False
  then have "ledgerOf cfg (w\<lparr>w_files := (w_files w)(path \<mapsto> file)\<rparr>) = ledgerOf cfg w"
    by (auto simp: ledgerOf_def settledRecord_def readSettlementStoredResult_def fun_eq_iff)
  then show ?thesis by simp
next
  case True
  then obtain rid where rid: "settlementRequestIDPattern rid" "requestRecordPath cfg rid = path" by blast
  let ?entry = "if isSettled (sr_Response s) then Some s else None"
  have "settledRecord cfg (w\<lparr>w_files := (w_files w)(path \<mapsto> file)\<rparr>) = (settledRecord cfg w)(rid := ?entry)"
    using assms(3) rid by (auto simp: settledRecord_def readSettlementStoredResult_def readStateFile_def fun_eq_iff)
  then show ?thesis
    using ledgerStep.spoiled [of rid S ?entry cfg "settledRecord cfg w" "w_sends w"] assms(1,2) [OF rid]
    by (intro refines_step) (simp add: ledgerOf_def)
qed

lemma recordRun_refines:
  assumes "rr_OK r \<Longrightarrow> plainID runID"
  shows "refines cfg (strayIDs cfg runID) (recordRun env cfg runID n f r)"
  unfolding refines_def
proof
  fix w :: "'a world"
  let ?s = "\<lparr>rs_Request = n, rs_Fingerprint = f, rs_Response = r, rs_UpdatedAt = env_now env (w_chain w)\<rparr>"
  have "\<not> claimsPayment (requestOfRun ?s)" if "settlementRequestIDPattern rid" "requestRecordPath cfg rid = runRecordPath cfg runID" for rid
    using that assms by (auto simp: claimsPayment_def)
  then have "(ledgerStep cfg (strayIDs cfg runID))\<^sup>*\<^sup>* (ledgerOf cfg w) (ledgerOf cfg (w\<lparr>w_files := (w_files w)(runRecordPath cfg runID \<mapsto> RunFile ?s)\<rparr>))"
    by (intro write_spoils [where s = "requestOfRun ?s"]) (simp_all add: strayIDs_def)
  then show "(ledgerStep cfg (strayIDs cfg runID))\<^sup>*\<^sup>* (ledgerOf cfg w) (ledgerOf cfg (snd (run_state (recordRun env cfg runID n f r) w)))"
    by (simp add: recordRun_def writeSettlementRunStoredResult_def split: option.splits)
qed

lemma recordChallenge_refines:
  assumes "cr_OK r \<Longrightarrow> plainID sid"
  shows "refines cfg (strayIDs cfg sid) (recordChallenge env cfg sid n r)"
  unfolding refines_def
proof
  fix w :: "'a world"
  let ?s = "\<lparr>cs_Request = n, cs_Fingerprint = env_hashChallenge env n, cs_Response = r, cs_UpdatedAt = env_now env (w_chain w)\<rparr>"
  have "\<not> claimsPayment (requestOfChallenge ?s)" if "settlementRequestIDPattern rid" "requestRecordPath cfg rid = challengeRecordPath cfg sid" for rid
    using that assms by (auto simp: claimsPayment_def)
  then have "(ledgerStep cfg (strayIDs cfg sid))\<^sup>*\<^sup>* (ledgerOf cfg w) (ledgerOf cfg (w\<lparr>w_files := (w_files w)(challengeRecordPath cfg sid \<mapsto> ChallengeFile ?s)\<rparr>))"
    by (intro write_spoils [where s = "requestOfChallenge ?s"]) (simp_all add: strayIDs_def)
  then show "(ledgerStep cfg (strayIDs cfg sid))\<^sup>*\<^sup>* (ledgerOf cfg w) (ledgerOf cfg (snd (run_state (recordChallenge env cfg sid n r) w)))"
    by (simp add: recordChallenge_def writeSettlementChallengeStoredResult_def split: option.splits)
qed

section \<open>Runs and challenge settlements\<close>

lemma items_refine [ledger_intros]: "refines cfg S (executeRunItems env cfg role payouts)"
proof (induction payouts)
  case (Cons p payouts)
  then show ?case unfolding executeRunItems.simps by (intro ledger_intros)
qed (simp add: ledger_intros)

lemma plannedRun_refines:
  assumes "rr_OK response \<Longrightarrow> plainID runID"
  shows "refines cfg (strayIDs cfg runID) (executePlannedRun env cfg runID n f response)"
  unfolding executePlannedRun_def Let_def using assms by (intro ledger_intros recordRun_refines) auto

lemma runUnderLock_refines:
  assumes "rr_OK validation \<Longrightarrow> plainID runID"
  shows "refines cfg (strayIDs cfg runID) (runUnderLock env cfg request runID n validation)"
  using plannedRun_refines [of "validation\<lparr>rr_DryRun := False\<rparr>" runID cfg env n "env_hashRun env n"] assms
  by (auto simp: refines_def runUnderLock_run Let_def split: readResult.splits)

lemma run_refines: "refines cfg (strayIDs cfg (TrimSpace (rq_SettlementRunID request))) (executeSettlementRun env cfg request)"
  unfolding refines_def
proof
  fix w :: "'a world"
  show "(ledgerStep cfg (strayIDs cfg (TrimSpace (rq_SettlementRunID request))))\<^sup>*\<^sup>* (ledgerOf cfg w)
      (ledgerOf cfg (snd (run_state (executeSettlementRun env cfg request) w)))"
  proof (cases rule: run_cases [of env cfg request w])
    case (unlocked w')
    then show ?thesis using ledgerOf_cong [of w' w cfg] by simp
  next
    case (held w1 locks)
    let ?rid = "TrimSpace (rq_SettlementRunID request)" and ?v = "(planOf env cfg request (w_chain w))\<lparr>rr_DryRun := False\<rparr>"
    let ?body = "run_state (runUnderLock env cfg request ?rid (prepared request) ?v) w1"
    have "rr_OK ?v \<Longrightarrow> plainID ?rid" using ok_plan(1) [of env cfg request "w_chain w"] valid_runID by simp
    from runUnderLock_refines [of ?v ?rid cfg env request "prepared request", OF this] have "(ledgerStep cfg (strayIDs cfg ?rid))\<^sup>*\<^sup>* (ledgerOf cfg w1) (ledgerOf cfg (snd ?body))"
      by (simp add: refines_def)
    moreover have "ledgerOf cfg w1 = ledgerOf cfg w" using held(1,2) by (rule ledgerOf_cong)
    moreover have "ledgerOf cfg ((snd ?body)\<lparr>w_locks := locks\<rparr>) = ledgerOf cfg (snd ?body)" by (rule ledgerOf_cong) simp_all
    ultimately show ?thesis using held(4) by (simp add: Let_def)
  qed
qed

lemma topUp_refines [ledger_intros]: "refines cfg S (executeChallengeTopUp env cfg sid topUp)"
  unfolding executeChallengeTopUp_def Let_def by (intro ledger_intros)

lemma challengeRun_refines:
  assumes "plainID sid" and "plainID (TrimSpace (rq_SettlementRunID (pl_RunRequest plan)))"
  shows "refines cfg S (executeChallengeRun env cfg sid plan response)"
proof -
  have "refines cfg S (executeSettlementRun env cfg (pl_RunRequest plan))"
    using refines_mono [OF run_refines [of cfg "pl_RunRequest plan" env]] assms(2) by simp
  moreover have "refines cfg S (recordChallenge env cfg sid n r)" for n r
    using refines_mono [OF recordChallenge_refines [of r sid cfg env n]] assms(1) by simp
  ultimately show ?thesis unfolding executeChallengeRun_def by (intro ledger_intros)
qed

lemma plannedChallenge_refines:
  assumes "cr_Status (pl_Response plan) \<noteq> []"
    and "cr_OK (pl_Response plan) \<Longrightarrow> plainID sid \<and> plainID (TrimSpace (rq_SettlementRunID (pl_RunRequest plan)))"
  shows "refines cfg (strayIDs cfg sid) (executePlannedChallenge env cfg sid plan)"
  unfolding executePlannedChallenge_def Let_def using assms
  by (intro ledger_intros recordChallenge_refines challengeRun_refines) (auto simp: finalized_keeps topUpFailed_def Let_def)

lemma challenge_refines: "refines cfg (strayIDs cfg (TrimSpace (cq_SettlementRunID request))) (executeSettlementChallenge env cfg request)"
  unfolding refines_def
proof
  fix w :: "'a world"
  show "(ledgerStep cfg (strayIDs cfg (TrimSpace (cq_SettlementRunID request))))\<^sup>*\<^sup>* (ledgerOf cfg w)
      (ledgerOf cfg (snd (run_state (executeSettlementChallenge env cfg request) w)))"
  proof (cases rule: challenge_cases [of env cfg request w])
    case (unlocked r w')
    then show ?thesis using ledgerOf_cong [of w' w cfg] by simp
  next
    case (held w1 locks)
    let ?sid = "TrimSpace (cq_SettlementRunID request)" and ?plan = "challengePlanOf env cfg request (w_chain w)"
    let ?body = "run_state (challengeUnderLock env cfg ?sid ?plan) w1"
    have "refines cfg (strayIDs cfg ?sid) (executePlannedChallenge env cfg ?sid ?plan)"
      using ok_challenge_valid [of env cfg request "w_chain w"] by (intro plannedChallenge_refines) (simp_all add: challengePlan_status)
    then have "(ledgerStep cfg (strayIDs cfg ?sid))\<^sup>*\<^sup>* (ledgerOf cfg w1) (ledgerOf cfg (snd ?body))"
      by (auto simp: refines_def challengeUnderLock_def split: readResult.splits)
    moreover have "ledgerOf cfg w1 = ledgerOf cfg w" using held(1,2) by (rule ledgerOf_cong)
    moreover have "ledgerOf cfg ((snd ?body)\<lparr>w_locks := locks\<rparr>) = ledgerOf cfg (snd ?body)" by (rule ledgerOf_cong) simp_all
    ultimately show ?thesis using held(4) by (simp add: Let_def)
  qed
qed

section \<open>The service\<close>

text \<open>The ids of the runs and challenge settlements that a message to the service, or a command, asks to execute.\<close>

definition httpIDs :: "httpRequest \<Rightarrow> string list" where
  "httpIDs r =
     (case hq_RunBody r of None \<Rightarrow> [] | Some request \<Rightarrow> [TrimSpace (rq_SettlementRunID request)]) @
     (case hq_ChallengeBody r of None \<Rightarrow> [] | Some request \<Rightarrow> [TrimSpace (cq_SettlementRunID request)])"

definition commandIDs :: "settlementCommand \<Rightarrow> string list" where
  "commandIDs command = (case command of
     RunExecute (Inr request) \<Rightarrow> [TrimSpace (rq_SettlementRunID request)]
   | ChallengeExecute (Inr request) \<Rightarrow> [TrimSpace (cq_SettlementRunID request)]
   | _ \<Rightarrow> [])"

text \<open>The request ids that executions under these ids can spoil: none when the ids contain no slash.\<close>

definition spoiledIDs :: "settlementConfig \<Rightarrow> string list \<Rightarrow> string set" where
  "spoiledIDs cfg ids = (\<Union>runID \<in> set ids. strayIDs cfg runID)"

lemma spoiledIDs_simps [simp]:
  "spoiledIDs cfg [] = {}" "spoiledIDs cfg (x # xs) = strayIDs cfg x \<union> spoiledIDs cfg xs"
  "spoiledIDs cfg (xs @ ys) = spoiledIDs cfg xs \<union> spoiledIDs cfg ys"
  by (simp_all add: spoiledIDs_def)

lemma spoiledIDs_plain: "list_all plainID ids \<Longrightarrow> spoiledIDs cfg ids = {}"
  by (induction ids) simp_all

lemma refines_bodies [ledger_intros]:
  "refines cfg (spoiledIDs cfg (httpIDs r)) (case hq_RunBody r of None \<Rightarrow> State_Monad.return x
     | Some request \<Rightarrow> do { result \<leftarrow> executeSettlementRun env cfg request; State_Monad.return (f result) })"
  "refines cfg (spoiledIDs cfg (httpIDs r)) (case hq_ChallengeBody r of None \<Rightarrow> State_Monad.return x
     | Some request \<Rightarrow> do { result \<leftarrow> executeSettlementChallenge env cfg request; State_Monad.return (g result) })"
  by (auto simp: httpIDs_def split: option.splits
      intro!: refines_bind refines_basic(1) refines_mono [OF run_refines] refines_mono [OF challenge_refines])

lemma handler_refines: "refines cfg (spoiledIDs cfg (httpIDs r)) (newSettlementHTTPHandler env cfg listing r)"
  unfolding newSettlementHTTPHandler_def handler_defs onMethod_def authorized_def Let_def
  by (intro ledger_intros)

lemma command_refines: "refines cfg (spoiledIDs cfg (commandIDs command)) (runSettlementCommand env (Inr cfg) listing command)"
proof (cases "executes command")
  case True
  then show ?thesis
  proof (cases command)
    case (RunExecute input)
    show ?thesis
      unfolding RunExecute runSettlementCommand_def Let_def settlementCommand.case command_defs commandIDs_def
      by (cases input) (simp_all only: sum.case spoiledIDs_simps Un_empty_right, (intro ledger_intros run_refines)+)
  next
    case (ChallengeExecute input)
    show ?thesis
      unfolding ChallengeExecute runSettlementCommand_def Let_def settlementCommand.case command_defs commandIDs_def
      by (cases input) (simp_all only: sum.case spoiledIDs_simps Un_empty_right, (intro ledger_intros challenge_refines)+)
  next
    case (Execute request)
    show ?thesis
      unfolding Execute runSettlementCommand_def Let_def settlementCommand.case command_defs sum.case by (intro ledger_intros)
  qed (simp_all add: executes_def)
qed (rule readOnly_refines [OF command_readOnly])

end
