(* ===== verification/Service_Properties.thy ===== *)
theory Service_Properties
  imports Ledger Sample
begin

text \<open>
  Properties of the service as a whole: that it implements the payment ledger, that what it does
  without authentication is read-only, that it gets a payment through once an outage is over, and what its
  configuration guarantees.
\<close>

section \<open>A rail in use\<close>

text \<open>
  What happens to a rail: requests and commands arrive in any order, and the world outside changes in
  between.  The service and the commands run with the same configuration.
\<close>

datatype 'c railEvent = HTTP dirEntries httpRequest | CLI dirEntries settlementCommand | World 'c

primrec onEvent :: "'c env \<Rightarrow> settlementConfig \<Rightarrow> 'c railEvent \<Rightarrow> 'c world \<Rightarrow> 'c world" where
  "onEvent env cfg (HTTP listing r) w = snd (run_state (newSettlementHTTPHandler env cfg listing r) w)"
| "onEvent env cfg (CLI listing command) w = snd (run_state (runSettlementCommand env (Inr cfg) listing command) w)"
| "onEvent env cfg (World c) w = w\<lparr>w_chain := c\<rparr>"

definition railEvents :: "'c env \<Rightarrow> settlementConfig \<Rightarrow> 'c railEvent list \<Rightarrow> 'c world \<Rightarrow> 'c world" where
  "railEvents env cfg events w = foldl (\<lambda>w e. onEvent env cfg e w) w events"

primrec eventIDs :: "'c railEvent \<Rightarrow> string list" where
  "eventIDs (HTTP listing r) = httpIDs r"
| "eventIDs (CLI listing command) = commandIDs command"
| "eventIDs (World c) = []"

lemma railEvents_refine:
  "(ledgerStep cfg (spoiledIDs cfg (concat (map eventIDs events))))\<^sup>*\<^sup>* (ledgerOf cfg w) (ledgerOf cfg (railEvents env cfg events w))"
proof (induction events arbitrary: w)
  case (Cons e events)
  let ?S = "spoiledIDs cfg (concat (map eventIDs (e # events)))"
  have "(ledgerStep cfg (spoiledIDs cfg (eventIDs e)))\<^sup>*\<^sup>* (ledgerOf cfg w) (ledgerOf cfg (onEvent env cfg e w))"
    using handler_refines [of cfg _ env] command_refines [of cfg _ env] ledgerOf_cong [of w "w_chain_update _ w" cfg]
    by (cases e) (simp_all add: refines_def)
  then have "(ledgerStep cfg ?S)\<^sup>*\<^sup>* (ledgerOf cfg w) (ledgerOf cfg (onEvent env cfg e w))"
    by (rule ledgerSteps_mono) simp
  also have "(ledgerStep cfg ?S)\<^sup>*\<^sup>* (ledgerOf cfg (onEvent env cfg e w)) (ledgerOf cfg (railEvents env cfg events (onEvent env cfg e w)))"
    by (rule ledgerSteps_mono [OF Cons]) simp
  finally show ?case by (simp add: railEvents_def)
qed (simp add: railEvents_def)

section \<open>The sample configuration is loaded from an environment\<close>

definition sampleOS :: osEnv where
  "sampleOS = \<lparr>os_Getenv = (\<lambda>key. if key = ''WOLO_SETTLEMENT_PAYOUT_KEY_NAME'' then ''payer'' else []),
     os_Executable = Inr ''/bin/wolochaind'', os_UserHomeDir = Some ''/root'', os_DefaultNodeHome = ''/root/.wolochain''\<rparr>"

lemma sampleOS_loads: "\<exists>cfg. loadSettlementConfig sampleOS = Inr cfg \<and> cfg_PayoutKeyName cfg = ''payer''"
proof -
  have zero: "parseOptionalUWoloEnv sampleOS key = Inr 0" if "key \<noteq> ''WOLO_SETTLEMENT_PAYOUT_KEY_NAME''" for key
    using that by (simp add: parseOptionalUWoloEnv_def sampleOS_def go_eval)
  have unset: "getenvDefault sampleOS key fallback = fallback" if "key \<noteq> ''WOLO_SETTLEMENT_PAYOUT_KEY_NAME''" for key fallback
    using that by (simp add: getenvDefault_def sampleOS_def go_eval)
  let ?cfg = "configFromEnv sampleOS ''/bin/wolochaind'' 0 0 0 0"
  have "canonicalConfig ?cfg"
    unfolding canonicalConfig_def configFromEnv_def Let_def settlementConfig.simps by (simp add: unset)
  moreover have "cfg_PayoutKeyName ?cfg = ''payer''"
    unfolding configFromEnv_def Let_def settlementConfig.simps by (simp add: sampleOS_def go_eval)
  moreover have "os_Executable sampleOS = Inr ''/bin/wolochaind''" by (simp add: sampleOS_def)
  ultimately show ?thesis by (simp add: loadSettlementConfig_def zero Let_def)
qed

section \<open>Properties\<close>

text \<open>
  C3. The rail implements the payment ledger.  Whatever sequence of HTTP requests, settlement commands
  and changes of the outside world happens, the settled records and the issued transfers change only by moves of the
  abstract machine: an id that is settled keeps its record and never gets another transfer, a transfer
  is issued only for a valid request from one of the two configured keys, and a record that claims success or names a transaction
  appears together with its transfer.  The only exception are the request ids whose record file is also named by the id of a run or of a challenge
  settlement among the events: their entry may be replaced by one that claims neither.  When no such id contains a slash, there is no exception.
\<close>

theorem rail_refines_ledger:
  "(ledgerStep cfg (spoiledIDs cfg (concat (map eventIDs events))))\<^sup>*\<^sup>* (ledgerOf cfg w) (ledgerOf cfg (railEvents env cfg events w)) \<and>
   (list_all (\<lambda>runID. CHR ''/'' \<notin> set runID) (concat (map eventIDs events)) \<longrightarrow>
     (ledgerStep cfg {})\<^sup>*\<^sup>* (ledgerOf cfg w) (ledgerOf cfg (railEvents env cfg events w)))"
  using railEvents_refine [of cfg events w env] spoiledIDs_plain [of "concat (map eventIDs events)" cfg]
  by (auto simp: plainID_def [abs_def])

text \<open>
  C9. Every payment on record was issued.  On a rail that starts without settled requests, whenever the
  record of an id claims success or names a transaction, that id is the id of the recorded request, the
  request is valid, and the transfer of exactly this request, from one of the two configured keys, is among the commands issued.
\<close>

theorem recorded_payment_was_issued:
  assumes "\<forall>rid s. \<not> settledAt cfg rid s w"
    and "settledAt cfg rid s (railEvents env cfg events w)" and "xr_OK (sr_Response s) \<or> xr_TxHash (sr_Response s) \<noteq> []"
  shows "nq_RequestID (sr_Request s) = rid \<and> validTransfer (sr_Request s) \<and>
    (\<exists>key \<in> railKeys cfg. bankSendArgs cfg key (sr_Request s) \<in> set (w_sends (railEvents env cfg events w)))"
proof -
  have "ledgerInv cfg (ledgerOf cfg w)"
    using assms(1) by (simp add: ledgerInv_def ledgerOf_def settledRecord_Some)
  then have "ledgerInv cfg (ledgerOf cfg (railEvents env cfg events w))"
    by (rule ledgerSteps_inv [OF railEvents_refine])
  moreover have "fst (ledgerOf cfg (railEvents env cfg events w)) rid = Some s"
    using assms(2) by (simp add: ledgerOf_def settledRecord_Some)
  moreover have "claimsPayment s" using assms(3) by (simp add: claimsPayment_def)
  ultimately show ?thesis unfolding ledgerInv_def ledgerOf_def by auto
qed

definition payRequest :: httpRequest where
  "payRequest = \<lparr>hq_Method = ''POST'', hq_Path = ''/settlement/v1/payouts'', hq_RawQuery = [], hq_Authorization = [],
     hq_ExecuteBody = Some sampleRequest, hq_RunBody = None, hq_ChallengeBody = None\<rparr>"

lemma payRequest_served:
  "snd (run_state (newSettlementHTTPHandler env sampleCfg listing payRequest) w) = snd (run_state (executeSettlement env sampleCfg sampleRequest) w)"
  by (simp add: newSettlementHTTPHandler_def servePayouts_def onMethod_def authorized_def checkAuth_def payRequest_def sampleCfg_def)

lemma payRequest_recorded:
  "\<exists>s. settledAt sampleCfg ''req-1'' s (railEvents (sampleEnv (\<lambda>t. False) (\<lambda>t path. None)) sampleCfg [HTTP NotExist payRequest, World 60] (emptyWorld 0)) \<and>
     xr_OK (sr_Response s)"
proof -
  let ?env = "sampleEnv (\<lambda>t. False) (\<lambda>t path. None)"
  let ?w = "snd (run_state (executeSettlement ?env sampleCfg sampleRequest) (emptyWorld 0))"
  obtain r where r: "fst (run_state (executeSettlement ?env sampleCfg sampleRequest) (emptyWorld 0)) = Inr r" "xr_OK r"
    using sample_execute(2) [of "emptyWorld 0"] by auto
  have "w_sends ?w \<noteq> w_sends (emptyWorld 0)" using sample_execute(1) [of "emptyWorld 0"] by simp
  with payout_rail.settle_recorded [of ?env sampleCfg settlementSignerRole sampleRequest "emptyWorld 0" r] r
  obtain s where "settledAt sampleCfg ''req-1'' s ?w" "xr_OK (sr_Response s)"
    by (auto simp: executeSettlement_def settledAt_def isSettled_def)
  then show ?thesis
    by (auto simp: railEvents_def payRequest_served settledAt_cong [of "w_chain_update _ ?w" ?w])
qed

theorem rail_refines_ledger_witness:
  "(ledgerStep sampleCfg {})\<^sup>*\<^sup>* (ledgerOf sampleCfg (emptyWorld (0 :: int))) (ledgerOf sampleCfg
     (railEvents (sampleEnv (\<lambda>t. False) (\<lambda>t path. None)) sampleCfg [HTTP NotExist payRequest, World 60] (emptyWorld 0))) \<and>
   snd (ledgerOf sampleCfg (railEvents (sampleEnv (\<lambda>t. False) (\<lambda>t path. None)) sampleCfg [HTTP NotExist payRequest, World 60] (emptyWorld 0))) =
     [bankSendArgs sampleCfg ''payer'' sampleNormalized]"
proof -
  have "concat (map eventIDs [HTTP NotExist payRequest, World 60]) = []" by (simp add: httpIDs_def payRequest_def)
  with rail_refines_ledger [of sampleCfg "[HTTP NotExist payRequest, World 60]" "emptyWorld 0" "sampleEnv (\<lambda>t. False) (\<lambda>t path. None)"]
  show ?thesis using sample_execute(1) [of "emptyWorld 0"] by (simp add: ledgerOf_def railEvents_def payRequest_served)
qed

theorem recorded_payment_was_issued_witness:
  "\<exists>s. settledAt sampleCfg ''req-1'' s (railEvents (sampleEnv (\<lambda>t. False) (\<lambda>t path. None)) sampleCfg [HTTP NotExist payRequest, World 60] (emptyWorld 0)) \<and>
     nq_RequestID (sr_Request s) = ''req-1'' \<and> validTransfer (sr_Request s)"
proof -
  have "\<forall>rid s. \<not> settledAt sampleCfg rid s (emptyWorld 0)"
    by (simp add: settledAt_def readSettlementStoredResult_def readStateFile_def)
  then show ?thesis using payRequest_recorded recorded_payment_was_issued [of sampleCfg "emptyWorld 0" "''req-1''"] by blast
qed

text \<open>
  C13. A loaded configuration is well-formed.  Loading succeeds only for the canonical chain, denominations
  and address prefix; the node and REST addresses then carry a scheme, key names, addresses and token are
  trimmed, the escrow key and the listen address are set, and the time limits are nested: a confirmation
  round fits the confirmation timeout, which fits the request timeout, which fits the life of a lock.
\<close>

theorem loaded_config_wellformed:
  assumes "loadSettlementConfig os = Inr cfg"
  shows "wfConfig cfg"
  using assms by (elim loadSettlementConfig_Inr) (simp add: configFromEnv_wf)

theorem loaded_config_wellformed_witness:
  "\<exists>cfg. loadSettlementConfig sampleOS = Inr cfg \<and> wfConfig cfg"
  using sampleOS_loads loaded_config_wellformed by blast

text \<open>
  C8. Without the token nothing moves.  When the service has been started on an address other than the
  loopback, a request whose authorization header is not the configured bearer token leaves every record, every lock
  and the list of issued transfers as they were, on every route and with every method; so does any request that is not a
  \<open>POST\<close>, with or without the token.
\<close>

theorem unauthenticated_requests_read_only:
  assumes "newSettlementServeCmd env (Inr cfg) = Inr (addr, handler)" and "\<not> listenAddrIsLoopback env cfg"
    and "TrimSpace (hq_Authorization r) \<noteq> ''Bearer '' @ cfg_AuthToken cfg \<or> hq_Method r \<noteq> ''POST''"
  shows "cfg_AuthToken cfg \<noteq> [] \<and> (snd (run_state (handler listing r) w))\<lparr>w_chain := w_chain w\<rparr> = w"
proof -
  have handler: "handler = newSettlementHTTPHandler env cfg" and token: "cfg_AuthToken cfg \<noteq> []"
    using assms(1,2) by (auto simp: newSettlementServeCmd_def validateServeSafety_def split: option.splits if_splits)
  have "readOnly (newSettlementHTTPHandler env cfg listing r)"
    using assms(3) token by (intro unauthorized_readOnly) (auto simp: checkAuth_def)
  then show ?thesis using token unfolding handler readOnly_def by blast
qed

definition guessingRequest :: httpRequest where
  "guessingRequest = \<lparr>hq_Method = ''POST'', hq_Path = ''/settlement/v1/payouts'', hq_RawQuery = [], hq_Authorization = ''Bearer guess'',
     hq_ExecuteBody = Some sampleRequest, hq_RunBody = None, hq_ChallengeBody = None\<rparr>"

theorem unauthenticated_requests_read_only_witness:
  "w_sends (snd (run_state (newSettlementHTTPHandler (sampleEnv (\<lambda>t. False) (\<lambda>t path. None))
     (sampleCfg\<lparr>cfg_ListenAddr := ''0.0.0.0'', cfg_AuthToken := ''s3cret''\<rparr>) NotExist guessingRequest) (emptyWorld 0))) = []"
proof -
  let ?cfg = "sampleCfg\<lparr>cfg_ListenAddr := ''0.0.0.0'', cfg_AuthToken := ''s3cret''\<rparr>"
  let ?env = "sampleEnv (\<lambda>t. False) (\<lambda>t path. None)"
  have "\<not> listenAddrIsLoopback ?env ?cfg" by (simp add: listenAddrIsLoopback_def sampleEnv_def)
  moreover have "newSettlementServeCmd ?env (Inr ?cfg) = Inr (''0.0.0.0'', newSettlementHTTPHandler ?env ?cfg)"
    by (simp add: newSettlementServeCmd_def validateServeSafety_def)
  moreover have "TrimSpace (hq_Authorization guessingRequest) \<noteq> ''Bearer '' @ cfg_AuthToken ?cfg"
    by (simp add: guessingRequest_def go_eval)
  ultimately have "(snd (run_state (newSettlementHTTPHandler ?env ?cfg NotExist guessingRequest) (emptyWorld 0)))\<lparr>w_chain := w_chain (emptyWorld 0)\<rparr>
      = emptyWorld 0"
    using unauthenticated_requests_read_only [of ?env ?cfg] by blast
  then show ?thesis unfolding world_same by simp
qed

text \<open>
  C40. A negative limit stops the request handler.  A \<open>GET\<close> of the recent challenge settlements with a
  negative \<open>limit\<close> reaches a slice expression with a negative bound and panics, for every configuration,
  without authentication, and whatever is stored, as long as the directory can be listed and its records read.
\<close>

theorem negative_limit_panics:
  assumes "hq_Path r = ''/settlement/v1/challenges''" and "hq_Method r = ''GET''" and "queryLimit r = Inr limit" and "limit < 0"
    and "listing = ReadOK entries"
    and "collectRecords ''challenge settlement record'' (\<lambda>path. readSettlementChallengeStoredResult path w)
      (challengeRecentItem (if TrimSpace (ToLower (query r ''status'')) = [] then ''all'' else TrimSpace (ToLower (query r ''status'')))
        (TrimSpace (ToUpper (query r ''failure_code''))))
      (JoinPath [cfg_StateDir cfg, ''challenge-settlements'']) entries = Inr items"
  shows "run_state (newSettlementHTTPHandler env cfg listing r) w = (Panicked, w)"
proof -
  have "newSettlementHTTPHandler env cfg listing r = serveChallenges env cfg listing r"
    using assms(1) by (simp add: newSettlementHTTPHandler_def)
  moreover have "int (length xs) > limit" for xs :: "'x list" using assms(4) by linarith
  ultimately show ?thesis
    using assms(2-) by (simp add: serveChallenges_def listRecentSettlementChallenges_def listRecords_def newestFirst_def Let_def)
qed

theorem negative_limit_panics_witness:
  "run_state (newSettlementHTTPHandler (sampleEnv (\<lambda>t. False) (\<lambda>t path. None)) (sampleCfg\<lparr>cfg_AuthToken := ''s3cret''\<rparr>) (ReadOK [])
     \<lparr>hq_Method = ''GET'', hq_Path = ''/settlement/v1/challenges'', hq_RawQuery = ''limit=-1'', hq_Authorization = [],
      hq_ExecuteBody = None, hq_RunBody = None, hq_ChallengeBody = None\<rparr>) (emptyWorld 0) = (Panicked, emptyWorld 0)"
proof -
  let ?r = "\<lparr>hq_Method = ''GET'', hq_Path = ''/settlement/v1/challenges'', hq_RawQuery = ''limit=-1'', hq_Authorization = [],
      hq_ExecuteBody = None, hq_RunBody = None, hq_ChallengeBody = None\<rparr>"
  have "query ?r ''limit'' = ''-1''" by (simp add: query_def ParseQuery_def valuesGet_def Cut1_def go_eval)
  then have "queryLimit ?r = Inr (- 1)" by (simp add: queryLimit_def ParseInt_def go_eval)
  then show ?thesis
    by (intro negative_limit_panics [where limit = "- 1" and items = "[]" and entries = "[]"]) simp_all
qed

end
