(* ===== verification/Audit_Properties.thy ===== *)
theory Audit_Properties
  imports Read_Only Challenge_Sample
begin

text \<open>
  What an audit of a challenge settlement that reports \<open>ok\<close> has established, and a record for which
  the audit cannot report \<open>ok\<close>.
\<close>

section \<open>Checks\<close>

lemma checksOK_simps [simp]:
  "checksOK []" "checksOK (check # checks) \<longleftrightarrow> ac_OK check \<and> checksOK checks" "checksOK (checks @ checks') \<longleftrightarrow> checksOK checks \<and> checksOK checks'"
  by (simp_all add: checksOK_def)

lemma check_ok [simp]:
  "ac_OK (auditCheck name ok code detail expected actual) = ok"
  "ac_OK (equalCheck name code expected actual) \<longleftrightarrow> TrimSpace expected = TrimSpace actual"
  by (simp_all add: auditCheck_def equalCheck_def Let_def)

section \<open>The transfers\<close>

text \<open>
  The line \<open>t\<close> is backed: its record holds the same recipient, amount and transaction, and in some state \<open>c\<close> of the outside
  world that transaction is found, successful, and has a transfer of the amount to the recipient.
\<close>

definition lineBacked :: "'c env \<Rightarrow> settlementConfig \<Rightarrow> 'c world \<Rightarrow> settlementChallengeTransferResult \<Rightarrow> bool" where
  "lineBacked env cfg w t \<longleftrightarrow> (\<exists>stored sender c.
     readSettlementStoredResult (requestRecordPath cfg (ct_RequestID t)) w = ReadOK stored \<and>
     TrimSpace (nq_ToAddress (sr_Request stored)) = TrimSpace (ct_ToAddress t) \<and>
     TrimSpace (nq_AmountUWolo (sr_Request stored)) = TrimSpace (ct_AmountUWolo t) \<and>
     TrimSpace (xr_TxHash (sr_Response stored)) = TrimSpace (ct_TxHash t) \<and>
     (let e = \<lparr>le_Sender = sender, le_Recipient = ct_ToAddress t, le_AmountUWolo = ct_AmountUWolo t\<rparr>;
          l = fst (run_state (lookupSettlementTx env cfg (ct_TxHash t) e) c) in
      lr_Found l \<and> lr_TxSuccess l \<and> (\<exists>x \<in> set (lr_Transfers l). transferMatches e x)))"

definition executedLine :: "settlementChallengeTransferResult \<Rightarrow> bool" where
  "executedLine t \<longleftrightarrow> ct_Status t = ''confirmed'' \<or> ct_Status t = ''accepted''"

lemma lineBacked_cong: "w_files w' = w_files w \<Longrightarrow> lineBacked env cfg w' t = lineBacked env cfg w t"
  by (simp add: lineBacked_def readSettlementStoredResult_def)

lemma executed_words:
  assumes "executedLine t"
  shows "TrimSpace (ct_Status t) \<in> {''confirmed'', ''accepted''}" "EqualFold (ct_Status t) ''confirmed'' \<or> EqualFold (ct_Status t) ''accepted''"
  using assms by (auto simp: executedLine_def go_eval)

lemma lookup_agrees:
  assumes "auditLookupMismatch l status memo = []" and "TrimSpace status \<in> {''confirmed'', ''accepted''}"
  shows "lr_OK l" "lr_Found l" "lr_MatchedExpected l" "lr_TxSuccess l"
proof -
  have "TrimSpace ''tx lookup failed'' \<noteq> []" by (simp add: go_eval)
  then have "firstNonEmpty [a, b, ''tx lookup failed''] \<noteq> []" for a b by (simp add: Let_def)
  with assms show "lr_OK l" "lr_Found l" "lr_MatchedExpected l" "lr_TxSuccess l"
    unfolding auditLookupMismatch_def by (simp_all split: if_split_asm)
qed

lemma auditTransfer_backed:
  assumes "checksOK (fst (snd (fst (run_state (auditTransfer env cfg byID runPayouts index t) w))))" and "executedLine t"
  shows "lineBacked env cfg w t"
proof (cases "readSettlementStoredResult (requestRecordPath cfg (ct_RequestID t)) w")
  case (ReadOK stored)
  note words = executed_words [OF assms(2)]
  have path: "ax_StatePath (auditBase cfg index t) = requestRecordPath cfg (ct_RequestID t)"
    "ax_StatePath (failAudit code detail a) = ax_StatePath a" for code detail a
    by (simp_all add: auditBase_def failAudit_def)
  let ?sender = "firstNonEmpty [ct_SignerAddress t, xr_SignerAddress (sr_Response stored)]"
  let ?e = "\<lparr>le_Sender = ?sender, le_Recipient = ct_ToAddress t, le_AmountUWolo = ct_AmountUWolo t\<rparr>"
  let ?l = "fst (run_state (lookupSettlementTx env cfg (ct_TxHash t) ?e) (w_chain w))"
  have hash: "TrimSpace (ct_TxHash t) \<noteq> []" and stored: "checksOK (storedChecks env (requestRecordPath cfg (ct_RequestID t)) index stored t)"
    and l: "auditLookupMismatch ?l (ct_Status t) (ct_Memo t) = []"
    using assms(1) words(2) ReadOK by (auto simp: auditTransfer_def path Let_def split: if_splits)
  note agrees = lookup_agrees [OF l words(1)]
  have "\<exists>x \<in> set (lr_Transfers ?l). transferMatches ?e x"
    using lookup_found(1,2) [OF agrees(1)] agrees(3) matchSettlementTransfer_some by force
  with ReadOK stored agrees(2,4) show ?thesis
    unfolding lineBacked_def Let_def by (intro exI [of _ stored] exI [of _ ?sender] exI [of _ "w_chain w"]) (simp add: storedChecks_def)
next
  case (ReadFailed e)
  with assms(1) executed_words [OF assms(2)] show ?thesis
    by (auto simp: auditTransfer_def auditBase_def failAudit_def shouldHaveSettlementRequestState_def Let_def split: if_splits)
next
  case NotExist
  with assms(1) executed_words [OF assms(2)] show ?thesis
    by (auto simp: auditTransfer_def auditBase_def failAudit_def shouldHaveSettlementRequestState_def Let_def split: if_splits)
qed

lemma auditTransfer_readOnly: "readOnly (auditTransfer env cfg byID runPayouts index t)"
  unfolding auditTransfer_def Let_def by (intro read_only_intros)

lemma auditTransfers_backed:
  assumes "checksOK (fst (snd (fst (run_state (auditTransfers env cfg byID runPayouts index ts) w))))" and "t \<in> set ts" and "executedLine t"
  shows "lineBacked env cfg w t"
  using assms(1,2)
proof (induction ts arbitrary: index w)
  case (Cons t' ts)
  let ?w1 = "snd (run_state (auditTransfer env cfg byID runPayouts index t') w)"
  have checks: "checksOK (fst (snd (fst (run_state (auditTransfer env cfg byID runPayouts index t') w))))"
    "checksOK (fst (snd (fst (run_state (auditTransfers env cfg byID runPayouts (index + 1) ts) ?w1))))"
    using Cons.prems(1) by (auto simp: case_prod_beta)
  have "lineBacked env cfg ?w1 t = lineBacked env cfg w t"
    by (rule lineBacked_cong) (rule readOnlyD(1) [OF auditTransfer_readOnly])
  then show ?case
    using Cons.prems(2) Cons.IH [OF checks(2)] auditTransfer_backed [OF checks(1)] assms(3) by auto
qed simp

section \<open>The funding\<close>

lemma auditFunding_checks:
  assumes "checksOK (fa_checks (auditFunding index txHash stored verifyResponse fa))"
  shows "fv_OK verifyResponse" "checksOK (fa_checks fa)"
  using assms by (auto simp: auditFunding_def Let_def split: option.splits if_splits)

lemma auditFundings_verified:
  assumes "checksOK (fa_checks (fst (run_state (auditFundings env cfg record index fundings fa) c)))"
  shows "checksOK (fa_checks fa) \<and>
    (\<forall>f \<in> set fundings. \<exists>e c. fv_OK (fst (run_state (verifyChallengeFundingDeposit env cfg (nf_FundingTxHash f) e) c)))"
  using assms
proof (induction fundings arbitrary: index fa c)
  case (Cons f fundings)
  let ?e = "auditedExpectation record (storedFundingAt record index) f"
  let ?v = "run_state (verifyChallengeFundingDeposit env cfg (nf_FundingTxHash f) ?e) c"
  let ?fa = "auditFunding index (nf_FundingTxHash f) (storedFundingAt record index) (fst ?v) fa"
  have IH: "checksOK (fa_checks ?fa) \<and>
    (\<forall>f \<in> set fundings. \<exists>e c. fv_OK (fst (run_state (verifyChallengeFundingDeposit env cfg (nf_FundingTxHash f) e) c)))"
    using Cons.prems by (intro Cons.IH [of "index + 1" ?fa "snd ?v"]) (simp add: case_prod_beta Let_def)
  with auditFunding_checks [of index "nf_FundingTxHash f" "storedFundingAt record index" "fst ?v" fa] show ?case by auto
qed simp

section \<open>The audit\<close>

lemma auditVerdict_ok: "ar_OK (auditVerdict checks r) = checksOK checks"
  by (simp add: auditVerdict_def)

lemma auditRecord_ok:
  assumes "fst (run_state (auditRecord env cfg record response) w) = Inr r" and "ar_OK r"
  shows "\<forall>t \<in> set (cr_Transfers (cs_Response record)). executedLine t \<longrightarrow> lineBacked env cfg w t"
    "\<forall>f \<in> set (nc_Funding (cs_Request record)). \<exists>e c. fv_OK (fst (run_state (verifyChallengeFundingDeposit env cfg (nf_FundingTxHash f) e) c))"
    "checksOK (recordChecks env (ar_ChallengePath response) record)"
proof -
  let ?fa = "run_state (auditChallengeFunding env cfg record) (w_chain w)"
  let ?w1 = "w\<lparr>w_chain := snd ?fa\<rparr>"
  have chain: "run_state (onChain (auditChallengeFunding env cfg record)) w = (fst ?fa, ?w1)" by simp
  obtain runRecord runChecks where run: "auditChallengeRunState env cfg record ?w1 = Inr (runRecord, runChecks)"
    using assms(1) unfolding auditRecord_def by (auto simp: case_prod_beta Let_def split: sum.splits)
  let ?ts = "run_state (auditChallengeTransfers env cfg record runRecord) ?w1"
  have checks: "checksOK (fa_checks (fst ?fa))" "checksOK (recordChecks env (ar_ChallengePath response) record)" "checksOK (fst (snd (fst ?ts)))"
    using assms unfolding auditRecord_def
    by (auto simp: run case_prod_beta Let_def auditVerdict_ok split: sum.splits prod.splits)
  have "lineBacked env cfg ?w1 t = lineBacked env cfg w t" for t by (rule lineBacked_cong) simp
  with checks(3) show "\<forall>t \<in> set (cr_Transfers (cs_Response record)). executedLine t \<longrightarrow> lineBacked env cfg w t"
    unfolding auditChallengeTransfers_def using auditTransfers_backed by blast
  show "\<forall>f \<in> set (nc_Funding (cs_Request record)). \<exists>e c. fv_OK (fst (run_state (verifyChallengeFundingDeposit env cfg (nf_FundingTxHash f) e) c))"
    using checks(1) auditFundings_verified [of env cfg "record" 0 "nc_Funding (cs_Request record)"]
    by (auto simp: auditChallengeFunding_def)
  show "checksOK (recordChecks env (ar_ChallengePath response) record)" by (rule checks(2))
qed

text \<open>
  C11. An audit that reports \<open>ok\<close> is backed by the chain.  It changes nothing; it has read a record of the
  settlement whose fingerprint is that of its request; every funding transaction the record names was
  verified again as a deposit; and every transfer that the record reports as executed has its own record with the same recipient, amount
  and transaction, and that transaction was found on chain, successful, with a transfer of the amount to the recipient.
\<close>

theorem audit_ok_sound:
  assumes "run_state (auditSettlementChallenge env cfg sid) w = (Inr r, w')" and "ar_OK r"
  shows "w'\<lparr>w_chain := w_chain w\<rparr> = w \<and>
    (\<exists>record. readSettlementChallengeStoredResult (challengeRecordPath cfg (TrimSpace sid)) w = ReadOK record \<and>
       TrimSpace (cs_Fingerprint record) = TrimSpace (env_hashChallenge env (cs_Request record)) \<and>
       (\<forall>f \<in> set (nc_Funding (cs_Request record)). \<exists>e c. fv_OK (fst (run_state (verifyChallengeFundingDeposit env cfg (nf_FundingTxHash f) e) c))) \<and>
       (\<forall>t \<in> set (cr_Transfers (cs_Response record)). executedLine t \<longrightarrow> lineBacked env cfg w t))"
proof -
  obtain s response where s: "readSettlementChallengeStoredResult (challengeRecordPath cfg (TrimSpace sid)) w = ReadOK s"
      "run_state (auditRecord env cfg s response) w = (Inr r, w')"
    using assms by (auto simp: auditSettlementChallenge_def Let_def split: if_splits readResult.splits)
  have "fst (run_state (auditRecord env cfg s response) w) = Inr r" using s(2) by simp
  note ok = auditRecord_ok [OF this assms(2)]
  have "TrimSpace (cs_Fingerprint s) = TrimSpace (env_hashChallenge env (cs_Request s))"
    using ok(3) by (simp add: recordChecks_def Let_def)
  with s(1) ok(1,2) audit_readOnly [of env cfg sid] assms(1) show ?thesis unfolding readOnly_def by (metis snd_conv)
qed

end
