(* ===== verification/Audit_Sample.thy ===== *)
theory Audit_Sample
  imports Audit_Properties
begin

text \<open>
  A settled challenge on the sample chain for which the audit reports \<open>ok\<close>: the deposit \<open>F00D\<close> funds
  the challenge \<open>c1\<close>, and the transaction \<open>AB12\<close> paid its two transfers.
\<close>

section \<open>The chain\<close>

definition payEvent :: "string \<Rightarrow> string \<Rightarrow> restTxEvent" where
  "payEvent recipient coins = \<lparr>te_Type = ''transfer'', te_Attributes = [\<lparr>ta_Key = ''recipient'', ta_Value = recipient\<rparr>,
     \<lparr>ta_Key = ''sender'', ta_Value = ''wolo1payer''\<rparr>, \<lparr>ta_Key = ''amount'', ta_Value = coins\<rparr>]\<rparr>"

definition payTx :: restTxLookupResponse where
  "payTx = \<lparr>tl_Memo = [], tl_TxResponse = zero_restTxResponse\<lparr>tx_TxHash := ''AB12'',
     tx_Events := [payEvent ''wolo1abc'' ''300uwolo'', payEvent ''wolo1left'' ''200uwolo'']\<rparr>\<rparr>"

definition auditEnv :: "int env" where
  "auditEnv = (sampleEnv (\<lambda>t. False) (\<lambda>t path. None))\<lparr>env_restTx := (\<lambda>url. State_Monad.return (Replied 200 []
     (Inr (if url = ''/cosmos/tx/v1beta1/txs/F00D'' then sampleDeposit else payTx))))\<rparr>"

definition paid :: "settlementTransfer list" where
  "paid = [\<lparr>tr_Sender = ''wolo1payer'', tr_Recipient = ''wolo1abc'', tr_Amount = ''300'', tr_Denom = ''uwolo''\<rparr>,
     \<lparr>tr_Sender = ''wolo1payer'', tr_Recipient = ''wolo1left'', tr_Amount = ''200'', tr_Denom = ''uwolo''\<rparr>]"

lemma payTx_transfers: "extractSettlementTransfers payTx = paid"
proof -
  have "splitCoinAmounts ''300uwolo'' = [\<lparr>co_Amount = ''300'', co_Denom = ''uwolo''\<rparr>]" "TrimSpace ''300uwolo'' = ''300uwolo''"
    "splitCoinAmounts ''200uwolo'' = [\<lparr>co_Amount = ''200'', co_Denom = ''uwolo''\<rparr>]" "TrimSpace ''200uwolo'' = ''200uwolo''"
    by (simp_all add: splitCoinAmounts_def splitCoinPart_def go_eval)
  then show ?thesis
    by (simp add: extractSettlementTransfers_def extractSettlementTransfersFromLogsAndEvents_def zero_restTxResponse_def
        payTx_def payEvent_def transfersOfEvent_def paid_def) (simp add: go_eval)
qed

lemma auditEnv_chain: "run_state (fetchRuntimeChainID auditEnv sampleCfg) t = (Inr ''wolo-testnet'', t)"
  by (simp add: fetchRuntimeChainID_def auditEnv_def sampleEnv_def getJSON_def go_eval)

lemma auditEnv_signer: "run_state (resolvePayoutAddress auditEnv sampleCfg) t = (Inr ''wolo1payer'', t)"
  by (simp add: resolvePayoutAddress_def auditEnv_def sampleEnv_def sampleCfg_def keysShowArgs_def isWoloAddress_def go_eval)

lemma audit_hasDeposit: "hasDeposit auditEnv"
proof -
  have "txLookupURL sampleCfg ''F00D'' = ''/cosmos/tx/v1beta1/txs/F00D''"
    by (simp add: txLookupURL_def txPath_def restBase_def sampleCfg_def go_eval)
  then have "env_restTx auditEnv (txLookupURL sampleCfg ''F00D'') = State_Monad.return (Replied 200 [] (Inr sampleDeposit))"
    by (simp add: auditEnv_def)
  then show ?thesis by (simp add: hasDeposit_def auditEnv_chain)
qed

lemma payTx_found:
  fixes t
  assumes "matchSettlementTransfer paid e = Some x"
  defines "lookup \<equiv> fst (run_state (lookupSettlementTx auditEnv sampleCfg ''AB12'' e) t)"
  shows "lr_OK lookup" "lr_Found lookup" "lr_MatchedExpected lookup" "lr_TxSuccess lookup"
    "snd (run_state (lookupSettlementTx auditEnv sampleCfg ''AB12'' e) t) = t"
proof -
  have "normalizeTxHash ''AB12'' = ''AB12''" "isHexHash ''AB12''"
    by (simp_all add: normalizeTxHash_def isHexHash_def go_eval)
  moreover have "txLookupURL sampleCfg ''AB12'' \<noteq> ''/cosmos/tx/v1beta1/txs/F00D''"
    by (simp add: txLookupURL_def txPath_def restBase_def sampleCfg_def go_eval)
  moreover have "tx_TxHash (tl_TxResponse payTx) = ''AB12''" "tx_Code (tl_TxResponse payTx) = 0"
    by (simp_all add: payTx_def zero_restTxResponse_def)
  moreover have "env_restTx auditEnv = (\<lambda>url. State_Monad.return (Replied 200 []
     (Inr (if url = ''/cosmos/tx/v1beta1/txs/F00D'' then sampleDeposit else payTx))))"
    by (simp add: auditEnv_def)
  ultimately show "lr_OK lookup" "lr_Found lookup" "lr_MatchedExpected lookup" "lr_TxSuccess lookup"
    "snd (run_state (lookupSettlementTx auditEnv sampleCfg ''AB12'' e) t) = t"
    using assms(1) unfolding lookup_def
    by (simp_all add: lookupSettlementTx_def getJSON_def auditEnv_chain auditEnv_signer payTx_transfers refineTransferKind_def withLookupURLs_def Let_def)
qed

section \<open>The records\<close>

definition plannedLine :: "nat \<Rightarrow> string \<Rightarrow> string \<Rightarrow> string \<Rightarrow> string \<Rightarrow> string \<Rightarrow> normalizedSettlementChallengeTransfer" where
  "plannedLine index rid bucket reason address amount = zero_normalizedSettlementChallengeTransfer\<lparr>nt_Index := index, nt_RequestID := rid,
     nt_ParticipantSide := ''left'', nt_Bucket := bucket, nt_Reason := reason, nt_ToAddress := address, nt_AmountUWolo := amount\<rparr>"

definition settledLine :: "string \<Rightarrow> string \<Rightarrow> string \<Rightarrow> string \<Rightarrow> string \<Rightarrow> settlementChallengeTransferResult" where
  "settledLine rid bucket reason address amount = zero_settlementChallengeTransferResult\<lparr>ct_RequestID := rid, ct_Bucket := bucket,
     ct_Reason := reason, ct_Status := ''confirmed'', ct_SignerAddress := ''wolo1payer'', ct_ToAddress := address, ct_AmountUWolo := amount,
     ct_TxHash := ''AB12''\<rparr>"

definition storedLine :: "string \<Rightarrow> string \<Rightarrow> string \<Rightarrow> settlementStoredResult" where
  "storedLine rid address amount = zero_settlementStoredResult\<lparr>sr_Request := zero_normalizedSettlementRequest\<lparr>nq_RequestID := rid,
     nq_ToAddress := address, nq_AmountUWolo := amount\<rparr>, sr_Response := zero_settlementExecuteResponse\<lparr>xr_TxHash := ''AB12''\<rparr>\<rparr>"

definition storedFunding :: settlementChallengeFundingResult where
  "storedFunding = zero_settlementChallengeFundingResult\<lparr>fr_FundingTxHash := ''F00D'', fr_SourceApp := ''arena'', fr_ChallengeID := ''c1'',
     fr_ParticipantSide := ''left'', fr_Sender := ''wolo1left'', fr_EscrowAddress := ''wolo1escrow'', fr_TotalFundedUWolo := ''500'',
     fr_WagerUWolo := ''300'', fr_GuaranteeUWolo := ''200''\<rparr>"

definition auditedRun :: settlementRunStoredResult where
  "auditedRun = zero_settlementRunStoredResult\<lparr>rs_Request := zero_normalizedSettlementRunRequest\<lparr>nr_SettlementRunID := ''s1'', nr_Payouts :=
     [zero_normalizedSettlementPayout\<lparr>np_RequestID := ''req-1'', np_ToAddress := ''wolo1abc'', np_AmountUWolo := ''300''\<rparr>,
      zero_normalizedSettlementPayout\<lparr>np_RequestID := ''req-2'', np_ToAddress := ''wolo1left'', np_AmountUWolo := ''200''\<rparr>]\<rparr>,
     rs_Response := zero_settlementRunResponse\<rparr>"

definition auditedRecord :: settlementChallengeStoredResult where
  "auditedRecord = \<lparr>cs_Request = zero_normalizedSettlementChallengeRequest\<lparr>nc_SettlementRunID := ''s1'', nc_SourceApp := ''arena'',
       nc_ChallengeID := ''c1'', nc_Funding := [normalizedFundingInput sampleInput],
       nc_Transfers := [plannedLine 0 ''req-1'' ''wager'' ''payout'' ''wolo1abc'' ''300'', plannedLine 1 ''req-2'' ''guarantee'' ''return'' ''wolo1left'' ''200'']\<rparr>,
     cs_Fingerprint = [], cs_Response = zero_settlementChallengeResponse\<lparr>cr_SettlementRunID := ''s1'', cr_SourceApp := ''arena'',
       cr_ChallengeID := ''c1'', cr_Funding := [storedFunding], cr_FundingVerifiedCount := 1, cr_FundingTotalUWolo := ''500'',
       cr_RequestedTotalUWolo := ''500'', cr_BucketTotals := [zero_settlementChallengeBucketTotals\<lparr>bt_Bucket := ''wager'', bt_RequestedUWolo := ''300''\<rparr>,
         zero_settlementChallengeBucketTotals\<lparr>bt_Bucket := ''guarantee'', bt_RequestedUWolo := ''200''\<rparr>],
       cr_Transfers := [settledLine ''req-1'' ''wager'' ''payout'' ''wolo1abc'' ''300'', settledLine ''req-2'' ''guarantee'' ''return'' ''wolo1left'' ''200''],
       cr_Run := Some zero_settlementRunResponse\<rparr>, cs_UpdatedAt = 0\<rparr>"

definition auditedWorld :: "int world" where
  "auditedWorld = (emptyWorld 0)\<lparr>w_files := [challengeRecordPath sampleCfg ''s1'' \<mapsto> ChallengeFile auditedRecord,
       runRecordPath sampleCfg ''s1'' \<mapsto> RunFile auditedRun,
       requestRecordPath sampleCfg ''req-1'' \<mapsto> RequestFile (storedLine ''req-1'' ''wolo1abc'' ''300''),
       requestRecordPath sampleCfg ''req-2'' \<mapsto> RequestFile (storedLine ''req-2'' ''wolo1left'' ''200'')]\<rparr>"

lemma audited_ids [simp]: "plainID ''s1''" "plainID ''req-1''" "plainID ''req-2''"
  by (simp_all add: plainID_def)

section \<open>Its audit\<close>

lemma audited_sel [simp]:
  "nc_Funding (cs_Request auditedRecord) = [normalizedFundingInput sampleInput]" "nc_SourceApp (cs_Request auditedRecord) = ''arena''"
  "nc_ChallengeID (cs_Request auditedRecord) = ''c1''" "nc_SourceEventID (cs_Request auditedRecord) = []"
  "nc_SettlementRunID (cs_Request auditedRecord) = ''s1''" "nc_TreasuryAddress (cs_Request auditedRecord) = []"
  "nc_Transfers (cs_Request auditedRecord) = [plannedLine 0 ''req-1'' ''wager'' ''payout'' ''wolo1abc'' ''300'',
     plannedLine 1 ''req-2'' ''guarantee'' ''return'' ''wolo1left'' ''200'']"
  "cr_Funding (cs_Response auditedRecord) = [storedFunding]" "cr_FundingVerifiedCount (cs_Response auditedRecord) = 1"
  "cr_FundingTotalUWolo (cs_Response auditedRecord) = ''500''" "cr_RequestedTotalUWolo (cs_Response auditedRecord) = ''500''"
  "cr_SettlementRunID (cs_Response auditedRecord) = ''s1''" "cr_SourceApp (cs_Response auditedRecord) = ''arena''"
  "cr_ChallengeID (cs_Response auditedRecord) = ''c1''" "cr_SourceEventID (cs_Response auditedRecord) = []"
  "cr_TopUp (cs_Response auditedRecord) = None" "cr_Run (cs_Response auditedRecord) = Some zero_settlementRunResponse"
  "cr_Transfers (cs_Response auditedRecord) = [settledLine ''req-1'' ''wager'' ''payout'' ''wolo1abc'' ''300'',
     settledLine ''req-2'' ''guarantee'' ''return'' ''wolo1left'' ''200'']"
  "cs_Fingerprint auditedRecord = []"
  by (simp_all add: auditedRecord_def zero_normalizedSettlementChallengeRequest_def zero_settlementChallengeResponse_def)

lemma audit_meets: "meetsDeposit (auditedExpectation auditedRecord (Some storedFunding) (normalizedFundingInput sampleInput))"
proof -
  let ?e = "auditedExpectation auditedRecord (Some storedFunding) (normalizedFundingInput sampleInput)"
  have e: "?e = \<lparr>fe_Sender = ''wolo1left'', fe_SourceApp = ''arena'', fe_SettlementRunID = [], fe_ChallengeID = ''c1'', fe_SourceEventID = [],
      fe_ParticipantSide = [], fe_ParticipantID = [], fe_TotalFundedUWolo = ''500'', fe_WagerUWolo = ''300'', fe_GuaranteeUWolo = ''200''\<rparr>"
    by (simp add: auditedExpectation_def storedFunding_def zero_settlementChallengeFundingResult_def Let_def) (simp add: go_eval)
  have "matchSettlementTransfer [depositTransfer] \<lparr>le_Sender = TrimSpace ''wolo1left'', le_Recipient = ''wolo1escrow'', le_AmountUWolo = TrimSpace ''500''\<rparr>
      = Some depositTransfer"
    by (simp add: matchSettlementTransfer_def transferMatches_def depositTransfer_def go_eval)
  moreover have "validateChallengeFundingExpectation ?e ''wolo'' = None"
    unfolding e by (simp add: validateChallengeFundingExpectation_def whenSet_def metadataError_def normalizeSettlementRunMetadataID_def
      settlementRequestIDPattern_def settlementSourceEventPattern_def isWoloAddress_def positiveAmountError_def go_eval)
  moreover have "compareChallengeFundingExpectation f ?e = []" if "isSampleFunding f" for f
    using that unfolding e by (simp add: compareChallengeFundingExpectation_def fundingChecks_def isSampleFunding_def go_eval)
  ultimately show ?thesis unfolding meetsDeposit_def by (simp add: e)
qed

lemma audit_funding:
  obtains fa f where "run_state (auditChallengeFunding auditEnv sampleCfg auditedRecord) t = (fa, t)" "checksOK (fa_checks fa)"
    "fa_verified fa = [\<lparr>vf_Result = f\<rparr>]" "isSampleFunding f" "gt_total (fa_totals fa) = 500"
proof -
  let ?e = "auditedExpectation auditedRecord (Some storedFunding) (normalizedFundingInput sampleInput)"
  obtain f response where v: "run_state (verifyChallengeFundingDeposit auditEnv sampleCfg ''F00D'' ?e) t = (response, t)"
      "fv_OK response" "fv_Funding response = Some f" "isSampleFunding f"
    by (rule deposit_verified [OF audit_hasDeposit audit_meets])
  have stored: "storedFundingAt auditedRecord 0 = Some storedFunding" by (simp add: storedFundingAt_def)
  have "compareStoredChallengeFunding storedFunding (f\<lparr>fr_Index := 0\<rparr>) = []"
    using v(4) by (simp add: compareStoredChallengeFunding_def storedFundingFields_def isSampleFunding_def storedFunding_def
        zero_settlementChallengeFundingResult_def go_eval)
  moreover have "parseOptionalUWoloVal ''500'' = 500" by (simp add: parseOptionalUWoloVal_def parseOptionalUWoloString_def go_eval)
  moreover have "fr_TotalFundedUWolo f = ''500''" using v(4) by (simp add: isSampleFunding_def)
  moreover have "isSampleFunding (f\<lparr>fr_Index := 0\<rparr>)" using v(4) by (simp add: isSampleFunding_def)
  ultimately show ?thesis
    using v(1-3)
    by (intro that [of "fst (run_state (auditChallengeFunding auditEnv sampleCfg auditedRecord) t)" "f\<lparr>fr_Index := 0\<rparr>"])
      (simp_all add: auditChallengeFunding_def stored auditFunding_def zero_challengeAuditFundingTotals_def Let_def)
qed

lemma plannedLine_sel [simp]:
  "nt_Index (plannedLine i rid b reason a v) = i" "nt_RequestID (plannedLine i rid b reason a v) = rid"
  "nt_ParticipantSide (plannedLine i rid b reason a v) = ''left''" "nt_ParticipantID (plannedLine i rid b reason a v) = []"
  "nt_Bucket (plannedLine i rid b reason a v) = b" "nt_Reason (plannedLine i rid b reason a v) = reason"
  "nt_ToAddress (plannedLine i rid b reason a v) = a" "nt_AmountUWolo (plannedLine i rid b reason a v) = v" "nt_Memo (plannedLine i rid b reason a v) = []"
  by (simp_all add: plannedLine_def zero_normalizedSettlementChallengeTransfer_def)

lemma amounts_parse: "parseOptionalUWoloString ''300'' = Inr 300" "parseOptionalUWoloString ''200'' = Inr 200"
  "\<not> EqualFold ''payout'' ''treasury''" "\<not> EqualFold ''return'' ''treasury''"
  by (simp_all add: parseOptionalUWoloString_def go_eval)

lemma audit_buckets:
  assumes "isSampleFunding f"
  shows "checksOK (snd (auditChallengeBucketAllocation auditedRecord [\<lparr>vf_Result = f\<rparr>]))"
    "checksOK (transferTotalChecks auditedRecord (fst (auditChallengeBucketAllocation auditedRecord [\<lparr>vf_Result = f\<rparr>])))"
proof -
  have "validateChallengeBucketAllocation [\<lparr>vf_Result = f\<rparr>]
      (allocate (fundingKey f) ''guarantee'' 200 (allocate (fundingKey f) ''wager'' 300 (\<lambda>key bucket. 0))) = []"
    using assms by (simp add: validateChallengeBucketAllocation_def bucketErrors_def allocate_def isSampleFunding_def
        settlementChallengeBucketWager_def settlementChallengeBucketGuarantee_def ParseUintVal_def sampleAddresses Let_def)
  then show "checksOK (snd (auditChallengeBucketAllocation auditedRecord [\<lparr>vf_Result = f\<rparr>]))"
    by (simp add: auditChallengeBucketAllocation_def auditAllocation_def amounts_parse sample_resolves [OF assms] Let_def)
  have "challengeResponseBucketRequested (cs_Response auditedRecord) ''wager'' = ''300''"
    "challengeResponseBucketRequested (cs_Response auditedRecord) ''guarantee'' = ''200''"
    by (simp_all add: challengeResponseBucketRequested_def auditedRecord_def zero_settlementChallengeBucketTotals_def go_eval)
  moreover have "FormatUint 500 = ''500''" "FormatUint 300 = ''300''" "FormatUint 200 = ''200''" by (simp_all add: go_eval)
  ultimately show "checksOK (transferTotalChecks auditedRecord (fst (auditChallengeBucketAllocation auditedRecord [\<lparr>vf_Result = f\<rparr>])))"
    by (simp add: auditChallengeBucketAllocation_def auditAllocation_def amounts_parse sample_resolves [OF assms] addTotals_def transferTotalChecks_def
        zero_challengeAuditTransferTotals_def settlementChallengeBucketWager_def settlementChallengeBucketGuarantee_def Let_def)
qed

lemma audit_run:
  obtains runChecks where "auditChallengeRunState auditEnv sampleCfg auditedRecord auditedWorld = Inr (Some auditedRun, runChecks)" "checksOK runChecks"
proof -
  have "readSettlementRunStoredResult (runRecordPath sampleCfg ''s1'') auditedWorld = ReadOK auditedRun"
    by (simp add: readSettlementRunStoredResult_def readStateFile_def auditedWorld_def)
  moreover have "rs_Response auditedRun = zero_settlementRunResponse" "rs_Fingerprint auditedRun = []" "env_hashRun auditEnv = (\<lambda>n. [])"
    "nr_SettlementRunID (rs_Request auditedRun) = ''s1''"
    by (simp_all add: auditedRun_def zero_settlementRunStoredResult_def auditEnv_def sampleEnv_def)
  moreover have "checksOK (auditRunLine (lastBy np_RequestID (nr_Payouts (rs_Request auditedRun))) t)"
    if "t \<in> set (nc_Transfers (cs_Request auditedRecord))" for t
    using that by (auto simp: auditRunLine_def lastBy_def auditedRun_def zero_normalizedSettlementPayout_def)
  ultimately have "\<exists>runChecks. auditChallengeRunState auditEnv sampleCfg auditedRecord auditedWorld = Inr (Some auditedRun, runChecks) \<and> checksOK runChecks"
    by (simp add: auditChallengeRunState_def Let_def)
  then show ?thesis using that by blast
qed

lemma audit_line:
  assumes "readSettlementStoredResult (requestRecordPath sampleCfg rid) w = ReadOK (storedLine rid a v)"
    and "matchSettlementTransfer paid \<lparr>le_Sender = ''wolo1payer'', le_Recipient = a, le_AmountUWolo = v\<rparr> = Some x"
    and "byID rid = Some (plannedLine i rid b reason a v)"
  shows "checksOK (fst (snd (fst (run_state (auditTransfer auditEnv sampleCfg byID Map.empty i (settledLine rid b reason a v)) w))))"
    "snd (run_state (auditTransfer auditEnv sampleCfg byID Map.empty i (settledLine rid b reason a v)) w) = w"
proof -
  have sel: "ct_RequestID (settledLine rid b reason a v) = rid" "ct_Status (settledLine rid b reason a v) = ''confirmed''"
    "ct_SignerAddress (settledLine rid b reason a v) = ''wolo1payer''" "ct_TxHash (settledLine rid b reason a v) = ''AB12''"
    "ct_ToAddress (settledLine rid b reason a v) = a" "ct_AmountUWolo (settledLine rid b reason a v) = v" "ct_Memo (settledLine rid b reason a v) = []"
    "ct_Bucket (settledLine rid b reason a v) = b" "ct_Reason (settledLine rid b reason a v) = reason"
    by (simp_all add: settledLine_def zero_settlementChallengeTransferResult_def)
  have stored: "nq_ToAddress (sr_Request (storedLine rid a v)) = a" "nq_AmountUWolo (sr_Request (storedLine rid a v)) = v"
    "nq_Memo (sr_Request (storedLine rid a v)) = []" "xr_TxHash (sr_Response (storedLine rid a v)) = ''AB12''" "sr_Fingerprint (storedLine rid a v) = []"
    by (simp_all add: storedLine_def zero_settlementStoredResult_def zero_normalizedSettlementRequest_def)
  have hash: "TrimSpace ''AB12'' = ''AB12''" "TrimSpace ''wolo1payer'' = ''wolo1payer''" "env_hashRequest auditEnv = (\<lambda>n signer. [])"
    by (simp_all add: go_eval auditEnv_def sampleEnv_def)
  have path: "ax_StatePath (auditBase sampleCfg i (settledLine rid b reason a v)) = requestRecordPath sampleCfg rid"
    by (simp add: auditBase_def sel)
  have agreed: "auditLookupMismatch (fst (run_state (lookupSettlementTx auditEnv sampleCfg ''AB12''
      \<lparr>le_Sender = ''wolo1payer'', le_Recipient = a, le_AmountUWolo = v\<rparr>) t)) ''confirmed'' [] = []" for t
    using payTx_found [OF assms(2), of t] by (simp add: auditLookupMismatch_def) (simp add: go_eval)
  show "checksOK (fst (snd (fst (run_state (auditTransfer auditEnv sampleCfg byID Map.empty i (settledLine rid b reason a v)) w))))"
    "snd (run_state (auditTransfer auditEnv sampleCfg byID Map.empty i (settledLine rid b reason a v)) w) = w"
    using payTx_found(5) [OF assms(2)]
    by (simp_all add: auditTransfer_def assms(1,3) path sel stored hash agreed requestChecks_def runPayoutChecks_def storedChecks_def case_prod_beta Let_def)
qed

lemma audit_transfers:
  "checksOK (fst (snd (fst (run_state (auditChallengeTransfers auditEnv sampleCfg auditedRecord (Some auditedRun)) auditedWorld))))"
  "snd (run_state (auditChallengeTransfers auditEnv sampleCfg auditedRecord (Some auditedRun)) auditedWorld) = auditedWorld"
proof -
  have paidMatch: "matchSettlementTransfer paid \<lparr>le_Sender = ''wolo1payer'', le_Recipient = ''wolo1abc'', le_AmountUWolo = ''300''\<rparr> = Some (paid ! 0)"
    "matchSettlementTransfer paid \<lparr>le_Sender = ''wolo1payer'', le_Recipient = ''wolo1left'', le_AmountUWolo = ''200''\<rparr> = Some (paid ! 1)"
    by (simp_all add: matchSettlementTransfer_def transferMatches_def paid_def go_eval)
  have files: "readSettlementStoredResult (requestRecordPath sampleCfg ''req-1'') auditedWorld = ReadOK (storedLine ''req-1'' ''wolo1abc'' ''300'')"
    "readSettlementStoredResult (requestRecordPath sampleCfg ''req-2'') auditedWorld = ReadOK (storedLine ''req-2'' ''wolo1left'' ''200'')"
    by (simp_all add: readSettlementStoredResult_def readStateFile_def auditedWorld_def)
  let ?byID = "lastBy nt_RequestID (nc_Transfers (cs_Request auditedRecord))"
  have lines: "?byID ''req-1'' = Some (plannedLine 0 ''req-1'' ''wager'' ''payout'' ''wolo1abc'' ''300'')"
    "?byID ''req-2'' = Some (plannedLine 1 ''req-2'' ''guarantee'' ''return'' ''wolo1left'' ''200'')"
    by (simp_all add: lastBy_def)
  have run: "(case Some auditedRun of None \<Rightarrow> Map.empty | Some r \<Rightarrow> lastBy pr_RequestID (rr_Payouts (rs_Response r))) = Map.empty"
    by (simp add: auditedRun_def zero_settlementRunResponse_def lastBy_def)
  note first = audit_line [OF files(1) paidMatch(1), where byID = ?byID, OF lines(1)] and second = audit_line [OF files(2) paidMatch(2), where byID = ?byID, OF lines(2)]
  show "checksOK (fst (snd (fst (run_state (auditChallengeTransfers auditEnv sampleCfg auditedRecord (Some auditedRun)) auditedWorld))))"
    "snd (run_state (auditChallengeTransfers auditEnv sampleCfg auditedRecord (Some auditedRun)) auditedWorld) = auditedWorld"
    unfolding auditChallengeTransfers_def run audited_sel(18) using first second
    by (simp_all del: audited_sel(7) add: case_prod_beta)
qed

lemma audited_ok:
  "\<exists>r. run_state (auditSettlementChallenge auditEnv sampleCfg ''s1'') auditedWorld = (Inr r, auditedWorld) \<and> ar_OK r"
proof -
  obtain fa f where fa: "run_state (auditChallengeFunding auditEnv sampleCfg auditedRecord) 0 = (fa, 0)" "checksOK (fa_checks fa)"
      "fa_verified fa = [\<lparr>vf_Result = f\<rparr>]" "isSampleFunding f" "gt_total (fa_totals fa) = 500"
    by (rule audit_funding)
  obtain runChecks where run: "auditChallengeRunState auditEnv sampleCfg auditedRecord auditedWorld = Inr (Some auditedRun, runChecks)" "checksOK runChecks"
    by (rule audit_run)
  have sid: "TrimSpace ''s1'' = ''s1''" by (simp add: go_eval)
  have chain: "w_chain auditedWorld = 0" "auditedWorld\<lparr>w_chain := 0\<rparr> = auditedWorld" by (simp_all add: auditedWorld_def emptyWorld_def)
  have stored: "readSettlementChallengeStoredResult (challengeRecordPath sampleCfg ''s1'') auditedWorld = ReadOK auditedRecord"
    by (simp add: readSettlementChallengeStoredResult_def readStateFile_def auditedWorld_def)
  have head: "checksOK (recordChecks auditEnv p auditedRecord)" for p
    by (simp add: recordChecks_def auditEnv_def sampleEnv_def)
  have total: "ac_OK (fundingTotalCheck auditedRecord (fa_totals fa))"
  proof -
    have "FormatUint 500 = ''500''" by (simp add: go_eval)
    then show ?thesis by (simp add: fundingTotalCheck_def fa(5))
  qed
  show ?thesis
    unfolding auditSettlementChallenge_def auditRecord_def
    by (simp add: sid stored fa(1-3) chain run audit_transfers audit_buckets [OF fa(4)] head total auditChallengeTopUp_def auditVerdict_ok
        case_prod_beta Let_def)
qed

theorem audit_ok_sound_witness:
  "lineBacked auditEnv sampleCfg auditedWorld (settledLine ''req-1'' ''wager'' ''payout'' ''wolo1abc'' ''300'') \<and>
   lineBacked auditEnv sampleCfg auditedWorld (settledLine ''req-2'' ''guarantee'' ''return'' ''wolo1left'' ''200'')"
proof -
  obtain r where "run_state (auditSettlementChallenge auditEnv sampleCfg ''s1'') auditedWorld = (Inr r, auditedWorld)" "ar_OK r"
    using audited_ok by blast
  moreover have "readSettlementChallengeStoredResult (challengeRecordPath sampleCfg (TrimSpace ''s1'')) auditedWorld = ReadOK auditedRecord"
    by (simp add: readSettlementChallengeStoredResult_def readStateFile_def auditedWorld_def) (simp add: go_eval)
  ultimately have "\<forall>t \<in> set (cr_Transfers (cs_Response auditedRecord)). executedLine t \<longrightarrow> lineBacked auditEnv sampleCfg auditedWorld t"
    using audit_ok_sound [of auditEnv sampleCfg "''s1''" auditedWorld r auditedWorld] by force
  moreover have "executedLine (settledLine rid bucket reason address amount)" for rid bucket reason address amount
    by (simp add: executedLine_def settledLine_def)
  ultimately show ?thesis by simp
qed

end
