(* ===== verification/Funding_Properties.thy ===== *)
theory Funding_Properties
  imports Challenge_Sample
begin

text \<open>
  Properties of the funding deposits of a challenge: what a verified deposit proves, and that the list
  of recent deposits is what filtering the escrow deposits gives.
\<close>

section \<open>Recent deposits\<close>

text \<open>The funding of a deposit that meets the expectation.\<close>

definition matchingFunding :: "settlementConfig \<Rightarrow> settlementChallengeFundingExpectation \<Rightarrow> settlementEscrowDepositItem
    \<Rightarrow> settlementChallengeFundingResult option" where
  "matchingFunding cfg expectation deposit =
     (let lookup = lookupOfDeposit cfg deposit in
      case parseChallengeFundingResult (the (lr_MatchedTransfer lookup)) lookup (cfg_EscrowAddress cfg) of
        Inl _ \<Rightarrow> None
      | Inr funding \<Rightarrow> if compareChallengeFundingExpectation funding expectation = [] then Some funding else None)"

text \<open>Numbering a list from \<open>k\<close> on.\<close>

fun numbered :: "nat \<Rightarrow> settlementChallengeFundingResult list \<Rightarrow> settlementChallengeFundingResult list" where
  "numbered k [] = []"
| "numbered k (f # fs) = f\<lparr>fr_Index := k\<rparr> # numbered (Suc k) fs"

lemma collectFunding_filter:
  assumes "int (length items) < limit"
  shows "collectFunding cfg e limit deposits items =
    items @ numbered (length items) (take (nat limit - length items) (List.map_filter (matchingFunding cfg e) deposits))"
  using assms
proof (induction deposits arbitrary: items)
  case (Cons d deposits)
  show ?case
  proof (cases "matchingFunding cfg e d")
    case None
    then have "collectFunding cfg e limit (d # deposits) items = collectFunding cfg e limit deposits items"
      by (auto simp: matchingFunding_def Let_def split: sum.splits if_splits)
    with Cons.IH [OF Cons.prems] None show ?thesis by (simp add: map_filter_simps)
  next
    case (Some f)
    let ?items = "items @ [f\<lparr>fr_Index := length items\<rparr>]"
    have step: "collectFunding cfg e limit (d # deposits) items =
        (if int (length ?items) \<ge> limit then ?items else collectFunding cfg e limit deposits ?items)"
      using Some by (auto simp: matchingFunding_def Let_def split: sum.splits if_splits)
    have room: "nat limit - length items = Suc (nat limit - length ?items)" using Cons.prems by simp
    show ?thesis
    proof (cases "int (length ?items) \<ge> limit")
      case True
      then have "nat limit - length ?items = 0" by simp
      with True step Some room show ?thesis by (simp add: map_filter_simps)
    next
      case False
      with step Cons.IH [of ?items] Some room show ?thesis by (simp add: map_filter_simps)
    qed
  qed
qed (simp add: map_filter_simps)

text \<open>
  C14. The list of recent challenge deposits is the reference computation.  A successful answer holds, in their
  order, the first \<open>limit\<close> of the escrow deposits found whose memo is a funding memo that meets the
  filters, numbered from zero; the loop that skips, appends and breaks computes the same as filtering first and cutting
  off after, and its count is the length of that list.
\<close>

theorem recent_funding_is_filter:
  assumes "fc_OK (fst (run_state (listRecentChallengeFundingDeposits env cfg filters) c))"
  shows "\<exists>deposits e. deposits = er_Deposits (fst (run_state (listRecentEscrowDeposits env cfg (fundingSearchLimit (ff_Limit filters)) (TrimSpace (ff_Sender filters))) c)) \<and>
    e = \<lparr>fe_Sender = TrimSpace (ff_Sender filters), fe_SourceApp = TrimSpace (ff_SourceApp filters), fe_SettlementRunID = TrimSpace (ff_SettlementRunID filters),
      fe_ChallengeID = TrimSpace (ff_ChallengeID filters), fe_SourceEventID = TrimSpace (ff_SourceEventID filters),
      fe_ParticipantSide = TrimSpace (ff_ParticipantSide filters), fe_ParticipantID = TrimSpace (ff_ParticipantID filters),
      fe_TotalFundedUWolo = [], fe_WagerUWolo = [], fe_GuaranteeUWolo = []\<rparr> \<and>
    fc_Funding (fst (run_state (listRecentChallengeFundingDeposits env cfg filters) c)) =
      numbered 0 (take (nat (ff_Limit filters)) (List.map_filter (matchingFunding cfg e) deposits)) \<and>
    fc_Count (fst (run_state (listRecentChallengeFundingDeposits env cfg filters) c)) =
      min (nat (ff_Limit filters)) (length (List.map_filter (matchingFunding cfg e) deposits))"
proof -
  have len: "length (numbered k fs) = length fs" for k fs by (induction fs arbitrary: k) simp_all
  let ?e = "zero_settlementChallengeFundingExpectation\<lparr>fe_Sender := TrimSpace (ff_Sender filters), fe_SourceApp := TrimSpace (ff_SourceApp filters),
    fe_SettlementRunID := TrimSpace (ff_SettlementRunID filters), fe_ChallengeID := TrimSpace (ff_ChallengeID filters),
    fe_SourceEventID := TrimSpace (ff_SourceEventID filters), fe_ParticipantSide := TrimSpace (ff_ParticipantSide filters),
    fe_ParticipantID := TrimSpace (ff_ParticipantID filters)\<rparr>"
  let ?deposits = "er_Deposits (fst (run_state (listRecentEscrowDeposits env cfg (fundingSearchLimit (ff_Limit filters)) (TrimSpace (ff_Sender filters))) c))"
  have limit: "int (length ([] :: settlementChallengeFundingResult list)) < ff_Limit filters"
    and items: "fc_Funding (fst (run_state (listRecentChallengeFundingDeposits env cfg filters) c)) = collectFunding cfg ?e (ff_Limit filters) ?deposits []"
      "fc_Count (fst (run_state (listRecentChallengeFundingDeposits env cfg filters) c)) = length (collectFunding cfg ?e (ff_Limit filters) ?deposits [])"
    using assms by (auto simp: listRecentChallengeFundingDeposits_def Let_def case_prod_beta split: if_splits option.splits)
  show ?thesis
    using items unfolding collectFunding_filter [OF limit]
    by (simp add: len zero_settlementChallengeFundingExpectation_def min.commute)
qed

text \<open>A chain whose search for escrow deposits finds the sample deposit.\<close>

definition searchEnv :: "int env" where
  "searchEnv = (sampleEnv (\<lambda>t. False) (\<lambda>t path. None))\<lparr>env_restTxSearch := (\<lambda>url. State_Monad.return (Replied 200 []
     (Inr \<lparr>ts_TxMemos = [sampleDepositMemo], ts_TxResponses = [tl_TxResponse sampleDeposit]\<rparr>)))\<rparr>"

definition searchFilters :: settlementChallengeFundingRecentFilters where
  "searchFilters = \<lparr>ff_Limit = 5, ff_Sender = [], ff_SourceApp = ''arena'', ff_SettlementRunID = [], ff_ChallengeID = ''c1'', ff_SourceEventID = [],
     ff_ParticipantSide = [], ff_ParticipantID = []\<rparr>"

abbreviation searchedDeposit :: settlementEscrowDepositItem where
  "searchedDeposit \<equiv> depositItem sampleCfg (tl_TxResponse sampleDeposit) sampleDepositMemo 0 depositTransfer"

lemma search_deposits:
  "er_OK (fst (run_state (listRecentEscrowDeposits searchEnv sampleCfg 25 []) t))"
  "er_Deposits (fst (run_state (listRecentEscrowDeposits searchEnv sampleCfg 25 []) t)) = [searchedDeposit]"
proof -
  have chain: "run_state (fetchRuntimeChainID searchEnv sampleCfg) t = (Inr ''wolo-testnet'', t)"
    by (simp add: fetchRuntimeChainID_def searchEnv_def sampleEnv_def getJSON_def go_eval)
  have search: "env_restTxSearch searchEnv = (\<lambda>url. State_Monad.return (Replied 200 []
     (Inr \<lparr>ts_TxMemos = [sampleDepositMemo], ts_TxResponses = [tl_TxResponse sampleDeposit]\<rparr>)))"
    by (simp add: searchEnv_def)
  have escrow: "TrimSpace ''wolo1escrow'' = ''wolo1escrow''" "EqualFold ''wolo1escrow'' ''wolo1escrow''" by (simp_all add: go_eval)
  have tx: "tx_Code (tl_TxResponse sampleDeposit) = 0"
    "extractSettlementTransfersFromLogsAndEvents (tx_Logs (tl_TxResponse sampleDeposit)) (tx_Events (tl_TxResponse sampleDeposit)) = [depositTransfer]"
    using deposit_transfers by (simp_all add: extractSettlementTransfers_def sampleDeposit_def zero_restTxResponse_def)
  have transfer: "tr_Recipient depositTransfer = ''wolo1escrow''" "tr_Denom depositTransfer = ''uwolo''" by (simp_all add: depositTransfer_def)
  have "collectDeposits sampleCfg 25 [] [sampleDepositMemo] 0 [tl_TxResponse sampleDeposit] [] = [searchedDeposit]"
    by (simp add: tx transfer escrow sampleMemo_query(3))
  then show "er_OK (fst (run_state (listRecentEscrowDeposits searchEnv sampleCfg 25 []) t))"
    "er_Deposits (fst (run_state (listRecentEscrowDeposits searchEnv sampleCfg 25 []) t)) = [searchedDeposit]"
    by (simp_all add: listRecentEscrowDeposits_def chain search getJSON_def escrow Let_def)
qed

lemma search_matches:
  obtains f where "matchingFunding sampleCfg \<lparr>fe_Sender = [], fe_SourceApp = ''arena'', fe_SettlementRunID = [], fe_ChallengeID = ''c1'', fe_SourceEventID = [],
      fe_ParticipantSide = [], fe_ParticipantID = [], fe_TotalFundedUWolo = [], fe_WagerUWolo = [], fe_GuaranteeUWolo = []\<rparr> searchedDeposit = Some f"
    "isSampleFunding f"
proof -
  let ?e = "\<lparr>fe_Sender = [], fe_SourceApp = ''arena'', fe_SettlementRunID = [], fe_ChallengeID = ''c1'', fe_SourceEventID = [],
      fe_ParticipantSide = [], fe_ParticipantID = [], fe_TotalFundedUWolo = [], fe_WagerUWolo = [], fe_GuaranteeUWolo = []\<rparr>"
  have lookup: "lr_Memo (lookupOfDeposit sampleCfg searchedDeposit) = sampleDepositMemo" "lr_TxHash (lookupOfDeposit sampleCfg searchedDeposit) = ''F00D''"
    "the (lr_MatchedTransfer (lookupOfDeposit sampleCfg searchedDeposit)) = depositTransfer"
    by (simp_all add: lookupOfDeposit_def depositItem_def depositTransfer_def sampleDeposit_def)
  obtain f where f: "parseChallengeFundingResult depositTransfer (lookupOfDeposit sampleCfg searchedDeposit) ''wolo1escrow'' = Inr f" "isSampleFunding f"
    using deposit_parses [OF lookup(1,2)] by blast
  have "compareChallengeFundingExpectation f ?e = []"
    using f(2) by (simp add: compareChallengeFundingExpectation_def fundingChecks_def isSampleFunding_def go_eval)
  with f that show ?thesis by (simp add: matchingFunding_def lookup Let_def)
qed

theorem recent_funding_is_filter_witness:
  "\<exists>f. fc_Funding (fst (run_state (listRecentChallengeFundingDeposits searchEnv sampleCfg searchFilters) 0)) = [f] \<and> isSampleFunding f"
proof -
  have trimmed: "TrimSpace ''arena'' = ''arena''" "TrimSpace ''c1'' = ''c1''" by (simp_all add: go_eval)
  have limit: "fundingSearchLimit 5 = 25" by (simp add: fundingSearchLimit_def)
  have valid: "validateChallengeFundingExpectation (zero_settlementChallengeFundingExpectation\<lparr>fe_Sender := [], fe_SourceApp := ''arena'',
      fe_SettlementRunID := [], fe_ChallengeID := ''c1'', fe_SourceEventID := [], fe_ParticipantSide := [], fe_ParticipantID := []\<rparr>) ''wolo'' = None"
    by (simp add: zero_settlementChallengeFundingExpectation_def validateChallengeFundingExpectation_def whenSet_def metadataError_def
        normalizeSettlementRunMetadataID_def settlementRequestIDPattern_def settlementSourceEventPattern_def go_eval)
  have "fc_OK (fst (run_state (listRecentChallengeFundingDeposits searchEnv sampleCfg searchFilters) 0))"
    using search_deposits(1) [of 0] valid
    by (simp add: listRecentChallengeFundingDeposits_def searchFilters_def trimmed limit Let_def case_prod_beta)
  note listed = recent_funding_is_filter [OF this]
  obtain f where f: "matchingFunding sampleCfg \<lparr>fe_Sender = [], fe_SourceApp = ''arena'', fe_SettlementRunID = [], fe_ChallengeID = ''c1'', fe_SourceEventID = [],
      fe_ParticipantSide = [], fe_ParticipantID = [], fe_TotalFundedUWolo = [], fe_WagerUWolo = [], fe_GuaranteeUWolo = []\<rparr> searchedDeposit = Some f"
    "isSampleFunding f"
    by (rule search_matches)
  then show ?thesis using listed by (simp add: searchFilters_def trimmed limit search_deposits(2) map_filter_simps isSampleFunding_def)
qed

section \<open>Verified deposits\<close>

text \<open>
  C12. A verified challenge deposit is on chain and says who it is for.  When the verification reports
  \<open>ok\<close>, the transaction was found; it has a transfer into the escrow address from which the sender and
  the total of the funding are taken; the memo uses the funding convention; the funding names a participant, and its wager and guarantee
  are both non-zero and add up, in \<open>uint64\<close>, to the transferred amount; and every field the caller expected agrees with the funding.
\<close>

theorem verified_funding_sound:
  assumes "fv_OK (fst (run_state (verifyChallengeFundingDeposit env cfg txHash e) c))"
  shows "\<exists>f lookup t. fv_Funding (fst (run_state (verifyChallengeFundingDeposit env cfg txHash e) c)) = Some f \<and>
    lookup = fst (run_state (lookupSettlementTx env cfg txHash \<lparr>le_Sender = TrimSpace (fe_Sender e),
      le_Recipient = cfg_EscrowAddress cfg, le_AmountUWolo = TrimSpace (fe_TotalFundedUWolo e)\<rparr>) c) \<and>
    lr_Found lookup \<and> t \<in> set (lr_Transfers lookup) \<and> EqualFold (tr_Recipient t) (TrimSpace (cfg_EscrowAddress cfg)) \<and>
    fr_Sender f = tr_Sender t \<and> fr_TotalFundedUWolo f = TrimSpace (tr_Amount t) \<and>
    prefix settlementChallengeFundingMemoPrefix (TrimSpace (lr_Memo lookup)) \<and> wfFunding f \<and>
    compareChallengeFundingExpectation f e = []"
proof -
  let ?le = "\<lparr>le_Sender = TrimSpace (fe_Sender e), le_Recipient = cfg_EscrowAddress cfg, le_AmountUWolo = TrimSpace (fe_TotalFundedUWolo e)\<rparr>"
  let ?l = "fst (run_state (lookupSettlementTx env cfg txHash ?le) c)"
  obtain result where v: "fst (run_state (verifyChallengeFundingDeposit env cfg txHash e) c) = fundingVerdict cfg e result ?l"
    and escrow: "TrimSpace (cfg_EscrowAddress cfg) \<noteq> []"
    using verifyChallengeFundingDeposit_ok [OF assms] by blast
  note ok = fundingVerdict_ok [OF assms [unfolded v]]
  from ok(4) obtain t f where t: "lr_MatchedTransfer ?l = Some t" "parseChallengeFundingResult t ?l (cfg_EscrowAddress cfg) = Inr f"
      "compareChallengeFundingExpectation f e = []"
      "fv_Funding (fundingVerdict cfg e result ?l) = Some (f\<lparr>fr_OK := True, fr_Detail := ''challenge funding deposit verified''\<rparr>)" by blast
  have "t \<in> set (lr_Transfers ?l)" "transferMatches ?le t"
    using matchSettlementTransfer_some lookup_found(1) [OF ok(1)] t(1) by fastforce+
  moreover have "EqualFold (tr_Recipient t) (TrimSpace (cfg_EscrowAddress cfg))"
    using \<open>transferMatches ?le t\<close> escrow by (simp add: transferMatches_def Let_def)
  moreover note parseChallengeFundingResult_sound [OF t(2)]
  moreover have "compareChallengeFundingExpectation (f\<lparr>fr_OK := True, fr_Detail := d\<rparr>) e = []" for d
    using t(3) unfolding compareChallengeFundingExpectation_Nil by simp
  ultimately show ?thesis
    using ok(2) t(4) unfolding v by (intro exI [of _ "f\<lparr>fr_OK := True, fr_Detail := ''challenge funding deposit verified''\<rparr>"] exI [of _ ?l] exI [of _ t]) simp
qed

theorem verified_funding_sound_witness:
  "\<exists>f (t :: settlementTransfer). fv_Funding (fst (run_state (verifyChallengeFundingDeposit (sampleEnv (\<lambda>t. False) (\<lambda>t path. None)) sampleCfg ''F00D''
     (expectationOf ''arena'' ''c1'' [] (normalizedFundingInput sampleInput))) 0)) = Some f \<and> wfFunding f \<and>
     EqualFold (tr_Recipient t) (TrimSpace ''wolo1escrow'') \<and> fr_Sender f = tr_Sender t"
proof -
  let ?env = "sampleEnv (\<lambda>t. False) (\<lambda>t path. None)" and ?e = "expectationOf ''arena'' ''c1'' [] (normalizedFundingInput sampleInput)"
  obtain f response where "run_state (verifyChallengeFundingDeposit ?env sampleCfg ''F00D'' ?e) 0 = (response, 0)" "fv_OK response"
    by (rule sample_verified)
  then have "fv_OK (fst (run_state (verifyChallengeFundingDeposit ?env sampleCfg ''F00D'' ?e) 0))" by simp
  from verified_funding_sound [OF this] show ?thesis unfolding sampleCfg_sel by blast
qed

end
