(* ===== verification/Actions.thy ===== *)
theory Actions
  imports Main
begin

text \<open>
  Go code that calls into the Cosmos SDK threads one store through many calls, each of which may
  return an error.  This theory holds the shared vocabulary of the theories that model such code
  (\<open>Keeper\<close>, \<open>Testnet\<close>, \<open>Export\<close>): an action on a state of any type, which ends with a value, a
  returned error, a panic or an exit of the process, and keeps the state it had reached; sequencing;
  the loop over a list; and the lemmas that carry a property of the state through them.
\<close>

named_theorems action_intros \<open>rules that carry a property of the state through actions\<close>

datatype failure = Returned string | Panicked string | Exited string

type_synonym ('s, 'a) act = "'s \<Rightarrow> 's \<times> (failure + 'a)"

definition ret :: "'a \<Rightarrow> ('s, 'a) act" where
  "ret x = (\<lambda>s. (s, Inr x))"

definition fail :: "failure \<Rightarrow> ('s, 'a) act" where
  "fail e = (\<lambda>s. (s, Inl e))"

definition bindA :: "('s, 'a) act \<Rightarrow> ('a \<Rightarrow> ('s, 'b) act) \<Rightarrow> ('s, 'b) act" where
  "bindA m f = (\<lambda>s. case m s of (s', Inl e) \<Rightarrow> (s', Inl e) | (s', Inr x) \<Rightarrow> f x s')"

abbreviation seqA :: "('s, 'a) act \<Rightarrow> ('s, 'b) act \<Rightarrow> ('s, 'b) act" where
  "seqA m n \<equiv> bindA m (\<lambda>_. n)"

text \<open>A call of a method that returns a value or an error, and what the caller makes of the error.\<close>

definition orElse :: "(string \<Rightarrow> failure) \<Rightarrow> string + 'a \<Rightarrow> ('s, 'a) act" where
  "orElse k r = (case r of Inl e \<Rightarrow> fail (k e) | Inr x \<Rightarrow> ret x)"

text \<open>A call that changes the state and returns only an error.\<close>

definition callE :: "(string \<Rightarrow> failure) \<Rightarrow> ('s \<Rightarrow> 's \<times> string option) \<Rightarrow> ('s, unit) act" where
  "callE k f = (\<lambda>s. case f s of (s', None) \<Rightarrow> (s', Inr ()) | (s', Some e) \<Rightarrow> (s', Inl (k e)))"

text \<open>A call that changes the state and returns a value or an error.\<close>

definition callV :: "(string \<Rightarrow> failure) \<Rightarrow> ('s \<Rightarrow> 's \<times> (string + 'a)) \<Rightarrow> ('s, 'a) act" where
  "callV k f = (\<lambda>s. case f s of (s', Inr x) \<Rightarrow> (s', Inr x) | (s', Inl e) \<Rightarrow> (s', Inl (k e)))"

definition ignoreE :: "('s \<Rightarrow> 's \<times> string option) \<Rightarrow> ('s, unit) act" where
  "ignoreE f = (\<lambda>s. (fst (f s), Inr ()))"

definition updateA :: "('s \<Rightarrow> 's) \<Rightarrow> ('s, unit) act" where
  "updateA f = (\<lambda>s. (f s, Inr ()))"

definition readA :: "(string \<Rightarrow> failure) \<Rightarrow> ('s \<Rightarrow> string + 'a) \<Rightarrow> ('s, 'a) act" where
  "readA k f = (\<lambda>s. orElse k (f s) s)"

primrec forEach :: "('a \<Rightarrow> ('s, unit) act) \<Rightarrow> 'a list \<Rightarrow> ('s, unit) act" where
  "forEach f [] = ret ()"
| "forEach f (x # xs) = seqA (f x) (forEach f xs)"

lemmas action_defs = ret_def fail_def bindA_def orElse_def callE_def callV_def ignoreE_def updateA_def readA_def

text \<open>
  The partial correctness of an action: from a state with \<^term>\<open>P\<close>, if it ends with a value, the
  state and the value have \<^term>\<open>Q\<close>; the steps of a property are carried by the rules below.
\<close>

definition ensures :: "('s \<Rightarrow> bool) \<Rightarrow> ('s, 'a) act \<Rightarrow> ('a \<Rightarrow> 's \<Rightarrow> bool) \<Rightarrow> bool" where
  "ensures P m Q \<longleftrightarrow> (\<forall>s s' x. P s \<longrightarrow> m s = (s', Inr x) \<longrightarrow> Q x s')"

lemma ensuresD: "\<lbrakk>ensures P m Q; P s; m s = (s', Inr x)\<rbrakk> \<Longrightarrow> Q x s'"
  by (auto simp: ensures_def)

lemma ensures_ret [action_intros]: "(\<And>s. P s \<Longrightarrow> Q x s) \<Longrightarrow> ensures P (ret x) Q"
  by (auto simp: ensures_def ret_def)

lemma ensures_fail [action_intros]: "ensures P (fail e) Q"
  by (auto simp: ensures_def fail_def)

lemma ensures_bindA:
  assumes "ensures P m R" and "\<And>x. ensures (R x) (f x) Q"
  shows "ensures P (bindA m f) Q"
  unfolding ensures_def bindA_def
proof (intro allI impI)
  fix s s' y
  assume P: "P s" and run: "(case m s of (t, Inl e) \<Rightarrow> (t, Inl e) | (t, Inr x) \<Rightarrow> f x t) = (s', Inr y)"
  then obtain t x where m: "m s = (t, Inr x)" and f: "f x t = (s', Inr y)"
    by (auto split: prod.splits sum.splits)
  show "Q y s'"
    using ensuresD [OF assms(2) ensuresD [OF assms(1) P m] f] .
qed

lemma ensures_weaken: "\<lbrakk>ensures P m R; \<And>x s. R x s \<Longrightarrow> Q x s\<rbrakk> \<Longrightarrow> ensures P m Q"
  by (auto simp: ensures_def)

lemma ensures_strengthen: "\<lbrakk>ensures P m Q; \<And>s. P' s \<Longrightarrow> P s\<rbrakk> \<Longrightarrow> ensures P' m Q"
  by (auto simp: ensures_def)

lemma ensures_orElse [action_intros]:
  "(\<And>x s. r = Inr x \<Longrightarrow> P s \<Longrightarrow> Q x s) \<Longrightarrow> ensures P (orElse k r) Q"
  by (auto simp: ensures_def orElse_def fail_def ret_def split: sum.splits)

lemma ensures_readA [action_intros]:
  "(\<And>s x. P s \<Longrightarrow> f s = Inr x \<Longrightarrow> Q x s) \<Longrightarrow> ensures P (readA k f) Q"
  by (auto simp: ensures_def readA_def orElse_def fail_def ret_def split: sum.splits)

lemma ensures_callE [action_intros]:
  "(\<And>s s'. P s \<Longrightarrow> f s = (s', None) \<Longrightarrow> Q () s') \<Longrightarrow> ensures P (callE k f) Q"
  by (auto simp: ensures_def callE_def split: prod.splits option.splits)

lemma ensures_ignoreE [action_intros]:
  "(\<And>s. P s \<Longrightarrow> Q () (fst (f s))) \<Longrightarrow> ensures P (ignoreE f) Q"
  by (auto simp: ensures_def ignoreE_def)

lemma ensures_updateA [action_intros]:
  "(\<And>s. P s \<Longrightarrow> Q () (f s)) \<Longrightarrow> ensures P (updateA f) Q"
  by (auto simp: ensures_def updateA_def)

lemma ensures_if [action_intros]:
  "\<lbrakk>b \<Longrightarrow> ensures P m Q; \<not> b \<Longrightarrow> ensures P n Q\<rbrakk> \<Longrightarrow> ensures P (if b then m else n) Q"
  by simp

lemma ensures_forEach:
  assumes "\<And>x. x \<in> set xs \<Longrightarrow> ensures I (f x) (\<lambda>_. I)"
  shows "ensures I (forEach f xs) (\<lambda>_. I)"
  using assms
  by (induction xs) (auto intro!: action_intros intro: ensures_bindA)

end
