(* ===== verification/Keeper.thy ===== *)
theory Keeper
  imports Actions GoLib
begin

text \<open>
  The module \<open>x/wolochain\<close>: its keeper with the authority that may change the parameters, the
  message and query servers, genesis, and the module object that \<open>ProvideModule\<close> wires up.  The
  chain's store is a state of any type; the SDK's address codec, the collections item that holds the
  parameters and the JSON codec are arguments.  The parameters are the empty message the module
  declares, and the section at the end shows that only the configured authority writes them.
\<close>

subsection \<open>Data\<close>

type_synonym bytes = string

datatype Params = Params

record GenesisState =
  GenesisParams :: Params

record MsgUpdateParams =
  Authority :: string
  NewValues :: Params

text \<open>Errors of a collections item, as the callers tell them apart.\<close>

datatype itemError = ErrNotFound | ItemError string

datatype moduleError =
    InvalidAuthorityAddress string
  | ErrInvalidSigner string string
  | StoreError itemError
  | InvalidArgument
  | Internal

text \<open>The SDK's address codec; the second method returns a string beside its error.\<close>

record addressCodec =
  StringToBytes :: "string \<Rightarrow> string + bytes"
  BytesToString :: "bytes \<Rightarrow> string \<times> string option"

text \<open>The collections item of the parameters over the chain's store.\<close>

record 's paramsItem =
  ItemGet :: "'s \<Rightarrow> Params \<times> itemError option"
  ItemSet :: "'s \<Rightarrow> Params \<Rightarrow> 's \<times> itemError option"

text \<open>The JSON codec, as far as genesis uses it.\<close>

record jsonCodec =
  MarshalJSON :: "GenesisState \<Rightarrow> string + string"
  UnmarshalJSON :: "string \<Rightarrow> string + GenesisState"

record Keeper =
  keeperCodec :: addressCodec
  keeperAuthority :: bytes

definition GovModuleName :: string where
  "GovModuleName = ''gov''"

definition ModuleName :: string where
  "ModuleName = ''wolochain''"

subsection \<open>Operations\<close>

definition DefaultParams :: Params where
  "DefaultParams = Params"

definition DefaultGenesis :: GenesisState where
  "DefaultGenesis = \<lparr>GenesisParams = DefaultParams\<rparr>"

definition ParamsValidate :: "Params \<Rightarrow> moduleError option" where
  "ParamsValidate p = None"

definition GenesisValidate :: "GenesisState \<Rightarrow> moduleError option" where
  "GenesisValidate gs = ParamsValidate (GenesisParams gs)"

text \<open>The second argument of \<open>NewKeeper\<close> is the outcome of building the collections schema.\<close>

definition NewKeeper :: "addressCodec \<Rightarrow> string option \<Rightarrow> bytes \<Rightarrow> failure + Keeper" where
  "NewKeeper codec schemaErr auth = (case snd (BytesToString codec auth) of
      Some e \<Rightarrow> Inl (Panicked (''invalid authority address '' @ auth @ '': '' @ e))
    | None \<Rightarrow> (case schemaErr of
        Some e \<Rightarrow> Inl (Panicked e)
      | None \<Rightarrow> Inr \<lparr>keeperCodec = codec, keeperAuthority = auth\<rparr>))"

definition GetAuthority :: "Keeper \<Rightarrow> bytes" where
  "GetAuthority k = keeperAuthority k"

definition KeeperInitGenesis :: "'s paramsItem \<Rightarrow> 's \<Rightarrow> GenesisState \<Rightarrow> 's \<times> itemError option" where
  "KeeperInitGenesis item s gs = ItemSet item s (GenesisParams gs)"

definition KeeperExportGenesis :: "'s paramsItem \<Rightarrow> 's \<Rightarrow> itemError + GenesisState" where
  "KeeperExportGenesis item s = (let genesis = DefaultGenesis; (params, err) = ItemGet item s in
    (case err of
      Some e \<Rightarrow> Inl e
    | None \<Rightarrow> Inr (genesis\<lparr>GenesisParams := params\<rparr>)))"

definition UpdateParams ::
    "'s paramsItem \<Rightarrow> Keeper \<Rightarrow> MsgUpdateParams \<Rightarrow> 's \<Rightarrow> 's \<times> (moduleError + unit)" where
  "UpdateParams item k req s = (case StringToBytes (keeperCodec k) (Authority req) of
      Inl e \<Rightarrow> (s, Inl (InvalidAuthorityAddress e))
    | Inr authority \<Rightarrow>
        if GetAuthority k \<noteq> authority
        then (s, Inl (ErrInvalidSigner (fst (BytesToString (keeperCodec k) (GetAuthority k)))
                        (Authority req)))
        else (case ParamsValidate (NewValues req) of
            Some e \<Rightarrow> (s, Inl e)
          | None \<Rightarrow> (case ItemSet item s (NewValues req) of
              (s', Some e) \<Rightarrow> (s', Inl (StoreError e))
            | (s', None) \<Rightarrow> (s', Inr ()))))"

text \<open>The query; its request is a pointer, so \<^const>\<open>None\<close> is the nil request.\<close>

definition QueryParams :: "'s paramsItem \<Rightarrow> unit option \<Rightarrow> 's \<Rightarrow> moduleError + Params" where
  "QueryParams item req s = (case req of
      None \<Rightarrow> Inl InvalidArgument
    | Some _ \<Rightarrow> (let (params, err) = ItemGet item s in
        if err \<noteq> None \<and> err \<noteq> Some ErrNotFound then Inl Internal else Inr params))"

definition itemErrorText :: "itemError \<Rightarrow> string" where
  "itemErrorText e = (case e of ErrNotFound \<Rightarrow> ''collections: not found'' | ItemError m \<Rightarrow> m)"

definition ModuleDefaultGenesis :: "jsonCodec \<Rightarrow> failure + string" where
  "ModuleDefaultGenesis cdc = (case MarshalJSON cdc DefaultGenesis of
      Inl e \<Rightarrow> Inl (Panicked e)
    | Inr bz \<Rightarrow> Inr bz)"

definition ModuleValidateGenesis :: "jsonCodec \<Rightarrow> string \<Rightarrow> (string + moduleError) option" where
  "ModuleValidateGenesis cdc bz = (case UnmarshalJSON cdc bz of
      Inl e \<Rightarrow> Some (Inl (''failed to unmarshal '' @ ModuleName @ '' genesis state: '' @ e))
    | Inr gs \<Rightarrow> map_option Inr (GenesisValidate gs))"

definition ModuleInitGenesis :: "jsonCodec \<Rightarrow> 's paramsItem \<Rightarrow> string \<Rightarrow> ('s, unit) act" where
  "ModuleInitGenesis cdc item bz =
     bindA (orElse (\<lambda>e. Panicked (''failed to unmarshal '' @ ModuleName @ '' genesis state: '' @ e))
             (UnmarshalJSON cdc bz))
       (\<lambda>gs. callE (\<lambda>e. Panicked (''failed to initialize '' @ ModuleName @ '' genesis state: '' @ e))
              (\<lambda>s. map_prod id (map_option itemErrorText) (KeeperInitGenesis item s gs)))"

definition ModuleExportGenesis :: "jsonCodec \<Rightarrow> 's paramsItem \<Rightarrow> ('s, string) act" where
  "ModuleExportGenesis cdc item =
     bindA (readA (\<lambda>e. Panicked (''failed to export '' @ ModuleName @ '' genesis state: '' @ e))
             (\<lambda>s. map_sum itemErrorText id (KeeperExportGenesis item s)))
       (\<lambda>gs. orElse (\<lambda>e. Panicked (''failed to marshal '' @ ModuleName @ '' genesis state: '' @ e))
              (MarshalJSON cdc gs))"

text \<open>The begin and end blockers return no error and touch nothing.\<close>

definition BeginBlock :: "'s \<Rightarrow> 's \<times> moduleError option" where
  "BeginBlock s = (s, None)"

definition EndBlock :: "'s \<Rightarrow> 's \<times> moduleError option" where
  "EndBlock s = (s, None)"

text \<open>
  \<open>ProvideModule\<close>: \<open>moduleAddress\<close> and \<open>moduleOrBech32\<close> are the SDK's \<open>NewModuleAddress\<close> and
  \<open>NewModuleAddressOrBech32Address\<close>, the string is the configured authority.
\<close>

definition ProvideModule ::
    "(string \<Rightarrow> bytes) \<Rightarrow> (string \<Rightarrow> bytes) \<Rightarrow> addressCodec \<Rightarrow> string option \<Rightarrow> string
      \<Rightarrow> failure + Keeper" where
  "ProvideModule moduleAddress moduleOrBech32 codec schemaErr configAuthority =
     (let authority = (if configAuthority \<noteq> '''' then moduleOrBech32 configAuthority
                       else moduleAddress GovModuleName)
      in NewKeeper codec schemaErr authority)"

subsection \<open>Only the authority writes the parameters\<close>

definition fromAuthority :: "Keeper \<Rightarrow> MsgUpdateParams \<Rightarrow> bool" where
  "fromAuthority k req \<longleftrightarrow> StringToBytes (keeperCodec k) (Authority req) = Inr (GetAuthority k)"

text \<open>The store after one message, whatever it returned, and after one block: the begin blocker, the
  messages in order, and the end blocker.\<close>

definition deliver :: "'s paramsItem \<Rightarrow> Keeper \<Rightarrow> 's \<Rightarrow> MsgUpdateParams \<Rightarrow> 's" where
  "deliver item k s req = fst (UpdateParams item k req s)"

definition runBlock :: "'s paramsItem \<Rightarrow> Keeper \<Rightarrow> 's \<Rightarrow> MsgUpdateParams list \<Rightarrow> 's" where
  "runBlock item k s reqs = fst (EndBlock (foldl (deliver item k) (fst (BeginBlock s)) reqs))"

lemma UpdateParams_unauthorized:
  assumes "\<not> fromAuthority k req"
  shows "\<exists>e. UpdateParams item k req s = (s, Inl e)"
  using assms by (auto simp: fromAuthority_def UpdateParams_def split: sum.splits)

lemma UpdateParams_authorized:
  assumes "fromAuthority k req"
  shows "UpdateParams item k req s = (case ItemSet item s (NewValues req) of
           (s', Some e) \<Rightarrow> (s', Inl (StoreError e)) | (s', None) \<Rightarrow> (s', Inr ()))"
  using assms by (simp add: fromAuthority_def UpdateParams_def ParamsValidate_def)

lemma deliver_unauthorized: "\<not> fromAuthority k req \<Longrightarrow> deliver item k s req = s"
  using UpdateParams_unauthorized [of k req item s] by (auto simp: deliver_def)

lemma runBlock_deliver: "runBlock item k s reqs = foldl (deliver item k) s reqs"
  by (simp add: runBlock_def BeginBlock_def EndBlock_def)

text \<open>Messages without the authority can be struck out of any sequence of blocks.\<close>

lemma foldl_deliver_filter:
  "foldl (deliver item k) s reqs = foldl (deliver item k) s (filter (fromAuthority k) reqs)"
  by (induction reqs arbitrary: s) (simp_all add: deliver_unauthorized)

lemma foldl_runBlock_concat:
  "foldl (runBlock item k) s blocks = foldl (deliver item k) s (concat blocks)"
  by (induction blocks arbitrary: s) (simp_all add: runBlock_deliver)

lemma ProvideModule_keeper:
  assumes "ProvideModule moduleAddress moduleOrBech32 codec schemaErr '''' = Inr k"
  shows "keeperCodec k = codec" and "GetAuthority k = moduleAddress ''gov''"
  using assms
  by (auto simp: ProvideModule_def NewKeeper_def GetAuthority_def GovModuleName_def Let_def
      split: option.splits)

subsection \<open>Sample values\<close>

definition sampleCodec :: addressCodec where
  "sampleCodec = \<lparr>StringToBytes = (\<lambda>a. if a = '''' then Inl ''empty address string is not allowed'' else Inr a),
                  BytesToString = (\<lambda>b. (b, None))\<rparr>"

definition sampleParamsItem :: "nat paramsItem" where
  "sampleParamsItem = \<lparr>ItemGet = (\<lambda>s. (Params, if s = 0 then Some ErrNotFound else None)),
                 ItemSet = (\<lambda>s _. (Suc s, None))\<rparr>"

definition sampleKeeper :: Keeper where
  "sampleKeeper = \<lparr>keeperCodec = sampleCodec, keeperAuthority = ''gov''\<rparr>"

text \<open>
  C32. With the default configuration only the governance account changes the module's state: over any
  sequence of blocks the store is the one reached by the messages whose authority decodes to the address
  of the gov module, in their order, and every other message leaves the store alone and is answered with
  an error.
\<close>

theorem governance_changes_params:
  assumes "ProvideModule moduleAddress moduleOrBech32 codec schemaErr '''' = Inr k"
  shows "foldl (runBlock item k) s blocks = foldl (deliver item k) s
           (filter (\<lambda>req. StringToBytes codec (Authority req) = Inr (moduleAddress ''gov'')) (concat blocks))
         \<and> (StringToBytes codec (Authority req) \<noteq> Inr (moduleAddress ''gov'') \<longrightarrow>
              (\<exists>e. UpdateParams item k req s = (s, Inl e)))"
proof -
  have auth: "fromAuthority k = (\<lambda>req. StringToBytes codec (Authority req) = Inr (moduleAddress ''gov''))"
    by (simp add: fun_eq_iff fromAuthority_def ProvideModule_keeper [OF assms])
  show ?thesis
    using UpdateParams_unauthorized [of k req item s] foldl_deliver_filter [of item k s "concat blocks"]
    by (simp add: foldl_runBlock_concat auth)
qed

theorem governance_changes_params_witness:
  "foldl (runBlock sampleParamsItem sampleKeeper) 0
     [[\<lparr>Authority = ''mallory'', NewValues = Params\<rparr>],
      [\<lparr>Authority = ''gov'', NewValues = Params\<rparr>, \<lparr>Authority = '''', NewValues = Params\<rparr>]] = 1"
proof -
  have "ProvideModule id id sampleCodec None '''' = Inr sampleKeeper"
    by (simp add: ProvideModule_def NewKeeper_def sampleCodec_def sampleKeeper_def GovModuleName_def)
  from governance_changes_params [OF this, of sampleParamsItem 0
      "[[\<lparr>Authority = ''mallory'', NewValues = Params\<rparr>],
        [\<lparr>Authority = ''gov'', NewValues = Params\<rparr>, \<lparr>Authority = '''', NewValues = Params\<rparr>]]"]
  show ?thesis
    by (simp add: sampleCodec_def deliver_def UpdateParams_def sampleKeeper_def sampleParamsItem_def
        GetAuthority_def ParamsValidate_def)
qed

subsection \<open>Genesis\<close>

lemma exported_genesis_imports:
  assumes get_set: "\<And>s p. snd (ItemSet item s p) = None
                      \<Longrightarrow> ItemGet item (fst (ItemSet item s p)) = (p, None)"
    and json: "\<And>gs bz. MarshalJSON cdc gs = Inr bz \<Longrightarrow> UnmarshalJSON cdc bz = Inr gs"
    and init: "KeeperInitGenesis item s gs = (s', None)"
    and export: "ModuleExportGenesis cdc item s' = (s'', Inr bz)"
  shows "s'' = s' \<and> UnmarshalJSON cdc bz = Inr gs \<and> ModuleValidateGenesis cdc bz = None"
proof -
  have "ItemGet item s' = (GenesisParams gs, None)"
    using get_set [of s "GenesisParams gs"] init by (simp add: KeeperInitGenesis_def)
  then have "KeeperExportGenesis item s' = Inr gs"
    by (simp add: KeeperExportGenesis_def)
  then have "s'' = s'" and "MarshalJSON cdc gs = Inr bz"
    using export by (auto simp: ModuleExportGenesis_def action_defs split: sum.splits)
  then show ?thesis
    using json by (simp add: ModuleValidateGenesis_def GenesisValidate_def ParamsValidate_def)
qed

end
