(* ===== verification/Genesis_Account.thy ===== *)
theory Genesis_Account
  imports GoLib
begin

text \<open>
  The genesis account of the simulation (\<open>app/genesis_account.go\<close>): its fields and its \<open>Validate\<close>.
  The SDK's \<open>Coins.IsZero\<close> and the validation of the base and of the module account are arguments.
\<close>

type_synonym coins = "(string \<times> int) list"

record 'acc GenesisAccount =
  BaseAccount :: 'acc
  OriginalVesting :: coins
  DelegatedFree :: coins
  DelegatedVesting :: coins
  StartTime :: i64
  EndTime :: i64
  ModuleAccountName :: string
  ModulePermissions :: "string list"

definition GenesisAccountValidate ::
    "(coins \<Rightarrow> bool) \<Rightarrow> ('acc \<Rightarrow> string \<Rightarrow> string list \<Rightarrow> string option) \<Rightarrow> ('acc \<Rightarrow> string option)
      \<Rightarrow> 'acc GenesisAccount \<Rightarrow> string option" where
  "GenesisAccountValidate isZero validateModule validateBase sga =
     (if \<not> isZero (OriginalVesting sga) \<and> EndTime sga \<le>s StartTime sga
      then Some ''vesting start-time cannot be before end-time''
      else if ModuleAccountName sga \<noteq> '''' \<and>
              validateModule (BaseAccount sga) (ModuleAccountName sga) (ModulePermissions sga) \<noteq> None
      then validateModule (BaseAccount sga) (ModuleAccountName sga) (ModulePermissions sga)
      else validateBase (BaseAccount sga))"

text \<open>
  An accepted account has a vesting period of positive length when it vests anything; the message of
  the refusal names the condition the other way round.
\<close>

lemma validated_vesting_period:
  assumes "GenesisAccountValidate isZero validateModule validateBase sga = None"
  shows "isZero (OriginalVesting sga) \<or> sint (StartTime sga) < sint (EndTime sga)"
    and "ModuleAccountName sga = '''' \<or>
         validateModule (BaseAccount sga) (ModuleAccountName sga) (ModulePermissions sga) = None"
    and "validateBase (BaseAccount sga) = None"
  using assms by (auto simp: GenesisAccountValidate_def word_sle_eq split: if_splits)

lemma start_before_end_not_refused:
  assumes "sint (StartTime sga) < sint (EndTime sga)" and "ModuleAccountName sga = ''''"
  shows "GenesisAccountValidate isZero validateModule validateBase sga = validateBase (BaseAccount sga)"
  using assms by (simp add: GenesisAccountValidate_def word_sle_eq)

end
