(* ===== verification/Staking_Types.thy ===== *)
theory Staking_Types
  imports GoLib
begin

text \<open>
  The values of the SDK's staking and slashing modules that the node's own code builds or changes
  (\<open>Testnet\<close>, \<open>Export\<close>).  Heights are 64-bit; decimals are integers with eighteen fractional digits.
\<close>

datatype bondStatus = Unbonded | Unbonding | Bonded

record validator =
  OperatorAddress :: string
  ConsensusPubkey :: string
  Jailed :: bool
  Status :: bondStatus
  Tokens :: int
  DelegatorShares :: int
  Moniker :: string
  UnbondingHeight :: i64
  Rate :: int
  MaxRate :: int
  MaxChangeRate :: int
  MinSelfDelegation :: int

record signingInfo =
  SigningAddress :: string
  StartHeight :: i64
  Tombstoned :: bool

record delegation =
  DelegatorAddress :: string
  ValidatorAddress :: string

text \<open>An entry of a redelegation or of an unbonding delegation: the code changes the height and keeps
  the other fields, which are the extension of the record.\<close>

record entry =
  CreationHeight :: i64

record 'e redelegation =
  RedDelegator :: string
  RedSource :: string
  RedDestination :: string
  RedEntries :: "'e entry_scheme list"

record 'e unbondingDelegation =
  UbdDelegator :: string
  UbdValidator :: string
  UbdEntries :: "'e entry_scheme list"

end
