(* ===== verification/Export.thy ===== *)
theory Export
  imports Actions Staking_Types
begin

text \<open>
  The export of the application state (\<open>app/export.go\<close>): \<open>ExportAppStateAndValidators\<close> and the
  preparation of a restart at height zero.  The keepers of the SDK are the fields of a record of calls;
  a context is a height with the store, passed by value, so that a call may change the store only.  An
  iteration visits the elements present when it starts.  The theorem is of the whole export at height
  zero, under named hypotheses on the calls of the SDK (\<open>validatorsByOperator\<close>, \<open>validatorsReadBack\<close>,
  \<open>validatorsOfStore\<close>, \<open>otherCallsLeaveValidators\<close>, \<open>setUpdatesKeepJailed\<close>).
\<close>

subsection \<open>Contexts and calls\<close>

record 's sdkContext =
  BlockHeight :: i64
  ctxStore :: 's

definition WithBlockHeight :: "i64 \<Rightarrow> 's sdkContext \<Rightarrow> 's sdkContext" where
  "WithBlockHeight h ctx = ctx\<lparr>BlockHeight := h\<rparr>"

text \<open>A call with the context: the store it leaves is the store of the caller's sdkContext.\<close>

definition within :: "('s sdkContext \<Rightarrow> 's \<times> string option) \<Rightarrow> 's sdkContext \<Rightarrow> 's sdkContext \<times> string option" where
  "within f ctx = (let (s, err) = f ctx in (ctx\<lparr>ctxStore := s\<rparr>, err))"

type_synonym decCoins = "(string \<times> int) list"

record ('s, 'e) exportKeepers =
  SigningValidatorToBytes :: "string \<Rightarrow> string + string"
  SigningAccountToBytes :: "string \<Rightarrow> string + string"
  StakingValidatorToBytes :: "string \<Rightarrow> string + string"
  StakingValidatorToString :: "string \<Rightarrow> string + string"
  Validators :: "'s sdkContext \<Rightarrow> string + validator list"
  WithdrawValidatorCommission :: "string \<Rightarrow> 's sdkContext \<Rightarrow> 's \<times> string option"
  GetAllDelegations :: "'s sdkContext \<Rightarrow> string + delegation list"
  WithdrawDelegationRewards :: "string \<Rightarrow> string \<Rightarrow> 's sdkContext \<Rightarrow> 's \<times> string option"
  DeleteAllValidatorSlashEvents :: "'s sdkContext \<Rightarrow> 's"
  DeleteAllValidatorHistoricalRewards :: "'s sdkContext \<Rightarrow> 's"
  GetValidatorOutstandingRewardsCoins :: "string \<Rightarrow> 's sdkContext \<Rightarrow> string + decCoins"
  FeePoolGet :: "'s sdkContext \<Rightarrow> string + decCoins"
  FeePoolSet :: "decCoins \<Rightarrow> 's sdkContext \<Rightarrow> 's \<times> string option"
  DecCoinsAdd :: "decCoins \<Rightarrow> decCoins \<Rightarrow> decCoins"
  HookAfterValidatorCreated :: "string \<Rightarrow> 's sdkContext \<Rightarrow> 's \<times> string option"
  BeforeDelegationCreated :: "string \<Rightarrow> string \<Rightarrow> 's sdkContext \<Rightarrow> 's \<times> string option"
  AfterDelegationModified :: "string \<Rightarrow> string \<Rightarrow> 's sdkContext \<Rightarrow> 's \<times> string option"
  Redelegations :: "'s sdkContext \<Rightarrow> string + 'e redelegation list"
  SetRedelegation :: "'e redelegation \<Rightarrow> 's sdkContext \<Rightarrow> 's \<times> string option"
  UnbondingDelegations :: "'s sdkContext \<Rightarrow> string + 'e unbondingDelegation list"
  SetUnbondingDelegation :: "'e unbondingDelegation \<Rightarrow> 's sdkContext \<Rightarrow> 's \<times> string option"
  ReverseValidatorKeys :: "'s sdkContext \<Rightarrow> string list"
  AddressFromValidatorsKey :: "string \<Rightarrow> string"
  GetValidator :: "string \<Rightarrow> 's sdkContext \<Rightarrow> string + validator"
  KeeperSetValidator :: "validator \<Rightarrow> 's sdkContext \<Rightarrow> 's \<times> string option"
  IteratorClose :: "'s sdkContext \<Rightarrow> string option"
  ApplyValidatorSetUpdates :: "'s sdkContext \<Rightarrow> 's \<times> string option"
  SigningInfos :: "'s sdkContext \<Rightarrow> string + (string \<times> signingInfo) list"
  SetValidatorSigningInfo :: "string \<Rightarrow> signingInfo \<Rightarrow> 's sdkContext \<Rightarrow> 's \<times> string option"
  ExportGenesisForModules :: "string list \<Rightarrow> 's sdkContext \<Rightarrow> string + string"
  MarshalIndent :: "string \<Rightarrow> string + string"
  WriteValidators :: "'s sdkContext \<Rightarrow> string list \<times> string option"
  GetConsensusParams :: "'s sdkContext \<Rightarrow> string"

abbreviation panics :: "('s sdkContext \<Rightarrow> 's \<times> string option) \<Rightarrow> ('s sdkContext, unit) act" where
  "panics f \<equiv> callE Panicked (within f)"

abbreviation ignores :: "('s sdkContext \<Rightarrow> 's \<times> string option) \<Rightarrow> ('s sdkContext, unit) act" where
  "ignores f \<equiv> ignoreE (within f)"

abbreviation clears :: "('s sdkContext \<Rightarrow> 's) \<Rightarrow> ('s sdkContext, unit) act" where
  "clears f \<equiv> updateA (\<lambda>ctx. ctx\<lparr>ctxStore := f ctx\<rparr>)"

subsection \<open>Restart at height zero\<close>

definition checkAllowedAddrs :: "('s, 'e) exportKeepers \<Rightarrow> string list \<Rightarrow> ('s sdkContext, unit) act" where
  "checkAllowedAddrs app =
     forEach (\<lambda>addr. bindA (orElse Panicked (SigningValidatorToBytes app addr)) (\<lambda>_. ret ()))"

definition withdrawCommissions :: "('s, 'e) exportKeepers \<Rightarrow> ('s sdkContext, unit) act" where
  "withdrawCommissions app =
     bindA (readA Panicked (Validators app))
       (forEach (\<lambda>val. bindA (orElse Panicked (StakingValidatorToBytes app (OperatorAddress val)))
         (\<lambda>valBz. ignores (WithdrawValidatorCommission app valBz))))"

text \<open>Both addresses of a delegation, or a panic.\<close>

definition delegationAddrs ::
    "('s, 'e) exportKeepers \<Rightarrow> delegation \<Rightarrow> ('s sdkContext, string \<times> string) act" where
  "delegationAddrs app del =
     bindA (orElse Panicked (SigningValidatorToBytes app (ValidatorAddress del))) (\<lambda>valAddr.
     bindA (orElse Panicked (SigningAccountToBytes app (DelegatorAddress del))) (\<lambda>delAddr.
       ret (delAddr, valAddr)))"

definition withdrawRewards ::
    "('s, 'e) exportKeepers \<Rightarrow> delegation list \<Rightarrow> ('s sdkContext, unit) act" where
  "withdrawRewards app =
     forEach (\<lambda>del. bindA (delegationAddrs app del)
       (\<lambda>(delAddr, valAddr). ignores (WithdrawDelegationRewards app delAddr valAddr)))"

definition reinitValidators :: "('s, 'e) exportKeepers \<Rightarrow> ('s sdkContext, unit) act" where
  "reinitValidators app =
     bindA (readA Panicked (Validators app))
       (forEach (\<lambda>val.
          bindA (orElse Panicked (StakingValidatorToBytes app (OperatorAddress val))) (\<lambda>valBz.
          bindA (readA Panicked (GetValidatorOutstandingRewardsCoins app valBz)) (\<lambda>rewards.
          bindA (readA Panicked (FeePoolGet app)) (\<lambda>pool.
          seqA (panics (FeePoolSet app (DecCoinsAdd app pool rewards)))
               (panics (HookAfterValidatorCreated app valBz)))))))"

definition reinitDelegations ::
    "('s, 'e) exportKeepers \<Rightarrow> delegation list \<Rightarrow> ('s sdkContext, unit) act" where
  "reinitDelegations app =
     forEach (\<lambda>del. bindA (delegationAddrs app del) (\<lambda>(delAddr, valAddr).
       seqA (callE (\<lambda>e. Panicked (''error while incrementing period: '' @ e))
               (within (BeforeDelegationCreated app delAddr valAddr)))
            (callE (\<lambda>e. Panicked (''error while creating a new delegation period record: '' @ e))
               (within (AfterDelegationModified app delAddr valAddr)))))"

definition resetRedelegations :: "('s, 'e) exportKeepers \<Rightarrow> ('s sdkContext, unit) act" where
  "resetRedelegations app =
     bindA (readA Panicked (Redelegations app))
       (forEach (\<lambda>red. panics (SetRedelegation app
          (red\<lparr>RedEntries := map (\<lambda>en. en\<lparr>CreationHeight := 0\<rparr>) (RedEntries red)\<rparr>))))"

definition resetUnbondings :: "('s, 'e) exportKeepers \<Rightarrow> ('s sdkContext, unit) act" where
  "resetUnbondings app =
     bindA (readA Panicked (UnbondingDelegations app))
       (forEach (\<lambda>ubd. panics (SetUnbondingDelegation app
          (ubd\<lparr>UbdEntries := map (\<lambda>en. en\<lparr>CreationHeight := 0\<rparr>) (UbdEntries ubd)\<rparr>))))"

text \<open>The new value of a validator: \<open>allowedAddrsMap\<close> holds the addresses of the list, and is applied
  when the list is not empty.\<close>

definition resetValidator :: "string list \<Rightarrow> string \<Rightarrow> validator \<Rightarrow> validator" where
  "resetValidator jailAllowedAddrs valAddr val =
     (let val' = val\<lparr>UnbondingHeight := 0\<rparr> in
      if jailAllowedAddrs \<noteq> [] \<and> valAddr \<notin> set jailAllowedAddrs then val'\<lparr>Jailed := True\<rparr> else val')"

definition resetStoredValidator ::
    "('s, 'e) exportKeepers \<Rightarrow> string list \<Rightarrow> string \<Rightarrow> ('s sdkContext, unit) act" where
  "resetStoredValidator app jailAllowedAddrs addr =
     bindA (readA (\<lambda>_. Panicked ''expected validator, not found'') (GetValidator app addr)) (\<lambda>val.
     bindA (orElse Panicked (StakingValidatorToString app addr)) (\<lambda>valAddr.
       panics (KeeperSetValidator app (resetValidator jailAllowedAddrs valAddr val))))"

definition resetValidators ::
    "('s, 'e) exportKeepers \<Rightarrow> string list \<Rightarrow> ('s sdkContext, unit) act" where
  "resetValidators app jailAllowedAddrs =
     bindA (\<lambda>ctx. ret (ReverseValidatorKeys app ctx) ctx)
       (forEach (\<lambda>key. resetStoredValidator app jailAllowedAddrs (AddressFromValidatorsKey app key)))"

definition resetSigningInfos :: "('s, 'e) exportKeepers \<Rightarrow> ('s sdkContext, unit) act" where
  "resetSigningInfos app =
     bindA (readA Panicked (SigningInfos app))
       (forEach (\<lambda>(addr, info).
          ignores (SetValidatorSigningInfo app addr (info\<lparr>StartHeight := 0\<rparr>))))"

text \<open>A failure to close the iterator is logged and ends the preparation.\<close>

definition finishStaking :: "('s, 'e) exportKeepers \<Rightarrow> ('s sdkContext, unit) act" where
  "finishStaking app = (\<lambda>ctx. case IteratorClose app ctx of
      Some _ \<Rightarrow> ret () ctx
    | None \<Rightarrow> seqA (panics (ApplyValidatorSetUpdates app)) (resetSigningInfos app) ctx)"

definition prepForZeroHeightGenesis ::
    "('s, 'e) exportKeepers \<Rightarrow> string list \<Rightarrow> ('s sdkContext, unit) act" where
  "prepForZeroHeightGenesis app jailAllowedAddrs =
     seqA (checkAllowedAddrs app jailAllowedAddrs)
    (seqA (withdrawCommissions app)
    (bindA (readA Panicked (GetAllDelegations app)) (\<lambda>dels.
     seqA (withdrawRewards app dels)
    (seqA (clears (DeleteAllValidatorSlashEvents app))
    (seqA (clears (DeleteAllValidatorHistoricalRewards app))
    (bindA (\<lambda>ctx. ret (BlockHeight ctx) ctx) (\<lambda>height.
     seqA (updateA (WithBlockHeight 0))
    (seqA (reinitValidators app)
    (seqA (reinitDelegations app dels)
    (seqA (updateA (WithBlockHeight height))
    (seqA (resetRedelegations app)
    (seqA (resetUnbondings app)
    (seqA (resetValidators app jailAllowedAddrs)
          (finishStaking app))))))))))))))"

subsection \<open>Export\<close>

record exportedApp =
  AppState :: string
  ExportedValidators :: "string list"
  Height :: i64
  ConsensusParams :: string

definition emptyExport :: exportedApp where
  "emptyExport = \<lparr>AppState = '''', ExportedValidators = [], Height = 0, ConsensusParams = ''''\<rparr>"

definition exportState ::
    "('s, 'e) exportKeepers \<Rightarrow> i64 \<Rightarrow> string list \<Rightarrow> 's sdkContext \<Rightarrow> exportedApp \<times> string option" where
  "exportState app height modulesToExport ctx =
     (case ExportGenesisForModules app modulesToExport ctx of
        Inl e \<Rightarrow> (emptyExport, Some e)
      | Inr genState \<Rightarrow> (case MarshalIndent app genState of
        Inl e \<Rightarrow> (emptyExport, Some e)
      | Inr appState \<Rightarrow> (let (validators, err) = WriteValidators app ctx in
          (\<lparr>AppState = appState, ExportedValidators = validators, Height = height,
            ConsensusParams = GetConsensusParams app ctx\<rparr>, err))))"

text \<open>The store and the last block height are the application's; the store is returned as it is left.\<close>

definition ExportAppStateAndValidators ::
    "('s, 'e) exportKeepers \<Rightarrow> i64 \<Rightarrow> bool \<Rightarrow> string list \<Rightarrow> string list
      \<Rightarrow> 's \<Rightarrow> 's sdkContext \<times> (failure + exportedApp \<times> string option)" where
  "ExportAppStateAndValidators app lastHeight forZeroHeight jailAllowedAddrs modulesToExport store =
     (let ctx = \<lparr>BlockHeight = lastHeight, ctxStore = store\<rparr>;
          height = (if forZeroHeight then 0 else lastHeight + 1)
      in bindA (if forZeroHeight then prepForZeroHeightGenesis app jailAllowedAddrs else ret ())
           (\<lambda>_ ctx'. ret (exportState app height modulesToExport ctx') ctx') ctx)"

subsection \<open>The reset of the validators\<close>

text \<open>
  What the loop relies on of the staking keeper: a validator is stored under the address that its
  operator address decodes to, and a stored validator is read back, with the others unchanged.
\<close>

definition validatorsByOperator :: "('s, 'e) exportKeepers \<Rightarrow> bool" where
  "validatorsByOperator app \<longleftrightarrow> (\<forall>addr ctx val. GetValidator app addr ctx = Inr val \<longrightarrow>
     StakingValidatorToBytes app (OperatorAddress val) = Inr addr)"

definition validatorsReadBack :: "('s, 'e) exportKeepers \<Rightarrow> bool" where
  "validatorsReadBack app \<longleftrightarrow> (\<forall>val addr ctx s a. KeeperSetValidator app val ctx = (s, None) \<longrightarrow>
     StakingValidatorToBytes app (OperatorAddress val) = Inr addr \<longrightarrow>
     GetValidator app a (ctx\<lparr>ctxStore := s\<rparr>) = (if a = addr then Inr val else GetValidator app a ctx))"

lemma resetValidator_eq:
  "resetValidator allowed name val =
     val\<lparr>UnbondingHeight := 0, Jailed := Jailed val \<or> allowed \<noteq> [] \<and> name \<notin> set allowed\<rparr>"
  by (cases val) (simp add: resetValidator_def Let_def)

lemma resetValidator_operator [simp]: "OperatorAddress (resetValidator allowed name val) = OperatorAddress val"
  by (simp add: resetValidator_def Let_def)

lemma resetValidator_idem [simp]:
  "resetValidator allowed name (resetValidator allowed name val) = resetValidator allowed name val"
  by (simp add: resetValidator_def Let_def)

text \<open>The value of a stored validator after it has been visited.\<close>

definition visited :: "('s, 'e) exportKeepers \<Rightarrow> string list \<Rightarrow> string \<Rightarrow> validator \<Rightarrow> validator" where
  "visited app allowed addr = resetValidator allowed (projr (StakingValidatorToString app addr))"

lemma visited_idem [simp]: "visited app allowed addr (visited app allowed addr val) = visited app allowed addr val"
  by (simp add: visited_def)

lemma resetStoredValidator_step:
  assumes "validatorsByOperator app" and "validatorsReadBack app"
    and run: "resetStoredValidator app allowed addr ctx = (ctx', Inr ())"
  shows "\<exists>val name. GetValidator app addr ctx = Inr val \<and> StakingValidatorToString app addr = Inr name \<and>
    (\<forall>a. GetValidator app a ctx' =
       (if a = addr then Inr (visited app allowed addr val) else GetValidator app a ctx))"
proof -
  obtain val name s where get: "GetValidator app addr ctx = Inr val"
    and name: "StakingValidatorToString app addr = Inr name"
    and set: "KeeperSetValidator app (resetValidator allowed name val) ctx = (s, None)"
    and ctx': "ctx' = ctx\<lparr>ctxStore := s\<rparr>"
    using run by (auto simp: resetStoredValidator_def action_defs within_def Let_def
        split: sum.splits prod.splits option.splits)
  have "StakingValidatorToBytes app (OperatorAddress (resetValidator allowed name val)) = Inr addr"
    using assms(1) get by (simp add: validatorsByOperator_def)
  then show ?thesis
    using assms(2) set by (simp add: validatorsReadBack_def ctx' visited_def name get)
qed

lemma resetValidators_loop:
  assumes "validatorsByOperator app" and "validatorsReadBack app"
    and "forEach (\<lambda>key. resetStoredValidator app allowed (f key)) keys ctx = (ctx', Inr ())"
  shows "GetValidator app a ctx' = (if a \<in> f ` set keys
           then map_sum id (visited app allowed a) (GetValidator app a ctx) else GetValidator app a ctx)
         \<and> (a \<in> f ` set keys \<longrightarrow>
              (\<exists>val name. GetValidator app a ctx = Inr val \<and> StakingValidatorToString app a = Inr name))"
  using assms(3)
proof (induction keys arbitrary: ctx)
  case Nil
  then show ?case by (simp add: ret_def)
next
  case (Cons key keys)
  then obtain ctx1 where
    head: "resetStoredValidator app allowed (f key) ctx = (ctx1, Inr ())"
    and tail: "forEach (\<lambda>key. resetStoredValidator app allowed (f key)) keys ctx1 = (ctx', Inr ())"
    by (auto simp: bindA_def split: prod.splits sum.splits)
  obtain val name where step: "GetValidator app (f key) ctx = Inr val"
      "StakingValidatorToString app (f key) = Inr name"
      "\<forall>a. GetValidator app a ctx1 =
         (if a = f key then Inr (visited app allowed (f key) val) else GetValidator app a ctx)"
    using resetStoredValidator_step [OF assms(1,2) head] by auto
  show ?case
  proof (cases "a = f key")
    case True
    with step Cons.IH [OF tail] show ?thesis by (cases "f key \<in> f ` set keys") simp_all
  next
    case False
    with step Cons.IH [OF tail] show ?thesis by (cases "a \<in> f ` set keys") simp_all
  qed
qed

text \<open>
  The loop sets the unbonding height of every visited validator to zero.  This is a fact of the loop
  only: the update of the validator set that follows gives a validator that leaves the set a new one.
\<close>

lemma resetValidators_result:
  assumes "validatorsByOperator app" and "validatorsReadBack app"
    and run: "resetValidators app allowed ctx = (ctx', Inr ())"
  shows "(addr \<in> AddressFromValidatorsKey app ` set (ReverseValidatorKeys app ctx) \<longrightarrow>
           (\<exists>val name. GetValidator app addr ctx = Inr val \<and> StakingValidatorToString app addr = Inr name \<and>
             GetValidator app addr ctx' = Inr (val\<lparr>UnbondingHeight := 0,
               Jailed := Jailed val \<or> allowed \<noteq> [] \<and> name \<notin> set allowed\<rparr>)))
         \<and> (addr \<notin> AddressFromValidatorsKey app ` set (ReverseValidatorKeys app ctx) \<longrightarrow>
           GetValidator app addr ctx' = GetValidator app addr ctx)"
proof -
  have "forEach (\<lambda>key. resetStoredValidator app allowed (AddressFromValidatorsKey app key))
          (ReverseValidatorKeys app ctx) ctx = (ctx', Inr ())"
    using run by (simp add: resetValidators_def bindA_def ret_def)
  from resetValidators_loop [OF assms(1,2) this, of addr] show ?thesis
    by (auto simp: visited_def resetValidator_eq)
qed

subsection \<open>The other calls of the preparation\<close>

text \<open>
  What the preparation relies on of the other calls of the SDK.  The calls of the distribution module
  and of its hooks, and the setters of redelegations, unbonding delegations and signing infos, leave
  the stored validators as they are, also when they return an error; the validators are read from the
  store, whatever the height of the context; and the update of the validator set bonds and unbonds
  validators, but neither adds, removes, jails nor unjails one.
\<close>

definition sameValidators :: "('s, 'e) exportKeepers \<Rightarrow> 's sdkContext \<Rightarrow> 's sdkContext \<Rightarrow> bool" where
  "sameValidators app ctx ctx' \<longleftrightarrow> (\<forall>a. GetValidator app a ctx' = GetValidator app a ctx) \<and>
     ReverseValidatorKeys app ctx' = ReverseValidatorKeys app ctx"

definition leavesValidators ::
    "('s, 'e) exportKeepers \<Rightarrow> ('s sdkContext \<Rightarrow> 's \<times> string option) \<Rightarrow> bool" where
  "leavesValidators app f \<longleftrightarrow> (\<forall>ctx. sameValidators app ctx (ctx\<lparr>ctxStore := fst (f ctx)\<rparr>))"

definition validatorsOfStore :: "('s, 'e) exportKeepers \<Rightarrow> bool" where
  "validatorsOfStore app \<longleftrightarrow> (\<forall>ctx h. sameValidators app ctx (ctx\<lparr>BlockHeight := h\<rparr>))"

definition otherCallsLeaveValidators :: "('s, 'e) exportKeepers \<Rightarrow> bool" where
  "otherCallsLeaveValidators app \<longleftrightarrow>
     (\<forall>v. leavesValidators app (WithdrawValidatorCommission app v)) \<and>
     (\<forall>d v. leavesValidators app (WithdrawDelegationRewards app d v)) \<and>
     leavesValidators app (\<lambda>ctx. (DeleteAllValidatorSlashEvents app ctx, None)) \<and>
     leavesValidators app (\<lambda>ctx. (DeleteAllValidatorHistoricalRewards app ctx, None)) \<and>
     (\<forall>pool. leavesValidators app (FeePoolSet app pool)) \<and>
     (\<forall>v. leavesValidators app (HookAfterValidatorCreated app v)) \<and>
     (\<forall>d v. leavesValidators app (BeforeDelegationCreated app d v)) \<and>
     (\<forall>d v. leavesValidators app (AfterDelegationModified app d v)) \<and>
     (\<forall>red. leavesValidators app (SetRedelegation app red)) \<and>
     (\<forall>ubd. leavesValidators app (SetUnbondingDelegation app ubd)) \<and>
     (\<forall>addr info. leavesValidators app (SetValidatorSigningInfo app addr info))"

text \<open>Whether a validator is stored under an address, and jailed.\<close>

definition jailedAt :: "('s, 'e) exportKeepers \<Rightarrow> 's sdkContext \<Rightarrow> string \<Rightarrow> bool option" where
  "jailedAt app ctx addr = (case GetValidator app addr ctx of Inl _ \<Rightarrow> None | Inr val \<Rightarrow> Some (Jailed val))"

definition setUpdatesKeepJailed :: "('s, 'e) exportKeepers \<Rightarrow> bool" where
  "setUpdatesKeepJailed app \<longleftrightarrow> (\<forall>ctx s addr. ApplyValidatorSetUpdates app ctx = (s, None) \<longrightarrow>
     jailedAt app (ctx\<lparr>ctxStore := s\<rparr>) addr = jailedAt app ctx addr)"

lemma sameValidators_refl [simp]: "sameValidators app ctx ctx"
  by (simp add: sameValidators_def)

lemma sameValidators_trans: "\<lbrakk>sameValidators app a b; sameValidators app b c\<rbrakk> \<Longrightarrow> sameValidators app a c"
  by (simp add: sameValidators_def)

lemma sameValidators_jailed: "sameValidators app ctx ctx' \<Longrightarrow> jailedAt app ctx' = jailedAt app ctx"
  by (auto simp: sameValidators_def jailedAt_def)

lemma leavesValidatorsD:
  "\<lbrakk>leavesValidators app f; sameValidators app c ctx; f ctx = (s, e)\<rbrakk>
    \<Longrightarrow> sameValidators app c (ctx\<lparr>ctxStore := s\<rparr>)"
  by (metis leavesValidators_def fst_conv sameValidators_trans)

lemma resetValidators_jailed:
  assumes "validatorsByOperator app" and "validatorsReadBack app"
    and run: "resetValidators app allowed ctx = (ctx', Inr ())"
  shows "addr \<in> AddressFromValidatorsKey app ` set (ReverseValidatorKeys app ctx) \<Longrightarrow>
          \<exists>jailed name. jailedAt app ctx addr = Some jailed \<and> StakingValidatorToString app addr = Inr name \<and>
            jailedAt app ctx' addr = Some (jailed \<or> allowed \<noteq> [] \<and> name \<notin> set allowed)"
    and "addr \<notin> AddressFromValidatorsKey app ` set (ReverseValidatorKeys app ctx) \<Longrightarrow>
          jailedAt app ctx' addr = jailedAt app ctx addr"
proof -
  note result = resetValidators_result [OF assms, of addr]
  show "\<exists>jailed name. jailedAt app ctx addr = Some jailed \<and> StakingValidatorToString app addr = Inr name \<and>
          jailedAt app ctx' addr = Some (jailed \<or> allowed \<noteq> [] \<and> name \<notin> set allowed)"
    if visited: "addr \<in> AddressFromValidatorsKey app ` set (ReverseValidatorKeys app ctx)"
  proof -
    obtain val name where "GetValidator app addr ctx = Inr val"
      and "StakingValidatorToString app addr = Inr name"
      and "GetValidator app addr ctx' = Inr (val\<lparr>UnbondingHeight := 0,
             Jailed := Jailed val \<or> allowed \<noteq> [] \<and> name \<notin> set allowed\<rparr>)"
      using result visited by blast
    then show ?thesis
      by (simp add: jailedAt_def)
  qed
  show "jailedAt app ctx' addr = jailedAt app ctx addr"
    if "addr \<notin> AddressFromValidatorsKey app ` set (ReverseValidatorKeys app ctx)"
    using result that by (simp add: jailedAt_def)
qed

text \<open>The rules that carry the validators through the calls.\<close>

named_theorems validator_frames \<open>actions that leave the stored validators as they are\<close>

lemma frame_panics [validator_frames]:
  "leavesValidators app f \<Longrightarrow> ensures (sameValidators app c) (callE k (within f)) (\<lambda>_. sameValidators app c)"
  by (rule ensures_callE) (auto simp: within_def split: prod.splits dest: leavesValidatorsD)

lemma frame_ignores [validator_frames]:
  "leavesValidators app f \<Longrightarrow> ensures (sameValidators app c) (ignores f) (\<lambda>_. sameValidators app c)"
  by (rule ensures_ignoreE) (auto simp: within_def split: prod.splits dest: leavesValidatorsD)

lemma frame_clears [validator_frames]:
  "leavesValidators app (\<lambda>ctx. (f ctx, None))
    \<Longrightarrow> ensures (sameValidators app c) (clears f) (\<lambda>_. sameValidators app c)"
  by (rule ensures_updateA) (auto dest: leavesValidatorsD)

lemma frame_height [validator_frames]:
  "validatorsOfStore app
    \<Longrightarrow> ensures (sameValidators app c) (updateA (WithBlockHeight h)) (\<lambda>_. sameValidators app c)"
  by (rule ensures_updateA)
    (auto simp: WithBlockHeight_def validatorsOfStore_def intro: sameValidators_trans)

lemma frame_forEach [validator_frames]:
  "(\<And>x. ensures (sameValidators app c) (f x) (\<lambda>_. sameValidators app c))
    \<Longrightarrow> ensures (sameValidators app c) (forEach f xs) (\<lambda>_. sameValidators app c)"
  by (rule ensures_forEach)

lemma frame_bind [validator_frames]:
  "\<lbrakk>ensures (sameValidators app c) m (\<lambda>_. sameValidators app c);
    \<And>x. ensures (sameValidators app c) (f x) (\<lambda>_. sameValidators app c)\<rbrakk>
    \<Longrightarrow> ensures (sameValidators app c) (bindA m f) (\<lambda>_. sameValidators app c)"
  by (rule ensures_bindA)

lemma frame_pure [validator_frames]:
  "ensures (sameValidators app c) (ret x) (\<lambda>_. sameValidators app c)"
  "ensures (sameValidators app c) (orElse k r) (\<lambda>_. sameValidators app c)"
  "ensures (sameValidators app c) (readA k g) (\<lambda>_. sameValidators app c)"
  "ensures (sameValidators app c) (\<lambda>ctx. ret (h ctx) ctx) (\<lambda>_. sameValidators app c)"
  by (auto simp: ensures_def action_defs split: sum.splits)

lemma frame_addrs [validator_frames]:
  "(\<And>d v. ensures (sameValidators app c) (f d v) (\<lambda>_. sameValidators app c))
    \<Longrightarrow> ensures (sameValidators app c) (case p of (d, v) \<Rightarrow> f d v) (\<lambda>_. sameValidators app c)"
  by (cases p) simp

lemmas otherCallsD = otherCallsLeaveValidators_def [THEN iffD1]

lemma frame_parts:
  assumes "otherCallsLeaveValidators app"
  shows "ensures (sameValidators app c) (checkAllowedAddrs app allowed) (\<lambda>_. sameValidators app c)"
    and "ensures (sameValidators app c) (withdrawCommissions app) (\<lambda>_. sameValidators app c)"
    and "ensures (sameValidators app c) (withdrawRewards app dels) (\<lambda>_. sameValidators app c)"
    and "ensures (sameValidators app c) (reinitValidators app) (\<lambda>_. sameValidators app c)"
    and "ensures (sameValidators app c) (reinitDelegations app dels) (\<lambda>_. sameValidators app c)"
    and "ensures (sameValidators app c) (resetRedelegations app) (\<lambda>_. sameValidators app c)"
    and "ensures (sameValidators app c) (resetUnbondings app) (\<lambda>_. sameValidators app c)"
    and "ensures (sameValidators app c) (resetSigningInfos app) (\<lambda>_. sameValidators app c)"
  using otherCallsD [OF assms]
  unfolding checkAllowedAddrs_def withdrawCommissions_def withdrawRewards_def reinitValidators_def
    reinitDelegations_def resetRedelegations_def resetUnbondings_def resetSigningInfos_def delegationAddrs_def
  by (auto intro!: validator_frames)

text \<open>The preparation up to the reset of the validators.\<close>

definition prepBeforeStaking ::
    "('s, 'e) exportKeepers \<Rightarrow> string list \<Rightarrow> ('s sdkContext, unit) act" where
  "prepBeforeStaking app jailAllowedAddrs =
     seqA (checkAllowedAddrs app jailAllowedAddrs)
    (seqA (withdrawCommissions app)
    (bindA (readA Panicked (GetAllDelegations app)) (\<lambda>dels.
     seqA (withdrawRewards app dels)
    (seqA (clears (DeleteAllValidatorSlashEvents app))
    (seqA (clears (DeleteAllValidatorHistoricalRewards app))
    (bindA (\<lambda>ctx. ret (BlockHeight ctx) ctx) (\<lambda>height.
     seqA (updateA (WithBlockHeight 0))
    (seqA (reinitValidators app)
    (seqA (reinitDelegations app dels)
    (seqA (updateA (WithBlockHeight height))
    (seqA (resetRedelegations app)
          (resetUnbondings app))))))))))))"

lemma bindA_assoc: "bindA (bindA m f) g = bindA m (\<lambda>x. bindA (f x) g)"
  by (auto simp: bindA_def fun_eq_iff split: prod.splits sum.splits)

lemma prep_split: "prepForZeroHeightGenesis app allowed =
    seqA (prepBeforeStaking app allowed) (seqA (resetValidators app allowed) (finishStaking app))"
  by (simp add: prepForZeroHeightGenesis_def prepBeforeStaking_def bindA_assoc)

lemma frame_prepBeforeStaking:
  assumes "otherCallsLeaveValidators app" and "validatorsOfStore app"
  shows "ensures (sameValidators app c) (prepBeforeStaking app allowed) (\<lambda>_. sameValidators app c)"
  using otherCallsD [OF assms(1)] assms(2) frame_parts [OF assms(1)]
  unfolding prepBeforeStaking_def by (auto intro!: validator_frames)

lemma seqA_done: "seqA m n s = (s', Inr x) \<Longrightarrow> \<exists>t y. m s = (t, Inr y) \<and> n t = (s', Inr x)"
  by (auto simp: bindA_def split: prod.splits sum.splits)

lemma finishStaking_jailed:
  assumes "otherCallsLeaveValidators app" and "setUpdatesKeepJailed app"
    and run: "finishStaking app ctx = (ctx', Inr ())"
  shows "jailedAt app ctx' = jailedAt app ctx"
proof (cases "IteratorClose app ctx")
  case None
  then obtain s where "ApplyValidatorSetUpdates app ctx = (s, None)"
    and "resetSigningInfos app (ctx\<lparr>ctxStore := s\<rparr>) = (ctx', Inr ())"
    using run by (auto simp: finishStaking_def bindA_def callE_def within_def split: prod.splits sum.splits option.splits)
  then show ?thesis
    using assms(2) ensuresD [OF frame_parts(8) [OF assms(1)] sameValidators_refl, THEN sameValidators_jailed]
    by (force simp: setUpdatesKeepJailed_def)
qed (use run in \<open>simp add: finishStaking_def ret_def\<close>)

text \<open>
  C35. An export at height zero jails the unlisted validators and no other: when it returns, every
  validator that was stored is still stored, and is jailed exactly if it was jailed before or a non-empty
  list of allowed addresses does not name it; at every other address nothing appears, disappears or is
  jailed, and the exported height is zero.  This is of the whole export, the withdrawals, the
  distribution hooks and the update of the validator set included.
\<close>

theorem zero_height_jails_unlisted:
  fixes app :: "('s, 'e) exportKeepers" and lastHeight :: i64 and store :: 's
  defines "ctx \<equiv> \<lparr>BlockHeight = lastHeight, ctxStore = store\<rparr>"
  assumes "validatorsByOperator app" and "validatorsReadBack app" and "validatorsOfStore app"
    and "otherCallsLeaveValidators app" and "setUpdatesKeepJailed app"
    and run: "ExportAppStateAndValidators app lastHeight True allowed modules store
                = (ctx', Inr (exported, None))"
  shows "(addr \<in> AddressFromValidatorsKey app ` set (ReverseValidatorKeys app ctx) \<longrightarrow>
           (\<exists>jailed name. jailedAt app ctx addr = Some jailed \<and> StakingValidatorToString app addr = Inr name \<and>
             jailedAt app ctx' addr = Some (jailed \<or> allowed \<noteq> [] \<and> name \<notin> set allowed)))
         \<and> (addr \<notin> AddressFromValidatorsKey app ` set (ReverseValidatorKeys app ctx) \<longrightarrow>
           jailedAt app ctx' addr = jailedAt app ctx addr)
         \<and> Height exported = 0"
proof -
  have prep: "prepForZeroHeightGenesis app allowed ctx = (ctx', Inr ())"
    and state: "exportState app 0 modules ctx' = (exported, None)"
    using run by (auto simp: ExportAppStateAndValidators_def ctx_def bindA_def ret_def Let_def
        split: prod.splits sum.splits)
  obtain ctx1 ctx2 where before: "prepBeforeStaking app allowed ctx = (ctx1, Inr ())"
    and reset: "resetValidators app allowed ctx1 = (ctx2, Inr ())"
    and finish: "finishStaking app ctx2 = (ctx', Inr ())"
    using prep unfolding prep_split by (fastforce dest!: seqA_done)
  have same: "sameValidators app ctx ctx1"
    using ensuresD [OF frame_prepBeforeStaking [OF assms(5,4)] sameValidators_refl before] .
  have "jailedAt app ctx' = jailedAt app ctx2"
    by (rule finishStaking_jailed [OF assms(5,6) finish])
  moreover have "Height exported = 0"
    using state by (auto simp: exportState_def Let_def split: sum.splits prod.splits)
  ultimately show ?thesis
    using resetValidators_jailed [OF assms(2,3) reset, of addr] same sameValidators_jailed [OF same]
    by (simp add: sameValidators_def)
qed

text \<open>A staking store that is the list of its validators, with identical addresses and names.\<close>

definition sampleKeepers :: "(validator list, unit) exportKeepers" where
  "sampleKeepers =
     \<lparr>SigningValidatorToBytes = Inr, SigningAccountToBytes = Inr, StakingValidatorToBytes = Inr,
      StakingValidatorToString = Inr, Validators = (\<lambda>ctx. Inr (ctxStore ctx)),
      WithdrawValidatorCommission = (\<lambda>_ ctx. (ctxStore ctx, None)), GetAllDelegations = (\<lambda>_. Inr []),
      WithdrawDelegationRewards = (\<lambda>_ _ ctx. (ctxStore ctx, None)),
      DeleteAllValidatorSlashEvents = ctxStore, DeleteAllValidatorHistoricalRewards = ctxStore,
      GetValidatorOutstandingRewardsCoins = (\<lambda>_ _. Inr []), FeePoolGet = (\<lambda>_. Inr []),
      FeePoolSet = (\<lambda>_ ctx. (ctxStore ctx, None)), DecCoinsAdd = (@),
      HookAfterValidatorCreated = (\<lambda>_ ctx. (ctxStore ctx, None)),
      BeforeDelegationCreated = (\<lambda>_ _ ctx. (ctxStore ctx, None)),
      AfterDelegationModified = (\<lambda>_ _ ctx. (ctxStore ctx, None)),
      Redelegations = (\<lambda>_. Inr []), SetRedelegation = (\<lambda>_ ctx. (ctxStore ctx, None)),
      UnbondingDelegations = (\<lambda>_. Inr []), SetUnbondingDelegation = (\<lambda>_ ctx. (ctxStore ctx, None)),
      ReverseValidatorKeys = (\<lambda>ctx. map OperatorAddress (ctxStore ctx)), AddressFromValidatorsKey = id,
      GetValidator = (\<lambda>addr ctx. case find (\<lambda>v. OperatorAddress v = addr) (ctxStore ctx) of
         None \<Rightarrow> Inl ''validator does not exist'' | Some v \<Rightarrow> Inr v),
      KeeperSetValidator = (\<lambda>v ctx. (v # filter (\<lambda>w. OperatorAddress w \<noteq> OperatorAddress v) (ctxStore ctx), None)),
      IteratorClose = (\<lambda>_. None), ApplyValidatorSetUpdates = (\<lambda>ctx. (ctxStore ctx, None)),
      SigningInfos = (\<lambda>_. Inr []), SetValidatorSigningInfo = (\<lambda>_ _ ctx. (ctxStore ctx, None)),
      ExportGenesisForModules = (\<lambda>_ _. Inr ''{}''), MarshalIndent = Inr,
      WriteValidators = (\<lambda>ctx. (map OperatorAddress (ctxStore ctx), None)),
      GetConsensusParams = (\<lambda>_. '''')\<rparr>"

definition sampleStaked :: "string \<Rightarrow> validator" where
  "sampleStaked addr =
     \<lparr>OperatorAddress = addr, ConsensusPubkey = '''', Jailed = False, Status = Bonded, Tokens = 1,
      DelegatorShares = 10 ^ 18, Moniker = '''', UnbondingHeight = 7, Rate = 0, MaxRate = 0,
      MaxChangeRate = 0, MinSelfDelegation = 1\<rparr>"

lemma sampleKeepers_laws: "validatorsByOperator sampleKeepers" "validatorsReadBack sampleKeepers"
proof -
  show "validatorsByOperator sampleKeepers"
    by (auto simp: validatorsByOperator_def sampleKeepers_def find_Some_iff split: option.splits)
  have "find (\<lambda>v. OperatorAddress v = a) (filter (\<lambda>w. OperatorAddress w \<noteq> b) vs) =
        find (\<lambda>v. OperatorAddress v = a) vs" if "a \<noteq> b" for a b and vs :: "validator list"
    using that by (induction vs) auto
  then show "validatorsReadBack sampleKeepers"
    by (auto simp: validatorsReadBack_def sampleKeepers_def split: option.splits)
qed

lemma sampleKeepers_frames: "validatorsOfStore sampleKeepers" "otherCallsLeaveValidators sampleKeepers"
    "setUpdatesKeepJailed sampleKeepers"
  by (auto simp: validatorsOfStore_def otherCallsLeaveValidators_def leavesValidators_def sameValidators_def
      setUpdatesKeepJailed_def sampleKeepers_def)

lemma sampleExport: "\<exists>ctx' exported. ExportAppStateAndValidators sampleKeepers 9 True [''alice''] []
    [sampleStaked ''alice'', sampleStaked ''bob''] = (ctx', Inr (exported, None))"
  by (simp add: ExportAppStateAndValidators_def prepForZeroHeightGenesis_def exportState_def
      checkAllowedAddrs_def withdrawCommissions_def withdrawRewards_def reinitValidators_def
      reinitDelegations_def resetRedelegations_def resetUnbondings_def resetValidators_def
      resetStoredValidator_def finishStaking_def resetSigningInfos_def sampleKeepers_def sampleStaked_def
      WithBlockHeight_def action_defs within_def Let_def)

theorem zero_height_jails_unlisted_witness:
  "\<exists>ctx' exported. ExportAppStateAndValidators sampleKeepers 9 True [''alice''] []
       [sampleStaked ''alice'', sampleStaked ''bob''] = (ctx', Inr (exported, None))
     \<and> jailedAt sampleKeepers ctx' ''bob'' = Some True \<and> jailedAt sampleKeepers ctx' ''alice'' = Some False
     \<and> jailedAt sampleKeepers ctx' ''carol'' = None"
proof -
  obtain ctx' exported where run: "ExportAppStateAndValidators sampleKeepers 9 True [''alice''] []
      [sampleStaked ''alice'', sampleStaked ''bob''] = (ctx', Inr (exported, None))"
    using sampleExport by blast
  note applied = zero_height_jails_unlisted [OF sampleKeepers_laws sampleKeepers_frames run]
  show ?thesis
    using applied [of "''alice''"] applied [of "''bob''"] applied [of "''carol''"] run
    by (auto simp: jailedAt_def sampleKeepers_def sampleStaked_def)
qed

end
