(* ===== verification/App_Config.thy ===== *)
theory App_Config
  imports GoLib
begin

text \<open>
  The application configuration (\<open>app/app_config.go\<close>, \<open>app/config.go\<close>, \<open>GetMaccPerms\<close> and
  \<open>BlockedAddresses\<close> of \<open>app/app.go\<close>): the modules of the chain with their configuration, the order
  in which their hooks run, the permissions of the module accounts and the accounts that may not receive
  funds.  The names that the SDK declares are the constructors of a type; its distinct names are
  different.
\<close>

subsection \<open>Names and configurations\<close>

datatype sdkName =
    runtime_ModuleName | auth_ModuleName | vesting_ModuleName | bank_ModuleName | staking_ModuleName
  | slashing_ModuleName | tx_Name | genutil_ModuleName | authz_ModuleName | upgrade_ModuleName
  | distr_ModuleName | evidence_ModuleName | mint_ModuleName | group_ModuleName | nft_ModuleName
  | feegrant_ModuleName | gov_ModuleName | consensus_ModuleName | circuit_ModuleName
  | params_ModuleName | epochs_ModuleName | ibc_ModuleName | ibctransfer_ModuleName | ica_ModuleName
  | icahost_SubModuleName | icacontroller_SubModuleName | ibctm_ModuleName | solomachine_ModuleName
  | wolochain_ModuleName | FeeCollectorName | BondedPoolName | NotBondedPoolName | Minter | Burner

record runtimeModule =
  AppName :: string
  PreBlockers :: "sdkName list"
  BeginBlockers :: "sdkName list"
  EndBlockers :: "sdkName list"
  OverrideStoreKeys :: "(sdkName \<times> string) list"
  InitGenesis :: "sdkName list"

record authModule =
  Bech32Prefix :: string
  ModuleAccountPermissions :: "(sdkName \<times> sdkName list) list"
  EnableUnorderedTransactions :: bool

record groupModule =
  MaxExecutionPeriod :: int
  MaxMetadataLen :: int

datatype moduleConfig =
    RuntimeConfig runtimeModule
  | AuthConfig authModule
  | BankConfig "sdkName list"
  | GroupConfig groupModule
  | PlainConfig

definition AccountAddressPrefix :: string where
  "AccountAddressPrefix = ''wolo''"

definition ApplicationName :: string where
  "ApplicationName = ''WoloChain''"

definition moduleAccPerms :: "(sdkName \<times> sdkName list) list" where
  "moduleAccPerms =
     [(FeeCollectorName, []), (distr_ModuleName, []), (mint_ModuleName, [Minter]),
      (BondedPoolName, [Burner, staking_ModuleName]), (NotBondedPoolName, [Burner, staking_ModuleName]),
      (gov_ModuleName, [Burner]), (nft_ModuleName, []), (ibctransfer_ModuleName, [Minter, Burner]),
      (ica_ModuleName, [])]"

definition blockAccAddrs :: "sdkName list" where
  "blockAccAddrs = [FeeCollectorName, distr_ModuleName, mint_ModuleName, BondedPoolName,
                    NotBondedPoolName, nft_ModuleName]"

definition runtimeConfig :: runtimeModule where
  "runtimeConfig =
     \<lparr>AppName = ApplicationName,
      PreBlockers = [upgrade_ModuleName, auth_ModuleName],
      BeginBlockers = [mint_ModuleName, distr_ModuleName, slashing_ModuleName, evidence_ModuleName,
        staking_ModuleName, authz_ModuleName, epochs_ModuleName, ibc_ModuleName],
      EndBlockers = [gov_ModuleName, staking_ModuleName, feegrant_ModuleName, group_ModuleName],
      OverrideStoreKeys = [(auth_ModuleName, ''acc'')],
      InitGenesis = [consensus_ModuleName, auth_ModuleName, bank_ModuleName, distr_ModuleName,
        staking_ModuleName, slashing_ModuleName, gov_ModuleName, mint_ModuleName, genutil_ModuleName,
        evidence_ModuleName, authz_ModuleName, feegrant_ModuleName, vesting_ModuleName, nft_ModuleName,
        group_ModuleName, upgrade_ModuleName, circuit_ModuleName, epochs_ModuleName, ibc_ModuleName,
        ibctransfer_ModuleName, ica_ModuleName]\<rparr>"

definition appConfigModules :: "(sdkName \<times> moduleConfig) list" where
  "appConfigModules =
     [(runtime_ModuleName, RuntimeConfig runtimeConfig),
      (auth_ModuleName, AuthConfig \<lparr>Bech32Prefix = AccountAddressPrefix,
         ModuleAccountPermissions = moduleAccPerms, EnableUnorderedTransactions = True\<rparr>),
      (vesting_ModuleName, PlainConfig),
      (bank_ModuleName, BankConfig blockAccAddrs),
      (staking_ModuleName, PlainConfig), (slashing_ModuleName, PlainConfig), (tx_Name, PlainConfig),
      (genutil_ModuleName, PlainConfig), (authz_ModuleName, PlainConfig),
      (upgrade_ModuleName, PlainConfig), (distr_ModuleName, PlainConfig),
      (evidence_ModuleName, PlainConfig), (mint_ModuleName, PlainConfig),
      (group_ModuleName, GroupConfig \<lparr>MaxExecutionPeriod = 1209600, MaxMetadataLen = 255\<rparr>),
      (nft_ModuleName, PlainConfig), (feegrant_ModuleName, PlainConfig), (gov_ModuleName, PlainConfig),
      (consensus_ModuleName, PlainConfig), (circuit_ModuleName, PlainConfig),
      (params_ModuleName, PlainConfig), (epochs_ModuleName, PlainConfig)]"

text \<open>The address prefixes that \<open>init\<close> of \<open>app/config.go\<close> sets: account, validator and consensus node,
  each with its public key prefix.\<close>

definition bech32Prefixes :: "(string \<times> string) list" where
  "bech32Prefixes =
     [(AccountAddressPrefix, AccountAddressPrefix @ ''pub''),
      (AccountAddressPrefix @ ''valoper'', AccountAddressPrefix @ ''valoperpub''),
      (AccountAddressPrefix @ ''valcons'', AccountAddressPrefix @ ''valconspub'')]"

subsection \<open>Module accounts\<close>

definition GetMaccPerms :: "sdkName \<rightharpoonup> sdkName list" where
  "GetMaccPerms = foldl (\<lambda>dup (account, permissions). dup(account \<mapsto> permissions)) Map.empty moduleAccPerms"

definition BlockedAddresses :: "sdkName \<rightharpoonup> bool" where
  "BlockedAddresses = (if blockAccAddrs \<noteq> []
     then foldl (\<lambda>result addr. result(addr \<mapsto> True)) Map.empty blockAccAddrs
     else (\<lambda>addr. if GetMaccPerms addr = None then None else Some True))"

subsection \<open>Properties of the configuration\<close>

text \<open>\<open>a\<close> stands before \<open>b\<close> in a list.\<close>

definition before :: "'a \<Rightarrow> 'a \<Rightarrow> 'a list \<Rightarrow> bool" where
  "before a b xs \<longleftrightarrow> b \<in> set xs \<and> a \<in> set (takeWhile (\<lambda>x. x \<noteq> b) xs)"

text \<open>The orders that the comments of the configuration ask for.\<close>

theorem module_orders:
  "hd (PreBlockers runtimeConfig) = upgrade_ModuleName"
  "before distr_ModuleName slashing_ModuleName (BeginBlockers runtimeConfig)"
  "staking_ModuleName \<in> set (BeginBlockers runtimeConfig)"
  "before staking_ModuleName genutil_ModuleName (InitGenesis runtimeConfig)"
  "before auth_ModuleName genutil_ModuleName (InitGenesis runtimeConfig)"
  by (simp_all add: runtimeConfig_def before_def)

lemma module_lists_distinct:
  "distinct (map fst appConfigModules)" "distinct (PreBlockers runtimeConfig)"
  "distinct (BeginBlockers runtimeConfig)" "distinct (EndBlockers runtimeConfig)"
  "distinct (InitGenesis runtimeConfig)" "distinct (map fst moduleAccPerms)"
  by (simp_all add: appConfigModules_def runtimeConfig_def moduleAccPerms_def)

text \<open>Every configured module with a genesis state is initialised at genesis; the runtime, the
  transaction configuration and the legacy parameters have none.\<close>

lemma configured_modules_initialised:
  "set (map fst appConfigModules) - {runtime_ModuleName, tx_Name, params_ModuleName}
     \<subseteq> set (InitGenesis runtimeConfig)"
  by (auto simp: appConfigModules_def runtimeConfig_def)

text \<open>
  The blocked module accounts are those with permissions other than the accounts of governance, of the
  token transfer and of interchain accounts; the comment beside the list names governance only.
\<close>

theorem unblocked_module_accounts:
  "{account. GetMaccPerms account \<noteq> None \<and> BlockedAddresses account \<noteq> Some True} =
     {gov_ModuleName, ibctransfer_ModuleName, ica_ModuleName}"
  by (auto simp: GetMaccPerms_def BlockedAddresses_def moduleAccPerms_def blockAccAddrs_def
      split: if_splits)

text \<open>Only the mint and the transfer module can create coins.\<close>

theorem minting_module_accounts:
  "{account. \<exists>permissions. GetMaccPerms account = Some permissions \<and> Minter \<in> set permissions} =
     {mint_ModuleName, ibctransfer_ModuleName}"
  by (auto simp: GetMaccPerms_def moduleAccPerms_def split: if_splits)

text \<open>The chain's own module is not among the configured modules and runs in no hook: the parameters of
  \<open>x/wolochain\<close> are not part of the chain's state.\<close>

theorem wolochain_module_not_configured:
  "wolochain_ModuleName \<notin> set (map fst appConfigModules) \<union> set (InitGenesis runtimeConfig) \<union>
     set (BeginBlockers runtimeConfig) \<union> set (EndBlockers runtimeConfig)"
  by (simp add: appConfigModules_def runtimeConfig_def)

end
