(* ===== verification/App_Wiring.thy ===== *)
theory App_Wiring
  imports App_Config Export
begin

text \<open>
  The construction of the application (\<open>New\<close> of \<open>app/app.go\<close>, \<open>registerIBCModules\<close> of \<open>app/ibc.go\<close>)
  and its export from the command line (\<open>appExport\<close> of \<open>cmd/wolochaind/cmd/commands.go\<close>).  The state
  is what the construction registers: stores, key tables, keepers, routes and modules; the outcomes of
  dependency injection and of loading are arguments.
\<close>

subsection \<open>Data\<close>

text \<open>A keeper: the store and the parameter subspace it was built over, and its authority.\<close>

record ibcKeeper =
  KeeperStore :: "sdkName option"
  KeeperSubspace :: sdkName
  KeeperAuthority :: string

record app =
  registeredStores :: "sdkName list"
  keyTables :: "sdkName list"
  keepers :: "(sdkName \<times> ibcKeeper) list"
  ibcRoutes :: "(sdkName \<times> sdkName) list"
  ibcV2Routes :: "(sdkName \<times> sdkName) list"
  lightClients :: "sdkName list"
  appModules :: "sdkName list"

text \<open>The calls outside the repository, by their outcome.\<close>

record wiringCalls =
  InjectErr :: "string option"
  RegisterStoresErr :: "sdkName list \<Rightarrow> app \<Rightarrow> string option"
  RegisterModulesErr :: "sdkName list \<Rightarrow> app \<Rightarrow> string option"
  LoadErr :: "bool \<Rightarrow> app \<Rightarrow> string option"
  GovModuleAddr :: string

subsection \<open>IBC\<close>

text \<open>A store key that is not registered is nil.\<close>

definition GetKey :: "app \<Rightarrow> sdkName \<Rightarrow> sdkName option" where
  "GetKey ap storeKey = (if storeKey \<in> set (registeredStores ap) then Some storeKey else None)"

definition ibcStoreKeys :: "sdkName list" where
  "ibcStoreKeys = [ibc_ModuleName, ibctransfer_ModuleName, icahost_SubModuleName, icacontroller_SubModuleName]"

definition RegisterStores :: "wiringCalls \<Rightarrow> sdkName list \<Rightarrow> (app, unit) act" where
  "RegisterStores env ks = callE Returned
     (\<lambda>ap. (ap\<lparr>registeredStores := registeredStores ap @ ks\<rparr>, RegisterStoresErr env ks ap))"

definition withKeyTable :: "sdkName \<Rightarrow> (app, unit) act" where
  "withKeyTable name = updateA (\<lambda>ap. ap\<lparr>keyTables := keyTables ap @ [name]\<rparr>)"

definition newIBCKeeper :: "wiringCalls \<Rightarrow> sdkName \<Rightarrow> (app, unit) act" where
  "newIBCKeeper env name = updateA (\<lambda>ap. ap\<lparr>keepers := keepers ap @
     [(name, \<lparr>KeeperStore = GetKey ap name, KeeperSubspace = name, KeeperAuthority = GovModuleAddr env\<rparr>)]\<rparr>)"

text \<open>\<open>AddRoute\<close> panics on a route that exists.\<close>

fun addRoutes :: "(sdkName \<times> sdkName) list \<Rightarrow> (sdkName \<times> sdkName) list \<Rightarrow> failure + (sdkName \<times> sdkName) list" where
  "addRoutes router [] = Inr router"
| "addRoutes router ((port, stack) # rest) =
     (if port \<in> set (map fst router) then Inl (Panicked ''route has already been registered'')
      else addRoutes (router @ [(port, stack)]) rest)"

definition setRouters :: "(app, unit) act" where
  "setRouters = (\<lambda>ap.
     case addRoutes [] [(ibctransfer_ModuleName, ibctransfer_ModuleName),
                        (icacontroller_SubModuleName, icacontroller_SubModuleName),
                        (icahost_SubModuleName, icahost_SubModuleName)] of
       Inl e \<Rightarrow> (ap, Inl e)
     | Inr v1 \<Rightarrow> (case addRoutes [] [(ibctransfer_ModuleName, ibctransfer_ModuleName)] of
         Inl e \<Rightarrow> (ap, Inl e)
       | Inr v2 \<Rightarrow> (ap\<lparr>ibcRoutes := v1, ibcV2Routes := v2\<rparr>, Inr ())))"

definition ibcAppModules :: "sdkName list" where
  "ibcAppModules = [ibc_ModuleName, ibctransfer_ModuleName, ica_ModuleName, ibctm_ModuleName, solomachine_ModuleName]"

definition registerIBCModules :: "wiringCalls \<Rightarrow> (app, unit) act" where
  "registerIBCModules env =
     seqA (RegisterStores env ibcStoreKeys)
    (seqA (forEach withKeyTable [ibc_ModuleName, ibctransfer_ModuleName, icacontroller_SubModuleName,
                                 icahost_SubModuleName])
    (seqA (forEach (newIBCKeeper env) [ibc_ModuleName, ibctransfer_ModuleName, icahost_SubModuleName,
                                       icacontroller_SubModuleName])
    (seqA setRouters
    (seqA (updateA (\<lambda>ap. ap\<lparr>lightClients := lightClients ap @ [ibctm_ModuleName, solomachine_ModuleName]\<rparr>))
          (callE Returned (\<lambda>ap. (ap\<lparr>appModules := appModules ap @ ibcAppModules\<rparr>,
             RegisterModulesErr env ibcAppModules ap)))))))"

text \<open>The modules registered on the client side.\<close>

definition RegisterIBC :: "sdkName list" where
  "RegisterIBC = [ibc_ModuleName, ibctransfer_ModuleName, ica_ModuleName, ibctm_ModuleName, solomachine_ModuleName]"

subsection \<open>The application\<close>

definition builtApp :: app where
  "builtApp = \<lparr>registeredStores = [], keyTables = [], keepers = [], ibcRoutes = [], ibcV2Routes = [],
               lightClients = [], appModules = map fst appConfigModules\<rparr>"

text \<open>An error of a constructor that \<open>New\<close> turns into a panic.\<close>

definition orPanic :: "('s, 'a) act \<Rightarrow> ('s, 'a) act" where
  "orPanic m = (\<lambda>s. case m s of
      (s', Inl (Returned e)) \<Rightarrow> (s', Inl (Panicked e))
    | r \<Rightarrow> r)"

definition NewApp :: "wiringCalls \<Rightarrow> bool \<Rightarrow> app \<times> (failure + unit)" where
  "NewApp env loadLatest =
     (case InjectErr env of
        Some e \<Rightarrow> (builtApp, Inl (Panicked e))
      | None \<Rightarrow> seqA (orPanic (registerIBCModules env))
          (callE Panicked (\<lambda>ap. (ap, LoadErr env loadLatest ap))) builtApp)"

text \<open>
  \<open>appExport\<close>: the home directory and the type of the options are checked first; a height other than
  \<open>-1\<close> is loaded into an application built without the latest state.  \<open>loadHeight\<close> gives the error of
  loading, and \<open>lastHeight\<close> and \<open>store\<close> the state then loaded.
\<close>

definition appExport ::
    "wiringCalls \<Rightarrow> ('s, 'e) exportKeepers \<Rightarrow> string option \<Rightarrow> bool \<Rightarrow> (int \<Rightarrow> string option)
      \<Rightarrow> (int \<Rightarrow> i64) \<Rightarrow> (int \<Rightarrow> 's) \<Rightarrow> int \<Rightarrow> bool \<Rightarrow> string list \<Rightarrow> string list
      \<Rightarrow> failure + exportedApp \<times> string option" where
  "appExport env app homePath isViper loadHeight lastHeight store height forZeroHeight jailAllowedAddrs
     modulesToExport =
     (if homePath = None \<or> homePath = Some '''' then Inr (emptyExport, Some ''application home not set'')
      else if \<not> isViper then Inr (emptyExport, Some ''appOpts is not viper.Viper'')
      else (case snd (NewApp env (height = -1)) of
        Inl e \<Rightarrow> Inl e
      | Inr _ \<Rightarrow> (case (if height \<noteq> -1 then loadHeight height else None) of
          Some e \<Rightarrow> Inr (emptyExport, Some e)
        | None \<Rightarrow> snd (ExportAppStateAndValidators app (lastHeight height) forZeroHeight jailAllowedAddrs
                          modulesToExport (store height)))))"

subsection \<open>Properties of the construction\<close>

lemmas wiring_defs = registerIBCModules_def RegisterStores_def ibcStoreKeys_def withKeyTable_def
  newIBCKeeper_def setRouters_def ibcAppModules_def GetKey_def action_defs

text \<open>The state that a started application has reached.\<close>

lemma registerIBCModules_registers:
  assumes "registerIBCModules env ap = (ap', Inr ())"
  shows "registeredStores ap' = registeredStores ap @ ibcStoreKeys"
    and "appModules ap' = appModules ap @ ibcAppModules"
    and "keepers ap' = keepers ap @ map (\<lambda>name. (name, \<lparr>KeeperStore = Some name, KeeperSubspace = name,
           KeeperAuthority = GovModuleAddr env\<rparr>))
           [ibc_ModuleName, ibctransfer_ModuleName, icahost_SubModuleName, icacontroller_SubModuleName]"
  using assms by (auto simp: wiring_defs split: option.splits)

lemma NewApp_started:
  assumes "NewApp env loadLatest = (ap, Inr ())"
  shows "registerIBCModules env builtApp = (ap, Inr ())"
  using assms
  by (auto simp: NewApp_def orPanic_def bindA_def callE_def
      split: option.splits prod.splits sum.splits failure.splits)

text \<open>
  In a started application every IBC keeper has its store registered and answers to governance,
  every module initialised at genesis is registered, and the module \<open>x/wolochain\<close> is not.
\<close>

theorem started_app_complete:
  assumes "NewApp env loadLatest = (ap, Inr ())"
  shows "list_all (\<lambda>(name, k). KeeperStore k = Some name \<and> KeeperAuthority k = GovModuleAddr env) (keepers ap)"
    and "set (InitGenesis runtimeConfig) \<subseteq> set (appModules ap)"
    and "wolochain_ModuleName \<notin> set (appModules ap)"
proof -
  note reg = registerIBCModules_registers [OF NewApp_started [OF assms]]
  show "list_all (\<lambda>(name, k). KeeperStore k = Some name \<and> KeeperAuthority k = GovModuleAddr env) (keepers ap)"
    by (simp add: reg builtApp_def)
  show "set (InitGenesis runtimeConfig) \<subseteq> set (appModules ap)"
    by (simp add: reg builtApp_def runtimeConfig_def appConfigModules_def ibcAppModules_def)
  show "wolochain_ModuleName \<notin> set (appModules ap)"
    by (simp add: reg builtApp_def appConfigModules_def ibcAppModules_def)
qed

text \<open>The client side registers the modules that the application registers.\<close>

lemma client_modules_match: "RegisterIBC = ibcAppModules"
  by (simp add: RegisterIBC_def ibcAppModules_def)

text \<open>The height of an export is that of the next block, or zero for a restart.\<close>

theorem exported_height:
  assumes "ExportAppStateAndValidators app lastHeight forZeroHeight allowed names store = (ctx, Inr (ex, None))"
  shows "Height ex = (if forZeroHeight then 0 else lastHeight + 1)"
  using assms
  by (auto simp: ExportAppStateAndValidators_def exportState_def bindA_def ret_def Let_def
      split: prod.splits sum.splits if_splits)

end
