(* ===== verification/Testnet.thy ===== *)
theory Testnet
  imports Actions Staking_Types
begin

text \<open>
  The in-place testnet (\<open>cmd/wolochaind/cmd/testnet.go\<close>): the arguments read from the application
  options and the changes \<open>initAppForTestnet\<close> makes to the staking, distribution, slashing and bank
  state of a node.  The keepers of the SDK are the fields of a record of calls on a state of any type;
  an iterator is the list of the keys it yields, taken when it is opened.
\<close>

subsection \<open>Data\<close>

record valArgs =
  newValAddr :: string
  newOperatorAddress :: string
  newValPubKey :: string
  accountsToFund :: "string list"
  upgradeToTrigger :: string
  homeDir :: string

text \<open>The application options; a failed type assertion is \<^const>\<open>None\<close>, and the two options read through
  \<open>cast.ToString\<close> are the strings it gives.\<close>

record appOptions =
  KeyNewValAddr :: "string option"
  KeyUserPubKey :: "string option"
  KeyNewOpAddr :: "string option"
  KeyTriggerTestnetUpgrade :: "string option"
  AccountsToFund :: string
  FlagHome :: string

text \<open>The calls of the keepers and codecs that \<open>initAppForTestnet\<close> makes.\<close>

record 's testnetApp =
  NewAnyWithValue :: "string \<Rightarrow> string + string"
  ValidatorToBytes :: "string \<Rightarrow> string + string"
  AccountToBytes :: "string \<Rightarrow> string + string"
  ConsAddressString :: "string \<Rightarrow> string"
  LastBlockHeight :: "'s \<Rightarrow> i64"
  PowerStoreKeys :: "'s \<Rightarrow> string + string list"
  LastValidatorKeys :: "'s \<Rightarrow> string + string list"
  ValidatorKeys :: "'s \<Rightarrow> string list"
  ValidatorQueueKeys :: "'s \<Rightarrow> string list"
  StakingDelete :: "string \<Rightarrow> 's \<Rightarrow> 's"
  SetValidator :: "validator \<Rightarrow> 's \<Rightarrow> 's \<times> string option"
  SetValidatorByConsAddr :: "validator \<Rightarrow> 's \<Rightarrow> 's \<times> string option"
  SetValidatorByPowerIndex :: "validator \<Rightarrow> 's \<Rightarrow> 's \<times> string option"
  SetLastValidatorPower :: "string \<Rightarrow> int \<Rightarrow> 's \<Rightarrow> 's \<times> string option"
  AfterValidatorCreated :: "string \<Rightarrow> 's \<Rightarrow> 's \<times> string option"
  SetHistoricalRewards :: "string \<Rightarrow> nat \<Rightarrow> (string \<times> int) list \<times> nat \<Rightarrow> 's \<Rightarrow> 's \<times> string option"
  SetCurrentRewards :: "string \<Rightarrow> (string \<times> int) list \<times> nat \<Rightarrow> 's \<Rightarrow> 's \<times> string option"
  SetInitialCommission :: "string \<Rightarrow> 's \<Rightarrow> 's \<times> string option"
  SetOutstandingRewards :: "string \<Rightarrow> (string \<times> int) list \<Rightarrow> 's \<Rightarrow> 's \<times> string option"
  SetSigningInfo :: "string \<Rightarrow> signingInfo \<Rightarrow> 's \<Rightarrow> 's \<times> string option"
  BondDenom :: "'s \<Rightarrow> string + string"
  MintCoins :: "string \<Rightarrow> (string \<times> int) list \<Rightarrow> 's \<Rightarrow> 's \<times> string option"
  SendFromModule :: "string \<Rightarrow> string \<Rightarrow> (string \<times> int) list \<Rightarrow> 's \<Rightarrow> 's \<times> string option"

definition valVotingPower :: int where
  "valVotingPower = 900000000000000"

subsection \<open>Operations\<close>

definition getCommandArgs :: "appOptions \<Rightarrow> string + valArgs" where
  "getCommandArgs opts = (case KeyNewValAddr opts of
      None \<Rightarrow> Inl ''newValAddr is not of type bytes.HexBytes''
    | Some addr \<Rightarrow> (case KeyUserPubKey opts of
      None \<Rightarrow> Inl ''newValPubKey is not of type crypto.PubKey''
    | Some pub \<Rightarrow> (case KeyNewOpAddr opts of
      None \<Rightarrow> Inl ''newOperatorAddress is not of type string''
    | Some oper \<Rightarrow> (case KeyTriggerTestnetUpgrade opts of
      None \<Rightarrow> Inl ''upgradeToTrigger is not of type string''
    | Some upg \<Rightarrow>
        if FlagHome opts = '''' then Inl ''invalid home dir''
        else Inr \<lparr>newValAddr = addr, newOperatorAddress = oper, newValPubKey = pub,
                  accountsToFund = Split1 (CHR '','') (AccountsToFund opts),
                  upgradeToTrigger = upg, homeDir = FlagHome opts\<rparr>))))"

text \<open>\<open>handleErr\<close> prints the error and exits.\<close>

abbreviation handleErr :: "('s \<Rightarrow> 's \<times> string option) \<Rightarrow> ('s, unit) act" where
  "handleErr \<equiv> callE Exited"

definition newValidator :: "valArgs \<Rightarrow> string \<Rightarrow> validator" where
  "newValidator args pubkeyAny =
     \<lparr>OperatorAddress = newOperatorAddress args, ConsensusPubkey = pubkeyAny, Jailed = False,
      Status = Bonded, Tokens = valVotingPower, DelegatorShares = 10000000 * 10 ^ 18,
      Moniker = ''Testnet Validator'', UnbondingHeight = 0, Rate = 5 * 10 ^ 16, MaxRate = 10 ^ 17,
      MaxChangeRate = 5 * 10 ^ 16, MinSelfDelegation = 1\<rparr>"

definition deleteKeys :: "'s testnetApp \<Rightarrow> string list \<Rightarrow> ('s, unit) act" where
  "deleteKeys app = forEach (\<lambda>key. updateA (StakingDelete app key))"

definition removeValidators :: "'s testnetApp \<Rightarrow> ('s, unit) act" where
  "removeValidators app =
     seqA (bindA (readA Exited (PowerStoreKeys app)) (deleteKeys app))
    (seqA (bindA (readA Exited (LastValidatorKeys app)) (deleteKeys app))
    (seqA (bindA (readA Exited (\<lambda>s. Inr (ValidatorKeys app s))) (deleteKeys app))
          (bindA (readA Exited (\<lambda>s. Inr (ValidatorQueueKeys app s))) (deleteKeys app))))"

definition addValidator :: "'s testnetApp \<Rightarrow> validator \<Rightarrow> string \<Rightarrow> ('s, unit) act" where
  "addValidator app newVal val =
     seqA (handleErr (SetValidator app newVal))
    (seqA (handleErr (SetValidatorByConsAddr app newVal))
    (seqA (handleErr (SetValidatorByPowerIndex app newVal))
    (seqA (handleErr (SetLastValidatorPower app val 0))
          (handleErr (AfterValidatorCreated app val)))))"

definition initDistribution :: "'s testnetApp \<Rightarrow> string \<Rightarrow> ('s, unit) act" where
  "initDistribution app val =
     seqA (handleErr (SetHistoricalRewards app val 0 ([], 1)))
    (seqA (handleErr (SetCurrentRewards app val ([], 1)))
    (seqA (handleErr (SetInitialCommission app val))
          (handleErr (SetOutstandingRewards app val []))))"

definition initSlashing :: "'s testnetApp \<Rightarrow> valArgs \<Rightarrow> ('s, unit) act" where
  "initSlashing app args = (\<lambda>s. ignoreE (SetSigningInfo app (newValAddr args)
     \<lparr>SigningAddress = ConsAddressString app (newValAddr args),
      StartHeight = LastBlockHeight app s - 1, Tombstoned = False\<rparr>) s)"

definition fundAccount :: "'s testnetApp \<Rightarrow> (string \<times> int) list \<Rightarrow> string \<Rightarrow> ('s, unit) act" where
  "fundAccount app defaultCoins accountStr =
     seqA (handleErr (MintCoins app ''mint'' defaultCoins))
    (bindA (orElse Exited (AccountToBytes app accountStr))
       (\<lambda>account. handleErr (SendFromModule app ''mint'' account defaultCoins)))"

definition fundAccounts :: "'s testnetApp \<Rightarrow> valArgs \<Rightarrow> ('s, unit) act" where
  "fundAccounts app args =
     bindA (readA Exited (BondDenom app))
       (\<lambda>bondDenom. forEach (fundAccount app [(bondDenom, 1000000000)]) (accountsToFund args))"

definition initAppForTestnet :: "'s testnetApp \<Rightarrow> valArgs \<Rightarrow> ('s, unit) act" where
  "initAppForTestnet app args =
     bindA (orElse Exited (NewAnyWithValue app (newValPubKey args))) (\<lambda>pubkeyAny.
     let newVal = newValidator args pubkeyAny in
     bindA (orElse Exited (ValidatorToBytes app (OperatorAddress newVal))) (\<lambda>val.
       seqA (removeValidators app)
      (seqA (addValidator app newVal val)
      (seqA (initDistribution app val)
      (seqA (initSlashing app args)
            (fundAccounts app args))))))"

text \<open>The application that \<open>newApp\<close> creates is the argument.\<close>

definition newTestnetApp :: "'s testnetApp \<Rightarrow> appOptions \<Rightarrow> ('s, unit) act" where
  "newTestnetApp app opts =
     bindA (orElse Panicked (getCommandArgs opts)) (initAppForTestnet app)"

subsection \<open>The old validators\<close>

text \<open>What the loops rely on of the store: a deleted key is gone from every iterator, the others stay.\<close>

definition deletesKeys :: "'s testnetApp \<Rightarrow> bool" where
  "deletesKeys app \<longleftrightarrow> (\<forall>key s.
     PowerStoreKeys app (StakingDelete app key s) = map_sum id (filter (\<lambda>k. k \<noteq> key)) (PowerStoreKeys app s) \<and>
     LastValidatorKeys app (StakingDelete app key s) = map_sum id (filter (\<lambda>k. k \<noteq> key)) (LastValidatorKeys app s) \<and>
     ValidatorKeys app (StakingDelete app key s) = filter (\<lambda>k. k \<noteq> key) (ValidatorKeys app s) \<and>
     ValidatorQueueKeys app (StakingDelete app key s) = filter (\<lambda>k. k \<noteq> key) (ValidatorQueueKeys app s))"

lemma deleteKeys_run: "deleteKeys app keys s = (fold (StakingDelete app) keys s, Inr ())"
  by (induction keys arbitrary: s) (simp_all add: deleteKeys_def action_defs)

lemma filter_keys [simp]:
  "map_sum id (filter (\<lambda>k. True)) r = r"
  "map_sum id (filter P) (map_sum id (filter Q) r) = map_sum id (filter (\<lambda>k. Q k \<and> P k)) r"
  by (cases r; simp)+

lemma keys_after_deletion:
  assumes "deletesKeys app"
  shows "PowerStoreKeys app (fold (StakingDelete app) keys s) =
           map_sum id (filter (\<lambda>k. k \<notin> set keys)) (PowerStoreKeys app s)"
    and "LastValidatorKeys app (fold (StakingDelete app) keys s) =
           map_sum id (filter (\<lambda>k. k \<notin> set keys)) (LastValidatorKeys app s)"
    and "ValidatorKeys app (fold (StakingDelete app) keys s) = filter (\<lambda>k. k \<notin> set keys) (ValidatorKeys app s)"
    and "ValidatorQueueKeys app (fold (StakingDelete app) keys s) =
           filter (\<lambda>k. k \<notin> set keys) (ValidatorQueueKeys app s)"
  using assms
  by (induction keys arbitrary: s)
    (simp_all add: deletesKeys_def)

text \<open>After the removal no validator is left in the power store, among the last validators, among the
  validators or in the unbonding queue.\<close>

theorem old_validators_removed:
  assumes laws: "deletesKeys app" and run: "removeValidators app s = (s', Inr ())"
  shows "PowerStoreKeys app s' = Inr [] \<and> LastValidatorKeys app s' = Inr [] \<and>
         ValidatorKeys app s' = [] \<and> ValidatorQueueKeys app s' = []"
proof -
  let ?del = "fold (StakingDelete app)"
  obtain ks1 where 1: "PowerStoreKeys app s = Inr ks1"
    using run by (auto simp: removeValidators_def action_defs split: sum.splits)
  define s1 where "s1 = ?del ks1 s"
  obtain ks2 where 2: "LastValidatorKeys app s1 = Inr ks2"
    using run by (auto simp: removeValidators_def action_defs deleteKeys_run 1 s1_def split: sum.splits)
  define s2 where "s2 = ?del ks2 s1"
  define s3 where "s3 = ?del (ValidatorKeys app s2) s2"
  have s': "s' = ?del (ValidatorQueueKeys app s3) s3"
    using run by (simp add: removeValidators_def action_defs deleteKeys_run 1 2 [unfolded s1_def]
        s1_def s2_def s3_def)
  have "PowerStoreKeys app s1 = Inr []"
    unfolding s1_def keys_after_deletion [OF laws] 1 by simp
  moreover have "LastValidatorKeys app s2 = Inr []"
    unfolding s2_def keys_after_deletion [OF laws] 2 by simp
  moreover have "ValidatorKeys app s3 = []"
    unfolding s3_def keys_after_deletion(3) [OF laws, of _ s2] by simp
  ultimately have "PowerStoreKeys app s3 = Inr []" "LastValidatorKeys app s3 = Inr []" "ValidatorKeys app s3 = []"
    unfolding s2_def s3_def keys_after_deletion [OF laws] by simp_all
  then show ?thesis
    unfolding s' keys_after_deletion [OF laws] by simp
qed

subsection \<open>Funding\<close>

lemma fundAccount_decodes:
  "ensures (\<lambda>_. True) (fundAccount app coins a) (\<lambda>_ _. \<not> isl (AccountToBytes app a))"
  unfolding fundAccount_def
  by (rule ensures_bindA [where R = "\<lambda>_ _. True"])
    (auto intro!: action_intros ensures_bindA [where R = "\<lambda>_ _. \<not> isl (AccountToBytes app a)"])

lemma forEach_all:
  assumes "\<And>x. ensures (\<lambda>_. True) (f x) (\<lambda>_ _. P x)"
  shows "ensures (\<lambda>_. True) (forEach f xs) (\<lambda>_ _. list_all P xs)"
proof (induction xs)
  case (Cons x xs)
  have "ensures (\<lambda>_. P x) (forEach f xs) (\<lambda>_ _. list_all P (x # xs))"
    using Cons by (auto simp: ensures_def)
  then show ?case
    by (auto intro: ensures_bindA [OF assms [of x]])
qed (auto intro: action_intros)

lemma fundAccounts_decodes:
  "ensures (\<lambda>_. True) (fundAccounts app args)
     (\<lambda>_ _. list_all (\<lambda>a. \<not> isl (AccountToBytes app a)) (accountsToFund args))"
  unfolding fundAccounts_def
  by (rule ensures_bindA [where R = "\<lambda>_ _. True"])
    (auto intro!: action_intros forEach_all fundAccount_decodes)

lemma ensures_last:
  assumes "ensures (\<lambda>_. True) n Q" shows "ensures (\<lambda>_. True) (seqA m n) Q"
  by (rule ensures_bindA [OF _ assms]) (simp add: ensures_def)

text \<open>A started testnet has decoded every listed account.\<close>

lemma initAppForTestnet_decodes:
  "ensures (\<lambda>_. True) (initAppForTestnet app args)
     (\<lambda>_ _. list_all (\<lambda>a. \<not> isl (AccountToBytes app a)) (accountsToFund args))"
  unfolding initAppForTestnet_def Let_def
  by (rule ensures_bindA [where R = "\<lambda>_ _. True"], (simp add: ensures_def; fail),
      rule ensures_bindA [where R = "\<lambda>_ _. True"], (simp add: ensures_def; fail))
    (intro ensures_last fundAccounts_decodes)

text \<open>
  Without \<open>--accounts-to-fund\<close> the list of accounts is the list of the empty string, which the address
  codec refuses: the command never starts a node.
\<close>

theorem testnet_without_accounts_exits:
  assumes "AccountsToFund opts = ''''" and "AccountToBytes app '''' = Inl e"
  shows "newTestnetApp app opts s \<noteq> (s', Inr ())"
proof
  assume "newTestnetApp app opts s = (s', Inr ())"
  then obtain args where args: "getCommandArgs opts = Inr args"
    and run: "initAppForTestnet app args s = (s', Inr ())"
    by (auto simp: newTestnetApp_def action_defs split: sum.splits)
  have "accountsToFund args = ['''']"
    using args assms(1) by (auto simp: getCommandArgs_def split: option.splits if_splits)
  then show False
    using ensuresD [OF initAppForTestnet_decodes TrueI run] assms(2) by simp
qed

end
