(* ===== verification/Multi_Node.thy ===== *)
theory Multi_Node
  imports Actions Config
begin

text \<open>
  The multi-node testnet (\<open>cmd/wolochaind/cmd/testnet_multi_node.go\<close>): the arguments read from the
  flags, the directories, keys, genesis transactions and configuration files it writes for each node.
  The file system is a state of any type; the SDK, the keyring and the operating system are a record of
  calls.  The maps of stakes and ports have the keys 0, 1, ... and are lists.
\<close>

subsection \<open>Data\<close>

type_synonym coin = "string \<times> int"

record initArgs =
  algo :: string
  chainID :: string
  keyringBackend :: string
  minGasPrices :: string
  nodeDirPrefix :: string
  numValidators :: int
  outputDir :: string
  startingIPAddress :: string
  validatorsStakesAmount :: "coin list"
  ports :: "string list"

text \<open>The settings of \<open>config.toml\<close> and \<open>app.toml\<close> that the command changes.\<close>

record nodeConfig =
  RootDir :: string
  ConfigMoniker :: string
  PersistentPeers :: string
  AllowDuplicateIP :: bool
  P2PListenAddress :: string
  RPCListenAddress :: string
  ProxyApp :: string
  PrometheusListenAddr :: string
  Prometheus :: bool

record appConfig =
  MinGasPrices :: string
  APIEnable :: bool
  GRPCAddress :: string
  APIAddress :: string

text \<open>What the loop over the nodes collects.\<close>

record genesisParts =
  nodeIDs :: "string list"
  valPubKeys :: "string list"
  genAccounts :: "string list"
  genBalances :: "(string \<times> coin list) list"
  genFiles :: "string list"
  persistentPeers :: string
  gentxsFiles :: "string list"

record ('s, 'kb) testnetCalls =
  DefaultBondDenom :: string
  NewIntFromString :: "string \<Rightarrow> int option"
  NewCoin :: "string \<Rightarrow> int \<Rightarrow> string + coin"
  TokensFromConsensusPower :: "int \<Rightarrow> int"
  SortCoins :: "coin list \<Rightarrow> coin list"
  RandIntn :: "nat \<Rightarrow> nat \<Rightarrow> nat"
  MkdirAll :: "string \<Rightarrow> 's \<Rightarrow> 's \<times> string option"
  RemoveAll :: "string \<Rightarrow> 's \<Rightarrow> 's \<times> string option"
  OsWriteFile :: "string \<Rightarrow> string \<Rightarrow> 's \<Rightarrow> 's \<times> string option"
  OsOpen :: "string \<Rightarrow> 's \<Rightarrow> string option"
  OsCreate :: "string \<Rightarrow> 's \<Rightarrow> 's \<times> string option"
  IoCopy :: "string \<Rightarrow> string \<Rightarrow> 's \<Rightarrow> 's \<times> (string + int)"
  FileSync :: "string \<Rightarrow> 's \<Rightarrow> 's \<times> string option"
  AbsPath :: "string \<Rightarrow> string + string"
  RelPath :: "string \<Rightarrow> string \<Rightarrow> string + string"
  GenesisFile :: "string \<Rightarrow> string"
  InitializeNodeValidatorFiles :: "nodeConfig \<Rightarrow> 's \<Rightarrow> 's \<times> (string + string \<times> string)"
  KeyringNew :: "string \<Rightarrow> string \<Rightarrow> string + 'kb"
  NewSigningAlgoFromString :: "string \<Rightarrow> 'kb \<Rightarrow> string + string"
  GenerateSaveCoinKey :: "'kb \<Rightarrow> string \<Rightarrow> string \<Rightarrow> 's \<Rightarrow> 's \<times> (string + string \<times> string)"
  SecretJSON :: "string \<Rightarrow> string + string"
  NewMsgCreateValidator :: "string \<Rightarrow> string \<Rightarrow> coin \<Rightarrow> string \<Rightarrow> string + string"
  SetMsgs :: "string \<Rightarrow> string + string"
  SignTx :: "string \<Rightarrow> string \<Rightarrow> 'kb \<Rightarrow> string \<Rightarrow> string \<Rightarrow> string + string"
  TxJSONEncoder :: "string \<Rightarrow> string + string"
  WriteAppConfig :: "string \<Rightarrow> appConfig \<Rightarrow> 's \<Rightarrow> 's"
  WriteNodeConfig :: "string \<Rightarrow> nodeConfig \<Rightarrow> 's \<Rightarrow> 's"
  PackAccounts :: "string list \<Rightarrow> string + string"
  SanitizeGenesisBalances :: "(string \<times> coin list) list \<Rightarrow> (string \<times> coin list) list"
  DefaultSupply :: "coin list"
  CoinsAdd :: "coin list \<Rightarrow> coin list \<Rightarrow> coin list"
  MarshalGenState :: "string \<Rightarrow> (string \<times> coin list) list \<Rightarrow> coin list \<Rightarrow> string + string"
  GenDocSaveAs :: "string \<Rightarrow> string \<Rightarrow> string \<Rightarrow> 's \<Rightarrow> 's \<times> string option"
  AppGenesisFromFile :: "string \<Rightarrow> 's \<Rightarrow> string + string"
  GenAppStateFromConfig :: "nodeConfig \<Rightarrow> string \<Rightarrow> string \<Rightarrow> string \<Rightarrow> string \<Rightarrow> string \<Rightarrow> 's \<Rightarrow> string + string"
  ExportGenesisFileWithTime :: "string \<Rightarrow> string \<Rightarrow> string \<Rightarrow> 's \<Rightarrow> 's \<times> string option"

subsection \<open>The arguments\<close>

text \<open>An amount that is not a number is skipped, without a place in the list.\<close>

fun parseStakes :: "('s, 'kb) testnetCalls \<Rightarrow> string list \<Rightarrow> failure + coin list" where
  "parseStakes env [] = Inr []"
| "parseStakes env (amount # amounts) = (case NewIntFromString env amount of
      None \<Rightarrow> parseStakes env amounts
    | Some a \<Rightarrow> (case NewCoin env (DefaultBondDenom env) a of
        Inl e \<Rightarrow> Inl (Panicked e)
      | Inr coin \<Rightarrow> map_sum id (\<lambda>coins. coin # coins) (parseStakes env amounts)))"

definition parsePorts :: "int \<Rightarrow> string \<Rightarrow> string list" where
  "parsePorts n s = (if s = '''' then map (\<lambda>i. FormatInt (26657 - 3 * int i)) [0..<nat n]
                     else Split1 (CHR '','') s)"

text \<open>The flags are those of the command; \<open>base\<close> holds the ones taken over as they are.\<close>

definition multiNodeArgs ::
    "('s, 'kb) testnetCalls \<Rightarrow> initArgs \<Rightarrow> string \<Rightarrow> string \<Rightarrow> failure + initArgs" where
  "multiNodeArgs env base stakesFlag portsFlag =
     map_sum id (\<lambda>coins. base\<lparr>validatorsStakesAmount := coins, ports := parsePorts (numValidators base) portsFlag\<rparr>)
       (parseStakes env (Split1 (CHR '','') stakesFlag))"

text \<open>A missing key of the map of ports reads as the empty string.\<close>

definition portOf :: "initArgs \<Rightarrow> nat \<Rightarrow> string" where
  "portOf args i = (if i < length (ports args) then ports args ! i else '''')"

definition stakeOf :: "('s, 'kb) testnetCalls \<Rightarrow> initArgs \<Rightarrow> nat \<Rightarrow> string + coin" where
  "stakeOf env args i = (if i < length (validatorsStakesAmount args)
     then Inr (validatorsStakesAmount args ! i)
     else NewCoin env (DefaultBondDenom env) (TokensFromConsensusPower env 100))"

subsection \<open>The files of one node\<close>

definition nodeDirName :: "initArgs \<Rightarrow> nat \<Rightarrow> string" where
  "nodeDirName args i = nodeDirPrefix args @ showNat i"

definition nodeDir :: "initArgs \<Rightarrow> nat \<Rightarrow> string" where
  "nodeDir args i = JoinPath [outputDir args, nodeDirName args i]"

definition gentxsDir :: "initArgs \<Rightarrow> nat \<Rightarrow> string" where
  "gentxsDir args i = JoinPath [outputDir args, nodeDirName args i, ''config'', ''gentx'']"

definition p2pPort :: "nat \<Rightarrow> string" where
  "p2pPort i = FormatInt (26656 - 3 * int i)"

definition nodeMemo :: "initArgs \<Rightarrow> string \<Rightarrow> nat \<Rightarrow> string" where
  "nodeMemo args nodeID i = nodeID @ ''@'' @ startingIPAddress args @ '':'' @ p2pPort i"

definition writeFile :: "('s, 'kb) testnetCalls \<Rightarrow> string \<Rightarrow> string \<Rightarrow> string \<Rightarrow> ('s, unit) act" where
  "writeFile env file dir contents =
     seqA (callE (\<lambda>e. Returned (''could not create directory '' @ Quote dir @ '': '' @ e)) (MkdirAll env dir))
          (callE Returned (OsWriteFile env file contents))"

text \<open>A failing call after which the output directory is removed.\<close>

definition orRemove :: "('s, 'kb) testnetCalls \<Rightarrow> string \<Rightarrow> ('s, 'a) act \<Rightarrow> ('s, 'a) act" where
  "orRemove env dir m = (\<lambda>s. case m s of
      (s', Inr x) \<Rightarrow> (s', Inr x)
    | (s', Inl e) \<Rightarrow> (fst (RemoveAll env dir s'), Inl e))"

text \<open>The minimum gas prices of the flag are overwritten by the constant; the loop sets the two
  addresses.\<close>

definition baseAppConfig :: "('s, 'kb) testnetCalls \<Rightarrow> initArgs \<Rightarrow> nat \<Rightarrow> appConfig" where
  "baseAppConfig env args i =
     \<lparr>MinGasPrices = ''0.0001'' @ DefaultBondDenom env, APIEnable = False,
      GRPCAddress = startingIPAddress args @ '':'' @ FormatInt (9090 - 2 * int i),
      APIAddress = ''tcp://localhost:'' @ FormatInt (1317 - int i)\<rparr>"

definition nodeGentx ::
    "('s, 'kb) testnetCalls \<Rightarrow> initArgs \<Rightarrow> nat \<Rightarrow> 'kb \<Rightarrow> string \<Rightarrow> string \<Rightarrow> string \<Rightarrow> ('s, string) act" where
  "nodeGentx env args i kb addr pubKey memo =
     bindA (orElse Panicked (stakeOf env args i)) (\<lambda>valTokens.
     bindA (orElse Returned (NewMsgCreateValidator env addr pubKey valTokens (nodeDirName args i))) (\<lambda>msg.
     bindA (orElse Returned (SetMsgs env msg)) (\<lambda>builder.
     bindA (orElse Returned (SignTx env (chainID args) memo kb (nodeDirName args i) builder)) (\<lambda>signed.
       orElse Returned (TxJSONEncoder env signed)))))"

definition initConfig :: "initArgs \<Rightarrow> nodeConfig \<Rightarrow> nat \<Rightarrow> nodeConfig" where
  "initConfig args cfg i = cfg\<lparr>RootDir := nodeDir args i, ConfigMoniker := nodeDirName args i,
                                RPCListenAddress := ''tcp://0.0.0.0:'' @ portOf args i\<rparr>"

definition initNode ::
    "('s, 'kb) testnetCalls \<Rightarrow> initArgs \<Rightarrow> nodeConfig \<Rightarrow> nat \<Rightarrow> genesisParts \<Rightarrow> ('s, genesisParts) act" where
  "initNode env args cfg i parts =
     seqA (orRemove env (outputDir args)
             (callE Returned (MkdirAll env (JoinPath [nodeDir args i, ''config'']))))
    (bindA (orRemove env (outputDir args) (callV Returned (InitializeNodeValidatorFiles env (initConfig args cfg i)))) (\<lambda>(nodeID, pubKey).
     let memo = nodeMemo args nodeID i in
     bindA (orElse Returned (KeyringNew env (keyringBackend args) (nodeDir args i))) (\<lambda>kb.
     bindA (orElse Returned (NewSigningAlgoFromString env (algo args) kb)) (\<lambda>keyAlgo.
     bindA (orRemove env (outputDir args) (callV Returned (GenerateSaveCoinKey env kb (nodeDirName args i) keyAlgo)))
       (\<lambda>(addr, secret).
     bindA (orElse Returned (SecretJSON env secret)) (\<lambda>cliPrint.
     seqA (writeFile env (JoinPath [nodeDir args i, ''key_seed.json'']) (nodeDir args i) cliPrint)
    (bindA (orElse Panicked (NewCoin env (DefaultBondDenom env) (TokensFromConsensusPower env 1000)))
       (\<lambda>accTokens.
     bindA (orElse Panicked (NewCoin env (DefaultBondDenom env) (TokensFromConsensusPower env 500)))
       (\<lambda>accStakingTokens.
     bindA (nodeGentx env args i kb addr pubKey memo) (\<lambda>txBz.
     let file = JoinPath [gentxsDir args i, ''gentx-'' @ nodeID @ ''.json''] in
     seqA (writeFile env file (gentxsDir args i) txBz)
    (seqA (updateA (WriteAppConfig env (JoinPath [nodeDir args i, ''config'', ''app.toml''])
             (baseAppConfig env args i)))
       (ret \<lparr>nodeIDs = nodeIDs parts @ [nodeID], valPubKeys = valPubKeys parts @ [pubKey],
             genAccounts = genAccounts parts @ [addr],
             genBalances = genBalances parts @ [(addr, SortCoins env [accTokens, accStakingTokens])],
             genFiles = genFiles parts @ [GenesisFile env (nodeDir args i)],
             persistentPeers = (if persistentPeers parts = '''' then memo
                                else persistentPeers parts @ '','' @ memo),
             gentxsFiles = gentxsFiles parts @ [file]\<rparr>))))))))))))"

fun initNodes ::
    "('s, 'kb) testnetCalls \<Rightarrow> initArgs \<Rightarrow> nodeConfig \<Rightarrow> nat list \<Rightarrow> genesisParts \<Rightarrow> ('s, genesisParts) act" where
  "initNodes env args cfg [] parts = ret parts"
| "initNodes env args cfg (i # is) parts =
     bindA (initNode env args cfg i parts) (initNodes env args cfg is)"

subsection \<open>Genesis files\<close>

definition initGenFiles ::
    "('s, 'kb) testnetCalls \<Rightarrow> initArgs \<Rightarrow> genesisParts \<Rightarrow> ('s, unit) act" where
  "initGenFiles env args parts =
     bindA (orElse Returned (PackAccounts env (genAccounts parts))) (\<lambda>accounts.
     let balances = SanitizeGenesisBalances env (genBalances parts);
         supply = foldl (\<lambda>acc bal. CoinsAdd env acc (snd bal)) (DefaultSupply env) balances in
     bindA (orElse Returned (MarshalGenState env accounts balances supply)) (\<lambda>state.
       forEach (\<lambda>file. callE Returned (GenDocSaveAs env (chainID args) state file)) (genFiles parts)))"

definition isSubDir :: "('s, 'kb) testnetCalls \<Rightarrow> string \<Rightarrow> string \<Rightarrow> string + bool" where
  "isSubDir env src dstDir = (case AbsPath env src of
      Inl e \<Rightarrow> Inl e
    | Inr absSrc \<Rightarrow> (case AbsPath env dstDir of
      Inl e \<Rightarrow> Inl e
    | Inr absDstDir \<Rightarrow> (case RelPath env absDstDir absSrc of
      Inl e \<Rightarrow> Inl e
    | Inr rel \<Rightarrow> Inr (\<not> prefix ''..'' rel \<and> \<not> prefix ''/'' rel))))"

text \<open>\<open>filepath.Base\<close> of a path of the development: the last element.\<close>

definition baseName :: "string \<Rightarrow> string" where
  "baseName path = last (Split1 (CHR ''/'') path)"

definition copyFile :: "('s, 'kb) testnetCalls \<Rightarrow> string \<Rightarrow> string \<Rightarrow> ('s, int) act" where
  "copyFile env src dstDir = (let dst = JoinPath [dstDir, baseName src] in
     seqA (callE Returned (\<lambda>s. (s, OsOpen env src s)))
    (seqA (callE Returned (OsCreate env dst))
    (bindA (callV Returned (IoCopy env src dst)) (\<lambda>bytesCopied.
     seqA (callE Returned (FileSync env dst)) (ret bytesCopied)))))"

definition copyGentxs ::
    "('s, 'kb) testnetCalls \<Rightarrow> initArgs \<Rightarrow> genesisParts \<Rightarrow> nat list \<Rightarrow> ('s, unit) act" where
  "copyGentxs env args parts =
     forEach (\<lambda>i. forEach (\<lambda>file.
       case isSubDir env file (JoinPath [nodeDir args i, ''config'', ''gentx'']) of
         Inl _ \<Rightarrow> ret ()
       | Inr True \<Rightarrow> ret ()
       | Inr False \<Rightarrow>
           seqA (copyFile env file (JoinPath [nodeDir args i, ''config'', ''gentx''])) (ret ()))
       (gentxsFiles parts))"

definition collectConfig :: "initArgs \<Rightarrow> string \<Rightarrow> nodeConfig \<Rightarrow> nat \<Rightarrow> nodeConfig" where
  "collectConfig args peers cfg i = cfg\<lparr>RootDir := nodeDir args i, ConfigMoniker := nodeDirName args i,
     PersistentPeers := peers, AllowDuplicateIP := True,
     P2PListenAddress := ''tcp://0.0.0.0:'' @ p2pPort i,
     RPCListenAddress := ''tcp://127.0.0.1:'' @ portOf args i,
     ProxyApp := ''tcp://127.0.0.1:'' @ FormatInt (26658 - 3 * int i),
     PrometheusListenAddr := '':'' @ FormatInt (26660 + int i), Prometheus := True\<rparr>"

text \<open>The configuration object is shared: a node's genesis is read with the settings left by the one
  before it, except for the root directory and the moniker.  The first application state is used for all.\<close>

fun collectGenFiles ::
    "('s, 'kb) testnetCalls \<Rightarrow> initArgs \<Rightarrow> genesisParts \<Rightarrow> nodeConfig \<Rightarrow> string option \<Rightarrow> nat list
      \<Rightarrow> ('s, unit) act" where
  "collectGenFiles env args parts cfg appState [] = ret ()"
| "collectGenFiles env args parts cfg appState (i # is) =
     (let cfg0 = cfg\<lparr>RootDir := nodeDir args i, ConfigMoniker := nodeDirName args i\<rparr>;
          genFile = GenesisFile env (nodeDir args i);
          cfg1 = collectConfig args (persistentPeers parts) cfg i in
     bindA (readA Returned (AppGenesisFromFile env genFile)) (\<lambda>appGenesis.
     bindA (readA Returned (GenAppStateFromConfig env cfg0 (chainID args)
               (JoinPath [nodeDir args i, ''config'', ''gentx'']) (nodeIDs parts ! i)
               (valPubKeys parts ! i) appGenesis)) (\<lambda>nodeAppState.
     seqA (updateA (WriteNodeConfig env (JoinPath [nodeDir args i, ''config'', ''config.toml'']) cfg1))
       (let state = (case appState of None \<Rightarrow> nodeAppState | Some st \<Rightarrow> st) in
        seqA (callE Returned (ExportGenesisFileWithTime env genFile (chainID args) state))
             (collectGenFiles env args parts cfg1 (Some state) is)))))"

subsection \<open>The command\<close>

definition emptyParts :: genesisParts where
  "emptyParts = \<lparr>nodeIDs = [], valPubKeys = [], genAccounts = [], genBalances = [], genFiles = [],
                 persistentPeers = '''', gentxsFiles = []\<rparr>"

definition generateRandomString :: "('s, 'kb) testnetCalls \<Rightarrow> nat \<Rightarrow> string" where
  "generateRandomString env n = (let charset = ''abcdefghijklmnopqrstuvwxyz0123456789'' in
     map (\<lambda>i. charset ! RandIntn env i (length charset)) [0..<n])"

text \<open>A negative number of validators panics in the first \<open>make\<close>.\<close>

definition initTestnetFiles ::
    "('s, 'kb) testnetCalls \<Rightarrow> nodeConfig \<Rightarrow> initArgs \<Rightarrow> ('s, string) act" where
  "initTestnetFiles env cfg args0 =
     (let args = (if chainID args0 = '''' then args0\<lparr>chainID := ''chain-'' @ generateRandomString env 6\<rparr>
                  else args0);
          nodes = [0..<nat (numValidators args)];
          cfg1 = (if nodes = [] then cfg else initConfig args cfg (last nodes)) in
     if numValidators args < 0 then fail (Panicked ''runtime error: makeslice: len out of range'')
     else bindA (initNodes env args cfg nodes emptyParts) (\<lambda>parts.
       seqA (initGenFiles env args parts)
      (seqA (copyGentxs env args parts nodes)
      (seqA (collectGenFiles env args parts cfg1 None nodes)
            (ret (''Successfully initialized '' @ FormatInt (numValidators args) @ '' node directories''))))))"

subsection \<open>Ports\<close>

text \<open>The ports a node listens on when no list of ports is given: peers, RPC, proxy, Prometheus, gRPC
  and API.\<close>

definition nodePorts :: "nat \<Rightarrow> int list" where
  "nodePorts i = [26656 - 3 * int i, 26657 - 3 * int i, 26658 - 3 * int i, 26660 + int i,
                  9090 - 2 * int i, 1317 - int i]"

lemma nodePorts_of_config:
  assumes args: "multiNodeArgs env base stakesFlag '''' = Inr args" and i: "i < nat (numValidators args)"
  shows "[P2PListenAddress (collectConfig args peers cfg i), RPCListenAddress (collectConfig args peers cfg i),
          ProxyApp (collectConfig args peers cfg i), PrometheusListenAddr (collectConfig args peers cfg i),
          GRPCAddress (baseAppConfig env args i), APIAddress (baseAppConfig env args i)] =
         map2 (\<lambda>host port. host @ '':'' @ FormatInt port)
           [''tcp://0.0.0.0'', ''tcp://127.0.0.1'', ''tcp://127.0.0.1'', '''', startingIPAddress args,
            ''tcp://localhost''] (nodePorts i)"
proof -
  have "ports args = map (\<lambda>i. FormatInt (26657 - 3 * int i)) [0..<nat (numValidators args)]"
    using args by (cases "parseStakes env (Split1 (CHR '','') stakesFlag)")
      (auto simp: multiNodeArgs_def parsePorts_def)
  then have "portOf args i = FormatInt (26657 - 3 * int i)"
    using i by (simp add: portOf_def)
  then show ?thesis
    by (simp add: collectConfig_def baseAppConfig_def nodePorts_def p2pPort_def)
qed

lemma nodePorts_disjoint:
  assumes "i < 1317" and "j < 1317" and "i \<noteq> j"
  shows "set (nodePorts i) \<inter> set (nodePorts j) = {}"
  using assms by (auto simp: nodePorts_def; presburger)

lemma nodePorts_distinct: "i < 1317 \<Longrightarrow> distinct (nodePorts i)"
  by (auto simp: nodePorts_def)

theorem default_ports_distinct:
  assumes "n \<le> 1317"
  shows "distinct (concat (map nodePorts [0..<n])) \<and>
         list_all (\<lambda>port. 0 < port \<and> port < 65536) (concat (map nodePorts [0..<n]))"
proof
  show "distinct (concat (map nodePorts [0..<n]))"
    using assms
  proof (induction n)
    case (Suc n)
    have "set (nodePorts i) \<inter> set (nodePorts n) = {}" if "i < n" for i
      using that Suc.prems by (intro nodePorts_disjoint) auto
    then have "(\<Union>i<n. set (nodePorts i)) \<inter> set (nodePorts n) = {}"
      by blast
    with Suc nodePorts_distinct [of n] show ?case by (simp add: lessThan_atLeast0)
  qed simp
  show "list_all (\<lambda>port. 0 < port \<and> port < 65536) (concat (map nodePorts [0..<n]))"
    using assms by (auto simp: list_all_iff nodePorts_def)
qed

subsection \<open>The nodes\<close>

text \<open>An amount that is not a number gives its place to the next one.\<close>

lemma skipped_stake_shifts:
  assumes "NewIntFromString env amount = None"
  shows "parseStakes env (amount # amounts) = parseStakes env amounts"
  using assms by simp

text \<open>After the loop every node has its identifier, its key, its genesis file and its genesis
  transaction, so the later loops index within their lists.\<close>

definition partsLength :: "nat \<Rightarrow> genesisParts \<Rightarrow> bool" where
  "partsLength n parts \<longleftrightarrow> length (nodeIDs parts) = n \<and> length (valPubKeys parts) = n \<and>
     length (genAccounts parts) = n \<and> length (genBalances parts) = n \<and> length (genFiles parts) = n \<and>
     length (gentxsFiles parts) = n"

lemma ensures_then: "(\<And>x. ensures (\<lambda>_. True) (f x) Q) \<Longrightarrow> ensures (\<lambda>_. True) (bindA m f) Q"
  by (rule ensures_bindA [where R = "\<lambda>_ _. True"]) (auto simp: ensures_def)

lemma initNode_length:
  assumes "partsLength n parts"
  shows "ensures (\<lambda>_. True) (initNode env args cfg i parts) (\<lambda>parts' _. partsLength (Suc n) parts')"
  unfolding initNode_def Let_def
  using assms
  by (intro ensures_then) (auto simp: partsLength_def intro!: ensures_then action_intros split: prod.split)

lemma initNodes_length:
  assumes "partsLength n parts"
  shows "ensures (\<lambda>_. True) (initNodes env args cfg is parts) (\<lambda>parts' _. partsLength (n + length is) parts')"
  using assms
proof (induction "is" arbitrary: n parts)
  case Nil
  then show ?case by (auto intro: action_intros)
next
  case (Cons i "is")
  have "ensures (\<lambda>_. partsLength (Suc n) parts') (initNodes env args cfg is parts')
          (\<lambda>parts'' _. partsLength (n + length (i # is)) parts'')" for parts'
    using Cons.IH [of "Suc n" parts'] by (auto simp: ensures_def)
  then show ?case
    unfolding initNodes.simps by (rule ensures_bindA [OF initNode_length [OF Cons.prems]])
qed

end
