(* ===== verification/Run_Log.thy ===== *)
theory Run_Log
  imports Runs
begin

text \<open>
  The log line of a run (settlement.go, \<open>logSettlementRunResponse\<close>): the value that is encoded as JSON
  and written to the error output.  The formatted time is an argument; the output itself is not modelled.
\<close>

record runLogEntry =
  le_Event :: string
  le_At :: string
  le_ChainID :: string
  le_DryRun :: bool
  le_Status :: string
  le_OK :: bool
  le_Retryable :: bool
  le_IdempotentReplay :: bool
  le_SignerRole :: string
  le_SignerAddress :: string
  le_SettlementRunID :: string
  le_SourceApp :: string
  le_SourceEventID :: string
  le_RequestedPayoutCount :: nat
  le_RequestedTotalUWolo :: string
  le_FailureCode :: string
  le_RefusalReason :: string
  le_TxHashes :: "string list"

text \<open>The loop over the payouts; \<open>seen\<close> is the set of the hashes collected so far.\<close>

fun collectTxHashes :: "string list \<Rightarrow> settlementRunPayoutResult list \<Rightarrow> string list" where
  "collectTxHashes seen [] = []"
| "collectTxHashes seen (payout # payouts) =
     (let txHash = TrimSpace (pr_TxHash payout) in
      if txHash = '''' then collectTxHashes seen payouts
      else if txHash \<in> set seen then collectTxHashes seen payouts
      else txHash # collectTxHashes (txHash # seen) payouts)"

definition refusalReason :: "settlementRunResponse \<Rightarrow> string" where
  "refusalReason response = (let reason = TrimSpace (rr_FailureCode response) in
     if reason = '''' \<and> \<not> rr_OK response then TrimSpace (rr_Detail response) else reason)"

definition logSettlementRunResponse ::
    "settlementConfig \<Rightarrow> string \<Rightarrow> string \<Rightarrow> settlementRunResponse \<Rightarrow> runLogEntry" where
  "logSettlementRunResponse cfg now event response =
     \<lparr>le_Event = ''settlement_run_'' @ TrimSpace event, le_At = now, le_ChainID = cfg_ChainID cfg,
      le_DryRun = rr_DryRun response, le_Status = rr_Status response, le_OK = rr_OK response,
      le_Retryable = rr_Retryable response, le_IdempotentReplay = rr_IdempotentReplay response,
      le_SignerRole = rr_SignerRole response, le_SignerAddress = rr_SignerAddress response,
      le_SettlementRunID = rr_SettlementRunID response, le_SourceApp = rr_SourceApp response,
      le_SourceEventID = rr_SourceEventID response,
      le_RequestedPayoutCount = rr_RequestedPayoutCount response,
      le_RequestedTotalUWolo = rr_RequestedTotalUWolo response,
      le_FailureCode = rr_FailureCode response, le_RefusalReason = refusalReason response,
      le_TxHashes = collectTxHashes [] (rr_Payouts response)\<rparr>"

text \<open>The log names each transaction of the run once and no other.\<close>

lemma collectTxHashes_set:
  "set (collectTxHashes seen payouts) = {TrimSpace (pr_TxHash p) |p. p \<in> set payouts} - {''''} - set seen"
  by (induction seen payouts rule: collectTxHashes.induct) (auto simp: Let_def)

lemma collectTxHashes_distinct: "distinct (collectTxHashes seen payouts)"
  by (induction seen payouts rule: collectTxHashes.induct) (auto simp: Let_def collectTxHashes_set)

theorem logged_transactions:
  "distinct (le_TxHashes (logSettlementRunResponse cfg now event response)) \<and>
   set (le_TxHashes (logSettlementRunResponse cfg now event response)) =
     {TrimSpace (pr_TxHash p) |p. p \<in> set (rr_Payouts response)} - {''''}"
  by (simp add: logSettlementRunResponse_def collectTxHashes_set collectTxHashes_distinct)

text \<open>A refused run without a failure code is logged with its detail as the reason.\<close>

lemma refused_run_has_reason:
  assumes "\<not> rr_OK response" and "TrimSpace (rr_FailureCode response) \<noteq> '''' \<or> TrimSpace (rr_Detail response) \<noteq> ''''"
  shows "le_RefusalReason (logSettlementRunResponse cfg now event response) \<noteq> ''''"
  using assms by (auto simp: logSettlementRunResponse_def refusalReason_def Let_def)

end
