(* ===== verification/Root.thy ===== *)
theory Root
  imports App_Wiring
begin

text \<open>
  The root command of the node (\<open>root.go\<close>, \<open>config.go\<close> and \<open>commands.go\<close> of \<open>cmd/wolochaind/cmd\<close>, and
  \<open>main.go\<close>): the default server configuration, the client context, what runs before every command,
  the tree of commands, and the start of the program.  The objects of the SDK (codecs, readers, cobra
  commands under execution, modules) are of type parameters; the calls of the SDK are functions of
  \<open>rootCalls\<close>, with the error they return.
\<close>

subsection \<open>The default server configuration\<close>

text \<open>The fields that the program sets or leaves, and the others.\<close>

record 'r serverConfig =
  MinGasPrices :: string
  API_Enable :: bool
  API_Address :: string
  otherSettings :: 'r

definition initCometBFTConfig :: "'t \<Rightarrow> 't" where
  "initCometBFTConfig defaultConfig = defaultConfig"

definition initAppConfig :: "string \<Rightarrow> 'r serverConfig \<Rightarrow> string \<times> 'r serverConfig" where
  "initAppConfig defaultTemplate defaultConfig =
     (let srvCfg = defaultConfig\<lparr>API_Enable := True, API_Address := ''tcp://127.0.0.1:1317''\<rparr>
      in (defaultTemplate, srvCfg))"

subsection \<open>The client context\<close>

record ('o, 'r) clientContext =
  ctxCodec :: "'o option"
  ctxInterfaceRegistry :: "'o option"
  ctxLegacyAmino :: "'o option"
  ctxInput :: "'o option"
  ctxAccountRetriever :: "'o option"
  ctxHomeDir :: string
  ctxViper :: string
  ctxTxConfig :: "'o option"
  ctxCmdContext :: "'o option"
  ctxRest :: 'r

record 'm autoCliOptions =
  autoCliModules :: "(sdkName \<rightharpoonup> 'm) option"

text \<open>
  The constructors of the SDK's commands are named by the function that makes them; the commands of
  this repository and the two groups have constructors of their own.  Only the arguments that the
  program passes on are kept.
\<close>

datatype ('o, 'm) subcommand =
    InitCmd "sdkName \<rightharpoonup> 'm" string
  | NewInPlaceTestnetCmd
  | NewTestnetMultiNodeCmd "sdkName \<rightharpoonup> 'm"
  | SettlementCommand
  | PruningCmd string
  | GenutilCommands "'o option" "sdkName \<rightharpoonup> 'm" string
  | SdkCommand string
  | CommandGroup string "string list" string nat "('o, 'm) subcommand list"

record ('o, 'm) rootCommand =
  cmdUse :: string
  cmdShort :: string
  cmdSilenceErrors :: bool
  cmdCommands :: "('o, 'm) subcommand list"

text \<open>
  The SDK and cobra.  A Go map that is nil is \<^term>\<open>None\<close>; \<open>'k\<close> is a command that is being executed,
  \<open>'t\<close> the configuration of CometBFT.  \<open>Inject\<close> is given the provider of the client context.
\<close>

record ('o, 'r, 'm, 'k, 't) rootCalls =
  zeroContext :: "('o, 'r) clientContext"
  Stdin :: 'o
  AccountRetriever :: 'o
  DefaultNodeHome :: string
  ReadFromClientConfig :: "('o, 'r) clientContext \<Rightarrow> ('o, 'r) clientContext \<times> string option"
  NewGRPCCoinMetadataQueryFn :: "('o, 'r) clientContext \<Rightarrow> 'o"
  NewTxConfigWithOptions :: "'o option \<Rightarrow> 'o \<Rightarrow> 'o \<Rightarrow> string + 'o"
  Inject :: "('o \<Rightarrow> 'o \<Rightarrow> 'o \<Rightarrow> 'o \<Rightarrow> failure + ('o, 'r) clientContext)
    \<Rightarrow> failure + 'm autoCliOptions \<times> (sdkName \<rightharpoonup> 'm) option \<times> ('o, 'r) clientContext"
  ibcModule :: "'o option \<Rightarrow> sdkName \<Rightarrow> 'm"
  CoreAppModuleBasicAdaptor :: "sdkName \<Rightarrow> 'm \<Rightarrow> 'm"
  AddServerCommands :: "string \<Rightarrow> ('o, 'm) subcommand list \<Rightarrow> ('o, 'm) subcommand list"
  EnhanceRootCommand :: "'m autoCliOptions \<Rightarrow> ('o, 'm) rootCommand \<Rightarrow> ('o, 'm) rootCommand \<times> string option"
  OutOrStdout :: "'k \<Rightarrow> 'o"
  ErrOrStderr :: "'k \<Rightarrow> 'o"
  SetOut :: "'o \<Rightarrow> 'k \<Rightarrow> 'k"
  SetErr :: "'o \<Rightarrow> 'k \<Rightarrow> 'k"
  commandContext :: "'k \<Rightarrow> 'o"
  ReadPersistentCommandFlags :: "('o, 'r) clientContext \<Rightarrow> 'k \<Rightarrow> ('o, 'r) clientContext \<times> string option"
  SetCmdClientContextHandler :: "('o, 'r) clientContext \<Rightarrow> 'k \<Rightarrow> 'k \<times> string option"
  DefaultConfigTemplate :: string
  DefaultServerConfig :: "'r serverConfig"
  DefaultCometBFTConfig :: 't
  InterceptConfigsPreRunHandler :: "string \<Rightarrow> 'r serverConfig \<Rightarrow> 't \<Rightarrow> 'k \<Rightarrow> 'k \<times> string option"
  EnvPrefix :: string
  Execute :: "('o, 'm) rootCommand \<Rightarrow> string \<Rightarrow> string \<Rightarrow> string option"

text \<open>
  \<open>ProvideClientContext\<close>: the error of reading the client configuration is dropped; an error of the
  transaction configuration panics.
\<close>

definition ProvideClientContext ::
    "('o, 'r, 'm, 'k, 't) rootCalls \<Rightarrow> 'o \<Rightarrow> 'o \<Rightarrow> 'o \<Rightarrow> 'o \<Rightarrow> failure + ('o, 'r) clientContext" where
  "ProvideClientContext sdk appCodec interfaceRegistry txConfigOpts legacyAmino =
     (let clientCtx = (zeroContext sdk)\<lparr>ctxCodec := Some appCodec, ctxInterfaceRegistry := Some interfaceRegistry,
            ctxLegacyAmino := Some legacyAmino, ctxInput := Some (Stdin sdk),
            ctxAccountRetriever := Some (AccountRetriever sdk), ctxHomeDir := DefaultNodeHome sdk,
            ctxViper := ApplicationName\<rparr>;
          clientCtx = fst (ReadFromClientConfig sdk clientCtx);
          queryFn = NewGRPCCoinMetadataQueryFn sdk clientCtx
      in case NewTxConfigWithOptions sdk (ctxCodec clientCtx) txConfigOpts queryFn of
           Inl err \<Rightarrow> Inl (Panicked err)
         | Inr txConfig \<Rightarrow> Inr (clientCtx\<lparr>ctxTxConfig := Some txConfig\<rparr>))"

subsection \<open>Before every command\<close>

text \<open>
  The captured \<open>clientCtx\<close> and the command are the state.  The first assignment is to the captured
  variable; the contexts read afterwards are in a variable of the function's own scope.
\<close>

definition PersistentPreRunE :: "('o, 'r, 'm, 'k, 't) rootCalls \<Rightarrow> (('o, 'r) clientContext \<times> 'k, unit) act" where
  "PersistentPreRunE sdk =
     seqA (updateA (\<lambda>(captured, cmd). (captured, SetOut sdk (OutOrStdout sdk cmd) cmd)))
    (seqA (updateA (\<lambda>(captured, cmd). (captured, SetErr sdk (ErrOrStderr sdk cmd) cmd)))
    (seqA (updateA (\<lambda>(captured, cmd). (captured\<lparr>ctxCmdContext := Some (commandContext sdk cmd), ctxViper := ApplicationName\<rparr>, cmd)))
    (bindA (callV Returned (\<lambda>(captured, cmd). ((captured, cmd), case ReadPersistentCommandFlags sdk captured cmd of
        (clientCtx, None) \<Rightarrow> Inr clientCtx | (_, Some err) \<Rightarrow> Inl err)))
    (\<lambda>clientCtx. bindA (orElse Returned (case ReadFromClientConfig sdk clientCtx of
        (clientCtx, None) \<Rightarrow> Inr clientCtx | (_, Some err) \<Rightarrow> Inl err))
    (\<lambda>clientCtx. seqA (callE Returned (\<lambda>(captured, cmd). case SetCmdClientContextHandler sdk clientCtx cmd of
        (cmd, err) \<Rightarrow> ((captured, cmd), err)))
    (case initAppConfig (DefaultConfigTemplate sdk) (DefaultServerConfig sdk) of (customAppTemplate, customAppConfig) \<Rightarrow>
       callE Returned (\<lambda>(captured, cmd).
         case InterceptConfigsPreRunHandler sdk customAppTemplate customAppConfig
                (initCometBFTConfig (DefaultCometBFTConfig sdk)) cmd of
           (cmd, err) \<Rightarrow> ((captured, cmd), err))))))))"

subsection \<open>The tree of commands\<close>

definition queryCommand :: "('o, 'm) subcommand" where
  "queryCommand = CommandGroup ''query'' [''q''] ''Querying subcommands'' 2
     [SdkCommand ''rpc.WaitTxCmd'', SdkCommand ''rpc.ValidatorCommand'', SdkCommand ''server.QueryBlockCmd'',
      SdkCommand ''authcmd.QueryTxsByEventsCmd'', SdkCommand ''server.QueryBlocksCmd'', SdkCommand ''authcmd.QueryTxCmd'',
      SdkCommand ''server.QueryBlockResultsCmd'']"

definition txCommand :: "('o, 'm) subcommand" where
  "txCommand = CommandGroup ''tx'' [] ''Transactions subcommands'' 2
     [SdkCommand ''authcmd.GetSignCommand'', SdkCommand ''authcmd.GetSignBatchCommand'', SdkCommand ''authcmd.GetMultiSignCommand'',
      SdkCommand ''authcmd.GetMultiSignBatchCmd'', SdkCommand ''authcmd.GetValidateSignaturesCommand'', SdkCommand ''flags.LineBreak'',
      SdkCommand ''authcmd.GetBroadcastCommand'', SdkCommand ''authcmd.GetEncodeCommand'', SdkCommand ''authcmd.GetDecodeCommand'',
      SdkCommand ''authcmd.GetSimulateCmd'']"

definition initRootCmd :: "('o, 'r, 'm, 'k, 't) rootCalls \<Rightarrow> 'o option \<Rightarrow> (sdkName \<rightharpoonup> 'm)
    \<Rightarrow> ('o, 'm) rootCommand \<Rightarrow> ('o, 'm) rootCommand" where
  "initRootCmd sdk txConfig basicManager rootCmd =
     (let home = DefaultNodeHome sdk;
          commands = cmdCommands rootCmd @ [InitCmd basicManager home, NewInPlaceTestnetCmd, NewTestnetMultiNodeCmd basicManager,
            SettlementCommand, SdkCommand ''debug.Cmd'', SdkCommand ''confixcmd.ConfigCommand'', PruningCmd home, SdkCommand ''snapshot.Cmd''];
          commands = AddServerCommands sdk home commands;
          commands = commands @ [SdkCommand ''server.StatusCommand'', GenutilCommands txConfig basicManager home,
            queryCommand, txCommand, SdkCommand ''keys.Commands'']
      in rootCmd\<lparr>cmdCommands := commands\<rparr>)"

text \<open>\<open>newApp\<close> builds the application on the latest state.\<close>

definition newApp :: "wiringCalls \<Rightarrow> app \<times> (failure + unit)" where
  "newApp env = NewApp env True"

subsection \<open>The root command\<close>

text \<open>An assignment to an entry of a Go map, which panics when the map is nil.\<close>

definition assignEntry :: "'a \<Rightarrow> 'b \<Rightarrow> ('a \<rightharpoonup> 'b) option \<Rightarrow> failure + ('a \<rightharpoonup> 'b) option" where
  "assignEntry k v m = (case m of None \<Rightarrow> Inl (Panicked ''assignment to entry in nil map'') | Some f \<Rightarrow> Inr (Some (f(k \<mapsto> v))))"

text \<open>The loop over the IBC modules, for one order in which Go may visit the map.\<close>

fun addClientModules :: "(sdkName \<Rightarrow> 'm \<Rightarrow> 'm) \<Rightarrow> (sdkName \<times> 'm) list \<Rightarrow> (sdkName \<rightharpoonup> 'm) option \<times> (sdkName \<rightharpoonup> 'm) option
    \<Rightarrow> failure + (sdkName \<rightharpoonup> 'm) option \<times> (sdkName \<rightharpoonup> 'm) option" where
  "addClientModules adaptor [] maps = Inr maps"
| "addClientModules adaptor ((name, module) # rest) (basicManager, cliModules) =
     (case assignEntry name (adaptor name module) basicManager of
        Inl e \<Rightarrow> Inl e
      | Inr basicManager \<Rightarrow> (case assignEntry name module cliModules of
          Inl e \<Rightarrow> Inl e
        | Inr cliModules \<Rightarrow> addClientModules adaptor rest (basicManager, cliModules)))"

definition NewRootCmd :: "('o, 'r, 'm, 'k, 't) rootCalls \<Rightarrow> sdkName list \<Rightarrow> failure + ('o, 'm) rootCommand" where
  "NewRootCmd sdk order =
     (case Inject sdk (ProvideClientContext sdk) of
        Inl (Returned err) \<Rightarrow> Inl (Panicked err)
      | Inl e \<Rightarrow> Inl e
      | Inr (autoCliOpts, moduleBasicManager, clientCtx) \<Rightarrow>
          (let rootCmd = \<lparr>cmdUse = ApplicationName @ ''d'', cmdShort = ''wolochain node'', cmdSilenceErrors = True, cmdCommands = []\<rparr>
           in case addClientModules (CoreAppModuleBasicAdaptor sdk) (map (\<lambda>name. (name, ibcModule sdk (ctxCodec clientCtx) name)) order)
                     (moduleBasicManager, autoCliModules autoCliOpts) of
                Inl e \<Rightarrow> Inl e
              | Inr (basicManager, cliModules) \<Rightarrow>
                  (case EnhanceRootCommand sdk (autoCliOpts\<lparr>autoCliModules := cliModules\<rparr>)
                          (initRootCmd sdk (ctxTxConfig clientCtx) (case basicManager of None \<Rightarrow> Map.empty | Some m \<Rightarrow> m) rootCmd) of
                     (rootCmd, Some err) \<Rightarrow> Inl (Panicked err)
                   | (rootCmd, None) \<Rightarrow> Inr rootCmd)))"

text \<open>
  What the package \<open>app\<close> sets before \<open>main\<close> runs (\<open>init\<close> of \<open>app.go\<close> and of \<open>config.go\<close>):
  \<open>getHome\<close> is the SDK's \<open>GetNodeHomeDirectory\<close>.
\<close>

record appGlobals =
  DefaultBondDenom :: string
  globalEnvPrefix :: string
  globalNodeHome :: string

definition initGlobals :: "(string \<Rightarrow> string + string) \<Rightarrow> failure + appGlobals" where
  "initGlobals getHome = (case getHome ''.wolochain'' of
      Inl err \<Rightarrow> Inl (Panicked err)
    | Inr home \<Rightarrow> Inr \<lparr>DefaultBondDenom = ''uwolo'', globalEnvPrefix = ApplicationName, globalNodeHome = home\<rparr>)"

record sdkConfig =
  coinType :: nat
  prefixForAccount :: "string \<times> string"
  prefixForValidator :: "string \<times> string"
  prefixForConsensusNode :: "string \<times> string"
  isSealed :: bool

definition initPrefixes :: "sdkConfig \<Rightarrow> sdkConfig" where
  "initPrefixes config =
     (let accountPubKeyPrefix = AccountAddressPrefix @ ''pub'';
          validatorAddressPrefix = AccountAddressPrefix @ ''valoper'';
          validatorPubKeyPrefix = AccountAddressPrefix @ ''valoperpub'';
          consNodeAddressPrefix = AccountAddressPrefix @ ''valcons'';
          consNodePubKeyPrefix = AccountAddressPrefix @ ''valconspub''
      in config\<lparr>coinType := 118, prefixForAccount := (AccountAddressPrefix, accountPubKeyPrefix),
           prefixForValidator := (validatorAddressPrefix, validatorPubKeyPrefix),
           prefixForConsensusNode := (consNodeAddressPrefix, consNodePubKeyPrefix), isSealed := True\<rparr>)"

text \<open>\<open>main\<close>: what is printed and the exit code, unless the root command cannot be built.\<close>

definition main :: "('o, 'r, 'm, 'k, 't) rootCalls \<Rightarrow> sdkName list \<Rightarrow> failure + string list \<times> nat" where
  "main sdk order = (case NewRootCmd sdk order of
      Inl e \<Rightarrow> Inl e
    | Inr rootCmd \<Rightarrow> (case Execute sdk rootCmd (EnvPrefix sdk) (DefaultNodeHome sdk) of
        Some err \<Rightarrow> Inr ([err], 1)
      | None \<Rightarrow> Inr ([], 0)))"

text \<open>The program: the package's initialisation, then \<open>main\<close>.\<close>

definition program :: "(string \<Rightarrow> string + string) \<Rightarrow> ('o, 'r, 'm, 'k, 't) rootCalls \<Rightarrow> sdkName list \<Rightarrow> failure + string list \<times> nat" where
  "program getHome sdk order = (case initGlobals getHome of
      Inl e \<Rightarrow> Inl e
    | Inr g \<Rightarrow> main (sdk\<lparr>DefaultNodeHome := globalNodeHome g, EnvPrefix := globalEnvPrefix g\<rparr>) order)"

subsection \<open>API routes\<close>

datatype 'h route = SdkRoute 'h | OpenAPIFile | OpenAPIConsole string string

definition apiFile :: string where
  "apiFile = ''/static/openapi.json''"

definition RegisterOpenAPIService :: "string \<Rightarrow> (string \<times> 'h route) list \<Rightarrow> (string \<times> 'h route) list" where
  "RegisterOpenAPIService appName router = router @ [(apiFile, OpenAPIFile), (''/'', OpenAPIConsole appName apiFile)]"

text \<open>\<open>App.RegisterAPIRoutes\<close>; the routes of the SDK's runtime and its console are arguments.\<close>

definition RegisterAPIRoutes :: "((string \<times> 'h route) list \<Rightarrow> (string \<times> 'h route) list)
    \<Rightarrow> ((string \<times> 'h route) list \<Rightarrow> (string \<times> 'h route) list \<times> string option) \<Rightarrow> ((string \<times> 'h route) list, unit) act" where
  "RegisterAPIRoutes runtimeRoutes registerSwagger =
     seqA (updateA runtimeRoutes)
    (seqA (callE Panicked registerSwagger)
          (updateA (RegisterOpenAPIService ApplicationName)))"

subsection \<open>Properties\<close>

text \<open>The server listens for API requests on the loopback interface; the minimum gas prices stay the SDK's.\<close>

lemma initAppConfig_local:
  "API_Enable (snd (initAppConfig t c))" "API_Address (snd (initAppConfig t c)) = ''tcp://127.0.0.1:1317''"
  "MinGasPrices (snd (initAppConfig t c)) = MinGasPrices c"
  by (simp_all add: initAppConfig_def)

text \<open>
  Whatever the outcome, the captured context keeps everything but the command's context and the prefix:
  flags and settings read for one command do not reach another.
\<close>

theorem preRun_keeps_context:
  "fst (fst (PersistentPreRunE sdk (captured, cmd))) = captured\<lparr>ctxCmdContext := Some
     (commandContext sdk (let cmd' = SetOut sdk (OutOrStdout sdk cmd) cmd in SetErr sdk (ErrOrStderr sdk cmd') cmd')), ctxViper := ApplicationName\<rparr>"
  by (simp add: PersistentPreRunE_def action_defs Let_def split: prod.splits option.splits sum.splits)

text \<open>An error of the flags leaves the command as it was, but for its writers.\<close>

theorem preRun_flag_error:
  assumes "\<And>ctx k. ReadPersistentCommandFlags sdk ctx k = (ctx, Some err)"
  shows "snd (PersistentPreRunE sdk (captured, cmd)) = Inl (Returned err)"
    and "snd (fst (PersistentPreRunE sdk (captured, cmd))) =
      (let cmd' = SetOut sdk (OutOrStdout sdk cmd) cmd in SetErr sdk (ErrOrStderr sdk cmd') cmd')"
  by (simp_all add: PersistentPreRunE_def action_defs assms Let_def)

text \<open>The loop over the IBC modules in closed form: both maps get every module.\<close>

lemma addClientModules_all:
  "addClientModules adaptor ms (Some b, Some c) =
     Inr (Some (b ++ map_of (rev (map (\<lambda>(name, m). (name, adaptor name m)) ms))), Some (c ++ map_of (rev ms)))"
  by (induction ms arbitrary: b c) (auto simp: assignEntry_def map_add_def fun_eq_iff split: option.splits)

text \<open>
  The order in which Go visits the map of IBC modules does not matter: any order of distinct names
  gives the same root command.
\<close>

lemma map_of_order:
  assumes "distinct (map fst xs)" and "set ys = set xs" and "distinct (map fst ys)"
  shows "map_of (rev ys) = map_of (rev xs)"
proof -
  have "distinct (map fst (rev xs))" "distinct (map fst (rev ys))" using assms by (simp_all add: rev_map [symmetric])
  then show ?thesis using assms(2) map_of_inject_set [of "rev ys" "rev xs"] by simp
qed

lemma addClientModules_order:
  fixes f :: "sdkName \<Rightarrow> 'a" and adaptor :: "sdkName \<Rightarrow> 'a \<Rightarrow> 'a"
  assumes "distinct order" and "distinct order'" and "set order' = set order" and "order \<noteq> []"
  shows "addClientModules adaptor (map (\<lambda>n. (n, f n)) order') maps = addClientModules adaptor (map (\<lambda>n. (n, f n)) order) maps"
proof (cases "fst maps = None \<or> snd maps = None")
  case True
  obtain b c where maps: "maps = (b, c)" by (cases maps)
  have "order' \<noteq> []" using assms(3,4) by auto
  then show ?thesis using True assms(4) maps by (cases order; cases order') (auto simp: assignEntry_def split: option.splits)
next
  case False
  then obtain b c where maps: "maps = (Some b, Some c)" by (cases maps) auto
  have same: "map_of (rev (map (\<lambda>n. (n, g n)) order')) = map_of (rev (map (\<lambda>n. (n, g n)) order))" for g :: "sdkName \<Rightarrow> 'a"
    by (rule map_of_order) (use assms in \<open>simp_all add: comp_def\<close>)
  have "map_of (rev (map (\<lambda>n. (n, f n)) order')) = map_of (rev (map (\<lambda>n. (n, f n)) order))" by (rule same)
  moreover have "map_of (rev (map (\<lambda>n. (n, adaptor n (f n))) order')) = map_of (rev (map (\<lambda>n. (n, adaptor n (f n))) order))" by (rule same)
  ultimately show ?thesis by (simp add: maps addClientModules_all comp_def)
qed

theorem NewRootCmd_order:
  assumes "distinct order" and "set order = set RegisterIBC"
  shows "NewRootCmd sdk order = NewRootCmd sdk RegisterIBC"
proof -
  have "distinct RegisterIBC" "RegisterIBC \<noteq> []" by (simp_all add: RegisterIBC_def)
  note same = addClientModules_order [OF this(1) assms this(2)]
  show ?thesis unfolding NewRootCmd_def same ..
qed

text \<open>
  The root command that is built offers the settlement commands, the in-place testnet and the query and transaction groups, as long as
  the SDK only adds commands to it.
\<close>

lemma NewRootCmd_built:
  assumes "NewRootCmd sdk order = Inr rootCmd"
  obtains opts txConfig manager where "rootCmd = fst (EnhanceRootCommand sdk opts (initRootCmd sdk txConfig manager
      \<lparr>cmdUse = ApplicationName @ ''d'', cmdShort = ''wolochain node'', cmdSilenceErrors = True, cmdCommands = []\<rparr>))"
proof (cases "Inject sdk (ProvideClientContext sdk)")
  case (Inl e)
  then show thesis using assms by (cases e) (simp_all add: NewRootCmd_def)
next
  case (Inr injected)
  obtain autoCliOpts moduleBasicManager clientCtx where parts: "injected = (autoCliOpts, moduleBasicManager, clientCtx)"
    by (cases injected)
  let ?c0 = "\<lparr>cmdUse = ApplicationName @ ''d'', cmdShort = ''wolochain node'', cmdSilenceErrors = True, cmdCommands = []\<rparr>"
  let ?loop = "addClientModules (CoreAppModuleBasicAdaptor sdk) (map (\<lambda>name. (name, ibcModule sdk (ctxCodec clientCtx) name)) order)
    (moduleBasicManager, autoCliModules autoCliOpts)"
  obtain basicManager cliModules where loop: "?loop = Inr (basicManager, cliModules)"
    using assms unfolding NewRootCmd_def Inr parts by (cases ?loop) (auto simp: Let_def)
  let ?opts = "autoCliOpts\<lparr>autoCliModules := cliModules\<rparr>"
  let ?cmd = "initRootCmd sdk (ctxTxConfig clientCtx) (case basicManager of None \<Rightarrow> Map.empty | Some m \<Rightarrow> m) ?c0"
  obtain enhanced err where enhanced: "EnhanceRootCommand sdk ?opts ?cmd = (enhanced, err)"
    by (cases "EnhanceRootCommand sdk ?opts ?cmd")
  have "rootCmd = enhanced"
    using assms unfolding NewRootCmd_def Inr parts by (cases err) (simp_all add: Let_def loop enhanced)
  then have "rootCmd = fst (EnhanceRootCommand sdk ?opts ?cmd)" by (simp add: enhanced)
  then show thesis by (rule that)
qed

theorem root_offers_settlement:
  assumes root: "NewRootCmd sdk order = Inr rootCmd"
    and server: "\<And>home cs. set cs \<subseteq> set (AddServerCommands sdk home cs)"
    and enhance: "\<And>opts c. set (cmdCommands c) \<subseteq> set (cmdCommands (fst (EnhanceRootCommand sdk opts c)))"
  shows "{SettlementCommand, NewInPlaceTestnetCmd, queryCommand, txCommand} \<subseteq> set (cmdCommands rootCmd)"
proof -
  let ?c0 = "\<lparr>cmdUse = ApplicationName @ ''d'', cmdShort = ''wolochain node'', cmdSilenceErrors = True, cmdCommands = []\<rparr>"
  obtain opts txConfig manager where built: "rootCmd = fst (EnhanceRootCommand sdk opts (initRootCmd sdk txConfig manager ?c0))"
    by (rule NewRootCmd_built [OF root])
  have "{SettlementCommand, NewInPlaceTestnetCmd, queryCommand, txCommand} \<subseteq> set (cmdCommands (initRootCmd sdk txConfig manager ?c0))"
    using server [of "[InitCmd manager (DefaultNodeHome sdk), NewInPlaceTestnetCmd, NewTestnetMultiNodeCmd manager,
            SettlementCommand, SdkCommand ''debug.Cmd'', SdkCommand ''confixcmd.ConfigCommand'', PruningCmd (DefaultNodeHome sdk),
            SdkCommand ''snapshot.Cmd'']" "DefaultNodeHome sdk"]
    by (simp add: initRootCmd_def Let_def)
  also have "\<dots> \<subseteq> set (cmdCommands rootCmd)" unfolding built by (rule enhance)
  finally show ?thesis .
qed

text \<open>A panic of the SDK's console is the only failure, and the console of the node's own API comes last.\<close>

lemma api_routes:
  assumes "RegisterAPIRoutes runtimeRoutes registerSwagger rs = (rs', Inr ())"
  shows "\<exists>rest. rs' = rest @ [(apiFile, OpenAPIFile), (''/'', OpenAPIConsole ApplicationName apiFile)]"
  using assms by (auto simp: RegisterAPIRoutes_def RegisterOpenAPIService_def action_defs split: option.splits prod.splits sum.splits)

end
