(* ===== verification/Module_Interface.thy ===== *)
theory Module_Interface
  imports Keeper
begin

text \<open>
  The module object of \<open>x/wolochain\<close> as the SDK sees it (\<open>module.go\<close>, \<open>autocli.go\<close>, \<open>simulation.go\<close> and
  \<open>types/codec.go\<close>): its services, message types and gateway routes, the descriptors of its commands, and
  the genesis state of a simulation.  A registrar is what has been registered with it.
\<close>

subsection \<open>The module object\<close>

record ('c, 'a, 'b) AppModule =
  moduleCodec :: 'c
  moduleKeeper :: Keeper
  moduleAuthKeeper :: 'a
  moduleBankKeeper :: 'b

definition NewAppModule :: "'c \<Rightarrow> Keeper \<Rightarrow> 'a \<Rightarrow> 'b \<Rightarrow> ('c, 'a, 'b) AppModule" where
  "NewAppModule cdc keeper authKeeper bankKeeper =
     \<lparr>moduleCodec = cdc, moduleKeeper = keeper, moduleAuthKeeper = authKeeper, moduleBankKeeper = bankKeeper\<rparr>"

definition AppModuleName :: "('c, 'a, 'b) AppModule \<Rightarrow> string" where
  "AppModuleName am = ModuleName"

definition ConsensusVersion :: "('c, 'a, 'b) AppModule \<Rightarrow> nat" where
  "ConsensusVersion am = 1"

text \<open>The servers made of a keeper, by the service that they implement.\<close>

datatype service = MsgServer Keeper | QueryServer Keeper

definition NewMsgServerImpl :: "Keeper \<Rightarrow> service" where
  "NewMsgServerImpl k = MsgServer k"

definition NewQueryServerImpl :: "Keeper \<Rightarrow> service" where
  "NewQueryServerImpl k = QueryServer k"

definition RegisterServices :: "('c, 'a, 'b) AppModule \<Rightarrow> service list \<Rightarrow> service list \<times> string option" where
  "RegisterServices am registrar =
     (registrar @ [NewMsgServerImpl (moduleKeeper am), NewQueryServerImpl (moduleKeeper am)], None)"

text \<open>
  The names of the generated service descriptors, \<open>msgDesc\<close> and \<open>queryDesc\<close>, are arguments, and so is the
  outcome of registering the gateway's handlers.
\<close>

record interfaceRegistry =
  implementations :: "(string \<times> string) list"
  serviceDescs :: "string list"

definition RegisterInterfaces :: "string \<Rightarrow> interfaceRegistry \<Rightarrow> interfaceRegistry" where
  "RegisterInterfaces msgDesc registrar =
     (let registrar = registrar\<lparr>implementations := implementations registrar @ [(''sdk.Msg'', ''MsgUpdateParams'')]\<rparr>
      in registrar\<lparr>serviceDescs := serviceDescs registrar @ [msgDesc]\<rparr>)"

definition RegisterGRPCGatewayRoutes :: "('m \<Rightarrow> 'm \<times> string option) \<Rightarrow> ('m, unit) act" where
  "RegisterGRPCGatewayRoutes registerQueryHandlerClient = callE Panicked registerQueryHandlerClient"

subsection \<open>Commands\<close>

record rpcCommandOptions =
  RpcMethod :: string
  RpcUse :: string
  RpcShort :: string
  RpcSkip :: bool

record serviceCommandDescriptor =
  DescService :: string
  EnhanceCustomCommand :: bool
  RpcCommandOptions :: "rpcCommandOptions list"

definition AutoCLIOptions :: "string \<Rightarrow> string \<Rightarrow> serviceCommandDescriptor \<times> serviceCommandDescriptor" where
  "AutoCLIOptions queryDesc msgDesc =
     (\<lparr>DescService = queryDesc, EnhanceCustomCommand = False, RpcCommandOptions =
        [\<lparr>RpcMethod = ''Params'', RpcUse = ''params'', RpcShort = ''Shows the parameters of the module'', RpcSkip = False\<rparr>]\<rparr>,
      \<lparr>DescService = msgDesc, EnhanceCustomCommand = True, RpcCommandOptions =
        [\<lparr>RpcMethod = ''UpdateParams'', RpcUse = '''', RpcShort = '''', RpcSkip = True\<rparr>]\<rparr>)"

text \<open>The methods that become commands.\<close>

definition offeredMethods :: "serviceCommandDescriptor \<Rightarrow> string list" where
  "offeredMethods d = map RpcMethod (filter (\<lambda>o'. \<not> RpcSkip o') (RpcCommandOptions d))"

subsection \<open>Simulation\<close>

text \<open>
  The genesis state of a simulation: \<open>MustMarshalJSON\<close> panics when encoding fails, the assignment when
  the map is nil.  The addresses of the accounts are collected and not used.
\<close>

definition GenerateGenesisState :: "jsonCodec \<Rightarrow> (string \<rightharpoonup> string) option \<Rightarrow> failure + (string \<rightharpoonup> string)" where
  "GenerateGenesisState cdc genState =
     (let wolochainGenesis = \<lparr>GenesisParams = DefaultParams\<rparr>
      in case MarshalJSON cdc wolochainGenesis of
           Inl e \<Rightarrow> Inl (Panicked e)
         | Inr bz \<Rightarrow> (case genState of
             None \<Rightarrow> Inl (Panicked ''assignment to entry in nil map'')
           | Some m \<Rightarrow> Inr (m(ModuleName \<mapsto> bz))))"

definition WeightedOperations :: "'s \<Rightarrow> 'w list" where
  "WeightedOperations simState = []"

definition ProposalMsgs :: "'s \<Rightarrow> 'w list" where
  "ProposalMsgs simState = []"

subsection \<open>Properties\<close>

text \<open>Both services answer from the module's own keeper.\<close>

theorem services_share_keeper:
  "fst (RegisterServices (NewAppModule cdc k ak bk) registrar) = registrar @ [MsgServer k, QueryServer k]"
  by (simp add: RegisterServices_def NewAppModule_def NewMsgServerImpl_def NewQueryServerImpl_def)

text \<open>The parameters can be queried from the command line; the message that governance alone may send is not offered.\<close>

theorem update_not_offered:
  "offeredMethods (fst (AutoCLIOptions q m)) = [''Params'']" "offeredMethods (snd (AutoCLIOptions q m)) = []"
  by (simp_all add: AutoCLIOptions_def offeredMethods_def)

text \<open>
  The genesis state of a simulation passes the module's validation and is the default genesis, and the
  entries of the other modules stay.
\<close>

theorem simulated_genesis_valid:
  assumes json: "\<And>gs bz. MarshalJSON cdc gs = Inr bz \<Longrightarrow> UnmarshalJSON cdc bz = Inr gs"
    and gen: "GenerateGenesisState cdc genState = Inr m"
  shows "\<exists>bz. m ModuleName = Some bz \<and> ModuleDefaultGenesis cdc = Inr bz \<and> ModuleValidateGenesis cdc bz = None"
    and "name \<noteq> ModuleName \<Longrightarrow> genState = Some m0 \<Longrightarrow> m name = m0 name"
proof -
  obtain bz where bz: "MarshalJSON cdc \<lparr>GenesisParams = DefaultParams\<rparr> = Inr bz" "m ModuleName = Some bz"
    using gen by (auto simp: GenerateGenesisState_def Let_def split: sum.splits option.splits)
  show "\<exists>bz. m ModuleName = Some bz \<and> ModuleDefaultGenesis cdc = Inr bz \<and> ModuleValidateGenesis cdc bz = None"
    using bz json [OF bz(1)]
    by (simp add: ModuleDefaultGenesis_def DefaultGenesis_def ModuleValidateGenesis_def GenesisValidate_def ParamsValidate_def)
  show "name \<noteq> ModuleName \<Longrightarrow> genState = Some m0 \<Longrightarrow> m name = m0 name"
    using gen by (auto simp: GenerateGenesisState_def Let_def split: sum.splits)
qed

end
