(* ===== verification/Spec2Isabelle.thy ===== *)
theory Spec2Isabelle
  imports Rail_Properties Run_Properties Request_Properties Chain_Properties Locks Challenge_Sample
    Recovery Service_Properties Audit_Sample Funding_Properties Keeper Genesis_Account Export App_Wiring
    Testnet Multi_Node Run_Log Run_Settled Root Module_Interface
begin

text \<open>
  Verification of WoloChain: its settlement rail, its chain module and its application.

  \<^bold>\<open>The program.\<close>  WoloChain is a Cosmos SDK chain.  Its own logic is the settlement rail of the node
  binary, under src/cmd/wolochaind/cmd: settlement.go (single payouts, grouped runs, look-up and
  escrow deposits, record files, HTTP service, commands, configuration), settlement_challenge.go
  (challenges funded by escrow deposits with a memo convention, and their settlement through a grouped
  run) and settlement_challenge_audit.go (the audit of a settled challenge).  A request names an
  amount and an address under a request id; the rail checks the chain and the balance of its signer,
  runs \<open>wolochaind tx bank send\<close>, waits for the transaction and records the outcome in a JSON file named by the id.  A run
  is a list of such requests under a run id, a challenge settlement adds the verification of the
  deposits that fund it, an allocation of the transfers to the deposits' buckets, and an escrow top-up of the payout account.
  Lock files keep two processes from working on the same id.  Beside the rail the repository has the
  scaffolded chain module under src/x/wolochain, the application under src/app (configuration, wiring,
  export) and the testnet commands.

  \<^bold>\<open>The model.\<close>  Stateful code is a function in the state monad of HOL-Library.  Its state \<open>world\<close>
  (theory Store) holds the record files and lock files as maps from paths, the list of issued \<open>tx bank send\<close>
  commands, and the state \<open>'c\<close> of everything outside.  Paths are joined and cleaned as \<open>filepath.Join\<close> does, and
  requests, runs and challenges share the one map of record files: the id of a run or of a challenge is part of a path before it is
  validated, so an id with dot-dot elements can name the record of a request, which is then read as a record of that kind.  What is outside is a parameter: the record \<open>env\<close> has one function
  for each endpoint and command the code calls (the RPC and REST queries, the keyring command, the bank-send command, sleeping),
  for the clock, the file errors, the hashes of requests and the decoding of the broadcast's output; each may change \<open>'c\<close>.
  The records \<open>osEnv\<close> (environment variables, home directory, executable) and \<open>httpRequest\<close> (method, path, query, header and decoded bodies)
  and the listing of a directory are arguments in the same way.  Go structs are records with the Go field order and a zero value each; \<open>uint64\<close>
  is \<open>64 word\<close>, so sums wrap as in Go; a Go error is \<open>Inl\<close> or \<open>Some\<close>, an early return a branch; a nil pointer is \<open>None\<close>;
  a panic of a slice expression is \<open>None\<close> of the list functions and \<open>Panicked\<close> of the service.

  \<^bold>\<open>Theories and sources.\<close>
  \<^item> GoLib: the string, number and URL functions of the Go standard library that the code uses, evaluation rules (\<open>go_eval\<close>) and
    monad rules shared by all theories.
  \<^item> Paths: \<open>filepath.Clean\<close> and \<open>filepath.Join\<close>, and which names keep a file in its directory.
  \<^item> Settlement_Types, Challenge_Types, Audit_Types, Report_Types: the structs of the three files.
  \<^item> Requests: patterns, normalisation and amounts (settlement.go 3491--3560, 4335--4365, 4636--4700).
  \<^item> Chain: RPC and REST queries, transaction look-up, escrow deposits (2717--3290, 4282--4390).
  \<^item> Health: reserve and capacity checks, health report, serving guard (1609--1810).
  \<^item> Config: \<open>loadSettlementConfig\<close> and its helpers (1524--1607, 4712--4760).
  \<^item> Store: record and lock files (3275--3363, 4391--4452), a lock file as the separate calls that open it, look at its age
    and remove it; the locale \<open>record_store\<close> states what reading after writing gives and is
    interpreted for the three kinds of records.
  \<^item> Payout: preflight, broadcast, confirmation and the idempotent execution of one request, for the payout and for the escrow signer; both
    are one body, and the locale \<open>transfer_rail\<close>, interpreted for both, carries its lemmas.
  \<^item> Runs, Run_Log: grouped runs (1906--2487, 3560--4057) and the entry logged for a run (4515--4581).
  \<^item> Funding, Challenge_Plan, Challenge: funding memos and their verification, the plan of a challenge settlement, its top-up and
    execution (settlement_challenge.go).
  \<^item> Challenge_Audit: the audit (settlement_challenge_audit.go).
  \<^item> Reports: summaries, filters and recent lists (settlement.go 3365--3461, 4058--4234; settlement_challenge.go 2476--2621).
  \<^item> Service, Commands: the HTTP handler with its status codes, and the command bodies (settlement.go 597--1522).

  \<^item> Actions: calls of the SDK as actions on a store of any type that end with a value, a returned error, a panic or an exit, with
    the rules that carry a property of the store through them; Staking_Types: the staking values the node's code builds.
  \<^item> Keeper, Module_Interface: the module x/wolochain (keeper, message and query server, genesis, \<open>ProvideModule\<close>; what it
    registers with the SDK, the descriptors of its commands, the genesis of a simulation).
  \<^item> App_Config, App_Wiring: the modules, hook orders and module accounts of app_config.go; \<open>New\<close>, \<open>registerIBCModules\<close>
    and \<open>appExport\<close>.
  \<^item> Root: root.go, config.go, commands.go and main.go (server configuration, client context, what runs before every command,
    the tree of commands, the start of the program), the initialisation of src/app and the API routes with docs.go.
  \<^item> Export, Genesis_Account: export.go with the restart at height zero, and genesis_account.go.
  \<^item> Testnet, Multi_Node: testnet.go and testnet_multi_node.go.

  In these theories the keepers, codecs, the keyring and the file system, which belong to the SDK, are records of calls, and what
  the code relies on of them (a stored validator is read back, the calls of other modules leave the validators alone) is a named hypothesis.

  \<^bold>\<open>Lemmas and properties.\<close>
  \<^item> Idempotency and Rail_Properties: a request id is paid at most once over any sequence of calls, replayed when settled, refused when
    reused with another payload; a payment is backed by the balance reported for the address of its own key (\<open>signerBalance\<close>, theory Health), which covers amount
    and reserve; the confirmation loop ends.
    Two ways the code pays twice or reports a payment as rejected are proved as such.
  \<^item> Recovery: a payout called while the RPC endpoint is out is issued once the node is back, exactly once; after an outage of the
    REST endpoint it is never issued (\<open>rest_outage_loses_payout\<close>).
  \<^item> Run_Lemmas and Run_Properties: a run pays its lines once, only when covered by its own signer, and its counters and totals
    are those of its lines; the record of a refused run can block a request.  Run_Settled: a run that
    reports success has a settled record for every requested line; the locale \<open>executing_rail\<close> extends \<open>transfer_rail\<close> by what a
    status \<open>confirmed\<close> or \<open>accepted\<close> of a response says, and is interpreted for both signers.
  \<^item> Request_Properties, Chain_Properties, Locks: normalisation, identifiers, capacity checks, coins, deposits; exclusion by lock
    files as an inductive step relation in which every call of every process on the file is a step, with the traces in which it fails
    (an overrun of the time-to-live, and two processes that find the same stale lock, \<open>stale_lock_admits_two\<close>).
  \<^item> Challenge_Lemmas, Challenge_Execution, Challenge_Properties, Funding_Properties: what a verified deposit proves, that
    the transfers of a validated settlement add up to the deposits, that only planned transfers are sent, replay and blocking of
    settlement ids, and that the list of recent deposits is the filtered list.
  \<^item> Read_Only and Audit_Properties: operations that only read, closed under composition; what an audit that reports \<open>ok\<close> has established.
  \<^item> Ledger and Service_Properties: an abstract payment ledger as an inductive step relation, and that the HTTP handler and every
    command refine it, up to records of requests that the id of a run or of a challenge names; authentication of the service; well-formed configurations.
  \<^item> Keeper, Export, App_Config, App_Wiring, Testnet, Multi_Node: only governance changes the module's parameters; which validators
    an export for a restart jails; the hook orders that the comments of the configuration require, the accounts that may mint or receive, the
    store and authority of every IBC keeper, and that the module x/wolochain is not part of the application; an in-place testnet
    removes every old validator and never starts without accounts; the ports of a testnet are distinct and its later loops index within their lists.
  \<^item> Root, Module_Interface: what is read for one command does not reach another, the order of the client's modules does not matter,
    the settlement commands are offered; the services share the module's keeper and the simulated genesis is valid.
  \<^item> Sample, Challenge_Sample, Audit_Sample: a concrete chain, configuration, challenge and audit on which the hypotheses of the properties hold.

  \<^bold>\<open>Bounds.\<close>  The only loop without a structural bound is the confirmation loop; \<open>confirmRounds\<close> gives it the
  number of sleeps that fit the timeout, which is enough for every clock that the sleeps advance (property
  \<open>confirmation_rounds_enough\<close>).  In the operations, which are sequential, two rounds of \<open>lockRounds\<close> take over a
  stale lock, whatever more rounds would do (\<open>lockRounds_enough\<close>); theory Locks has no such bound and interleaves the calls of processes.

  \<^bold>\<open>Not modelled.\<close>  JSON encoding and decoding (apart from the fields that records of different kinds share), file modes, the temporary
  file of a write, the failure to remove a lock file, the output
  of log lines, cobra flag wiring and listening on a socket: input and output around the modelled operations.  The
  accessors of the application return private fields.  The code generated from the protobuf files is a library the module calls.
\<close>

end
